(* ===== verification/Prelude.thy ===== *)
theory Prelude
  imports Main "HOL-Library.Sublist" "HOL-Library.List_Lexorder" "HOL-Library.Char_ord"
    "HOL-Library.Multiset"
begin

text \<open>
  Shared vocabulary of the development: the string operations of Python that the code uses (\<open>startswith\<close>, \<open>endswith\<close>, \<open>strip\<close>,
  \<open>split\<close>, \<open>partition\<close>, \<open>join\<close>, \<open>replace\<close>, negative slices), and generic lemmas on lists and
  maps.  A Python \<open>str\<close> is a char list (code points below 256); \<open>sorted\<close> on strings is \<open>sort\<close>
  with the lexicographic order of \<open>HOL-Library.List_Lexorder\<close>, which is the order of code points.
\<close>

named_theorems str_simps \<open>executable string operations, unfolded\<close>

subsection \<open>Python string operations\<close>

definition startswith :: "string \<Rightarrow> string \<Rightarrow> bool" where
  "startswith s p = (take (length p) s = p)"

definition endswith :: "string \<Rightarrow> string \<Rightarrow> bool" where
  "endswith s p = startswith (rev s) (rev p)"

lemma startswith_iff: "startswith s p \<longleftrightarrow> (\<exists>t. s = p @ t)"
  unfolding startswith_def by (metis append_eq_conv_conj append_take_drop_id)

lemma startswith_append [simp]: "startswith (p @ t) p"
  by (simp add: startswith_def)

lemma startswith_Nil [simp]: "startswith s []"
  by (simp add: startswith_def)

lemma startswith_trans: "startswith s p \<Longrightarrow> startswith p q \<Longrightarrow> startswith s q"
  by (auto simp: startswith_iff)

text \<open>The characters \<open>str.strip()\<close> removes, among the code points below 256.\<close>

definition is_space :: "char \<Rightarrow> bool" where
  "is_space c = (let n = of_char c :: nat in
     (9 \<le> n \<and> n \<le> 13) \<or> (28 \<le> n \<and> n \<le> 32) \<or> n = 133 \<or> n = 160)"

definition lstrip :: "string \<Rightarrow> string" where
  "lstrip s = dropWhile is_space s"

definition rstrip :: "string \<Rightarrow> string" where
  "rstrip s = rev (dropWhile is_space (rev s))"

definition strip :: "string \<Rightarrow> string" where
  "strip s = rstrip (lstrip s)"

text \<open>\<open>s.rstrip(c)\<close> for one character.\<close>

definition rstrip_char :: "char \<Rightarrow> string \<Rightarrow> string" where
  "rstrip_char c s = rev (dropWhile (\<lambda>d. d = c) (rev s))"

text \<open>\<open>s.split(c)\<close> for one character; never empty.\<close>

fun split_on :: "char \<Rightarrow> string \<Rightarrow> string list" where
  "split_on c [] = [[]]"
| "split_on c (x # xs) =
     (if x = c then [] # split_on c xs
      else (case split_on c xs of [] \<Rightarrow> [[x]] | p # ps \<Rightarrow> (x # p) # ps))"

fun join_with :: "string \<Rightarrow> string list \<Rightarrow> string" where
  "join_with sep [] = []"
| "join_with sep [x] = x"
| "join_with sep (x # y # zs) = x @ sep @ join_with sep (y # zs)"

text \<open>\<open>s.partition(c)\<close> for one character.\<close>

definition partition_at :: "char \<Rightarrow> string \<Rightarrow> string \<times> string \<times> string" where
  "partition_at c s =
     (let h = takeWhile (\<lambda>x. x \<noteq> c) s; t = dropWhile (\<lambda>x. x \<noteq> c) s
      in case t of [] \<Rightarrow> (s, [], []) | x # r \<Rightarrow> (h, [x], r))"

definition replace_char :: "char \<Rightarrow> char \<Rightarrow> string \<Rightarrow> string" where
  "replace_char a b s = map (\<lambda>x. if x = a then b else x) s"

text \<open>\<open>sub in s\<close> for strings.\<close>

fun contains_sub :: "string \<Rightarrow> string \<Rightarrow> bool" where
  "contains_sub [] sub = (sub = [])"
| "contains_sub (x # xs) sub = (startswith (x # xs) sub \<or> contains_sub xs sub)"

text \<open>\<open>s[-n:]\<close>, for a positive \<open>n\<close>.\<close>

definition last_chars :: "nat \<Rightarrow> string \<Rightarrow> string" where
  "last_chars n s = drop (length s - n) s"

lemma length_last_chars [simp]: "length (last_chars n s) = min n (length s)"
  by (simp add: last_chars_def)

lemma last_chars_suffix: "\<exists>p. s = p @ last_chars n s"
  unfolding last_chars_def by (metis append_take_drop_id)

lemma split_on_not_Nil [simp]: "split_on c s \<noteq> []"
  by (induction s) (auto split: list.splits)

lemma split_on_no_sep: "p \<in> set (split_on c s) \<Longrightarrow> c \<notin> set p"
proof (induction s arbitrary: p)
  case Nil
  then show ?case by simp
next
  case (Cons x xs)
  obtain q qs where q: "split_on c xs = q # qs"
    by (cases "split_on c xs") auto
  with Cons show ?case by (fastforce split: if_splits)
qed

lemma split_on_subset: "p \<in> set (split_on c s) \<Longrightarrow> set p \<subseteq> set s"
proof (induction s arbitrary: p)
  case (Cons x xs)
  obtain q qs where q: "split_on c xs = q # qs"
    by (cases "split_on c xs") auto
  with Cons.IH have "set q \<subseteq> set xs" and "\<forall>r \<in> set qs. set r \<subseteq> set xs"
    by simp_all
  with Cons.prems q show ?case by (auto split: if_splits)
qed simp

lemma set_join_with: "set (join_with sep cs) \<subseteq> set sep \<union> \<Union> (set ` set cs)"
proof (induction cs)
  case (Cons c cs)
  then show ?case by (cases cs) auto
qed simp

lemma join_split_on: "join_with [c] (split_on c s) = s"
proof (induction s)
  case Nil
  then show ?case by simp
next
  case (Cons x xs)
  obtain q qs where q: "split_on c xs = q # qs"
    by (cases "split_on c xs") auto
  with Cons show ?case by (cases qs) auto
qed

lemma split_on_single: "c \<notin> set s \<Longrightarrow> split_on c s = [s]"
  by (induction s) auto

lemma split_on_append_sep:
  "split_on c (s @ c # t) = split_on c s @ split_on c t"
proof (induction s)
  case Nil
  then show ?case by simp
next
  case (Cons x xs)
  obtain q qs where "split_on c xs = q # qs"
    by (cases "split_on c xs") auto
  with Cons show ?case by auto
qed

lemma split_join:
  assumes "ps \<noteq> []" and "\<forall>p \<in> set ps. c \<notin> set p"
  shows "split_on c (join_with [c] ps) = ps"
  using assms
proof (induction ps)
  case (Cons p ps)
  then show ?case
    by (cases ps) (simp_all add: split_on_append_sep split_on_single)
qed simp

lemma strip_no_leading: "strip s = [] \<or> \<not> is_space (hd (strip s))"
proof (cases "strip s")
  case (Cons a as)
  have "suffix (rstrip (lstrip s)) (rstrip (lstrip s))" by simp
  have "prefix (rstrip (lstrip s)) (lstrip s)"
    unfolding rstrip_def prefix_def
    by (metis rev_append rev_rev_ident takeWhile_dropWhile_id)
  with Cons have "lstrip s \<noteq> []" and "hd (lstrip s) = a"
    by (auto simp: strip_def prefix_def)
  then have "\<not> is_space a"
    unfolding lstrip_def by (metis hd_dropWhile)
  with Cons show ?thesis by simp
qed simp

lemma rstrip_no_trailing: "rstrip s \<noteq> [] \<Longrightarrow> \<not> is_space (last (rstrip s))"
  unfolding rstrip_def by (metis hd_dropWhile last_rev rev_is_Nil_conv)

lemma strip_no_trailing: "strip s \<noteq> [] \<Longrightarrow> \<not> is_space (last (strip s))"
  unfolding strip_def by (rule rstrip_no_trailing)

lemma lstrip_idem [simp]: "lstrip (lstrip s) = lstrip s"
  by (simp add: lstrip_def dropWhile_idem)

lemma rstrip_idem [simp]: "rstrip (rstrip s) = rstrip s"
  by (simp add: rstrip_def dropWhile_idem)

lemma strip_idem [simp]: "strip (strip s) = strip s"
proof -
  have "lstrip (strip s) = strip s"
    using strip_no_leading [of s] by (cases "strip s") (auto simp: lstrip_def)
  then show ?thesis by (metis rstrip_idem strip_def)
qed

lemma strip_no_space:
  assumes "\<forall>c \<in> set s. \<not> is_space c"
  shows "strip s = s"
proof -
  have "dropWhile is_space t = t" if "set t \<subseteq> set s" for t
    using that assms by (cases t) auto
  then show ?thesis by (simp add: strip_def lstrip_def rstrip_def)
qed

subsection \<open>Dictionaries in insertion order\<close>

text \<open>
  A \<open>dict\<close> with string keys is an association list whose keys are distinct; \<open>d[k] = v\<close> keeps
  the place of an existing key and appends a new one.
\<close>

type_synonym 'v dict = "(string \<times> 'v) list"

fun dict_set :: "string \<Rightarrow> 'v \<Rightarrow> 'v dict \<Rightarrow> 'v dict" where
  "dict_set k v [] = [(k, v)]"
| "dict_set k v ((k', w) # d) = (if k = k' then (k, v) # d else (k', w) # dict_set k v d)"

definition dict_ok :: "'v dict \<Rightarrow> bool" where
  "dict_ok d = distinct (map fst d)"

lemma map_of_dict_set [simp]: "map_of (dict_set k v d) = (map_of d)(k \<mapsto> v)"
  by (induction k v d rule: dict_set.induct) auto

lemma dict_set_new: "k \<notin> fst ` set d \<Longrightarrow> dict_set k v d = d @ [(k, v)]"
  by (induction k v d rule: dict_set.induct) auto

lemma dict_set_absent: "map_of d k = None \<Longrightarrow> dict_set k v d = d @ [(k, v)]"
  by (simp add: dict_set_new map_of_eq_None_iff)

lemma keys_dict_set: "set (map fst (dict_set k v d)) = insert k (set (map fst d))"
  by (induction k v d rule: dict_set.induct) auto

lemma dict_ok_set: "dict_ok d \<Longrightarrow> dict_ok (dict_set k v d)"
  unfolding dict_ok_def
proof (induction k v d rule: dict_set.induct)
  case (2 k v k' w d)
  then show ?case using keys_dict_set [of k v d] by auto
qed simp

lemma dict_ok_Nil [simp]: "dict_ok []"
  by (simp add: dict_ok_def)

lemma map_of_mem_iff: "dict_ok d \<Longrightarrow> map_of d k = Some v \<longleftrightarrow> (k, v) \<in> set d"
  unfolding dict_ok_def by (rule map_of_eq_Some_iff)

text \<open>\<open>dict(sorted(d.items()))\<close>.\<close>

definition sorted_items :: "'v dict \<Rightarrow> 'v dict" where
  "sorted_items d = sort_key fst d"

lemma set_sorted_items [simp]: "set (sorted_items d) = set d"
  by (simp add: sorted_items_def)

lemma sorted_items_keys: "map fst (sorted_items d) = sort (map fst d)"
proof -
  have "mset (map fst (sorted_items d)) = mset (map fst d)"
    by (simp add: sorted_items_def)
  moreover have "sorted (map fst (sorted_items d))"
    by (simp add: sorted_items_def)
  ultimately show ?thesis
    by (metis properties_for_sort)
qed

lemma dict_ok_sorted_items: "dict_ok d \<Longrightarrow> dict_ok (sorted_items d)"
  by (simp add: dict_ok_def sorted_items_keys)

lemma map_of_sorted_items:
  assumes "dict_ok d"
  shows "map_of (sorted_items d) = map_of d"
proof
  fix k
  show "map_of (sorted_items d) k = map_of d k"
  proof (cases "map_of d k")
    case None
    then show ?thesis
      by (metis map_of_eq_None_iff image_set set_sorted_items)
  next
    case (Some v)
    with assms have "(k, v) \<in> set (sorted_items d)"
      by (simp add: map_of_mem_iff)
    with assms Some show ?thesis
      by (metis dict_ok_sorted_items map_of_mem_iff)
  qed
qed

end
