(* ===== verification/Json.thy ===== *)
theory Json
  imports Prelude Complex_Main
begin

text \<open>
  JSON documents as the code sees them (\<open>json.loads\<close> gives \<open>dict\<close>, \<open>list\<close>, \<open>str\<close>, \<open>int\<close>,
  \<open>float\<close>, \<open>bool\<close>, \<open>None\<close>), Python floats, and \<open>json.dumps\<close> in the two forms the code
  uses.  A finite float is the rational number it stands for, so arithmetic on floats is exact
  here (rounding and the sign of zero are not modelled); \<open>float.__repr__\<close> is the shortest
  decimal that rounds back to the same 53-bit number.
\<close>

subsection \<open>Numbers as text\<close>

definition digit_char :: "nat \<Rightarrow> char" where
  "digit_char n = char_of (48 + n)"

fun nat_str :: "nat \<Rightarrow> string" where
  "nat_str n = (if n < 10 then [digit_char n] else nat_str (n div 10) @ [digit_char (n mod 10)])"

declare nat_str.simps [simp del]

definition int_str :: "int \<Rightarrow> string" where
  "int_str i = (if i < 0 then CHR ''-'' # nat_str (nat (- i)) else nat_str (nat i))"

datatype pyfloat = Finite rat | PosInf | NegInf | NaN

fun is_finite :: "pyfloat \<Rightarrow> bool" where
  "is_finite (Finite _) = True"
| "is_finite _ = False"

fun bit_len :: "nat \<Rightarrow> nat" where
  "bit_len n = (if n = 0 then 0 else Suc (bit_len (n div 2)))"

declare bit_len.simps [simp del]

definition pow_rat :: "rat \<Rightarrow> int \<Rightarrow> rat" where
  "pow_rat b e = (if e \<ge> 0 then b ^ nat e else 1 / b ^ nat (- e))"

text \<open>\<open>floor(log2 r)\<close> and \<open>floor(log10 r)\<close> of a positive rational.\<close>

definition log2_floor :: "rat \<Rightarrow> int" where
  "log2_floor r = (let (n, d) = quotient_of r;
       e = int (bit_len (nat n)) - int (bit_len (nat d))
     in if pow_rat 2 e \<le> r then e else e - 1)"

definition log10_floor :: "rat \<Rightarrow> int" where
  "log10_floor r =
     (if r \<ge> 1 then int (length (nat_str (nat \<lfloor>r\<rfloor>))) - 1
      else (case find (\<lambda>k. r * 10 ^ k \<ge> 1) [1..<400] of None \<Rightarrow> -400 | Some k \<Rightarrow> - int k))"

definition round_half_even :: "rat \<Rightarrow> int" where
  "round_half_even r = (let f = \<lfloor>r\<rfloor>; d = r - of_int f
     in if d < 1 / 2 \<or> (d = 1 / 2 \<and> even f) then f else f + 1)"

text \<open>The double nearest to a positive rational (no overflow).\<close>

definition to_double :: "rat \<Rightarrow> rat" where
  "to_double r = (let k = max (log2_floor r - 52) (-1074)
     in of_int (round_half_even (r / pow_rat 2 k)) * pow_rat 2 k)"

text \<open>Significant digits and decimal exponent of the shortest decimal that rounds to \<open>a\<close>.\<close>

definition shortest_digits :: "rat \<Rightarrow> string \<times> int" where
  "shortest_digits a =
     (let e = log10_floor a;
          m = (\<lambda>n. round_half_even (a * pow_rat 10 (int n - 1 - e)));
          good = (\<lambda>n. to_double (of_int (m n) / pow_rat 10 (int n - 1 - e)) = a)
      in case find good [1..<18] of
           None \<Rightarrow> (nat_str (nat (m 17)), e)
         | Some n \<Rightarrow> if m n = 10 ^ n then (''1'', e + 1) else (nat_str (nat (m n)), e))"

definition format_digits :: "string \<Rightarrow> int \<Rightarrow> string" where
  "format_digits ds e =
     (if -4 \<le> e \<and> e < 0 then ''0.'' @ replicate (nat (- e - 1)) (CHR ''0'') @ ds
      else if 0 \<le> e \<and> e < 16 then
        (let k = nat (e + 1); padded = ds @ replicate (k - length ds) (CHR ''0'')
         in take k padded @ ''.'' @ (if drop k padded = [] then ''0'' else drop k padded))
      else
        (case ds of [] \<Rightarrow> [] | c # cs \<Rightarrow>
           c # (if cs = [] then [] else CHR ''.'' # cs) @ ''e'' @ (if e < 0 then ''-'' else ''+'') @
           (let x = nat_str (nat \<bar>e\<bar>) in if length x < 2 then CHR ''0'' # x else x)))"

definition float_repr :: "pyfloat \<Rightarrow> string" where
  "float_repr f = (case f of
      Finite q \<Rightarrow> (if q = 0 then ''0.0'' else
        (let (ds, e) = shortest_digits \<bar>q\<bar>
         in (if q < 0 then ''-'' else []) @ format_digits ds e))
    | PosInf \<Rightarrow> ''Infinity'' | NegInf \<Rightarrow> ''-Infinity'' | NaN \<Rightarrow> ''NaN'')"

subsection \<open>Documents\<close>

datatype json =
    JNull
  | JBool bool
  | JInt int
  | JFloat pyfloat
  | JStr string
  | JArr "json list"
  | JObj "(string \<times> json) list"

fun is_obj :: "json \<Rightarrow> bool" where
  "is_obj (JObj _) = True"
| "is_obj _ = False"

fun is_str :: "json \<Rightarrow> bool" where
  "is_str (JStr _) = True"
| "is_str _ = False"

fun str_of :: "json \<Rightarrow> string" where
  "str_of (JStr s) = s"
| "str_of _ = []"

text \<open>\<open>isinstance(c, str) and c\<close>: a non-empty string.\<close>

fun nonempty_str :: "json \<Rightarrow> bool" where
  "nonempty_str (JStr s) = (s \<noteq> [])"
| "nonempty_str _ = False"

lemma nonempty_str_conv: "nonempty_str j \<longleftrightarrow> (\<exists>s. j = JStr s \<and> s \<noteq> [])"
  by (cases j) auto

text \<open>\<open>d.get(k)\<close>: an absent key reads as \<open>None\<close>, which is the JSON null.\<close>

definition get_or_none :: "json dict \<Rightarrow> string \<Rightarrow> json" where
  "get_or_none d k = (case map_of d k of None \<Rightarrow> JNull | Some v \<Rightarrow> v)"

lemma map_str_of_JStr [simp]: "map (str_of \<circ> JStr) ss = ss"
  by (induction ss) auto

subsection \<open>Serialisation\<close>

definition hex_char :: "nat \<Rightarrow> char" where
  "hex_char n = (if n < 10 then char_of (48 + n) else char_of (87 + n))"

text \<open>The escapes of \<open>json.dumps\<close> with \<open>ensure_ascii\<close> (the default).\<close>

definition escape_char :: "char \<Rightarrow> string" where
  "escape_char c = (let n = of_char c :: nat in
     if n = 34 then [CHR 0x5C, CHR 0x22]
     else if n = 92 then [CHR 0x5C, CHR 0x5C]
     else if n = 10 then [CHR 0x5C, CHR ''n'']
     else if n = 13 then [CHR 0x5C, CHR ''r'']
     else if n = 9 then [CHR 0x5C, CHR ''t'']
     else if n = 12 then [CHR 0x5C, CHR ''f'']
     else if n = 8 then [CHR 0x5C, CHR ''b'']
     else if 32 \<le> n \<and> n \<le> 126 then [c]
     else [CHR 0x5C, CHR ''u'', CHR ''0'', CHR ''0'', hex_char (n div 16), hex_char (n mod 16)])"

definition quote :: "string \<Rightarrow> string" where
  "quote s = CHR 0x22 # concat (map escape_char s) @ [CHR 0x22]"

text \<open>\<open>json.dumps(v, sort_keys=True, separators=(",", ":"))\<close>.\<close>

fun dumps_canonical :: "json \<Rightarrow> string" where
  "dumps_canonical JNull = ''null''"
| "dumps_canonical (JBool b) = (if b then ''true'' else ''false'')"
| "dumps_canonical (JInt i) = int_str i"
| "dumps_canonical (JFloat f) = float_repr f"
| "dumps_canonical (JStr s) = quote s"
| "dumps_canonical (JArr vs) = CHR ''['' # join_with '','' (map dumps_canonical vs) @ '']''"
| "dumps_canonical (JObj d) = CHR ''{'' # join_with '',''
     (map (\<lambda>(k, t). quote k @ CHR '':'' # t)
        (sorted_items (map (\<lambda>(k, v). (k, dumps_canonical v)) d))) @ ''}''"

text \<open>\<open>json.dumps(v)\<close> with the default separators.\<close>

fun dumps_default :: "json \<Rightarrow> string" where
  "dumps_default JNull = ''null''"
| "dumps_default (JBool b) = (if b then ''true'' else ''false'')"
| "dumps_default (JInt i) = int_str i"
| "dumps_default (JFloat f) = float_repr f"
| "dumps_default (JStr s) = quote s"
| "dumps_default (JArr vs) = CHR ''['' # join_with '', '' (map dumps_default vs) @ '']''"
| "dumps_default (JObj d) = CHR ''{'' # join_with '', ''
     (map (\<lambda>(k, t). quote k @ '': '' @ t) (map (\<lambda>(k, v). (k, dumps_default v)) d)) @ ''}''"

text \<open>\<open>str.encode("utf-8")\<close> for code points below 256, as a list of byte values.\<close>

definition utf8 :: "string \<Rightarrow> nat list" where
  "utf8 s = concat (map (\<lambda>c. let n = of_char c in
     if n < 128 then [n] else [192 + n div 64, 128 + n mod 64]) s)"

definition is_ascii :: "string \<Rightarrow> bool" where
  "is_ascii s = (\<forall>c \<in> set s. (of_char c :: nat) < 128)"

end
