(* ===== verification/Results.thy ===== *)
theory Results
  imports Json
begin

text \<open>
  Exceptions as values.  A function that may raise returns \<open>'a result\<close>: \<open>Err\<close> with the
  exception class and its messages, or \<open>Ok\<close> with the value.
\<close>

named_theorems result_simps \<open>case analysis of results\<close>

subsection \<open>Exceptions and results\<close>

text \<open>
  Every exception class of the code that a caller tells apart.  A message is a template with
  the values the f-string interpolates, not the rendered text: \<open>Msg t vs\<close>.
\<close>

datatype exn_class =
    ConfigValidationError | WorkspaceError | WorkspaceEscapeError | WorkspaceCollisionError
  | StagingError | TooManyTasksError | SandboxUnavailableError
  | DurableQueueError | NodeChannelError | ApiConfigError | PluginError | IdentityError
  | ProviderTimeout | ProviderQuotaExhausted | ProviderMalformed
  | PyTypeError | PyOSError | PyFileExistsError | PyValueError | PyKeyError | PyIndexError
  | PyAttributeError | PyOverflowError | PyRuntimeError | PyHTTPException | PyStopIteration

datatype msg = Msg string "json list"

text \<open>A message as a value inside another document.\<close>

definition msg_json :: "msg option \<Rightarrow> json" where
  "msg_json m = (case m of None \<Rightarrow> JNull | Some (Msg t vs) \<Rightarrow> JArr (JStr t # vs))"

datatype exn = Raise exn_class "msg list"

type_synonym 'a result = "exn + 'a"

abbreviation Err :: "exn \<Rightarrow> 'a result" where "Err \<equiv> Inl"
abbreviation Ok :: "'a \<Rightarrow> 'a result" where "Ok \<equiv> Inr"

fun exn_class_of :: "exn \<Rightarrow> exn_class" where
  "exn_class_of (Raise c ms) = c"

fun exn_msgs :: "exn \<Rightarrow> msg list" where
  "exn_msgs (Raise c ms) = ms"

text \<open>\<open>except ConfigValidationError\<close> also catches its subclasses.\<close>

fun is_config_class :: "exn_class \<Rightarrow> bool" where
  "is_config_class ConfigValidationError = True"
| "is_config_class WorkspaceError = True"
| "is_config_class WorkspaceEscapeError = True"
| "is_config_class WorkspaceCollisionError = True"
| "is_config_class StagingError = True"
| "is_config_class TooManyTasksError = True"
| "is_config_class SandboxUnavailableError = True"
| "is_config_class _ = False"

definition is_config_error :: "exn \<Rightarrow> bool" where
  "is_config_error e = is_config_class (exn_class_of e)"

definition config_error :: "msg list \<Rightarrow> 'a result" where
  "config_error ms = Err (Raise ConfigValidationError ms)"

text \<open>\<open>if errors: raise ConfigValidationError("; ".join(errors))\<close>, else the value.\<close>

definition finish :: "msg list \<Rightarrow> 'a \<Rightarrow> 'a result" where
  "finish errors v = (if errors \<noteq> [] then config_error errors else Ok v)"

definition is_ok :: "'a result \<Rightarrow> bool" where
  "is_ok r = (case r of Inl _ \<Rightarrow> False | Inr _ \<Rightarrow> True)"

definition and_then :: "'a result \<Rightarrow> ('a \<Rightarrow> 'b result) \<Rightarrow> 'b result" where
  "and_then r f = (case r of Inl e \<Rightarrow> Inl e | Inr v \<Rightarrow> f v)"

text \<open>\<open>float(i)\<close> of an integer: the nearest double, or \<open>OverflowError\<close>.\<close>

definition float_of_int :: "int \<Rightarrow> pyfloat result" where
  "float_of_int i =
     (if \<bar>i\<bar> \<ge> 2 ^ 1024 - 2 ^ 970 then Err (Raise PyOverflowError [Msg ''int too large to convert to float'' []])
      else if i = 0 then Ok (Finite 0)
      else Ok (Finite (of_int (sgn i) * to_double (of_int \<bar>i\<bar>))))"

lemma finish_Nil [simp]: "finish [] v = Ok v"
  by (simp add: finish_def)

lemma finish_Ok_iff [result_simps]: "(finish errors v = Ok w) = (errors = [] \<and> v = w)"
  by (simp add: finish_def config_error_def)

lemma finish_Err_iff [result_simps]:
  "(finish errors v = Err e) = (errors \<noteq> [] \<and> e = Raise ConfigValidationError errors)"
  by (auto simp: finish_def config_error_def)

lemma is_ok_simps [simp]: "is_ok (Ok v)" "\<not> is_ok (Err e)"
  by (simp_all add: is_ok_def)

lemma is_ok_conv: "is_ok r = (\<exists>v. r = Ok v)"
  by (cases r) simp_all

lemma and_then_simps [simp]: "and_then (Ok v) f = f v" "and_then (Err e) f = Err e"
  by (simp_all add: and_then_def)

lemma and_then_Ok_iff [result_simps]:
  "(and_then r f = Ok w) = (\<exists>v. r = Ok v \<and> f v = Ok w)"
  by (cases r) simp_all

text \<open>The comprehension \<open>[f(x) for x in xs]\<close> where \<open>f\<close> may raise: the first exception wins.\<close>

fun map_result :: "('a \<Rightarrow> 'b result) \<Rightarrow> 'a list \<Rightarrow> 'b list result" where
  "map_result f [] = Ok []"
| "map_result f (x # xs) = and_then (f x) (\<lambda>y. and_then (map_result f xs) (\<lambda>ys. Ok (y # ys)))"

lemma map_result_Ok_iff:
  "map_result f xs = Ok ys \<longleftrightarrow> length ys = length xs \<and> (\<forall>i < length xs. f (xs ! i) = Ok (ys ! i))"
proof (induction xs arbitrary: ys)
  case Nil
  then show ?case by auto
next
  case (Cons x xs)
  have split: "(\<forall>i < length (x # xs). P ((x # xs) ! i) ((y # zs) ! i)) \<longleftrightarrow>
      P x y \<and> (\<forall>i < length xs. P (xs ! i) (zs ! i))" for P y zs
    by (auto simp: nth_Cons split: nat.splits)
  show ?case
  proof (cases ys)
    case Nil
    then show ?thesis by (auto simp: result_simps)
  next
    case (Cons y zs)
    show ?thesis
      unfolding Cons by (subst split) (auto simp: result_simps Cons.IH)
  qed
qed

lemma map_result_elem:
  assumes "map_result f xs = Ok ys" and "y \<in> set ys"
  shows "\<exists>x \<in> set xs. f x = Ok y"
  using assms by (metis in_set_conv_nth map_result_Ok_iff)

end
