(* ===== verification/Sha2.thy ===== *)
theory Sha2
  imports Results "HOL-Library.Word"
begin

text \<open>
  The hash functions of \<open>hashlib\<close> and \<open>hmac\<close> that the code calls: SHA-256, SHA-512 (FIPS 180-4)
  and HMAC-SHA-256 (RFC 2104), on lists of byte values, with the arithmetic on machine words.
  \<open>bytes\<close> is a list of naturals below 256.
\<close>

unbundle bit_operations_syntax

subsection \<open>Bytes and hexadecimal text\<close>

type_synonym bytes = "nat list"

fun be_bytes :: "nat \<Rightarrow> nat \<Rightarrow> bytes" where
  "be_bytes 0 v = []"
| "be_bytes (Suc n) v = be_bytes n (v div 256) @ [v mod 256]"

definition be_value :: "bytes \<Rightarrow> nat" where
  "be_value bs = foldl (\<lambda>a b. 256 * a + b) 0 bs"

fun le_bytes :: "nat \<Rightarrow> nat \<Rightarrow> bytes" where
  "le_bytes 0 v = []"
| "le_bytes (Suc n) v = v mod 256 # le_bytes n (v div 256)"

fun le_value :: "bytes \<Rightarrow> nat" where
  "le_value [] = 0"
| "le_value (b # bs) = b + 256 * le_value bs"

definition hex_str :: "bytes \<Rightarrow> string" where
  "hex_str bs = concat (map (\<lambda>b. [hex_char (b div 16), hex_char (b mod 16)]) bs)"

definition hex_digit_value :: "char \<Rightarrow> nat" where
  "hex_digit_value c = (let n = of_char c :: nat in
     if n < 58 then n - 48 else if n < 97 then n - 55 else n - 87)"

text \<open>\<open>bytes.fromhex\<close> of a text already known to be pairs of hexadecimal digits.\<close>

fun hex_bytes :: "string \<Rightarrow> bytes" where
  "hex_bytes (a # b # s) = (16 * hex_digit_value a + hex_digit_value b) # hex_bytes s"
| "hex_bytes _ = []"

lemma length_be_bytes [simp]: "length (be_bytes n v) = n"
  by (induction n arbitrary: v) auto

lemma length_le_bytes [simp]: "length (le_bytes n v) = n"
  by (induction n arbitrary: v) auto

lemma le_bytes_small: "\<forall>b \<in> set (le_bytes n v). b < 256"
  by (induction n arbitrary: v) auto

lemma le_value_le_bytes: "v < 256 ^ n \<Longrightarrow> le_value (le_bytes n v) = v"
proof (induction n arbitrary: v)
  case (Suc n)
  then have "v div 256 < 256 ^ n" by (simp add: less_mult_imp_div_less mult.commute)
  with Suc.IH show ?case by simp
qed simp

lemma le_bytes_le_value:
  "\<forall>b \<in> set bs. b < 256 \<Longrightarrow> le_bytes (length bs) (le_value bs) = bs"
  by (induction bs) auto

lemma le_value_bound: "\<forall>b \<in> set bs. b < 256 \<Longrightarrow> le_value bs < 256 ^ length bs"
proof (induction bs)
  case (Cons b bs)
  then have "le_value bs + 1 \<le> 256 ^ length bs" and "b < 256" by auto
  then have "256 * (le_value bs + 1) \<le> 256 * 256 ^ length bs" by (simp only: mult_le_mono2)
  with \<open>b < 256\<close> show ?case by simp
qed simp

lemma length_hex_str [simp]: "length (hex_str bs) = 2 * length bs"
  by (induction bs) (simp_all add: hex_str_def)

lemma hex_digit_value_hex_char: "n < 16 \<Longrightarrow> hex_digit_value (hex_char n) = n"
  by (auto simp: hex_digit_value_def hex_char_def of_char_of)

lemma hex_bytes_hex_str: "\<forall>b \<in> set bs. b < 256 \<Longrightarrow> hex_bytes (hex_str bs) = bs"
proof (induction bs)
  case (Cons b bs)
  then have "b div 16 < 16" by (auto intro: less_mult_imp_div_less)
  with Cons show ?case by (simp add: hex_str_def hex_digit_value_hex_char)
qed (simp add: hex_str_def)

subsection \<open>SHA-256\<close>

type_synonym w32 = "32 word"
type_synonym w64 = "64 word"

definition rotr :: "nat \<Rightarrow> 'a::len word \<Rightarrow> 'a word" where
  "rotr n x = drop_bit n x OR push_bit (LENGTH('a) - n) x"

definition ch :: "'a::len word \<Rightarrow> 'a word \<Rightarrow> 'a word \<Rightarrow> 'a word" where
  "ch x y z = (x AND y) XOR (NOT x AND z)"

definition maj :: "'a::len word \<Rightarrow> 'a word \<Rightarrow> 'a word \<Rightarrow> 'a word" where
  "maj x y z = (x AND y) XOR (x AND z) XOR (y AND z)"

text \<open>
  The round constants are the leading fractional bits of the cube roots of the first primes, the
  initial hash words those of the square roots of the first eight; the root is found bit by bit.
\<close>

definition integer_root :: "nat \<Rightarrow> int \<Rightarrow> int" where
  "integer_root n x = fold (\<lambda>b r. if (r + 2 ^ b) ^ n \<le> x then r + 2 ^ b else r) (rev [0..<70]) 0"

definition sha_primes :: "int list" where
  "sha_primes =
    [2, 3, 5, 7, 11, 13, 17, 19, 23, 29, 31, 37, 41, 43, 47, 53, 59, 61, 67, 71, 73, 79, 83, 89,
     97, 101, 103, 107, 109, 113, 127, 131, 137, 139, 149, 151, 157, 163, 167, 173, 179, 181, 191,
     193, 197, 199, 211, 223, 227, 229, 233, 239, 241, 251, 257, 263, 269, 271, 277, 281, 283, 293,
     307, 311, 313, 317, 331, 337, 347, 349, 353, 359, 367, 373, 379, 383, 389, 397, 401, 409]"

definition root_bits :: "nat \<Rightarrow> int \<Rightarrow> 'a::len word" where
  "root_bits n p = of_int (integer_root n (p * 2 ^ (n * LENGTH('a))))"

definition k256 :: "w32 list" where
  "k256 = map (root_bits 3) (take 64 sha_primes)"

definition h256 :: "w32 list" where
  "h256 = map (root_bits 2) (take 8 sha_primes)"

definition k512 :: "w64 list" where
  "k512 = map (root_bits 3) sha_primes"

definition h512 :: "w64 list" where
  "h512 = map (root_bits 2) (take 8 sha_primes)"

text \<open>
  The message schedule keeps the last sixteen words in a window; each round uses the first word
  of the window and appends \<open>w[t+16] = s1(w[t+14]) + w[t+9] + s0(w[t+1]) + w[t]\<close>.
\<close>

definition next_word :: "('a::len word \<Rightarrow> 'a word) \<Rightarrow> ('a word \<Rightarrow> 'a word) \<Rightarrow> 'a word list \<Rightarrow> 'a word list" where
  "next_word s0 s1 ws = tl ws @ [s1 (ws ! 14) + ws ! 9 + s0 (ws ! 1) + ws ! 0]"

fun sha_round ::
  "('a::len word \<Rightarrow> 'a word) \<Rightarrow> ('a word \<Rightarrow> 'a word) \<Rightarrow> 'a word \<Rightarrow> 'a word \<Rightarrow> 'a word list \<Rightarrow> 'a word list" where
  "sha_round S0 S1 k w [a, b, c, d, e, f, g, h] =
     (let t1 = h + S1 e + ch e f g + k + w; t2 = S0 a + maj a b c
      in [t1 + t2, a, b, c, d + t1, e, f, g])"
| "sha_round S0 S1 k w hs = hs"

fun sha_rounds ::
  "('a::len word \<Rightarrow> 'a word) \<Rightarrow> ('a word \<Rightarrow> 'a word) \<Rightarrow> ('a word \<Rightarrow> 'a word) \<Rightarrow> ('a word \<Rightarrow> 'a word)
   \<Rightarrow> 'a word list \<Rightarrow> 'a word list \<Rightarrow> 'a word list \<Rightarrow> 'a word list" where
  "sha_rounds s0 s1 S0 S1 [] ws hs = hs"
| "sha_rounds s0 s1 S0 S1 (k # ks) ws hs =
     sha_rounds s0 s1 S0 S1 ks (next_word s0 s1 ws) (sha_round S0 S1 k (ws ! 0) hs)"

function chunks :: "nat \<Rightarrow> 'a list \<Rightarrow> 'a list list" where
  "chunks n xs = (if n = 0 \<or> xs = [] then [] else take n xs # chunks n (drop n xs))"
  by pat_completeness auto
termination
  by (relation "measure (\<lambda>(n, xs). length xs)") auto

declare chunks.simps [simp del]

definition sha_pad :: "nat \<Rightarrow> nat \<Rightarrow> bytes \<Rightarrow> bytes" where
  "sha_pad block len_bytes m =
     (let used = length m + 1 + len_bytes; zeros = (block - used mod block) mod block
      in m @ [128] @ replicate zeros 0 @ be_bytes len_bytes (8 * length m))"

definition sha_block ::
  "('a::len word \<Rightarrow> 'a word) \<Rightarrow> ('a word \<Rightarrow> 'a word) \<Rightarrow> ('a word \<Rightarrow> 'a word) \<Rightarrow> ('a word \<Rightarrow> 'a word)
   \<Rightarrow> 'a word list \<Rightarrow> 'a word list \<Rightarrow> bytes \<Rightarrow> 'a word list" where
  "sha_block s0 s1 S0 S1 ks hs block =
     map2 (+) hs (sha_rounds s0 s1 S0 S1 ks
        (map (\<lambda>bs. of_nat (be_value bs)) (chunks (LENGTH('a) div 8) block)) hs)"

definition sha256 :: "bytes \<Rightarrow> bytes" where
  "sha256 m = concat (map (\<lambda>w. be_bytes 4 (unat w))
     (foldl (sha_block
        (\<lambda>x. rotr 7 x XOR rotr 18 x XOR drop_bit 3 x)
        (\<lambda>x. rotr 17 x XOR rotr 19 x XOR drop_bit 10 x)
        (\<lambda>x. rotr 2 x XOR rotr 13 x XOR rotr 22 x)
        (\<lambda>x. rotr 6 x XOR rotr 11 x XOR rotr 25 x) k256)
      h256 (chunks 64 (sha_pad 64 8 m))))"

definition sha512 :: "bytes \<Rightarrow> bytes" where
  "sha512 m = concat (map (\<lambda>w. be_bytes 8 (unat w))
     (foldl (sha_block
        (\<lambda>x. rotr 1 x XOR rotr 8 x XOR drop_bit 7 x)
        (\<lambda>x. rotr 19 x XOR rotr 61 x XOR drop_bit 6 x)
        (\<lambda>x. rotr 28 x XOR rotr 34 x XOR rotr 39 x)
        (\<lambda>x. rotr 14 x XOR rotr 18 x XOR rotr 41 x) k512)
      h512 (chunks 128 (sha_pad 128 16 m))))"

subsection \<open>HMAC-SHA-256\<close>

definition xor_byte :: "nat \<Rightarrow> nat \<Rightarrow> nat" where
  "xor_byte a b = a XOR b"

definition hmac_key :: "bytes \<Rightarrow> bytes" where
  "hmac_key k = (let k' = (if length k > 64 then sha256 k else k)
     in k' @ replicate (64 - length k') 0)"

definition hmac_sha256 :: "bytes \<Rightarrow> bytes \<Rightarrow> bytes" where
  "hmac_sha256 k m =
     sha256 (map (\<lambda>b. xor_byte b 92) (hmac_key k) @ sha256 (map (\<lambda>b. xor_byte b 54) (hmac_key k) @ m))"

text \<open>\<open>hmac.new(key, msg, sha256).hexdigest()\<close> and \<open>sha256(msg).hexdigest()\<close>.\<close>

definition hmac_hex :: "string \<Rightarrow> bytes \<Rightarrow> string" where
  "hmac_hex key m = hex_str (hmac_sha256 (utf8 key) m)"

definition sha256_hex :: "bytes \<Rightarrow> string" where
  "sha256_hex m = hex_str (sha256 m)"

text \<open>
  \<open>hmac.compare_digest\<close> on two \<open>str\<close>: both must be ASCII, or it raises \<open>TypeError\<close>.
\<close>

definition compare_digest :: "string \<Rightarrow> string \<Rightarrow> bool result" where
  "compare_digest a b =
     (if is_ascii a \<and> is_ascii b then Ok (a = b)
      else Err (Raise PyTypeError [Msg ''comparing strings with non-ASCII characters is not supported'' []]))"

subsection \<open>The shape of the results\<close>

lemma be_bytes_small: "\<forall>b \<in> set (be_bytes n v). b < 256"
  by (induction n arbitrary: v) auto

lemma length_sha_round: "length (sha_round S0 S1 k w hs) = length hs"
  by (induction S0 S1 k w hs rule: sha_round.induct) (simp_all add: Let_def)

lemma length_sha_rounds: "length (sha_rounds s0 s1 S0 S1 ks ws hs) = length hs"
  by (induction s0 s1 S0 S1 ks ws hs rule: sha_rounds.induct) (simp_all add: length_sha_round)

lemma length_sha_block: "length (sha_block s0 s1 S0 S1 ks hs block) = length hs"
  by (simp add: sha_block_def length_sha_rounds)

lemma length_foldl_sha: "length (foldl (sha_block s0 s1 S0 S1 ks) hs blocks) = length hs"
  by (induction blocks arbitrary: hs) (simp_all add: length_sha_block)

lemma length_concat_be: "length (concat (map (\<lambda>w. be_bytes n (f w)) ws)) = n * length ws"
  by (induction ws) simp_all

lemma length_sha256: "length (sha256 m) = 32"
  by (simp add: sha256_def length_concat_be length_foldl_sha h256_def sha_primes_def)

lemma length_sha512: "length (sha512 m) = 64"
  by (simp add: sha512_def length_concat_be length_foldl_sha h512_def sha_primes_def)

lemma sha256_bytes: "\<forall>b \<in> set (sha256 m). b < 256"
  using be_bytes_small by (fastforce simp: sha256_def)

lemma hex_char_small: "n < 16 \<Longrightarrow> (of_char (hex_char n) :: nat) < 128"
  by (auto simp: hex_char_def of_char_of)

lemma hex_str_ascii: "\<forall>b \<in> set bs. b < 256 \<Longrightarrow> is_ascii (hex_str bs)"
  by (auto simp: is_ascii_def hex_str_def hex_char_small less_mult_imp_div_less)

lemma length_hmac_hex: "length (hmac_hex key m) = 64"
  by (simp add: hmac_hex_def hmac_sha256_def length_sha256)

lemma hmac_hex_not_Nil: "hmac_hex key m \<noteq> []"
  using length_hmac_hex [of key m] by auto

lemma hmac_hex_ascii: "is_ascii (hmac_hex key m)"
  unfolding hmac_hex_def hmac_sha256_def by (rule hex_str_ascii) (rule sha256_bytes)

end
