(* ===== verification/Regex.thy ===== *)
theory Regex
  imports Prelude
begin

text \<open>
  The part of Python's \<open>re\<close> the code relies on: whether a pattern matches.  A pattern is a term
  of \<open>rx\<close>; \<open>rx_match\<close> says which strings it describes, and \<open>fullmatch\<close> decides it by consuming
  the string one character at a time.  \<open>match_dollar\<close> is \<open>re.match("^...$", s)\<close>, whose \<open>$\<close>
  also accepts one newline before the end of the string.
\<close>

datatype rx =
    RNone
  | REmpty
  | RSet "char \<Rightarrow> bool"
  | RCat rx rx
  | RAlt rx rx
  | RStar rx

inductive rx_match :: "rx \<Rightarrow> string \<Rightarrow> bool" where
  empty: "rx_match REmpty []"
| set: "p c \<Longrightarrow> rx_match (RSet p) [c]"
| cat: "rx_match r s \<Longrightarrow> rx_match q t \<Longrightarrow> rx_match (RCat r q) (s @ t)"
| alt_left: "rx_match r s \<Longrightarrow> rx_match (RAlt r q) s"
| alt_right: "rx_match q s \<Longrightarrow> rx_match (RAlt r q) s"
| star_done: "rx_match (RStar r) []"
| star_more: "rx_match r (c # s) \<Longrightarrow> rx_match (RStar r) t \<Longrightarrow> rx_match (RStar r) (c # s @ t)"

inductive_simps rx_match_simps:
  "rx_match RNone s"
  "rx_match REmpty s"
  "rx_match (RSet p) s"
  "rx_match (RCat r q) s"
  "rx_match (RAlt r q) s"

inductive_cases rx_match_starE: "rx_match (RStar r) (c # s)"

fun accepts_empty :: "rx \<Rightarrow> bool" where
  "accepts_empty RNone = False"
| "accepts_empty REmpty = True"
| "accepts_empty (RSet p) = False"
| "accepts_empty (RCat r q) = (accepts_empty r \<and> accepts_empty q)"
| "accepts_empty (RAlt r q) = (accepts_empty r \<or> accepts_empty q)"
| "accepts_empty (RStar r) = True"

fun after_char :: "char \<Rightarrow> rx \<Rightarrow> rx" where
  "after_char c RNone = RNone"
| "after_char c REmpty = RNone"
| "after_char c (RSet p) = (if p c then REmpty else RNone)"
| "after_char c (RCat r q) =
     (if accepts_empty r then RAlt (RCat (after_char c r) q) (after_char c q)
      else RCat (after_char c r) q)"
| "after_char c (RAlt r q) = RAlt (after_char c r) (after_char c q)"
| "after_char c (RStar r) = RCat (after_char c r) (RStar r)"

fun fullmatch :: "rx \<Rightarrow> string \<Rightarrow> bool" where
  "fullmatch r [] = accepts_empty r"
| "fullmatch r (c # s) = fullmatch (after_char c r) s"

lemma accepts_empty_iff: "accepts_empty r \<longleftrightarrow> rx_match r []"
  by (induction r) (auto simp: rx_match_simps intro: rx_match.star_done)

lemma after_char_iff: "rx_match (after_char c r) s \<longleftrightarrow> rx_match r (c # s)"
proof (induction r arbitrary: s)
  case (RCat r q)
  have "rx_match (RCat r q) (c # s) \<longleftrightarrow>
      (rx_match r [] \<and> rx_match q (c # s)) \<or> (\<exists>u v. s = u @ v \<and> rx_match r (c # u) \<and> rx_match q v)"
    by (simp add: rx_match_simps Cons_eq_append_conv) blast
  with RCat show ?case
    by (auto simp: rx_match_simps accepts_empty_iff)
next
  case (RStar r)
  have "rx_match (RStar r) (c # s) \<longleftrightarrow> (\<exists>u v. s = u @ v \<and> rx_match r (c # u) \<and> rx_match (RStar r) v)"
    by (blast elim: rx_match_starE intro: rx_match.star_more)
  with RStar show ?case by (auto simp: rx_match_simps)
qed (auto simp: rx_match_simps)

theorem fullmatch_iff: "fullmatch r s \<longleftrightarrow> rx_match r s"
  by (induction s arbitrary: r) (simp_all add: accepts_empty_iff after_char_iff)

subsection \<open>Derived patterns\<close>

fun rx_lit :: "string \<Rightarrow> rx" where
  "rx_lit [] = REmpty"
| "rx_lit (c # s) = RCat (RSet (\<lambda>d. d = c)) (rx_lit s)"

definition rx_opt :: "rx \<Rightarrow> rx" where
  "rx_opt r = RAlt REmpty r"

definition rx_plus :: "rx \<Rightarrow> rx" where
  "rx_plus r = RCat r (RStar r)"

text \<open>\<open>r{0,n}\<close> and \<open>r{m,n}\<close>.\<close>

fun rx_upto :: "nat \<Rightarrow> rx \<Rightarrow> rx" where
  "rx_upto 0 r = REmpty"
| "rx_upto (Suc n) r = RAlt REmpty (RCat r (rx_upto n r))"

fun rx_between :: "nat \<Rightarrow> nat \<Rightarrow> rx \<Rightarrow> rx" where
  "rx_between 0 n r = rx_upto n r"
| "rx_between (Suc m) n r = RCat r (rx_between m (n - 1) r)"

fun rx_alts :: "rx list \<Rightarrow> rx" where
  "rx_alts [] = RNone"
| "rx_alts [r] = r"
| "rx_alts (r # q # rs) = RAlt r (rx_alts (q # rs))"

fun rx_seq :: "rx list \<Rightarrow> rx" where
  "rx_seq [] = REmpty"
| "rx_seq [r] = r"
| "rx_seq (r # q # rs) = RCat r (rx_seq (q # rs))"

definition match_dollar :: "rx \<Rightarrow> string \<Rightarrow> bool" where
  "match_dollar r s = (fullmatch r s \<or> (s \<noteq> [] \<and> last s = CHR 0x0A \<and> fullmatch r (butlast s)))"

lemma match_dollar_no_newline: "s = [] \<or> last s \<noteq> CHR 0x0A \<Longrightarrow> match_dollar r s = fullmatch r s"
  by (auto simp: match_dollar_def)

lemma newline_is_space: "is_space (CHR 0x0A)"
  by (simp add: is_space_def)

lemma match_dollar_strip: "match_dollar r (strip s) = fullmatch r (strip s)"
  by (rule match_dollar_no_newline) (metis newline_is_space strip_no_trailing)

text \<open>\<open>pattern.search(s) is not None\<close>.\<close>

definition rx_search :: "rx \<Rightarrow> string \<Rightarrow> bool" where
  "rx_search r s = fullmatch (RCat (RStar (RSet (\<lambda>_. True))) (RCat r (RStar (RSet (\<lambda>_. True))))) s"

lemma rx_match_set_cat:
  "rx_match (RCat (RSet p) r) s \<longleftrightarrow> s \<noteq> [] \<and> p (hd s) \<and> rx_match r (tl s)"
proof
  assume "rx_match (RCat (RSet p) r) s"
  then show "s \<noteq> [] \<and> p (hd s) \<and> rx_match r (tl s)"
    by (auto simp: rx_match_simps)
next
  assume h: "s \<noteq> [] \<and> p (hd s) \<and> rx_match r (tl s)"
  then have "rx_match (RCat (RSet p) r) ([hd s] @ tl s)"
    by (blast intro: rx_match.intros)
  with h show "rx_match (RCat (RSet p) r) s" by simp
qed

lemma rx_match_star_set: "rx_match (RStar (RSet p)) s \<longleftrightarrow> list_all p s"
proof (induction s)
  case Nil
  then show ?case by (auto intro: rx_match.star_done)
next
  case (Cons c s)
  have "rx_match (RStar (RSet p)) (c # s) \<longleftrightarrow> p c \<and> rx_match (RStar (RSet p)) s"
  proof
    assume "rx_match (RStar (RSet p)) (c # s)"
    then show "p c \<and> rx_match (RStar (RSet p)) s"
      by (auto elim!: rx_match_starE simp: rx_match_simps)
  next
    assume "p c \<and> rx_match (RStar (RSet p)) s"
    then show "rx_match (RStar (RSet p)) (c # s)"
      using rx_match.star_more [of "RSet p" c "[]" s] by (auto intro: rx_match.set)
  qed
  with Cons show ?case by simp
qed

lemma rx_match_upto_set: "rx_match (rx_upto n (RSet p)) s \<longleftrightarrow> length s \<le> n \<and> list_all p s"
proof (induction n arbitrary: s)
  case (Suc n)
  have "rx_match (rx_upto (Suc n) (RSet p)) s \<longleftrightarrow>
      s = [] \<or> (s \<noteq> [] \<and> p (hd s) \<and> rx_match (rx_upto n (RSet p)) (tl s))"
    by (simp add: rx_match_set_cat rx_match_simps(2,5))
  with Suc show ?case by (cases s) auto
qed (auto simp: rx_match_simps(2))

lemma rx_match_between_set:
  "m \<le> n \<Longrightarrow> rx_match (rx_between m n (RSet p)) s \<longleftrightarrow> m \<le> length s \<and> length s \<le> n \<and> list_all p s"
proof (induction m n "RSet p" arbitrary: s rule: rx_between.induct)
  case (1 n)
  then show ?case by (simp add: rx_match_upto_set)
next
  case (2 m n)
  then show ?case by (cases s) (auto simp: rx_match_set_cat)
qed

lemma rx_match_plus_set: "rx_match (rx_plus (RSet p)) s \<longleftrightarrow> s \<noteq> [] \<and> list_all p s"
  by (cases s) (auto simp: rx_plus_def rx_match_set_cat rx_match_star_set)

lemma rx_match_lit: "rx_match (rx_lit t) s \<longleftrightarrow> s = t"
proof (induction t arbitrary: s)
  case (Cons c t)
  then show ?case by (cases s) (auto simp: rx_match_set_cat)
qed (simp add: rx_match_simps(2))

lemmas rx_class_simps =
  fullmatch_iff rx_match_star_set rx_match_upto_set rx_match_between_set rx_match_set_cat
  rx_match_plus_set rx_match_lit

lemma rx_search_iff: "rx_search r s \<longleftrightarrow> (\<exists>a m b. s = a @ m @ b \<and> rx_match r m)"
proof -
  have any: "rx_match (RStar (RSet (\<lambda>_. True))) t" for t
    by (simp add: rx_match_star_set list_all_iff)
  show ?thesis
    unfolding rx_search_def fullmatch_iff rx_match_simps(4) using any by metis
qed

subsection \<open>Character classes\<close>

definition is_digit :: "char \<Rightarrow> bool" where
  "is_digit c = (let n = of_char c :: nat in 48 \<le> n \<and> n \<le> 57)"

definition is_lower :: "char \<Rightarrow> bool" where
  "is_lower c = (let n = of_char c :: nat in 97 \<le> n \<and> n \<le> 122)"

definition is_upper :: "char \<Rightarrow> bool" where
  "is_upper c = (let n = of_char c :: nat in 65 \<le> n \<and> n \<le> 90)"

definition is_alnum :: "char \<Rightarrow> bool" where
  "is_alnum c = (is_digit c \<or> is_lower c \<or> is_upper c)"

text \<open>\<open>[0-9a-f]\<close> and \<open>[0-9a-fA-F]\<close>.\<close>

definition is_lower_hex :: "char \<Rightarrow> bool" where
  "is_lower_hex c = (is_digit c \<or> (let n = of_char c :: nat in 97 \<le> n \<and> n \<le> 102))"

definition is_hex :: "char \<Rightarrow> bool" where
  "is_hex c = (is_lower_hex c \<or> (let n = of_char c :: nat in 65 \<le> n \<and> n \<le> 70))"

text \<open>\<open>\w\<close> in a \<open>str\<close> pattern, for code points below 256.\<close>

definition is_word_char :: "char \<Rightarrow> bool" where
  "is_word_char c = (is_alnum c \<or> c = CHR ''_'' \<or> (let n = of_char c :: nat in
     n \<in> {170, 178, 179, 181, 185, 186, 188, 189, 190} \<or> (192 \<le> n \<and> n \<noteq> 215 \<and> n \<noteq> 247)))"

text \<open>\<open>str.lower()\<close> for code points below 256.\<close>

definition lower_char :: "char \<Rightarrow> char" where
  "lower_char c = (let n = of_char c :: nat in
     if is_upper c \<or> (192 \<le> n \<and> n \<le> 222 \<and> n \<noteq> 215) then char_of (n + 32) else c)"

definition lower_str :: "string \<Rightarrow> string" where
  "lower_str s = map lower_char s"

lemma is_lower_hex_is_hex: "is_lower_hex c \<Longrightarrow> is_hex c"
  by (simp add: is_hex_def)

end
