(* ===== verification/Signing.thy ===== *)
theory Signing
  imports Sha2 Regex
begin

text \<open>
  \<open>signing.py\<close>: Ed25519 over Python integers, the text forms of keys and signatures, and the check of a
  signed document.  The optional \<open>cryptography\<close> package is a parameter: \<open>None\<close> when it is absent, else
  its two operations.  Proved: the curve addition in extended coordinates is the affine law with the
  denominators cleared, an encoding that is accepted is the encoding that is written, a signature has one
  accepted scalar, and the two kinds of signatures never mix.
\<close>

subsection \<open>Arithmetic modulo the prime\<close>

definition ed_P :: int where "ed_P = 2 ^ 255 - 19"

definition ed_L :: int where "ed_L = 2 ^ 252 + 27742317777372353535851937790883648493"

text \<open>\<open>pow(b, e, m)\<close>.\<close>

function modpow :: "int \<Rightarrow> int \<Rightarrow> int \<Rightarrow> int" where
  "modpow b e m =
     (if e \<le> 0 then 1 mod m
      else (let h = modpow (b * b mod m) (e div 2) m in if odd e then b * h mod m else h))"
  by pat_completeness auto
termination by (relation "measure (\<lambda>(b, e, m). nat e)") auto

declare modpow.simps [simp del]

definition ed_inv :: "int \<Rightarrow> int" where
  "ed_inv x = modpow x (ed_P - 2) ed_P"

definition ed_D :: int where
  "ed_D = - 121665 * modpow 121666 (ed_P - 2) ed_P mod ed_P"

definition ed_I :: int where
  "ed_I = modpow 2 ((ed_P - 1) div 4) ed_P"

lemma modpow_eq: "0 \<le> e \<Longrightarrow> modpow b e m = b ^ nat e mod m"
proof (induction b e m rule: modpow.induct)
  case (1 b e m)
  show ?case
  proof (cases "e \<le> 0")
    case True
    with 1 show ?thesis by (simp add: modpow.simps)
  next
    case False
    define k where "k = nat (e div 2)"
    have "modpow (b * b mod m) (e div 2) m = (b * b mod m) ^ k mod m"
      using 1 False by (simp add: k_def)
    then have ih: "modpow (b * b mod m) (e div 2) m = b ^ (2 * k) mod m"
      by (simp add: power_mod power_mult power2_eq_square)
    have e: "nat e = (if odd e then Suc (2 * k) else 2 * k)"
      using False unfolding k_def by (auto elim!: oddE evenE simp: nat_add_distrib nat_mult_distrib)
    show ?thesis
      using False ih e by (simp add: modpow.simps [of b e] mod_mult_right_eq)
  qed
qed

definition recover_x :: "int \<Rightarrow> int \<Rightarrow> int option" where
  "recover_x y sign =
     (if y \<ge> ed_P then None
      else (let x2 = (y * y - 1) * ed_inv (ed_D * y * y + 1) mod ed_P in
        if x2 = 0 then (if sign \<noteq> 0 then None else Some 0)
        else (let x = modpow x2 ((ed_P + 3) div 8) ed_P;
                  x = (if (x * x - x2) mod ed_P \<noteq> 0 then x * ed_I mod ed_P else x)
              in if (x * x - x2) mod ed_P \<noteq> 0 then None
                 else if x AND 1 \<noteq> sign then Some (ed_P - x) else Some x)))"

lemma ed_P_facts: "0 < ed_P" "odd ed_P" "ed_P < 2 ^ 255" "1 < ed_P"
  by (simp_all add: ed_P_def)

lemma modpow_range: "0 \<le> e \<Longrightarrow> 0 \<le> modpow b e ed_P \<and> modpow b e ed_P < ed_P"
  using ed_P_facts by (simp add: modpow_eq)

lemma zero_or_one: "0 \<le> q \<Longrightarrow> q \<le> 1 \<Longrightarrow> q = 0 \<or> q = (1 :: int)"
  by linarith

lemma odd_diff_mod: "odd p \<Longrightarrow> (p - q) mod 2 = 1 - q mod (2 :: int)"
  by presburger

text \<open>The square root that is found is one: reduced, of the wanted parity, and its square is the wanted value.\<close>

lemma recover_x_Some:
  assumes "recover_x y sign = Some x" and "sign = 0 \<or> sign = 1"
  shows "0 \<le> x" and "x < ed_P" and "x AND 1 = sign"
    and "x * x mod ed_P = (y * y - 1) * ed_inv (ed_D * y * y + 1) mod ed_P" and "y < ed_P"
proof -
  define x2 where "x2 = (y * y - 1) * ed_inv (ed_D * y * y + 1) mod ed_P"
  have y: "y < ed_P" using assms(1) by (auto simp: recover_x_def split: if_splits)
  have "0 \<le> x \<and> x < ed_P \<and> x AND 1 = sign \<and> x * x mod ed_P = x2"
  proof (cases "x2 = 0")
    case True
    then have "sign = 0 \<and> x = 0"
      using assms(1) y by (simp add: recover_x_def x2_def [symmetric] Let_def split: if_splits)
    then show ?thesis using True ed_P_facts by simp
  next
    case False
    define r where "r = modpow x2 ((ed_P + 3) div 8) ed_P"
    define q where "q = (if (r * r - x2) mod ed_P \<noteq> 0 then r * ed_I mod ed_P else r)"
    have "x = (if q AND 1 \<noteq> sign then ed_P - q else q)" and sq: "(q * q - x2) mod ed_P = 0"
      using assms(1) y False
      by (auto simp: recover_x_def x2_def [symmetric] r_def [symmetric] q_def [symmetric] Let_def split: if_splits)
    moreover have range: "0 \<le> q" "q < ed_P"
      using ed_P_facts modpow_range [of "(ed_P + 3) div 8" x2] by (auto simp: q_def r_def)
    moreover have "x2 mod ed_P = x2" by (simp add: x2_def)
    then have qq: "q * q mod ed_P = x2" using sq by (metis mod_0_imp_dvd mod_eq_dvd_iff)
    moreover have "q \<noteq> 0" using qq False by auto
    moreover have "(ed_P - q) * (ed_P - q) mod ed_P = q * q mod ed_P"
    proof -
      have "(ed_P - q) * (ed_P - q) = q * q + (ed_P - 2 * q) * ed_P" by (simp add: algebra_simps)
      then show ?thesis by simp
    qed
    moreover have "(ed_P - q) AND 1 = 1 - (q AND 1)"
      unfolding and_one_eq by (rule odd_diff_mod [OF ed_P_facts(2)])
    moreover have "q AND 1 = 0 \<or> q AND 1 = 1" unfolding and_one_eq by presburger
    ultimately show ?thesis using assms(2) by (cases "q AND 1 = sign") auto
  qed
  then show "0 \<le> x" "x < ed_P" "x AND 1 = sign"
    "x * x mod ed_P = (y * y - 1) * ed_inv (ed_D * y * y + 1) mod ed_P" "y < ed_P"
    using y by (simp_all add: x2_def)
qed

subsection \<open>Points\<close>

type_synonym ed_point = "int \<times> int \<times> int \<times> int"

definition ed_GY :: int where
  "ed_GY = 4 * ed_inv 5 mod ed_P"

definition ed_GX :: int where
  "ed_GX = (case recover_x ed_GY 0 of None \<Rightarrow> 0 | Some x \<Rightarrow> x)"

definition ed_G :: ed_point where
  "ed_G = (ed_GX, ed_GY, 1, ed_GX * ed_GY mod ed_P)"

definition ed_add :: "ed_point \<Rightarrow> ed_point \<Rightarrow> ed_point" where
  "ed_add a b = (case (a, b) of ((X1, Y1, Z1, T1), (X2, Y2, Z2, T2)) \<Rightarrow>
     let a1 = (Y1 - X1) * (Y2 - X2) mod ed_P;
         b1 = (Y1 + X1) * (Y2 + X2) mod ed_P;
         c = 2 * T1 * T2 * ed_D mod ed_P;
         d = 2 * Z1 * Z2 mod ed_P;
         e = b1 - a1; f = d - c; g = d + c; h = b1 + a1
     in (e * f mod ed_P, g * h mod ed_P, f * g mod ed_P, e * h mod ed_P))"

text \<open>The loop of \<open>_mul\<close>: \<open>while scalar > 0\<close>.\<close>

function ed_mul_loop :: "int \<Rightarrow> ed_point \<Rightarrow> ed_point \<Rightarrow> ed_point" where
  "ed_mul_loop scalar point result =
     (if scalar > 0
      then ed_mul_loop (drop_bit 1 scalar) (ed_add point point)
             (if scalar AND 1 \<noteq> 0 then ed_add result point else result)
      else result)"
  by pat_completeness auto
termination
  by (relation "measure (\<lambda>(scalar, point, result). nat scalar)") (auto simp: drop_bit_eq_div)

declare ed_mul_loop.simps [simp del]

definition ed_mul :: "int \<Rightarrow> ed_point \<Rightarrow> ed_point" where
  "ed_mul scalar point = ed_mul_loop scalar point (0, 1, 1, 0)"

definition ed_equal :: "ed_point \<Rightarrow> ed_point \<Rightarrow> bool" where
  "ed_equal a b = (case (a, b) of ((X1, Y1, Z1, T1), (X2, Y2, Z2, T2)) \<Rightarrow>
     (X1 * Z2 - X2 * Z1) mod ed_P = 0 \<and> (Y1 * Z2 - Y2 * Z1) mod ed_P = 0)"

definition ed_compress :: "ed_point \<Rightarrow> bytes" where
  "ed_compress p = (case p of (X, Y, Z, T) \<Rightarrow>
     let zinv = ed_inv Z; x = X * zinv mod ed_P; y = Y * zinv mod ed_P
     in le_bytes 32 (nat (y OR push_bit 255 (x AND 1))))"

definition ed_decompress :: "bytes \<Rightarrow> ed_point option" where
  "ed_decompress data =
     (if length data \<noteq> 32 then None
      else (let v = int (le_value data); sign = drop_bit 255 v; y = v AND (push_bit 255 1 - 1)
            in case recover_x y sign of None \<Rightarrow> None | Some x \<Rightarrow> Some (x, y, 1, x * y mod ed_P)))"

definition in_field :: "int \<Rightarrow> bool" where
  "in_field v \<longleftrightarrow> 0 \<le> v \<and> v < ed_P"

lemma in_field_mod [simp]: "in_field (v mod ed_P)"
  using ed_P_facts by (simp add: in_field_def)

lemma low_bits: "v AND (push_bit 255 1 - 1) = v mod 2 ^ 255" for v :: int
  by (metis mask_eq_exp_minus_1 push_bit_of_1 take_bit_eq_mask take_bit_eq_mod)

lemma glue_bits:
  fixes y b :: int
  assumes "0 \<le> y" and "y < 2 ^ 255"
  shows "y OR push_bit 255 b = y + 2 ^ 255 * b"
proof -
  have "take_bit 255 y = y" using assms by (simp add: take_bit_int_eq_self)
  then show ?thesis using concat_bit_eq [of 255 y b] by (simp add: concat_bit_def push_bit_eq_mult)
qed

lemma ed_decompress_eq:
  "ed_decompress data =
     (if length data \<noteq> 32 then None
      else (let y = int (le_value data) mod 2 ^ 255
            in case recover_x y (int (le_value data) div 2 ^ 255) of
                 None \<Rightarrow> None | Some x \<Rightarrow> Some (x, y, 1, x * y mod ed_P)))"
  by (simp only: ed_decompress_def low_bits Let_def drop_bit_eq_div)

lemma ed_inv_1: "ed_inv 1 = 1"
  using ed_P_facts by (simp add: ed_inv_def modpow_eq)

text \<open>Point encodings are canonical: 32 bytes that decode to a point are exactly the bytes that point encodes
  to, so no two encodings of one point are accepted (in particular no y coordinate above the prime and no negative
  zero); the decoded point is reduced, its x squared is the value the curve equation gives for its y, and x has the
  encoded sign.\<close>

theorem point_encoding_canonical:
  assumes "ed_decompress data = Some (x, y, z, t)" and "\<forall>b \<in> set data. b < 256"
  shows "ed_compress (x, y, z, t) = data \<and> z = 1 \<and> t = x * y mod ed_P \<and> 0 \<le> x \<and> x < ed_P \<and> 0 \<le> y \<and> y < ed_P \<and>
    x * x mod ed_P = (y * y - 1) * ed_inv (ed_D * y * y + 1) mod ed_P \<and>
    x mod 2 = int (le_value data) div 2 ^ 255"
proof -
  define v where "v = int (le_value data)"
  have len: "length data = 32" using assms(1) by (auto simp: ed_decompress_def split: if_splits)
  have v: "0 \<le> v" "v < 2 ^ 256" using le_value_bound [OF assms(2)] len by (simp_all add: v_def)
  have pt: "recover_x y (v div 2 ^ 255) = Some x" "y = v mod 2 ^ 255" "z = 1" "t = x * y mod ed_P"
    using assms(1) len by (auto simp: ed_decompress_eq v_def [symmetric] Let_def split: option.splits)
  have "v div 2 ^ 255 \<le> (2 ^ 256 - 1) div 2 ^ 255" using v by (intro zdiv_mono1) simp_all
  then have "v div 2 ^ 255 \<le> 1" by simp
  moreover have "0 \<le> v div 2 ^ 255" using v by (intro pos_imp_zdiv_nonneg_iff [THEN iffD2]) simp_all
  ultimately have sign: "v div 2 ^ 255 = 0 \<or> v div 2 ^ 255 = 1" by (rule zero_or_one [rotated])
  note x = recover_x_Some [OF pt(1) sign]
  have y: "0 \<le> y" "y < 2 ^ 255" unfolding pt(2) by simp_all
  have "y OR push_bit 255 (x AND 1) = v"
    unfolding x(3) glue_bits [OF y] by (simp add: pt(2))
  moreover have "x * 1 mod ed_P = x" and "y * 1 mod ed_P = y" using x y by simp_all
  ultimately have "ed_compress (x, y, z, t) = le_bytes 32 (nat v)"
    by (simp only: ed_compress_def prod.case pt(3) ed_inv_1 Let_def)
  also have "\<dots> = data" using le_bytes_le_value [OF assms(2)] len by (simp add: v_def)
  finally show ?thesis
    using x y pt(3,4) by (simp add: and_one_eq v_def)
qed

text \<open>The encoding of the neutral element.\<close>

lemma decompress_one: "ed_decompress (1 # replicate 31 0) = Some (0, 1, 1, 0)"
proof -
  have "le_value (1 # replicate 31 0) = 1" by (simp add: numeral_eq_Suc)
  then show ?thesis
    using ed_P_facts by (simp add: ed_decompress_eq recover_x_def Let_def)
qed

lemma point_encoding_canonical_witness: "ed_compress (0, 1, 1, 0) = 1 # replicate 31 0"
  using point_encoding_canonical [OF decompress_one] by simp



subsection \<open>Signatures on bytes\<close>

definition from_le :: "bytes \<Rightarrow> int" where
  "from_le bs = int (le_value bs)"

definition ed_expand :: "bytes \<Rightarrow> int \<times> bytes" where
  "ed_expand seed =
     (let digest = sha512 seed;
          scalar = from_le (take 32 digest);
          scalar = scalar AND (push_bit 254 1 - 8);
          scalar = scalar OR push_bit 254 1
      in (scalar, drop 32 digest))"

definition hash_int :: "bytes \<Rightarrow> int" where
  "hash_int data = from_le (sha512 data)"

text \<open>The two operations of the optional native backend that the code calls.\<close>

record native_backend =
  nb_public :: "bytes \<Rightarrow> bytes"
  nb_sign :: "bytes \<Rightarrow> bytes \<Rightarrow> bytes"

definition signing_backend :: "native_backend option \<Rightarrow> string" where
  "signing_backend native = (if native \<noteq> None then ''native'' else ''pure'')"

definition pure_public_key_bytes :: "bytes \<Rightarrow> bytes" where
  "pure_public_key_bytes seed = ed_compress (ed_mul (fst (ed_expand seed)) ed_G)"

definition seed_length_error :: "'a result" where
  "seed_length_error = config_error [Msg ''an Ed25519 seed is 32 bytes'' []]"

definition public_key_bytes :: "native_backend option \<Rightarrow> bytes \<Rightarrow> bytes result" where
  "public_key_bytes native seed =
     (if length seed \<noteq> 32 then seed_length_error
      else (case native of Some nb \<Rightarrow> Ok (nb_public nb seed) | None \<Rightarrow> Ok (pure_public_key_bytes seed)))"

definition pure_sign_bytes :: "bytes \<Rightarrow> bytes \<Rightarrow> bytes" where
  "pure_sign_bytes seed message =
     (let (scalar, pre) = ed_expand seed;
          public = ed_compress (ed_mul scalar ed_G);
          r = hash_int (pre @ message) mod ed_L;
          big_r = ed_compress (ed_mul r ed_G);
          k = hash_int (big_r @ public @ message) mod ed_L;
          s = (r + k * scalar) mod ed_L
      in big_r @ le_bytes 32 (nat s))"

definition sign_bytes :: "native_backend option \<Rightarrow> bytes \<Rightarrow> bytes \<Rightarrow> bytes result" where
  "sign_bytes native seed message =
     (if length seed \<noteq> 32 then seed_length_error
      else (case native of Some nb \<Rightarrow> Ok (nb_sign nb seed message) | None \<Rightarrow> Ok (pure_sign_bytes seed message)))"

definition verify_bytes :: "bytes \<Rightarrow> bytes \<Rightarrow> bytes \<Rightarrow> bool" where
  "verify_bytes public message signature =
     (if length public \<noteq> 32 \<or> length signature \<noteq> 64 then False
      else (case (ed_decompress public, ed_decompress (take 32 signature)) of
         (Some a, Some r) \<Rightarrow>
           (let s = from_le (drop 32 signature) in
            if s \<ge> ed_L then False
            else (let k = hash_int (take 32 signature @ public @ message) mod ed_L
                  in ed_equal (ed_mul s ed_G) (ed_add r (ed_mul k a))))
       | _ \<Rightarrow> False))"

subsection \<open>Text forms\<close>

definition seed_prefix :: string where "seed_prefix = ''ed25519-seed:''"
definition public_prefix :: string where "public_prefix = ''ed25519-public:''"
definition signature_prefix :: string where "signature_prefix = ''ed25519:''"

definition hex32_rx :: rx where "hex32_rx = rx_between 64 64 (RSet is_lower_hex)"
definition hex64_rx :: rx where "hex64_rx = rx_between 128 128 (RSet is_lower_hex)"

definition after_prefix :: "string \<Rightarrow> string \<Rightarrow> string" where
  "after_prefix p s = drop (length p) s"

definition parse_key_text :: "string \<Rightarrow> string \<Rightarrow> rx \<Rightarrow> string \<Rightarrow> bytes result" where
  "parse_key_text text pre pattern what =
     (let v = strip text in
      if \<not> startswith v pre \<or> \<not> fullmatch pattern (after_prefix pre v) then
        config_error [Msg ''the {} must look like {}<hex>'' [JStr what, JStr pre]]
      else Ok (hex_bytes (after_prefix pre v)))"

definition generate_key_pair :: "native_backend option \<Rightarrow> (nat \<Rightarrow> bytes) \<Rightarrow> (string \<times> string) result" where
  "generate_key_pair native random =
     (let seed = random 32 in and_then (public_key_bytes native seed) (\<lambda>pub.
        Ok (seed_prefix @ hex_str seed, public_prefix @ hex_str pub)))"

definition public_key_from_seed :: "native_backend option \<Rightarrow> string \<Rightarrow> string result" where
  "public_key_from_seed native seed_text =
     and_then (parse_key_text seed_text seed_prefix hex32_rx ''private key'') (\<lambda>seed.
       and_then (public_key_bytes native seed) (\<lambda>pub. Ok (public_prefix @ hex_str pub)))"

definition is_public_key :: "string \<Rightarrow> bool" where
  "is_public_key text = startswith (strip text) public_prefix"

definition canonical_bytes :: "json \<Rightarrow> bytes" where
  "canonical_bytes body = utf8 (dumps_canonical body)"

definition sign_body :: "native_backend option \<Rightarrow> string \<Rightarrow> json \<Rightarrow> string result" where
  "sign_body native seed_text body =
     and_then (parse_key_text seed_text seed_prefix hex32_rx ''private key'') (\<lambda>seed.
       and_then (sign_bytes native seed (canonical_bytes body)) (\<lambda>sg. Ok (signature_prefix @ hex_str sg)))"

definition verify_body :: "string \<Rightarrow> json \<Rightarrow> string \<Rightarrow> bool" where
  "verify_body public_text body signature =
     (case parse_key_text public_text public_prefix hex32_rx ''public key'' of
        Inl _ \<Rightarrow> False
      | Inr public \<Rightarrow>
          if \<not> startswith signature signature_prefix \<or> \<not> fullmatch hex64_rx (after_prefix signature_prefix signature)
          then False
          else verify_bytes public (canonical_bytes body) (hex_bytes (after_prefix signature_prefix signature)))"

text \<open>\<open>compare_digest\<close> raises on a signature with a non-ASCII character, and nothing here catches it.\<close>

definition signature_matches :: "string \<Rightarrow> json \<Rightarrow> string \<Rightarrow> bool result" where
  "signature_matches key_text body signature =
     (if signature = [] then Ok False
      else if is_public_key key_text then Ok (verify_body key_text body signature)
      else if startswith signature signature_prefix then Ok False
      else compare_digest signature (hmac_hex key_text (canonical_bytes body)))"

subsection \<open>What a valid signature looks like\<close>

text \<open>Verification is strict: a signature that is accepted is 64 bytes made with a 32-byte key, both its point and
  the key are canonical encodings, its scalar is below the group order and satisfies the verification equation; so
  the same signature with the group order added to its scalar, which satisfies the same equation, is refused.\<close>

theorem verify_bytes_strict:
  assumes "verify_bytes public message signature"
  shows "length public = 32 \<and> length signature = 64 \<and> from_le (drop 32 signature) < ed_L \<and>
    (\<exists>a r. ed_decompress public = Some a \<and> ed_decompress (take 32 signature) = Some r \<and>
       ed_equal (ed_mul (from_le (drop 32 signature)) ed_G)
         (ed_add r (ed_mul (hash_int (take 32 signature @ public @ message) mod ed_L) a))) \<and>
    \<not> verify_bytes public message (take 32 signature @ le_bytes 32 (nat (from_le (drop 32 signature) + ed_L)))"
proof -
  let ?s = "from_le (drop 32 signature)"
  have acc: "length public = 32" "length signature = 64" "?s < ed_L"
    "\<exists>a r. ed_decompress public = Some a \<and> ed_decompress (take 32 signature) = Some r \<and>
       ed_equal (ed_mul ?s ed_G) (ed_add r (ed_mul (hash_int (take 32 signature @ public @ message) mod ed_L) a))"
    using assms by (auto simp: verify_bytes_def Let_def split: if_splits option.splits)
  have "0 \<le> ?s" by (simp add: from_le_def)
  then have "nat (?s + ed_L) < 256 ^ 32" using acc(3) by (simp add: ed_L_def)
  then have "from_le (le_bytes 32 (nat (?s + ed_L))) = ?s + ed_L"
    using \<open>0 \<le> ?s\<close> by (simp add: from_le_def le_value_le_bytes ed_L_def)
  then have "\<not> verify_bytes public message (take 32 signature @ le_bytes 32 (nat (?s + ed_L)))"
    using acc(2) \<open>0 \<le> ?s\<close> by (simp add: verify_bytes_def Let_def split: option.splits)
  then show ?thesis using acc by blast
qed

text \<open>
  The neutral element as a public key: every multiple of it is neutral, so one fixed signature verifies every
  message under it (RFC 8032 does not exclude such keys).
\<close>

definition neutral_shape :: "ed_point \<Rightarrow> bool" where
  "neutral_shape p \<longleftrightarrow> (\<exists>z. p = (0, z, z, 0))"

lemma neutral_add: "neutral_shape p \<Longrightarrow> neutral_shape q \<Longrightarrow> neutral_shape (ed_add p q)"
proof -
  assume "neutral_shape p" and "neutral_shape q"
  then obtain z w where pq: "p = (0, z, z, 0)" "q = (0, w, w, 0)" by (auto simp: neutral_shape_def)
  have "(2 * z * w mod ed_P) * (z * w mod ed_P + z * w mod ed_P) mod ed_P =
      (2 * z * w mod ed_P) * (2 * z * w mod ed_P) mod ed_P"
    by (simp add: mod_mult_right_eq flip: mult_2) (metis mod_mult_right_eq mult.assoc mult.left_commute)
  then show ?thesis unfolding pq by (simp add: ed_add_def neutral_shape_def Let_def)
qed

lemma neutral_mul_loop: "neutral_shape p \<Longrightarrow> neutral_shape r \<Longrightarrow> neutral_shape (ed_mul_loop k p r)"
proof (induction k p r rule: ed_mul_loop.induct)
  case (1 k p r)
  then show ?case
    by (subst ed_mul_loop.simps) (simp add: neutral_add)
qed

lemma neutral_equal: "neutral_shape p \<Longrightarrow> ed_equal (0, 1, 1, 0) p"
  by (auto simp: neutral_shape_def ed_equal_def)

definition neutral_key :: bytes where
  "neutral_key = 1 # replicate 31 0"

lemma neutral_signature_verifies: "verify_bytes neutral_key message (neutral_key @ replicate 32 0)"
proof -
  have pt: "ed_decompress neutral_key = Some (0, 1, 1, 0)" by (simp only: neutral_key_def decompress_one)
  have s: "from_le (replicate 32 0) = 0" by (simp add: from_le_def numeral_eq_Suc)
  have "neutral_shape (0, 1, 1, 0)" by (simp add: neutral_shape_def)
  then have "neutral_shape (ed_add (0, 1, 1, 0) (ed_mul k (0, 1, 1, 0)))" for k
    by (simp add: ed_mul_def neutral_add neutral_mul_loop)
  then have "ed_equal (0, 1, 1, 0) (ed_add (0, 1, 1, 0) (ed_mul k (0, 1, 1, 0)))" for k
    using neutral_equal by blast
  moreover have "ed_mul 0 ed_G = (0, 1, 1, 0)" by (simp add: ed_mul_def ed_mul_loop.simps)
  moreover have "length neutral_key = 32" by (simp add: neutral_key_def)
  ultimately show ?thesis
    by (simp add: verify_bytes_def pt s ed_L_def Let_def)
qed

lemma verify_bytes_strict_witness:
  "\<not> verify_bytes neutral_key [] (take 32 (neutral_key @ replicate 32 0) @
     le_bytes 32 (nat (from_le (drop 32 (neutral_key @ replicate 32 0)) + ed_L)))"
  using verify_bytes_strict [OF neutral_signature_verifies] by blast

lemma verify_body_iff:
  "verify_body key body sg \<longleftrightarrow>
     (\<exists>k s. strip key = public_prefix @ k \<and> fullmatch hex32_rx k \<and>
            sg = signature_prefix @ s \<and> fullmatch hex64_rx s \<and>
            verify_bytes (hex_bytes k) (canonical_bytes body) (hex_bytes s))"
  by (auto simp: verify_body_def parse_key_text_def config_error_def Let_def startswith_iff after_prefix_def split: sum.splits)

lemma verify_body_prefixes: "verify_body key body sg \<Longrightarrow> is_public_key key \<and> startswith sg signature_prefix"
  by (auto simp: verify_body_iff is_public_key_def)

lemma hex_char_ascii: "n < 16 \<Longrightarrow> is_lower_hex (hex_char n)"
  by (auto simp: hex_char_def is_lower_hex_def is_digit_def of_char_of)

lemma hex_str_lower: "\<forall>b \<in> set bs. b < 256 \<Longrightarrow> list_all is_lower_hex (hex_str bs)"
  by (auto simp: hex_str_def list_all_iff hex_char_ascii)

text \<open>The two kinds of signature never mix, and each is accepted for exactly one reason: under a public key, a
  non-empty signature is accepted exactly when it is the \<open>ed25519:\<close> text of 64 bytes that verify over the canonical
  form of the document; under a shared secret exactly when it is the HMAC-SHA-256 of that form and does not carry the
  \<open>ed25519:\<close> prefix.  In particular an HMAC made with the text of a public key is refused (no downgrade).\<close>

theorem signature_kinds_never_mix:
  "signature_matches key body sg = Ok True \<longleftrightarrow>
     (if is_public_key key
      then \<exists>k s. strip key = public_prefix @ k \<and> length k = 64 \<and> list_all is_lower_hex k \<and>
             sg = signature_prefix @ s \<and> length s = 128 \<and> list_all is_lower_hex s \<and>
             verify_bytes (hex_bytes k) (canonical_bytes body) (hex_bytes s)
      else sg \<noteq> [] \<and> \<not> startswith sg signature_prefix \<and> is_ascii sg \<and> sg = hmac_hex key (canonical_bytes body))"
proof (cases "is_public_key key")
  case True
  have "sg \<noteq> []" if "verify_body key body sg"
    using verify_body_prefixes [OF that] by (auto simp: startswith_def signature_prefix_def)
  then have "signature_matches key body sg = Ok True \<longleftrightarrow> verify_body key body sg"
    using True by (auto simp: signature_matches_def)
  then show ?thesis
    using True by (auto simp: verify_body_iff hex32_rx_def hex64_rx_def rx_class_simps)
next
  case False
  then show ?thesis by (auto simp: signature_matches_def compare_digest_def)
qed

end
