(* ===== verification/Trust_Store.thy ===== *)
theory Trust_Store
  imports Signing
begin

text \<open>
  \<open>trust_store.py\<close>: the public keys a host accepts, each under an alias, and the revoked aliases.  Proved:
  only well-formed public keys ever get in, a revoked alias never verifies again, a signature is attributed to
  the alphabetically first alias whose key made it, and the written form reads back to the same store.
\<close>

subsection \<open>The store\<close>

definition alias_char :: "char \<Rightarrow> bool" where
  "alias_char c = (is_alnum c \<or> c \<in> {CHR '' '', CHR ''.'', CHR ''_'', CHR ''@'', CHR ''-''})"

definition alias_rx :: rx where
  "alias_rx = RCat (RSet is_alnum) (rx_upto 39 (RSet alias_char))"

definition public_rx :: rx where
  "public_rx = RCat (rx_lit public_prefix) (rx_between 64 64 (RSet is_lower_hex))"

definition valid_alias :: "string \<Rightarrow> bool" where
  "valid_alias alias = (match_dollar alias_rx alias \<and> alias = strip alias)"

record trust_store =
  ts_keys :: "string dict"
  ts_revoked :: "string set"

definition empty_store :: trust_store where
  "empty_store = \<lparr>ts_keys = [], ts_revoked = {}\<rparr>"

definition active_aliases :: "trust_store \<Rightarrow> string list" where
  "active_aliases store = sort (filter (\<lambda>alias. alias \<notin> ts_revoked store) (map fst (ts_keys store)))"

definition key_for :: "trust_store \<Rightarrow> string \<Rightarrow> string option" where
  "key_for store alias = (if alias \<in> ts_revoked store then None else map_of (ts_keys store) alias)"

definition identify :: "trust_store \<Rightarrow> json \<Rightarrow> string \<Rightarrow> string option" where
  "identify store body signature =
     find (\<lambda>alias. case map_of (ts_keys store) alias of None \<Rightarrow> False | Some key \<Rightarrow> verify_body key body signature)
       (active_aliases store)"

definition ts_verify :: "trust_store \<Rightarrow> json \<Rightarrow> string \<Rightarrow> string option \<Rightarrow> bool" where
  "ts_verify store body signature signer =
     (case signer of
        None \<Rightarrow> identify store body signature \<noteq> None
      | Some s \<Rightarrow> (case key_for store s of None \<Rightarrow> False | Some key \<Rightarrow> verify_body key body signature))"

definition trust_to_dict :: "trust_store \<Rightarrow> json" where
  "trust_to_dict store =
     JObj [(''trusted_keys'', JObj (map (\<lambda>(k, v). (k, JStr v)) (sorted_items (ts_keys store)))),
           (''revoked'', JArr (map JStr (sorted_list_of_set (ts_revoked store))))]"

definition with_key :: "trust_store \<Rightarrow> string \<Rightarrow> string \<Rightarrow> trust_store result" where
  "with_key store alias public_key =
     (if \<not> valid_alias alias then
        config_error [Msg ''an alias must be 1 to 40 letters, digits, spaces or ._@-'' []]
      else if startswith (strip public_key) seed_prefix then
        config_error [Msg ''that is a private key: the trust store holds public keys only'' []]
      else if \<not> match_dollar public_rx (strip public_key) then
        config_error [Msg ''the public key must look like {}<64 hex digits>'' [JStr public_prefix]]
      else if (case map_of (ts_keys store) alias of None \<Rightarrow> False | Some k \<Rightarrow> k \<noteq> strip public_key) then
        config_error [Msg ''the alias {} already holds another key: revoke it and use a new alias'' [JStr alias]]
      else Ok (store\<lparr>ts_keys := dict_set alias (strip public_key) (ts_keys store)\<rparr>))"

definition with_revoked :: "trust_store \<Rightarrow> string \<Rightarrow> trust_store result" where
  "with_revoked store alias =
     (if map_of (ts_keys store) alias = None then
        config_error [Msg ''the alias {} is not in the trust store'' [JStr alias]]
      else Ok (store\<lparr>ts_revoked := insert alias (ts_revoked store)\<rparr>))"

text \<open>\<open>data.get("revoked", [])\<close> when it is a list of strings.\<close>

definition read_revoked :: "json dict \<Rightarrow> string list option" where
  "read_revoked d = (case map_of d ''revoked'' of
     None \<Rightarrow> Some []
   | Some (JArr vs) \<Rightarrow> if list_all is_str vs then Some (map str_of vs) else None
   | Some _ \<Rightarrow> None)"

text \<open>One entry of \<open>trusted_keys\<close>: the keys kept so far and the problems.\<close>

definition read_key :: "string \<times> json \<Rightarrow> string dict \<times> msg list \<Rightarrow> string dict \<times> msg list" where
  "read_key e acc = (case (e, acc) of ((alias, v), (keys, problems)) \<Rightarrow>
     if \<not> valid_alias alias then
       (keys, problems @ [Msg ''trusted_keys: an alias must be 1 to 40 letters, digits, spaces or ._@- ({} was left out)''
          [JStr (take 20 alias)]])
     else if is_str v \<and> startswith (strip (str_of v)) seed_prefix then
       (keys, problems @ [Msg ''trusted_keys: the entry of {} is a private key and was left out (the store holds public keys only)''
          [JStr alias]])
     else if \<not> is_str v \<or> \<not> match_dollar public_rx (strip (str_of v)) then
       (keys, problems @ [Msg ''trusted_keys: the key of {} is not {}<64 hex digits> and was left out''
          [JStr alias, JStr public_prefix]])
     else (dict_set alias (strip (str_of v)) keys, problems))"

definition trust_store_from_config :: "json \<Rightarrow> trust_store \<times> msg list" where
  "trust_store_from_config data =
     (case data of
        JNull \<Rightarrow> (empty_store, [])
      | JObj d \<Rightarrow>
          (let (entries, p0) = (case map_of d ''trusted_keys'' of
                 None \<Rightarrow> ([], [])
               | Some (JObj es) \<Rightarrow> (es, [])
               | Some _ \<Rightarrow> ([], [Msg ''trusted_keys must be an object of alias: public key'' []]));
               (keys, p1) = fold read_key entries ([], p0)
           in case read_revoked d of
                None \<Rightarrow> (\<lparr>ts_keys = keys, ts_revoked = {}\<rparr>, p1 @ [Msg ''revoked must be a list of aliases'' []])
              | Some names \<Rightarrow>
                  (\<lparr>ts_keys = keys, ts_revoked = set names\<rparr>,
                   p1 @ map (\<lambda>a. Msg ''revoked: {} is not a trusted alias'' [JStr a])
                     (filter (\<lambda>a. map_of keys a = None) names)))
      | _ \<Rightarrow> (empty_store, [Msg ''the trust store must be a JSON object'' []]))"

subsection \<open>What gets in\<close>

text \<open>The entries a store may hold: a valid alias and the text of a public key, with no surrounding space.\<close>

definition key_text_ok :: "string \<Rightarrow> bool" where
  "key_text_ok v \<longleftrightarrow> (\<exists>h. v = public_prefix @ h \<and> length h = 64 \<and> list_all is_lower_hex h)"

definition store_ok :: "trust_store \<Rightarrow> bool" where
  "store_ok store \<longleftrightarrow> dict_ok (ts_keys store) \<and> finite (ts_revoked store) \<and>
     (\<forall>(alias, v) \<in> set (ts_keys store). valid_alias alias \<and> strip v = v \<and> key_text_ok v)"

inductive trust_step :: "trust_store \<Rightarrow> trust_store \<Rightarrow> bool" where
  add: "with_key store alias key = Ok store' \<Longrightarrow> trust_step store store'"
| revoke: "with_revoked store alias = Ok store' \<Longrightarrow> trust_step store store'"

inductive_cases trust_stepE: "trust_step store store'"

lemma public_rx_iff: "match_dollar public_rx (strip v) \<longleftrightarrow> key_text_ok (strip v)"
proof -
  have "rx_match (RCat (rx_lit public_prefix) (rx_between 64 64 (RSet is_lower_hex))) s \<longleftrightarrow>
      (\<exists>h. s = public_prefix @ h \<and> length h = 64 \<and> list_all is_lower_hex h)" for s
    by (auto simp: rx_match_simps(4) rx_match_lit rx_match_between_set)
  then show ?thesis
    by (simp add: match_dollar_strip fullmatch_iff public_rx_def key_text_ok_def)
qed

lemma key_text_not_seed: "key_text_ok v \<Longrightarrow> \<not> startswith v seed_prefix"
  by (auto simp: key_text_ok_def startswith_def seed_prefix_def public_prefix_def)

lemma dict_set_items: "set (dict_set k v d) \<subseteq> insert (k, v) (set d)"
  by (induction k v d rule: dict_set.induct) auto

definition keys_ok :: "string dict \<Rightarrow> bool" where
  "keys_ok d \<longleftrightarrow> dict_ok d \<and> (\<forall>(alias, v) \<in> set d. valid_alias alias \<and> strip v = v \<and> key_text_ok v)"

lemma store_ok_keys: "store_ok store \<longleftrightarrow> keys_ok (ts_keys store) \<and> finite (ts_revoked store)"
  by (auto simp: store_ok_def keys_ok_def)

lemma keys_ok_set:
  "keys_ok d \<Longrightarrow> valid_alias a \<Longrightarrow> key_text_ok (strip v) \<Longrightarrow> keys_ok (dict_set a (strip v) d)"
  using dict_set_items [of a "strip v" d] by (fastforce simp: keys_ok_def dict_ok_set)

lemma with_key_Ok:
  assumes "with_key store alias key = Ok store'"
  shows "store' = store\<lparr>ts_keys := dict_set alias (strip key) (ts_keys store)\<rparr>"
    and "valid_alias alias" and "key_text_ok (strip key)"
    and "\<And>k. map_of (ts_keys store) alias = Some k \<Longrightarrow> k = strip key"
  using assms by (auto simp: with_key_def config_error_def public_rx_iff split: if_splits option.splits)

lemma with_revoked_Ok:
  "with_revoked store alias = Ok store' \<longleftrightarrow>
     map_of (ts_keys store) alias \<noteq> None \<and> store' = store\<lparr>ts_revoked := insert alias (ts_revoked store)\<rparr>"
  by (auto simp: with_revoked_def config_error_def)

lemma trust_step_ok: "trust_step store store' \<Longrightarrow> store_ok store \<Longrightarrow> store_ok store'"
proof (elim trust_stepE)
  fix a key assume ok: "store_ok store" and w: "with_key store a key = Ok store'"
  show "store_ok store'" using ok with_key_Ok [OF w] by (simp add: store_ok_keys keys_ok_set)
next
  fix a assume "store_ok store" and "with_revoked store a = Ok store'"
  then show "store_ok store'" by (auto simp: with_revoked_Ok store_ok_keys)
qed

lemma read_key_ok: "keys_ok (fst acc) \<Longrightarrow> keys_ok (fst (read_key e acc))"
  by (cases e; cases acc) (auto simp: read_key_def public_rx_iff keys_ok_set)

lemma fold_read_key_ok: "keys_ok (fst acc) \<Longrightarrow> keys_ok (fst (fold read_key es acc))"
  by (induction es arbitrary: acc) (simp_all add: read_key_ok)

lemma from_config_ok: "store_ok (fst (trust_store_from_config data))"
proof (cases data)
  case (JObj d)
  define ep where "ep = (case map_of d ''trusted_keys'' of
                 None \<Rightarrow> ([], [])
               | Some (JObj es) \<Rightarrow> (es, [])
               | Some _ \<Rightarrow> ([], [Msg ''trusted_keys must be an object of alias: public key'' []]))"
  have "keys_ok (fst (fold read_key (fst ep) ([], snd ep)))"
    by (rule fold_read_key_ok) (simp add: keys_ok_def)
  then show ?thesis
    by (auto simp: JObj trust_store_from_config_def ep_def [symmetric] store_ok_keys Let_def
        split: prod.splits option.splits)
qed (simp_all add: trust_store_from_config_def empty_store_def store_ok_def)

text \<open>C11: Whatever document a store is read from and whatever keys are added or revoked afterwards, it holds only the
  texts of public keys under valid aliases: no private seed, nothing malformed, each alias once.\<close>

theorem store_holds_public_keys_only:
  assumes "trust_step\<^sup>*\<^sup>* (fst (trust_store_from_config data)) store" and "(alias, v) \<in> set (ts_keys store)"
  shows "valid_alias alias \<and> key_text_ok v \<and> is_public_key v \<and> \<not> startswith v seed_prefix \<and>
    map_of (ts_keys store) alias = Some v"
proof -
  have "store_ok store"
    using assms(1) by (induction rule: rtranclp_induct) (simp_all add: from_config_ok trust_step_ok)
  then have "valid_alias alias" "strip v = v" "key_text_ok v" "map_of (ts_keys store) alias = Some v"
    using assms(2) by (auto simp: store_ok_def map_of_mem_iff)
  then show ?thesis
    by (auto simp: is_public_key_def key_text_not_seed) (auto simp: key_text_ok_def)
qed

definition sample_key :: string where
  "sample_key = public_prefix @ replicate 64 (CHR ''a'')"

definition sample_store :: trust_store where
  "sample_store = \<lparr>ts_keys = [(''Ana'', sample_key)], ts_revoked = {}\<rparr>"

lemma sample_store_read: "trust_store_from_config (JObj [(''trusted_keys'', JObj [(''Ana'', JStr sample_key)])]) = (sample_store, [])"
  by code_simp

lemma store_holds_public_keys_only_witness: "is_public_key sample_key"
proof -
  have "(''Ana'', sample_key) \<in> set (ts_keys sample_store)" by (simp add: sample_store_def)
  moreover have "trust_step\<^sup>*\<^sup>* (fst (trust_store_from_config (JObj [(''trusted_keys'', JObj [(''Ana'', JStr sample_key)])]))) sample_store"
    by (simp add: sample_store_read)
  ultimately show ?thesis using store_holds_public_keys_only by blast
qed

subsection \<open>Revocation and attribution\<close>

definition vouches :: "trust_store \<Rightarrow> json \<Rightarrow> string \<Rightarrow> string \<Rightarrow> bool" where
  "vouches store body signature a \<longleftrightarrow> a \<notin> ts_revoked store \<and>
     (\<exists>key. map_of (ts_keys store) a = Some key \<and> verify_body key body signature)"

lemma ts_verify_Some: "ts_verify store body signature (Some a) \<longleftrightarrow> vouches store body signature a"
  by (auto simp: ts_verify_def key_for_def vouches_def split: option.splits)

lemma find_sorted_first:
  fixes xs :: "'a::linorder list"
  assumes "sorted xs"
  shows "find P xs = Some a \<longleftrightarrow> a \<in> set xs \<and> P a \<and> (\<forall>b \<in> set xs. P b \<longrightarrow> a \<le> b)"
  using assms by (induction xs) (auto intro: antisym)

lemma active_iff: "a \<in> set (active_aliases store) \<longleftrightarrow> a \<in> fst ` set (ts_keys store) \<and> a \<notin> ts_revoked store"
  by (auto simp: active_aliases_def)

lemma active_vouches:
  "a \<in> set (active_aliases store) \<and>
     (case map_of (ts_keys store) a of None \<Rightarrow> False | Some key \<Rightarrow> verify_body key body signature)
   \<longleftrightarrow> vouches store body signature a"
  by (auto simp: active_iff vouches_def split: option.splits dest: map_of_SomeD intro: rev_image_eqI)

lemma identify_Some:
  "identify store body signature = Some a \<longleftrightarrow>
     vouches store body signature a \<and> (\<forall>b. vouches store body signature b \<longrightarrow> a \<le> b)"
proof -
  have "sorted (active_aliases store)" by (simp add: active_aliases_def)
  then show ?thesis
    unfolding identify_def find_sorted_first [OF \<open>sorted _\<close>] active_vouches [symmetric] by blast
qed

lemma identify_None: "identify store body signature = None \<longleftrightarrow> (\<forall>a. \<not> vouches store body signature a)"
  unfolding identify_def find_None_iff active_vouches [symmetric] by blast

text \<open>A signature is attributed to the alphabetically first alias that is trusted, not revoked and whose key
  verifies it; without such an alias it has no signer.  \<open>verify\<close> with no named signer accepts exactly the signatures
  that have one, and with a named signer exactly those this alias's key made while it is not revoked.\<close>

theorem signatures_are_attributed:
  "(identify store body sg = Some a \<longleftrightarrow>
      ts_verify store body sg (Some a) \<and> (\<forall>b. ts_verify store body sg (Some b) \<longrightarrow> a \<le> b)) \<and>
   (ts_verify store body sg None \<longleftrightarrow> (\<exists>b. ts_verify store body sg (Some b))) \<and>
   (ts_verify store body sg (Some a) \<longleftrightarrow>
      a \<notin> ts_revoked store \<and> (\<exists>key. map_of (ts_keys store) a = Some key \<and> verify_body key body sg))"
  unfolding ts_verify_Some identify_Some
  by (auto simp: vouches_def [symmetric] ts_verify_def identify_None)

definition neutral_store :: trust_store where
  "neutral_store = \<lparr>ts_keys = [(''Ana'', public_prefix @ hex_str neutral_key)], ts_revoked = {}\<rparr>"

definition neutral_signature :: string where
  "neutral_signature = signature_prefix @ hex_str (neutral_key @ replicate 32 0)"

lemma lower_hex_not_space: "is_lower_hex c \<Longrightarrow> \<not> is_space c"
  by (auto simp: is_lower_hex_def is_digit_def is_space_def Let_def)

lemma neutral_key_strip: "strip (public_prefix @ hex_str neutral_key) = public_prefix @ hex_str neutral_key"
proof (rule strip_no_space, rule ballI)
  fix c assume "c \<in> set (public_prefix @ hex_str neutral_key)"
  moreover have "list_all is_lower_hex (hex_str neutral_key)"
    by (rule hex_str_lower) (auto simp: neutral_key_def)
  moreover have "\<forall>c \<in> set public_prefix. \<not> is_space c"
    by (simp add: public_prefix_def is_space_def)
  ultimately show "\<not> is_space c" using lower_hex_not_space by (auto simp: list_all_iff)
qed

lemma neutral_verifies: "verify_body (public_prefix @ hex_str neutral_key) body neutral_signature"
proof -
  have k: "\<forall>b \<in> set neutral_key. b < 256" "\<forall>b \<in> set (neutral_key @ replicate 32 0). b < 256" "length neutral_key = 32"
    by (auto simp: neutral_key_def)
  have "fullmatch hex32_rx (hex_str neutral_key)" and "fullmatch hex64_rx (hex_str (neutral_key @ replicate 32 0))"
    using hex_str_lower [OF k(1)] hex_str_lower [OF k(2)] k(3)
    by (simp_all add: hex32_rx_def hex64_rx_def rx_class_simps)
  moreover have "verify_bytes (hex_bytes (hex_str neutral_key)) (canonical_bytes body)
      (hex_bytes (hex_str (neutral_key @ replicate 32 0)))"
    unfolding hex_bytes_hex_str [OF k(1)] hex_bytes_hex_str [OF k(2)] by (rule neutral_signature_verifies)
  ultimately show ?thesis
    unfolding verify_body_iff neutral_signature_def using neutral_key_strip by blast
qed

lemma signatures_are_attributed_witness: "identify neutral_store (JObj []) neutral_signature = Some ''Ana''"
proof -
  have "ts_verify neutral_store (JObj []) neutral_signature (Some b) \<longleftrightarrow> b = ''Ana''" for b
    by (auto simp: ts_verify_Some vouches_def neutral_store_def neutral_verifies split: if_splits)
  then show ?thesis
    using signatures_are_attributed [of neutral_store "JObj []" neutral_signature "''Ana''"] by simp
qed

text \<open>C10: Revocation is final: once an alias is revoked, no later addition or revocation makes it verify, or be named as
  the signer of anything, again; and an alias that holds a key keeps that very key for ever.\<close>

theorem revocation_is_final:
  assumes "with_revoked store a = Ok store1" and "trust_step\<^sup>*\<^sup>* store1 store2"
  shows "\<not> ts_verify store2 body sg (Some a) \<and> identify store2 body sg \<noteq> Some a \<and> key_for store2 a = None \<and>
    (\<forall>b key. map_of (ts_keys store) b = Some key \<longrightarrow> map_of (ts_keys store2) b = Some key)"
proof -
  have step: "ts_revoked s \<subseteq> ts_revoked s' \<and> map_of (ts_keys s) \<subseteq>\<^sub>m map_of (ts_keys s')" if "trust_step s s'" for s s'
    using that
  proof (elim trust_stepE)
    fix b key assume w: "with_key s b key = Ok s'"
    show ?thesis using with_key_Ok(1,4) [OF w] by (auto simp: map_le_def)
  qed (auto simp: with_revoked_Ok)
  have "ts_revoked store1 \<subseteq> ts_revoked store2 \<and> map_of (ts_keys store1) \<subseteq>\<^sub>m map_of (ts_keys store2)"
    using assms(2) by (induction rule: rtranclp_induct) (auto dest!: step intro: map_le_trans)
  moreover have "a \<in> ts_revoked store1" "ts_keys store1 = ts_keys store"
    using assms(1) by (auto simp: with_revoked_Ok)
  ultimately have "a \<in> ts_revoked store2" "map_of (ts_keys store) \<subseteq>\<^sub>m map_of (ts_keys store2)" by auto
  then show ?thesis
    by (auto simp: ts_verify_Some vouches_def identify_Some key_for_def map_le_def dom_def)
qed

lemma revocation_is_final_witness:
  "\<not> ts_verify (sample_store\<lparr>ts_revoked := {''Ana''}\<rparr>) (JObj []) (''ed25519:'' @ replicate 128 (CHR ''0'')) (Some ''Ana'')"
proof -
  have "with_revoked sample_store ''Ana'' = Ok (sample_store\<lparr>ts_revoked := {''Ana''}\<rparr>)"
    by (simp add: with_revoked_def sample_store_def)
  from revocation_is_final [OF this] show ?thesis by blast
qed

subsection \<open>Writing and reading back\<close>

lemma fold_read_key_written:
  assumes "keys_ok (acc @ es)"
  shows "fold read_key (map (\<lambda>(k, v). (k, JStr v)) es) (acc, p) = (acc @ es, p)"
  using assms
proof (induction es arbitrary: acc)
  case (Cons e es)
  obtain k v where e: "e = (k, v)" by (cases e)
  have kv: "valid_alias k" "strip v = v" "key_text_ok v" "k \<notin> fst ` set acc"
    using Cons.prems by (auto simp: keys_ok_def e dict_ok_def)
  then have "read_key (k, JStr v) (acc, p) = (acc @ [(k, v)], p)"
    using public_rx_iff [of v] by (simp add: read_key_def key_text_not_seed dict_set_new)
  then show ?case using Cons.IH [of "acc @ [(k, v)]"] Cons.prems by (simp add: e)
qed simp

text \<open>Writing a store and reading the document back gives the same keys (in alphabetical order), the same
  revoked aliases and no problem, for every store whose revoked aliases it knows.\<close>

theorem trust_store_roundtrip:
  assumes "store_ok store" and "ts_revoked store \<subseteq> fst ` set (ts_keys store)"
  shows "trust_store_from_config (trust_to_dict store) = (store\<lparr>ts_keys := sorted_items (ts_keys store)\<rparr>, [])"
proof -
  let ?keys = "sorted_items (ts_keys store)"
  have keys: "keys_ok ?keys"
    using assms(1) by (auto simp: store_ok_keys keys_ok_def dict_ok_sorted_items)
  have "fold read_key (map (\<lambda>(k, v). (k, JStr v)) ?keys) ([], []) = (?keys, [])"
    using fold_read_key_written [of "[]" ?keys] keys by simp
  moreover have "a \<in> ts_revoked store \<Longrightarrow> map_of ?keys a \<noteq> None" for a
    using assms(2) by (auto simp: map_of_eq_None_iff)
  then have "filter (\<lambda>a. map_of ?keys a = None) (sorted_list_of_set (ts_revoked store)) = []"
    using assms(1) by (simp add: filter_empty_conv store_ok_def)
  moreover have "list_all is_str (map JStr ns)" for ns
    by (induction ns) simp_all
  ultimately show ?thesis
    using assms(1)
    by (simp add: trust_to_dict_def trust_store_from_config_def read_revoked_def store_ok_def)
qed

lemma trust_store_roundtrip_witness:
  "trust_store_from_config (trust_to_dict (sample_store\<lparr>ts_revoked := {''Ana''}\<rparr>)) =
     (sample_store\<lparr>ts_revoked := {''Ana''}, ts_keys := sorted_items (ts_keys sample_store)\<rparr>, [])"
proof -
  have "store_ok sample_store"
    using from_config_ok [of "JObj [(''trusted_keys'', JObj [(''Ana'', JStr sample_key)])]"]
    by (simp add: sample_store_read)
  then show ?thesis
    by (subst trust_store_roundtrip) (simp_all add: store_ok_def sample_store_def)
qed

end
