(* ===== verification/Iso_Time.thy ===== *)
theory Iso_Time
  imports Results Regex
begin

text \<open>
  \<open>datetime\<close> as far as the code uses it: reading an ISO 8601 text (\<open>fromisoformat\<close> of CPython 3.11, with its
  separator search and its tolerance for fractions), and writing a UTC moment.  A moment is the number of
  microseconds since the start of proleptic day 0; years run from 1 to 9999.
\<close>

subsection \<open>Days\<close>

definition leap_year :: "int \<Rightarrow> bool" where
  "leap_year y = (y mod 4 = 0 \<and> (y mod 100 \<noteq> 0 \<or> y mod 400 = 0))"

definition month_length :: "int \<Rightarrow> nat \<Rightarrow> int" where
  "month_length y m = (if m = 2 then (if leap_year y then 29 else 28) else if m \<in> {4, 6, 9, 11} then 30 else 31)"

definition days_before_year :: "int \<Rightarrow> int" where
  "days_before_year y = (let k = y - 1 in k * 365 + k div 4 - k div 100 + k div 400)"

definition day_number :: "int \<Rightarrow> int \<Rightarrow> int \<Rightarrow> int option" where
  "day_number y m d =
     (if 1 \<le> y \<and> y \<le> 9999 \<and> 1 \<le> m \<and> m \<le> 12 \<and> 1 \<le> d \<and> d \<le> month_length y (nat m)
      then Some (days_before_year y + sum_list (map (month_length y) [1..<nat m]) + d) else None)"

definition last_day :: int where
  "last_day = 3652059"

text \<open>Day \<open>d\<close> of ISO week \<open>w\<close>; weeks start on Monday, week 1 holds the first Thursday.\<close>

definition iso_week_day :: "int \<Rightarrow> int \<Rightarrow> int \<Rightarrow> int option" where
  "iso_week_day y w d =
     (if y < 1 \<or> y > 9999 then None
      else (let first = days_before_year y + 1; wd = (first + 6) mod 7;
                weeks = (if wd = 3 \<or> (wd = 2 \<and> leap_year y) then 53 else 52);
                monday = (if wd > 3 then first - wd + 7 else first - wd);
                n = monday + (w - 1) * 7 + d - 1
            in if w < 1 \<or> w > weeks \<or> d < 1 \<or> d > 7 \<or> n < 1 \<or> n > last_day then None else Some n))"

subsection \<open>Reading\<close>

definition digits_value :: "string \<Rightarrow> int" where
  "digits_value s = foldl (\<lambda>a c. 10 * a + (of_char c - 48)) 0 s"

definition read_digits :: "nat \<Rightarrow> string \<Rightarrow> (int \<times> string) option" where
  "read_digits n s = (if length s < n \<or> \<not> list_all is_digit (take n s) then None
     else Some (digits_value (take n s), drop n s))"

definition char_at :: "string \<Rightarrow> nat \<Rightarrow> char \<Rightarrow> bool" where
  "char_at s i c = (i < length s \<and> s ! i = c)"

text \<open>Where the date ends.\<close>

definition date_end :: "string \<Rightarrow> nat option" where
  "date_end s =
     (let n = length s in
      if n = 7 then Some 7
      else if char_at s 4 (CHR ''-'') then
        (if char_at s 5 (CHR ''W'') then
           (if n > 8 \<and> char_at s 8 (CHR ''-'') then
              (if n = 9 then None else if n > 10 \<and> is_digit (s ! 10) then Some 8 else Some 10)
            else Some 8)
         else Some 10)
      else if char_at s 4 (CHR ''W'') then
        (let k = 7 + length (takeWhile is_digit (drop 7 s))
         in if k < 9 then Some k else if even k then Some 7 else Some 8)
      else Some 8)"

definition read_week_date :: "string \<Rightarrow> nat \<Rightarrow> bool \<Rightarrow> int \<Rightarrow> string \<Rightarrow> int option" where
  "read_week_date s n sep y p = Option.bind (read_digits 2 p) (\<lambda>(w, p).
     if length s - length p < n then
       (if sep \<and> \<not> char_at p 0 (CHR ''-'') then None
        else Option.bind (read_digits 1 (if sep then tl p else p)) (\<lambda>(d, _). iso_week_day y w d))
     else iso_week_day y w 1)"

definition read_date :: "string \<Rightarrow> nat \<Rightarrow> int option" where
  "read_date s n = Option.bind (read_digits 4 s) (\<lambda>(y, p).
     let sep = char_at p 0 (CHR ''-''); p = (if sep then tl p else p) in
     if char_at p 0 (CHR ''W'') then read_week_date s n sep y (tl p)
     else Option.bind (read_digits 2 p) (\<lambda>(m, p).
       if sep \<and> \<not> char_at p 0 (CHR ''-'') then None
       else Option.bind (read_digits 2 (if sep then tl p else p)) (\<lambda>(d, p).
         if length s - length p \<noteq> n then None else day_number y m d)))"

text \<open>
  \<open>HH[[:]MM[[:]SS[.ffffff...]]]\<close>: the seconds, the microseconds, and whether something follows; \<open>stop\<close> is how
  many characters there are before the time zone.
\<close>

definition read_fraction :: "string \<Rightarrow> int \<Rightarrow> int \<Rightarrow> (int \<times> int \<times> bool) option" where
  "read_fraction s secs stop =
     (let n = nat (min 6 stop) in Option.bind (read_digits n s) (\<lambda>(v, r).
        Some (secs, v * 10 ^ (6 - n), dropWhile is_digit r \<noteq> [])))"

definition unit_limit :: "nat \<Rightarrow> int" where
  "unit_limit i = (if i = 0 then 24 else 60)"

text \<open>The first component is false when a component is out of its range (checked later by the caller).\<close>

fun read_time_parts :: "nat \<Rightarrow> nat \<Rightarrow> bool \<Rightarrow> bool \<Rightarrow> int \<Rightarrow> int \<Rightarrow> string \<Rightarrow> (bool \<times> int \<times> int \<times> bool) option" where
  "read_time_parts 0 i valid sep secs stop s =
     Option.bind (read_fraction s secs stop) (\<lambda>(a, b, c). Some (valid, a, b, c))"
| "read_time_parts (Suc n) i valid sep secs stop s = Option.bind (read_digits 2 s) (\<lambda>(v, s).
     let secs = secs + v * (if i = 0 then 3600 else if i = 1 then 60 else 1);
         valid = (valid \<and> v < unit_limit i); stop = stop - 2;
         sep = (if i = 0 then char_at s 0 (CHR '':'') else sep)
     in if stop - 1 \<le> 0 then Some (valid, secs, 0, s \<noteq> [])
        else if sep \<and> char_at s 0 (CHR '':'') then read_time_parts n (Suc i) valid sep secs (stop - 1) (tl s)
        else if char_at s 0 (CHR ''.'') \<or> char_at s 0 (CHR '','') then
          Option.bind (read_fraction (tl s) secs (stop - 1)) (\<lambda>(a, b, c). Some (valid, a, b, c))
        else if \<not> sep then read_time_parts n (Suc i) valid sep secs stop s
        else None)"

text \<open>The microseconds of the day and, with a time zone, its offset in microseconds.\<close>

definition read_time :: "string \<Rightarrow> (int \<times> int option) option" where
  "read_time t =
     (let h = takeWhile (\<lambda>c. c \<noteq> CHR ''+'' \<and> c \<noteq> CHR ''-'') t; z = drop (length h) t
      in Option.bind (read_time_parts 3 0 True True 0 (int (length h)) t) (\<lambda>(valid, secs, us, more).
         if \<not> valid then None
         else if z = [] then (if more then None else Some (secs * 1000000 + us, None))
         else Option.bind (read_time_parts 3 0 True True 0 (int (length (tl z))) (tl z)) (\<lambda>(_, zs, zus, zmore).
           let offset = (if zs = 0 then 0 else zs * 1000000 + zus) in
           if zmore \<or> offset \<ge> 86400 * 1000000 then None
           else Some (secs * 1000000 + us, Some (if hd z = CHR ''-'' then - offset else offset)))))"

text \<open>The local time and the offset of a text without \<open>Z\<close>, or None for \<open>ValueError\<close>.\<close>

definition from_iso :: "string \<Rightarrow> (int \<times> int option) option" where
  "from_iso s =
     (if length s < 7 then None
      else Option.bind (date_end s) (\<lambda>k. Option.bind (read_date s k) (\<lambda>day.
        if length s > k then
          Option.bind (read_time (drop (Suc k) s)) (\<lambda>(us, offset). Some (day * 86400 * 1000000 + us, offset))
        else Some (day * 86400 * 1000000, None))))"

text \<open>\<open>astimezone(utc)\<close> of a moment with an offset: \<open>OverflowError\<close> outside the calendar.\<close>

definition to_utc :: "int \<Rightarrow> int \<Rightarrow> int result" where
  "to_utc local offset =
     (let t = local - offset; day = t div (86400 * 1000000) in
      if day < 1 \<or> day > last_day then Err (Raise PyOverflowError [Msg ''date value out of range'' []]) else Ok t)"

text \<open>\<open>text.replace("Z", "+00:00")\<close>.\<close>

definition replace_z :: "string \<Rightarrow> string" where
  "replace_z s = concat (map (\<lambda>c. if c = CHR ''Z'' then ''+00:00'' else [c]) s)"

subsection \<open>Writing\<close>

fun month_of :: "int \<Rightarrow> nat \<Rightarrow> nat \<Rightarrow> int \<Rightarrow> nat \<times> int" where
  "month_of y m 0 d = (m, d)"
| "month_of y m (Suc n) d = (if d > month_length y m then month_of y (Suc m) n (d - month_length y m) else (m, d))"

definition civil_date :: "int \<Rightarrow> int \<times> nat \<times> int" where
  "civil_date day =
     (let n = day - 1; n400 = n div 146097; n = n mod 146097;
          n100 = n div 36524; n = n mod 36524;
          n4 = n div 1461; n = n mod 1461;
          n1 = n div 365; n = n mod 365;
          y = n400 * 400 + n100 * 100 + n4 * 4 + n1 + 1
      in if n1 = 4 \<or> n100 = 4 then (y - 1, 12, 31)
         else (case month_of y 1 11 (n + 1) of (m, d) \<Rightarrow> (y, m, d)))"

definition pad :: "nat \<Rightarrow> int \<Rightarrow> string" where
  "pad k n = (let ds = nat_str (nat n) in replicate (k - length ds) (CHR ''0'') @ ds)"

text \<open>\<open>moment.isoformat()\<close> of a UTC moment.\<close>

definition iso_text :: "int \<Rightarrow> string" where
  "iso_text t =
     (let (y, m, d) = civil_date (t div (86400 * 1000000)); us = t mod (86400 * 1000000);
          s = us div 1000000; f = us mod 1000000
      in pad 4 y @ ''-'' @ pad 2 (int m) @ ''-'' @ pad 2 d @ ''T'' @ pad 2 (s div 3600) @ '':'' @
         pad 2 (s mod 3600 div 60) @ '':'' @ pad 2 (s mod 60) @
         (if f = 0 then [] else ''.'' @ pad 6 f) @ ''+00:00'')"

end
