(* ===== verification/Config.thy ===== *)
theory Config
  imports Results Regex
begin

text \<open>
  \<open>config.py\<close>: field readers that accumulate errors, and the three configuration documents
  (host profile, toolchain policy, task policy) with \<open>to_dict\<close> and \<open>from_dict\<close>.  A reader
  returns the value and the errors it appended.
\<close>

subsection \<open>Field readers\<close>

definition require_str :: "json dict \<Rightarrow> string \<Rightarrow> string \<times> msg list" where
  "require_str data field = (case map_of data field of
     Some (JStr s) \<Rightarrow> if s = [] then ([], [Msg ''{} must be a non-empty string'' [JStr field]]) else (s, [])
   | _ \<Rightarrow> ([], [Msg ''{} must be a non-empty string'' [JStr field]]))"

definition require_bool :: "json dict \<Rightarrow> string \<Rightarrow> bool \<Rightarrow> bool \<times> msg list" where
  "require_bool data field dflt = (case map_of data field of
     None \<Rightarrow> (dflt, [])
   | Some (JBool b) \<Rightarrow> (b, [])
   | Some v \<Rightarrow> (dflt, [Msg ''{} must be a real boolean (true/false), not {}'' [JStr field, v]]))"

definition require_positive_int :: "json dict \<Rightarrow> string \<Rightarrow> int \<Rightarrow> int \<times> msg list" where
  "require_positive_int data field dflt = (case map_of data field of
     None \<Rightarrow> (dflt, [])
   | Some (JInt i) \<Rightarrow> if i \<le> 0 then (dflt, [Msg ''{} must be a positive integer, not {}'' [JStr field, JInt i]])
                     else (i, [])
   | Some v \<Rightarrow> (dflt, [Msg ''{} must be a positive integer, not {}'' [JStr field, v]]))"

text \<open>\<open>isinstance(v, list) and all(isinstance(c, str) and c for c in v)\<close>, then the list of strings.\<close>

definition str_list :: "json \<Rightarrow> string list option" where
  "str_list v = (case v of
     JArr vs \<Rightarrow> if list_all nonempty_str vs then Some (map str_of vs) else None
   | _ \<Rightarrow> None)"

definition get_default :: "json dict \<Rightarrow> string \<Rightarrow> json \<Rightarrow> json" where
  "get_default data field v = (case map_of data field of None \<Rightarrow> v | Some w \<Rightarrow> w)"

lemma require_str_present [simp]:
  "map_of d f = Some (JStr s) \<Longrightarrow> s \<noteq> [] \<Longrightarrow> require_str d f = (s, [])"
  by (simp add: require_str_def)

lemma require_str_Nil_iff: "require_str d f = (s, []) \<longleftrightarrow> map_of d f = Some (JStr s) \<and> s \<noteq> []"
  by (auto simp: require_str_def split: option.splits json.splits if_splits)

lemma require_str_errors: "snd (require_str d f) = [] \<longleftrightarrow> fst (require_str d f) \<noteq> []"
  by (auto simp: require_str_def split: option.splits json.splits if_splits)

lemma require_bool_present [simp]: "map_of d f = Some (JBool b) \<Longrightarrow> require_bool d f x = (b, [])"
  by (simp add: require_bool_def)

lemma require_bool_Nil_iff:
  "require_bool d f x = (b, []) \<longleftrightarrow> map_of d f = Some (JBool b) \<or> (map_of d f = None \<and> b = x)"
  by (auto simp: require_bool_def split: option.splits json.splits)

lemma require_bool_true:
  "fst (require_bool d f False) \<longleftrightarrow> map_of d f = Some (JBool True)"
  by (auto simp: require_bool_def split: option.splits json.splits)

lemma require_positive_int_present [simp]:
  "map_of d f = Some (JInt i) \<Longrightarrow> 0 < i \<Longrightarrow> require_positive_int d f x = (i, [])"
  by (simp add: require_positive_int_def)

lemma require_positive_int_pos: "0 < x \<Longrightarrow> 0 < fst (require_positive_int d f x)"
  by (auto simp: require_positive_int_def split: option.splits json.splits if_splits)

lemma str_list_JArr [simp]: "list_all (\<lambda>s. s \<noteq> []) ss \<Longrightarrow> str_list (JArr (map JStr ss)) = Some ss"
  by (simp add: str_list_def list_all_iff)

lemma str_list_nonempty: "str_list v = Some ss \<Longrightarrow> list_all (\<lambda>s. s \<noteq> []) ss"
  by (fastforce simp: str_list_def list_all_iff nonempty_str_conv split: json.splits if_splits)

subsection \<open>HostProfile\<close>

record host_profile =
  hp_hostname :: string
  hp_arch :: string
  hp_storage_root :: string
  hp_created_from :: string

definition valid_created_from :: "string list" where
  "valid_created_from = [''fresh-image'', ''migrated-from-pc'']"

definition host_profile_to_dict :: "host_profile \<Rightarrow> json" where
  "host_profile_to_dict p = JObj
     [(''hostname'', JStr (hp_hostname p)), (''arch'', JStr (hp_arch p)),
      (''storage_root'', JStr (hp_storage_root p)), (''created_from'', JStr (hp_created_from p))]"

definition host_profile_from_dict :: "json \<Rightarrow> host_profile result" where
  "host_profile_from_dict data = (case data of
     JObj d \<Rightarrow>
       (let (hostname, e1) = require_str d ''hostname'';
            (arch, e2) = require_str d ''arch'';
            (root, e3) = require_str d ''storage_root'';
            (created, e4) = require_str d ''created_from'';
            e5 = (if root \<noteq> [] \<and> \<not> startswith root ''/'' then
                    [Msg ''storage_root must be an absolute path, got {}'' [JStr root]] else []);
            e6 = (if created \<noteq> [] \<and> created \<notin> set valid_created_from then
                    [Msg ''created_from must be one of {}, not {}''
                       [JArr (map JStr valid_created_from), JStr created]] else [])
        in finish (e1 @ e2 @ e3 @ e4 @ e5 @ e6)
             \<lparr>hp_hostname = hostname, hp_arch = arch, hp_storage_root = root, hp_created_from = created\<rparr>)
   | _ \<Rightarrow> config_error [Msg ''host profile must be a JSON object'' []])"

subsection \<open>ToolchainPolicy\<close>

record toolchain_policy =
  tool_name :: string
  tool_min_version :: string
  tool_required :: bool

definition toolchain_to_dict :: "toolchain_policy \<Rightarrow> json" where
  "toolchain_to_dict t = JObj
     [(''name'', JStr (tool_name t)), (''min_version'', JStr (tool_min_version t)),
      (''required'', JBool (tool_required t))]"

definition toolchain_from_dict :: "json \<Rightarrow> toolchain_policy result" where
  "toolchain_from_dict data = (case data of
     JObj d \<Rightarrow>
       (let (name, e1) = require_str d ''name'';
            (min_version, e2) = require_str d ''min_version'';
            (required, e3) = require_bool d ''required'' True
        in finish (e1 @ e2 @ e3)
             \<lparr>tool_name = name, tool_min_version = min_version, tool_required = required\<rparr>)
   | _ \<Rightarrow> config_error [Msg ''toolchain entry must be a JSON object'' []])"

subsection \<open>TaskPolicy\<close>

record task_policy =
  allow_deploy :: bool
  max_concurrent_tasks :: int
  allowed_commands :: "string list"
  allowed_arguments :: "string list dict"
  sandbox_mode :: string
  sandbox_required :: bool
  sandbox_network :: bool
  sandbox_read_only_paths :: "string list"
  sandbox_memory_max :: "string option"
  sandbox_cpu_quota :: "string option"
  sandbox_tasks_max :: "int option"
  workspace_retention :: string
  repo_sources :: "string dict"

definition sandbox_modes :: "string list" where
  "sandbox_modes = [''auto'', ''bubblewrap'', ''systemd-run'', ''none'']"

definition retentions :: "string list" where
  "retentions = [''keep'', ''delete-on-success'', ''delete'']"

text \<open>\<open>[1-9][0-9]*[KMGT]?\<close> and \<open>[1-9][0-9]{0,4}%\<close>.\<close>

definition memory_rx :: rx where
  "memory_rx = RCat (RSet (\<lambda>c. is_digit c \<and> c \<noteq> CHR ''0''))
     (RCat (RStar (RSet is_digit)) (rx_opt (RSet (\<lambda>c. c \<in> set ''KMGT''))))"

definition cpu_quota_rx :: rx where
  "cpu_quota_rx = RCat (RSet (\<lambda>c. is_digit c \<and> c \<noteq> CHR ''0''))
     (RCat (rx_upto 4 (RSet is_digit)) (rx_lit ''%''))"

definition opt_str :: "string option \<Rightarrow> json" where
  "opt_str s = (case s of None \<Rightarrow> JNull | Some t \<Rightarrow> JStr t)"

definition task_policy_to_dict :: "task_policy \<Rightarrow> json" where
  "task_policy_to_dict p = JObj
     [(''allow_deploy'', JBool (allow_deploy p)),
      (''max_concurrent_tasks'', JInt (max_concurrent_tasks p)),
      (''allowed_commands'', JArr (map JStr (allowed_commands p))),
      (''allowed_arguments'', JObj (map (\<lambda>(k, v). (k, JArr (map JStr v))) (allowed_arguments p))),
      (''sandbox'', JStr (sandbox_mode p)),
      (''sandbox_required'', JBool (sandbox_required p)),
      (''sandbox_network'', JBool (sandbox_network p)),
      (''sandbox_read_only_paths'', JArr (map JStr (sandbox_read_only_paths p))),
      (''sandbox_memory_max'', opt_str (sandbox_memory_max p)),
      (''sandbox_cpu_quota'', opt_str (sandbox_cpu_quota p)),
      (''sandbox_tasks_max'', (case sandbox_tasks_max p of None \<Rightarrow> JNull | Some n \<Rightarrow> JInt n)),
      (''workspace_retention'', JStr (workspace_retention p)),
      (''repo_sources'', JObj (map (\<lambda>(k, v). (k, JStr v)) (repo_sources p)))]"

text \<open>The loop over \<open>allowed_arguments\<close>: the entries kept, and an error for each bad one.\<close>

fun read_arguments :: "json dict \<Rightarrow> string list dict \<times> msg list" where
  "read_arguments [] = ([], [])"
| "read_arguments ((command, patterns) # rest) =
     (let (kept, errs) = read_arguments rest in
      case str_list patterns of
        None \<Rightarrow> (kept, Msg ''allowed_arguments[{}] must be a list of non-empty strings'' [JStr command] # errs)
      | Some ps \<Rightarrow> ((command, ps) # kept, errs))"

definition read_commands :: "json dict \<Rightarrow> string list \<times> msg list" where
  "read_commands d = (case str_list (get_default d ''allowed_commands'' (JArr [])) of
     None \<Rightarrow> ([], [Msg ''allowed_commands must be a list of non-empty strings'' []])
   | Some cs \<Rightarrow> (cs, []))"

definition read_argument_map :: "json dict \<Rightarrow> string list dict \<times> msg list" where
  "read_argument_map d = (case get_default d ''allowed_arguments'' (JObj []) of
     JObj kvs \<Rightarrow> read_arguments kvs
   | _ \<Rightarrow> ([], [Msg ''allowed_arguments must be an object of command -> list of patterns'' []]))"

definition absolute_path_list :: "json \<Rightarrow> string list option" where
  "absolute_path_list v = (case v of
     JArr vs \<Rightarrow> if list_all (\<lambda>p. is_str p \<and> startswith (str_of p) ''/'') vs then Some (map str_of vs) else None
   | _ \<Rightarrow> None)"

definition source_dict :: "json \<Rightarrow> string dict option" where
  "source_dict v = (case v of
     JObj kvs \<Rightarrow> if list_all (\<lambda>(k, w). nonempty_str w) kvs then Some (map (\<lambda>(k, w). (k, str_of w)) kvs) else None
   | _ \<Rightarrow> None)"

definition read_ro_paths :: "json dict \<Rightarrow> string list \<times> msg list" where
  "read_ro_paths d = (case absolute_path_list (get_default d ''sandbox_read_only_paths'' (JArr [])) of
     None \<Rightarrow> ([], [Msg ''sandbox_read_only_paths must be a list of absolute paths'' []])
   | Some ps \<Rightarrow> (ps, []))"

definition read_sources :: "json dict \<Rightarrow> string dict \<times> msg list" where
  "read_sources d = (case source_dict (get_default d ''repo_sources'' (JObj [])) of
     None \<Rightarrow> ([], [Msg ''repo_sources must be an object of repository name -> URL or path'' []])
   | Some s \<Rightarrow> (s, []))"

text \<open>A limit that may be absent, \<open>null\<close>, or a text matching a pattern.\<close>

definition read_limit :: "json dict \<Rightarrow> string \<Rightarrow> rx \<Rightarrow> msg \<Rightarrow> string option \<times> msg list" where
  "read_limit d field pattern err = (case map_of d field of
     None \<Rightarrow> (None, [])
   | Some JNull \<Rightarrow> (None, [])
   | Some (JStr s) \<Rightarrow> if fullmatch pattern s then (Some s, []) else (None, [err])
   | Some _ \<Rightarrow> (None, [err]))"

text \<open>One of a fixed list of words, with a default.\<close>

definition read_choice :: "json dict \<Rightarrow> string \<Rightarrow> string list \<Rightarrow> string \<Rightarrow> string \<times> msg list" where
  "read_choice d field options dflt = (case map_of d field of
     None \<Rightarrow> (dflt, [])
   | Some (JStr s) \<Rightarrow> if s \<in> set options then (s, [])
       else (dflt, [Msg ''{} must be one of {}, not {}'' [JStr field, JArr (map JStr options), JStr s]])
   | Some v \<Rightarrow> (dflt, [Msg ''{} must be one of {}, not {}'' [JStr field, JArr (map JStr options), v]]))"

definition read_tasks_max :: "json dict \<Rightarrow> int option \<times> msg list" where
  "read_tasks_max d = (case map_of d ''sandbox_tasks_max'' of
     None \<Rightarrow> (None, [])
   | Some JNull \<Rightarrow> (None, [])
   | Some (JInt n) \<Rightarrow> if n < 1 then (None, [Msg ''sandbox_tasks_max must be a positive integer'' []]) else (Some n, [])
   | Some _ \<Rightarrow> (None, [Msg ''sandbox_tasks_max must be a positive integer'' []]))"

definition task_policy_from_dict :: "json \<Rightarrow> task_policy result" where
  "task_policy_from_dict data = (case data of
     JObj d \<Rightarrow>
       (let (deploy, e1) = require_bool d ''allow_deploy'' False;
            (max_tasks, e2) = require_positive_int d ''max_concurrent_tasks'' 1;
            (commands, e3) = read_commands d;
            (arguments, e4) = read_argument_map d;
            (sandbox, e5) = read_choice d ''sandbox'' sandbox_modes ''auto'';
            (required, e6) = require_bool d ''sandbox_required'' False;
            (network, e7) = require_bool d ''sandbox_network'' False;
            (ro_paths, e8) = read_ro_paths d;
            (memory, e9) = read_limit d ''sandbox_memory_max'' memory_rx
               (Msg ''sandbox_memory_max must look like 512M or 2G (a number and an optional K, M, G or T)'' []);
            (cpu, e10) = read_limit d ''sandbox_cpu_quota'' cpu_quota_rx
               (Msg ''sandbox_cpu_quota must look like 200% (100% is one core)'' []);
            (tasks, e11) = read_tasks_max d;
            (retention, e12) = read_choice d ''workspace_retention'' retentions ''delete-on-success'';
            (sources, e13) = read_sources d
        in finish (e1 @ e2 @ e3 @ e4 @ e5 @ e6 @ e7 @ e8 @ e9 @ e10 @ e11 @ e12 @ e13)
             \<lparr>allow_deploy = deploy, max_concurrent_tasks = max_tasks, allowed_commands = commands,
              allowed_arguments = arguments, sandbox_mode = sandbox, sandbox_required = required,
              sandbox_network = network, sandbox_read_only_paths = ro_paths,
              sandbox_memory_max = memory, sandbox_cpu_quota = cpu, sandbox_tasks_max = tasks,
              workspace_retention = retention, repo_sources = sources\<rparr>)
   | _ \<Rightarrow> config_error [Msg ''task policy must be a JSON object'' []])"

subsection \<open>Readers inverted\<close>

lemma read_choice_Nil_iff:
  "read_choice d f opts dflt = (s, []) \<longleftrightarrow>
     (map_of d f = Some (JStr s) \<and> s \<in> set opts) \<or> (map_of d f = None \<and> s = dflt)"
  by (auto simp: read_choice_def split: option.splits json.splits if_splits)

lemma read_limit_Nil_iff:
  "read_limit d f rx err = (v, []) \<longleftrightarrow>
     (v = None \<and> (map_of d f = None \<or> map_of d f = Some JNull)) \<or>
     (\<exists>s. v = Some s \<and> map_of d f = Some (JStr s) \<and> fullmatch rx s)"
  by (auto simp: read_limit_def split: option.splits json.splits if_splits)

lemma read_limit_opt_str:
  "map_of d f = Some (opt_str v) \<Longrightarrow> (\<forall>s. v = Some s \<longrightarrow> fullmatch rx s) \<Longrightarrow> read_limit d f rx err = (v, [])"
  by (cases v) (auto simp: read_limit_def opt_str_def)

lemma read_arguments_sound:
  "read_arguments kvs = (args, []) \<Longrightarrow> list_all (\<lambda>(k, ps). list_all (\<lambda>s. s \<noteq> []) ps) args"
proof (induction kvs arbitrary: args)
  case (Cons kv kvs)
  obtain k v where kv: "kv = (k, v)" by (cases kv)
  obtain kept errs where r: "read_arguments kvs = (kept, errs)"
    by (cases "read_arguments kvs")
  with Cons kv show ?case
    by (auto split: option.splits dest: str_list_nonempty)
qed simp

lemma read_arguments_complete:
  "list_all (\<lambda>(k, ps). list_all (\<lambda>s. s \<noteq> []) ps) args \<Longrightarrow>
   read_arguments (map (\<lambda>(k, v). (k, JArr (map JStr v))) args) = (args, [])"
  by (induction args) auto

lemma absolute_path_list_sound:
  "absolute_path_list v = Some ps \<Longrightarrow> list_all (\<lambda>p. startswith p ''/'') ps"
  by (auto simp: absolute_path_list_def list_all_iff split: json.splits if_splits)

lemma absolute_path_list_complete:
  "list_all (\<lambda>p. startswith p ''/'') ps \<Longrightarrow> absolute_path_list (JArr (map JStr ps)) = Some ps"
  by (simp add: absolute_path_list_def list_all_iff)

lemma source_dict_sound: "source_dict v = Some s \<Longrightarrow> list_all (\<lambda>(k, u). u \<noteq> []) s"
  by (fastforce simp: source_dict_def list_all_iff nonempty_str_conv split: json.splits if_splits)

lemma source_dict_complete:
  "list_all (\<lambda>(k, u). u \<noteq> []) s \<Longrightarrow> source_dict (JObj (map (\<lambda>(k, v). (k, JStr v)) s)) = Some s"
  by (induction s) (auto simp: source_dict_def split: if_splits)

lemma read_tasks_max_Nil:
  "read_tasks_max d = (v, []) \<Longrightarrow> (\<forall>n. v = Some n \<longrightarrow> 0 < n)"
  by (auto simp: read_tasks_max_def split: option.splits json.splits if_splits)

text \<open>What every policy that came out of \<open>from_dict\<close> satisfies.\<close>

definition task_policy_ok :: "task_policy \<Rightarrow> bool" where
  "task_policy_ok p \<longleftrightarrow>
     0 < max_concurrent_tasks p \<and>
     list_all (\<lambda>s. s \<noteq> []) (allowed_commands p) \<and>
     list_all (\<lambda>(k, ps). list_all (\<lambda>s. s \<noteq> []) ps) (allowed_arguments p) \<and>
     sandbox_mode p \<in> set sandbox_modes \<and>
     list_all (\<lambda>q. startswith q ''/'') (sandbox_read_only_paths p) \<and>
     (\<forall>s. sandbox_memory_max p = Some s \<longrightarrow> fullmatch memory_rx s) \<and>
     (\<forall>s. sandbox_cpu_quota p = Some s \<longrightarrow> fullmatch cpu_quota_rx s) \<and>
     (\<forall>n. sandbox_tasks_max p = Some n \<longrightarrow> 0 < n) \<and>
     workspace_retention p \<in> set retentions \<and>
     list_all (\<lambda>(k, u). u \<noteq> []) (repo_sources p)"

lemma read_commands_sound: "read_commands d = (cs, []) \<Longrightarrow> list_all (\<lambda>s. s \<noteq> []) cs"
  by (auto simp: read_commands_def split: option.splits dest: str_list_nonempty)

lemma read_argument_map_sound:
  "read_argument_map d = (args, []) \<Longrightarrow> list_all (\<lambda>(k, ps). list_all (\<lambda>s. s \<noteq> []) ps) args"
  by (auto simp: read_argument_map_def split: json.splits dest: read_arguments_sound)

lemma read_ro_paths_sound: "read_ro_paths d = (ps, []) \<Longrightarrow> list_all (\<lambda>p. startswith p ''/'') ps"
  by (auto simp: read_ro_paths_def split: option.splits dest: absolute_path_list_sound)

lemma read_sources_sound: "read_sources d = (s, []) \<Longrightarrow> list_all (\<lambda>(k, u). u \<noteq> []) s"
  by (auto simp: read_sources_def split: option.splits dest: source_dict_sound)

lemma read_choice_sound: "read_choice d f opts dflt = (s, []) \<Longrightarrow> dflt \<in> set opts \<Longrightarrow> s \<in> set opts"
  by (auto simp: read_choice_Nil_iff)

lemma read_limit_sound: "read_limit d f rx err = (v, []) \<Longrightarrow> (\<forall>s. v = Some s \<longrightarrow> fullmatch rx s)"
  by (auto simp: read_limit_Nil_iff)

lemma require_positive_int_sound: "require_positive_int d f x = (i, []) \<Longrightarrow> 0 < x \<Longrightarrow> 0 < i"
  using require_positive_int_pos [of x d f] by simp

lemmas policy_readers_sound =
  read_commands_sound read_argument_map_sound read_ro_paths_sound read_sources_sound
  read_limit_sound read_tasks_max_Nil

text \<open>The fields of an accepted task policy are what the readers returned without an error.\<close>

lemma task_policy_from_dict_inv:
  "task_policy_from_dict j = Ok p \<longleftrightarrow> (\<exists>d. j = JObj d \<and>
     require_bool d ''allow_deploy'' False = (allow_deploy p, []) \<and>
     require_positive_int d ''max_concurrent_tasks'' 1 = (max_concurrent_tasks p, []) \<and>
     read_commands d = (allowed_commands p, []) \<and>
     read_argument_map d = (allowed_arguments p, []) \<and>
     read_choice d ''sandbox'' sandbox_modes ''auto'' = (sandbox_mode p, []) \<and>
     require_bool d ''sandbox_required'' False = (sandbox_required p, []) \<and>
     require_bool d ''sandbox_network'' False = (sandbox_network p, []) \<and>
     read_ro_paths d = (sandbox_read_only_paths p, []) \<and>
     read_limit d ''sandbox_memory_max'' memory_rx
       (Msg ''sandbox_memory_max must look like 512M or 2G (a number and an optional K, M, G or T)'' [])
       = (sandbox_memory_max p, []) \<and>
     read_limit d ''sandbox_cpu_quota'' cpu_quota_rx
       (Msg ''sandbox_cpu_quota must look like 200% (100% is one core)'' []) = (sandbox_cpu_quota p, []) \<and>
     read_tasks_max d = (sandbox_tasks_max p, []) \<and>
     read_choice d ''workspace_retention'' retentions ''delete-on-success'' = (workspace_retention p, []) \<and>
     read_sources d = (repo_sources p, []))"
proof (cases j)
  case (JObj d)
  obtain v1 e1 where r1: "require_bool d ''allow_deploy'' False = (v1, e1)"
    by fastforce
  obtain v2 e2 where r2: "require_positive_int d ''max_concurrent_tasks'' 1 = (v2, e2)"
    by fastforce
  obtain v3 e3 where r3: "read_commands d = (v3, e3)"
    by fastforce
  obtain v4 e4 where r4: "read_argument_map d = (v4, e4)"
    by fastforce
  obtain v5 e5 where r5: "read_choice d ''sandbox'' sandbox_modes ''auto'' = (v5, e5)"
    by fastforce
  obtain v6 e6 where r6: "require_bool d ''sandbox_required'' False = (v6, e6)"
    by fastforce
  obtain v7 e7 where r7: "require_bool d ''sandbox_network'' False = (v7, e7)"
    by fastforce
  obtain v8 e8 where r8: "read_ro_paths d = (v8, e8)"
    by fastforce
  obtain v9 e9 where r9: "read_limit d ''sandbox_memory_max'' memory_rx
      (Msg ''sandbox_memory_max must look like 512M or 2G (a number and an optional K, M, G or T)'' []) = (v9, e9)"
    by fastforce
  obtain v10 e10 where r10: "read_limit d ''sandbox_cpu_quota'' cpu_quota_rx
      (Msg ''sandbox_cpu_quota must look like 200% (100% is one core)'' []) = (v10, e10)"
    by fastforce
  obtain v11 e11 where r11: "read_tasks_max d = (v11, e11)"
    by fastforce
  obtain v12 e12 where r12: "read_choice d ''workspace_retention'' retentions ''delete-on-success'' = (v12, e12)"
    by fastforce
  obtain v13 e13 where r13: "read_sources d = (v13, e13)"
    by fastforce
  show ?thesis
    by (cases p) (auto simp: JObj task_policy_from_dict_def finish_Ok_iff r1 r2 r3 r4 r5 r6 r7 r8 r9 r10 r11 r12 r13)
qed (simp_all add: task_policy_from_dict_def config_error_def)

lemma task_policy_from_dict_ok:
  assumes "task_policy_from_dict j = Ok p"
  shows "task_policy_ok p"
proof -
  obtain d where d: "j = JObj d"
    using assms by (auto simp: task_policy_from_dict_inv)
  note inv = assms [unfolded task_policy_from_dict_inv d json.inject, simplified]
  have "0 < max_concurrent_tasks p"
    by (rule require_positive_int_sound [of d "''max_concurrent_tasks''" 1]) (use inv in simp_all)
  moreover have "sandbox_mode p \<in> set sandbox_modes"
    by (rule read_choice_sound [of d "''sandbox''" _ "''auto''"]) (use inv in \<open>simp_all add: sandbox_modes_def\<close>)
  moreover have "workspace_retention p \<in> set retentions"
    by (rule read_choice_sound [of d "''workspace_retention''" _ "''delete-on-success''"])
       (use inv in \<open>simp_all add: retentions_def\<close>)
  ultimately show ?thesis
    using inv policy_readers_sound(1-4) [of d] read_tasks_max_Nil [of d]
      read_limit_sound [of d "''sandbox_memory_max''"] read_limit_sound [of d "''sandbox_cpu_quota''"]
    unfolding task_policy_ok_def by blast
qed

subsection \<open>Round trips and defaults\<close>

text \<open>Every task policy that \<open>TaskPolicy.from_dict\<close> can return is written by \<open>to_dict\<close> to a
  document that \<open>from_dict\<close> reads back as the same policy: parsing after serialising is the identity,
  field by field, on all thirteen fields.\<close>

theorem task_policy_roundtrip:
  assumes "task_policy_from_dict j = Ok p"
  shows "task_policy_from_dict (task_policy_to_dict p) = Ok p"
proof -
  from assms have ok: "task_policy_ok p" by (rule task_policy_from_dict_ok)
  define d where "d = (case task_policy_to_dict p of JObj d \<Rightarrow> d | _ \<Rightarrow> [])"
  have d: "task_policy_to_dict p = JObj d"
    by (simp add: d_def task_policy_to_dict_def)
  note look = d_def [unfolded task_policy_to_dict_def json.case]
  have "read_commands d = (allowed_commands p, [])"
    and "read_argument_map d = (allowed_arguments p, [])"
    and "read_ro_paths d = (sandbox_read_only_paths p, [])"
    and "read_sources d = (repo_sources p, [])"
    using ok
    by (simp_all add: look task_policy_ok_def read_commands_def read_argument_map_def read_ro_paths_def
        read_sources_def get_default_def read_arguments_complete
        absolute_path_list_complete source_dict_complete)
  moreover have "read_tasks_max d = (sandbox_tasks_max p, [])"
    using ok by (cases "sandbox_tasks_max p") (auto simp: look task_policy_ok_def read_tasks_max_def)
  moreover have "read_limit d ''sandbox_memory_max'' memory_rx e = (sandbox_memory_max p, [])"
    and "read_limit d ''sandbox_cpu_quota'' cpu_quota_rx e = (sandbox_cpu_quota p, [])" for e
    using ok by (simp_all add: look task_policy_ok_def read_limit_opt_str)
  moreover have "read_choice d ''sandbox'' sandbox_modes ''auto'' = (sandbox_mode p, [])"
    and "read_choice d ''workspace_retention'' retentions ''delete-on-success'' = (workspace_retention p, [])"
    using ok by (simp_all add: look task_policy_ok_def read_choice_Nil_iff)
  moreover have "require_positive_int d ''max_concurrent_tasks'' 1 = (max_concurrent_tasks p, [])"
    using ok by (simp add: look task_policy_ok_def)
  ultimately show ?thesis
    unfolding task_policy_from_dict_inv d by (simp add: look)
qed

definition sample_policy :: json where
  "sample_policy = JObj
     [(''allow_deploy'', JBool False), (''max_concurrent_tasks'', JInt 2),
      (''allowed_commands'', JArr [JStr ''pytest'']),
      (''allowed_arguments'', JObj [(''pytest'', JArr [JStr ''-q''])]),
      (''sandbox'', JStr ''bubblewrap''), (''sandbox_memory_max'', JStr ''2G'')]"

definition sample_policy_value :: task_policy where
  "sample_policy_value =
     \<lparr>allow_deploy = False, max_concurrent_tasks = 2, allowed_commands = [''pytest''],
      allowed_arguments = [(''pytest'', [''-q''])], sandbox_mode = ''bubblewrap'',
      sandbox_required = False, sandbox_network = False, sandbox_read_only_paths = [],
      sandbox_memory_max = Some ''2G'', sandbox_cpu_quota = None, sandbox_tasks_max = None,
      workspace_retention = ''delete-on-success'', repo_sources = []\<rparr>"

lemma sample_policy_read: "task_policy_from_dict sample_policy = Ok sample_policy_value"
  by code_simp

lemma task_policy_roundtrip_witness:
  "task_policy_from_dict (task_policy_to_dict sample_policy_value) = Ok sample_policy_value"
  by (rule task_policy_roundtrip [OF sample_policy_read])

text \<open>No task may deploy by default: a policy read from any document allows deploying exactly
  when the document is an object whose \<open>allow_deploy\<close> is the literal boolean \<open>true\<close>; a missing,
  misspelled or non-boolean field never grants it.\<close>

theorem deploy_only_when_literally_true:
  assumes "task_policy_from_dict j = Ok p"
  shows "allow_deploy p \<longleftrightarrow> (\<exists>d. j = JObj d \<and> map_of d ''allow_deploy'' = Some (JBool True))"
proof -
  from assms obtain d where d: "j = JObj d"
      and r: "require_bool d ''allow_deploy'' False = (allow_deploy p, [])"
    unfolding task_policy_from_dict_inv by blast
  then have "allow_deploy p = fst (require_bool d ''allow_deploy'' False)" by simp
  with d show ?thesis by (simp only: require_bool_true json.inject) blast
qed

lemma deploy_only_when_literally_true_witness:
  "allow_deploy sample_policy_value \<longleftrightarrow>
     (\<exists>d. sample_policy = JObj d \<and> map_of d ''allow_deploy'' = Some (JBool True))"
  by (rule deploy_only_when_literally_true [OF sample_policy_read])

subsection \<open>Loading a document\<close>

text \<open>
  \<open>load_json_document\<close>: \<open>raw\<close> is the outcome of reading the file as UTF-8 text, \<open>loads\<close> the JSON reader
  (\<open>None\<close>: a \<open>JSONDecodeError\<close>).
\<close>

definition load_json_document :: "string result \<Rightarrow> (string \<Rightarrow> json option) \<Rightarrow> json dict result" where
  "load_json_document raw loads = (case raw of
     Inl (Raise c ms) \<Rightarrow>
       if c = PyOSError \<or> c = PyFileExistsError then config_error (Msg ''could not read {}: {}'' [] # ms) else Err (Raise c ms)
   | Inr content \<Rightarrow>
       (case loads content of
          None \<Rightarrow> config_error [Msg ''{} is not valid JSON: {}'' []]
        | Some (JObj d) \<Rightarrow> Ok d
        | Some _ \<Rightarrow> config_error [Msg ''{} must contain a JSON object, not a {}'' []]))"

text \<open>A file that is not UTF-8 raises \<open>UnicodeDecodeError\<close> (a \<open>ValueError\<close>), which is handed on as it is.\<close>

lemma undecodable_document_escapes:
  "load_json_document (Err (Raise PyValueError ms)) loads = Err (Raise PyValueError ms)"
  by (simp add: load_json_document_def)

end
