(* ===== verification/Repair_Cycle.thy ===== *)
theory Repair_Cycle
  imports Trust_Store Iso_Time Config
begin

text \<open>
  \<open>repair_cycle.py\<close>: candidates and approvals, the cycle driven step by step with every gate in the code's
  order, and the candidate check of the command line.  A step returns the cycle after it, the calls it made to
  the installer, and its outcome or the exception it raised; the clock reading is an argument, and what goes to
  the outcome sink is kept in \<open>rc_handed\<close>.
\<close>

subsection \<open>Candidates and approvals\<close>

definition parse_expiry :: "string \<Rightarrow> int option result" where
  "parse_expiry text =
     (if text = [] then Ok None
      else (case from_iso (replace_z text) of
              None \<Rightarrow> Ok None
            | Some (local, None) \<Rightarrow> Ok None
            | Some (local, Some offset) \<Rightarrow> and_then (to_utc local offset) (\<lambda>t. Ok (Some t))))"

definition sign_hmac :: "string \<Rightarrow> json \<Rightarrow> string" where
  "sign_hmac secret body = hmac_hex secret (canonical_bytes body)"

record candidate =
  cd_candidate_id :: string
  cd_incident_id :: string
  cd_base_fingerprint :: string
  cd_target :: string
  cd_patch_ref :: string
  cd_signature :: string

definition candidate_fields :: "candidate \<Rightarrow> (string \<times> json) list" where
  "candidate_fields c =
     [(''candidate_id'', JStr (cd_candidate_id c)), (''for_incident_id'', JStr (cd_incident_id c)),
      (''for_base_fingerprint'', JStr (cd_base_fingerprint c)), (''for_target'', JStr (cd_target c)),
      (''patch_ref'', JStr (cd_patch_ref c))]"

definition candidate_body :: "candidate \<Rightarrow> json" where
  "candidate_body c = JObj (candidate_fields c)"

definition candidate_signed :: "string \<Rightarrow> candidate \<Rightarrow> candidate" where
  "candidate_signed secret c = c\<lparr>cd_signature := sign_hmac secret (candidate_body c)\<rparr>"

definition candidate_signed_ed25519 :: "native_backend option \<Rightarrow> string \<Rightarrow> candidate \<Rightarrow> candidate result" where
  "candidate_signed_ed25519 native seed c =
     and_then (sign_body native seed (candidate_body c)) (\<lambda>sg. Ok (c\<lparr>cd_signature := sg\<rparr>))"

definition candidate_signature_ok :: "string \<Rightarrow> candidate \<Rightarrow> bool result" where
  "candidate_signature_ok key c = signature_matches key (candidate_body c) (cd_signature c)"

definition candidate_to_dict :: "candidate \<Rightarrow> json" where
  "candidate_to_dict c = JObj (candidate_fields c @ [(''signature'', JStr (cd_signature c))])"

definition candidate_from_dict :: "json \<Rightarrow> candidate result" where
  "candidate_from_dict data = (case data of
     JObj d \<Rightarrow>
       (let (cid, e1) = require_str d ''candidate_id'';
            (inc, e2) = require_str d ''for_incident_id'';
            (base, e3) = require_str d ''for_base_fingerprint'';
            (target, e4) = require_str d ''for_target'';
            (patch, e5) = require_str d ''patch_ref'';
            (sg, e6) = (case map_of d ''signature'' of
                None \<Rightarrow> ([], []) | Some (JStr s) \<Rightarrow> (s, [])
              | Some _ \<Rightarrow> ([], [Msg ''signature must be a string'' []]))
        in finish (e1 @ e2 @ e3 @ e4 @ e5 @ e6)
             \<lparr>cd_candidate_id = cid, cd_incident_id = inc, cd_base_fingerprint = base, cd_target = target,
              cd_patch_ref = patch, cd_signature = sg\<rparr>)
   | _ \<Rightarrow> config_error [Msg ''repair candidate must be a JSON object'' []])"

record approval =
  ap_candidate_id :: string
  ap_approved_by :: string
  ap_for_base :: string
  ap_for_target :: string
  ap_signature :: string
  ap_patch_ref :: string
  ap_expires_at :: string

definition approval_body :: "approval \<Rightarrow> json" where
  "approval_body a = JObj
     ([(''candidate_id'', JStr (ap_candidate_id a)), (''approved_by'', JStr (ap_approved_by a)),
       (''approved_for_base'', JStr (ap_for_base a)), (''approved_for_target'', JStr (ap_for_target a))] @
      (if ap_patch_ref a \<noteq> [] then [(''approved_patch_ref'', JStr (ap_patch_ref a))] else []) @
      (if ap_expires_at a \<noteq> [] then [(''expires_at'', JStr (ap_expires_at a))] else []))"

definition approval_signed :: "string \<Rightarrow> approval \<Rightarrow> approval" where
  "approval_signed secret a = a\<lparr>ap_signature := sign_hmac secret (approval_body a)\<rparr>"

definition approval_signed_ed25519 :: "native_backend option \<Rightarrow> string \<Rightarrow> approval \<Rightarrow> approval result" where
  "approval_signed_ed25519 native seed a =
     and_then (sign_body native seed (approval_body a)) (\<lambda>sg. Ok (a\<lparr>ap_signature := sg\<rparr>))"

definition approval_signature_ok :: "string \<Rightarrow> approval \<Rightarrow> bool result" where
  "approval_signature_ok key a = signature_matches key (approval_body a) (ap_signature a)"

subsection \<open>The cycle\<close>

datatype cycle_state =
    Not_started | Blocked | Repro_confirmed | Incident_raised | Candidate_received | Regression_passed
  | Build_test_passed | Approved | Installed | Verified | Recovered

fun cycle_state_name :: "cycle_state \<Rightarrow> string" where
  "cycle_state_name Not_started = ''not-started''"
| "cycle_state_name Blocked = ''blocked''"
| "cycle_state_name Repro_confirmed = ''repro-confirmed''"
| "cycle_state_name Incident_raised = ''incident-raised''"
| "cycle_state_name Candidate_received = ''candidate-received''"
| "cycle_state_name Regression_passed = ''regression-passed''"
| "cycle_state_name Build_test_passed = ''build-test-passed''"
| "cycle_state_name Approved = ''approved''"
| "cycle_state_name Installed = ''installed''"
| "cycle_state_name Verified = ''verified''"
| "cycle_state_name Recovered = ''recovered''"

record repair_cycle =
  rc_incident_id :: string
  rc_base_fingerprint :: string
  rc_target :: string
  rc_repro_case_id :: string
  rc_allow_symmetric :: bool
  rc_require_bound :: bool
  rc_has_sink :: bool
  rc_state :: cycle_state
  rc_reason :: "msg option"
  rc_candidate :: "candidate option"
  rc_candidate_signer :: "string option"
  rc_handed :: "json list"

definition new_cycle :: "string \<Rightarrow> string \<Rightarrow> string \<Rightarrow> string \<Rightarrow> bool \<Rightarrow> bool \<Rightarrow> bool \<Rightarrow> repair_cycle" where
  "new_cycle incident base target repro symmetric bound sink =
     \<lparr>rc_incident_id = incident, rc_base_fingerprint = base, rc_target = target, rc_repro_case_id = repro,
      rc_allow_symmetric = symmetric, rc_require_bound = bound, rc_has_sink = sink, rc_state = Not_started,
      rc_reason = Some (Msg ''not started'' []), rc_candidate = None, rc_candidate_signer = None, rc_handed = []\<rparr>"

record step_outcome =
  so_ok :: bool
  so_state :: cycle_state
  so_reason :: "msg option"

datatype installer_call = Install_called candidate | Rollback_called

type_synonym step_result = "repair_cycle \<times> installer_call list \<times> step_outcome result"

definition block :: "repair_cycle \<Rightarrow> msg \<Rightarrow> step_result" where
  "block c reason =
     (if rc_state c = Blocked then (c, [], Ok \<lparr>so_ok = False, so_state = Blocked, so_reason = rc_reason c\<rparr>)
      else (c\<lparr>rc_state := Blocked, rc_reason := Some reason\<rparr>, [],
            Ok \<lparr>so_ok = False, so_state = Blocked, so_reason = Some reason\<rparr>))"

definition advance :: "repair_cycle \<Rightarrow> cycle_state \<Rightarrow> step_result" where
  "advance c s = (c\<lparr>rc_state := s, rc_reason := None\<rparr>, [], Ok \<lparr>so_ok = True, so_state = s, so_reason = None\<rparr>)"

text \<open>\<open>cannot ... from state\<close>: every step's first guard.\<close>

definition wrong_state :: "repair_cycle \<Rightarrow> string \<Rightarrow> step_result" where
  "wrong_state c what = block c (Msg (''cannot '' @ what @ '' from state {}'') [JStr (cycle_state_name (rc_state c))])"

definition hand_on :: "repair_cycle \<Rightarrow> int \<Rightarrow> string \<Rightarrow> string \<Rightarrow> string \<Rightarrow> repair_cycle" where
  "hand_on c now phase fingerprint outcome =
     (if \<not> rc_has_sink c then c
      else c\<lparr>rc_handed := rc_handed c @ [JObj
        [(''schema_version'', JStr ''1.0''), (''scenario_id'', JStr (rc_incident_id c)),
         (''run_id'', JStr (rc_incident_id c @ '':'' @ phase)), (''base_fingerprint'', JStr fingerprint),
         (''phase'', JStr phase), (''repro_case'', JStr (rc_repro_case_id c)),
         (''observed'', JObj [(''outcome'', JStr outcome)]), (''timestamp_utc'', JStr (iso_text now))]]\<rparr>)"

text \<open>\<open>d.get(k) is True\<close> and \<open>d.get(k) == s\<close>.\<close>

definition literally_true :: "json dict \<Rightarrow> string \<Rightarrow> bool" where
  "literally_true d k = (map_of d k = Some (JBool True))"

definition says :: "json dict \<Rightarrow> string \<Rightarrow> string \<Rightarrow> bool" where
  "says d k s = (map_of d k = Some (JStr s))"

definition confirm_repro :: "repair_cycle \<Rightarrow> json dict \<Rightarrow> int \<Rightarrow> step_result" where
  "confirm_repro c evidence now =
     (if rc_state c \<noteq> Not_started then wrong_state c ''confirm the reproduction''
      else if \<not> literally_true evidence ''reproduced'' \<or> \<not> says evidence ''repro_case_id'' (rc_repro_case_id c) then
        block c (Msg ''the failure was not reproduced for this repro case'' [])
      else advance (hand_on c now ''before'' (rc_base_fingerprint c) ''reproduced'') Repro_confirmed)"

definition raise_incident :: "repair_cycle \<Rightarrow> step_result" where
  "raise_incident c =
     (if rc_state c \<noteq> Repro_confirmed then wrong_state c ''raise an incident''
      else advance c Incident_raised)"

definition receive_candidate :: "repair_cycle \<Rightarrow> candidate \<Rightarrow> string \<Rightarrow> step_result" where
  "receive_candidate c cand key =
     (if rc_state c \<noteq> Incident_raised then wrong_state c ''receive a candidate''
      else if \<not> rc_allow_symmetric c \<and> \<not> is_public_key key then
        block c (Msg ''a shared secret cannot verify a candidate: register the Ed25519 public key of the signer'' [])
      else (case candidate_signature_ok key cand of
          Inl e \<Rightarrow> (c, [], Inl e)
        | Inr False \<Rightarrow> block c (Msg ''candidate signature does not verify - tampered or unsigned'' [])
        | Inr True \<Rightarrow>
            if cd_incident_id cand \<noteq> rc_incident_id c then block c (Msg ''candidate is for a different incident'' [])
            else if cd_base_fingerprint cand \<noteq> rc_base_fingerprint c then
              block c (Msg ''candidate is pinned to a different base fingerprint'' [])
            else if cd_target cand \<noteq> rc_target c then block c (Msg ''candidate is for a different target'' [])
            else advance (c\<lparr>rc_candidate := Some cand\<rparr>) Candidate_received))"

text \<open>The key of the alias that signs, as \<open>receive_candidate_trusted\<close> and \<open>check_candidate_trusted\<close> look it up.\<close>

definition trusted_key :: "candidate \<Rightarrow> trust_store \<Rightarrow> string option \<Rightarrow> (string \<times> string) option" where
  "trusted_key cand store signer =
     (case (case signer of Some s \<Rightarrow> Some s | None \<Rightarrow> identify store (candidate_body cand) (cd_signature cand)) of
        None \<Rightarrow> None
      | Some a \<Rightarrow> if a = [] then None else (case key_for store a of None \<Rightarrow> None | Some k \<Rightarrow> Some (a, k)))"

definition receive_candidate_trusted :: "repair_cycle \<Rightarrow> candidate \<Rightarrow> trust_store \<Rightarrow> string option \<Rightarrow> step_result" where
  "receive_candidate_trusted c cand store signer =
     (case trusted_key cand store signer of
        None \<Rightarrow> block c (Msg ''candidate is not signed by a key of the trust store'' [])
      | Some (a, key) \<Rightarrow>
          (case receive_candidate c cand key of
             (c1, calls, Inr out) \<Rightarrow> (if so_ok out then c1\<lparr>rc_candidate_signer := Some a\<rparr> else c1, calls, Inr out)
           | r \<Rightarrow> r))"

text \<open>\<open>getattr(run_result, "outcome", None) == "completed"\<close> and the same for the exit code.\<close>

definition run_passed :: "string option \<Rightarrow> int option \<Rightarrow> bool" where
  "run_passed outcome exit_code = (outcome = Some ''completed'' \<and> exit_code = Some 0)"

definition run_regression :: "repair_cycle \<Rightarrow> string option \<Rightarrow> int option \<Rightarrow> step_result" where
  "run_regression c outcome exit_code =
     (if rc_state c \<noteq> Candidate_received then wrong_state c ''run regression''
      else if \<not> run_passed outcome exit_code then block c (Msg ''regression did not pass'' [])
      else advance c Regression_passed)"

definition run_build_test :: "repair_cycle \<Rightarrow> string option \<Rightarrow> int option \<Rightarrow> step_result" where
  "run_build_test c outcome exit_code =
     (if rc_state c \<noteq> Regression_passed then wrong_state c ''run build-test''
      else if \<not> run_passed outcome exit_code then block c (Msg ''build-test did not pass'' [])
      else advance c Build_test_passed)"

definition check_binding :: "repair_cycle \<Rightarrow> approval \<Rightarrow> step_result" where
  "check_binding c a =
     (if ap_for_base a \<noteq> rc_base_fingerprint c then block c (Msg ''approval was issued for a different base'' [])
      else if ap_for_target a \<noteq> rc_target c then block c (Msg ''approval was issued for a different target'' [])
      else advance c Approved)"

definition check_expiry :: "repair_cycle \<Rightarrow> approval \<Rightarrow> int \<Rightarrow> step_result" where
  "check_expiry c a now =
     (if ap_expires_at a \<noteq> [] \<or> rc_require_bound c then
        (case parse_expiry (ap_expires_at a) of
           Inl e \<Rightarrow> (c, [], Inl e)
         | Inr None \<Rightarrow> block c (Msg ''approval carries no valid expiry (UTC, ISO 8601)'' [])
         | Inr (Some expiry) \<Rightarrow>
             if now \<ge> expiry then block c (Msg ''approval has expired'' []) else check_binding c a)
      else check_binding c a)"

definition apply_approval :: "repair_cycle \<Rightarrow> approval \<Rightarrow> string option \<Rightarrow> int \<Rightarrow> step_result" where
  "apply_approval c a approver now =
     (if rc_state c \<noteq> Build_test_passed then wrong_state c ''apply an approval''
      else (case approver of
          None \<Rightarrow> block c (Msg ''approver {} is not registered'' [JStr (ap_approved_by a)])
        | Some key \<Rightarrow>
            if \<not> rc_allow_symmetric c \<and> \<not> is_public_key key then
              block c (Msg ''a shared secret cannot verify an approval: register the Ed25519 public key of the approver'' [])
            else (case approval_signature_ok key a of
                Inl e \<Rightarrow> (c, [], Inl e)
              | Inr False \<Rightarrow> block c (Msg ''approval signature does not verify'' [])
              | Inr True \<Rightarrow>
                  (case rc_candidate c of
                     None \<Rightarrow> block c (Msg ''no candidate was received'' [])
                   | Some cand \<Rightarrow>
                       if ap_candidate_id a \<noteq> cd_candidate_id cand then
                         block c (Msg ''approval is for a different candidate'' [])
                       else if ap_patch_ref a \<noteq> [] \<and> ap_patch_ref a \<noteq> cd_patch_ref cand then
                         block c (Msg ''approval was issued for a different patch'' [])
                       else if rc_require_bound c \<and> ap_patch_ref a = [] then
                         block c (Msg ''approval does not name the patch it approves'' [])
                       else check_expiry c a now))))"

definition apply_approval_trusted :: "repair_cycle \<Rightarrow> approval \<Rightarrow> trust_store \<Rightarrow> int \<Rightarrow> step_result" where
  "apply_approval_trusted c a store now = apply_approval c a (key_for store (ap_approved_by a)) now"

definition with_calls :: "installer_call list \<Rightarrow> step_result \<Rightarrow> step_result" where
  "with_calls calls r = (case r of (c, later, out) \<Rightarrow> (c, calls @ later, out))"

text \<open>\<open>installed\<close> is what the installer's \<open>install\<close> answers.\<close>

definition install_isolated :: "repair_cycle \<Rightarrow> bool \<Rightarrow> step_result" where
  "install_isolated c installed =
     (if rc_state c \<noteq> Approved then wrong_state c ''install''
      else (case rc_candidate c of
          None \<Rightarrow> block c (Msg ''no candidate was received'' [])
        | Some cand \<Rightarrow> with_calls [Install_called cand]
            (if \<not> installed then block c (Msg ''isolated install failed'' []) else advance c Installed)))"

definition cycle_verify :: "repair_cycle \<Rightarrow> json dict \<Rightarrow> string \<Rightarrow> int \<Rightarrow> step_result" where
  "cycle_verify c evidence observed now =
     (if rc_state c \<noteq> Installed then wrong_state c ''verify''
      else if observed \<noteq> rc_base_fingerprint c then
        with_calls [Rollback_called] (block c (Msg ''base fingerprint changed during the cycle - the result is not trusted'' []))
      else if \<not> says evidence ''repro_case_id'' (rc_repro_case_id c) then
        with_calls [Rollback_called] (block c (Msg ''verification evidence is for a different repro case'' []))
      else if \<not> literally_true evidence ''verified'' then
        (let reason = Msg ''post-install verification failed - rolled back'' [] in
         ((hand_on c now ''after'' observed ''reproduced'')\<lparr>rc_state := Recovered, rc_reason := Some reason\<rparr>,
          [Rollback_called], Ok \<lparr>so_ok = False, so_state = Recovered, so_reason = Some reason\<rparr>))
      else advance (hand_on c now ''after'' observed ''not-reproduced'') Verified)"

subsection \<open>The candidate check of the command line\<close>

record candidate_check =
  cc_accepted :: bool
  cc_reason :: "msg option"
  cc_signer :: "string option"

definition check_to_dict :: "candidate_check \<Rightarrow> json" where
  "check_to_dict k = JObj
     ([(''accepted'', JBool (cc_accepted k)), (''reason'', msg_json (cc_reason k))] @
      (case cc_signer k of None \<Rightarrow> [] | Some s \<Rightarrow> [(''signer'', JStr s)]))"

definition not_accepted :: "string \<Rightarrow> candidate_check" where
  "not_accepted why = \<lparr>cc_accepted = False, cc_reason = Some (Msg why []), cc_signer = None\<rparr>"

definition check_candidate :: "candidate \<Rightarrow> string \<Rightarrow> string \<Rightarrow> string \<Rightarrow> string \<Rightarrow> candidate_check result" where
  "check_candidate cand key incident base target =
     and_then (candidate_signature_ok key cand) (\<lambda>sig_ok. Ok
       (if \<not> sig_ok then not_accepted ''signature does not verify - tampered or unsigned''
        else if cd_incident_id cand \<noteq> incident then not_accepted ''candidate is for a different incident''
        else if cd_base_fingerprint cand \<noteq> base then not_accepted ''candidate is pinned to a different base fingerprint''
        else if cd_target cand \<noteq> target then not_accepted ''candidate is for a different target''
        else \<lparr>cc_accepted = True, cc_reason = None, cc_signer = None\<rparr>))"

definition check_candidate_trusted ::
  "candidate \<Rightarrow> trust_store \<Rightarrow> string \<Rightarrow> string \<Rightarrow> string \<Rightarrow> string option \<Rightarrow> candidate_check result" where
  "check_candidate_trusted cand store incident base target signer =
     (case trusted_key cand store signer of
        None \<Rightarrow> Ok (not_accepted ''candidate is not signed by a key of the trust store'')
      | Some (a, key) \<Rightarrow> and_then (check_candidate cand key incident base target) (\<lambda>k. Ok
          \<lparr>cc_accepted = cc_accepted k, cc_reason = cc_reason k, cc_signer = (if cc_accepted k then Some a else None)\<rparr>))"

end
