(* ===== verification/Repair_Proofs.thy ===== *)
theory Repair_Proofs
  imports Repair_Cycle
begin

text \<open>
  The repair cycle against its specification.  \<open>gate\<close> is the abstract machine the documentation describes: which
  event may move a cycle on, under which conditions, with which call to the installer.  Every call of every method
  either raises and changes nothing, or stops the cycle, or is a move of that machine; so a verified cycle has a
  history of exactly eight answered calls, one per gate.
\<close>

subsection \<open>Any sequence of calls\<close>

datatype cycle_event =
    E_confirm "json dict" int
  | E_raise
  | E_receive candidate string
  | E_receive_trusted candidate trust_store "string option"
  | E_regression "string option" "int option"
  | E_build_test "string option" "int option"
  | E_approve approval "string option" int
  | E_approve_trusted approval trust_store int
  | E_install bool
  | E_verify "json dict" string int

fun do_event :: "repair_cycle \<Rightarrow> cycle_event \<Rightarrow> step_result" where
  "do_event c (E_confirm ev t) = confirm_repro c ev t"
| "do_event c E_raise = raise_incident c"
| "do_event c (E_receive cand key) = receive_candidate c cand key"
| "do_event c (E_receive_trusted cand store signer) = receive_candidate_trusted c cand store signer"
| "do_event c (E_regression out code) = run_regression c out code"
| "do_event c (E_build_test out code) = run_build_test c out code"
| "do_event c (E_approve a key t) = apply_approval c a key t"
| "do_event c (E_approve_trusted a store t) = apply_approval_trusted c a store t"
| "do_event c (E_install done) = install_isolated c done"
| "do_event c (E_verify ev base t) = cycle_verify c ev base t"

text \<open>A run: the cycle at the end, the calls that were answered (did not raise), and the calls to the installer.\<close>

fun run_cycle :: "repair_cycle \<Rightarrow> cycle_event list \<Rightarrow> repair_cycle \<times> cycle_event list \<times> installer_call list" where
  "run_cycle c [] = (c, [], [])"
| "run_cycle c (e # es) =
     (let (c1, calls, out) = do_event c e; (c2, answered, later) = run_cycle c1 es
      in (c2, (if is_ok out then e # answered else answered), calls @ later))"

subsection \<open>The specification\<close>

definition key_allowed :: "repair_cycle \<Rightarrow> string \<Rightarrow> bool" where
  "key_allowed c key \<longleftrightarrow> rc_allow_symmetric c \<or> is_public_key key"

definition candidate_acceptable :: "repair_cycle \<Rightarrow> candidate \<Rightarrow> string \<Rightarrow> bool" where
  "candidate_acceptable c cand key \<longleftrightarrow>
     key_allowed c key \<and> candidate_signature_ok key cand = Ok True \<and> cd_incident_id cand = rc_incident_id c \<and>
     cd_base_fingerprint cand = rc_base_fingerprint c \<and> cd_target cand = rc_target c"

definition approval_acceptable :: "repair_cycle \<Rightarrow> candidate \<Rightarrow> approval \<Rightarrow> string \<Rightarrow> int \<Rightarrow> bool" where
  "approval_acceptable c cand a key now \<longleftrightarrow>
     key_allowed c key \<and> approval_signature_ok key a = Ok True \<and> ap_candidate_id a = cd_candidate_id cand \<and>
     (ap_patch_ref a = cd_patch_ref cand \<or> ap_patch_ref a = []) \<and> (rc_require_bound c \<longrightarrow> ap_patch_ref a \<noteq> []) \<and>
     (rc_require_bound c \<or> ap_expires_at a \<noteq> [] \<longrightarrow> (\<exists>expiry. parse_expiry (ap_expires_at a) = Ok (Some expiry) \<and> now < expiry)) \<and>
     ap_for_base a = rc_base_fingerprint c \<and> ap_for_target a = rc_target c"

inductive gate ::
  "repair_cycle \<Rightarrow> cycle_state \<times> candidate option \<Rightarrow> cycle_event \<Rightarrow> cycle_state \<times> candidate option \<Rightarrow> installer_call list \<Rightarrow> bool"
  for cfg :: repair_cycle where
  reproduced: "literally_true ev ''reproduced'' \<Longrightarrow> says ev ''repro_case_id'' (rc_repro_case_id cfg) \<Longrightarrow>
     gate cfg (Not_started, x) (E_confirm ev t) (Repro_confirmed, x) []"
| raised: "gate cfg (Repro_confirmed, x) E_raise (Incident_raised, x) []"
| received: "candidate_acceptable cfg cand key \<Longrightarrow>
     gate cfg (Incident_raised, x) (E_receive cand key) (Candidate_received, Some cand) []"
| received_trusted: "trusted_key cand store signer = Some (a, key) \<Longrightarrow> candidate_acceptable cfg cand key \<Longrightarrow>
     gate cfg (Incident_raised, x) (E_receive_trusted cand store signer) (Candidate_received, Some cand) []"
| regression: "gate cfg (Candidate_received, x) (E_regression (Some ''completed'') (Some 0)) (Regression_passed, x) []"
| build_test: "gate cfg (Regression_passed, x) (E_build_test (Some ''completed'') (Some 0)) (Build_test_passed, x) []"
| approved: "approval_acceptable cfg cand a key t \<Longrightarrow>
     gate cfg (Build_test_passed, Some cand) (E_approve a (Some key) t) (Approved, Some cand) []"
| approved_trusted: "key_for store (ap_approved_by a) = Some key \<Longrightarrow> approval_acceptable cfg cand a key t \<Longrightarrow>
     gate cfg (Build_test_passed, Some cand) (E_approve_trusted a store t) (Approved, Some cand) []"
| installed: "gate cfg (Approved, Some cand) (E_install True) (Installed, Some cand) [Install_called cand]"
| verified: "literally_true ev ''verified'' \<Longrightarrow> says ev ''repro_case_id'' (rc_repro_case_id cfg) \<Longrightarrow>
     base = rc_base_fingerprint cfg \<Longrightarrow> gate cfg (Installed, x) (E_verify ev base t) (Verified, x) []"

inductive gated :: "repair_cycle \<Rightarrow> cycle_event list \<Rightarrow> cycle_state \<times> candidate option \<Rightarrow> installer_call list \<Rightarrow> bool"
  for cfg :: repair_cycle where
  fresh_cycle: "gated cfg [] (Not_started, None) []"
| next_gate: "gated cfg es s calls \<Longrightarrow> gate cfg s e s' more_calls \<Longrightarrow> gated cfg (es @ [e]) s' (calls @ more_calls)"

inductive_simps gate_to:
  "gate cfg s e (Not_started, x) calls" "gate cfg s e (Repro_confirmed, x) calls" "gate cfg s e (Incident_raised, x) calls"
  "gate cfg s e (Candidate_received, x) calls" "gate cfg s e (Regression_passed, x) calls"
  "gate cfg s e (Build_test_passed, x) calls" "gate cfg s e (Approved, x) calls" "gate cfg s e (Installed, x) calls"
  "gate cfg s e (Verified, x) calls" "gate cfg s e (Blocked, x) calls" "gate cfg s e (Recovered, x) calls"

inductive_simps gated_simps: "gated cfg es s calls"

subsection \<open>Every call is a move of the specification, or stops the cycle\<close>

abbreviation same_case :: "repair_cycle \<Rightarrow> repair_cycle \<Rightarrow> bool" where
  "same_case c c' \<equiv> rc_incident_id c' = rc_incident_id c \<and> rc_base_fingerprint c' = rc_base_fingerprint c \<and>
     rc_target c' = rc_target c \<and> rc_repro_case_id c' = rc_repro_case_id c \<and>
     rc_allow_symmetric c' = rc_allow_symmetric c \<and> rc_require_bound c' = rc_require_bound c"

text \<open>How a step may end: with an exception, stopped, or moved by \<open>e\<close>.\<close>

definition ends_well :: "repair_cycle \<Rightarrow> cycle_event \<Rightarrow> step_result \<Rightarrow> bool" where
  "ends_well c e r = (case r of (c', calls, out) \<Rightarrow>
     same_case c c' \<and>
     (case out of
        Inl _ \<Rightarrow> c' = c \<and> calls = []
      | Inr o' \<Rightarrow> so_state o' = rc_state c' \<and>
          ((rc_state c' \<in> {Blocked, Recovered} \<and> \<not> so_ok o') \<or>
           (so_ok o' \<and> gate c (rc_state c, rc_candidate c) e (rc_state c', rc_candidate c') calls))))"

lemma ends_well_block [simp]: "ends_well c e (with_calls calls (block c reason))" "ends_well c e (block c reason)"
  by (simp_all add: ends_well_def block_def with_calls_def)

lemma ends_well_wrong_state [simp]: "ends_well c e (wrong_state c what)"
  by (simp add: wrong_state_def)

lemma ends_well_raise [simp]: "ends_well c e (c, [], Inl x)"
  by (simp add: ends_well_def)

lemma ends_well_advance:
  "same_case c c1 \<Longrightarrow> gate c (rc_state c, rc_candidate c) e (s, rc_candidate c1) calls \<Longrightarrow>
     ends_well c e (with_calls calls (advance c1 s))"
  by (simp add: ends_well_def advance_def with_calls_def)

lemma with_calls_Nil [simp]: "with_calls [] r = r"
  by (cases r) (simp add: with_calls_def)

lemmas ends_well_advance' = ends_well_advance [where calls = "[]", unfolded with_calls_Nil]

lemma same_case_hand_on [simp]: "same_case c (hand_on c t phase fp outcome)" "rc_candidate (hand_on c t phase fp outcome) = rc_candidate c"
  by (simp_all add: hand_on_def)

lemma confirm_ends: "ends_well c (E_confirm ev t) (confirm_repro c ev t)"
  by (auto simp: confirm_repro_def intro!: ends_well_advance' gate.reproduced)

lemma raise_ends: "ends_well c E_raise (raise_incident c)"
  by (auto simp: raise_incident_def intro!: ends_well_advance' gate.raised)

lemma receive_ends:
  "ends_well c (E_receive cand key) (receive_candidate c cand key)"
  by (auto simp: receive_candidate_def candidate_acceptable_def key_allowed_def
      intro!: ends_well_advance' gate.received split: sum.split bool.split)

lemma regression_ends: "ends_well c (E_regression out code) (run_regression c out code)"
  by (auto simp: run_regression_def run_passed_def intro!: ends_well_advance' gate.regression)

lemma build_test_ends: "ends_well c (E_build_test out code) (run_build_test c out code)"
  by (auto simp: run_build_test_def run_passed_def intro!: ends_well_advance' gate.build_test)

lemma install_ends: "ends_well c (E_install b) (install_isolated c b)"
  by (auto simp: install_isolated_def intro!: ends_well_advance gate.installed split: option.split)

lemma verify_ends: "ends_well c (E_verify ev base t) (cycle_verify c ev base t)"
proof -
  have "ends_well c (E_verify ev base t) ((hand_on c t ''after'' base ''reproduced'')\<lparr>rc_state := Recovered, rc_reason := Some m\<rparr>,
      [Rollback_called], Ok \<lparr>so_ok = False, so_state = Recovered, so_reason = Some m\<rparr>)" for m
    by (simp add: ends_well_def)
  then show ?thesis
    by (auto simp: cycle_verify_def Let_def intro!: ends_well_advance' gate.verified)
qed

text \<open>The approval's checks in their order; \<open>P\<close> is what every event that carries an acceptable approval gives.\<close>

lemma approve_ends:
  assumes "\<And>cand. rc_candidate c = Some cand \<Longrightarrow> rc_state c = Build_test_passed \<Longrightarrow> approval_acceptable c cand a key t \<Longrightarrow>
      gate c (Build_test_passed, Some cand) e (Approved, Some cand) []"
  shows "ends_well c e (apply_approval c a (Some key) t)"
proof -
  have bind: "ends_well c e (check_binding c a)"
    if "\<And>cand. rc_candidate c = Some cand \<Longrightarrow> ap_for_base a = rc_base_fingerprint c \<Longrightarrow> ap_for_target a = rc_target c \<Longrightarrow>
        gate c (Build_test_passed, Some cand) e (Approved, Some cand) []" and "rc_candidate c = Some cand" "rc_state c = Build_test_passed"
    for cand
    using that by (auto simp: check_binding_def intro!: ends_well_advance')
  show ?thesis
  proof (cases "rc_state c = Build_test_passed \<and> key_allowed c key \<and> approval_signature_ok key a = Ok True")
    case False
    then show ?thesis
      by (auto simp: apply_approval_def key_allowed_def split: sum.split bool.split)
  next
    case True
    show ?thesis
    proof (cases "rc_candidate c")
      case None
      then show ?thesis using True by (auto simp: apply_approval_def key_allowed_def)
    next
      case (Some cand)
      show ?thesis
      proof (cases "ap_candidate_id a = cd_candidate_id cand \<and> (ap_patch_ref a = cd_patch_ref cand \<or> ap_patch_ref a = []) \<and>
          (rc_require_bound c \<longrightarrow> ap_patch_ref a \<noteq> [])")
        case False
        then show ?thesis using True Some by (auto simp: apply_approval_def key_allowed_def)
      next
        case ok: True
        have eq: "apply_approval c a (Some key) t = check_expiry c a t"
          using True Some ok by (auto simp: apply_approval_def key_allowed_def)
        show ?thesis
          unfolding eq check_expiry_def
          using True Some ok assms
          by (auto simp: approval_acceptable_def intro!: bind split: sum.split option.split)
      qed
    qed
  qed
qed

lemma do_event_ends: "ends_well c e (do_event c e)"
proof (cases e)
  case (E_receive_trusted cand store signer)
  show ?thesis
  proof (cases "trusted_key cand store signer")
    case None
    then show ?thesis by (simp add: E_receive_trusted receive_candidate_trusted_def)
  next
    case (Some p)
    obtain a key where p: "p = (a, key)" by (cases p)
    obtain c1 calls out where r: "receive_candidate c cand key = (c1, calls, out)" by (metis prod_cases3)
    have base: "ends_well c (E_receive cand key) (c1, calls, out)" using receive_ends [of c cand key] by (simp add: r)
    show ?thesis
    proof (cases out)
      case (Inl x)
      then show ?thesis using base by (simp add: E_receive_trusted receive_candidate_trusted_def Some p r ends_well_def)
    next
      case (Inr o')
      have "gate c s (E_receive_trusted cand store signer) s' calls'" if "gate c s (E_receive cand key) s' calls'" for s s' calls'
        using that Some p by (cases rule: gate.cases) (auto intro: gate.received_trusted)
      then show ?thesis
        using base by (auto simp: E_receive_trusted receive_candidate_trusted_def Some p r Inr ends_well_def)
    qed
  qed
next
  case (E_approve a key t)
  show ?thesis
  proof (cases key)
    case None
    then show ?thesis by (simp add: E_approve apply_approval_def)
  next
    case (Some k)
    show ?thesis unfolding E_approve Some do_event.simps by (rule approve_ends) (rule gate.approved)
  qed
next
  case (E_approve_trusted a store t)
  show ?thesis
  proof (cases "key_for store (ap_approved_by a)")
    case None
    then show ?thesis by (simp add: E_approve_trusted apply_approval_trusted_def apply_approval_def)
  next
    case (Some k)
    show ?thesis
      unfolding E_approve_trusted Some do_event.simps apply_approval_trusted_def
      by (rule approve_ends) (rule gate.approved_trusted [OF Some])
  qed
qed (simp_all add: confirm_ends raise_ends receive_ends regression_ends build_test_ends install_ends verify_ends)

text \<open>A stopped cycle is stuck, whatever is called.\<close>

lemma stopped_no_gate: "s = Blocked \<or> s = Recovered \<or> s = Verified \<Longrightarrow> \<not> gate c (s, x) e s' calls"
  by (auto elim: gate.cases)

lemma gate_config: "same_case c c' \<Longrightarrow> gate c' s e s' calls = gate c s e s' calls"
proof -
  assume same: "same_case c c'"
  have "gate c2 s e s' calls" if "gate c1 s e s' calls" and "same_case c1 c2" for c1 c2
    using that
    by (cases rule: gate.cases)
       (auto intro!: gate.intros simp: candidate_acceptable_def approval_acceptable_def key_allowed_def)
  then show ?thesis using same by metis
qed

lemma run_gated:
  assumes "rc_state c \<in> {Blocked, Recovered} \<or> gated cfg before (rc_state c, rc_candidate c) calls0" and "same_case cfg c"
    and "run_cycle c es = (c', answered, calls)"
  shows "rc_state c' \<in> {Blocked, Recovered} \<or> gated cfg (before @ answered) (rc_state c', rc_candidate c') (calls0 @ calls)"
  using assms
proof (induction es arbitrary: c before calls0 answered calls)
  case (Cons e es)
  obtain c1 calls1 out where d: "do_event c e = (c1, calls1, out)" by (metis prod_cases3)
  obtain ans2 calls2 where r: "run_cycle c1 es = (c', ans2, calls2)"
    and ans: "answered = (if is_ok out then e # ans2 else ans2)" and calls: "calls = calls1 @ calls2"
    using Cons.prems(3) by (auto simp: d Let_def split: prod.splits)
  have ends: "ends_well c e (c1, calls1, out)" using do_event_ends [of c e] by (simp add: d)
  then have same: "same_case cfg c1" using Cons.prems(2) by (simp add: ends_well_def)
  show ?case
  proof (cases out)
    case (Inl x)
    then have "c1 = c" "calls1 = []" using ends by (simp_all add: ends_well_def)
    then show ?thesis using Cons.IH [OF Cons.prems(1,2)] r ans calls Inl by auto
  next
    case (Inr o')
    consider (stopped) "rc_state c1 \<in> {Blocked, Recovered}"
      | (moved) "gate c (rc_state c, rc_candidate c) e (rc_state c1, rc_candidate c1) calls1"
      using ends Inr by (auto simp: ends_well_def)
    then have "rc_state c1 \<in> {Blocked, Recovered} \<or>
        gated cfg (before @ [e]) (rc_state c1, rc_candidate c1) (calls0 @ calls1)"
    proof cases
      case moved
      then have "\<not> rc_state c \<in> {Blocked, Recovered}" using stopped_no_gate by blast
      moreover have "gate cfg (rc_state c, rc_candidate c) e (rc_state c1, rc_candidate c1) calls1"
        using moved gate_config [OF Cons.prems(2)] by blast
      ultimately show ?thesis using Cons.prems(1) gated.next_gate by blast
    qed simp
    from Cons.IH [OF this same r] show ?thesis by (simp add: ans calls Inr)
  qed
qed simp

subsection \<open>Properties\<close>

lemma fresh_gated: "gated c [] (rc_state (new_cycle i b t r symm bound sink), rc_candidate (new_cycle i b t r symm bound sink)) []"
  by (simp add: new_cycle_def gated.fresh_cycle)

lemma gated_verified:
  assumes "gated cfg es (Verified, x) calls"
  obtains cand confirm_ev t1 receive approve verify_ev t3 where
    "es = [E_confirm confirm_ev t1, E_raise, receive, E_regression (Some ''completed'') (Some 0),
           E_build_test (Some ''completed'') (Some 0), approve, E_install True,
           E_verify verify_ev (rc_base_fingerprint cfg) t3]"
    and "x = Some cand" and "calls = [Install_called cand]"
    and "literally_true confirm_ev ''reproduced''" and "says confirm_ev ''repro_case_id'' (rc_repro_case_id cfg)"
    and "\<exists>key. candidate_acceptable cfg cand key \<and>
          (receive = E_receive cand key \<or>
           (\<exists>store signer a. receive = E_receive_trusted cand store signer \<and> trusted_key cand store signer = Some (a, key)))"
    and "\<exists>a key t2. approval_acceptable cfg cand a key t2 \<and>
          (approve = E_approve a (Some key) t2 \<or>
           (\<exists>store. approve = E_approve_trusted a store t2 \<and> key_for store (ap_approved_by a) = Some key))"
    and "literally_true verify_ev ''verified''" and "says verify_ev ''repro_case_id'' (rc_repro_case_id cfg)"
proof -
  have prior: "\<exists>es0 e s y c0 c1. es = es0 @ [e] \<and> calls = c0 @ c1 \<and> gated cfg es0 (s, y) c0 \<and> gate cfg (s, y) e (s', x') c1"
    if "gated cfg es (s', x') calls" and "s' \<noteq> Not_started" for es s' x' calls
    using that by (cases rule: gated.cases) auto
  obtain es7 v t3 c7 where v: "es = es7 @ [E_verify v (rc_base_fingerprint cfg) t3]" "calls = c7"
      "gated cfg es7 (Installed, x) c7" "literally_true v ''verified''" "says v ''repro_case_id'' (rc_repro_case_id cfg)"
    using prior [OF assms] by (auto simp: gate_to)
  obtain es6 cand c6 where i: "es7 = es6 @ [E_install True]" "c7 = c6 @ [Install_called cand]" "x = Some cand"
      "gated cfg es6 (Approved, Some cand) c6"
    using prior [OF v(3)] by (auto simp: gate_to)
  obtain es5 ev5 where a: "es6 = es5 @ [ev5]" "gated cfg es5 (Build_test_passed, Some cand) c6"
      "\<exists>a key t2. approval_acceptable cfg cand a key t2 \<and> (ev5 = E_approve a (Some key) t2 \<or>
         (\<exists>store. ev5 = E_approve_trusted a store t2 \<and> key_for store (ap_approved_by a) = Some key))"
    using prior [OF i(4)] by (fastforce simp: gate_to)
  obtain es4 where b: "es5 = es4 @ [E_build_test (Some ''completed'') (Some 0)]" "gated cfg es4 (Regression_passed, Some cand) c6"
    using prior [OF a(2)] by (auto simp: gate_to)
  obtain es3 where r: "es4 = es3 @ [E_regression (Some ''completed'') (Some 0)]" "gated cfg es3 (Candidate_received, Some cand) c6"
    using prior [OF b(2)] by (auto simp: gate_to)
  obtain es2 ev2 y where c: "es3 = es2 @ [ev2]" "gated cfg es2 (Incident_raised, y) c6"
      "\<exists>key. candidate_acceptable cfg cand key \<and> (ev2 = E_receive cand key \<or>
         (\<exists>store signer a. ev2 = E_receive_trusted cand store signer \<and> trusted_key cand store signer = Some (a, key)))"
    using prior [OF r(2)] by (fastforce simp: gate_to)
  obtain es1 where n: "es2 = es1 @ [E_raise]" "gated cfg es1 (Repro_confirmed, y) c6"
    using prior [OF c(2)] by (auto simp: gate_to)
  obtain es0 ev t1 where o: "es1 = es0 @ [E_confirm ev t1]" "gated cfg es0 (Not_started, y) c6"
      "literally_true ev ''reproduced''" "says ev ''repro_case_id'' (rc_repro_case_id cfg)"
    using prior [OF n(2)] by (auto simp: gate_to)
  have "es0 = [] \<and> c6 = []"
    using o(2) by (cases rule: gated.cases) (auto elim: gate.cases)
  then show thesis
    using that [of ev t1 ev2 ev5 v t3 cand] v i a(1,3) b(1) r(1) c(1,3) n(1) o by simp
qed

text \<open>C13: A cycle is verified only through every gate: whatever calls are made on a new cycle, in any order and
  number, if it ends verified then the calls it answered are exactly eight - reproduction confirmed for this repro
  case, incident raised, a candidate pinned to this incident, base and target with a valid signature under an allowed
  key, a passed regression, a passed build-test, an acceptable approval of this very candidate, one successful install
  of it, and a verification of this repro case on the unchanged base - and the installer was called once, with it.\<close>

theorem verified_only_through_every_gate:
  assumes "run_cycle (new_cycle incident base target repro symm bound sink) es = (c, answered, calls)"
    and "rc_state c = Verified"
  shows "\<exists>cand ev1 t1 receive approve ev2 t3.
    answered = [E_confirm ev1 t1, E_raise, receive, E_regression (Some ''completed'') (Some 0),
                E_build_test (Some ''completed'') (Some 0), approve, E_install True, E_verify ev2 base t3] \<and>
    rc_candidate c = Some cand \<and> calls = [Install_called cand] \<and>
    cd_incident_id cand = incident \<and> cd_base_fingerprint cand = base \<and> cd_target cand = target \<and>
    map_of ev1 ''reproduced'' = Some (JBool True) \<and> map_of ev1 ''repro_case_id'' = Some (JStr repro) \<and>
    (\<exists>key. (symm \<or> is_public_key key) \<and> signature_matches key (candidate_body cand) (cd_signature cand) = Ok True \<and>
       (receive = E_receive cand key \<or>
        (\<exists>store signer a. receive = E_receive_trusted cand store signer \<and> trusted_key cand store signer = Some (a, key)))) \<and>
    (\<exists>a key t2. (symm \<or> is_public_key key) \<and> signature_matches key (approval_body a) (ap_signature a) = Ok True \<and>
       ap_candidate_id a = cd_candidate_id cand \<and> ap_for_base a = base \<and> ap_for_target a = target \<and>
       (bound \<longrightarrow> ap_patch_ref a = cd_patch_ref cand \<and>
          (\<exists>expiry. parse_expiry (ap_expires_at a) = Ok (Some expiry) \<and> t2 < expiry)) \<and>
       (approve = E_approve a (Some key) t2 \<or>
        (\<exists>store. approve = E_approve_trusted a store t2 \<and> key_for store (ap_approved_by a) = Some key))) \<and>
    map_of ev2 ''verified'' = Some (JBool True) \<and> map_of ev2 ''repro_case_id'' = Some (JStr repro)"
proof -
  let ?new = "new_cycle incident base target repro symm bound sink"
  have cfg: "rc_incident_id ?new = incident" "rc_base_fingerprint ?new = base" "rc_target ?new = target"
    "rc_repro_case_id ?new = repro" "rc_allow_symmetric ?new = symm" "rc_require_bound ?new = bound"
    by (simp_all add: new_cycle_def)
  have "gated ?new answered (Verified, rc_candidate c) calls"
    using run_gated [of ?new ?new "[]" "[]" es c answered calls] fresh_gated assms by simp
  then show ?thesis
  proof (cases rule: gated_verified)
    case (1 cand ev1 t1 receive approve ev2 t3)
    have "\<exists>key. (symm \<or> is_public_key key) \<and> signature_matches key (candidate_body cand) (cd_signature cand) = Ok True \<and>
       (receive = E_receive cand key \<or>
        (\<exists>store signer a. receive = E_receive_trusted cand store signer \<and> trusted_key cand store signer = Some (a, key)))"
      and pins: "cd_incident_id cand = incident" "cd_base_fingerprint cand = base" "cd_target cand = target"
      using 1(6) unfolding candidate_acceptable_def key_allowed_def candidate_signature_ok_def cfg by blast+
    moreover have "\<exists>a key t2. (symm \<or> is_public_key key) \<and> signature_matches key (approval_body a) (ap_signature a) = Ok True \<and>
       ap_candidate_id a = cd_candidate_id cand \<and> ap_for_base a = base \<and> ap_for_target a = target \<and>
       (bound \<longrightarrow> ap_patch_ref a = cd_patch_ref cand \<and>
          (\<exists>expiry. parse_expiry (ap_expires_at a) = Ok (Some expiry) \<and> t2 < expiry)) \<and>
       (approve = E_approve a (Some key) t2 \<or>
        (\<exists>store. approve = E_approve_trusted a store t2 \<and> key_for store (ap_approved_by a) = Some key))"
      using 1(7) unfolding approval_acceptable_def key_allowed_def approval_signature_ok_def cfg by blast
    ultimately show ?thesis
      using 1(1-5,8,9) unfolding literally_true_def says_def cfg
      by (intro exI [of _ cand] exI [of _ ev1] exI [of _ t1] exI [of _ receive] exI [of _ approve] exI [of _ ev2] exI [of _ t3])
         (simp add: pins)
  qed
qed

text \<open>A run that passes every gate; the key is one that verifies every document (see \<open>Signing\<close>).\<close>

definition any_key :: string where
  "any_key = public_prefix @ hex_str neutral_key"

definition sample_candidate :: candidate where
  "sample_candidate = \<lparr>cd_candidate_id = ''c1'', cd_incident_id = ''i1'', cd_base_fingerprint = ''b1'',
     cd_target = ''t1'', cd_patch_ref = ''p1'', cd_signature = neutral_signature\<rparr>"

definition sample_approval :: approval where
  "sample_approval = \<lparr>ap_candidate_id = ''c1'', ap_approved_by = ''Ana'', ap_for_base = ''b1'', ap_for_target = ''t1'',
     ap_signature = neutral_signature, ap_patch_ref = ''p1'', ap_expires_at = ''2026-01-31T12:00:00Z''\<rparr>"

definition sample_cycle :: repair_cycle where
  "sample_cycle = new_cycle ''i1'' ''b1'' ''t1'' ''r1'' False True False"

definition sample_events :: "cycle_event list" where
  "sample_events =
     [E_confirm [(''reproduced'', JBool True), (''repro_case_id'', JStr ''r1'')] 0, E_raise,
      E_receive sample_candidate any_key, E_regression (Some ''completed'') (Some 0),
      E_build_test (Some ''completed'') (Some 0), E_approve sample_approval (Some any_key) 0, E_install True,
      E_verify [(''verified'', JBool True), (''repro_case_id'', JStr ''r1'')] ''b1'' 0]"

lemma any_key_facts: "is_public_key any_key" "signature_matches any_key body neutral_signature = Ok True"
proof -
  show k: "is_public_key any_key" by (simp add: any_key_def is_public_key_def neutral_key_strip)
  have "neutral_signature \<noteq> []" by (simp add: neutral_signature_def signature_prefix_def)
  then show "signature_matches any_key body neutral_signature = Ok True"
    using k neutral_verifies by (simp add: signature_matches_def any_key_def)
qed

lemma sample_expiry: "\<exists>x. parse_expiry ''2026-01-31T12:00:00Z'' = Ok (Some x) \<and> 0 < x"
proof -
  have "parse_expiry ''2026-01-31T12:00:00Z'' = Ok (Some 63905544000000000)" by code_simp
  then show ?thesis by simp
qed

lemma sample_run:
  "run_cycle sample_cycle sample_events =
     (fst (run_cycle sample_cycle sample_events), sample_events, [Install_called sample_candidate])"
  "rc_state (fst (run_cycle sample_cycle sample_events)) = Verified"
  using sample_expiry
  by (auto simp: sample_events_def sample_cycle_def new_cycle_def confirm_repro_def raise_incident_def receive_candidate_def
      run_regression_def run_build_test_def apply_approval_def check_expiry_def check_binding_def install_isolated_def
      cycle_verify_def advance_def hand_on_def literally_true_def says_def run_passed_def with_calls_def
      candidate_signature_ok_def approval_signature_ok_def any_key_facts sample_candidate_def sample_approval_def)

lemma verified_only_through_every_gate_witness:
  "\<exists>cand. snd (snd (run_cycle sample_cycle sample_events)) = [Install_called cand] \<and> cd_base_fingerprint cand = ''b1''"
proof -
  obtain c answered calls where run: "run_cycle sample_cycle sample_events = (c, answered, calls)" by (metis prod_cases3)
  then have "rc_state c = Verified" using sample_run(2) by simp
  from verified_only_through_every_gate [OF run [unfolded sample_cycle_def] this] show ?thesis
    by (auto simp: run)
qed

text \<open>A blocked cycle is final: every later call, whatever its arguments, answers blocked with the reason that
  blocked the cycle first, calls nothing on the installer and leaves the cycle exactly as it was.\<close>

theorem blocked_cycle_is_final:
  assumes "rc_state c = Blocked"
  shows "do_event c e = (c, [], Ok \<lparr>so_ok = False, so_state = Blocked, so_reason = rc_reason c\<rparr>)"
proof -
  have b: "block c m = (c, [], Ok \<lparr>so_ok = False, so_state = Blocked, so_reason = rc_reason c\<rparr>)" for m
    using assms by (simp add: block_def)
  show ?thesis
    using assms
    by (cases e)
       (simp_all add: confirm_repro_def raise_incident_def receive_candidate_def receive_candidate_trusted_def
          run_regression_def run_build_test_def apply_approval_def apply_approval_trusted_def install_isolated_def
          cycle_verify_def wrong_state_def b split: option.split)
qed

lemma blocked_cycle_is_final_witness:
  "do_event (sample_cycle\<lparr>rc_state := Blocked\<rparr>) E_raise =
     (sample_cycle\<lparr>rc_state := Blocked\<rparr>, [], Ok \<lparr>so_ok = False, so_state = Blocked, so_reason = Some (Msg ''not started'' [])\<rparr>)"
proof -
  have "rc_state (sample_cycle\<lparr>rc_state := Blocked\<rparr>) = Blocked" by simp
  from blocked_cycle_is_final [OF this, of E_raise] show ?thesis by (simp add: sample_cycle_def new_cycle_def)
qed

text \<open>C14: A failed verification is always rolled back: from the installed state, \<open>verify\<close> succeeds exactly when the
  observed base is the cycle's base and the evidence is for its repro case and says literally \<open>verified: true\<close>; in
  every other case the installer is rolled back exactly once and the cycle ends recovered or blocked.\<close>

theorem failed_verification_rolls_back:
  assumes "rc_state c = Installed"
  shows "\<exists>c' calls out. cycle_verify c ev observed now = (c', calls, Ok out) \<and>
    (so_ok out \<longleftrightarrow> observed = rc_base_fingerprint c \<and> map_of ev ''repro_case_id'' = Some (JStr (rc_repro_case_id c)) \<and>
       map_of ev ''verified'' = Some (JBool True)) \<and>
    (if so_ok out then rc_state c' = Verified \<and> calls = []
     else rc_state c' \<in> {Recovered, Blocked} \<and> calls = [Rollback_called])"
  using assms
  by (auto simp: cycle_verify_def advance_def block_def with_calls_def says_def literally_true_def Let_def)

lemma failed_verification_rolls_back_witness:
  "\<exists>c' calls out. cycle_verify (sample_cycle\<lparr>rc_state := Installed\<rparr>) [] ''b1'' 0 = (c', calls, Ok out) \<and> calls = [Rollback_called]"
proof -
  have "rc_state (sample_cycle\<lparr>rc_state := Installed\<rparr>) = Installed" by simp
  from failed_verification_rolls_back [OF this, of "[]" "''b1''" 0] show ?thesis by (auto split: if_splits)
qed

text \<open>The stand-alone check agrees with the live gate for public keys: on a cycle waiting for a candidate,
  \<open>check_candidate\<close> under a public key accepts exactly the candidates \<open>receive_candidate\<close> accepts, and never raises.\<close>

theorem check_candidate_agrees_for_public_keys:
  assumes "rc_state c = Incident_raised" and "is_public_key key"
  shows "\<exists>k c' calls out. check_candidate cand key (rc_incident_id c) (rc_base_fingerprint c) (rc_target c) = Ok k \<and>
    receive_candidate c cand key = (c', calls, Ok out) \<and> cc_accepted k = so_ok out \<and>
    (so_ok out \<longrightarrow> rc_candidate c' = Some cand)"
proof -
  obtain b where "signature_matches key (candidate_body cand) (cd_signature cand) = Ok b"
    using assms(2) by (cases "cd_signature cand = []") (auto simp: signature_matches_def)
  then show ?thesis
    using assms
    by (cases b) (auto simp: check_candidate_def receive_candidate_def candidate_signature_ok_def not_accepted_def
        advance_def block_def split: if_splits)
qed

lemma check_candidate_agrees_for_public_keys_witness:
  "\<exists>k c' calls out. check_candidate sample_candidate any_key ''i1'' ''b1'' ''t1'' = Ok k \<and>
     receive_candidate (sample_cycle\<lparr>rc_state := Incident_raised\<rparr>) sample_candidate any_key = (c', calls, Ok out) \<and>
     cc_accepted k = so_ok out"
proof -
  have "rc_state (sample_cycle\<lparr>rc_state := Incident_raised\<rparr>) = Incident_raised" by simp
  from check_candidate_agrees_for_public_keys [OF this any_key_facts(1), of sample_candidate] show ?thesis
    by (auto simp: sample_cycle_def new_cycle_def)
qed

text \<open>With a shared secret they differ: the check accepts what a default cycle refuses.\<close>

lemma check_accepts_shared_secret:
  "check_candidate (candidate_signed ''s'' sample_candidate) ''s'' ''i1'' ''b1'' ''t1'' =
     Ok \<lparr>cc_accepted = True, cc_reason = None, cc_signer = None\<rparr> \<and>
   rc_state (fst (receive_candidate (sample_cycle\<lparr>rc_state := Incident_raised\<rparr>) (candidate_signed ''s'' sample_candidate) ''s'')) = Blocked"
proof -
  have s: "\<not> is_public_key ''s''" by code_simp
  have "\<not> startswith (hmac_hex ''s'' m) signature_prefix" for m
  proof
    assume "startswith (hmac_hex ''s'' m) signature_prefix"
    then have "CHR '':'' \<in> set (hmac_hex ''s'' m)" by (auto simp: startswith_iff signature_prefix_def)
    moreover have "list_all is_lower_hex (hmac_hex ''s'' m)"
      unfolding hmac_hex_def hmac_sha256_def by (rule hex_str_lower) (rule sha256_bytes)
    ultimately have "is_lower_hex (CHR '':'')" by (auto simp: list_all_iff)
    then show False by (simp add: is_lower_hex_def is_digit_def)
  qed
  then have "candidate_signature_ok ''s'' (candidate_signed ''s'' sample_candidate) = Ok True"
    using s by (simp add: candidate_signature_ok_def candidate_signed_def signature_matches_def sign_hmac_def
        candidate_body_def candidate_fields_def hmac_hex_not_Nil compare_digest_def hmac_hex_ascii)
  then show ?thesis
    using s by (simp add: check_candidate_def candidate_signed_def sample_candidate_def receive_candidate_def
        sample_cycle_def new_cycle_def block_def)
qed

end
