(* ===== verification/Incident_Transport.thy ===== *)
theory Incident_Transport
  imports Config Sha2
begin

text \<open>
  \<open>incident_transport.py\<close>: signed messages between nodes, the two stores of what a verifier has seen
  (in memory and in SQLite), \<open>verify_message\<close>, and the session that runs one incident's round trip.  A
  clock reading is a rational; a message's \<open>sent_at\<close> is a Python float, so it may be infinite or NaN.
\<close>

subsection \<open>Registry and policy\<close>

definition contract_version :: string where
  "contract_version = ''incident-transport/1''"

datatype msg_kind = Incident | Diagnosis | Deploy_verification | Ack

fun kind_name :: "msg_kind \<Rightarrow> string" where
  "kind_name Incident = ''incident''"
| "kind_name Diagnosis = ''diagnosis''"
| "kind_name Deploy_verification = ''deploy-verification''"
| "kind_name Ack = ''ack''"

definition known_kinds :: "string list" where
  "known_kinds = map kind_name [Incident, Diagnosis, Deploy_verification, Ack]"

record node_registry =
  nr_secrets :: "string dict"

definition is_registered :: "node_registry \<Rightarrow> string \<Rightarrow> bool" where
  "is_registered reg node = (map_of (nr_secrets reg) node \<noteq> None)"

definition secret_for :: "node_registry \<Rightarrow> string \<Rightarrow> string option" where
  "secret_for reg node = map_of (nr_secrets reg) node"

record transport_policy =
  tp_contract_version :: string
  tp_replay_window :: int
  tp_max_per_minute :: int

definition compatible :: "string \<Rightarrow> bool" where
  "compatible version = (version = contract_version \<or> startswith version ''incident-transport/1.'')"

definition default_transport :: transport_policy where
  "default_transport = \<lparr>tp_contract_version = contract_version, tp_replay_window = 120, tp_max_per_minute = 60\<rparr>"

definition transport_to_dict :: "transport_policy \<Rightarrow> json" where
  "transport_to_dict p =
     JObj [(''contract_version'', JStr (tp_contract_version p)),
           (''replay_window_seconds'', JInt (tp_replay_window p)),
           (''max_messages_per_minute'', JInt (tp_max_per_minute p))]"

definition transport_from_dict :: "json \<Rightarrow> transport_policy result" where
  "transport_from_dict data = (case data of
     JObj d \<Rightarrow>
       (let (version, e1) = require_str d ''contract_version'';
            e2 = (if version \<noteq> [] \<and> \<not> compatible version then
                    [Msg ''contract_version {} is not compatible with {}'' [JStr version, JStr contract_version]] else []);
            (window, e3) = require_positive_int d ''replay_window_seconds'' 120;
            (rate, e4) = require_positive_int d ''max_messages_per_minute'' 60
        in finish (e1 @ e2 @ e3 @ e4)
             \<lparr>tp_contract_version = version, tp_replay_window = window, tp_max_per_minute = rate\<rparr>)
   | _ \<Rightarrow> config_error [Msg ''transport policy must be a JSON object'' []])"

subsection \<open>Messages\<close>

record incident_message =
  im_message_id :: string
  im_from_node :: string
  im_to_node :: string
  im_kind :: string
  im_contract_version :: string
  im_nonce :: string
  im_sent_at :: pyfloat
  im_payload :: "json dict"
  im_mac :: string

definition message_body :: "incident_message \<Rightarrow> (string \<times> json) list" where
  "message_body m =
     [(''message_id'', JStr (im_message_id m)), (''from_node'', JStr (im_from_node m)),
      (''to_node'', JStr (im_to_node m)), (''kind'', JStr (im_kind m)),
      (''contract_version'', JStr (im_contract_version m)), (''nonce'', JStr (im_nonce m)),
      (''sent_at'', JFloat (im_sent_at m)), (''payload'', JObj (im_payload m))]"

definition signing_bytes :: "incident_message \<Rightarrow> bytes" where
  "signing_bytes m = utf8 (dumps_canonical (JObj (message_body m)))"

definition message_mac :: "string \<Rightarrow> incident_message \<Rightarrow> string" where
  "message_mac secret m = hmac_hex secret (signing_bytes m)"

definition signed :: "string \<Rightarrow> incident_message \<Rightarrow> incident_message" where
  "signed secret m = m\<lparr>im_mac := message_mac secret m\<rparr>"

definition message_to_dict :: "incident_message \<Rightarrow> bool \<Rightarrow> json" where
  "message_to_dict m include_mac =
     JObj (message_body m @ (if include_mac then [(''mac'', JStr (im_mac m))] else []))"

definition message_from_dict :: "json \<Rightarrow> incident_message result" where
  "message_from_dict data = (case data of
     JObj d \<Rightarrow>
       (let (mid, e1) = require_str d ''message_id'';
            (frm, e2) = require_str d ''from_node'';
            (dest, e3) = require_str d ''to_node'';
            (kind, e4) = require_str d ''kind'';
            (version, e5) = require_str d ''contract_version'';
            (nonce, e6) = require_str d ''nonce'';
            e7 = (if kind \<noteq> [] \<and> kind \<notin> set known_kinds then
                    [Msg ''kind must be one of {}, not {}'' [JArr (map JStr known_kinds), JStr kind]] else []);
            (sent, e8) = (case map_of d ''sent_at'' of
                Some (JInt i) \<Rightarrow> (JInt i, []) | Some (JFloat f) \<Rightarrow> (JFloat f, [])
              | _ \<Rightarrow> (JFloat (Finite 0), [Msg ''sent_at must be a number (unix seconds)'' []]));
            (payload, e9) = (case map_of d ''payload'' of
                None \<Rightarrow> ([], []) | Some (JObj p) \<Rightarrow> (p, [])
              | Some _ \<Rightarrow> ([], [Msg ''payload must be a JSON object'' []]));
            (mac, e10) = (case map_of d ''mac'' of
                None \<Rightarrow> ([], []) | Some (JStr s) \<Rightarrow> (s, [])
              | Some _ \<Rightarrow> ([], [Msg ''mac must be a string'' []]))
        in and_then (finish (e1 @ e2 @ e3 @ e4 @ e5 @ e6 @ e7 @ e8 @ e9 @ e10) ()) (\<lambda>_.
           and_then (case sent of JInt i \<Rightarrow> float_of_int i | JFloat f \<Rightarrow> Ok f | _ \<Rightarrow> Ok (Finite 0)) (\<lambda>sent_at.
           Ok \<lparr>im_message_id = mid, im_from_node = frm, im_to_node = dest, im_kind = kind,
               im_contract_version = version, im_nonce = nonce, im_sent_at = sent_at,
               im_payload = payload, im_mac = mac\<rparr>)))
   | _ \<Rightarrow> config_error [Msg ''incident message must be a JSON object'' []])"

record verify_result =
  vr_ok :: bool
  vr_code :: "string option"
  vr_reason :: "msg option"

definition refused :: "string \<Rightarrow> msg \<Rightarrow> verify_result" where
  "refused code reason = \<lparr>vr_ok = False, vr_code = Some code, vr_reason = Some reason\<rparr>"

definition accepted :: verify_result where
  "accepted = \<lparr>vr_ok = True, vr_code = None, vr_reason = None\<rparr>"

subsection \<open>What a verifier remembers\<close>

text \<open>
  The operations \<open>verify_message\<close> uses of its state, so that either store can stand behind it: has the nonce
  been seen, how many messages of a node are inside the minute (and the state after counting), accept.
\<close>

record 's store_ops =
  so_nonce_seen :: "'s \<Rightarrow> string \<Rightarrow> bool"
  so_in_window :: "'s \<Rightarrow> string \<Rightarrow> rat \<Rightarrow> 's \<times> nat"
  so_accept :: "'s \<Rightarrow> string \<Rightarrow> string \<Rightarrow> rat \<Rightarrow> rat \<Rightarrow> 's"

text \<open>\<open>VerifierState\<close>: in memory.\<close>

record mem_state =
  ms_seen :: "string set"
  ms_nonce_times :: "(string \<times> rat) list"
  ms_rate_log :: "(string \<times> rat list) list"

definition empty_mem :: mem_state where
  "empty_mem = \<lparr>ms_seen = {}, ms_nonce_times = [], ms_rate_log = []\<rparr>"

definition mem_nonce_seen :: "mem_state \<Rightarrow> string \<Rightarrow> bool" where
  "mem_nonce_seen s nonce = (nonce \<in> ms_seen s)"

definition log_of :: "mem_state \<Rightarrow> string \<Rightarrow> rat list" where
  "log_of s node = (case map_of (ms_rate_log s) node of None \<Rightarrow> [] | Some ts \<Rightarrow> ts)"

definition mem_in_window :: "mem_state \<Rightarrow> string \<Rightarrow> rat \<Rightarrow> mem_state \<times> nat" where
  "mem_in_window s node now =
     (let recent = filter (\<lambda>t. now - t < 60) (log_of s node)
      in (s\<lparr>ms_rate_log := dict_set node recent (ms_rate_log s)\<rparr>, length recent))"

definition mem_accept :: "mem_state \<Rightarrow> string \<Rightarrow> string \<Rightarrow> rat \<Rightarrow> rat \<Rightarrow> mem_state" where
  "mem_accept s node nonce now window =
     (let old = map fst (filter (\<lambda>(n, t). now - t > window) (ms_nonce_times s))
      in s\<lparr>ms_seen := insert nonce (ms_seen s - set old),
           ms_nonce_times := dict_set nonce now (filter (\<lambda>(n, t). \<not> now - t > window) (ms_nonce_times s)),
           ms_rate_log := dict_set node (log_of s node @ [now]) (ms_rate_log s)\<rparr>)"

definition mem_ops :: "mem_state store_ops" where
  "mem_ops = \<lparr>so_nonce_seen = mem_nonce_seen, so_in_window = mem_in_window, so_accept = mem_accept\<rparr>"

text \<open>\<open>SqliteVerifierState\<close>: the tables \<open>nonces\<close> and \<open>messages\<close>.\<close>

record sql_state =
  ss_nonces :: "(string \<times> rat) list"
  ss_messages :: "(string \<times> rat) list"

definition empty_sql :: sql_state where
  "empty_sql = \<lparr>ss_nonces = [], ss_messages = []\<rparr>"

definition sql_nonce_seen :: "sql_state \<Rightarrow> string \<Rightarrow> bool" where
  "sql_nonce_seen s nonce = list_ex (\<lambda>(n, t). n = nonce) (ss_nonces s)"

definition sql_in_window :: "sql_state \<Rightarrow> string \<Rightarrow> rat \<Rightarrow> sql_state \<times> nat" where
  "sql_in_window s node now = (s, length (filter (\<lambda>(n, t). n = node \<and> now - t < 60) (ss_messages s)))"

definition sql_accept :: "sql_state \<Rightarrow> string \<Rightarrow> string \<Rightarrow> rat \<Rightarrow> rat \<Rightarrow> sql_state" where
  "sql_accept s node nonce now window =
     \<lparr>ss_nonces = filter (\<lambda>(n, t). \<not> now - t > window) (ss_nonces s) @ [(nonce, now)],
      ss_messages = filter (\<lambda>(n, t). \<not> now - t \<ge> 60) (ss_messages s) @ [(node, now)]\<rparr>"

definition sql_ops :: "sql_state store_ops" where
  "sql_ops = \<lparr>so_nonce_seen = sql_nonce_seen, so_in_window = sql_in_window, so_accept = sql_accept\<rparr>"

subsection \<open>Verification\<close>

definition float_away :: "rat \<Rightarrow> pyfloat \<Rightarrow> rat option" where
  "float_away now f = (case f of Finite q \<Rightarrow> Some \<bar>now - q\<bar> | _ \<Rightarrow> None)"

text \<open>The part of \<open>verify_message\<close> that runs inside \<open>state.exclusive()\<close>.\<close>

definition check_and_accept ::
  "'s store_ops \<Rightarrow> incident_message \<Rightarrow> transport_policy \<Rightarrow> 's \<Rightarrow> string \<Rightarrow> rat \<Rightarrow> 's \<times> verify_result" where
  "check_and_accept ops m policy st auth now =
     (if so_nonce_seen ops st (im_nonce m) then
        (st, refused ''replay'' (Msg ''nonce {} was already accepted'' [JStr (im_nonce m)]))
      else (let (st1, recent) = so_in_window ops st auth now in
        if int recent \<ge> tp_max_per_minute policy then
          (st1, refused ''overloaded'' (Msg ''{} sent {} messages in the last minute (limit {})''
             [JStr auth, JInt (int recent), JInt (tp_max_per_minute policy)]))
        else (so_accept ops st1 auth (im_nonce m) now (of_int (tp_replay_window policy)), accepted)))"

definition verify_message ::
  "'s store_ops \<Rightarrow> incident_message \<Rightarrow> node_registry \<Rightarrow> transport_policy \<Rightarrow> 's \<Rightarrow> string \<Rightarrow> rat
   \<Rightarrow> string option \<Rightarrow> 's \<times> verify_result result" where
  "verify_message ops m reg policy st auth now expected_to =
     (if \<not> is_registered reg auth then
        (st, Ok (refused ''unknown-identity'' (Msg ''{} is not a registered node'' [JStr auth])))
      else if im_from_node m \<noteq> auth then
        (st, Ok (refused ''impersonation'' (Msg ''message claims from_node {} but the channel is authenticated as {}''
           [JStr (im_from_node m), JStr auth])))
      else if expected_to \<noteq> None \<and> expected_to \<noteq> Some (im_to_node m) then
        (st, Ok (refused ''wrong-recipient'' (Msg ''message is addressed to {}, not to {}''
           [JStr (im_to_node m), JStr (the expected_to)])))
      else if \<not> compatible (im_contract_version m) then
        (st, Ok (refused ''incompatible-version'' (Msg ''{} is not compatible with {}''
           [JStr (im_contract_version m), JStr (tp_contract_version policy)])))
      else (let secret = (case secret_for reg auth of None \<Rightarrow> [] | Some s \<Rightarrow> s);
                expected = im_mac (signed secret m) in
        case (if im_mac m = [] then Ok False else compare_digest (im_mac m) expected) of
          Inl e \<Rightarrow> (st, Inl e)
        | Inr False \<Rightarrow> (st, Ok (refused ''bad-signature'' (Msg ''HMAC does not match the registered secret'' [])))
        | Inr True \<Rightarrow>
            (case float_away now (im_sent_at m) of
               None \<Rightarrow> (st, Ok (refused ''stale'' (Msg ''sent_at is not a finite number'' [])))
             | Some d \<Rightarrow>
                 if d > of_int (tp_replay_window policy) then
                   (st, Ok (refused ''stale'' (Msg ''sent_at is {}s from now, outside the {}s window''
                      [JFloat (Finite d), JInt (tp_replay_window policy)])))
                 else (let (st1, r) = check_and_accept ops m policy st auth now in (st1, Ok r)))))"

end
