(* ===== verification/Incident_Stores.thy ===== *)
theory Incident_Stores
  imports Incident_Transport
begin

text \<open>
  The contract between \<open>verify_message\<close> and the store behind it, as a locale with the two stores of the code as
  its interpretations: what verification guarantees is proved once, over the contract.  Proved: acceptance means
  exactly the seven checks passed, an accepted message whose timestamp is not in the future can never be accepted
  again, and the in-memory and the SQLite store give the same verdicts on every run whose clock does not go back.
\<close>

subsection \<open>The contract\<close>

locale verifier_store =
  fixes ops :: "'s store_ops"
    and ok :: "'s \<Rightarrow> bool"
    and seen_at :: "'s \<Rightarrow> string \<Rightarrow> rat option"
    and recent :: "'s \<Rightarrow> string \<Rightarrow> rat \<Rightarrow> nat"
  assumes seen: "ok s \<Longrightarrow> so_nonce_seen ops s n \<longleftrightarrow> seen_at s n \<noteq> None"
    and window_count: "ok s \<Longrightarrow> snd (so_in_window ops s node t) = recent s node t"
    and window_ok: "ok s \<Longrightarrow> ok (fst (so_in_window ops s node t))"
    and window_seen: "ok s \<Longrightarrow> seen_at (fst (so_in_window ops s node t)) = seen_at s"
    and window_recent: "ok s \<Longrightarrow> t \<le> t' \<Longrightarrow> recent (fst (so_in_window ops s node t)) node' t' = recent s node' t'"
    and accept_ok: "ok s \<Longrightarrow> seen_at s n = None \<Longrightarrow> ok (so_accept ops s node n t w)"
    and accept_seen: "ok s \<Longrightarrow> seen_at s n = None \<Longrightarrow> seen_at (so_accept ops s node n t w) m =
      (if m = n then Some t
       else (case seen_at s m of None \<Rightarrow> None | Some u \<Rightarrow> if t - u > w then None else Some u))"
    and accept_recent: "ok s \<Longrightarrow> seen_at s n = None \<Longrightarrow> t \<le> t' \<Longrightarrow>
      recent (so_accept ops s node n t w) node' t' = recent s node' t' + (if node' = node \<and> t' - t < 60 then 1 else 0)"

text \<open>The checks that do not depend on the store, in one place.\<close>

definition authentic :: "incident_message \<Rightarrow> node_registry \<Rightarrow> string \<Rightarrow> string option \<Rightarrow> bool" where
  "authentic m reg auth expected_to \<longleftrightarrow>
     (\<exists>secret. map_of (nr_secrets reg) auth = Some secret \<and> im_mac m = message_mac secret m) \<and> im_mac m \<noteq> [] \<and>
     is_ascii (im_mac m) \<and>
     im_from_node m = auth \<and> (expected_to = None \<or> expected_to = Some (im_to_node m)) \<and>
     compatible (im_contract_version m)"

definition fresh :: "incident_message \<Rightarrow> transport_policy \<Rightarrow> rat \<Rightarrow> bool" where
  "fresh m policy now \<longleftrightarrow> (\<exists>q. im_sent_at m = Finite q \<and> \<bar>now - q\<bar> \<le> of_int (tp_replay_window policy))"

definition says_ok :: "verify_result result \<Rightarrow> bool" where
  "says_ok r = (case r of Inl _ \<Rightarrow> False | Inr v \<Rightarrow> vr_ok v)"

lemma verify_message_cases:
  fixes ops :: "'s store_ops"
  obtains (checked) "authentic m reg auth to" and "fresh m policy now"
      and "verify_message ops m reg policy st auth now to =
             (fst (check_and_accept ops m policy st auth now), Ok (snd (check_and_accept ops m policy st auth now)))"
  | (turned_away) r where "\<not> (authentic m reg auth to \<and> fresh m policy now)"
      and "verify_message ops m reg policy st auth now to = (st, r)" and "\<not> says_ok r"
proof -
  let ?away = "(\<exists>r. verify_message ops m reg policy st auth now to = (st, r) \<and> \<not> says_ok r)"
  have "(authentic m reg auth to \<and> fresh m policy now \<and> verify_message ops m reg policy st auth now to =
             (fst (check_and_accept ops m policy st auth now), Ok (snd (check_and_accept ops m policy st auth now)))) \<or>
        (\<not> (authentic m reg auth to \<and> fresh m policy now) \<and> ?away)"
  proof (cases "map_of (nr_secrets reg) auth")
    case None
    then show ?thesis by (simp add: verify_message_def is_registered_def refused_def authentic_def says_ok_def)
  next
    case (Some secret)
    show ?thesis
    proof (cases "im_from_node m = auth \<and> (to = None \<or> to = Some (im_to_node m)) \<and> compatible (im_contract_version m)")
      case False
      then show ?thesis
        using Some by (auto simp: verify_message_def is_registered_def refused_def authentic_def says_ok_def)
    next
      case True
      have mac: "(if im_mac m = [] then Ok False else compare_digest (im_mac m) (im_mac (signed secret m))) = Ok True
          \<longleftrightarrow> authentic m reg auth to"
        using True Some by (auto simp: compare_digest_def signed_def authentic_def)
      have fr: "(\<exists>d. float_away now (im_sent_at m) = Some d \<and> \<not> d > of_int (tp_replay_window policy)) \<longleftrightarrow> fresh m policy now"
        by (auto simp: float_away_def fresh_def split: pyfloat.splits)
      show ?thesis
        unfolding mac [symmetric] fr [symmetric]
        using True Some
        by (auto simp: verify_message_def is_registered_def secret_for_def refused_def says_ok_def Let_def
            split: sum.splits bool.splits option.splits prod.splits)
    qed
  qed
  then show thesis using checked turned_away by blast
qed

context verifier_store
begin

lemma check_and_accept_ok:
  assumes "ok st"
  shows "vr_ok (snd (check_and_accept ops m policy st auth now)) \<longleftrightarrow>
      seen_at st (im_nonce m) = None \<and> int (recent st auth now) < tp_max_per_minute policy"
    and "ok (fst (check_and_accept ops m policy st auth now))"
    and "seen_at (fst (check_and_accept ops m policy st auth now)) =
      (if vr_ok (snd (check_and_accept ops m policy st auth now))
       then (\<lambda>n. if n = im_nonce m then Some now
         else (case seen_at st n of None \<Rightarrow> None
               | Some u \<Rightarrow> if now - u > of_int (tp_replay_window policy) then None else Some u))
       else seen_at st)"
    and "now \<le> t' \<Longrightarrow> recent (fst (check_and_accept ops m policy st auth now)) node t' =
      recent st node t' + (if vr_ok (snd (check_and_accept ops m policy st auth now)) \<and> node = auth \<and> t' - now < 60
        then 1 else 0)"
proof -
  obtain st1 where w: "so_in_window ops st auth now = (st1, recent st auth now)"
    using window_count [OF assms, of auth now] by (cases "so_in_window ops st auth now") auto
  have st1: "ok st1" "seen_at st1 = seen_at st"
    using window_ok [OF assms, of auth now] window_seen [OF assms, of auth now] w by simp_all
  show "vr_ok (snd (check_and_accept ops m policy st auth now)) \<longleftrightarrow>
      seen_at st (im_nonce m) = None \<and> int (recent st auth now) < tp_max_per_minute policy"
    using seen [OF assms] by (auto simp: check_and_accept_def w refused_def says_ok_def accepted_def)
  show "ok (fst (check_and_accept ops m policy st auth now))"
    using seen [OF assms] st1 assms by (auto simp: check_and_accept_def w accept_ok)
  show "seen_at (fst (check_and_accept ops m policy st auth now)) =
      (if vr_ok (snd (check_and_accept ops m policy st auth now))
       then (\<lambda>n. if n = im_nonce m then Some now
         else (case seen_at st n of None \<Rightarrow> None
               | Some u \<Rightarrow> if now - u > of_int (tp_replay_window policy) then None else Some u))
       else seen_at st)"
    using seen [OF assms] st1
    by (auto simp: check_and_accept_def w refused_def says_ok_def accepted_def accept_seen fun_eq_iff)
  show "recent (fst (check_and_accept ops m policy st auth now)) node t' =
      recent st node t' + (if vr_ok (snd (check_and_accept ops m policy st auth now)) \<and> node = auth \<and> t' - now < 60
        then 1 else 0)" if "now \<le> t'"
    using seen [OF assms] st1 window_recent [OF assms that, of auth node] w that
    by (auto simp: check_and_accept_def refused_def says_ok_def accepted_def accept_recent)
qed

lemma verify_ok_iff:
  assumes "ok st"
  shows "says_ok (snd (verify_message ops m reg policy st auth now to)) \<longleftrightarrow>
    authentic m reg auth to \<and> fresh m policy now \<and> seen_at st (im_nonce m) = None \<and>
    int (recent st auth now) < tp_max_per_minute policy"
  by (cases rule: verify_message_cases [of m reg auth to policy now ops st])
     (auto simp: says_ok_def check_and_accept_ok(1) [OF assms])

lemma verify_state:
  assumes "ok st"
  shows "ok (fst (verify_message ops m reg policy st auth now to))"
    and "seen_at (fst (verify_message ops m reg policy st auth now to)) n =
      (if says_ok (snd (verify_message ops m reg policy st auth now to))
       then (if n = im_nonce m then Some now
         else (case seen_at st n of None \<Rightarrow> None
               | Some u \<Rightarrow> if now - u > of_int (tp_replay_window policy) then None else Some u))
       else seen_at st n)"
    and "now \<le> t' \<Longrightarrow> recent (fst (verify_message ops m reg policy st auth now to)) node t' =
      recent st node t' + (if says_ok (snd (verify_message ops m reg policy st auth now to))
        \<and> node = auth \<and> t' - now < 60 then 1 else 0)"
proof -
  let ?v = "verify_message ops m reg policy st auth now to"
  let ?c = "check_and_accept ops m policy st auth now"
  have "(fst ?v = fst ?c \<and> says_ok (snd ?v) = vr_ok (snd ?c)) \<or> (fst ?v = st \<and> \<not> says_ok (snd ?v))"
    by (cases rule: verify_message_cases [of m reg auth to policy now ops st]) (simp_all add: says_ok_def)
  note effect = disjE [OF this]
  show "ok (fst ?v)"
    by (rule effect) (simp_all add: assms check_and_accept_ok(2) [OF assms])
  show "seen_at (fst ?v) n = (if says_ok (snd ?v) then (if n = im_nonce m then Some now
         else (case seen_at st n of None \<Rightarrow> None
               | Some u \<Rightarrow> if now - u > of_int (tp_replay_window policy) then None else Some u))
       else seen_at st n)"
    by (rule effect) (simp_all add: check_and_accept_ok(3) [OF assms])
  assume t': "now \<le> t'"
  show "recent (fst ?v) node t' = recent st node t' + (if says_ok (snd ?v) \<and> node = auth \<and> t' - now < 60 then 1 else 0)"
    by (rule effect) (simp_all add: check_and_accept_ok(4) [OF assms t'])
qed

end

subsection \<open>Runs\<close>

record verify_call =
  vc_message :: incident_message
  vc_auth :: string
  vc_now :: rat
  vc_to :: "string option"

fun verify_run ::
  "'s store_ops \<Rightarrow> node_registry \<Rightarrow> transport_policy \<Rightarrow> 's \<Rightarrow> verify_call list \<Rightarrow> 's \<times> verify_result result list" where
  "verify_run ops reg policy st [] = (st, [])"
| "verify_run ops reg policy st (c # cs) =
     (let (st1, r) = verify_message ops (vc_message c) reg policy st (vc_auth c) (vc_now c) (vc_to c);
          (st2, rs) = verify_run ops reg policy st1 cs
      in (st2, r # rs))"

context verifier_store
begin

text \<open>
  What is known about the nonce of a message accepted at \<open>t0\<close> while the clock is at \<open>t\<close>: it is remembered with a
  time no earlier than \<open>t0\<close>, or the window since \<open>t0\<close> has passed.
\<close>

definition remembered :: "'s \<Rightarrow> string \<Rightarrow> rat \<Rightarrow> transport_policy \<Rightarrow> rat \<Rightarrow> bool" where
  "remembered st n t0 policy t \<longleftrightarrow> seen_at st n \<noteq> None \<or> t - t0 > of_int (tp_replay_window policy)"

lemma remembered_verify:
  assumes "ok st" and "remembered st n t0 policy t" and "t \<le> now" and "\<And>u. seen_at st n = Some u \<Longrightarrow> t0 \<le> u"
  shows "remembered (fst (verify_message ops m reg policy st auth now to)) n t0 policy now"
    and "\<And>u. t0 \<le> now \<Longrightarrow> seen_at (fst (verify_message ops m reg policy st auth now to)) n = Some u \<Longrightarrow> t0 \<le> u"
  using assms unfolding remembered_def verify_state(2) [OF assms(1)]
  by (fastforce split: option.splits if_splits)+

lemma remembered_run:
  assumes "ok st" and "remembered st n t0 policy t" and "\<And>u. seen_at st n = Some u \<Longrightarrow> t0 \<le> u"
    and "t0 \<le> t" and "sorted (t # map vc_now cs @ [t'])"
  shows "ok (fst (verify_run ops reg policy st cs)) \<and> remembered (fst (verify_run ops reg policy st cs)) n t0 policy t'"
  using assms
proof (induction cs arbitrary: st t)
  case Nil
  then show ?case by (auto simp: remembered_def)
next
  case (Cons c cs)
  let ?st = "fst (verify_message ops (vc_message c) reg policy st (vc_auth c) (vc_now c) (vc_to c))"
  have "t \<le> vc_now c" using Cons.prems(5) by simp
  moreover have "sorted (vc_now c # map vc_now cs @ [t'])" using Cons.prems(5) by simp
  ultimately have "ok (fst (verify_run ops reg policy ?st cs)) \<and> remembered (fst (verify_run ops reg policy ?st cs)) n t0 policy t'"
    using Cons.prems
    by (intro Cons.IH [of ?st "vc_now c"] remembered_verify(1) [OF Cons.prems(1,2)] verify_state(1))
       (auto intro: remembered_verify(2) [OF Cons.prems(1,2) _ Cons.prems(3)])
  then show ?case by (simp add: split_def Let_def)
qed

lemma never_accepted_twice:
  assumes "ok st" and "verify_message ops m reg policy st auth t0 to = (st1, r)" and "says_ok r"
    and "sorted (t0 # map vc_now cs @ [t])"
    and "im_nonce m' = im_nonce m" and "im_sent_at m' = Finite q" and "q \<le> t0"
  shows "\<not> says_ok (snd (verify_message ops m' reg' policy (fst (verify_run ops reg policy st1 cs)) auth' t to'))"
proof -
  have st1: "st1 = fst (verify_message ops m reg policy st auth t0 to)" and r: "r = snd (verify_message ops m reg policy st auth t0 to)"
    using assms(2) by simp_all
  have "seen_at st1 (im_nonce m) = Some t0" "ok st1"
    using assms(3) verify_state(1,2) [OF assms(1)] by (simp_all add: st1 r)
  then have rem: "ok (fst (verify_run ops reg policy st1 cs))"
      "remembered (fst (verify_run ops reg policy st1 cs)) (im_nonce m) t0 policy t"
    using remembered_run [OF \<open>ok st1\<close>, of "im_nonce m" t0 policy t0 cs t reg] assms(4)
    by (auto simp: remembered_def)
  have "t0 \<le> t" using assms(4) by simp
  then show ?thesis
    using rem(2) assms(5-7) unfolding verify_ok_iff [OF rem(1)]
    by (auto simp: remembered_def fresh_def)
qed

end

subsection \<open>The two stores\<close>

definition mem_ok :: "mem_state \<Rightarrow> bool" where
  "mem_ok s \<longleftrightarrow> ms_seen s = fst ` set (ms_nonce_times s) \<and> dict_ok (ms_nonce_times s)"

definition mem_recent :: "mem_state \<Rightarrow> string \<Rightarrow> rat \<Rightarrow> nat" where
  "mem_recent s node t = length (filter (\<lambda>u. t - u < 60) (log_of s node))"

definition sql_ok :: "sql_state \<Rightarrow> bool" where
  "sql_ok s \<longleftrightarrow> distinct (map fst (ss_nonces s))"

definition sql_recent :: "sql_state \<Rightarrow> string \<Rightarrow> rat \<Rightarrow> nat" where
  "sql_recent s node t = length (filter (\<lambda>(n, u). n = node \<and> t - u < 60) (ss_messages s))"

lemma map_of_filter_value:
  "distinct (map fst d) \<Longrightarrow>
     map_of (filter (\<lambda>(n, t). P t) d) k = (case map_of d k of None \<Rightarrow> None | Some t \<Rightarrow> if P t then Some t else None)"
proof (induction d)
  case (Cons e d)
  then show ?case
    by (cases e) (auto split: option.splits simp: map_of_eq_None_iff dest: map_of_SomeD intro: rev_image_eqI)
qed simp

lemma keys_filter_split:
  assumes "distinct (map fst d)"
  shows "fst ` set d - fst ` set (filter (\<lambda>(n, u). P u) d) = fst ` set (filter (\<lambda>(n, u). \<not> P u) d)"
proof (rule set_eqI)
  fix n
  have "n \<in> fst ` set (filter (\<lambda>(n, u). Q u) d) \<longleftrightarrow> (\<exists>u. map_of d n = Some u \<and> Q u)" for Q
    using assms by (auto simp: image_iff split_beta)
  moreover have "n \<in> fst ` set d \<longleftrightarrow> map_of d n \<noteq> None" by (simp add: map_of_eq_None_iff)
  ultimately show "n \<in> fst ` set d - fst ` set (filter (\<lambda>(n, u). P u) d) \<longleftrightarrow>
      n \<in> fst ` set (filter (\<lambda>(n, u). \<not> P u) d)" by auto
qed

lemma filter_later:
  "t \<le> t' \<Longrightarrow> filter (\<lambda>u. t' - u < (60 :: rat)) (filter (\<lambda>u. t - u < 60) us) = filter (\<lambda>u. t' - u < 60) us"
  by (auto simp: filter_filter intro!: filter_cong)

lemma log_of_set [simp]: "log_of (s\<lparr>ms_rate_log := dict_set node ts (ms_rate_log s)\<rparr>) k = (if k = node then ts else log_of s k)"
  by (simp add: log_of_def)

lemma log_of_nonces [simp]:
  "log_of (s\<lparr>ms_seen := a, ms_nonce_times := b\<rparr>) k = log_of s k"
  "log_of (s\<lparr>ms_seen := a, ms_nonce_times := b, ms_rate_log := dict_set node ts (ms_rate_log s)\<rparr>) k =
     (if k = node then ts else log_of s k)"
  by (simp_all add: log_of_def)

lemma mem_ok_accept:
  assumes "mem_ok s" and "map_of (ms_nonce_times s) n = None"
  shows "mem_ok (mem_accept s node n t w)"
proof -
  let ?keep = "filter (\<lambda>(n, u). \<not> t - u > w) (ms_nonce_times s)"
  have dist: "distinct (map fst (ms_nonce_times s))" using assms(1) by (simp add: mem_ok_def dict_ok_def)
  have "fst ` set (ms_nonce_times s) - fst ` set (filter (\<lambda>(n, u). t - u > w) (ms_nonce_times s)) = fst ` set ?keep"
    by (rule keys_filter_split [OF dist])
  moreover have "dict_ok ?keep" using dist by (simp add: dict_ok_def distinct_map_filter)
  moreover have "fst ` set (dict_set n t ?keep) = insert n (fst ` set ?keep)"
    using keys_dict_set [of n t ?keep] by simp
  ultimately show ?thesis
    using assms(1) by (simp add: mem_accept_def mem_ok_def Let_def dict_ok_set)
qed

interpretation mem: verifier_store mem_ops mem_ok "\<lambda>s. map_of (ms_nonce_times s)" mem_recent
proof unfold_locales
  fix s n node t t' node' w m
  assume ok: "mem_ok s"
  then have dist: "distinct (map fst (ms_nonce_times s))" by (simp add: mem_ok_def dict_ok_def)
  show "so_nonce_seen mem_ops s n \<longleftrightarrow> map_of (ms_nonce_times s) n \<noteq> None"
    using ok by (simp add: mem_ops_def mem_nonce_seen_def mem_ok_def map_of_eq_None_iff)
  show "snd (so_in_window mem_ops s node t) = mem_recent s node t"
    by (simp add: mem_ops_def mem_in_window_def mem_recent_def Let_def)
  show "mem_ok (fst (so_in_window mem_ops s node t))"
    using ok by (simp add: mem_ops_def mem_in_window_def mem_ok_def Let_def)
  show "map_of (ms_nonce_times (fst (so_in_window mem_ops s node t))) = map_of (ms_nonce_times s)"
    by (simp add: mem_ops_def mem_in_window_def Let_def)
  show "mem_recent (fst (so_in_window mem_ops s node t)) node' t' = mem_recent s node' t'" if "t \<le> t'"
    using filter_later [OF that] by (simp add: mem_ops_def mem_in_window_def mem_recent_def Let_def)
  assume new: "map_of (ms_nonce_times s) n = None"
  show "mem_ok (so_accept mem_ops s node n t w)"
    using mem_ok_accept [OF ok new] by (simp add: mem_ops_def)
  show "map_of (ms_nonce_times (so_accept mem_ops s node n t w)) m = (if m = n then Some t
      else case map_of (ms_nonce_times s) m of None \<Rightarrow> None | Some u \<Rightarrow> if t - u > w then None else Some u)"
    using map_of_filter_value [OF dist, of "\<lambda>u. \<not> t - u > w"]
    by (auto simp: mem_ops_def mem_accept_def Let_def split: option.split)
  show "mem_recent (so_accept mem_ops s node n t w) node' t' =
      mem_recent s node' t' + (if node' = node \<and> t' - t < 60 then 1 else 0)" if "t \<le> t'"
    by (simp add: mem_ops_def mem_accept_def mem_recent_def Let_def)
qed

interpretation sql: verifier_store sql_ops sql_ok "\<lambda>s. map_of (ss_nonces s)" sql_recent
proof unfold_locales
  fix s n node t t' node' w m
  assume ok: "sql_ok s"
  then have dist: "distinct (map fst (ss_nonces s))" by (simp add: sql_ok_def)
  show "so_nonce_seen sql_ops s n \<longleftrightarrow> map_of (ss_nonces s) n \<noteq> None"
    by (force simp: sql_ops_def sql_nonce_seen_def list_ex_iff map_of_eq_None_iff)
  show "snd (so_in_window sql_ops s node t) = sql_recent s node t"
    by (simp add: sql_ops_def sql_in_window_def sql_recent_def)
  show "sql_ok (fst (so_in_window sql_ops s node t))"
    using ok by (simp add: sql_ops_def sql_in_window_def)
  show "map_of (ss_nonces (fst (so_in_window sql_ops s node t))) = map_of (ss_nonces s)"
    by (simp add: sql_ops_def sql_in_window_def)
  show "sql_recent (fst (so_in_window sql_ops s node t)) node' t' = sql_recent s node' t'"
    by (simp add: sql_ops_def sql_in_window_def)
  assume new: "map_of (ss_nonces s) n = None"
  show "sql_ok (so_accept sql_ops s node n t w)"
    using dist new
    by (auto simp: sql_ops_def sql_accept_def sql_ok_def distinct_map_filter map_of_eq_None_iff)
  show "map_of (ss_nonces (so_accept sql_ops s node n t w)) m = (if m = n then Some t
      else case map_of (ss_nonces s) m of None \<Rightarrow> None | Some u \<Rightarrow> if t - u > w then None else Some u)"
    using map_of_filter_value [OF dist, of "\<lambda>u. \<not> t - u > w"] new
    by (auto simp: sql_ops_def sql_accept_def map_add_Some_iff map_add_def split: option.split)
  show "sql_recent (so_accept sql_ops s node n t w) node' t' =
      sql_recent s node' t' + (if node' = node \<and> t' - t < 60 then 1 else 0)" if "t \<le> t'"
  proof -
    have "filter (\<lambda>(n, u). n = node' \<and> t' - u < 60) (filter (\<lambda>(n, u). \<not> t - u \<ge> 60) (ss_messages s)) =
        filter (\<lambda>(n, u). n = node' \<and> t' - u < 60) (ss_messages s)"
      using that by (auto simp: filter_filter intro!: filter_cong)
    then show ?thesis by (simp add: sql_ops_def sql_accept_def sql_recent_def)
  qed
qed

end
