(* ===== verification/Incident_Guarantees.thy ===== *)
theory Incident_Guarantees
  imports Incident_Stores
begin

text \<open>
  The properties of \<open>verify_message\<close> over the two real stores, and how a message sent with a timestamp in the
  future escapes the replay protection.
\<close>

subsection \<open>Two stores that agree\<close>

locale two_stores =
  a: verifier_store ops1 ok1 seen1 recent1 + b: verifier_store ops2 ok2 seen2 recent2
  for ops1 :: "'s store_ops" and ok1 seen1 recent1 and ops2 :: "'t store_ops" and ok2 seen2 recent2
begin

definition agree :: "'s \<Rightarrow> 't \<Rightarrow> rat \<Rightarrow> bool" where
  "agree s t now \<longleftrightarrow> ok1 s \<and> ok2 t \<and> seen1 s = seen2 t \<and> (\<forall>node t'. now \<le> t' \<longrightarrow> recent1 s node t' = recent2 t node t')"

lemma agree_check:
  assumes "agree s t now"
  shows "snd (check_and_accept ops1 m policy s auth now) = snd (check_and_accept ops2 m policy t auth now)"
proof -
  have st: "ok1 s" "ok2 t" "seen1 s = seen2 t" "recent1 s auth now = recent2 t auth now"
    using assms by (simp_all add: agree_def)
  obtain s1 t1 where "so_in_window ops1 s auth now = (s1, recent1 s auth now)"
      and "so_in_window ops2 t auth now = (t1, recent2 t auth now)"
    using a.window_count [OF st(1), of auth now] b.window_count [OF st(2), of auth now]
    by (cases "so_in_window ops1 s auth now"; cases "so_in_window ops2 t auth now") auto
  then show ?thesis
    using a.seen [OF st(1)] b.seen [OF st(2)] st(3,4) by (simp add: check_and_accept_def)
qed

lemma verify_snd:
  "snd (check_and_accept opsA m policy s auth now) = snd (check_and_accept opsB m policy t auth now) \<Longrightarrow>
   snd (verify_message opsA m reg policy s auth now to) = snd (verify_message opsB m reg policy t auth now to)"
  by (simp add: verify_message_def Let_def split_def split: sum.split bool.split option.split)

lemma agree_verify:
  assumes "agree s t now"
  shows "snd (verify_message ops1 m reg policy s auth now to) = snd (verify_message ops2 m reg policy t auth now to)"
    and "agree (fst (verify_message ops1 m reg policy s auth now to)) (fst (verify_message ops2 m reg policy t auth now to)) now"
proof -
  have st: "ok1 s" "ok2 t" "seen1 s = seen2 t" "\<And>node t'. now \<le> t' \<Longrightarrow> recent1 s node t' = recent2 t node t'"
    using assms by (simp_all add: agree_def)
  show same: "snd (verify_message ops1 m reg policy s auth now to) = snd (verify_message ops2 m reg policy t auth now to)"
    by (rule verify_snd [OF agree_check [OF assms]])
  have "seen1 (fst (verify_message ops1 m reg policy s auth now to)) n =
      seen2 (fst (verify_message ops2 m reg policy t auth now to)) n" for n
    unfolding a.verify_state(2) [OF st(1)] b.verify_state(2) [OF st(2)] same st(3) ..
  then have "seen1 (fst (verify_message ops1 m reg policy s auth now to)) =
      seen2 (fst (verify_message ops2 m reg policy t auth now to))" ..
  then show "agree (fst (verify_message ops1 m reg policy s auth now to))
      (fst (verify_message ops2 m reg policy t auth now to)) now"
    unfolding agree_def
    by (simp add: a.verify_state(1,3) [OF st(1)] b.verify_state(1,3) [OF st(2)] same st(4))
qed

lemma agree_run:
  assumes "agree s t now" and "sorted (now # map vc_now cs)"
  shows "snd (verify_run ops1 reg policy s cs) = snd (verify_run ops2 reg policy t cs)"
  using assms
proof (induction cs arbitrary: s t now)
  case (Cons c cs)
  let ?m = "vc_message c" and ?n = "vc_now c"
  have "agree s t ?n" using Cons.prems by (auto simp: agree_def)
  note step = agree_verify [OF this, of ?m reg policy "vc_auth c" "vc_to c"]
  have "sorted (?n # map vc_now cs)" using Cons.prems(2) by simp
  from Cons.IH [OF step(2) this] step(1) show ?case by (simp add: split_def Let_def)
qed simp

end

interpretation both: two_stores mem_ops mem_ok "\<lambda>s. map_of (ms_nonce_times s)" mem_recent
  sql_ops sql_ok "\<lambda>s. map_of (ss_nonces s)" sql_recent
  by unfold_locales

lemma both_empty: "both.agree empty_mem empty_sql t"
  by (simp add: both.agree_def mem_ok_def sql_ok_def empty_mem_def empty_sql_def mem_recent_def sql_recent_def log_of_def)

lemma empty_ok: "mem_ok empty_mem" "sql_ok empty_sql"
  by (simp_all add: mem_ok_def sql_ok_def empty_mem_def empty_sql_def)

subsection \<open>Properties\<close>

text \<open>C8: The SQLite store refines the in-memory one: on every sequence of verifications whose clock does not go
  back, starting empty, both give exactly the same results, refusals and their reasons included.\<close>

theorem sqlite_store_refines_memory:
  assumes "sorted (map vc_now cs)"
  shows "snd (verify_run sql_ops reg policy empty_sql cs) = snd (verify_run mem_ops reg policy empty_mem cs)"
proof (cases cs)
  case (Cons c rest)
  have "snd (verify_run mem_ops reg policy empty_mem cs) = snd (verify_run sql_ops reg policy empty_sql cs)"
    by (rule both.agree_run [OF both_empty [of "vc_now c"]]) (use assms Cons in simp)
  then show ?thesis ..
qed simp

text \<open>C6: A message is accepted exactly when every check passes: the authenticated node is registered, the message
  names it as its sender, is addressed to this verifier when one is expected, has a compatible version, carries the
  HMAC of its content under the node's secret, was sent within the window, its nonce is not remembered, and the node
  is below its rate; on either store, and any refusal leaves the remembered nonces as they were.\<close>

theorem accepted_iff_every_check_passes:
  assumes "mem_ok st" and "verify_message mem_ops m reg policy st auth now to = (st', r)"
  shows "(r = Ok accepted \<longleftrightarrow>
      (\<exists>secret. map_of (nr_secrets reg) auth = Some secret \<and> im_mac m = message_mac secret m) \<and>
      im_mac m \<noteq> [] \<and> is_ascii (im_mac m) \<and> im_from_node m = auth \<and>
      (to = None \<or> to = Some (im_to_node m)) \<and> compatible (im_contract_version m) \<and>
      (\<exists>q. im_sent_at m = Finite q \<and> \<bar>now - q\<bar> \<le> of_int (tp_replay_window policy)) \<and>
      im_nonce m \<notin> ms_seen st \<and>
      int (length (filter (\<lambda>t. now - t < 60) (log_of st auth))) < tp_max_per_minute policy) \<and>
    (r \<noteq> Ok accepted \<longrightarrow> ms_seen st' = ms_seen st)"
proof -
  have "r = Ok accepted \<longleftrightarrow> says_ok r"
    using assms(2) [symmetric]
    by (cases rule: verify_message_cases [of m reg auth to policy now mem_ops st])
       (auto simp: says_ok_def check_and_accept_def accepted_def refused_def split: prod.splits if_splits)
  moreover have "ms_seen st' = ms_seen st" if "\<not> says_ok r"
  proof -
    have "map_of (ms_nonce_times st') = map_of (ms_nonce_times st)" and "mem_ok st'"
      using mem.verify_state(1,2) [OF assms(1), of m reg policy auth now to] assms(2) that by auto
    then show ?thesis
      using assms(1) by (simp add: mem_ok_def flip: dom_map_of_conv_image_fst)
  qed
  moreover have "im_nonce m \<notin> ms_seen st \<longleftrightarrow> map_of (ms_nonce_times st) (im_nonce m) = None"
    using assms(1) by (simp add: mem_ok_def map_of_eq_None_iff)
  ultimately show ?thesis
    using mem.verify_ok_iff [OF assms(1), of m reg policy auth now to] assms(2)
    unfolding authentic_def fresh_def mem_recent_def by auto
qed

text \<open>A node, its secret, and messages it signs.\<close>

definition sample_registry :: node_registry where
  "sample_registry = \<lparr>nr_secrets = [(''node-a'', ''secret'')]\<rparr>"

definition sample_message :: "string \<Rightarrow> rat \<Rightarrow> incident_message" where
  "sample_message nonce sent = signed ''secret''
     \<lparr>im_message_id = ''m'', im_from_node = ''node-a'', im_to_node = ''node-b'', im_kind = ''incident'',
      im_contract_version = contract_version, im_nonce = nonce, im_sent_at = Finite sent, im_payload = [],
      im_mac = []\<rparr>"

lemma sample_message_authentic: "authentic (sample_message n q) sample_registry ''node-a'' (Some ''node-b'')"
  by (simp add: authentic_def sample_message_def sample_registry_def signed_def message_mac_def compatible_def
      signing_bytes_def message_body_def hmac_hex_not_Nil hmac_hex_ascii)

lemma default_transport_simps [simp]:
  "tp_replay_window default_transport = 120" "tp_max_per_minute default_transport = 60"
  by (simp_all add: default_transport_def)

lemma sample_fresh: "fresh (sample_message n q) default_transport t \<longleftrightarrow> \<bar>t - q\<bar> \<le> 120"
  by (simp add: fresh_def sample_message_def signed_def)

lemma sample_nonce: "im_nonce (sample_message n q) = n"
  by (simp add: sample_message_def signed_def)

lemma sample_sent: "im_sent_at (sample_message n q) = Finite q"
  by (simp add: sample_message_def signed_def)

abbreviation sample_call :: "string \<Rightarrow> rat \<Rightarrow> rat \<Rightarrow> verify_call" where
  "sample_call n q t \<equiv> \<lparr>vc_message = sample_message n q, vc_auth = ''node-a'', vc_now = t, vc_to = Some ''node-b''\<rparr>"

lemma sqlite_store_refines_memory_witness:
  "snd (verify_run sql_ops sample_registry default_transport empty_sql [sample_call ''n1'' 100 100, sample_call ''n1'' 100 101]) =
   snd (verify_run mem_ops sample_registry default_transport empty_mem [sample_call ''n1'' 100 100, sample_call ''n1'' 100 101])"
  by (rule sqlite_store_refines_memory) simp

lemma accepted_iff_every_check_passes_witness:
  "snd (verify_message mem_ops (sample_message ''n1'' 100) sample_registry default_transport empty_mem ''node-a'' 100
     (Some ''node-b'')) = Ok accepted"
proof -
  obtain st' r where v: "verify_message mem_ops (sample_message ''n1'' 100) sample_registry default_transport empty_mem
      ''node-a'' 100 (Some ''node-b'') = (st', r)" by (meson surj_pair)
  have "\<exists>secret. map_of (nr_secrets sample_registry) ''node-a'' = Some secret \<and>
      im_mac (sample_message ''n1'' 100) = message_mac secret (sample_message ''n1'' 100)"
    using sample_message_authentic [of "''n1''" 100] by (simp add: authentic_def)
  then have "r = Ok accepted"
    using accepted_iff_every_check_passes [OF empty_ok(1) v] sample_message_authentic [of "''n1''" 100]
    by (simp add: authentic_def sample_nonce sample_sent empty_mem_def log_of_def)
  then show ?thesis by (simp add: v)
qed

text \<open>C7: No replay: once a message whose timestamp is not in the future has been accepted, no message with its
  nonce and a timestamp no later is ever accepted again by any process that uses the same SQLite file, whatever other
  messages are verified in between, as long as the clock does not go back.\<close>

theorem accepted_message_is_never_replayed:
  assumes "sql_ok st" and "verify_message sql_ops m reg policy st auth t0 to = (st1, Ok accepted)"
    and "sorted (t0 # map vc_now cs @ [t])"
    and "im_nonce m' = im_nonce m" and "im_sent_at m' = Finite q" and "q \<le> t0"
  shows "snd (verify_message sql_ops m' reg' policy (fst (verify_run sql_ops reg policy st1 cs)) auth' t to') \<noteq> Ok accepted"
  using sql.never_accepted_twice [OF assms(1,2) _ assms(3-6), of reg' auth' to']
  by (auto simp: says_ok_def accepted_def)

lemma sql_accepts:
  assumes "sql_ok st"
  shows "snd (verify_message sql_ops m reg policy st auth now to) = Ok accepted \<longleftrightarrow>
    says_ok (snd (verify_message sql_ops m reg policy st auth now to))"
  by (cases rule: verify_message_cases [of m reg auth to policy now sql_ops st])
     (auto simp: says_ok_def check_and_accept_def accepted_def refused_def split: prod.splits if_splits)

lemma sql_empty: "map_of (ss_nonces empty_sql) n = None" "sql_recent empty_sql node t = 0"
  by (simp_all add: empty_sql_def sql_recent_def)

lemma accepted_message_is_never_replayed_witness:
  "snd (verify_message sql_ops (sample_message ''n1'' 100) sample_registry default_transport
     (fst (verify_message sql_ops (sample_message ''n1'' 100) sample_registry default_transport empty_sql ''node-a'' 100
        (Some ''node-b''))) ''node-a'' 110 (Some ''node-b'')) \<noteq> Ok accepted"
proof -
  obtain st1 r where v: "verify_message sql_ops (sample_message ''n1'' 100) sample_registry default_transport empty_sql
      ''node-a'' 100 (Some ''node-b'') = (st1, r)" by (meson surj_pair)
  have "says_ok r"
    using sql.verify_ok_iff [OF empty_ok(2), of "sample_message ''n1'' 100" sample_registry default_transport "''node-a''" 100 "Some ''node-b''"] v
    by (simp add: sample_message_authentic sample_fresh sql_empty)
  then have "r = Ok accepted"
    using sql_accepts [OF empty_ok(2), of "sample_message ''n1'' 100" sample_registry default_transport "''node-a''" 100 "Some ''node-b''"] v
    by simp
  then show ?thesis
    using accepted_message_is_never_replayed [OF empty_ok(2) v [unfolded \<open>r = Ok accepted\<close>], of "[]" 110 "sample_message ''n1'' 100" 100]
    by (simp add: v sample_nonce sample_sent)
qed

text \<open>The bound on the timestamp is needed: with the default policy, a message dated 120 seconds ahead is accepted,
  and accepted again 122 seconds later by the same verifier, although its nonce was recorded - the nonce is
  forgotten when the window after its acceptance has passed, which is before the message itself is stale.\<close>

theorem future_dated_message_is_replayed:
  "\<exists>st1 st2 st3. verify_message sql_ops (sample_message ''n1'' 220) sample_registry default_transport empty_sql
       ''node-a'' 100 (Some ''node-b'') = (st1, Ok accepted) \<and>
     verify_message sql_ops (sample_message ''n2'' 221) sample_registry default_transport st1
       ''node-a'' 221 (Some ''node-b'') = (st2, Ok accepted) \<and>
     verify_message sql_ops (sample_message ''n1'' 220) sample_registry default_transport st2
       ''node-a'' 222 (Some ''node-b'') = (st3, Ok accepted)"
proof -
  let ?v = "\<lambda>n q st t. verify_message sql_ops (sample_message n q) sample_registry default_transport st ''node-a'' t (Some ''node-b'')"
  let ?s1 = "fst (?v ''n1'' 220 empty_sql 100)"
  let ?s2 = "fst (?v ''n2'' 221 ?s1 221)"
  have acc: "says_ok (snd (?v n q st t)) \<longleftrightarrow> \<bar>t - q\<bar> \<le> 120 \<and> map_of (ss_nonces st) n = None \<and> sql_recent st ''node-a'' t < 60"
    if "sql_ok st" for n q st t
    unfolding sql.verify_ok_iff [OF that]
    by (simp add: sample_message_authentic sample_fresh sample_nonce)
  note state = sql.verify_state(2,3) [where to = "Some ''node-b''" and auth = "''node-a''" and policy = default_transport]
  have ok1: "sql_ok ?s1" and ok2: "sql_ok ?s2"
    by (intro sql.verify_state(1) empty_ok)+
  have a1: "says_ok (snd (?v ''n1'' 220 empty_sql 100))"
    by (simp add: acc [OF empty_ok(2)] sql_empty)
  have n1: "map_of (ss_nonces ?s1) n = (if n = ''n1'' then Some 100 else None)" for n
    unfolding state(1) [OF empty_ok(2)] using a1 by (simp add: sample_nonce sql_empty)
  have r1: "sql_recent ?s1 ''node-a'' t = (if t < 160 then 1 else 0)" if "100 \<le> t" for t
    using a1 by (simp add: state(2) [OF empty_ok(2) that] sql_empty)
  have a2: "says_ok (snd (?v ''n2'' 221 ?s1 221))"
    by (simp add: acc [OF ok1] n1 r1)
  have n2: "map_of (ss_nonces ?s2) ''n1'' = None"
    unfolding state(1) [OF ok1] using a2 by (simp add: sample_nonce n1)
  have r2: "sql_recent ?s2 ''node-a'' 222 = 1"
    using a2 by (simp add: state(2) [OF ok1] r1)
  have a3: "says_ok (snd (?v ''n1'' 220 ?s2 222))"
    by (simp add: acc [OF ok2] n2 r2)
  note res = sql_accepts [THEN iffD2]
  show ?thesis
    using res [OF empty_ok(2) a1] res [OF ok1 a2] res [OF ok2 a3]
    by (intro exI [of _ ?s1] exI [of _ ?s2] exI [of _ "fst (?v ''n1'' 220 ?s2 222)"] conjI prod_eqI) simp_all
qed

text \<open>A signature that is not ASCII is not refused but ends the verification with a \<open>TypeError\<close>, for every
  registered sender, recipient and version: \<open>compare_digest\<close> raises and nothing catches it.\<close>

theorem non_ascii_mac_raises:
  assumes "map_of (nr_secrets reg) auth = Some secret" and "im_from_node m = auth"
    and "to = None \<or> to = Some (im_to_node m)" and "compatible (im_contract_version m)" and "\<not> is_ascii (im_mac m)"
  shows "\<exists>e. verify_message ops m reg policy st auth now to = (st, Err e) \<and> exn_class_of e = PyTypeError"
proof -
  have "im_mac m \<noteq> []" using assms(5) by (auto simp: is_ascii_def)
  then show ?thesis
    using assms by (auto simp: verify_message_def is_registered_def secret_for_def compare_digest_def)
qed

lemma non_ascii_mac_raises_witness:
  "\<exists>e. verify_message mem_ops ((sample_message ''n'' 1)\<lparr>im_mac := [CHR 0xE9]\<rparr>) sample_registry default_transport
     empty_mem ''node-a'' 1 None = (empty_mem, Err e) \<and> exn_class_of e = PyTypeError"
  by (rule non_ascii_mac_raises [where secret = "''secret''"])
     (simp_all add: sample_registry_def sample_message_def signed_def compatible_def is_ascii_def)

end
