(* ===== verification/Incident_Session.thy ===== *)
theory Incident_Session
  imports Incident_Guarantees
begin

text \<open>
  \<open>IncidentSession\<close>: this server's side of one incident's round trip.  The channel is a parameter: \<open>send\<close> says
  how sending a message ends, and the messages \<open>poll\<close> returns before it returns None are a list, each with the
  clock reading its verification uses.  Proved: the state only moves forward while messages are handled, a closed
  session never changes, and a deployment is confirmed only by an authentic message of the peer about this incident.
\<close>

subsection \<open>The session\<close>

datatype session_state = Submitted | Pending_ack | Diagnosed | Deploy_verified | Session_failed

fun session_state_name :: "session_state \<Rightarrow> string" where
  "session_state_name Submitted = ''submitted''"
| "session_state_name Pending_ack = ''pending-ack''"
| "session_state_name Diagnosed = ''diagnosed''"
| "session_state_name Deploy_verified = ''deploy-verified''"
| "session_state_name Session_failed = ''failed''"

record incident_session =
  is_self_node :: string
  is_peer_node :: string
  is_secret :: string
  is_peer_secret :: string
  is_policy :: transport_policy
  is_state :: session_state
  is_incident_id :: string
  is_last_sent :: "incident_message option"
  is_diagnosis :: "json dict option"
  is_deploy_verification :: "json dict option"
  is_rejected :: "msg list"
  is_seq :: nat
  is_verifier :: mem_state

definition new_session :: "string \<Rightarrow> string \<Rightarrow> string \<Rightarrow> string \<Rightarrow> incident_session" where
  "new_session self peer secret peer_secret =
     \<lparr>is_self_node = self, is_peer_node = peer, is_secret = secret, is_peer_secret = peer_secret,
      is_policy = default_transport, is_state = Submitted, is_incident_id = [], is_last_sent = None,
      is_diagnosis = None, is_deploy_verification = None, is_rejected = [], is_seq = 0, is_verifier = empty_mem\<rparr>"

text \<open>\<open>f"{n:04d}"\<close>.\<close>

definition pad4 :: "nat \<Rightarrow> string" where
  "pad4 n = (let ds = nat_str n in replicate (4 - length ds) (CHR ''0'') @ ds)"

definition next_id :: "incident_session \<Rightarrow> string \<Rightarrow> incident_session \<times> string" where
  "next_id s pre = (let n = Suc (is_seq s)
     in (s\<lparr>is_seq := n\<rparr>, pre @ ''-'' @ is_self_node s @ ''-'' @ pad4 n))"

text \<open>\<open>{"incident_id": i, **payload}\<close>.\<close>

definition with_incident_id :: "string \<Rightarrow> json dict \<Rightarrow> json dict" where
  "with_incident_id i payload = fold (\<lambda>(k, v) d. dict_set k v d) payload [(''incident_id'', JStr i)]"

definition outgoing :: "incident_session \<Rightarrow> string \<Rightarrow> string \<Rightarrow> string \<Rightarrow> rat \<Rightarrow> json dict \<Rightarrow> incident_message" where
  "outgoing s mid kind token now payload = signed (is_secret s)
     \<lparr>im_message_id = mid, im_from_node = is_self_node s, im_to_node = is_peer_node s, im_kind = kind,
      im_contract_version = contract_version, im_nonce = ''n-'' @ token, im_sent_at = Finite now,
      im_payload = payload, im_mac = []\<rparr>"

definition submit_incident ::
  "(incident_message \<Rightarrow> exn option) \<Rightarrow> incident_session \<Rightarrow> string \<Rightarrow> json dict \<Rightarrow> rat \<Rightarrow> string
   \<Rightarrow> incident_session \<times> incident_message result" where
  "submit_incident send s incident_id payload now token =
     (let (s1, mid) = next_id (s\<lparr>is_incident_id := incident_id\<rparr>) ''inc'';
          m = outgoing s1 mid ''incident'' token now (with_incident_id incident_id payload)
      in case send m of
           Some e \<Rightarrow> (s1, Err e)
         | None \<Rightarrow> (s1\<lparr>is_last_sent := Some m, is_state := Pending_ack\<rparr>, Ok m))"

definition reject :: "incident_session \<Rightarrow> msg \<Rightarrow> incident_session" where
  "reject s reason = s\<lparr>is_rejected := is_rejected s @ [reason]\<rparr>"

definition peer_registry :: "incident_session \<Rightarrow> node_registry" where
  "peer_registry s = \<lparr>nr_secrets = (if is_peer_secret s \<noteq> [] then [(is_peer_node s, is_peer_secret s)] else [])\<rparr>"

definition verified_flag :: "json dict \<Rightarrow> bool" where
  "verified_flag payload = (map_of payload ''verified'' = Some (JBool True))"

text \<open>One pass of the loop in \<open>pump\<close>, for a message that was polled.\<close>

definition handle_inbound :: "incident_session \<Rightarrow> rat \<Rightarrow> incident_message \<Rightarrow> incident_session \<times> unit result" where
  "handle_inbound s now m =
     (case verify_message mem_ops m (peer_registry s) (is_policy s) (is_verifier s) (is_peer_node s) now (Some (is_self_node s)) of
        (v, Inl e) \<Rightarrow> (s\<lparr>is_verifier := v\<rparr>, Inl e)
      | (v, Inr r) \<Rightarrow>
          (let s = s\<lparr>is_verifier := v\<rparr> in
           if \<not> vr_ok r then
             (reject s (Msg ''{}: {}'' [JStr (case vr_code r of None \<Rightarrow> [] | Some c \<Rightarrow> c), msg_json (vr_reason r)]), Ok ())
           else if map_of (im_payload m) ''incident_id'' \<noteq> Some (JStr (is_incident_id s)) then
             (reject s (Msg ''wrong-incident: the message is about another incident'' []), Ok ())
           else if is_state s = Deploy_verified \<or> is_state s = Session_failed then
             (reject s (Msg ''closed: the session already ended as {}'' [JStr (session_state_name (is_state s))]), Ok ())
           else if im_kind m = kind_name Ack then
             (if is_state s = Pending_ack then s\<lparr>is_state := Submitted\<rparr> else s, Ok ())
           else if im_kind m = kind_name Diagnosis then
             (s\<lparr>is_diagnosis := Some (im_payload m), is_state := Diagnosed\<rparr>, Ok ())
           else if im_kind m = kind_name Deploy_verification then
             (s\<lparr>is_deploy_verification := Some (im_payload m),
                is_state := (if verified_flag (im_payload m) then Deploy_verified else Session_failed)\<rparr>, Ok ())
           else (s, Ok ())))"

text \<open>\<open>pump\<close>: the messages polled, and those left when an exception ends the loop.\<close>

fun pump ::
  "incident_session \<Rightarrow> (rat \<times> incident_message) list \<Rightarrow> incident_session \<times> (rat \<times> incident_message) list \<times> unit result" where
  "pump s [] = (s, [], Ok ())"
| "pump s ((now, m) # ms) =
     (case handle_inbound s now m of
        (s1, Inl e) \<Rightarrow> (s1, ms, Inl e)
      | (s1, Inr _) \<Rightarrow> pump s1 ms)"

definition session_reconcile ::
  "(incident_message \<Rightarrow> exn option) \<Rightarrow> incident_session \<Rightarrow> rat \<Rightarrow> string \<Rightarrow> incident_session \<times> bool result" where
  "session_reconcile send s now token =
     (case is_last_sent s of
        None \<Rightarrow> (s, Ok False)
      | Some l \<Rightarrow>
          if is_state s \<noteq> Pending_ack then (s, Ok False)
          else (let (s1, mid) = next_id s ''inc'';
                    m = outgoing s1 mid (im_kind l) token now (im_payload l)
                in case send m of
                     Some e \<Rightarrow> (s1, Err e)
                   | None \<Rightarrow> (s1\<lparr>is_last_sent := Some m\<rparr>, Ok True)))"

subsection \<open>Progress\<close>

fun stage :: "session_state \<Rightarrow> nat" where
  "stage Submitted = 0"
| "stage Pending_ack = 0"
| "stage Diagnosed = 1"
| "stage Deploy_verified = 2"
| "stage Session_failed = 2"

abbreviation closed :: "incident_session \<Rightarrow> bool" where
  "closed s \<equiv> is_state s = Deploy_verified \<or> is_state s = Session_failed"

text \<open>The fields messages never change, and the fields that record progress.\<close>

definition session_setup :: "incident_session \<Rightarrow>
    string \<times> string \<times> string \<times> transport_policy \<times> string \<times> nat \<times> incident_message option" where
  "session_setup s = (is_self_node s, is_peer_node s, is_peer_secret s, is_policy s, is_incident_id s, is_seq s, is_last_sent s)"

definition session_progress :: "incident_session \<Rightarrow> session_state \<times> json dict option \<times> json dict option" where
  "session_progress s = (is_state s, is_diagnosis s, is_deploy_verification s)"

lemma session_setup_simps [simp]:
  "session_setup (s\<lparr>is_verifier := v\<rparr>) = session_setup s"
  "session_setup (s\<lparr>is_verifier := v, is_state := st\<rparr>) = session_setup s"
  "session_setup (s\<lparr>is_verifier := v, is_diagnosis := d, is_state := st\<rparr>) = session_setup s"
  "session_setup (s\<lparr>is_verifier := v, is_deploy_verification := d, is_state := st\<rparr>) = session_setup s"
  "session_setup (reject s m) = session_setup s"
  by (simp_all add: session_setup_def reject_def)

lemma is_verifier_reject [simp]: "is_verifier (reject s m) = is_verifier s"
  by (simp add: reject_def)

text \<open>What one message can do: leave the session's progress alone, or be authentic and move it.\<close>

definition from_peer :: "incident_session \<Rightarrow> incident_message \<Rightarrow> rat \<Rightarrow> bool" where
  "from_peer s m now \<longleftrightarrow> is_peer_secret s \<noteq> [] \<and> im_mac m = message_mac (is_peer_secret s) m \<and>
     im_from_node m = is_peer_node s \<and> im_to_node m = is_self_node s \<and> fresh m (is_policy s) now \<and>
     map_of (im_payload m) ''incident_id'' = Some (JStr (is_incident_id s))"

lemma says_ok_from_peer:
  assumes "mem_ok (is_verifier s)"
    and "snd (verify_message mem_ops m (peer_registry s) (is_policy s) (is_verifier s) (is_peer_node s) now (Some (is_self_node s))) = Ok r"
    and "vr_ok r" and "map_of (im_payload m) ''incident_id'' = Some (JStr (is_incident_id s))"
  shows "from_peer s m now"
proof -
  have "authentic m (peer_registry s) (is_peer_node s) (Some (is_self_node s)) \<and> fresh m (is_policy s) now"
    using mem.verify_ok_iff [OF assms(1), of m "peer_registry s" "is_policy s" "is_peer_node s" now "Some (is_self_node s)"]
      assms(2,3) by (simp add: says_ok_def)
  then show ?thesis
    using assms(4) by (auto simp: from_peer_def authentic_def peer_registry_def split: if_splits)
qed

lemma handle_cases:
  assumes "mem_ok (is_verifier s)"
  obtains
    (idle) "session_progress (fst (handle_inbound s now m)) = session_progress s"
  | (ack) "\<not> closed s" and "from_peer s m now" and "is_state s = Pending_ack"
      and "is_state (fst (handle_inbound s now m)) = Submitted"
      and "is_diagnosis (fst (handle_inbound s now m)) = is_diagnosis s"
      and "is_deploy_verification (fst (handle_inbound s now m)) = is_deploy_verification s"
  | (diagnosed) "\<not> closed s" and "from_peer s m now" and "is_state (fst (handle_inbound s now m)) = Diagnosed"
      and "is_diagnosis (fst (handle_inbound s now m)) = Some (im_payload m)"
      and "is_deploy_verification (fst (handle_inbound s now m)) = is_deploy_verification s"
  | (ended) "\<not> closed s" and "from_peer s m now" and "im_kind m = ''deploy-verification''"
      and "is_state (fst (handle_inbound s now m)) = (if verified_flag (im_payload m) then Deploy_verified else Session_failed)"
      and "is_diagnosis (fst (handle_inbound s now m)) = is_diagnosis s"
      and "is_deploy_verification (fst (handle_inbound s now m)) = Some (im_payload m)"
proof -
  obtain v r where v: "verify_message mem_ops m (peer_registry s) (is_policy s) (is_verifier s) (is_peer_node s) now
      (Some (is_self_node s)) = (v, r)" by (meson surj_pair)
  show thesis
  proof (cases "\<exists>w. r = Ok w \<and> vr_ok w \<and> map_of (im_payload m) ''incident_id'' = Some (JStr (is_incident_id s)) \<and> \<not> closed s")
    case False
    then have "session_progress (fst (handle_inbound s now m)) = session_progress s"
      by (auto simp: handle_inbound_def v reject_def session_progress_def Let_def split: sum.split)
    then show thesis by (rule idle)
  next
    case True
    then obtain w where w: "r = Ok w" "vr_ok w" "map_of (im_payload m) ''incident_id'' = Some (JStr (is_incident_id s))" "\<not> closed s"
      by blast
    have peer: "from_peer s m now"
      by (rule says_ok_from_peer [OF assms _ w(2,3)]) (simp add: v w(1))
    have h: "handle_inbound s now m =
        (let s = s\<lparr>is_verifier := v\<rparr> in
         if im_kind m = ''ack'' then (if is_state s = Pending_ack then s\<lparr>is_state := Submitted\<rparr> else s, Ok ())
         else if im_kind m = ''diagnosis'' then (s\<lparr>is_diagnosis := Some (im_payload m), is_state := Diagnosed\<rparr>, Ok ())
         else if im_kind m = ''deploy-verification'' then
           (s\<lparr>is_deploy_verification := Some (im_payload m),
              is_state := (if verified_flag (im_payload m) then Deploy_verified else Session_failed)\<rparr>, Ok ())
         else (s, Ok ()))"
      using w by (simp add: handle_inbound_def v Let_def)
    consider "im_kind m = ''ack''" | "im_kind m = ''diagnosis''" | "im_kind m = ''deploy-verification''"
      | "im_kind m \<notin> {''ack'', ''diagnosis'', ''deploy-verification''}"
      by auto
    then show thesis
    proof cases
      case 1
      show thesis
      proof (cases "is_state s = Pending_ack")
        case True
        show thesis by (rule ack) (use w(4) peer 1 True in \<open>simp_all add: h\<close>)
      qed (rule idle, use 1 in \<open>simp add: h session_progress_def\<close>)
    next
      case 2
      show thesis by (rule diagnosed) (use w(4) peer 2 in \<open>simp_all add: h\<close>)
    next
      case 3
      show thesis by (rule ended) (use w(4) peer 3 in \<open>simp_all add: h\<close>)
    next
      case 4
      show thesis by (rule idle) (use 4 in \<open>simp add: h Let_def session_progress_def\<close>)
    qed
  qed
qed

lemma handle_setup:
  assumes "mem_ok (is_verifier s)"
  shows "session_setup (fst (handle_inbound s now m)) = session_setup s"
    and "mem_ok (is_verifier (fst (handle_inbound s now m)))"
proof -
  obtain v r where v: "verify_message mem_ops m (peer_registry s) (is_policy s) (is_verifier s) (is_peer_node s) now
      (Some (is_self_node s)) = (v, r)" by (meson surj_pair)
  have "mem_ok v"
    using mem.verify_state(1) [OF assms, of m "peer_registry s" "is_policy s" "is_peer_node s" now "Some (is_self_node s)"]
    by (simp add: v)
  then show "session_setup (fst (handle_inbound s now m)) = session_setup s"
    and "mem_ok (is_verifier (fst (handle_inbound s now m)))"
    by (cases r; simp add: handle_inbound_def v Let_def if_distrib [of fst] if_distrib [of session_setup] if_distrib [of is_verifier])+
qed

lemma from_peer_setup: "session_setup s' = session_setup s \<Longrightarrow> from_peer s' m now = from_peer s m now"
  by (simp add: from_peer_def session_setup_def)

lemma handle_forward:
  assumes "mem_ok (is_verifier s)"
  shows "stage (is_state s) \<le> stage (is_state (fst (handle_inbound s now m)))"
    and "closed s \<Longrightarrow> session_progress (fst (handle_inbound s now m)) = session_progress s"
  by (cases rule: handle_cases [OF assms, where now = now and m = m]; cases "is_state s"; simp add: session_progress_def)+

lemma pump_invariant:
  assumes "mem_ok (is_verifier s)"
  shows "stage (is_state s) \<le> stage (is_state (fst (pump s ms)))"
    and "closed s \<Longrightarrow> session_progress (fst (pump s ms)) = session_progress s"
proof -
  have "stage (is_state s) \<le> stage (is_state (fst (pump s ms))) \<and>
      (closed s \<longrightarrow> session_progress (fst (pump s ms)) = session_progress s)"
    using assms
  proof (induction s ms rule: pump.induct)
    case (2 s now m ms)
    obtain s1 r where h: "handle_inbound s now m = (s1, r)" by (meson surj_pair)
    have ok: "mem_ok (is_verifier s1)" and fwd: "stage (is_state s) \<le> stage (is_state s1)"
      and fin: "closed s \<Longrightarrow> session_progress s1 = session_progress s"
      using handle_setup(2) [OF 2(2), of now m] handle_forward [OF 2(2), of now m] h by simp_all
    have "closed s \<Longrightarrow> closed s1" using fin by (simp add: session_progress_def)
    then show ?case
      using 2(1) [OF h [symmetric] _ ok] fwd fin by (cases r) (auto simp: h)
  qed simp
  then show "stage (is_state s) \<le> stage (is_state (fst (pump s ms)))"
    and "closed s \<Longrightarrow> session_progress (fst (pump s ms)) = session_progress s" by simp_all
qed

text \<open>While inbound messages are handled the session only moves forward - waiting, diagnosed, ended - and once it
  has ended as verified or failed no message, late or forged, changes its state, its diagnosis or its deployment
  verdict.\<close>

theorem session_only_moves_forward:
  assumes "mem_ok (is_verifier s)" and "pump s ms = (s', rest, r)"
  shows "stage (is_state s) \<le> stage (is_state s') \<and>
    (is_state s \<in> {Deploy_verified, Session_failed} \<longrightarrow>
       is_state s' = is_state s \<and> is_diagnosis s' = is_diagnosis s \<and>
       is_deploy_verification s' = is_deploy_verification s)"
  using pump_invariant [OF assms(1), of ms] assms(2) by (auto simp: session_progress_def)

lemma session_only_moves_forward_witness:
  "stage Submitted \<le> stage (is_state (fst (pump (new_session ''a'' ''b'' ''s'' ''p'') [])))"
proof -
  obtain s' rest r where p: "pump (new_session ''a'' ''b'' ''s'' ''p'') [] = (s', rest, r)" by (metis prod_cases3)
  have "mem_ok (is_verifier (new_session ''a'' ''b'' ''s'' ''p''))" by (simp add: new_session_def empty_ok)
  from session_only_moves_forward [OF this p] show ?thesis by (simp add: new_session_def)
qed

lemma pump_confirms:
  assumes "mem_ok (is_verifier s)" and "is_state s \<noteq> Deploy_verified" and "is_state (fst (pump s ms)) = Deploy_verified"
  shows "\<exists>now m. (now, m) \<in> set ms \<and> from_peer s m now \<and> im_kind m = ''deploy-verification'' \<and>
    verified_flag (im_payload m) \<and> is_deploy_verification (fst (pump s ms)) = Some (im_payload m)"
  using assms
proof (induction s ms rule: pump.induct)
  case (2 s now m ms)
  obtain s1 r where h: "handle_inbound s now m = (s1, r)" by (meson surj_pair)
  have ok: "mem_ok (is_verifier s1)" and same: "session_setup s1 = session_setup s"
    using handle_setup [OF 2(2), of now m] by (simp_all add: h)
  have hit: "from_peer s m now \<and> im_kind m = ''deploy-verification'' \<and> verified_flag (im_payload m) \<and>
      is_deploy_verification s1 = Some (im_payload m)" if "is_state s1 = Deploy_verified"
    using that 2(3)
    by (cases rule: handle_cases [OF 2(2), where now = now and m = m]) (simp_all add: h session_progress_def split: if_splits)
  show ?case
  proof (cases "is_state s1 = Deploy_verified")
    case True
    have "session_progress (fst (pump s1 ms)) = session_progress s1"
      using True by (intro pump_invariant(2) [OF ok]) simp
    then have "is_deploy_verification (fst (pump s ((now, m) # ms))) = Some (im_payload m)"
      using hit [OF True] by (cases r) (simp_all add: h session_progress_def)
    then show ?thesis using hit [OF True] by (intro exI [of _ now] exI [of _ m]) simp
  next
    case False
    then obtain u where r: "r = Inr u" using 2(4) by (cases r) (simp_all add: h)
    have "is_state (fst (pump s1 ms)) = Deploy_verified" using 2(4) by (simp add: h r)
    from 2(1) [OF h [symmetric] r ok False this] obtain now' m' where m':
      "(now', m') \<in> set ms" "from_peer s1 m' now'" "im_kind m' = ''deploy-verification''" "verified_flag (im_payload m')"
      "is_deploy_verification (fst (pump s1 ms)) = Some (im_payload m')" by blast
    then show ?thesis
      by (intro exI [of _ now'] exI [of _ m']) (simp add: h r from_peer_setup [OF same, symmetric])
  qed
qed simp

text \<open>C9: A deployment is confirmed only by the peer: when handling inbound messages turns a session to
  \<open>deploy-verified\<close>, one of them carries the peer's HMAC under the configured peer secret, names the peer as sender
  and this node as recipient, was fresh, is about this very incident, is a deploy verification and says literally
  \<open>verified: true\<close>; without a configured peer secret this never happens.\<close>

theorem deployment_confirmed_only_by_peer:
  assumes "mem_ok (is_verifier s)" and "is_state s \<noteq> Deploy_verified"
    and "pump s ms = (s', rest, r)" and "is_state s' = Deploy_verified"
  shows "is_peer_secret s \<noteq> [] \<and> (\<exists>now m. (now, m) \<in> set ms \<and>
    im_mac m = message_mac (is_peer_secret s) m \<and> im_from_node m = is_peer_node s \<and> im_to_node m = is_self_node s \<and>
    fresh m (is_policy s) now \<and> im_kind m = ''deploy-verification'' \<and>
    map_of (im_payload m) ''incident_id'' = Some (JStr (is_incident_id s)) \<and>
    map_of (im_payload m) ''verified'' = Some (JBool True) \<and> is_deploy_verification s' = Some (im_payload m))"
  using pump_confirms [OF assms(1,2), of ms] assms(3,4)
  by (auto simp: from_peer_def verified_flag_def)

text \<open>A session waiting for the verdict on incident \<open>i1\<close>, and the peer's verdict.\<close>

definition waiting_session :: incident_session where
  "waiting_session = (new_session ''node-b'' ''node-a'' ''mine'' ''secret'')\<lparr>is_incident_id := ''i1'', is_state := Diagnosed\<rparr>"

definition verdict_message :: incident_message where
  "verdict_message = signed ''secret''
     \<lparr>im_message_id = ''m'', im_from_node = ''node-a'', im_to_node = ''node-b'', im_kind = ''deploy-verification'',
      im_contract_version = contract_version, im_nonce = ''n1'', im_sent_at = Finite 100,
      im_payload = [(''incident_id'', JStr ''i1''), (''verified'', JBool True)], im_mac = []\<rparr>"

lemma verdict_accepted:
  "is_state (fst (pump waiting_session [(100, verdict_message)])) = Deploy_verified"
proof -
  let ?v = "verify_message mem_ops verdict_message (peer_registry waiting_session) default_transport empty_mem ''node-a'' 100 (Some ''node-b'')"
  have "authentic verdict_message (peer_registry waiting_session) ''node-a'' (Some ''node-b'')"
    by (simp add: authentic_def verdict_message_def peer_registry_def waiting_session_def new_session_def signed_def
        message_mac_def compatible_def signing_bytes_def message_body_def hmac_hex_not_Nil hmac_hex_ascii)
  moreover have "fresh verdict_message default_transport 100"
    by (simp add: fresh_def verdict_message_def signed_def)
  ultimately have "says_ok (snd ?v)"
    unfolding mem.verify_ok_iff [OF empty_ok(1)] by (simp add: empty_mem_def mem_recent_def log_of_def)
  then obtain v w where v: "?v = (v, Ok w)" "vr_ok w"
    by (cases "?v") (auto simp: says_ok_def split: sum.splits)
  have "is_policy waiting_session = default_transport" "is_verifier waiting_session = empty_mem"
    "is_peer_node waiting_session = ''node-a''" "is_self_node waiting_session = ''node-b''"
    by (simp_all add: waiting_session_def new_session_def)
  then show ?thesis
    using v by (simp add: handle_inbound_def)
      (simp add: waiting_session_def new_session_def verdict_message_def signed_def verified_flag_def)
qed

lemma deployment_confirmed_only_by_peer_witness:
  "is_peer_secret waiting_session \<noteq> [] \<and>
   is_deploy_verification (fst (pump waiting_session [(100, verdict_message)])) = Some (im_payload verdict_message)"
proof -
  obtain s' rest r where p: "pump waiting_session [(100, verdict_message)] = (s', rest, r)" by (metis prod_cases3)
  have "mem_ok (is_verifier waiting_session)" "is_state waiting_session \<noteq> Deploy_verified"
    by (simp_all add: waiting_session_def new_session_def empty_ok)
  from deployment_confirmed_only_by_peer [OF this p] verdict_accepted show ?thesis
    by (auto simp: p simp del: pump.simps)
qed

end
