(* ===== verification/Paths.thy ===== *)
theory Paths
  imports Prelude
begin

text \<open>
  The functions of \<open>posixpath\<close> that the code calls (\<open>normpath\<close>, \<open>basename\<close>, \<open>dirname\<close>), and what
  \<open>normpath\<close> gives for an absolute path: one or two slashes and components none of which is
  empty, \<open>.\<close> or \<open>..\<close>.
\<close>

abbreviation slash :: char where "slash \<equiv> CHR ''/''"

abbreviation backslash :: char where "backslash \<equiv> CHR 0x5C"

text \<open>The loop of \<open>normpath\<close> over the components; the stack \<open>new_comps\<close> is kept reversed.\<close>

fun norm_loop :: "bool \<Rightarrow> string list \<Rightarrow> string list \<Rightarrow> string list" where
  "norm_loop absolute stack [] = rev stack"
| "norm_loop absolute stack (c # cs) =
     (if c = [] \<or> c = ''.'' then norm_loop absolute stack cs
      else if c \<noteq> ''..'' \<or> (\<not> absolute \<and> stack = []) \<or> (stack \<noteq> [] \<and> hd stack = ''..'')
        then norm_loop absolute (c # stack) cs
      else norm_loop absolute (tl stack) cs)"

definition initial_slashes :: "string \<Rightarrow> nat" where
  "initial_slashes p =
     (if \<not> startswith p ''/'' then 0
      else if startswith p ''//'' \<and> \<not> startswith p ''///'' then 2 else 1)"

definition normpath :: "string \<Rightarrow> string" where
  "normpath p =
     (if p = [] then ''.''
      else (let n = initial_slashes p;
                r = replicate n slash @ join_with ''/'' (norm_loop (n > 0) [] (split_on slash p))
            in if r = [] then ''.'' else r))"

definition basename :: "string \<Rightarrow> string" where
  "basename p = last (split_on slash p)"

text \<open>\<open>os.path.dirname\<close>: the head of \<open>split\<close>, without trailing slashes unless it is all slashes.\<close>

definition dirname :: "string \<Rightarrow> string" where
  "dirname p = (let head = take (length p - length (basename p)) p
     in if head \<noteq> [] \<and> list_all (\<lambda>c. c = slash) head then head else rstrip_char slash head)"

subsection \<open>Components of an absolute path\<close>

definition good_comp :: "string \<Rightarrow> bool" where
  "good_comp c \<longleftrightarrow> c \<noteq> [] \<and> c \<noteq> ''.'' \<and> c \<noteq> ''..'' \<and> slash \<notin> set c"

lemma norm_loop_good:
  assumes "\<forall>c \<in> set cs. slash \<notin> set c" and "\<forall>c \<in> set stack. good_comp c"
  shows "\<forall>c \<in> set (norm_loop True stack cs). good_comp c"
  using assms
proof (induction cs arbitrary: stack)
  case (Cons c cs)
  have tl: "\<forall>c \<in> set (tl stack). good_comp c"
    using Cons.prems(2) by (cases stack) auto
  have hd: "stack \<noteq> [] \<Longrightarrow> hd stack \<noteq> ''..''"
    using Cons.prems(2) by (cases stack) (auto simp: good_comp_def)
  consider "c = [] \<or> c = ''.''" | "c = ''..''" | "good_comp c"
    using Cons.prems(1) by (auto simp: good_comp_def)
  then show ?case
  proof cases
    case 1
    then show ?thesis using Cons by auto
  next
    case 2
    then show ?thesis using Cons.IH [of "tl stack"] Cons.prems(1) tl hd by auto
  next
    case 3
    then have "norm_loop True stack (c # cs) = norm_loop True (c # stack) cs"
      by (simp add: good_comp_def)
    then show ?thesis using Cons.IH [of "c # stack"] Cons.prems 3 by simp
  qed
qed simp

lemma norm_loop_subset: "set (norm_loop a stack cs) \<subseteq> set stack \<union> set cs"
proof (induction cs arbitrary: stack)
  case (Cons c cs)
  have "set (tl stack) \<subseteq> set stack" by (cases stack) auto
  then show ?case using Cons [of stack] Cons [of "c # stack"] Cons [of "tl stack"] by auto
qed simp

lemma norm_loop_id:
  assumes "\<forall>c \<in> set cs. good_comp c"
  shows "norm_loop a stack (cs @ ds) = norm_loop a (rev cs @ stack) ds"
  using assms by (induction cs arbitrary: stack) (auto simp: good_comp_def)

lemma norm_loop_append:
  "norm_loop a stack (cs @ ds) = norm_loop a (rev (norm_loop a stack cs)) ds"
  by (induction a stack cs rule: norm_loop.induct) auto

text \<open>The normal form of an absolute path other than the root.\<close>

definition abs_path :: "nat \<Rightarrow> string list \<Rightarrow> string" where
  "abs_path n cs = replicate n slash @ join_with ''/'' cs"

definition abs_normal :: "string \<Rightarrow> bool" where
  "abs_normal p \<longleftrightarrow> (\<exists>n cs. (n = 1 \<or> n = 2) \<and> cs \<noteq> [] \<and> (\<forall>c \<in> set cs. good_comp c) \<and> p = abs_path n cs)"

lemma split_replicate_slash: "split_on slash (replicate n slash @ s) = replicate n [] @ split_on slash s"
  by (induction n) auto

lemma split_abs_path:
  assumes "cs \<noteq> []" and "\<forall>c \<in> set cs. good_comp c"
  shows "split_on slash (abs_path n cs) = replicate n [] @ cs"
  using assms by (simp add: abs_path_def split_replicate_slash split_join good_comp_def)

lemma join_with_snoc:
  "cs \<noteq> [] \<Longrightarrow> join_with sep (cs @ [c]) = join_with sep cs @ sep @ c"
  by (induction cs rule: join_with.induct [of _ sep]) auto

lemma join_with_append:
  "cs \<noteq> [] \<Longrightarrow> ds \<noteq> [] \<Longrightarrow> join_with sep (cs @ ds) = join_with sep cs @ sep @ join_with sep ds"
proof (induction cs)
  case (Cons c cs)
  then show ?case by (cases cs; cases ds) auto
qed simp

lemma last_join_good:
  assumes "cs \<noteq> []" and "\<forall>c \<in> set cs. good_comp c"
  shows "join_with ''/'' cs \<noteq> [] \<and> hd (join_with ''/'' cs) \<noteq> slash \<and> last (join_with ''/'' cs) \<noteq> slash"
  using assms
proof (induction cs)
  case (Cons c cs)
  then have "c \<noteq> []" and "slash \<notin> set c"
    by (auto simp: good_comp_def)
  then have c: "c \<noteq> []" "hd c \<noteq> slash" "last c \<noteq> slash"
    by (metis, metis hd_in_set, metis last_in_set)
  show ?case
  proof (cases cs)
    case Nil
    with c show ?thesis by auto
  next
    case (Cons d ds)
    with Cons.IH Cons.prems c show ?thesis by auto
  qed
qed simp

lemma rstrip_char_id: "s = [] \<or> last s \<noteq> c \<Longrightarrow> rstrip_char c s = s"
proof -
  assume "s = [] \<or> last s \<noteq> c"
  then have "dropWhile (\<lambda>d. d = c) (rev s) = rev s"
    by (cases s rule: rev_cases) auto
  then show ?thesis by (simp add: rstrip_char_def)
qed

lemma rstrip_char_replicate [simp]: "rstrip_char c (replicate n c) = []"
  by (simp add: rstrip_char_def)

lemma rstrip_abs_path:
  assumes "cs \<noteq> []" and "\<forall>c \<in> set cs. good_comp c"
  shows "rstrip_char slash (abs_path n cs) = abs_path n cs"
  using last_join_good [OF assms] by (intro rstrip_char_id) (auto simp: abs_path_def)

lemma initial_slashes_le: "startswith p ''/'' \<Longrightarrow> initial_slashes p = 1 \<or> initial_slashes p = 2"
  by (simp add: initial_slashes_def)

lemma initial_slashes_abs_path:
  assumes "cs \<noteq> []" and "\<forall>c \<in> set cs. good_comp c" and "n = 1 \<or> n = 2"
  shows "initial_slashes (abs_path n cs @ t) = n"
  using assms(3) last_join_good [OF assms(1,2)]
  by (cases "join_with ''/'' cs") (auto simp: initial_slashes_def startswith_def abs_path_def numeral_2_eq_2)

lemma normpath_abs:
  assumes "startswith p ''/''"
  obtains n cs where "n = 1 \<or> n = 2" and "\<forall>c \<in> set cs. good_comp c"
    and "normpath p = abs_path n cs" and "n = initial_slashes p"
    and "cs = norm_loop True [] (split_on slash p)"
proof -
  define n where "n = initial_slashes p"
  define cs where "cs = norm_loop True [] (split_on slash p)"
  have n: "n = 1 \<or> n = 2" using initial_slashes_le [OF assms] by (simp add: n_def)
  moreover have "\<forall>c \<in> set cs. good_comp c"
    unfolding cs_def by (rule norm_loop_good) (auto dest: split_on_no_sep)
  moreover have "normpath p = abs_path n cs"
    using assms n by (auto simp: normpath_def abs_path_def cs_def n_def Let_def startswith_def)
  ultimately show thesis
    using that by (simp add: n_def cs_def)
qed

lemma norm_loop_empties [simp]: "norm_loop a stack (replicate n [] @ cs) = norm_loop a stack cs"
  by (induction n) auto

lemma normpath_abs_path_append:
  assumes "cs \<noteq> []" and "\<forall>c \<in> set cs. good_comp c" and "n = 1 \<or> n = 2"
  shows "normpath (abs_path n cs @ ''/'' @ t) = abs_path n (norm_loop True (rev cs) (split_on slash t))"
proof -
  have ini: "initial_slashes (abs_path n cs @ ''/'' @ t) = n"
    by (rule initial_slashes_abs_path [OF assms])
  have "split_on slash (abs_path n cs @ ''/'' @ t) = replicate n [] @ cs @ split_on slash t"
    using split_on_append_sep [of slash "abs_path n cs" t] split_abs_path [OF assms(1,2)] by simp
  then have loop: "norm_loop True [] (split_on slash (abs_path n cs @ ''/'' @ t))
      = norm_loop True (rev cs) (split_on slash t)"
    by (simp add: norm_loop_id [OF assms(2)])
  show ?thesis
    using assms(3) ini loop unfolding normpath_def abs_path_def Let_def by auto
qed

end
