(* ===== verification/Identifiers.thy ===== *)
theory Identifiers
  imports Results Regex
begin

text \<open>
  \<open>identifiers.py\<close>: the allow-list rules for account names, path texts and identifiers.  The
  functions take any Python object, here a \<open>json\<close> value.  (Quotation marks inside message texts are
  left out of the templates throughout the development.)
\<close>

definition account_rx :: rx where
  "account_rx = RCat (RSet (\<lambda>c. is_lower c \<or> c = CHR ''_''))
     (rx_upto 31 (RSet (\<lambda>c. is_lower c \<or> is_digit c \<or> c = CHR ''_'' \<or> c = CHR ''-'')))"

definition path_text_char :: "char \<Rightarrow> bool" where
  "path_text_char c = (is_alnum c \<or> c \<in> {CHR ''/'', CHR ''.'', CHR ''_'', CHR ''-''})"

definition path_text_rx :: rx where
  "path_text_rx = rx_plus (RSet path_text_char)"

definition identifier_char :: "char \<Rightarrow> bool" where
  "identifier_char c = (is_alnum c \<or> c \<in> {CHR ''.'', CHR ''_'', CHR ''-''})"

definition identifier_rx :: rx where
  "identifier_rx = RCat (RSet is_alnum) (rx_upto 127 (RSet identifier_char))"

definition is_account_name :: "json \<Rightarrow> bool" where
  "is_account_name text = (case text of JStr s \<Rightarrow> fullmatch account_rx s | _ \<Rightarrow> False)"

definition path_text_problem :: "json \<Rightarrow> string option" where
  "path_text_problem text = (case text of
     JStr s \<Rightarrow>
       (if s = [] then Some ''it is empty''
        else if \<not> fullmatch path_text_rx s then
          Some ''it may only contain letters, digits, /, ., _ and -''
        else if ''..'' \<in> set (split_on (CHR ''/'') s) then Some ''it has a .. segment''
        else None)
   | _ \<Rightarrow> Some ''it is empty'')"

definition is_identifier :: "json \<Rightarrow> bool" where
  "is_identifier text = (case text of
     JStr s \<Rightarrow> fullmatch identifier_rx s \<and> \<not> contains_sub s ''..'' | _ \<Rightarrow> False)"

subsection \<open>What the patterns accept\<close>

lemma fullmatch_identifier:
  "fullmatch identifier_rx s \<longleftrightarrow>
     s \<noteq> [] \<and> is_alnum (hd s) \<and> length s \<le> 128 \<and> list_all identifier_char (tl s)"
proof -
  have "length (tl s) \<le> 127 \<longleftrightarrow> length s \<le> 128" by auto
  then show ?thesis by (auto simp: identifier_rx_def rx_class_simps)
qed

lemma fullmatch_path_text: "fullmatch path_text_rx s \<longleftrightarrow> s \<noteq> [] \<and> list_all path_text_char s"
  by (simp add: path_text_rx_def rx_class_simps)

lemma identifier_all: "fullmatch identifier_rx s \<Longrightarrow> list_all identifier_char s"
  unfolding fullmatch_identifier by (cases s) (auto simp: identifier_char_def)

lemma is_identifier_str:
  "is_identifier j \<longleftrightarrow>
     (\<exists>s. j = JStr s \<and> s \<noteq> [] \<and> is_alnum (hd s) \<and> length s \<le> 128 \<and>
          list_all identifier_char s \<and> \<not> contains_sub s ''..'')"
proof (cases j)
  case (JStr s)
  then show ?thesis
    using identifier_all [of s]
    by (auto simp: is_identifier_def fullmatch_identifier list_all_iff dest: list.set_sel(2))
qed (auto simp: is_identifier_def)

lemma identifier_char_simps [simp]:
  "\<not> identifier_char (CHR ''/'')" "\<not> identifier_char (CHR 0x5C)" "\<not> identifier_char (CHR 0x00)"
  "\<not> identifier_char (CHR 0x0A)" "\<not> is_alnum (CHR ''.'')"
  by (simp_all add: identifier_char_def is_alnum_def is_digit_def is_lower_def is_upper_def)

lemma not_in_identifier: "list_all identifier_char s \<Longrightarrow> \<not> identifier_char c \<Longrightarrow> c \<notin> set s"
  by (auto simp: list_all_iff)

lemma contains_sub_self: "contains_sub s s"
  by (cases s) (simp_all add: startswith_def)

end
