(* ===== verification/Workspace.thy ===== *)
theory Workspace
  imports Identifiers Paths
begin

text \<open>
  \<open>workspace.py\<close>: a task's private directory.  \<open>resolve\<close> is the only way from a recipe's relative
  path to an absolute one; \<open>allocate_workspace\<close> makes a new directory for one task.  The file
  system is the seam \<open>WorkspaceFs\<close>: its operations are arguments of the definitions and its laws
  a locale, interpreted on the real provider \<open>SystemWorkspaceFs\<close> over a model of a directory tree.
\<close>

definition normalise_abs :: "string \<Rightarrow> string" where
  "normalise_abs path =
     (let r = rstrip_char slash (normpath (replace_char backslash slash path))
      in if r = [] then ''/'' else r)"

record workspace =
  ws_task_id :: string
  ws_root :: string

definition escape_error :: "msg \<Rightarrow> 'a result" where
  "escape_error m = Err (Raise WorkspaceEscapeError [m])"

definition resolve :: "workspace \<Rightarrow> string \<Rightarrow> string result" where
  "resolve w relpath =
     (let cleaned = replace_char backslash slash relpath in
      if startswith cleaned ''/'' then
        escape_error (Msg ''{} is absolute - only paths inside the workspace are allowed'' [JStr relpath])
      else
        (let candidate = normalise_abs (ws_root w @ ''/'' @ cleaned) in
         if candidate \<noteq> ws_root w \<and> \<not> startswith candidate (ws_root w @ ''/'') then
           escape_error (Msg ''{} escapes the workspace {}'' [JStr relpath, JStr (ws_root w)])
         else Ok candidate))"

text \<open>\<open>resolve_with\<close>: \<open>realpath\<close> is the file system's, symbolic links followed.\<close>

definition resolve_with :: "(string \<Rightarrow> string) \<Rightarrow> workspace \<Rightarrow> string \<Rightarrow> string result" where
  "resolve_with realpath w relpath =
     and_then (resolve w relpath) (\<lambda>lexical.
       let real = normalise_abs (realpath lexical); real_root = normalise_abs (realpath (ws_root w)) in
       if real \<noteq> real_root \<and> \<not> startswith real (real_root @ ''/'') then
         escape_error (Msg ''{} resolves (via a symlink) to {}, outside the workspace {}''
           [JStr relpath, JStr real, JStr real_root])
       else Ok real)"

definition require_safe_id :: "string \<Rightarrow> string result" where
  "require_safe_id task_id =
     (if \<not> is_identifier (JStr task_id) then
        Err (Raise WorkspaceError [Msg ''task id {} must be 1-128 chars of [A-Za-z0-9._-], start alphanumeric, and contain no ..'' [JStr task_id]])
      else Ok task_id)"

definition allocate_workspace ::
  "('fs \<Rightarrow> string \<Rightarrow> bool) \<Rightarrow> ('fs \<Rightarrow> string \<Rightarrow> 'fs result) \<Rightarrow> string \<Rightarrow> string \<Rightarrow> 'fs \<Rightarrow> ('fs \<times> workspace) result" where
  "allocate_workspace fs_exists make_dir base_root task_id fs =
     (if \<not> startswith base_root ''/'' then
        Err (Raise WorkspaceError [Msg ''workspace base {} must be an absolute path'' [JStr base_root]])
      else and_then (require_safe_id task_id) (\<lambda>safe_id.
        let root = normalise_abs (base_root @ ''/'' @ safe_id) in
        if fs_exists fs root then
          Err (Raise WorkspaceCollisionError
            [Msg ''workspace for task {} already exists at {} - two tasks must not share one'' [JStr safe_id, JStr root]])
        else and_then (make_dir fs root) (\<lambda>fs'. Ok (fs', \<lparr>ws_task_id = safe_id, ws_root = root\<rparr>))))"

text \<open>\<open>SystemWorkspaceFs\<close>: \<open>os.path.exists\<close> and \<open>os.mkdir\<close> on the set of existing paths.\<close>

definition os_exists :: "string set \<Rightarrow> string \<Rightarrow> bool" where
  "os_exists fs p = (p \<in> fs)"

definition os_mkdir :: "string set \<Rightarrow> string \<Rightarrow> string set result" where
  "os_mkdir fs p =
     (if p \<in> fs then Err (Raise PyOSError [Msg ''File exists: {}'' [JStr p]])
      else if dirname p \<notin> fs then Err (Raise PyOSError [Msg ''No such file or directory: {}'' [JStr p]])
      else Ok (insert p fs))"

subsection \<open>Roots and containment\<close>

definition ws_ok :: "workspace \<Rightarrow> bool" where
  "ws_ok w \<longleftrightarrow> abs_normal (ws_root w) \<and> backslash \<notin> set (ws_root w)"

text \<open>A path strictly below a root: the root, a slash, and proper components only.\<close>

definition below :: "string \<Rightarrow> string \<Rightarrow> bool" where
  "below r p \<longleftrightarrow> (\<exists>cs. cs \<noteq> [] \<and> (\<forall>c \<in> set cs. good_comp c) \<and> p = r @ ''/'' @ join_with ''/'' cs)"

lemma replace_char_id: "a \<notin> set s \<Longrightarrow> replace_char a b s = s"
  unfolding replace_char_def by (rule map_idI) auto

lemma replace_char_append [simp]: "replace_char a b (s @ t) = replace_char a b s @ replace_char a b t"
  by (simp add: replace_char_def)

lemma replace_char_gone: "a \<noteq> b \<Longrightarrow> a \<notin> set (replace_char a b s)"
  by (auto simp: replace_char_def)

lemma replace_slash [simp]: "replace_char backslash slash ''/'' = ''/''"
  by (simp add: replace_char_def)

lemma replace_char_startswith: "startswith s ''/'' \<Longrightarrow> startswith (replace_char backslash slash s) ''/''"
  by (auto simp: startswith_iff replace_char_def)

lemma abs_path_inject:
  assumes "\<forall>c \<in> set cs. good_comp c" and "cs \<noteq> []" and "\<forall>c \<in> set ds. good_comp c" and "ds \<noteq> []"
    and "abs_path n cs = abs_path m ds"
  shows "n = m \<and> cs = ds"
proof -
  have eq: "replicate n [] @ cs = replicate m [] @ ds"
    using assms split_abs_path by metis
  have drop: "filter (\<lambda>c. c \<noteq> []) (replicate k [] @ xs) = xs" if "\<forall>c \<in> set xs. good_comp c" for k xs
    using that by (simp add: filter_id_conv good_comp_def)
  have "cs = ds" using eq drop assms(1,3) by metis
  with eq show ?thesis by simp
qed

lemma normalise_abs_join:
  assumes "cs \<noteq> []" and "\<forall>c \<in> set cs. good_comp c" and "n = 1 \<or> n = 2"
    and "backslash \<notin> set (abs_path n cs)" and "backslash \<notin> set t"
  shows "normalise_abs (abs_path n cs @ ''/'' @ t) =
    (let ds = norm_loop True (rev cs) (split_on slash t) in if ds = [] then ''/'' else abs_path n ds)"
proof -
  let ?ds = "norm_loop True (rev cs) (split_on slash t)"
  have good: "\<forall>c \<in> set ?ds. good_comp c"
    by (rule norm_loop_good) (use assms(2) in \<open>auto dest: split_on_no_sep\<close>)
  have "normalise_abs (abs_path n cs @ ''/'' @ t) =
      (let r = rstrip_char slash (abs_path n ?ds) in if r = [] then ''/'' else r)"
    using assms(4,5) normpath_abs_path_append [OF assms(1-3), of t]
    by (simp add: normalise_abs_def replace_char_id)
  moreover have "rstrip_char slash (abs_path n []) = []"
    by (simp add: abs_path_def)
  moreover have "?ds \<noteq> [] \<Longrightarrow> rstrip_char slash (abs_path n ?ds) = abs_path n ?ds"
    by (rule rstrip_abs_path [OF _ good])
  moreover have "abs_path n ?ds \<noteq> []" using assms(3) by (auto simp: abs_path_def)
  ultimately show ?thesis by (auto simp: Let_def)
qed

lemma ws_ok_obtain:
  assumes "ws_ok w"
  obtains n cs where "n = 1 \<or> n = 2" "cs \<noteq> []" "\<forall>c \<in> set cs. good_comp c" "ws_root w = abs_path n cs"
    "backslash \<notin> set (abs_path n cs)"
  using assms that unfolding ws_ok_def abs_normal_def by metis

text \<open>The components of a resolved path, for a root in normal form.\<close>

lemma resolve_components:
  assumes n: "n = 1 \<or> n = 2" and cs: "cs \<noteq> []" "\<forall>c \<in> set cs. good_comp c"
    and root: "ws_root w = abs_path n cs" "backslash \<notin> set (abs_path n cs)"
    and res: "resolve w rel = Ok p"
  shows "\<exists>es. p = abs_path n (cs @ es) \<and> (\<forall>c \<in> set es. good_comp c)"
proof -
  define t where "t = replace_char backslash slash rel"
  define ds where "ds = norm_loop True (rev cs) (split_on slash t)"
  have good: "\<forall>c \<in> set ds. good_comp c"
    unfolding ds_def by (rule norm_loop_good) (use cs in \<open>auto dest: split_on_no_sep\<close>)
  have cand: "normalise_abs (ws_root w @ ''/'' @ t) = (if ds = [] then ''/'' else abs_path n ds)"
    unfolding root(1) ds_def
    by (subst normalise_abs_join [OF cs n root(2)]) (simp_all add: t_def replace_char_gone Let_def)
  from res have p: "p = normalise_abs (ws_root w @ ''/'' @ t)"
      and inside: "p = ws_root w \<or> startswith p (ws_root w @ ''/'')"
    by (auto simp: resolve_def escape_error_def t_def Let_def split: if_splits)
  have len: "2 \<le> length (ws_root w)"
    using last_join_good [OF cs] n unfolding root(1) abs_path_def
    by (cases "join_with ''/'' cs") auto
  have "ds \<noteq> []"
    using inside len unfolding p cand by (auto simp: startswith_iff dest!: arg_cong [of _ _ length])
  then have p': "p = abs_path n ds" using p cand by simp
  from inside show ?thesis
  proof
    assume "p = ws_root w"
    then have "p = abs_path n (cs @ [])" using root(1) by simp
    then show ?thesis by (metis empty_iff empty_set)
  next
    assume "startswith p (ws_root w @ ''/'')"
    then obtain u where u: "abs_path n ds = abs_path n cs @ slash # u"
      unfolding p' root(1) by (auto simp: startswith_iff)
    have "split_on slash (abs_path n ds) = replicate n [] @ ds"
      by (rule split_abs_path [OF \<open>ds \<noteq> []\<close> good])
    moreover have "split_on slash (abs_path n cs @ slash # u) = replicate n [] @ cs @ split_on slash u"
      by (simp add: split_on_append_sep split_abs_path [OF cs])
    ultimately have "ds = cs @ split_on slash u" using u by simp
    with good p' show ?thesis by auto
  qed
qed

lemma below_abs_path:
  "cs \<noteq> [] \<Longrightarrow> es \<noteq> [] \<Longrightarrow> \<forall>c \<in> set es. good_comp c \<Longrightarrow> below (abs_path n cs) (abs_path n (cs @ es))"
  unfolding below_def abs_path_def by (auto simp: join_with_append)

text \<open>C3: A resolved path never leaves its workspace: for a workspace whose root is a normalised
  absolute path (every allocated one is), whatever relative text a recipe supplies - backslashes,
  dots, empty segments - \<open>resolve\<close> either refuses or returns the root itself or the root followed by
  components none of which is empty, \<open>.\<close> or \<open>..\<close>, so the path is inside without any further
  interpretation by the operating system.\<close>

theorem resolve_stays_inside:
  assumes "ws_ok w" and "resolve w rel = Ok p"
  shows "p = ws_root w \<or> below (ws_root w) p"
proof -
  from assms(1) obtain n cs where w: "n = 1 \<or> n = 2" "cs \<noteq> []" "\<forall>c \<in> set cs. good_comp c"
      "ws_root w = abs_path n cs" "backslash \<notin> set (abs_path n cs)"
    by (rule ws_ok_obtain)
  obtain es where es: "p = abs_path n (cs @ es)" "\<forall>c \<in> set es. good_comp c"
    using resolve_components [OF w assms(2)] by blast
  show ?thesis
    using es w(2,4) below_abs_path [of cs es n] by (cases "es = []") auto
qed

subsection \<open>Allocated workspaces\<close>

lemma identifier_good_comp:
  assumes "is_identifier (JStr s)"
  shows "good_comp s" and "backslash \<notin> set s"
proof -
  from assms have s: "s \<noteq> []" "is_alnum (hd s)" "list_all identifier_char s" "\<not> contains_sub s ''..''"
    by (auto simp: is_identifier_str)
  then have "slash \<notin> set s" and bs: "backslash \<notin> set s"
    using not_in_identifier [OF s(3), of slash] not_in_identifier [OF s(3), of backslash] by simp_all
  moreover have "s \<noteq> ''.''" using s(2) by auto
  moreover have "s \<noteq> ''..''" using s(4) contains_sub_self by auto
  ultimately show "good_comp s" and "backslash \<notin> set s" using s(1) by (auto simp: good_comp_def)
qed

text \<open>The components of the base, and the root that \<open>allocate_workspace\<close> makes below it.\<close>

definition base_comps :: "string \<Rightarrow> string list" where
  "base_comps base = norm_loop True [] (split_on slash (replace_char backslash slash base))"

lemma base_comps_good: "\<forall>c \<in> set (base_comps base). good_comp c"
  unfolding base_comps_def by (rule norm_loop_good) (auto dest: split_on_no_sep)

lemma allocated_root:
  assumes "startswith base ''/''" and "is_identifier (JStr task_id)"
  obtains n where "n = 1 \<or> n = 2"
    and "normalise_abs (base @ ''/'' @ task_id) = abs_path n (base_comps base @ [task_id])"
proof -
  let ?b = "replace_char backslash slash base"
  note id = identifier_good_comp [OF assms(2)]
  have path: "replace_char backslash slash (base @ ''/'' @ task_id) = ?b @ ''/'' @ task_id"
    using replace_char_id [OF id(2), of slash] by (simp add: replace_char_def)
  have abs: "startswith (?b @ ''/'' @ task_id) ''/''"
    using replace_char_startswith [OF assms(1)] by (auto simp: startswith_iff)
  obtain n cs where n: "n = 1 \<or> n = 2" and norm: "normpath (?b @ ''/'' @ task_id) = abs_path n cs"
      and cs: "cs = norm_loop True [] (split_on slash (?b @ ''/'' @ task_id))"
    by (rule normpath_abs [OF abs]) blast
  have "slash \<notin> set task_id" using id(1) by (simp add: good_comp_def)
  then have "split_on slash (?b @ ''/'' @ task_id) = split_on slash ?b @ [task_id]"
    using split_on_append_sep [of slash ?b task_id] by (simp add: split_on_single)
  then have comps: "cs = base_comps base @ [task_id]"
    using id(1) by (auto simp: cs norm_loop_append base_comps_def good_comp_def)
  have good: "\<forall>c \<in> set (base_comps base @ [task_id]). good_comp c"
    using id(1) base_comps_good by auto
  have "normalise_abs (base @ ''/'' @ task_id) = abs_path n (base_comps base @ [task_id])"
    using rstrip_abs_path [OF _ good, of n] last_join_good [OF _ good]
    unfolding normalise_abs_def path norm comps by (auto simp: abs_path_def Let_def)
  with n show thesis by (rule that)
qed

lemma allocate_inv:
  assumes "allocate_workspace ex mk base task_id fs = Ok (fs', w)"
  shows "startswith base ''/''" and "is_identifier (JStr task_id)" and "ws_task_id w = task_id"
    and "ws_root w = normalise_abs (base @ ''/'' @ task_id)"
    and "\<not> ex fs (ws_root w)" and "mk fs (ws_root w) = Ok fs'"
  using assms
  by (auto simp: allocate_workspace_def require_safe_id_def Let_def result_simps split: if_splits)

lemma base_comps_no_backslash: "c \<in> set (base_comps base) \<Longrightarrow> backslash \<notin> set c"
proof -
  assume "c \<in> set (base_comps base)"
  then have "c \<in> set (split_on slash (replace_char backslash slash base))"
    using norm_loop_subset [of True "[]"] by (auto simp: base_comps_def)
  then have "set c \<subseteq> set (replace_char backslash slash base)" by (rule split_on_subset)
  then show ?thesis using replace_char_gone [of backslash slash base] by auto
qed

lemma allocated_ok:
  assumes "allocate_workspace ex mk base task_id fs = Ok (fs', w)"
  shows "ws_ok w"
proof -
  note inv = allocate_inv [OF assms]
  obtain n where n: "n = 1 \<or> n = 2" and root: "ws_root w = abs_path n (base_comps base @ [task_id])"
    using allocated_root [OF inv(1,2)] inv(4) by metis
  have good: "\<forall>c \<in> set (base_comps base @ [task_id]). good_comp c"
    using base_comps_good identifier_good_comp(1) [OF inv(2)] by auto
  then have "abs_normal (ws_root w)"
    unfolding abs_normal_def root
    by (intro exI [of _ n] exI [of _ "base_comps base @ [task_id]"]) (use n in simp)
  moreover have "backslash \<notin> set (join_with ''/'' (base_comps base @ [task_id]))"
    using set_join_with [of "''/''" "base_comps base @ [task_id]"] base_comps_no_backslash
      identifier_good_comp(2) [OF inv(2)] by fastforce
  ultimately show ?thesis
    using n root by (auto simp: ws_ok_def abs_path_def)
qed

definition sample_ws :: workspace where
  "sample_ws = \<lparr>ws_task_id = ''t1'', ws_root = ''/srv/ws/t1''\<rparr>"

lemma sample_ws_allocated:
  "allocate_workspace os_exists os_mkdir ''/srv/ws'' ''t1'' {''/srv/ws''}
     = Ok ({''/srv/ws/t1'', ''/srv/ws''}, sample_ws)"
  by code_simp

lemma sample_resolve: "resolve sample_ws ''./src//../tests'' = Ok ''/srv/ws/t1/tests''"
  by code_simp

lemma resolve_stays_inside_witness:
  "''/srv/ws/t1/tests'' = ws_root sample_ws \<or> below (ws_root sample_ws) ''/srv/ws/t1/tests''"
  by (rule resolve_stays_inside [OF allocated_ok [OF sample_ws_allocated] sample_resolve])

text \<open>Two tasks never share a path: the workspaces allocated under one base for two different task
  ids, whatever happened to the file system in between, are disjoint - no path that resolves inside
  the one resolves inside the other.\<close>

theorem workspaces_disjoint:
  assumes "allocate_workspace ex mk base a fs1 = Ok (fs1', wa)"
    and "allocate_workspace ex mk base b fs2 = Ok (fs2', wb)" and "a \<noteq> b"
    and "resolve wa ra = Ok p" and "resolve wb rb = Ok q"
  shows "p \<noteq> q"
proof
  assume eq: "p = q"
  note inva = allocate_inv [OF assms(1)] and invb = allocate_inv [OF assms(2)]
  obtain n where n: "n = 1 \<or> n = 2" and wa: "ws_root wa = abs_path n (base_comps base @ [a])"
    using allocated_root [OF inva(1,2)] inva(4) by metis
  obtain m where m: "m = 1 \<or> m = 2" and wb: "ws_root wb = abs_path m (base_comps base @ [b])"
    using allocated_root [OF invb(1,2)] invb(4) by metis
  have good: "\<forall>c \<in> set (base_comps base @ [a]). good_comp c" "\<forall>c \<in> set (base_comps base @ [b]). good_comp c"
    using base_comps_good identifier_good_comp(1) inva(2) invb(2) by auto
  have bs: "backslash \<notin> set (ws_root wa)" "backslash \<notin> set (ws_root wb)"
    using allocated_ok [OF assms(1)] allocated_ok [OF assms(2)] by (auto simp: ws_ok_def)
  obtain es where es: "p = abs_path n ((base_comps base @ [a]) @ es)" "\<forall>c \<in> set es. good_comp c"
    using resolve_components [OF n _ good(1) wa bs(1) [unfolded wa] assms(4)] by auto
  obtain ds where ds: "q = abs_path m ((base_comps base @ [b]) @ ds)" "\<forall>c \<in> set ds. good_comp c"
    using resolve_components [OF m _ good(2) wb bs(2) [unfolded wb] assms(5)] by auto
  have "base_comps base @ [a] @ es = base_comps base @ [b] @ ds"
    using abs_path_inject [of "(base_comps base @ [a]) @ es" "(base_comps base @ [b]) @ ds" n m]
      eq es ds good by auto
  then show False using assms(3) by simp
qed

lemma sample_ws2_allocated:
  "allocate_workspace os_exists os_mkdir ''/srv/ws'' ''t2'' {''/srv/ws/t1'', ''/srv/ws''}
     = Ok ({''/srv/ws/t2'', ''/srv/ws/t1'', ''/srv/ws''}, \<lparr>ws_task_id = ''t2'', ws_root = ''/srv/ws/t2''\<rparr>)"
  by code_simp

lemma workspaces_disjoint_witness: "''/srv/ws/t1/tests'' \<noteq> ''/srv/ws/t2/tests''"
proof -
  have "resolve \<lparr>ws_task_id = ''t2'', ws_root = ''/srv/ws/t2''\<rparr> ''tests'' = Ok ''/srv/ws/t2/tests''"
    by code_simp
  then show ?thesis
    by (intro workspaces_disjoint [OF sample_ws_allocated sample_ws2_allocated _ sample_resolve]) simp_all
qed

subsection \<open>The file system seam\<close>

text \<open>
  What \<open>allocate_workspace\<close> relies on: \<open>make_dir\<close> refuses a path that is there, and after it
  succeeds exactly that path is there in addition.
\<close>

locale workspace_fs =
  fixes fs_exists :: "'fs \<Rightarrow> string \<Rightarrow> bool" and fs_make_dir :: "'fs \<Rightarrow> string \<Rightarrow> 'fs result"
  assumes make_dir_exists: "fs_make_dir fs p = Ok fs' \<Longrightarrow> fs_exists fs' q \<longleftrightarrow> q = p \<or> fs_exists fs q"
    and make_dir_refuses: "fs_exists fs p \<Longrightarrow> \<not> is_ok (fs_make_dir fs p)"
begin

lemma allocate_exists:
  assumes "allocate_workspace fs_exists fs_make_dir base i fs = Ok (fs', w)"
  shows "fs_exists fs' q \<longleftrightarrow> q = ws_root w \<or> fs_exists fs q"
  using allocate_inv(6) [OF assms] by (rule make_dir_exists)

lemma allocate_again_refused:
  assumes "allocate_workspace fs_exists fs_make_dir base i fs = Ok (fs', w)" and "fs_exists fs'' (ws_root w)"
  shows "allocate_workspace fs_exists fs_make_dir base i fs'' = Err (Raise WorkspaceCollisionError
    [Msg ''workspace for task {} already exists at {} - two tasks must not share one'' [JStr i, JStr (ws_root w)]])"
proof -
  note inv = allocate_inv [OF assms(1)]
  show ?thesis
    using inv(1,2,4) assms(2) by (simp add: allocate_workspace_def require_safe_id_def)
qed

end

interpretation os_ws: workspace_fs os_exists os_mkdir
proof
  show "os_mkdir fs p = Ok fs' \<Longrightarrow> os_exists fs' q \<longleftrightarrow> q = p \<or> os_exists fs q" for fs p fs' q
    by (auto simp: os_mkdir_def os_exists_def split: if_splits)
  show "os_exists fs p \<Longrightarrow> \<not> is_ok (os_mkdir fs p)" for fs p
    by (simp add: os_mkdir_def os_exists_def)
qed

text \<open>Any number of further allocations, by any tasks.\<close>

fun allocate_all :: "string \<Rightarrow> string list \<Rightarrow> string set \<Rightarrow> string set result" where
  "allocate_all base [] fs = Ok fs"
| "allocate_all base (i # is) fs =
     and_then (allocate_workspace os_exists os_mkdir base i fs) (\<lambda>(fs', w). allocate_all base is fs')"

lemma allocate_all_exists:
  "allocate_all base is fs = Ok fs' \<Longrightarrow> os_exists fs p \<Longrightarrow> os_exists fs' p"
proof (induction "is" arbitrary: fs)
  case (Cons i "is")
  from Cons.prems(1) obtain fs1 w where
      a: "allocate_workspace os_exists os_mkdir base i fs = Ok (fs1, w)" and r: "allocate_all base is fs1 = Ok fs'"
    by (auto simp: result_simps)
  then show ?case using Cons.IH Cons.prems(2) os_ws.allocate_exists [OF a] by blast
qed simp

text \<open>A workspace is never silently reused: once a task's directory was allocated, allocating the same
  task again - directly or after any number of other tasks were allocated - is refused with a collision
  error that names the task and the directory.\<close>

theorem allocation_never_reused:
  assumes "allocate_workspace os_exists os_mkdir base i fs = Ok (fs', w)"
    and "allocate_all base is fs' = Ok fs''"
  shows "allocate_workspace os_exists os_mkdir base i fs'' = Err (Raise WorkspaceCollisionError
    [Msg ''workspace for task {} already exists at {} - two tasks must not share one'' [JStr i, JStr (ws_root w)]])"
proof -
  have "os_exists fs' (ws_root w)" using os_ws.allocate_exists [OF assms(1)] by blast
  then have "os_exists fs'' (ws_root w)" by (rule allocate_all_exists [OF assms(2)])
  then show ?thesis by (rule os_ws.allocate_again_refused [OF assms(1)])
qed

lemma allocation_never_reused_witness:
  "allocate_workspace os_exists os_mkdir ''/srv/ws'' ''t1'' {''/srv/ws/t2'', ''/srv/ws/t1'', ''/srv/ws''}
     = Err (Raise WorkspaceCollisionError
    [Msg ''workspace for task {} already exists at {} - two tasks must not share one''
      [JStr ''t1'', JStr (ws_root sample_ws)]])"
proof -
  have "allocate_all ''/srv/ws'' [''t2''] {''/srv/ws/t1'', ''/srv/ws''}
      = Ok {''/srv/ws/t2'', ''/srv/ws/t1'', ''/srv/ws''}"
    by (simp add: sample_ws2_allocated)
  then show ?thesis by (rule allocation_never_reused [OF sample_ws_allocated])
qed

end
