(* ===== verification/Glob.thy ===== *)
theory Glob
  imports Prelude
begin

text \<open>
  \<open>fnmatch.fnmatchcase\<close> (and \<open>fnmatch.fnmatch\<close>, which is the same on a POSIX host): \<open>*\<close>, \<open>?\<close>,
  \<open>[seq]\<close>, \<open>[!seq]\<close> with ranges; an unclosed bracket is a literal character.
\<close>

datatype glob = GStar | GAny | GSet bool "(char \<times> char) list" | GLit char

text \<open>The inside of a bracket: ranges \<open>a-b\<close>, other characters stand for themselves.\<close>

fun glob_ranges :: "string \<Rightarrow> (char \<times> char) list" where
  "glob_ranges [] = []"
| "glob_ranges [a] = [(a, a)]"
| "glob_ranges [a, b] = [(a, a), (b, b)]"
| "glob_ranges (a # b # c # s) =
     (if b = CHR ''-'' then (a, c) # glob_ranges s else (a, a) # glob_ranges (b # c # s))"

text \<open>The text after an opening bracket: (negated, inside, rest), if the bracket is closed.\<close>

definition glob_bracket :: "string \<Rightarrow> (bool \<times> string \<times> string) option" where
  "glob_bracket s =
     (let neg = startswith s ''!''; t = (if neg then tl s else s);
          (first, u) = (if startswith t '']'' then ('']'', tl t) else ([], t));
          body = takeWhile (\<lambda>c. c \<noteq> CHR '']'') u; rest = dropWhile (\<lambda>c. c \<noteq> CHR '']'') u
      in if rest = [] then None else Some (neg, first @ body, tl rest))"

lemma glob_bracket_shorter: "glob_bracket s = Some (neg, body, rest) \<Longrightarrow> length rest < length s"
proof -
  assume a: "glob_bracket s = Some (neg, body, rest)"
  have shorter: "CHR '']'' \<in> set u \<Longrightarrow> length (dropWhile (\<lambda>c. c \<noteq> CHR '']'') u) - Suc 0 < length u" for u
    using length_dropWhile_le [of "\<lambda>c. c \<noteq> CHR '']''" u] by (cases u) auto
  show ?thesis
    using a unfolding glob_bracket_def Let_def
    by (auto split: if_splits dest!: shorter)
qed

function glob_parse :: "string \<Rightarrow> glob list" where
  "glob_parse [] = []"
| "glob_parse (c # s) =
     (if c = CHR ''*'' then GStar # glob_parse s
      else if c = CHR ''?'' then GAny # glob_parse s
      else if c = CHR ''['' then
        (case glob_bracket s of
           None \<Rightarrow> GLit c # glob_parse s
         | Some (neg, body, rest) \<Rightarrow> GSet neg (glob_ranges body) # glob_parse rest)
      else GLit c # glob_parse s)"
  by pat_completeness auto
termination
  by (relation "measure length") (auto dest: glob_bracket_shorter)

definition in_ranges :: "char \<Rightarrow> (char \<times> char) list \<Rightarrow> bool" where
  "in_ranges c rs = (\<exists>(a, b) \<in> set rs. a \<le> c \<and> c \<le> b)"

fun glob_match :: "glob list \<Rightarrow> string \<Rightarrow> bool" where
  "glob_match [] s = (s = [])"
| "glob_match (GStar # ps) [] = glob_match ps []"
| "glob_match (GStar # ps) (c # s) = (glob_match ps (c # s) \<or> glob_match (GStar # ps) s)"
| "glob_match (GAny # ps) s = (case s of [] \<Rightarrow> False | c # t \<Rightarrow> glob_match ps t)"
| "glob_match (GSet neg rs # ps) s = (case s of [] \<Rightarrow> False | c # t \<Rightarrow> in_ranges c rs \<noteq> neg \<and> glob_match ps t)"
| "glob_match (GLit l # ps) s = (case s of [] \<Rightarrow> False | c # t \<Rightarrow> c = l \<and> glob_match ps t)"

definition fnmatch :: "string \<Rightarrow> string \<Rightarrow> bool" where
  "fnmatch name pattern = glob_match (glob_parse pattern) name"

lemma glob_match_star: "glob_match (GStar # ps) s \<longleftrightarrow> (\<exists>a b. s = a @ b \<and> glob_match ps b)"
proof (induction s)
  case (Cons c s)
  then show ?case by (auto simp: Cons_eq_append_conv)
qed simp

end
