(* ===== verification/Recipe.thy ===== *)
theory Recipe
  imports Config Workspace Glob
begin

text \<open>
  \<open>recipe.py\<close>: one unit of bounded work.  \<open>from_dict\<close> reads and checks a recipe, \<open>validate_against\<close>
  holds its command against the task policy, \<open>resolved_input_paths\<close> resolves its files inside the
  workspace.
\<close>

definition max_timeout_seconds :: int where
  "max_timeout_seconds = 60 * 60"

text \<open>\<open>^[0-9a-fA-F]{7,64}$|^v?\d+\.\d+\.\d+$|^refs/tags/[\w./-]+$\<close>\<close>

definition hex_revision_rx :: rx where
  "hex_revision_rx = rx_between 7 64 (RSet is_hex)"

definition version_rx :: rx where
  "version_rx = rx_seq [rx_opt (rx_lit ''v''), rx_plus (RSet is_digit), rx_lit ''.'', rx_plus (RSet is_digit),
     rx_lit ''.'', rx_plus (RSet is_digit)]"

definition tag_rx :: rx where
  "tag_rx = RCat (rx_lit ''refs/tags/'')
     (rx_plus (RSet (\<lambda>c. is_word_char c \<or> c \<in> {CHR ''.'', CHR ''/'', CHR ''-''})))"

definition revision_rx :: rx where
  "revision_rx = rx_alts [hex_revision_rx, version_rx, tag_rx]"

definition command_key :: "string \<Rightarrow> string" where
  "command_key command0 = (if startswith command0 ''./'' then drop 2 command0 else command0)"

definition denied_options :: "string list dict" where
  "denied_options =
     [(''pytest'', [''-p'', ''-c'', ''-o'', ''--rootdir'', ''--confcutdir'', ''--basetemp'', ''--override-ini'',
         ''--import-mode'', ''--pyargs'', ''--config-file'', ''--cache-clear-dir'']),
      (''python'', [''-c'', ''-i'', ''--command'']),
      (''python3'', [''-c'', ''-i'', ''--command'']),
      (''sh'', [''-c'']),
      (''bash'', [''-c'', ''--rcfile'', ''--init-file'']),
      (''node'', [''-e'', ''--eval'', ''-p'', ''--print'', ''-r'', ''--require'', ''--import'']),
      (''perl'', [''-e'', ''-E'']),
      (''ruby'', [''-e'']),
      (''env'', [''-S'', ''-C''])]"

definition is_path_escape :: "string \<Rightarrow> bool" where
  "is_path_escape v =
     (if startswith v ''/'' \<or> startswith v ''~'' \<or> startswith v [backslash] \<or>
         (length v > 2 \<and> v ! 1 = CHR '':'' \<and> (v ! 2 = backslash \<or> v ! 2 = slash)) then True
      else ''..'' \<in> set (split_on slash (replace_char backslash slash v)))"

subsection \<open>The arguments of a command\<close>

text \<open>Whether an argument is (a spelling of) a denied option.\<close>

definition option_hit :: "string \<Rightarrow> string \<Rightarrow> bool" where
  "option_hit arg opt =
     (arg = opt \<or> startswith arg (opt @ ''='') \<or>
      (\<not> startswith opt ''--'' \<and> length opt = 2 \<and> startswith arg opt \<and> length arg > 2 \<and> \<not> startswith arg ''--''))"

text \<open>\<open>-p no:<plugin>\<close> in its two spellings; \<open>after\<close> are the arguments that follow.\<close>

definition harmless_plugin :: "string \<Rightarrow> string \<Rightarrow> string list \<Rightarrow> bool" where
  "harmless_plugin opt arg after =
     (opt = ''-p'' \<and>
      ((arg = ''-p'' \<and> (case after of [] \<Rightarrow> False | a # _ \<Rightarrow> startswith a ''no:'')) \<or> startswith arg ''-pno:''))"

definition option_value :: "string \<Rightarrow> string" where
  "option_value arg = (if startswith arg ''-'' then snd (snd (partition_at (CHR ''='') arg)) else [])"

definition option_head :: "string \<Rightarrow> string" where
  "option_head arg = (if startswith arg ''-'' then fst (partition_at (CHR ''='') arg) else arg)"

definition listed :: "string list option \<Rightarrow> string \<Rightarrow> bool" where
  "listed patterns arg = (case patterns of None \<Rightarrow> False | Some ps \<Rightarrow> list_ex (fnmatch arg) ps)"

definition path_candidates :: "string \<Rightarrow> string list" where
  "path_candidates arg =
     (if option_value arg \<noteq> [] then [option_value arg] else []) @ (if startswith arg ''-'' then [] else [arg])"

definition one_argument ::
  "string \<Rightarrow> string list \<Rightarrow> string list option \<Rightarrow> nat \<Rightarrow> string \<Rightarrow> string list \<Rightarrow> msg list" where
  "one_argument key denied patterns index arg after =
     (if CHR 0x00 \<in> set arg then [Msg ''argument {} holds a NUL byte'' [JInt (int index + 1)]]
      else
        (if startswith arg ''-'' \<and> \<not> listed patterns arg then
           (case find (option_hit arg) denied of
              None \<Rightarrow> []
            | Some opt \<Rightarrow> if harmless_plugin opt arg after then []
                else [Msg ''the option {} is not allowed for {} (it loads code or configuration the recipe did not declare)''
                        [JStr (option_head arg), JStr key]])
         else []) @
        (if list_ex is_path_escape (path_candidates arg) then
           [Msg ''argument {} {} points outside the workspace (absolute, home or .. path)'' [JInt (int index + 1), JStr arg]]
         else []) @
        (if patterns \<noteq> None \<and> \<not> listed patterns arg then
           [Msg ''argument {} {} is not in the allowed_arguments of the policy for {}'' [JInt (int index + 1), JStr arg, JStr key]]
         else []))"

fun argument_loop ::
  "string \<Rightarrow> string list \<Rightarrow> string list option \<Rightarrow> nat \<Rightarrow> string list \<Rightarrow> msg list" where
  "argument_loop key denied patterns index [] = []"
| "argument_loop key denied patterns index (arg # after) =
     one_argument key denied patterns index arg after @ argument_loop key denied patterns (Suc index) after"

definition denied_for :: "string \<Rightarrow> string list" where
  "denied_for key = (case map_of denied_options (basename key) of None \<Rightarrow> [] | Some os \<Rightarrow> os)"

definition patterns_for :: "task_policy \<Rightarrow> string \<Rightarrow> string list option" where
  "patterns_for policy command0 =
     (case map_of (allowed_arguments policy) (command_key command0) of
        Some (p # ps) \<Rightarrow> Some (p # ps)
      | _ \<Rightarrow> map_of (allowed_arguments policy) command0)"

definition argument_problems :: "string list \<Rightarrow> task_policy \<Rightarrow> msg list" where
  "argument_problems command policy =
     (case command of [] \<Rightarrow> []
      | c # args \<Rightarrow>
          argument_loop (command_key c) (denied_for (command_key c)) (patterns_for policy c) 0 args)"

subsection \<open>TaskRecipe\<close>

record task_recipe =
  tr_task_id :: string
  tr_repo :: string
  tr_revision :: string
  tr_command :: "string list"
  tr_timeout :: int
  tr_input_paths :: "string list"

definition recipe_to_dict :: "task_recipe \<Rightarrow> json" where
  "recipe_to_dict r = JObj
     [(''task_id'', JStr (tr_task_id r)), (''repo'', JStr (tr_repo r)), (''revision'', JStr (tr_revision r)),
      (''command'', JArr (map JStr (tr_command r))), (''timeout_seconds'', JInt (tr_timeout r)),
      (''input_paths'', JArr (map JStr (tr_input_paths r)))]"

definition read_task_id :: "json dict \<Rightarrow> string \<times> msg list" where
  "read_task_id d = (let (raw, e) = require_str d ''task_id'' in
     if raw = [] then ([], e)
     else (case require_safe_id raw of Inl x \<Rightarrow> ([], e @ exn_msgs x) | Inr i \<Rightarrow> (i, e)))"

definition read_revision :: "json dict \<Rightarrow> string \<times> msg list" where
  "read_revision d = (let (rev, e) = require_str d ''revision'' in
     (rev, e @ (if rev \<noteq> [] \<and> \<not> match_dollar revision_rx rev then
        [Msg ''revision {} must be a commit hash, a vX.Y.Z tag, or refs/tags/... - a bare branch name is not a pinned revision'' [JStr rev]]
        else [])))"

definition read_command :: "json dict \<Rightarrow> string list \<times> msg list" where
  "read_command d = (case map_of d ''command'' of
     Some (JArr (v # vs)) \<Rightarrow>
       (case str_list (JArr (v # vs)) of
          Some cs \<Rightarrow> (cs, [])
        | None \<Rightarrow> ([], [Msg ''command must be a non-empty list of non-empty strings (argv)'' []]))
   | _ \<Rightarrow> ([], [Msg ''command must be a non-empty list of non-empty strings (argv)'' []]))"

definition read_timeout :: "json dict \<Rightarrow> int \<times> msg list" where
  "read_timeout d = (let (t, e) = require_positive_int d ''timeout_seconds'' 300 in
     (t, e @ (if t > max_timeout_seconds then
        [Msg ''timeout_seconds {} exceeds the maximum {}'' [JInt t, JInt max_timeout_seconds]] else [])))"

definition read_input_paths :: "json dict \<Rightarrow> string list \<times> msg list" where
  "read_input_paths d = (case str_list (get_default d ''input_paths'' (JArr [])) of
     Some ps \<Rightarrow> (ps, [])
   | None \<Rightarrow> ([], [Msg ''input_paths must be a list of non-empty strings'' []]))"

definition recipe_from_dict :: "json \<Rightarrow> task_recipe result" where
  "recipe_from_dict data = (case data of
     JObj d \<Rightarrow>
       (let (task_id, e1) = read_task_id d;
            (repo, e2) = require_str d ''repo'';
            (revision, e3) = read_revision d;
            (command, e4) = read_command d;
            (timeout, e5) = read_timeout d;
            (paths, e6) = read_input_paths d
        in finish (e1 @ e2 @ e3 @ e4 @ e5 @ e6)
             \<lparr>tr_task_id = task_id, tr_repo = repo, tr_revision = revision, tr_command = command,
              tr_timeout = timeout, tr_input_paths = paths\<rparr>)
   | _ \<Rightarrow> config_error [Msg ''task recipe must be a JSON object'' []])"

definition validate_against :: "task_recipe \<Rightarrow> task_policy \<Rightarrow> unit result" where
  "validate_against r policy =
     (if allowed_commands policy = [] then
        config_error [Msg ''the task policy allows no commands at all - no recipe can run under it'' []]
      else if tr_command r \<noteq> [] \<and>
          command_key (hd (tr_command r)) \<notin> set (map command_key (allowed_commands policy)) then
        config_error [Msg ''command {} is not in the allowed_commands {} of the policy''
          [JStr (hd (tr_command r)), JArr (map JStr (allowed_commands policy))]]
      else (let problems = argument_problems (tr_command r) policy in
        if problems \<noteq> [] then config_error problems else Ok ()))"

definition resolved_input_paths ::
  "task_recipe \<Rightarrow> workspace \<Rightarrow> (string \<Rightarrow> string) option \<Rightarrow> string list result" where
  "resolved_input_paths r w fs =
     map_result (\<lambda>p. case fs of Some realpath \<Rightarrow> resolve_with realpath w p | None \<Rightarrow> resolve w p) (tr_input_paths r)"

subsection \<open>What a recipe that was read satisfies\<close>

definition recipe_ok :: "task_recipe \<Rightarrow> bool" where
  "recipe_ok r \<longleftrightarrow>
     is_identifier (JStr (tr_task_id r)) \<and> tr_repo r \<noteq> [] \<and>
     tr_revision r \<noteq> [] \<and> match_dollar revision_rx (tr_revision r) \<and>
     tr_command r \<noteq> [] \<and> list_all (\<lambda>s. s \<noteq> []) (tr_command r) \<and>
     0 < tr_timeout r \<and> tr_timeout r \<le> max_timeout_seconds \<and>
     list_all (\<lambda>s. s \<noteq> []) (tr_input_paths r)"

lemma identifier_nonempty: "is_identifier (JStr s) \<Longrightarrow> s \<noteq> []"
  by (simp add: is_identifier_str)

lemma read_task_id_Nil_iff:
  "read_task_id d = (i, []) \<longleftrightarrow> map_of d ''task_id'' = Some (JStr i) \<and> is_identifier (JStr i)"
proof (cases "require_str d ''task_id''")
  case (Pair raw e)
  have "raw = [] \<longleftrightarrow> e \<noteq> []" using require_str_errors [of d "''task_id''"] Pair by auto
  then show ?thesis
    using Pair require_str_Nil_iff [of d "''task_id''" raw] identifier_nonempty [of i]
    by (cases e) (auto simp: read_task_id_def require_safe_id_def require_str_Nil_iff)
qed

lemma read_revision_Nil_iff:
  "read_revision d = (v, []) \<longleftrightarrow>
     map_of d ''revision'' = Some (JStr v) \<and> v \<noteq> [] \<and> match_dollar revision_rx v"
  using require_str_Nil_iff [of d "''revision''" v]
  by (cases "require_str d ''revision''") (auto simp: read_revision_def)

lemma read_command_Nil_iff:
  "read_command d = (cs, []) \<longleftrightarrow>
     cs \<noteq> [] \<and> list_all (\<lambda>s. s \<noteq> []) cs \<and> map_of d ''command'' = Some (JArr (map JStr cs))"
proof -
  have conv: "str_list (JArr vs) = Some cs \<longleftrightarrow> vs = map JStr cs \<and> list_all (\<lambda>s. s \<noteq> []) cs" for vs
  proof
    assume a: "str_list (JArr vs) = Some cs"
    then have "list_all nonempty_str vs" and cs: "cs = map str_of vs"
      by (auto simp: str_list_def split: if_splits)
    then have "map (JStr \<circ> str_of) vs = vs"
      by (intro map_idI) (auto simp: list_all_iff nonempty_str_conv)
    with a cs show "vs = map JStr cs \<and> list_all (\<lambda>s. s \<noteq> []) cs"
      by (auto dest: str_list_nonempty)
  qed simp
  show ?thesis
  proof
    assume "read_command d = (cs, [])"
    then obtain v vs where "map_of d ''command'' = Some (JArr (v # vs))" and "str_list (JArr (v # vs)) = Some cs"
      by (auto simp: read_command_def split: option.splits json.splits list.splits)
    then show "cs \<noteq> [] \<and> list_all (\<lambda>s. s \<noteq> []) cs \<and> map_of d ''command'' = Some (JArr (map JStr cs))"
      using conv [of "v # vs"] by auto
  next
    assume a: "cs \<noteq> [] \<and> list_all (\<lambda>s. s \<noteq> []) cs \<and> map_of d ''command'' = Some (JArr (map JStr cs))"
    then obtain c cs' where c: "cs = c # cs'" by (cases cs) auto
    with a conv [of "map JStr cs"] show "read_command d = (cs, [])"
      by (simp add: read_command_def)
  qed
qed

lemma read_timeout_Nil:
  "read_timeout d = (t, []) \<Longrightarrow> 0 < t \<and> t \<le> max_timeout_seconds"
  using require_positive_int_pos [of 300 d "''timeout_seconds''"]
  by (auto simp: read_timeout_def Let_def split: prod.splits if_splits)

lemma read_input_paths_Nil: "read_input_paths d = (ps, []) \<Longrightarrow> list_all (\<lambda>s. s \<noteq> []) ps"
  by (auto simp: read_input_paths_def split: option.splits dest: str_list_nonempty)

lemma recipe_from_dict_inv:
  "recipe_from_dict j = Ok r \<longleftrightarrow> (\<exists>d. j = JObj d \<and>
     read_task_id d = (tr_task_id r, []) \<and> require_str d ''repo'' = (tr_repo r, []) \<and>
     read_revision d = (tr_revision r, []) \<and> read_command d = (tr_command r, []) \<and>
     read_timeout d = (tr_timeout r, []) \<and> read_input_paths d = (tr_input_paths r, []))"
proof (cases j)
  case (JObj d)
  obtain v1 e1 where r1: "read_task_id d = (v1, e1)" by fastforce
  obtain v2 e2 where r2: "require_str d ''repo'' = (v2, e2)" by fastforce
  obtain v3 e3 where r3: "read_revision d = (v3, e3)" by fastforce
  obtain v4 e4 where r4: "read_command d = (v4, e4)" by fastforce
  obtain v5 e5 where r5: "read_timeout d = (v5, e5)" by fastforce
  obtain v6 e6 where r6: "read_input_paths d = (v6, e6)" by fastforce
  show ?thesis
    by (cases r) (auto simp: JObj recipe_from_dict_def finish_Ok_iff r1 r2 r3 r4 r5 r6)
qed (simp_all add: recipe_from_dict_def config_error_def)

lemma recipe_from_dict_ok: "recipe_from_dict j = Ok r \<Longrightarrow> recipe_ok r"
  unfolding recipe_from_dict_inv recipe_ok_def
  by (auto simp: read_task_id_Nil_iff read_revision_Nil_iff read_command_Nil_iff require_str_Nil_iff
      dest: read_timeout_Nil read_input_paths_Nil)

lemma recipe_from_dict_to_dict:
  assumes ok: "recipe_ok r"
  shows "recipe_from_dict (recipe_to_dict r) = Ok r"
proof -
  define d where "d = (case recipe_to_dict r of JObj d \<Rightarrow> d | _ \<Rightarrow> [])"
  have d: "recipe_to_dict r = JObj d"
    by (simp add: d_def recipe_to_dict_def)
  note look = d_def [unfolded recipe_to_dict_def json.case]
  have "read_timeout d = (tr_timeout r, [])"
    using ok by (simp add: look read_timeout_def recipe_ok_def)
  moreover have "read_input_paths d = (tr_input_paths r, [])"
    using ok by (simp add: look read_input_paths_def get_default_def recipe_ok_def)
  moreover have "read_task_id d = (tr_task_id r, [])" "require_str d ''repo'' = (tr_repo r, [])"
      "read_revision d = (tr_revision r, [])" "read_command d = (tr_command r, [])"
    using ok by (simp_all add: look recipe_ok_def read_task_id_Nil_iff read_revision_Nil_iff
        read_command_Nil_iff require_str_Nil_iff)
  ultimately show ?thesis unfolding recipe_from_dict_inv d by simp
qed

text \<open>Reading back a recipe either fails or gives that recipe, never another one.\<close>

lemma recipe_readback:
  assumes "recipe_from_dict (recipe_to_dict r) = Ok r'"
  shows "r' = r"
proof -
  define d where "d = (case recipe_to_dict r of JObj d \<Rightarrow> d | _ \<Rightarrow> [])"
  have d: "recipe_to_dict r = JObj d"
    by (simp add: d_def recipe_to_dict_def)
  note look = d_def [unfolded recipe_to_dict_def json.case]
  note inv = assms [unfolded recipe_from_dict_inv d json.inject, simplified]
  have "tr_timeout r' = tr_timeout r"
    using inv by (auto simp: look read_timeout_def require_positive_int_def split: if_splits)
  moreover have "tr_input_paths r' = tr_input_paths r"
  proof -
    have "str_list (JArr (map JStr (tr_input_paths r))) = Some (tr_input_paths r')"
      using inv by (auto simp: look read_input_paths_def get_default_def split: option.splits)
    then show ?thesis by (auto simp: str_list_def split: if_splits)
  qed
  moreover have "map JStr (tr_command r) = map JStr (tr_command r')"
    using inv by (simp add: look read_command_Nil_iff)
  then have "tr_command r = tr_command r'" by (metis map_map map_str_of_JStr)
  ultimately show ?thesis
    using inv by (simp add: look read_task_id_Nil_iff read_revision_Nil_iff require_str_Nil_iff)
qed

lemma recipe_readable_iff: "is_ok (recipe_from_dict (recipe_to_dict r)) \<longleftrightarrow> recipe_ok r"
  using recipe_readback recipe_from_dict_ok recipe_from_dict_to_dict by (metis is_ok_conv)

text \<open>A recipe survives its serialisation, and only proper recipes exist: \<open>from_dict\<close> applied to
  \<open>to_dict\<close> of a recipe gives that recipe back exactly when the recipe is well formed (a safe task id, a
  pinned revision, a non-empty argv of non-empty strings, a timeout between one second and one hour), and
  every recipe that \<open>from_dict\<close> returns is well formed.  The durable queue relies on this: it stores
  \<open>to_dict\<close> and reads it back with \<open>from_dict\<close>.\<close>

theorem recipe_roundtrip:
  "(recipe_from_dict (recipe_to_dict r) = Ok r) = recipe_ok r \<and>
   (\<exists>j. recipe_from_dict j = Ok r) = recipe_ok r"
  using recipe_from_dict_to_dict recipe_from_dict_ok by blast

subsection \<open>Which commands pass the policy\<close>

text \<open>The rules an argument has to satisfy, stated without the loop.\<close>

definition argument_allowed :: "string \<Rightarrow> string list \<Rightarrow> string list option \<Rightarrow> string \<Rightarrow> string list \<Rightarrow> bool" where
  "argument_allowed key denied patterns arg after \<longleftrightarrow>
     CHR 0x00 \<notin> set arg \<and>
     (startswith arg ''-'' \<or> \<not> is_path_escape arg) \<and>
     (option_value arg = [] \<or> \<not> is_path_escape (option_value arg)) \<and>
     (\<forall>ps. patterns = Some ps \<longrightarrow> (\<exists>p \<in> set ps. fnmatch arg p)) \<and>
     (startswith arg ''-'' \<longrightarrow> listed patterns arg \<or>
        (\<forall>opt. find (option_hit arg) denied = Some opt \<longrightarrow> harmless_plugin opt arg after))"

lemma listed_iff: "listed (Some ps) arg \<longleftrightarrow> (\<exists>p \<in> set ps. fnmatch arg p)" "\<not> listed None arg"
  by (simp_all add: listed_def list_ex_iff)

lemma one_argument_Nil_iff:
  "one_argument key denied patterns i arg after = [] \<longleftrightarrow> argument_allowed key denied patterns arg after"
proof -
  have cand: "list_ex is_path_escape (path_candidates arg) \<longleftrightarrow>
      (option_value arg \<noteq> [] \<and> is_path_escape (option_value arg)) \<or>
      (\<not> startswith arg ''-'' \<and> is_path_escape arg)"
    by (auto simp: path_candidates_def)
  show ?thesis
    unfolding one_argument_def argument_allowed_def cand
    by (cases patterns) (auto simp: listed_iff split: option.splits)
qed

lemma argument_loop_Nil_iff:
  "argument_loop key denied patterns i args = [] \<longleftrightarrow>
     (\<forall>xs arg after. args = xs @ arg # after \<longrightarrow> argument_allowed key denied patterns arg after)"
proof (induction args arbitrary: i)
  case (Cons a args)
  then show ?case
    by (auto simp: one_argument_Nil_iff Cons_eq_append_conv)
qed simp


definition pytest_policy :: task_policy where
  "pytest_policy = sample_policy_value\<lparr>allowed_arguments := []\<rparr>"

definition sample_recipe :: task_recipe where
  "sample_recipe = \<lparr>tr_task_id = ''t1'', tr_repo = ''URTC'', tr_revision = ''v1.2.3'',
     tr_command = [''pytest'', ''-q'', ''tests''], tr_timeout = 300, tr_input_paths = []\<rparr>"

lemma sample_recipe_passes: "validate_against sample_recipe pytest_policy = Ok ()"
  by code_simp

lemma sample_recipe_read: "recipe_from_dict (recipe_to_dict sample_recipe) = Ok sample_recipe"
  by code_simp


text \<open>A path glued to a short option is not seen as a path, although the rules are announced for every
  argument: the documentation of the rules says "no absolute or home path, no \<open>..\<close>".\<close>

lemma short_option_path_accepted:
  "validate_against (sample_recipe\<lparr>tr_command := [''pytest'', ''-I/etc/../root'']\<rparr>) pytest_policy = Ok ()"
  by code_simp

text \<open>A trailing newline passes the pinned-revision pattern, because \<open>$\<close> also matches before it.\<close>

lemma revision_newline_accepted:
  "match_dollar revision_rx (''v1.2.3'' @ [CHR 0x0A])"
  by code_simp

end
