(* ===== verification/Durable_Queue.thy ===== *)
theory Durable_Queue
  imports Recipe Sha2 "HOL-Library.Product_Lexorder"
begin

text \<open>
  \<open>durable_queue.py\<close>: the task queue with leases and its execution journal.  The two SQLite tables
  are lists of rows; every method is a function from the database (and its arguments, the clock
  reading \<open>now\<close> included) to the database after it and the value or exception it ends with, so a
  transaction that is rolled back returns the database it started from.  Each method runs in one
  transaction (or is one statement), so a run of any number of processes is a sequence of such steps:
  \<open>queue_step\<close>.  The JSON columns hold the document itself (\<open>json.loads\<close> undoes \<open>json.dumps\<close>).
\<close>

subsection \<open>Tables\<close>

datatype qstate = Queued | Leased | Succeeded | Failed | Cancelled | Dead_letter

fun state_name :: "qstate \<Rightarrow> string" where
  "state_name Queued = ''queued''"
| "state_name Leased = ''leased''"
| "state_name Succeeded = ''succeeded''"
| "state_name Failed = ''failed''"
| "state_name Cancelled = ''cancelled''"
| "state_name Dead_letter = ''dead-letter''"

record qrow =
  q_task_id :: string
  q_recipe_json :: json
  q_recipe_fingerprint :: string
  q_revision :: string
  q_base_fingerprint :: string
  q_state :: qstate
  q_attempt :: int
  q_leased_by :: "string option"
  q_lease_expires_at :: "rat option"
  q_enqueued_at :: rat
  q_updated_at :: rat

record jrow =
  j_id :: nat
  j_task_id :: string
  j_attempt :: int
  j_event :: string
  j_at :: rat
  j_detail :: json

record qdb =
  db_entries :: "qrow list"
  db_journal :: "jrow list"
  db_next_id :: nat

definition empty_db :: qdb where
  "empty_db = \<lparr>db_entries = [], db_journal = [], db_next_id = 1\<rparr>"

definition journal_tail_cap :: nat where
  "journal_tail_cap = 2 * 1024"

definition recipe_fingerprint :: "task_recipe \<Rightarrow> string" where
  "recipe_fingerprint r = sha256_hex (utf8 (dumps_canonical (recipe_to_dict r)))"

text \<open>\<open>UPDATE entries SET f WHERE P\<close> and its \<open>rowcount\<close>.\<close>

definition sql_update :: "(qrow \<Rightarrow> bool) \<Rightarrow> (qrow \<Rightarrow> qrow) \<Rightarrow> qdb \<Rightarrow> qdb" where
  "sql_update P f db = db\<lparr>db_entries := map (\<lambda>r. if P r then f r else r) (db_entries db)\<rparr>"

definition sql_count :: "(qrow \<Rightarrow> bool) \<Rightarrow> qdb \<Rightarrow> nat" where
  "sql_count P db = length (filter P (db_entries db))"

definition find_row :: "qdb \<Rightarrow> string \<Rightarrow> qrow option" where
  "find_row db i = find (\<lambda>r. q_task_id r = i) (db_entries db)"

subsection \<open>Values the methods return\<close>

record queue_entry =
  qe_task_id :: string
  qe_recipe :: task_recipe
  qe_recipe_fingerprint :: string
  qe_revision :: string
  qe_base_fingerprint :: string
  qe_state :: qstate
  qe_attempt :: int
  qe_leased_by :: "string option"
  qe_lease_expires_at :: "rat option"
  qe_enqueued_at :: rat
  qe_updated_at :: rat

record enqueue_outcome =
  eo_created :: bool
  eo_entry :: queue_entry
  eo_conflict :: bool

record lease_grant =
  lg_task_id :: string
  lg_worker_id :: string
  lg_attempt :: int
  lg_lease_expires_at :: rat
  lg_recipe :: task_recipe
  lg_revision :: string
  lg_base_fingerprint :: string

record record_outcome =
  ro_accepted :: bool
  ro_final_state :: qstate
  ro_promotable :: bool
  ro_reason :: "msg option"

text \<open>The attributes \<open>record_result\<close> reads from a run result.\<close>

record run_view =
  rv_outcome :: string
  rv_exit_code :: "int option"
  rv_stdout_tail :: string
  rv_stderr_tail :: string

definition row_to_entry :: "qrow \<Rightarrow> queue_entry result" where
  "row_to_entry row = and_then (recipe_from_dict (q_recipe_json row)) (\<lambda>recipe. Ok
     \<lparr>qe_task_id = q_task_id row, qe_recipe = recipe, qe_recipe_fingerprint = q_recipe_fingerprint row,
      qe_revision = q_revision row, qe_base_fingerprint = q_base_fingerprint row, qe_state = q_state row,
      qe_attempt = q_attempt row, qe_leased_by = q_leased_by row, qe_lease_expires_at = q_lease_expires_at row,
      qe_enqueued_at = q_enqueued_at row, qe_updated_at = q_updated_at row\<rparr>)"

definition entry :: "qdb \<Rightarrow> string \<Rightarrow> queue_entry option result" where
  "entry db i = (case find_row db i of
     None \<Rightarrow> Ok None
   | Some row \<Rightarrow> and_then (row_to_entry row) (\<lambda>e. Ok (Some e)))"

definition float_json :: "rat \<Rightarrow> json" where
  "float_json q = JFloat (Finite q)"

subsection \<open>Methods\<close>

definition journal :: "qdb \<Rightarrow> string \<Rightarrow> int \<Rightarrow> string \<Rightarrow> rat \<Rightarrow> json \<Rightarrow> qdb" where
  "journal db i attempt event now detail =
     db\<lparr>db_journal := db_journal db @
          [\<lparr>j_id = db_next_id db, j_task_id = i, j_attempt = attempt, j_event = event, j_at = now, j_detail = detail\<rparr>],
        db_next_id := Suc (db_next_id db)\<rparr>"

definition new_row :: "task_recipe \<Rightarrow> string \<Rightarrow> rat \<Rightarrow> qrow" where
  "new_row recipe base now =
     \<lparr>q_task_id = tr_task_id recipe, q_recipe_json = recipe_to_dict recipe,
      q_recipe_fingerprint = recipe_fingerprint recipe, q_revision = tr_revision recipe,
      q_base_fingerprint = base, q_state = Queued, q_attempt = 0, q_leased_by = None,
      q_lease_expires_at = None, q_enqueued_at = now, q_updated_at = now\<rparr>"

definition enqueue :: "qdb \<Rightarrow> task_recipe \<Rightarrow> string \<Rightarrow> rat \<Rightarrow> qdb \<times> enqueue_outcome result" where
  "enqueue db recipe base now =
     (let fp = recipe_fingerprint recipe;
          created = (find_row db (tr_task_id recipe) = None);
          db1 = (if created
                 then journal (db\<lparr>db_entries := db_entries db @ [new_row recipe base now]\<rparr>)
                        (tr_task_id recipe) 0 ''enqueued'' now
                        (JObj [(''revision'', JStr (tr_revision recipe)), (''recipe_fingerprint'', JStr fp)])
                 else db)
      in case entry db1 (tr_task_id recipe) of
           Inl e \<Rightarrow> (db, Inl e)
         | Inr None \<Rightarrow> (db1, Err (Raise DurableQueueError
             [Msg ''task {} vanished while it was being enqueued'' [JStr (tr_task_id recipe)]]))
         | Inr (Some e) \<Rightarrow> (db1, Ok \<lparr>eo_created = created, eo_entry = e,
             eo_conflict = (\<not> created \<and> qe_recipe_fingerprint e \<noteq> fp)\<rparr>))"

text \<open>\<open>SELECT ... WHERE state = 'queued' ORDER BY enqueued_at, task_id LIMIT 1\<close>.\<close>

definition oldest_queued :: "qdb \<Rightarrow> qrow option" where
  "oldest_queued db =
     (case sort_key (\<lambda>r. (q_enqueued_at r, q_task_id r)) (filter (\<lambda>r. q_state r = Queued) (db_entries db)) of
        [] \<Rightarrow> None | r # _ \<Rightarrow> Some r)"

definition set_leased :: "string \<Rightarrow> rat \<Rightarrow> int \<Rightarrow> rat \<Rightarrow> qrow \<Rightarrow> qrow" where
  "set_leased worker expires attempt now r =
     r\<lparr>q_state := Leased, q_leased_by := Some worker, q_lease_expires_at := Some expires,
       q_attempt := attempt, q_updated_at := now\<rparr>"

definition lease :: "qdb \<Rightarrow> string \<Rightarrow> rat \<Rightarrow> rat \<Rightarrow> qdb \<times> lease_grant option result" where
  "lease db worker ttl now =
     (if ttl \<le> 0 then (db, Err (Raise DurableQueueError [Msg ''lease ttl must be positive'' []]))
      else (case oldest_queued db of
         None \<Rightarrow> (db, Ok None)
       | Some row \<Rightarrow>
           (let attempt = q_attempt row + 1; expires = now + ttl;
                db1 = sql_update (\<lambda>r. q_task_id r = q_task_id row) (set_leased worker expires attempt now) db;
                db2 = journal db1 (q_task_id row) attempt ''leased'' now
                  (JObj [(''worker_id'', JStr worker), (''lease_expires_at'', float_json expires)])
            in (db2, and_then (row_to_entry row) (\<lambda>e. Ok (Some
                 \<lparr>lg_task_id = qe_task_id e, lg_worker_id = worker, lg_attempt = attempt,
                  lg_lease_expires_at = expires, lg_recipe = qe_recipe e, lg_revision = qe_revision e,
                  lg_base_fingerprint = qe_base_fingerprint e\<rparr>))))))"

definition leased_to :: "string \<Rightarrow> string \<Rightarrow> qrow \<Rightarrow> bool" where
  "leased_to i worker r \<longleftrightarrow> q_task_id r = i \<and> q_state r = Leased \<and> q_leased_by r = Some worker"

definition renew_lease :: "qdb \<Rightarrow> string \<Rightarrow> string \<Rightarrow> rat \<Rightarrow> rat \<Rightarrow> qdb \<times> bool" where
  "renew_lease db i worker ttl now =
     (sql_update (leased_to i worker) (\<lambda>r. r\<lparr>q_lease_expires_at := Some (now + ttl), q_updated_at := now\<rparr>) db,
      sql_count (leased_to i worker) db = 1)"

definition clear_lease :: "qstate \<Rightarrow> rat \<Rightarrow> qrow \<Rightarrow> qrow" where
  "clear_lease s now r =
     r\<lparr>q_state := s, q_leased_by := None, q_lease_expires_at := None, q_updated_at := now\<rparr>"

definition ran_ok :: "run_view \<Rightarrow> bool" where
  "ran_ok rv \<longleftrightarrow> rv_outcome rv = ''completed'' \<and> rv_exit_code rv = Some 0"

definition opt_int :: "int option \<Rightarrow> json" where
  "opt_int n = (case n of None \<Rightarrow> JNull | Some i \<Rightarrow> JInt i)"

definition record_result_locked ::
  "qdb \<Rightarrow> string \<Rightarrow> string \<Rightarrow> run_view \<Rightarrow> string \<Rightarrow> rat \<Rightarrow> qdb \<times> record_outcome result" where
  "record_result_locked db i worker rv observed now =
     (case entry db i of
        Inl e \<Rightarrow> (db, Inl e)
      | Inr None \<Rightarrow> (db, Err (Raise DurableQueueError [Msg ''no such task {}'' [JStr i]]))
      | Inr (Some e) \<Rightarrow>
          (let lease_expired = (case qe_lease_expires_at e of None \<Rightarrow> False | Some x \<Rightarrow> x < now) in
           if qe_state e \<noteq> Leased \<or> qe_leased_by e \<noteq> Some worker \<or> lease_expired then
             (let reason = Msg (if \<not> lease_expired then ''worker does not hold a valid lease''
                                else ''the lease of the worker expired'') []
              in (journal db i (qe_attempt e) ''result-rejected'' now
                    (JObj [(''reason'', msg_json (Some reason)), (''worker_id'', JStr worker),
                           (''entry_state'', JStr (state_name (qe_state e)))]),
                  Ok \<lparr>ro_accepted = False, ro_final_state = qe_state e, ro_promotable = False,
                      ro_reason = Some reason\<rparr>))
           else
             (let base_moved = (observed \<noteq> qe_base_fingerprint e);
                  final_state = (if ran_ok rv \<and> \<not> base_moved then Succeeded else Failed);
                  promotable = (ran_ok rv \<and> \<not> base_moved);
                  reason = (if base_moved then Some (Msg ''base changed during the task - candidate not promotable'' [])
                            else if \<not> ran_ok rv then
                              Some (Msg ''run outcome {} exit_code {}'' [JStr (rv_outcome rv), opt_int (rv_exit_code rv)])
                            else None);
                  db1 = sql_update (leased_to i worker) (clear_lease final_state now) db
              in (journal db1 i (qe_attempt e) ''completed'' now
                    (JObj [(''final_state'', JStr (state_name final_state)), (''promotable'', JBool promotable),
                           (''revision'', JStr (qe_revision e)),
                           (''recipe_fingerprint'', JStr (qe_recipe_fingerprint e)),
                           (''outcome'', JStr (rv_outcome rv)), (''exit_code'', opt_int (rv_exit_code rv)),
                           (''base_moved'', JBool base_moved),
                           (''stdout_tail'', JStr (last_chars journal_tail_cap (rv_stdout_tail rv))),
                           (''stderr_tail'', JStr (last_chars journal_tail_cap (rv_stderr_tail rv))),
                           (''reason'', msg_json reason)]),
                  Ok \<lparr>ro_accepted = True, ro_final_state = final_state, ro_promotable = promotable,
                      ro_reason = reason\<rparr>))))"

definition record_result ::
  "qdb \<Rightarrow> string \<Rightarrow> string \<Rightarrow> run_view \<Rightarrow> string \<Rightarrow> rat \<Rightarrow> qdb \<times> record_outcome result" where
  "record_result db i worker rv observed now = record_result_locked db i worker rv observed now"

definition cancellable :: "string \<Rightarrow> qrow \<Rightarrow> bool" where
  "cancellable i r \<longleftrightarrow> q_task_id r = i \<and> (q_state r = Queued \<or> q_state r = Leased)"

definition cancel :: "qdb \<Rightarrow> string \<Rightarrow> rat \<Rightarrow> qdb \<times> bool result" where
  "cancel db i now =
     (let db1 = sql_update (cancellable i) (clear_lease Cancelled now) db;
          hit = (sql_count (cancellable i) db = 1)
      in if \<not> hit then (db1, Ok False)
         else (case entry db1 i of
                 Inl e \<Rightarrow> (db, Inl e)
               | Inr current \<Rightarrow>
                   (journal db1 i (case current of None \<Rightarrow> 0 | Some e \<Rightarrow> qe_attempt e) ''cancelled'' now (JObj []),
                    Ok True)))"

text \<open>\<open>state='leased' AND lease_expires_at < now\<close> (a NULL is never smaller).\<close>

definition expired :: "rat \<Rightarrow> qrow \<Rightarrow> bool" where
  "expired now r \<longleftrightarrow> q_state r = Leased \<and> (case q_lease_expires_at r of None \<Rightarrow> False | Some x \<Rightarrow> x < now)"

definition reconcile_one :: "int \<Rightarrow> rat \<Rightarrow> qrow \<Rightarrow> qdb \<Rightarrow> qdb" where
  "reconcile_one max_attempts now row db =
     (let parked = (max_attempts > 0 \<and> q_attempt row \<ge> max_attempts);
          db1 = sql_update (\<lambda>r. q_task_id r = q_task_id row \<and> expired now r)
                  (clear_lease (if parked then Dead_letter else Queued) now) db
      in journal db1 (q_task_id row) (q_attempt row) (if parked then ''dead-lettered'' else ''lease-expired'') now
           (JObj [(''note'', JStr (if parked then ''attempt limit reached'' else ''returned to queued by reconcile''))]))"

definition reconcile :: "int \<Rightarrow> qdb \<Rightarrow> rat \<Rightarrow> qdb \<times> nat" where
  "reconcile max_attempts db now =
     (let rows = filter (expired now) (db_entries db)
      in (fold (reconcile_one max_attempts now) rows db, length rows))"

text \<open>\<open>ROW_NUMBER() OVER (PARTITION BY task_id ORDER BY id DESC)\<close>: 1 for the newest row of a task.\<close>

definition row_number :: "jrow list \<Rightarrow> jrow \<Rightarrow> nat" where
  "row_number js j = length (filter (\<lambda>k. j_task_id k = j_task_id j \<and> j_id j \<le> j_id k) js)"

definition prune_journal :: "qdb \<Rightarrow> int \<Rightarrow> qdb \<times> nat" where
  "prune_journal db keep =
     (let kept = filter (\<lambda>j. int (row_number (db_journal db) j) \<le> keep) (db_journal db)
      in (db\<lparr>db_journal := kept\<rparr>, length (db_journal db) - length kept))"

definition journal_for :: "qdb \<Rightarrow> string \<Rightarrow> jrow list" where
  "journal_for db i = sort_key j_id (filter (\<lambda>j. j_task_id j = i) (db_journal db))"

text \<open>\<open>stats\<close>: the number of entries per state that occurs, and of journal rows.\<close>

definition stats :: "qdb \<Rightarrow> (qstate \<times> nat) list \<times> nat" where
  "stats db =
     (filter (\<lambda>(s, n). n > 0)
        (map (\<lambda>s. (s, sql_count (\<lambda>r. q_state r = s) db)) [Cancelled, Dead_letter, Failed, Leased, Queued, Succeeded]),
      length (db_journal db))"

subsection \<open>Runs of any number of processes\<close>

text \<open>
  One step is one method call of some process, with any arguments and any clock reading; the file is
  opened with one attempt limit \<open>m\<close>.
\<close>

inductive queue_step :: "int \<Rightarrow> qdb \<Rightarrow> qdb \<Rightarrow> bool" for m :: int where
  do_enqueue: "queue_step m db (fst (enqueue db recipe base now))"
| do_lease: "queue_step m db (fst (lease db worker ttl now))"
| do_renew: "queue_step m db (fst (renew_lease db i worker ttl now))"
| do_record: "queue_step m db (fst (record_result db i worker rv observed now))"
| do_cancel: "queue_step m db (fst (cancel db i now))"
| do_reconcile: "queue_step m db (fst (reconcile m db now))"
| do_prune: "queue_step m db (fst (prune_journal db keep))"

inductive_cases queue_stepE: "queue_step m db db'"

inductive queue_reachable :: "int \<Rightarrow> qdb \<Rightarrow> bool" for m :: int where
  start: "queue_reachable m empty_db"
| step: "queue_reachable m db \<Longrightarrow> queue_step m db db' \<Longrightarrow> queue_reachable m db'"

end
