(* ===== verification/Backup.thy ===== *)
theory Backup
  imports Trust_Store Config Paths Durable_Queue
begin

text \<open>
  \<open>operations.py\<close>: verified backup and restore of the durable state, and the operational health check.  The
  file system behind \<open>BackupFs\<close> is a record of operations, so the same definitions run on any of them;
  \<open>SystemBackupFs\<close> is the model of the real one, files and directories under their normalised paths (no links).
\<close>

subsection \<open>File systems\<close>

record 'f backup_fs =
  bf_read :: "'f \<Rightarrow> string \<Rightarrow> bytes result"
  bf_write :: "'f \<Rightarrow> string \<Rightarrow> bytes \<Rightarrow> 'f result"
  bf_sha256 :: "'f \<Rightarrow> string \<Rightarrow> string result"
  bf_exists :: "'f \<Rightarrow> string \<Rightarrow> bool"

datatype node = File bytes | Directory

type_synonym system_fs = "node dict"

definition os_error :: "string \<Rightarrow> string \<Rightarrow> 'a result" where
  "os_error what p = Err (Raise PyOSError [Msg what [JStr p]])"

definition sys_read :: "system_fs \<Rightarrow> string \<Rightarrow> bytes result" where
  "sys_read f p = (case map_of f (normpath p) of
     Some (File d) \<Rightarrow> Ok d | Some Directory \<Rightarrow> os_error ''is a directory: {}'' p | None \<Rightarrow> os_error ''no such file: {}'' p)"

definition sys_sha256 :: "system_fs \<Rightarrow> string \<Rightarrow> string result" where
  "sys_sha256 f p = and_then (sys_read f p) (\<lambda>d. Ok (sha256_hex d))"

definition sys_exists :: "system_fs \<Rightarrow> string \<Rightarrow> bool" where
  "sys_exists f p = (map_of f (normpath p) \<noteq> None)"

text \<open>The directories above a path, outermost first, and \<open>os.makedirs(..., exist_ok=True)\<close> on them.\<close>

definition parents :: "string \<Rightarrow> string list" where
  "parents p = (let cs = split_on slash (normpath p)
     in filter (\<lambda>d. d \<noteq> []) (map (\<lambda>i. join_with ''/'' (take i cs)) [1..<length cs]))"

fun make_dirs :: "string list \<Rightarrow> system_fs \<Rightarrow> system_fs result" where
  "make_dirs [] f = Ok f"
| "make_dirs (d # ds) f = (case map_of f d of
     None \<Rightarrow> make_dirs ds (dict_set d Directory f)
   | Some Directory \<Rightarrow> make_dirs ds f
   | Some (File _) \<Rightarrow> os_error ''not a directory: {}'' d)"

text \<open>The temporary file is written, flushed and renamed over the target: all of it or nothing.\<close>

definition sys_write :: "system_fs \<Rightarrow> string \<Rightarrow> bytes \<Rightarrow> system_fs result" where
  "sys_write f p d = and_then (make_dirs (parents p) f) (\<lambda>f1.
     if map_of f1 (normpath p) = Some Directory then os_error ''is a directory: {}'' p
     else Ok (dict_set (normpath p) (File d) f1))"

definition system_backup_fs :: "system_fs backup_fs" where
  "system_backup_fs = \<lparr>bf_read = sys_read, bf_write = sys_write, bf_sha256 = sys_sha256, bf_exists = sys_exists\<rparr>"

subsection \<open>Manifests\<close>

record manifest =
  mf_backup_id :: string
  mf_instance_id :: string
  mf_schema_version :: string
  mf_files :: "string dict"

definition backup_schema_version :: string where
  "backup_schema_version = ''dev-server-state/1''"

definition manifest_to_dict :: "manifest \<Rightarrow> json" where
  "manifest_to_dict m = JObj
     [(''backup_id'', JStr (mf_backup_id m)), (''instance_id'', JStr (mf_instance_id m)),
      (''schema_version'', JStr (mf_schema_version m)),
      (''files'', JObj (map (\<lambda>(k, v). (k, JStr v)) (sorted_items (mf_files m))))]"

definition plain_relpath :: "string \<Rightarrow> bool" where
  "plain_relpath rel \<longleftrightarrow>
     \<not> (rel = [] \<or> startswith rel ''/'' \<or> backslash \<in> set rel \<or> list_ex (\<lambda>c. (of_char c :: nat) < 32) rel \<or>
        list_ex (\<lambda>part. part = [] \<or> part = ''.'' \<or> part = ''..'') (split_on slash rel))"

definition check_relpath :: "string \<Rightarrow> string result" where
  "check_relpath rel =
     (if \<not> plain_relpath rel then
        config_error [Msg ''backup path {} is not a plain relative path inside the backup'' [JStr rel]]
      else Ok rel)"

definition join_path :: "string \<Rightarrow> string \<Rightarrow> string result" where
  "join_path base rel = and_then (check_relpath rel) (\<lambda>r.
     Ok (replace_char backslash slash (rstrip_char slash base @ ''/'' @ r)))"

definition relpath_problems :: "string list \<Rightarrow> msg list" where
  "relpath_problems rels = concat (map (\<lambda>r. case check_relpath r of Inl e \<Rightarrow> exn_msgs e | Inr _ \<Rightarrow> []) rels)"

definition manifest_from_dict :: "json \<Rightarrow> manifest result" where
  "manifest_from_dict data = (case data of
     JObj d \<Rightarrow>
       (let (bid, e1) = require_str d ''backup_id'';
            (inst, e2) = require_str d ''instance_id'';
            (schema, e3) = require_str d ''schema_version'';
            (files, e4) = (case map_of d ''files'' of
                None \<Rightarrow> ([], [])
              | Some (JObj fs) \<Rightarrow>
                  if list_all (\<lambda>(k, v). k \<noteq> [] \<and> nonempty_str v) fs then (map (\<lambda>(k, v). (k, str_of v)) fs, [])
                  else ([], [Msg ''files must be a map of relpath -> sha256 hex'' []])
              | Some _ \<Rightarrow> ([], [Msg ''files must be a map of relpath -> sha256 hex'' []]));
            e5 = relpath_problems (map fst files)
        in finish (e1 @ e2 @ e3 @ e4 @ e5)
             \<lparr>mf_backup_id = bid, mf_instance_id = inst, mf_schema_version = schema, mf_files = files\<rparr>)
   | _ \<Rightarrow> config_error [Msg ''backup manifest must be a JSON object'' []])"

subsection \<open>Creating a backup\<close>

definition backup_one ::
  "'f backup_fs \<Rightarrow> string \<Rightarrow> string \<Rightarrow> string \<Rightarrow> 'f \<Rightarrow> string dict \<Rightarrow> ('f \<times> string dict) result \<times> 'f" where
  "backup_one fs source dest rel f files =
     (case join_path source rel of Inl e \<Rightarrow> (Inl e, f) | Inr src \<Rightarrow>
        if \<not> bf_exists fs f src then
          (config_error [Msg ''backup source {} does not exist under {}'' [JStr rel, JStr source]], f)
        else (case join_path dest rel of Inl e \<Rightarrow> (Inl e, f) | Inr dst \<Rightarrow>
          (case bf_read fs f src of Inl e \<Rightarrow> (Inl e, f) | Inr d \<Rightarrow>
            (case bf_write fs f dst d of Inl e \<Rightarrow> (Inl e, f) | Inr f1 \<Rightarrow>
              (case bf_sha256 fs f1 dst of Inl e \<Rightarrow> (Inl e, f1) | Inr h \<Rightarrow> (Ok (f1, dict_set rel h files), f1))))))"

fun backup_loop ::
  "'f backup_fs \<Rightarrow> string \<Rightarrow> string \<Rightarrow> string list \<Rightarrow> 'f \<Rightarrow> string dict \<Rightarrow> 'f \<times> string dict result" where
  "backup_loop fs source dest [] f files = (f, Ok files)"
| "backup_loop fs source dest (rel # rels) f files =
     (case backup_one fs source dest rel f files of
        (Inl e, f1) \<Rightarrow> (f1, Inl e)
      | (Inr (f1, files1), _) \<Rightarrow> backup_loop fs source dest rels f1 files1)"

definition create_backup ::
  "'f backup_fs \<Rightarrow> string \<Rightarrow> string list \<Rightarrow> string \<Rightarrow> 'f \<Rightarrow> string \<Rightarrow> string \<Rightarrow> string \<Rightarrow> 'f \<times> manifest result" where
  "create_backup fs source relpaths dest f backup_id instance_id schema =
     (case backup_loop fs source dest (sort relpaths) f [] of
        (f1, r) \<Rightarrow> (f1, and_then r (\<lambda>files. Ok
          \<lparr>mf_backup_id = backup_id, mf_instance_id = instance_id, mf_schema_version = schema, mf_files = files\<rparr>)))"

definition sign_manifest :: "native_backend option \<Rightarrow> manifest \<Rightarrow> string \<Rightarrow> string result" where
  "sign_manifest native m seed = sign_body native seed (manifest_to_dict m)"

definition manifest_signature_ok :: "manifest \<Rightarrow> string \<Rightarrow> string \<Rightarrow> bool" where
  "manifest_signature_ok m signature public_key =
     (is_public_key public_key \<and> verify_body public_key (manifest_to_dict m) (strip signature))"

subsection \<open>Verifying and restoring\<close>

record backup_check =
  bc_ok :: bool
  bc_verified :: "string list"
  bc_mismatches :: "string list"
  bc_missing :: "string list"
  bc_signature_valid :: "bool option"
  bc_signer :: "string option"

text \<open>What the caller asks of the signature.\<close>

record trust_demand =
  td_public_key :: "string option"
  td_signature :: "string option"
  td_trust_store :: "trust_store option"
  td_signer :: "string option"

definition opt_text :: "string option \<Rightarrow> string" where
  "opt_text s = (case s of None \<Rightarrow> [] | Some t \<Rightarrow> t)"

text \<open>\<open>signed_by\<close> and \<open>signature_valid\<close> of \<open>verify_backup\<close>.\<close>

definition demanded_signature :: "manifest \<Rightarrow> trust_demand \<Rightarrow> string option \<times> bool option" where
  "demanded_signature m td =
     (case td_trust_store td of
        Some store \<Rightarrow>
          (let text = strip (opt_text (td_signature td));
               signed_by = (case td_signer td of
                   Some s \<Rightarrow> if text \<noteq> [] \<and> ts_verify store (manifest_to_dict m) text (Some s) then Some s else None
                 | None \<Rightarrow> if text \<noteq> [] then identify store (manifest_to_dict m) text else None)
           in (signed_by, Some (signed_by \<noteq> None)))
      | None \<Rightarrow>
          (case td_public_key td of
             Some key \<Rightarrow> (None, Some (opt_text (td_signature td) \<noteq> [] \<and> manifest_signature_ok m (opt_text (td_signature td)) key))
           | None \<Rightarrow> (None, None)))"

datatype file_check = Missing | Same | Different

definition check_file :: "'f backup_fs \<Rightarrow> 'f \<Rightarrow> string \<Rightarrow> string \<times> string \<Rightarrow> (string \<times> file_check) result" where
  "check_file fs f base e = (case e of (rel, expected) \<Rightarrow>
     and_then (join_path base rel) (\<lambda>p.
       if \<not> bf_exists fs f p then Ok (rel, Missing)
       else and_then (bf_sha256 fs f p) (\<lambda>h. Ok (rel, if h = expected then Same else Different))))"

definition with_check :: "file_check \<Rightarrow> (string \<times> file_check) list \<Rightarrow> string list" where
  "with_check k rs = map fst (filter (\<lambda>(_, k'). k' = k) rs)"

definition verify_backup :: "'f backup_fs \<Rightarrow> manifest \<Rightarrow> string \<Rightarrow> 'f \<Rightarrow> trust_demand \<Rightarrow> backup_check result" where
  "verify_backup fs m base f td =
     (let (signed_by, signature_valid) = demanded_signature m td in
      and_then (map_result (check_file fs f base) (sorted_items (mf_files m))) (\<lambda>rs. Ok
        \<lparr>bc_ok = (with_check Different rs = [] \<and> with_check Missing rs = [] \<and> signature_valid \<noteq> Some False),
         bc_verified = with_check Same rs, bc_mismatches = with_check Different rs, bc_missing = with_check Missing rs,
         bc_signature_valid = signature_valid, bc_signer = signed_by\<rparr>))"

record restore_outcome =
  rs_ok :: bool
  rs_restored :: "string list"
  rs_reason :: "msg option"

definition not_restored :: "msg \<Rightarrow> restore_outcome" where
  "not_restored reason = \<lparr>rs_ok = False, rs_restored = [], rs_reason = Some reason\<rparr>"

fun restore_loop :: "'f backup_fs \<Rightarrow> string \<Rightarrow> string \<Rightarrow> string list \<Rightarrow> 'f \<Rightarrow> 'f \<times> unit result" where
  "restore_loop fs base dest [] f = (f, Ok ())"
| "restore_loop fs base dest (rel # rels) f =
     (case join_path dest rel of Inl e \<Rightarrow> (f, Inl e) | Inr dst \<Rightarrow>
       (case join_path base rel of Inl e \<Rightarrow> (f, Inl e) | Inr src \<Rightarrow>
         (case bf_read fs f src of Inl e \<Rightarrow> (f, Inl e) | Inr d \<Rightarrow>
           (case bf_write fs f dst d of Inl e \<Rightarrow> (f, Inl e) | Inr f1 \<Rightarrow> restore_loop fs base dest rels f1))))"

definition restore_backup ::
  "'f backup_fs \<Rightarrow> manifest \<Rightarrow> string \<Rightarrow> string \<Rightarrow> 'f \<Rightarrow> string \<Rightarrow> string \<Rightarrow> trust_demand \<Rightarrow> 'f \<times> restore_outcome result" where
  "restore_backup fs m base dest f expected_instance expected_schema td =
     (if mf_instance_id m \<noteq> expected_instance then
        (f, Ok (not_restored (Msg ''backup is for instance {}, not {}'' [JStr (mf_instance_id m), JStr expected_instance])))
      else if mf_schema_version m \<noteq> expected_schema then
        (f, Ok (not_restored (Msg ''backup schema {} != {}'' [JStr (mf_schema_version m), JStr expected_schema])))
      else (case verify_backup fs m base f td of
          Inl e \<Rightarrow> (f, Inl e)
        | Inr check \<Rightarrow>
            if bc_signature_valid check = Some False then
              (f, Ok (not_restored (Msg ''the manifest is not signed by the expected key - nothing was restored'' [])))
            else if \<not> bc_ok check then
              (f, Ok (not_restored (Msg ''backup is not intact: mismatches={} missing={}''
                 [JArr (map JStr (bc_mismatches check)), JArr (map JStr (bc_missing check))])))
            else (let rels = sort (map fst (mf_files m)) in
              case restore_loop fs base dest rels f of
                (f1, Inl e) \<Rightarrow> (f1, Inl e)
              | (f1, Inr _) \<Rightarrow> (f1, Ok \<lparr>rs_ok = True, rs_restored = rels, rs_reason = None\<rparr>))))"

subsection \<open>Operational health\<close>

record health_report =
  hr_ok :: bool
  hr_findings :: "(string \<times> msg) list"
  hr_stats :: "(qstate \<times> nat) list \<times> nat"

definition check_operational_health :: "qdb \<Rightarrow> rat option \<Rightarrow> rat \<Rightarrow> nat \<Rightarrow> rat \<Rightarrow> health_report" where
  "check_operational_health db free_disk min_free row_cap now =
     (let st = stats db;
          orphaned = sql_count (expired now) db;
          findings =
            (if orphaned \<noteq> 0 then [(''orphaned-leases'',
               Msg ''{} entr{} leased but expired - run queue reconcile''
                 [JInt (int orphaned), JStr (if orphaned = 1 then ''y'' else ''ies'')])] else []) @
            (if snd st > row_cap then [(''journal-over-cap'',
               Msg ''{} journal rows over the cap {} - run prune_journal'' [JInt (int (snd st)), JInt (int row_cap)])] else []) @
            (case free_disk of None \<Rightarrow> [] | Some free \<Rightarrow>
               if free < min_free then [(''low-disk'', Msg ''{} GiB free, floor is {}''
                 [JFloat (Finite free), JFloat (Finite min_free)])] else [])
      in \<lparr>hr_ok = (findings = []), hr_findings = findings, hr_stats = st\<rparr>)"

end
