(* ===== verification/Queue_Proofs.thy ===== *)
theory Queue_Proofs
  imports Durable_Queue
begin

text \<open>
  The durable queue, method by method: what each does to the rows of a task (its cases), what it leaves alone, and that it
  preserves the invariant of the tables.
\<close>

named_theorems queue_simps \<open>effect of the SQL statements on the rows\<close>

subsection \<open>The SQL statements\<close>

lemma journal_entries [queue_simps]: "db_entries (journal db i a ev t d) = db_entries db"
  by (simp add: journal_def)

lemma sql_update_journal [queue_simps]:
  "db_journal (sql_update P f db) = db_journal db" "db_next_id (sql_update P f db) = db_next_id db"
  by (simp_all add: sql_update_def)

lemma find_row_journal [queue_simps]: "find_row (journal db i a ev t d) j = find_row db j"
  by (simp add: find_row_def journal_entries)

lemma find_row_Some: "find_row db i = Some r \<Longrightarrow> r \<in> set (db_entries db) \<and> q_task_id r = i"
  by (auto simp: find_row_def find_Some_iff)

lemma find_row_None: "find_row db i = None \<longleftrightarrow> (\<forall>r \<in> set (db_entries db). q_task_id r \<noteq> i)"
  by (auto simp: find_row_def find_None_iff)

lemma find_row_update:
  assumes "\<And>r. q_task_id (f r) = q_task_id r"
  shows "find_row (sql_update P f db) j = map_option (\<lambda>r. if P r then f r else r) (find_row db j)"
proof -
  have "find (\<lambda>r. q_task_id r = j) (map (\<lambda>r. if P r then f r else r) rs) =
      map_option (\<lambda>r. if P r then f r else r) (find (\<lambda>r. q_task_id r = j) rs)" for rs
    using assms by (induction rs) auto
  then show ?thesis by (simp add: find_row_def sql_update_def)
qed

lemma find_row_append:
  "find_row (db\<lparr>db_entries := db_entries db @ [r]\<rparr>) j =
     (case find_row db j of None \<Rightarrow> (if q_task_id r = j then Some r else None) | Some x \<Rightarrow> Some x)"
proof -
  have "find P (xs @ [r]) = (case find P xs of None \<Rightarrow> (if P r then Some r else None) | Some x \<Rightarrow> Some x)" for P xs
    by (induction xs) auto
  then show ?thesis by (simp add: find_row_def)
qed

lemma set_leased_id [simp]: "q_task_id (set_leased w e a t r) = q_task_id r"
  by (simp add: set_leased_def)

lemma clear_lease_id [simp]: "q_task_id (clear_lease s t r) = q_task_id r"
  by (simp add: clear_lease_def)

lemma clear_lease_state [simp]: "q_state (clear_lease s t r) = s"
  by (simp add: clear_lease_def)

lemma set_leased_state [simp]: "q_state (set_leased w e a t r) = Leased"
  by (simp add: set_leased_def)

subsection \<open>The invariant\<close>

definition lease_ok :: "qrow \<Rightarrow> bool" where
  "lease_ok r \<longleftrightarrow>
     (q_state r = Leased \<longrightarrow> q_leased_by r \<noteq> None \<and> q_lease_expires_at r \<noteq> None) \<and>
     (q_state r \<noteq> Leased \<longrightarrow> q_leased_by r = None \<and> q_lease_expires_at r = None)"

definition attempt_ok :: "int \<Rightarrow> qrow \<Rightarrow> bool" where
  "attempt_ok m r \<longleftrightarrow>
     0 \<le> q_attempt r \<and> (q_state r = Leased \<longrightarrow> 1 \<le> q_attempt r) \<and>
     (0 < m \<longrightarrow> q_attempt r \<le> m \<and> (q_state r = Queued \<longrightarrow> q_attempt r < m))"

definition recipe_of_row :: "qrow \<Rightarrow> task_recipe \<Rightarrow> bool" where
  "recipe_of_row r recipe \<longleftrightarrow>
     recipe_ok recipe \<and> q_recipe_json r = recipe_to_dict recipe \<and> q_task_id r = tr_task_id recipe \<and>
     q_revision r = tr_revision recipe \<and> q_recipe_fingerprint r = recipe_fingerprint recipe"

definition row_ok :: "int \<Rightarrow> qrow \<Rightarrow> bool" where
  "row_ok m r \<longleftrightarrow> (\<exists>recipe. recipe_of_row r recipe) \<and> lease_ok r \<and> attempt_ok m r"

definition journal_ok :: "qdb \<Rightarrow> bool" where
  "journal_ok db \<longleftrightarrow>
     sorted_wrt (<) (map j_id (db_journal db)) \<and> (\<forall>j \<in> set (db_journal db). j_id j < db_next_id db)"

definition queue_inv :: "int \<Rightarrow> qdb \<Rightarrow> bool" where
  "queue_inv m db \<longleftrightarrow>
     distinct (map q_task_id (db_entries db)) \<and> (\<forall>r \<in> set (db_entries db). row_ok m r) \<and> journal_ok db"

lemma journal_ok_journal: "journal_ok db \<Longrightarrow> journal_ok (journal db i a ev t d)"
  by (auto simp: journal_ok_def journal_def sorted_wrt_append less_SucI)

lemma journal_inv: "queue_inv m db \<Longrightarrow> queue_inv m (journal db i a ev t d)"
  by (simp add: queue_inv_def journal_entries journal_ok_journal)

lemma sql_update_inv:
  assumes "queue_inv m db" and "\<And>r. q_task_id (f r) = q_task_id r"
    and "\<And>r. r \<in> set (db_entries db) \<Longrightarrow> P r \<Longrightarrow> row_ok m r \<Longrightarrow> row_ok m (f r)"
  shows "queue_inv m (sql_update P f db)"
proof -
  have "map q_task_id (db_entries (sql_update P f db)) = map q_task_id (db_entries db)"
    using assms(2) by (simp add: sql_update_def)
  then have "distinct (map q_task_id (db_entries (sql_update P f db)))"
    using assms(1) by (simp only: queue_inv_def)
  moreover have "journal_ok (sql_update P f db)"
    using assms(1) by (simp add: queue_inv_def journal_ok_def sql_update_journal)
  moreover have "\<forall>r \<in> set (db_entries (sql_update P f db)). row_ok m r"
    using assms(1,3) by (auto simp: queue_inv_def sql_update_def)
  ultimately show ?thesis by (simp only: queue_inv_def simp_thms)
qed

lemma recipe_of_row_clear: "recipe_of_row (clear_lease s t r) recipe = recipe_of_row r recipe"
  by (simp add: recipe_of_row_def clear_lease_def)

lemma recipe_of_row_leased: "recipe_of_row (set_leased w e a t r) recipe = recipe_of_row r recipe"
  by (simp add: recipe_of_row_def set_leased_def)

lemma lease_ok_set [simp]: "s \<noteq> Leased \<Longrightarrow> lease_ok (clear_lease s t r)" "lease_ok (set_leased w e a t r)"
  by (simp_all add: lease_ok_def clear_lease_def set_leased_def)

lemma attempt_ok_clear:
  "attempt_ok m r \<Longrightarrow> s \<noteq> Leased \<Longrightarrow> (s = Queued \<Longrightarrow> 0 < m \<Longrightarrow> q_attempt r < m) \<Longrightarrow> attempt_ok m (clear_lease s t r)"
  by (auto simp: attempt_ok_def clear_lease_def)

lemma attempt_ok_leased:
  "attempt_ok m r \<Longrightarrow> q_state r = Queued \<Longrightarrow> attempt_ok m (set_leased w e (q_attempt r + 1) t r)"
  by (auto simp: attempt_ok_def set_leased_def)

lemma row_ok_clear:
  assumes "row_ok m r" and "s \<noteq> Leased" and "s = Queued \<Longrightarrow> 0 < m \<Longrightarrow> q_attempt r < m"
  shows "row_ok m (clear_lease s t r)"
  using assms by (auto simp: row_ok_def recipe_of_row_clear attempt_ok_clear)

lemma row_ok_leased:
  assumes "row_ok m r" and "q_state r = Queued"
  shows "row_ok m (set_leased w e (q_attempt r + 1) t r)"
  using assms by (auto simp: row_ok_def recipe_of_row_leased attempt_ok_leased)

lemma row_unique:
  "queue_inv m db \<Longrightarrow> r \<in> set (db_entries db) \<Longrightarrow> s \<in> set (db_entries db) \<Longrightarrow> q_task_id r = q_task_id s \<Longrightarrow> r = s"
  unfolding queue_inv_def by (auto simp: distinct_map dest: inj_onD)

lemma find_row_iff:
  assumes "queue_inv m db"
  shows "find_row db i = Some r \<longleftrightarrow> r \<in> set (db_entries db) \<and> q_task_id r = i"
proof
  show "find_row db i = Some r \<Longrightarrow> r \<in> set (db_entries db) \<and> q_task_id r = i"
    by (rule find_row_Some)
  assume r: "r \<in> set (db_entries db) \<and> q_task_id r = i"
  then obtain s where s: "find_row db i = Some s"
    using find_row_None [of db i] by (cases "find_row db i") auto
  then have "s = r" using r row_unique [OF assms] find_row_Some [OF s] by blast
  with s show "find_row db i = Some r" by simp
qed

text \<open>Reading a row of a queue in order never fails, and gives the recipe that was enqueued.\<close>

lemma row_to_entry_ok:
  assumes "row_ok m r"
  obtains e where "row_to_entry r = Ok e" and "recipe_of_row r (qe_recipe e)"
    and "qe_task_id e = q_task_id r" and "qe_state e = q_state r" and "qe_attempt e = q_attempt r"
    and "qe_leased_by e = q_leased_by r" and "qe_lease_expires_at e = q_lease_expires_at r"
    and "qe_base_fingerprint e = q_base_fingerprint r" and "qe_recipe_fingerprint e = q_recipe_fingerprint r"
    and "qe_revision e = q_revision r"
proof -
  from assms obtain recipe where rec: "recipe_of_row r recipe" by (auto simp: row_ok_def)
  then have "recipe_from_dict (q_recipe_json r) = Ok recipe"
    using recipe_from_dict_to_dict by (auto simp: recipe_of_row_def)
  then show thesis
    using that rec by (fastforce simp: row_to_entry_def)
qed

lemma entry_cases:
  assumes "queue_inv m db"
  obtains (none) "find_row db i = None" and "entry db i = Ok None"
  | (some) r e where "find_row db i = Some r" and "row_ok m r" and "q_task_id r = i"
      and "entry db i = Ok (Some e)" and "row_to_entry r = Ok e"
proof (cases "find_row db i")
  case None
  then show thesis using none by (simp add: entry_def)
next
  case (Some r)
  then have r: "row_ok m r" "q_task_id r = i"
    using assms find_row_Some [OF Some] by (auto simp: queue_inv_def)
  obtain e where "row_to_entry r = Ok e" using row_to_entry_ok [OF r(1)] by blast
  then show thesis using some Some r by (simp add: entry_def)
qed

subsection \<open>Every method keeps the invariant\<close>

lemma new_row_ok: "recipe_ok recipe \<Longrightarrow> row_ok m (new_row recipe base t)"
  by (auto simp: row_ok_def recipe_of_row_def lease_ok_def attempt_ok_def new_row_def)

lemma new_row_id [simp]: "q_task_id (new_row recipe base t) = tr_task_id recipe"
  by (simp add: new_row_def)

lemma row_to_entry_new: "is_ok (row_to_entry (new_row recipe base t)) \<longleftrightarrow> recipe_ok recipe"
  unfolding recipe_readable_iff [symmetric] by (auto simp: row_to_entry_def new_row_def is_ok_conv result_simps)

text \<open>
  The three ways \<open>enqueue\<close> can end: the id is known and nothing changes; the recipe could not be read
  back, and the transaction is rolled back; or a queued row is added.
\<close>

lemma enqueue_cases:
  assumes "queue_inv m db"
  obtains
    (known) r e where "find_row db (tr_task_id recipe) = Some r" and "row_to_entry r = Ok e"
      and "enqueue db recipe base t = (db, Ok \<lparr>eo_created = False, eo_entry = e,
             eo_conflict = (q_recipe_fingerprint r \<noteq> recipe_fingerprint recipe)\<rparr>)"
  | (refused) x where "find_row db (tr_task_id recipe) = None" and "\<not> recipe_ok recipe"
      and "enqueue db recipe base t = (db, Err x)"
  | (added) e where "find_row db (tr_task_id recipe) = None" and "recipe_ok recipe"
      and "row_to_entry (new_row recipe base t) = Ok e"
      and "enqueue db recipe base t =
             (journal (db\<lparr>db_entries := db_entries db @ [new_row recipe base t]\<rparr>) (tr_task_id recipe) 0 ''enqueued'' t
                (JObj [(''revision'', JStr (tr_revision recipe)),
                       (''recipe_fingerprint'', JStr (recipe_fingerprint recipe))]),
              Ok \<lparr>eo_created = True, eo_entry = e, eo_conflict = False\<rparr>)"
proof (cases rule: entry_cases [OF assms, where i = "tr_task_id recipe"])
  case some: (2 r e)
  from some(2) have "qe_recipe_fingerprint e = q_recipe_fingerprint r"
    by (rule row_to_entry_ok) (use some(5) in simp)
  then show thesis
    using some by (intro known [of r e]) (simp_all add: enqueue_def)
next
  case none: 1
  have new: "find_row (journal (db\<lparr>db_entries := db_entries db @ [new_row recipe base t]\<rparr>) i a ev t' d) (tr_task_id recipe)
      = Some (new_row recipe base t)" for i a ev t' d
    using none by (simp add: find_row_journal find_row_append)
  show thesis
  proof (cases "row_to_entry (new_row recipe base t)")
    case (Inl x)
    then have "\<not> recipe_ok recipe" using row_to_entry_new [of recipe base t] by simp
    then show thesis
      using none Inl new by (intro refused [of x]) (simp_all add: enqueue_def entry_def Let_def)
  next
    case (Inr e)
    then have "recipe_ok recipe" using row_to_entry_new [of recipe base t] by simp
    then show thesis
      using none Inr new by (intro added [of e]) (simp_all add: enqueue_def entry_def Let_def)
  qed
qed

lemma enqueue_inv:
  assumes "queue_inv m db"
  shows "queue_inv m (fst (enqueue db recipe base t))"
proof (cases rule: enqueue_cases [OF assms, where recipe = recipe and base = base and t = t])
  case added: (3 e)
  have "journal_ok (db\<lparr>db_entries := db_entries db @ [new_row recipe base t]\<rparr>)"
    using assms by (simp add: queue_inv_def journal_ok_def)
  then have "queue_inv m (db\<lparr>db_entries := db_entries db @ [new_row recipe base t]\<rparr>)"
    using assms added(1,2) new_row_ok [of recipe m base t]
    by (auto simp: queue_inv_def find_row_None)
  then show ?thesis using added(4) by (simp add: journal_inv)
qed (use assms in simp_all)

lemma oldest_queued_Some:
  assumes "oldest_queued db = Some r"
  shows "r \<in> set (db_entries db)" and "q_state r = Queued"
    and "\<And>s. s \<in> set (db_entries db) \<Longrightarrow> q_state s = Queued \<Longrightarrow>
           (q_enqueued_at r, q_task_id r) \<le> (q_enqueued_at s, q_task_id s)"
proof -
  let ?key = "\<lambda>r. (q_enqueued_at r, q_task_id r)"
  let ?q = "filter (\<lambda>r. q_state r = Queued) (db_entries db)"
  obtain rs where rs: "sort_key ?key ?q = r # rs"
    using assms by (auto simp: oldest_queued_def split: list.splits)
  then have set: "set ?q = insert r (set rs)" by (metis list.simps(15) set_sort)
  then show "r \<in> set (db_entries db)" and "q_state r = Queued" by auto
  have sorted: "sorted (map ?key (r # rs))" using sorted_sort_key [of ?key ?q] rs by simp
  fix s assume "s \<in> set (db_entries db)" "q_state s = Queued"
  then have "s \<in> insert r (set rs)" using set by auto
  then show "?key r \<le> ?key s" using sorted by auto
qed

lemma oldest_queued_None: "oldest_queued db = None \<longleftrightarrow> (\<forall>r \<in> set (db_entries db). q_state r \<noteq> Queued)"
proof -
  let ?q = "filter (\<lambda>r. q_state r = Queued) (db_entries db)"
  have "oldest_queued db = None \<longleftrightarrow> sort_key (\<lambda>r. (q_enqueued_at r, q_task_id r)) ?q = []"
    by (simp add: oldest_queued_def split: list.splits)
  also have "\<dots> \<longleftrightarrow> ?q = []" by (metis set_empty set_sort)
  finally show ?thesis by (simp add: filter_empty_conv)
qed

text \<open>\<open>lease\<close> fails on a non-positive ttl, finds nothing, or hands out the oldest queued task.\<close>

lemma lease_cases:
  assumes "queue_inv m db"
  obtains
    (bad_ttl) "ttl \<le> 0" and "lease db w ttl t = (db, Err (Raise DurableQueueError [Msg ''lease ttl must be positive'' []]))"
  | (idle) "0 < ttl" and "oldest_queued db = None" and "lease db w ttl t = (db, Ok None)"
  | (granted) r e where "0 < ttl" and "oldest_queued db = Some r" and "row_to_entry r = Ok e" and "recipe_of_row r (qe_recipe e)"
      and "lease db w ttl t =
        (journal (sql_update (\<lambda>s. q_task_id s = q_task_id r) (set_leased w (t + ttl) (q_attempt r + 1) t) db)
           (q_task_id r) (q_attempt r + 1) ''leased'' t
           (JObj [(''worker_id'', JStr w), (''lease_expires_at'', float_json (t + ttl))]),
         Ok (Some \<lparr>lg_task_id = q_task_id r, lg_worker_id = w, lg_attempt = q_attempt r + 1,
                   lg_lease_expires_at = t + ttl, lg_recipe = qe_recipe e, lg_revision = q_revision r,
                   lg_base_fingerprint = q_base_fingerprint r\<rparr>))"
proof (cases "ttl \<le> 0")
  case True
  then show thesis using bad_ttl by (simp add: lease_def)
next
  case False
  then have pos: "0 < ttl" by simp
  show thesis
  proof (cases "oldest_queued db")
    case None
    then show thesis using idle pos by (simp add: lease_def)
  next
    case (Some r)
    then have "row_ok m r" using assms oldest_queued_Some(1) by (auto simp: queue_inv_def)
    then obtain e where e: "row_to_entry r = Ok e" "recipe_of_row r (qe_recipe e)" "qe_task_id e = q_task_id r"
        "qe_base_fingerprint e = q_base_fingerprint r" "qe_revision e = q_revision r"
      by (rule row_to_entry_ok) blast
    then show thesis
      using pos Some by (intro granted [of r e]) (simp_all add: lease_def Let_def)
  qed
qed

lemma lease_inv:
  assumes "queue_inv m db"
  shows "queue_inv m (fst (lease db w ttl t))"
proof (cases rule: lease_cases [OF assms, where ttl = ttl and w = w and t = t])
  case granted: (3 r e)
  have r: "r \<in> set (db_entries db)" "q_state r = Queued" using oldest_queued_Some [OF granted(2)] by auto
  have "queue_inv m (sql_update (\<lambda>s. q_task_id s = q_task_id r) (set_leased w (t + ttl) (q_attempt r + 1) t) db)"
  proof (rule sql_update_inv [OF assms])
    fix s assume "s \<in> set (db_entries db)" "q_task_id s = q_task_id r" "row_ok m s"
    moreover from this have "s = r" using row_unique [OF assms] r(1) by blast
    ultimately show "row_ok m (set_leased w (t + ttl) (q_attempt r + 1) t s)"
      using row_ok_leased r(2) by blast
  qed simp
  then show ?thesis using granted(5) by (simp add: journal_inv)
qed (use assms in simp_all)

lemma renew_inv:
  assumes "queue_inv m db"
  shows "queue_inv m (fst (renew_lease db i w ttl t))"
  unfolding renew_lease_def fst_conv
  by (rule sql_update_inv [OF assms])
     (auto simp: row_ok_def recipe_of_row_def lease_ok_def attempt_ok_def leased_to_def)

lemma record_inv:
  assumes "queue_inv m db"
  shows "queue_inv m (fst (record_result db i w rv obs t))"
proof -
  have upd: "queue_inv m (sql_update (leased_to i w) (clear_lease s t) db)" if "s = Succeeded \<or> s = Failed" for s
    using that by (intro sql_update_inv [OF assms]) (auto intro: row_ok_clear)
  show ?thesis
  proof (cases rule: entry_cases [OF assms, where i = i])
    case 1
    then show ?thesis using assms by (simp add: record_result_def record_result_locked_def)
  next
    case (2 r e)
    then show ?thesis
      using assms upd by (simp add: record_result_def record_result_locked_def Let_def journal_inv)
  qed
qed

lemma cancel_inv:
  assumes "queue_inv m db"
  shows "queue_inv m (fst (cancel db i t))"
proof -
  have upd: "queue_inv m (sql_update (cancellable i) (clear_lease Cancelled t) db)"
    by (intro sql_update_inv [OF assms]) (auto intro: row_ok_clear)
  then show ?thesis
    using assms by (simp add: cancel_def Let_def journal_inv split: sum.split)
qed

end
