(* ===== verification/Queue_Properties.thy ===== *)
theory Queue_Properties
  imports Queue_Proofs
begin

text \<open>
  The invariant of the queue's tables in every state that any sequence of calls reaches (reconcile and prune included), and the
  abstract life of a task, which every call refines.
\<close>

subsection \<open>Reconcile, row by row\<close>

definition reconciled :: "int \<Rightarrow> rat \<Rightarrow> qrow \<Rightarrow> qrow" where
  "reconciled m t r =
     (if expired t r then clear_lease (if 0 < m \<and> m \<le> q_attempt r then Dead_letter else Queued) t r else r)"

lemma reconciled_id [simp]: "q_task_id (reconciled m t r) = q_task_id r"
  by (simp add: reconciled_def)

lemma not_expired_clear [simp]: "s \<noteq> Leased \<Longrightarrow> \<not> expired t (clear_lease s u r)"
  by (simp add: expired_def)

lemma reconcile_one_entries:
  assumes "distinct (map q_task_id (db_entries db))" and "row \<in> set (db_entries db)" and "expired t row"
  shows "db_entries (reconcile_one m t row db) = map (\<lambda>r. if r = row then reconciled m t row else r) (db_entries db)"
proof -
  have "q_task_id r = q_task_id row \<longleftrightarrow> r = row" if "r \<in> set (db_entries db)" for r
    using assms(1,2) that by (auto simp: distinct_map dest: inj_onD)
  then show ?thesis
    using assms(3) by (auto simp: reconcile_one_def Let_def journal_entries sql_update_def reconciled_def)
qed

lemma reconcile_fold_entries:
  assumes "distinct (map q_task_id (db_entries db))" and "distinct (map q_task_id rows)"
    and "\<forall>row \<in> set rows. row \<in> set (db_entries db) \<and> expired t row"
  shows "db_entries (fold (reconcile_one m t) rows db) =
    map (\<lambda>r. if r \<in> set rows then reconciled m t r else r) (db_entries db)"
  using assms
proof (induction rows arbitrary: db)
  case (Cons row rows)
  let ?db = "reconcile_one m t row db"
  have row: "row \<in> set (db_entries db)" "expired t row" and "q_task_id row \<notin> q_task_id ` set rows"
    using Cons.prems by auto
  then have notin: "r \<notin> set rows" if "q_task_id r = q_task_id row" for r
    using that by (metis imageI)
  have ent: "db_entries ?db = map (\<lambda>r. if r = row then reconciled m t row else r) (db_entries db)"
    by (rule reconcile_one_entries [OF Cons.prems(1) row])
  have ids: "map q_task_id (db_entries ?db) = map q_task_id (db_entries db)"
    unfolding ent by simp
  have "\<forall>r \<in> set rows. r \<in> set (db_entries ?db) \<and> expired t r"
    unfolding ent using Cons.prems(3) notin by force
  then have "db_entries (fold (reconcile_one m t) rows ?db) =
      map (\<lambda>r. if r \<in> set rows then reconciled m t r else r) (db_entries ?db)"
    using Cons.IH [of ?db] Cons.prems(1,2) ids by simp
  also have "\<dots> = map (\<lambda>r. if r \<in> set (row # rows) then reconciled m t r else r) (db_entries db)"
    unfolding ent using notin by auto
  finally show ?case by simp
qed simp

lemma reconcile_entries:
  assumes "distinct (map q_task_id (db_entries db))"
  shows "db_entries (fst (reconcile m db t)) = map (reconciled m t) (db_entries db)"
proof -
  have "db_entries (fst (reconcile m db t)) =
      map (\<lambda>r. if r \<in> set (filter (expired t) (db_entries db)) then reconciled m t r else r) (db_entries db)"
    unfolding reconcile_def Let_def fst_conv
    by (rule reconcile_fold_entries [OF assms]) (use assms in \<open>auto simp: distinct_map_filter\<close>)
  also have "\<dots> = map (reconciled m t) (db_entries db)"
    by (auto simp: reconciled_def)
  finally show ?thesis .
qed

lemma journal_ok_update: "journal_ok (sql_update P f db) = journal_ok db"
  by (simp add: journal_ok_def sql_update_journal)

lemma reconcile_journal_ok: "journal_ok db \<Longrightarrow> journal_ok (fst (reconcile m db t))"
proof -
  have one: "journal_ok db \<Longrightarrow> journal_ok (reconcile_one m t row db)" for row db
    by (simp add: reconcile_one_def Let_def journal_ok_journal journal_ok_update)
  have "journal_ok db \<Longrightarrow> journal_ok (fold (reconcile_one m t) rows db)" for rows
    by (induction rows arbitrary: db) (simp_all add: one)
  then show "journal_ok db \<Longrightarrow> journal_ok (fst (reconcile m db t))"
    by (simp add: reconcile_def Let_def)
qed

lemma reconciled_ok: "row_ok m r \<Longrightarrow> row_ok m (reconciled m t r)"
  unfolding reconciled_def by (auto intro!: row_ok_clear)

lemma reconcile_inv:
  assumes "queue_inv m db"
  shows "queue_inv m (fst (reconcile m db t))"
proof -
  have ent: "db_entries (fst (reconcile m db t)) = map (reconciled m t) (db_entries db)"
    using assms by (intro reconcile_entries) (simp add: queue_inv_def)
  have "distinct (map q_task_id (db_entries (fst (reconcile m db t))))"
    unfolding ent using assms by (simp add: queue_inv_def comp_def)
  then show ?thesis
    using assms reconcile_journal_ok [of db m t] unfolding queue_inv_def ent
    by (auto simp: reconciled_ok)
qed

lemma find_row_reconcile:
  assumes "queue_inv m db"
  shows "find_row (fst (reconcile m db t)) i = map_option (reconciled m t) (find_row db i)"
proof -
  have "find (\<lambda>r. q_task_id r = i) (map (reconciled m t) rs) =
      map_option (reconciled m t) (find (\<lambda>r. q_task_id r = i) rs)" for rs
    by (induction rs) auto
  then show ?thesis
    using assms by (simp add: find_row_def reconcile_entries queue_inv_def)
qed

subsection \<open>The invariant in every reachable state\<close>

lemma prune_inv: "queue_inv m db \<Longrightarrow> queue_inv m (fst (prune_journal db k))"
  unfolding queue_inv_def journal_ok_def prune_journal_def Let_def
  by (auto simp: sorted_wrt_map sorted_wrt_filter)

lemma queue_step_inv: "queue_step m db db' \<Longrightarrow> queue_inv m db \<Longrightarrow> queue_inv m db'"
  by (elim queue_stepE)
     (simp_all add: enqueue_inv lease_inv renew_inv record_inv cancel_inv reconcile_inv prune_inv)

lemma queue_reachable_inv: "queue_reachable m db \<Longrightarrow> queue_inv m db"
proof (induction rule: queue_reachable.induct)
  case start
  then show ?case by (simp add: queue_inv_def journal_ok_def empty_db_def)
next
  case (step db db')
  then show ?case by (blast intro: queue_step_inv)
qed

text \<open>C5: In every state the queue can reach - any processes calling any methods with any clocks - no two
  entries share a task id, an entry has a lease holder and a lease expiry exactly while it is leased, it still
  holds a recipe that can be read back with the fingerprint and revision stored beside it, and its attempts
  never exceed the configured limit (a task that is waiting is still below it).\<close>

theorem queue_invariant:
  assumes "queue_reachable m db"
  shows "distinct (map q_task_id (db_entries db)) \<and>
    (\<forall>r \<in> set (db_entries db). (\<exists>recipe. recipe_of_row r recipe) \<and> lease_ok r \<and> attempt_ok m r)"
  using queue_reachable_inv [OF assms] by (simp add: queue_inv_def row_ok_def)

text \<open>One task enqueued at time 10 and leased at time 20 for 60 seconds.\<close>

definition db1 :: qdb where
  "db1 = fst (enqueue empty_db sample_recipe ''base-1'' 10)"

definition db2 :: qdb where
  "db2 = fst (lease db1 ''w1'' 60 20)"

definition row1 :: qrow where
  "row1 = new_row sample_recipe ''base-1'' 10"

definition row2 :: qrow where
  "row2 = set_leased ''w1'' 80 1 20 row1"

lemma reachable_db1: "queue_reachable m db1"
  unfolding db1_def by (rule queue_reachable.step [OF queue_reachable.start queue_step.do_enqueue])

lemma reachable_db2: "queue_reachable m db2"
  unfolding db2_def by (rule queue_reachable.step [OF reachable_db1 queue_step.do_lease])

lemma sample_recipe_ok: "recipe_ok sample_recipe"
  by (rule recipe_from_dict_ok [OF sample_recipe_read])

lemma db1_entries: "db_entries db1 = [row1]"
proof -
  have inv: "queue_inv 5 empty_db" by (rule queue_reachable_inv [OF queue_reachable.start])
  show ?thesis
    unfolding db1_def row1_def
    by (cases rule: enqueue_cases [OF inv, where recipe = sample_recipe and base = "''base-1''" and t = 10])
       (simp_all add: find_row_def empty_db_def sample_recipe_ok journal_entries)
qed

lemma oldest_db1: "oldest_queued db1 = Some row1"
  by (simp add: oldest_queued_def db1_entries row1_def new_row_def)

lemma db2_entries: "db_entries db2 = [row2]"
proof -
  have inv: "queue_inv 5 db1" by (rule queue_reachable_inv [OF reachable_db1])
  show ?thesis
    unfolding db2_def
    by (cases rule: lease_cases [OF inv, where ttl = 60 and w = "''w1''" and t = 20])
       (auto simp: oldest_db1 db1_entries journal_entries sql_update_def row2_def row1_def new_row_def)
qed

lemma queue_invariant_witness: "lease_ok row2 \<and> attempt_ok 5 row2"
  using queue_invariant [OF reachable_db2 [where m = 5]] by (simp add: db2_entries)

subsection \<open>The life of a task\<close>

text \<open>
  The abstract specification: one task is absent or in one of six states, and these are the moves the
  documentation promises.  Succeeded, failed, cancelled and dead-lettered tasks have no way out.
\<close>

inductive task_move :: "qstate option \<Rightarrow> qstate option \<Rightarrow> bool" where
  "task_move None (Some Queued)"
| "task_move (Some Queued) (Some Leased)"
| "task_move (Some Leased) (Some Queued)"
| "task_move (Some Leased) (Some Dead_letter)"
| "task_move (Some Leased) (Some Succeeded)"
| "task_move (Some Leased) (Some Failed)"
| "task_move (Some Queued) (Some Cancelled)"
| "task_move (Some Leased) (Some Cancelled)"

code_pred task_move .

inductive_simps task_move_final [simp]:
  "task_move (Some Succeeded) s" "task_move (Some Failed) s"
  "task_move (Some Cancelled) s" "task_move (Some Dead_letter) s"

definition task_state :: "qdb \<Rightarrow> string \<Rightarrow> qstate option" where
  "task_state db i = map_option q_state (find_row db i)"

definition task_stays_or_moves :: "qdb \<Rightarrow> qdb \<Rightarrow> string \<Rightarrow> bool" where
  "task_stays_or_moves db db' i \<longleftrightarrow> task_state db' i = task_state db i \<or> task_move (task_state db i) (task_state db' i)"

lemma stays [simp]: "find_row db' i = find_row db i \<Longrightarrow> task_stays_or_moves db db' i"
  by (simp add: task_stays_or_moves_def task_state_def)

lemma moves_by_update:
  assumes "find_row db' i = map_option (\<lambda>r. if P r then f r else r) (find_row db i)"
    and "\<And>r. find_row db i = Some r \<Longrightarrow> P r \<Longrightarrow> task_move (Some (q_state r)) (Some (q_state (f r)))"
  shows "task_stays_or_moves db db' i"
  using assms by (cases "find_row db i") (auto simp: task_stays_or_moves_def task_state_def)

lemma enqueue_moves: "queue_inv m db \<Longrightarrow> task_stays_or_moves db (fst (enqueue db recipe base t)) i"
proof -
  assume inv: "queue_inv m db"
  show ?thesis
  proof (cases rule: enqueue_cases [OF inv, where recipe = recipe and base = base and t = t])
    case (3 e)
    then have "find_row (fst (enqueue db recipe base t)) i =
        (if i = tr_task_id recipe then Some (new_row recipe base t) else find_row db i)"
      by (auto simp: find_row_journal find_row_append split: option.split)
    then show ?thesis
      using 3(1) by (auto simp: task_stays_or_moves_def task_state_def new_row_def intro: task_move.intros)
  qed simp_all
qed

lemma lease_moves: "queue_inv m db \<Longrightarrow> task_stays_or_moves db (fst (lease db w ttl t)) i"
proof -
  assume inv: "queue_inv m db"
  show ?thesis
  proof (cases rule: lease_cases [OF inv, where w = w and ttl = ttl and t = t])
    case (3 r e)
    note r = oldest_queued_Some(1,2) [OF 3(2)]
    show ?thesis
    proof (rule moves_by_update)
      show "find_row (fst (lease db w ttl t)) i = map_option
          (\<lambda>s. if q_task_id s = q_task_id r then set_leased w (t + ttl) (q_attempt r + 1) t s else s) (find_row db i)"
        by (simp add: 3(5) find_row_journal find_row_update)
      fix s assume "find_row db i = Some s" "q_task_id s = q_task_id r"
      then have "s = r" using find_row_Some r row_unique [OF inv] by blast
      then show "task_move (Some (q_state s)) (Some (q_state (set_leased w (t + ttl) (q_attempt r + 1) t s)))"
        using r by (auto intro: task_move.intros)
    qed
  qed simp_all
qed

lemma record_find_row:
  assumes "queue_inv m db"
  shows "find_row (fst (record_result db i w rv obs t)) j =
    (case find_row db i of
       None \<Rightarrow> find_row db j
     | Some r \<Rightarrow> if leased_to i w r \<and> \<not> expired t r
         then map_option (\<lambda>s. if leased_to i w s
                then clear_lease (if ran_ok rv \<and> obs = q_base_fingerprint r then Succeeded else Failed) t s else s)
              (find_row db j)
         else find_row db j)"
proof (cases rule: entry_cases [OF assms, where i = i])
  case 1
  then show ?thesis by (simp add: record_result_def record_result_locked_def)
next
  case (2 r e)
  have e: "qe_state e = q_state r" "qe_leased_by e = q_leased_by r" "qe_lease_expires_at e = q_lease_expires_at r"
      "qe_base_fingerprint e = q_base_fingerprint r"
    by (rule row_to_entry_ok [OF 2(2)]; use 2(5) in simp)+
  show ?thesis
    using 2(1,3,4) e
    by (auto simp: record_result_def record_result_locked_def Let_def find_row_journal find_row_update
        leased_to_def expired_def split: option.splits)
qed

lemma record_moves: "queue_inv m db \<Longrightarrow> task_stays_or_moves db (fst (record_result db i w rv obs t)) j"
proof -
  assume inv: "queue_inv m db"
  show ?thesis
  proof (cases "find_row db i")
    case None
    then show ?thesis by (simp add: record_find_row [OF inv])
  next
    case (Some r)
    show ?thesis
    proof (cases "leased_to i w r \<and> \<not> expired t r")
      case True
      show ?thesis
        by (rule moves_by_update, simp add: record_find_row [OF inv] Some True)
           (auto simp: leased_to_def intro: task_move.intros)
    next
      case False
      then show ?thesis by (intro stays) (auto simp: record_find_row [OF inv] Some)
    qed
  qed
qed

lemma cancel_find_row:
  assumes "queue_inv m db"
  shows "find_row (fst (cancel db i t)) j =
    map_option (\<lambda>r. if cancellable i r then clear_lease Cancelled t r else r) (find_row db j)"
proof -
  have inv: "queue_inv m (sql_update (cancellable i) (clear_lease Cancelled t) db)"
    by (intro sql_update_inv [OF assms]) (auto intro: row_ok_clear)
  show ?thesis
    by (cases rule: entry_cases [OF inv, where i = i])
       (simp_all add: cancel_def Let_def find_row_journal find_row_update)
qed

lemma queue_step_moves:
  assumes inv: "queue_inv m db" and "queue_step m db db'"
  shows "task_stays_or_moves db db' i"
  using assms(2)
proof cases
  case (do_renew j w ttl t)
  have "find_row db' i = map_option (\<lambda>r. if leased_to j w r
      then r\<lparr>q_lease_expires_at := Some (t + ttl), q_updated_at := t\<rparr> else r) (find_row db i)"
    by (simp add: do_renew renew_lease_def find_row_update)
  then show ?thesis by (cases "find_row db i") (simp_all add: task_stays_or_moves_def task_state_def)
next
  case (do_cancel j t)
  show ?thesis
    unfolding do_cancel
    by (rule moves_by_update [OF cancel_find_row [OF inv]]) (auto simp: cancellable_def intro: task_move.intros)
next
  case (do_reconcile t)
  show ?thesis
    unfolding do_reconcile
    by (rule moves_by_update [where P = "expired t"], subst find_row_reconcile [OF inv], simp add: reconciled_def [abs_def])
       (auto simp: expired_def intro: task_move.intros)
next
  case (do_prune k)
  then show ?thesis by (simp add: prune_journal_def Let_def find_row_def)
qed (simp_all add: enqueue_moves [OF inv] lease_moves [OF inv] record_moves [OF inv])

text \<open>C2: Refinement: whatever method any process calls, from any reachable state, every single task either
  keeps its state or makes one of the eight moves of the abstract life of a task (enqueue, lease, return to the
  queue, dead-letter, success, failure, cancel while queued, cancel while leased).\<close>

theorem queue_refines_task_life:
  assumes "queue_reachable m db" and "queue_step m db db'"
  shows "task_state db' i = task_state db i \<or> task_move (task_state db i) (task_state db' i)"
  using queue_step_moves [OF queue_reachable_inv [OF assms(1)] assms(2)] by (simp add: task_stays_or_moves_def)

lemma queue_refines_task_life_witness:
  "task_state db2 ''t1'' = task_state db1 ''t1'' \<or> task_move (task_state db1 ''t1'') (task_state db2 ''t1'')"
  by (rule queue_refines_task_life [OF reachable_db1, where m = 5])
     (simp add: db2_def queue_step.do_lease)

end
