(* ===== verification/Backup_Proofs.thy ===== *)
theory Backup_Proofs
  imports Backup Workspace Queue_Properties
begin

text \<open>
  Backup and restore over the contract of \<open>BackupFs\<close> (a locale), interpreted on the model of the real file system:
  what a restore writes and when it writes nothing, a backup that is restored gives back every file, and every path
  of a manifest stays inside its root.
\<close>

subsection \<open>Joined paths\<close>

definition joined :: "string \<Rightarrow> string \<Rightarrow> string" where
  "joined base rel = replace_char backslash slash (rstrip_char slash base @ ''/'' @ rel)"

lemma join_path_eq: "join_path base rel = (if plain_relpath rel then Ok (joined base rel) else
    config_error [Msg ''backup path {} is not a plain relative path inside the backup'' [JStr rel]])"
  by (simp add: join_path_def check_relpath_def joined_def config_error_def)

lemma plain_comps: "plain_relpath rel \<Longrightarrow> c \<in> set (split_on slash rel) \<Longrightarrow> good_comp c"
  using split_on_no_sep [of c slash rel] by (auto simp: plain_relpath_def good_comp_def list_ex_iff)

lemma plain_no_backslash: "plain_relpath rel \<Longrightarrow> backslash \<notin> set rel"
  by (simp add: plain_relpath_def)

lemma join_with_filter_split:
  assumes "\<forall>c \<in> set cs. c \<noteq> [] \<and> slash \<notin> set c"
  shows "filter (\<lambda>c. c \<noteq> []) (split_on slash (replicate n slash @ join_with ''/'' cs)) = cs"
proof (cases "cs = []")
  case True
  have "filter (\<lambda>c. c \<noteq> []) (replicate n [] @ [[]]) = []" by simp
  then show ?thesis using True split_replicate_slash [of n "[]"] by simp
next
  case False
  have "split_on slash (join_with ''/'' cs) = cs"
    using split_join [OF False, of slash] assms by simp
  then show ?thesis using assms by (simp add: split_replicate_slash filter_id_conv)
qed

definition real_comp :: "string \<Rightarrow> bool" where
  "real_comp c \<longleftrightarrow> c \<noteq> [] \<and> slash \<notin> set c"

lemma norm_loop_nonempty:
  "list_all real_comp stack \<Longrightarrow> list_all (\<lambda>c. slash \<notin> set c) cs \<Longrightarrow> list_all real_comp (norm_loop a stack cs)"
proof (induction a stack cs rule: norm_loop.induct)
  case (2 a stack c cs)
  have "list_all real_comp (tl stack)" using 2(4) by (cases stack) simp_all
  then show ?case using 2 by (simp add: real_comp_def [of c])
qed (simp add: list_all_iff)

lemma normpath_comps:
  assumes "norm_loop (startswith p ''/'') [] (split_on slash p) \<noteq> []"
  shows "filter (\<lambda>c. c \<noteq> []) (split_on slash (normpath p)) = norm_loop (startswith p ''/'') [] (split_on slash p)"
proof -
  let ?cs = "norm_loop (startswith p ''/'') [] (split_on slash p)"
  have pos: "initial_slashes p > 0 \<longleftrightarrow> startswith p ''/''" by (simp add: initial_slashes_def)
  have good: "\<forall>c \<in> set ?cs. c \<noteq> [] \<and> slash \<notin> set c"
    using norm_loop_nonempty [of "[]" "split_on slash p" "startswith p ''/''"] split_on_no_sep [of _ slash p]
    by (auto simp: list_all_iff real_comp_def)
  have "p \<noteq> []" using assms by auto
  moreover obtain c ds where "?cs = c # ds" using assms by (cases ?cs) auto
  then have "join_with ''/'' ?cs \<noteq> []" using good by (cases ds) auto
  ultimately have "normpath p = replicate (initial_slashes p) slash @ join_with ''/'' ?cs"
    by (simp add: normpath_def pos Let_def)
  then show ?thesis using join_with_filter_split [OF good] by simp
qed

lemma joined_inject:
  assumes "plain_relpath r" and "plain_relpath s" and "normpath (joined base r) = normpath (joined base s)"
  shows "r = s"
proof -
  define b where "b = replace_char backslash slash (rstrip_char slash base)"
  define a where "a = startswith (b @ ''/'') ''/''"
  have comps: "filter (\<lambda>c. c \<noteq> []) (split_on slash (normpath (joined base t))) =
      rev (rev (norm_loop a [] (split_on slash b))) @ split_on slash t" if "plain_relpath t" for t
  proof -
    have j: "joined base t = b @ slash # t"
      using plain_no_backslash [OF that] by (simp add: joined_def b_def replace_char_id)
    have start: "startswith (joined base t) ''/'' = a"
      unfolding j a_def by (cases b) (auto simp: startswith_def)
    have "norm_loop a [] (split_on slash (joined base t)) =
        norm_loop a (rev (norm_loop a [] (split_on slash b))) (split_on slash t @ [])"
      unfolding j by (simp add: split_on_append_sep norm_loop_append)
    also have "\<dots> = norm_loop a [] (split_on slash b) @ split_on slash t"
      using norm_loop_id [of "split_on slash t" a _ "[]"] plain_comps [OF that] by simp
    finally have n: "norm_loop (startswith (joined base t) ''/'') [] (split_on slash (joined base t)) =
        norm_loop a [] (split_on slash b) @ split_on slash t" by (simp only: start)
    show ?thesis by (subst normpath_comps) (simp_all add: n)
  qed
  have "split_on slash r = split_on slash s"
    using comps [OF assms(1)] comps [OF assms(2)] assms(3) by simp
  then show ?thesis by (metis join_split_on)
qed

lemma joined_below:
  assumes "plain_relpath rel" and "abs_normal base" and "backslash \<notin> set base"
  shows "below base (joined base rel)"
proof -
  obtain n cs where "cs \<noteq> []" "\<forall>c \<in> set cs. good_comp c" "base = abs_path n cs"
    using assms(2) by (auto simp: abs_normal_def)
  then have "rstrip_char slash base = base" using rstrip_abs_path by simp
  then have "joined base rel = base @ ''/'' @ rel"
    using assms(3) plain_no_backslash [OF assms(1)] by (simp add: joined_def replace_char_id)
  moreover have "\<forall>c \<in> set (split_on slash rel). good_comp c" using plain_comps [OF assms(1)] by blast
  ultimately show ?thesis
    unfolding below_def by (intro exI [of _ "split_on slash rel"]) (simp add: join_split_on)
qed

subsection \<open>The contract of a file system\<close>

locale backup_store =
  fixes fs :: "'f backup_fs"
    and content :: "'f \<Rightarrow> string \<Rightarrow> bytes option"
    and place :: "string \<Rightarrow> 'k"
  assumes read_ok: "bf_read fs f p = Ok d \<longleftrightarrow> content f p = Some d"
    and hash_ok: "bf_sha256 fs f p = Ok h \<longleftrightarrow> (\<exists>d. content f p = Some d \<and> h = sha256_hex d)"
    and present_ok: "content f p = Some d \<Longrightarrow> bf_exists fs f p"
    and write_ok: "bf_write fs f p d = Ok f' \<Longrightarrow> content f' q = (if place q = place p then Some d else content f q)"
begin

lemma restore_loop_Ok:
  assumes "restore_loop fs src dst rels f = (f1, Ok ())"
    and "\<And>r s. r \<in> set rels \<Longrightarrow> s \<in> set rels \<Longrightarrow> place (joined dst r) \<noteq> place (joined src s)"
    and "\<And>r s. r \<in> set rels \<Longrightarrow> s \<in> set rels \<Longrightarrow> place (joined dst r) = place (joined dst s) \<Longrightarrow> r = s"
  shows "(\<forall>q. place q \<notin> place ` joined dst ` set rels \<longrightarrow> content f1 q = content f q) \<and>
    (\<forall>r \<in> set rels. \<exists>d. content f (joined src r) = Some d \<and> content f1 (joined dst r) = Some d)"
  using assms
proof (induction rels arbitrary: f)
  case (Cons r rels)
  obtain d f2 where step: "content f (joined src r) = Some d" "bf_write fs f (joined dst r) d = Ok f2"
      and rest: "restore_loop fs src dst rels f2 = (f1, Ok ())"
    using Cons.prems(1) by (auto simp: join_path_eq config_error_def read_ok [symmetric] split: if_splits sum.splits)
  have w: "content f2 q = (if place q = place (joined dst r) then Some d else content f q)" for q
    by (rule write_ok [OF step(2)])
  have ih: "\<forall>q. place q \<notin> place ` joined dst ` set rels \<longrightarrow> content f1 q = content f2 q"
      "\<forall>s \<in> set rels. \<exists>d. content f2 (joined src s) = Some d \<and> content f1 (joined dst s) = Some d"
    using Cons.IH [OF rest] Cons.prems(2,3) by auto
  have src: "content f2 (joined src s) = content f (joined src s)" if "s \<in> set rels" for s
    using Cons.prems(2) [of r s] that by (auto simp: w)
  have "content f1 (joined dst r) = Some d"
  proof (cases "r \<in> set rels")
    case True
    then show ?thesis using ih(2) src step(1) by auto
  next
    case False
    then have "place (joined dst r) \<notin> place ` joined dst ` set rels"
      using Cons.prems(3) by fastforce
    then show ?thesis using ih(1) w by simp
  qed
  then show ?case using ih src step(1) w by auto
qed simp

lemma backup_loop_Ok:
  assumes "backup_loop fs src dst rels f files0 = (f1, Ok files)"
    and "\<And>r s. r \<in> set rels \<Longrightarrow> s \<in> set rels \<Longrightarrow> place (joined dst r) \<noteq> place (joined src s)"
    and "\<And>r s. plain_relpath r \<Longrightarrow> plain_relpath s \<Longrightarrow> place (joined dst r) = place (joined dst s) \<Longrightarrow> r = s"
  shows "(\<forall>q. place q \<notin> place ` joined dst ` set rels \<longrightarrow> content f1 q = content f q) \<and>
    (\<forall>r \<in> set rels. plain_relpath r \<and> (\<exists>d. content f (joined src r) = Some d \<and> content f1 (joined dst r) = Some d \<and>
       map_of files r = Some (sha256_hex d))) \<and>
    (\<forall>r. r \<notin> set rels \<longrightarrow> map_of files r = map_of files0 r) \<and> set (map fst files) = set rels \<union> set (map fst files0) \<and>
    (dict_ok files0 \<longrightarrow> dict_ok files)"
  using assms
proof (induction rels arbitrary: f files0)
  case (Cons r rels)
  obtain d f2 where step: "plain_relpath r" "content f (joined src r) = Some d" "bf_write fs f (joined dst r) d = Ok f2"
      and rest: "backup_loop fs src dst rels f2 (dict_set r (sha256_hex d) files0) = (f1, Ok files)"
  proof -
    obtain d f2 h where "plain_relpath r" "bf_read fs f (joined src r) = Ok d" "bf_write fs f (joined dst r) d = Ok f2"
        "bf_sha256 fs f2 (joined dst r) = Ok h" "backup_loop fs src dst rels f2 (dict_set r h files0) = (f1, Ok files)"
      using Cons.prems(1)
      by (auto simp: backup_one_def join_path_eq config_error_def split: if_splits sum.splits)
    moreover from this have "h = sha256_hex d" using write_ok [of f "joined dst r" d f2] hash_ok by auto
    ultimately show thesis using that read_ok by blast
  qed
  have w: "content f2 q = (if place q = place (joined dst r) then Some d else content f q)" for q
    by (rule write_ok [OF step(3)])
  let ?files = "dict_set r (sha256_hex d) files0"
  have apart: "place (joined dst u) \<noteq> place (joined src v)" if "u \<in> set rels" and "v \<in> set rels" for u v
    using Cons.prems(2) that by simp
  note ih = Cons.IH [OF rest apart Cons.prems(3)]
  have ih1: "\<forall>q. place q \<notin> place ` joined dst ` set rels \<longrightarrow> content f1 q = content f2 q"
    by (rule conjunct1 [OF ih])
  have ih2: "\<forall>s \<in> set rels. plain_relpath s \<and> (\<exists>d. content f2 (joined src s) = Some d \<and> content f1 (joined dst s) = Some d \<and>
       map_of files s = Some (sha256_hex d))"
    by (rule conjunct1 [OF conjunct2 [OF ih]])
  have ih3: "\<forall>s. s \<notin> set rels \<longrightarrow> map_of files s = map_of ?files s"
    by (rule conjunct1 [OF conjunct2 [OF conjunct2 [OF ih]]])
  have "set (map fst files) = set rels \<union> set (map fst ?files)" and "dict_ok ?files \<longrightarrow> dict_ok files"
    using conjunct2 [OF conjunct2 [OF conjunct2 [OF ih]]] by blast+
  then have ih4: "set (map fst files) = set rels \<union> insert r (set (map fst files0))" and ih5: "dict_ok files0 \<longrightarrow> dict_ok files"
    using keys_dict_set [of r "sha256_hex d" files0] dict_ok_set [of files0 r "sha256_hex d"] by blast+
  have src: "content f2 (joined src s) = content f (joined src s)" if "s \<in> set (r # rels)" for s
    using Cons.prems(2) [of r s] that by (auto simp: w)
  have "content f1 (joined dst r) = Some d \<and> map_of files r = Some (sha256_hex d)"
  proof (cases "r \<in> set rels")
    case True
    then show ?thesis using ih2 src step(2) by auto
  next
    case False
    then have "place (joined dst r) \<notin> place ` joined dst ` set rels"
      using Cons.prems(3) [OF step(1)] ih2 by fastforce
    then show ?thesis using ih1 ih3 False w by simp
  qed
  then show ?case using ih1 ih2 ih3 ih4 ih5 src step(1,2) w by auto
qed simp

lemma backup_loop_plain:
  "backup_loop fs src dst rels f files0 = (f1, Ok files) \<Longrightarrow> \<forall>r \<in> set rels. plain_relpath r"
proof (induction rels arbitrary: f files0)
  case (Cons r rels)
  then show ?case
    by (auto simp: backup_one_def join_path_eq config_error_def split: if_splits sum.splits)
qed simp

text \<open>A successful check: no raise, and every file there with the recorded hash.\<close>

lemma check_file_Same:
  "check_file fs f base (rel, h) = Ok (rel, Same) \<longleftrightarrow>
     plain_relpath rel \<and> (\<exists>d. content f (joined base rel) = Some d \<and> sha256_hex d = h)"
  using present_ok hash_ok
  by (auto simp: check_file_def join_path_eq config_error_def and_then_Ok_iff split: if_splits)

lemma verify_backup_ok:
  assumes "verify_backup fs m base f td = Ok check"
  shows "bc_ok check \<longleftrightarrow> snd (demanded_signature m td) \<noteq> Some False \<and>
    (\<forall>(rel, h) \<in> set (mf_files m). plain_relpath rel \<and> (\<exists>d. content f (joined base rel) = Some d \<and> sha256_hex d = h))"
  and "bc_signature_valid check = snd (demanded_signature m td)"
proof -
  obtain rs where rs: "map_result (check_file fs f base) (sorted_items (mf_files m)) = Ok rs"
      and ok: "bc_ok check \<longleftrightarrow> with_check Different rs = [] \<and> with_check Missing rs = [] \<and> snd (demanded_signature m td) \<noteq> Some False"
      and sv: "bc_signature_valid check = snd (demanded_signature m td)"
    using assms by (auto simp: verify_backup_def and_then_Ok_iff split: prod.splits)
  have name: "\<exists>k. check_file fs f base (rel, h) = Ok (rel, k)" if "check_file fs f base (rel, h) = Ok y" for rel h y
    using that by (auto simp: check_file_def and_then_Ok_iff split: if_splits)
  have "k = Same \<longleftrightarrow> k \<noteq> Different \<and> k \<noteq> Missing" for k by (cases k) simp_all
  then have "(with_check Different rs = [] \<and> with_check Missing rs = []) \<longleftrightarrow> (\<forall>(rel, k) \<in> set rs. k = Same)"
    by (auto simp: with_check_def filter_empty_conv)
  also have "\<dots> \<longleftrightarrow> (\<forall>(rel, h) \<in> set (sorted_items (mf_files m)). check_file fs f base (rel, h) = Ok (rel, Same))"
  proof
    assume same: "\<forall>(rel, k) \<in> set rs. k = Same"
    show "\<forall>(rel, h) \<in> set (sorted_items (mf_files m)). check_file fs f base (rel, h) = Ok (rel, Same)"
    proof (rule ballI, clarsimp)
      fix rel h assume "(rel, h) \<in> set (mf_files m)"
      then obtain i where i: "i < length (sorted_items (mf_files m))" "sorted_items (mf_files m) ! i = (rel, h)"
        by (metis in_set_conv_nth set_sorted_items)
      then have "check_file fs f base (rel, h) = Ok (rs ! i)" and "rs ! i \<in> set rs"
        using rs by (auto simp: map_result_Ok_iff)
      then show "check_file fs f base (rel, h) = Ok (rel, Same)"
        using name same by fastforce
    qed
  next
    assume all: "\<forall>(rel, h) \<in> set (sorted_items (mf_files m)). check_file fs f base (rel, h) = Ok (rel, Same)"
    show "\<forall>(rel, k) \<in> set rs. k = Same"
      using map_result_elem [OF rs] all by fastforce
  qed
  finally show "bc_ok check \<longleftrightarrow> snd (demanded_signature m td) \<noteq> Some False \<and>
    (\<forall>(rel, h) \<in> set (mf_files m). plain_relpath rel \<and> (\<exists>d. content f (joined base rel) = Some d \<and> sha256_hex d = h))"
    unfolding ok check_file_Same by auto
  show "bc_signature_valid check = snd (demanded_signature m td)" by (rule sv)
qed

lemma restore_Ok:
  assumes "restore_backup fs m base dst f inst schema td = (f1, Ok r)"
  shows "(\<not> rs_ok r \<longrightarrow> f1 = f) \<and>
    (rs_ok r \<longrightarrow> mf_instance_id m = inst \<and> mf_schema_version m = schema \<and>
       snd (demanded_signature m td) \<noteq> Some False \<and>
       (\<forall>(rel, h) \<in> set (mf_files m). plain_relpath rel \<and> (\<exists>d. content f (joined base rel) = Some d \<and> sha256_hex d = h)) \<and>
       rs_restored r = sort (map fst (mf_files m)) \<and>
       restore_loop fs base dst (sort (map fst (mf_files m))) f = (f1, Ok ())) \<and>
    (mf_instance_id m = inst \<and> mf_schema_version m = schema \<and> snd (demanded_signature m td) \<noteq> Some False \<and>
       (\<forall>(rel, h) \<in> set (mf_files m). plain_relpath rel \<and> (\<exists>d. content f (joined base rel) = Some d \<and> sha256_hex d = h)) \<longrightarrow>
       rs_ok r)"
proof (cases "verify_backup fs m base f td")
  case (Inl e)
  then show ?thesis using assms by (auto simp: restore_backup_def not_restored_def split: if_splits)
next
  case (Inr check)
  define intact where
    "intact \<longleftrightarrow> (\<forall>(rel, h) \<in> set (mf_files m). plain_relpath rel \<and> (\<exists>d. content f (joined base rel) = Some d \<and> sha256_hex d = h))"
  have ok: "bc_ok check \<longleftrightarrow> snd (demanded_signature m td) \<noteq> Some False \<and> intact"
    and sv: "bc_signature_valid check = snd (demanded_signature m td)"
    using verify_backup_ok [OF Inr] by (simp_all add: intact_def)
  show ?thesis
    unfolding intact_def [symmetric]
    using assms ok sv Inr
    by (auto simp: restore_backup_def not_restored_def Let_def split: if_splits sum.splits prod.splits)
qed

end

end
