(* ===== verification/Queue_Guarantees.thy ===== *)
theory Queue_Guarantees
  imports Queue_Properties
begin

text \<open>
  What the users of the queue rely on, each over the methods themselves: final states stay final, only the
  holder of a live lease can make a task succeed, tasks are handed out oldest first and a bounded number of
  times, one lease yields at most one accepted result, a second enqueue changes nothing, reconcile leaves no
  expired lease behind, and pruning keeps exactly the newest events of every task.
\<close>

subsection \<open>Final states\<close>

lemma reachable_steps:
  "(queue_step m)\<^sup>*\<^sup>* db db' \<Longrightarrow> queue_reachable m db \<Longrightarrow> queue_reachable m db'"
  by (induction rule: rtranclp_induct) (auto intro: queue_reachable.step)

abbreviation final_state :: "qstate \<Rightarrow> bool" where
  "final_state s \<equiv> s \<in> {Succeeded, Failed, Cancelled, Dead_letter}"

text \<open>A finished task stays finished: once a task has succeeded, failed, been cancelled or been
  dead-lettered, no later sequence of calls - by any worker, with any clock, re-enqueueing included - changes
  its state or removes it.\<close>

theorem final_states_are_final:
  assumes "queue_reachable m db" and "(queue_step m)\<^sup>*\<^sup>* db db'"
    and "task_state db i = Some s" and "s \<in> {Succeeded, Failed, Cancelled, Dead_letter}"
  shows "task_state db' i = Some s"
  using assms(2,1,3)
proof (induction rule: converse_rtranclp_induct)
  case (step db1 db2)
  have "task_stays_or_moves db1 db2 i"
    by (rule queue_step_moves [OF queue_reachable_inv [OF step.prems(1)] step.hyps(1)])
  then have "task_state db2 i = Some s"
    using step.prems(2) assms(4) by (auto simp: task_stays_or_moves_def)
  then show ?case using step.IH queue_reachable.step [OF step.prems(1) step.hyps(1)] by simp
qed simp

text \<open>The same task cancelled, and then leased and enqueued again.\<close>

definition db3 :: qdb where
  "db3 = fst (cancel db2 ''t1'' 30)"

lemma reachable_db3: "queue_reachable m db3"
  unfolding db3_def by (rule queue_reachable.step [OF reachable_db2 queue_step.do_cancel])

lemma row2_id: "q_task_id row2 = ''t1''"
  by (simp add: row2_def row1_def sample_recipe_def)

lemma find_row_db2: "find_row db2 ''t1'' = Some row2"
  by (simp add: find_row_def db2_entries row2_id)

lemma state_db3: "task_state db3 ''t1'' = Some Cancelled"
  by (simp add: task_state_def db3_def cancel_find_row [OF queue_reachable_inv [OF reachable_db2, of 5]] find_row_db2
      cancellable_def row2_id) (simp add: row2_def)

lemma final_states_are_final_witness:
  "task_state (fst (enqueue (fst (lease db3 ''w2'' 60 40)) sample_recipe ''base-2'' 50)) ''t1'' = Some Cancelled"
proof (rule final_states_are_final [OF reachable_db3, where m = 5])
  have "queue_step 5 db3 (fst (lease db3 ''w2'' 60 40))" by (rule queue_step.do_lease)
  moreover have "queue_step 5 (fst (lease db3 ''w2'' 60 40))
      (fst (enqueue (fst (lease db3 ''w2'' 60 40)) sample_recipe ''base-2'' 50))"
    by (rule queue_step.do_enqueue)
  ultimately show "(queue_step 5)\<^sup>*\<^sup>* db3 (fst (enqueue (fst (lease db3 ''w2'' 60 40)) sample_recipe ''base-2'' 50))"
    by simp
qed (simp_all add: state_db3)

subsection \<open>No false success\<close>

lemma succeeded_only_by_record:
  assumes inv: "queue_inv m db" and "queue_step m db db'"
    and "task_state db i \<noteq> Some Succeeded" and new: "task_state db' i = Some Succeeded"
  obtains j w rv obs t where "db' = fst (record_result db j w rv obs t)"
proof -
  have same: False if "find_row db' i = map_option f (find_row db i)"
    and "\<And>r. find_row db i = Some r \<Longrightarrow> q_state (f r) = Succeeded \<Longrightarrow> q_state r = Succeeded" for f
    using that assms(3) new by (cases "find_row db i") (auto simp: task_state_def)
  show thesis
    using assms(2)
  proof cases
    case (do_enqueue recipe base t)
    show thesis
    proof (cases rule: enqueue_cases [OF inv, where recipe = recipe and base = base and t = t])
      case (3 e)
      then show thesis
        using new assms(3) do_enqueue
        by (auto simp: task_state_def find_row_journal find_row_append new_row_def split: option.splits if_splits)
    qed (use new assms(3) do_enqueue in auto)
  next
    case (do_lease w ttl t)
    show thesis
    proof (cases rule: lease_cases [OF inv, where w = w and ttl = ttl and t = t])
      case (3 r e)
      have upd: "find_row db' i = map_option (\<lambda>s. if q_task_id s = q_task_id r
          then set_leased w (t + ttl) (q_attempt r + 1) t s else s) (find_row db i)"
        by (simp add: do_lease 3(5) find_row_journal find_row_update)
      have False by (rule same [OF upd]) (auto split: if_splits)
    then show thesis ..
    qed (use new assms(3) do_lease in auto)
  next
    case (do_renew j w ttl t)
    have upd: "find_row db' i = map_option (\<lambda>r. if leased_to j w r
        then r\<lparr>q_lease_expires_at := Some (t + ttl), q_updated_at := t\<rparr> else r) (find_row db i)"
      by (simp add: do_renew renew_lease_def find_row_update)
    have False by (rule same [OF upd]) (auto split: if_splits)
    then show thesis ..
  next
    case (do_record j w rv obs t)
    then show thesis by (rule that)
  next
    case (do_cancel j t)
    have False by (rule same [OF cancel_find_row [OF inv, of j t i, folded do_cancel]]) (auto split: if_splits)
    then show thesis ..
  next
    case (do_reconcile t)
    have False
      by (rule same [OF find_row_reconcile [OF inv, of t i, folded do_reconcile]]) (auto simp: reconciled_def split: if_splits)
    then show thesis ..
  next
    case (do_prune k)
    then show thesis using new assms(3) by (simp add: task_state_def prune_journal_def Let_def find_row_def)
  qed
qed

text \<open>C1: No false success: whichever call makes a task succeed is a \<open>record_result\<close> for this task by the
  worker that holds its lease, at a time not after the lease's expiry, with a run that completed with exit code
  0 on the very base that was leased.\<close>

theorem no_false_success:
  assumes "queue_reachable m db" and "queue_step m db db'"
    and "task_state db i \<noteq> Some Succeeded" and "task_state db' i = Some Succeeded"
  shows "\<exists>row w rv t x. find_row db i = Some row \<and> leased_to i w row \<and>
      q_lease_expires_at row = Some x \<and> t \<le> x \<and>
      rv_outcome rv = ''completed'' \<and> rv_exit_code rv = Some 0 \<and>
      db' = fst (record_result db i w rv (q_base_fingerprint row) t)"
proof -
  have inv: "queue_inv m db" by (rule queue_reachable_inv [OF assms(1)])
  obtain j w rv obs t where db': "db' = fst (record_result db j w rv obs t)"
    by (rule succeeded_only_by_record [OF inv assms(2-4)])
  obtain r where r: "find_row db j = Some r" "leased_to j w r" "\<not> expired t r"
    using assms(3,4) unfolding db' task_state_def record_find_row [OF inv]
    by (auto split: option.splits if_splits)
  then obtain s where s: "find_row db i = Some s" "leased_to j w s" "ran_ok rv" "obs = q_base_fingerprint r"
    using assms(3,4) unfolding db' task_state_def record_find_row [OF inv]
    by (cases "find_row db i") (auto split: if_splits)
  then have ij: "i = j" "s = r"
    using r find_row_Some [OF s(1)] find_row_Some [OF r(1)] row_unique [OF inv] by (auto simp: leased_to_def)
  have "row_ok m r" using inv find_row_Some [OF r(1)] by (simp add: queue_inv_def)
  then obtain x where "q_lease_expires_at r = Some x"
    using r(2) by (auto simp: row_ok_def lease_ok_def leased_to_def)
  moreover from this have "t \<le> x" using r(2,3) by (simp add: expired_def leased_to_def)
  ultimately show ?thesis
    using r s ij db' unfolding ran_ok_def by blast
qed

definition good_run :: run_view where
  "good_run = \<lparr>rv_outcome = ''completed'', rv_exit_code = Some 0, rv_stdout_tail = ''ok'', rv_stderr_tail = ''''\<rparr>"

definition db4 :: qdb where
  "db4 = fst (record_result db2 ''t1'' ''w1'' good_run ''base-1'' 70)"

lemma row2_facts:
  "leased_to ''t1'' ''w1'' row2" "\<not> expired 70 row2" "q_base_fingerprint row2 = ''base-1''"
  "q_state row2 = Leased" "q_lease_expires_at row2 = Some 80"
  by (simp_all add: leased_to_def expired_def row2_id, simp_all add: row2_def row1_def set_leased_def new_row_def)

lemma state_db4: "task_state db4 ''t1'' = Some Succeeded"
  by (simp add: db4_def task_state_def record_find_row [OF queue_reachable_inv [OF reachable_db2, of 5]] find_row_db2
      row2_facts ran_ok_def good_run_def)

lemma no_false_success_witness:
  "\<exists>row w rv t x. find_row db2 ''t1'' = Some row \<and> leased_to ''t1'' w row \<and>
      q_lease_expires_at row = Some x \<and> t \<le> x \<and>
      rv_outcome rv = ''completed'' \<and> rv_exit_code rv = Some 0 \<and>
      db4 = fst (record_result db2 ''t1'' w rv (q_base_fingerprint row) t)"
proof (rule no_false_success [OF reachable_db2, where m = 5])
  show "queue_step 5 db2 db4" unfolding db4_def by (rule queue_step.do_record)
qed (simp_all add: state_db4, simp add: task_state_def find_row_db2 row2_facts)

subsection \<open>One lease, one accepted result\<close>

lemma record_cases:
  assumes "queue_inv m db"
  obtains
    (unknown) "find_row db i = None"
      and "record_result db i w rv obs t = (db, Err (Raise DurableQueueError [Msg ''no such task {}'' [JStr i]]))"
  | (rejected) r d ro where "find_row db i = Some r" and "\<not> (leased_to i w r \<and> \<not> expired t r)"
      and "record_result db i w rv obs t = (journal db i (q_attempt r) ''result-rejected'' t d, Ok ro)"
      and "\<not> ro_accepted ro" and "\<not> ro_promotable ro" and "ro_final_state ro = q_state r"
  | (accepted) r d ro s where "find_row db i = Some r" and "leased_to i w r" and "\<not> expired t r"
      and "record_result db i w rv obs t =
        (journal (sql_update (leased_to i w) (clear_lease s t) db) i (q_attempt r) ''completed'' t d, Ok ro)"
      and "s = (if ran_ok rv \<and> obs = q_base_fingerprint r then Succeeded else Failed)"
      and "ro_accepted ro" and "ro_promotable ro = (s = Succeeded)" and "ro_final_state ro = s"
proof (cases rule: entry_cases [OF assms, where i = i])
  case 1
  then show thesis by (intro unknown) (simp_all add: record_result_def record_result_locked_def)
next
  case (2 r e)
  have e: "qe_state e = q_state r" "qe_leased_by e = q_leased_by r" "qe_lease_expires_at e = q_lease_expires_at r"
      "qe_base_fingerprint e = q_base_fingerprint r" "qe_attempt e = q_attempt r"
    by (rule row_to_entry_ok [OF 2(2)]; use 2(5) in simp)+
  show thesis
  proof (cases "leased_to i w r \<and> \<not> expired t r")
    case True
    have "\<not> (case q_lease_expires_at r of None \<Rightarrow> False | Some x \<Rightarrow> x < t)"
      using True by (simp add: leased_to_def expired_def split: option.splits)
    then have "\<exists>d ro. record_result db i w rv obs t =
        (journal (sql_update (leased_to i w)
            (clear_lease (if ran_ok rv \<and> obs = q_base_fingerprint r then Succeeded else Failed) t) db)
          i (q_attempt r) ''completed'' t d, Ok ro) \<and>
        ro_accepted ro \<and> ro_promotable ro = (ran_ok rv \<and> obs = q_base_fingerprint r) \<and>
        ro_final_state ro = (if ran_ok rv \<and> obs = q_base_fingerprint r then Succeeded else Failed)"
      using True 2(4) e
      by (cases "ran_ok rv"; cases "obs = q_base_fingerprint r";
          simp add: leased_to_def record_result_def record_result_locked_def Let_def; blast)
    then show thesis using True 2(1) by (auto intro: accepted)
  next
    case False
    then have "q_state r \<noteq> Leased \<or> q_leased_by r \<noteq> Some w \<or> (case q_lease_expires_at r of None \<Rightarrow> False | Some x \<Rightarrow> x < t)"
      using 2(3) by (auto simp: leased_to_def expired_def)
    then have "\<exists>d ro. record_result db i w rv obs t =
        (journal db i (q_attempt r) ''result-rejected'' t d, Ok ro) \<and>
        \<not> ro_accepted ro \<and> \<not> ro_promotable ro \<and> ro_final_state ro = q_state r"
      using 2(4) e by (simp add: record_result_def record_result_locked_def Let_def; blast)
    then show thesis using False 2(1) by (auto intro: rejected)
  qed
qed

text \<open>One lease yields at most one accepted result: after an accepted result of a task, any further result -
  of the same worker or another, whatever it says and whenever it comes - is refused, reports the state the
  accepted result gave, promotes nothing and leaves every entry as it was.\<close>

theorem one_result_per_lease:
  assumes "queue_reachable m db"
    and "record_result db i w rv obs t = (db', Ok ro)" and "ro_accepted ro"
  shows "\<exists>db'' ro'. record_result db' i w' rv' obs' t' = (db'', Ok ro') \<and> \<not> ro_accepted ro' \<and>
    \<not> ro_promotable ro' \<and> ro_final_state ro' = ro_final_state ro \<and> db_entries db'' = db_entries db'"
proof -
  have inv: "queue_inv m db" by (rule queue_reachable_inv [OF assms(1)])
  have inv': "queue_inv m db'" using record_inv [OF inv, of i w rv obs t] assms(2) by simp
  have row: "\<exists>r. find_row db' i = Some r \<and> q_state r = ro_final_state ro \<and> q_state r \<noteq> Leased"
    by (cases rule: record_cases [OF inv, where i = i and w = w and rv = rv and obs = obs and t = t])
       (use assms(2,3) in \<open>auto simp: find_row_journal find_row_update\<close>)
  show ?thesis
    by (cases rule: record_cases [OF inv', where i = i and w = w' and rv = rv' and obs = obs' and t = t'])
       (use row in \<open>auto simp: journal_entries leased_to_def\<close>)
qed

lemma db4_accepted: "\<exists>ro. record_result db2 ''t1'' ''w1'' good_run ''base-1'' 70 = (db4, Ok ro) \<and> ro_accepted ro"
  by (cases rule: record_cases [OF queue_reachable_inv [OF reachable_db2, of 5], where i = "''t1''" and w = "''w1''" and rv = good_run and obs = "''base-1''" and t = 70])
     (auto simp: find_row_db2 row2_facts db4_def)

lemma one_result_per_lease_witness:
  "\<exists>db'' ro'. record_result db4 ''t1'' ''w1'' good_run ''base-1'' 71 = (db'', Ok ro') \<and> \<not> ro_accepted ro'"
proof -
  obtain ro where "record_result db2 ''t1'' ''w1'' good_run ''base-1'' 70 = (db4, Ok ro)" and "ro_accepted ro"
    using db4_accepted by blast
  from one_result_per_lease [OF reachable_db2 this] show ?thesis by blast
qed

subsection \<open>Handing out work\<close>

text \<open>A granted lease is for the oldest queued task (ties broken by task id), never exceeds the configured
  number of attempts, carries exactly the recipe that was enqueued, and leaves that task leased to the worker
  until the granted expiry with every other task untouched.\<close>

theorem lease_hands_out_the_oldest:
  assumes "queue_reachable m db" and "lease db w ttl t = (db', Ok (Some g))"
  shows "\<exists>row \<in> set (db_entries db).
    q_state row = Queued \<and> q_task_id row = lg_task_id g \<and>
    (\<forall>s \<in> set (db_entries db). q_state s = Queued \<longrightarrow>
       (q_enqueued_at row, q_task_id row) \<le> (q_enqueued_at s, q_task_id s)) \<and>
    lg_attempt g = q_attempt row + 1 \<and> (0 < m \<longrightarrow> lg_attempt g \<le> m) \<and>
    q_recipe_json row = recipe_to_dict (lg_recipe g) \<and>
    q_recipe_fingerprint row = recipe_fingerprint (lg_recipe g) \<and>
    lg_base_fingerprint g = q_base_fingerprint row \<and>
    t < lg_lease_expires_at g \<and>
    find_row db' (lg_task_id g) = Some (set_leased w (lg_lease_expires_at g) (lg_attempt g) t row) \<and>
    (\<forall>i. i \<noteq> lg_task_id g \<longrightarrow> find_row db' i = find_row db i)"
proof -
  have inv: "queue_inv m db" by (rule queue_reachable_inv [OF assms(1)])
  show ?thesis
  proof (cases rule: lease_cases [OF inv, where w = w and ttl = ttl and t = t])
    case (3 r e)
    note r = oldest_queued_Some [OF 3(2)]
    then have found: "find_row db (q_task_id r) = Some r" by (simp add: find_row_iff [OF inv])
    have g: "lg_task_id g = q_task_id r" "lg_attempt g = q_attempt r + 1" "lg_recipe g = qe_recipe e"
        "lg_base_fingerprint g = q_base_fingerprint r" "lg_lease_expires_at g = t + ttl"
      using 3(5) assms(2) by auto
    have upd: "find_row db' i = map_option (\<lambda>s. if q_task_id s = q_task_id r
        then set_leased w (t + ttl) (q_attempt r + 1) t s else s) (find_row db i)" for i
      using 3(5) assms(2) by (auto simp: find_row_journal find_row_update)
    have other: "find_row db' i = find_row db i" if "i \<noteq> q_task_id r" for i
      using that find_row_Some [of db i] unfolding upd by (cases "find_row db i") auto
    have "0 < m \<longrightarrow> q_attempt r < m"
      using inv r(1,2) by (auto simp: queue_inv_def row_ok_def attempt_ok_def)
    then show ?thesis
      using r 3(1,4) g upd [of "q_task_id r"] other found
      by (intro bexI [of _ r]) (auto simp: recipe_of_row_def)
  qed (use assms(2) in simp_all)
qed

lemma lease_db1: "\<exists>g. lease db1 ''w1'' 60 20 = (db2, Ok (Some g)) \<and> lg_task_id g = ''t1''"
  by (cases rule: lease_cases [OF queue_reachable_inv [OF reachable_db1, of 5], where w = "''w1''" and ttl = 60 and t = 20])
     (auto simp: oldest_db1 db2_def row1_def sample_recipe_def)

lemma lease_hands_out_the_oldest_witness:
  "\<exists>row \<in> set (db_entries db1). q_task_id row = ''t1'' \<and>
     find_row db2 ''t1'' = Some (set_leased ''w1'' 80 1 20 row)"
proof -
  obtain g where g: "lease db1 ''w1'' 60 20 = (db2, Ok (Some g))" "lg_task_id g = ''t1''"
    using lease_db1 by blast
  from lease_hands_out_the_oldest [OF reachable_db1 g(1), where m = 5]
  show ?thesis using g(2) by (auto simp: find_row_db2 row2_def db1_entries row1_def new_row_def)
qed

subsection \<open>Enqueue, reconcile and prune\<close>

text \<open>Enqueue is idempotent: an id that is already in the queue is never overwritten - the database does not
  change at all, the caller gets the stored entry with \<open>created\<close> false, and \<open>conflict\<close> is set exactly when the
  stored recipe has another fingerprint than the one offered.\<close>

theorem enqueue_never_overwrites:
  assumes "queue_reachable m db" and "find_row db (tr_task_id recipe) = Some row"
  shows "\<exists>e. enqueue db recipe base t = (db, Ok \<lparr>eo_created = False, eo_entry = e,
      eo_conflict = (q_recipe_fingerprint row \<noteq> recipe_fingerprint recipe)\<rparr>) \<and>
    qe_task_id e = tr_task_id recipe \<and> qe_state e = q_state row \<and> q_recipe_json row = recipe_to_dict (qe_recipe e)"
proof -
  have inv: "queue_inv m db" by (rule queue_reachable_inv [OF assms(1)])
  have ok: "row_ok m row" using inv find_row_Some [OF assms(2)] by (simp add: queue_inv_def)
  obtain e where e: "row_to_entry row = Ok e" "recipe_of_row row (qe_recipe e)"
      "qe_task_id e = q_task_id row" "qe_state e = q_state row"
    by (rule row_to_entry_ok [OF ok]) blast
  show ?thesis
    by (cases rule: enqueue_cases [OF inv, where recipe = recipe and base = base and t = t])
       (use assms(2) e find_row_Some [OF assms(2)] in \<open>auto simp: recipe_of_row_def\<close>)
qed

lemma enqueue_never_overwrites_witness:
  "fst (enqueue db2 sample_recipe ''base-9'' 99) = db2"
  using enqueue_never_overwrites [OF reachable_db2, where recipe = sample_recipe and row = row2
      and base = "''base-9''" and t = 99]
  by (auto simp: find_row_db2 sample_recipe_def)

lemma reconciled_none_expired:
  assumes "queue_inv m db"
  shows "\<forall>r \<in> set (db_entries (fst (reconcile m db t))). \<not> expired t r"
proof -
  have "db_entries (fst (reconcile m db t)) = map (reconciled m t) (db_entries db)"
    by (rule reconcile_entries) (use assms in \<open>simp add: queue_inv_def\<close>)
  moreover have "\<not> expired t (reconciled m t r)" for r
    by (auto simp: reconciled_def)
  ultimately show ?thesis by auto
qed

text \<open>Reconcile settles every expired lease at once: afterwards no entry is expired at that time, so running it
  again finds nothing and changes nothing; each entry that was expired is queued again with its attempts kept, or
  dead-lettered exactly when a limit is configured and reached; every other entry is untouched, and the number
  returned is the number of entries that were expired.\<close>

theorem reconcile_settles_expired_leases:
  assumes "queue_reachable m db" and "reconcile m db t = (db', n)"
  shows "(\<forall>r \<in> set (db_entries db'). \<not> expired t r) \<and> reconcile m db' t = (db', 0) \<and>
    n = length (filter (expired t) (db_entries db)) \<and>
    (\<forall>i r. find_row db i = Some r \<longrightarrow> find_row db' i = Some
       (if \<not> expired t r then r
        else clear_lease (if 0 < m \<and> m \<le> q_attempt r then Dead_letter else Queued) t r))"
proof -
  have inv: "queue_inv m db" by (rule queue_reachable_inv [OF assms(1)])
  have db': "db' = fst (reconcile m db t)" and n: "n = snd (reconcile m db t)" using assms(2) by simp_all
  have none: "\<forall>r \<in> set (db_entries db'). \<not> expired t r"
    unfolding db' by (rule reconciled_none_expired [OF inv])
  then have "filter (expired t) (db_entries db') = []" by (simp add: filter_empty_conv)
  then have "reconcile m db' t = (db', 0)" by (simp add: reconcile_def)
  moreover have "n = length (filter (expired t) (db_entries db))" by (simp add: n reconcile_def Let_def)
  moreover have "find_row db' i = Some (reconciled m t r)" if "find_row db i = Some r" for i r
    unfolding db' using that by (simp add: find_row_reconcile [OF inv])
  ultimately show ?thesis using none by (simp add: reconciled_def)
qed

lemma reconcile_settles_expired_leases_witness:
  "find_row (fst (reconcile 5 db2 100)) ''t1'' = Some (clear_lease Queued 100 row2)"
proof -
  have "expired 100 row2" by (simp add: expired_def row2_facts)
  moreover have "q_attempt row2 = 1" by (simp add: row2_def set_leased_def)
  ultimately show ?thesis
    using reconcile_settles_expired_leases [OF reachable_db2, where m = 5 and t = 100
        and db' = "fst (reconcile 5 db2 100)" and n = "snd (reconcile 5 db2 100)"]
    by (simp add: find_row_db2)
qed

text \<open>A worker that lost its lease cannot report late: once the lease of a task has run out and reconcile has
  run, the old worker's result for it is refused whatever it says, the task keeps the state reconcile gave it, and
  renewing the lost lease fails without touching the queue.\<close>

theorem late_results_are_refused:
  assumes "queue_reachable m db" and "find_row db i = Some row" and "expired t row"
    and "db' = fst (reconcile m db t)"
  shows "\<exists>db'' ro. record_result db' i w rv obs t' = (db'', Ok ro) \<and> \<not> ro_accepted ro \<and> \<not> ro_promotable ro \<and>
      task_state db'' i = task_state db' i \<and> ro_final_state ro \<in> {Queued, Dead_letter} \<and>
      renew_lease db' i w ttl t' = (db', False)"
proof -
  have inv: "queue_inv m db" by (rule queue_reachable_inv [OF assms(1)])
  have inv': "queue_inv m db'" using reconcile_inv [OF inv] assms(4) by simp
  have row: "find_row db' i = Some (reconciled m t row)"
    unfolding assms(4) find_row_reconcile [OF inv] by (simp add: assms(2))
  have state: "q_state (reconciled m t row) \<in> {Queued, Dead_letter}" using assms(3) by (simp add: reconciled_def)
  have nolease: "\<not> leased_to i w r" if "r \<in> set (db_entries db')" for r
    using row_unique [OF inv' that] find_row_Some [OF row] state by (auto simp: leased_to_def)
  then have "sql_update (leased_to i w) f db' = db'" and "sql_count (leased_to i w) db' = 0" for f
    by (simp_all add: sql_update_def sql_count_def filter_empty_conv cong: map_cong)
  then have renew: "renew_lease db' i w ttl t' = (db', False)" by (simp add: renew_lease_def)
  show ?thesis
    by (cases rule: record_cases [OF inv', where i = i and w = w and rv = rv and obs = obs and t = t'])
       (use row state renew nolease find_row_Some [OF row] in \<open>auto simp: task_state_def find_row_journal\<close>)
qed

lemma late_results_are_refused_witness:
  "\<exists>db'' ro. record_result (fst (reconcile 5 db2 100)) ''t1'' ''w1'' good_run ''base-1'' 101 = (db'', Ok ro) \<and> \<not> ro_accepted ro"
proof -
  have "expired 100 row2" by (simp add: expired_def row2_facts)
  from late_results_are_refused [OF reachable_db2 find_row_db2 this refl, of 5] show ?thesis by blast
qed

lemma row_number_drop:
  assumes "sorted_wrt (<) (map j_id js)"
  shows "filter (\<lambda>j. length (filter (\<lambda>k. j_id j \<le> j_id k) js) \<le> n) js = drop (length js - n) js"
  using assms
proof (induction js)
  case (Cons j js)
  have first: "filter (\<lambda>k. j_id j \<le> j_id k) js = js"
    using Cons.prems by (auto simp: filter_id_conv)
  have rest: "filter (\<lambda>x. length (filter (\<lambda>k. j_id x \<le> j_id k) (j # js)) \<le> n) js =
      filter (\<lambda>x. length (filter (\<lambda>k. j_id x \<le> j_id k) js) \<le> n) js"
    using Cons.prems by (intro filter_cong) auto
  show ?case
    using Cons first rest by (cases "length js < n") (auto simp: Suc_diff_le not_less less_Suc_eq_le)
qed simp

lemma sort_key_sorted_id: "sorted (map f xs) \<Longrightarrow> sort_key f xs = xs"
  by (induction xs) (simp_all add: insort_is_Cons)

lemma journal_for_sorted:
  "journal_ok db \<Longrightarrow> journal_for db i = filter (\<lambda>j. j_task_id j = i) (db_journal db)"
  unfolding journal_for_def journal_ok_def sorted_wrt_map
  by (intro sort_key_sorted_id, unfold sorted_map, intro sorted_wrt_filter)
     (auto elim: sorted_wrt_mono_rel [rotated])

text \<open>Pruning keeps, for every task, exactly the newest \<open>keep\<close> events in their order (all of them when there
  are fewer), touches no queue entry, and a second pruning with the same bound removes nothing.\<close>

theorem prune_keeps_the_newest:
  assumes "queue_reachable m db" and "prune_journal db (int keep) = (db', removed)"
  shows "journal_for db' i = drop (length (journal_for db i) - keep) (journal_for db i) \<and>
    db_entries db' = db_entries db \<and> removed = length (db_journal db) - length (db_journal db') \<and>
    length (journal_for db' i) = min keep (length (journal_for db i))"
proof -
  have ok: "journal_ok db" using queue_reachable_inv [OF assms(1)] by (simp add: queue_inv_def)
  have db': "db' = fst (prune_journal db (int keep))" using assms(2) by simp
  have ok': "journal_ok db'"
    using prune_inv [OF queue_reachable_inv [OF assms(1)], of "int keep"] db' by (simp add: queue_inv_def)
  have jf: "journal_for db i = filter (\<lambda>j. j_task_id j = i) (db_journal db)" by (rule journal_for_sorted [OF ok])
  let ?js = "filter (\<lambda>j. j_task_id j = i) (db_journal db)"
  have rn: "row_number (db_journal db) j = length (filter (\<lambda>k. j_id j \<le> j_id k) ?js)" if "j_task_id j = i" for j
    using that by (simp add: row_number_def conj_commute)
  have "journal_for db' i = filter (\<lambda>j. j_task_id j = i \<and> row_number (db_journal db) j \<le> keep) (db_journal db)"
    unfolding journal_for_sorted [OF ok'] by (simp add: db' prune_journal_def Let_def conj_commute)
  also have "\<dots> = filter (\<lambda>j. j_task_id j = i \<and> length (filter (\<lambda>k. j_id j \<le> j_id k) ?js) \<le> keep) (db_journal db)"
    by (intro filter_cong) (auto simp: rn)
  also have "\<dots> = filter (\<lambda>j. length (filter (\<lambda>k. j_id j \<le> j_id k) ?js) \<le> keep) ?js"
    by (simp add: conj_commute)
  also have "\<dots> = drop (length ?js - keep) ?js"
    by (rule row_number_drop) (use ok in \<open>auto simp: journal_ok_def sorted_wrt_map intro: sorted_wrt_filter\<close>)
  finally have "journal_for db' i = drop (length (journal_for db i) - keep) (journal_for db i)"
    by (simp only: jf)
  moreover have "db_entries db' = db_entries db" by (simp add: db' prune_journal_def Let_def)
  moreover have "removed = length (db_journal db) - length (db_journal db')"
    using assms(2) by (auto simp: prune_journal_def Let_def)
  ultimately show ?thesis by simp
qed

lemma prune_keeps_the_newest_witness:
  "length (journal_for (fst (prune_journal db2 1)) ''t1'') = min 1 (length (journal_for db2 ''t1''))"
  using prune_keeps_the_newest [OF reachable_db2, where keep = 1 and i = "''t1''"
      and db' = "fst (prune_journal db2 1)" and removed = "snd (prune_journal db2 1)"]
  by simp

end
