(* ===== verification/Backup_Properties.thy ===== *)
theory Backup_Properties
  imports Backup_Proofs Queue_Guarantees
begin

text \<open>
  The contract of \<open>BackupFs\<close> holds of the model of the real file system, and with it the properties of backup and
  restore; the findings of the operational health check after a reconcile.
\<close>

subsection \<open>The real file system keeps the contract\<close>

definition sys_content :: "system_fs \<Rightarrow> string \<Rightarrow> bytes option" where
  "sys_content f p = (case map_of f (normpath p) of Some (File d) \<Rightarrow> Some d | _ \<Rightarrow> None)"

lemma make_dirs_files:
  "make_dirs ds f = Ok f1 \<Longrightarrow> sys_content f1 q = sys_content f q"
proof (induction ds f rule: make_dirs.induct)
  case (2 d ds f)
  show ?case
  proof (cases "map_of f d")
    case None
    then have "sys_content (dict_set d Directory f) q = sys_content f q"
      by (simp add: sys_content_def)
    then show ?thesis using None 2 by simp
  next
    case (Some node)
    then show ?thesis using 2 by (cases node) (simp_all add: os_error_def)
  qed
qed simp

lemma sys_write_Ok:
  assumes "sys_write f p d = Ok f1"
  shows "sys_content f1 q = (if normpath q = normpath p then Some d else sys_content f q)"
proof -
  obtain f0 where "make_dirs (parents p) f = Ok f0" and "f1 = dict_set (normpath p) (File d) f0"
    using assms by (auto simp: sys_write_def and_then_Ok_iff os_error_def split: if_splits)
  then show ?thesis
    using make_dirs_files [of "parents p" f f0 q] by (auto simp: sys_content_def)
qed

lemma sys_read_Ok: "sys_read f p = Ok d \<longleftrightarrow> sys_content f p = Some d"
  by (auto simp: sys_read_def sys_content_def os_error_def split: option.splits node.splits)

lemmas system_backup_simps = system_backup_fs_def

interpretation sys: backup_store system_backup_fs sys_content normpath
proof
  fix f p d h f' q
  show "bf_read system_backup_fs f p = Ok d \<longleftrightarrow> sys_content f p = Some d"
    by (simp add: system_backup_simps sys_read_Ok)
  show "bf_sha256 system_backup_fs f p = Ok h \<longleftrightarrow> (\<exists>d. sys_content f p = Some d \<and> h = sha256_hex d)"
    by (auto simp: system_backup_simps sys_sha256_def and_then_Ok_iff sys_read_Ok)
  show "bf_exists system_backup_fs f p" if "sys_content f p = Some d"
    using that by (cases "map_of f (normpath p)") (auto simp: system_backup_simps sys_exists_def sys_content_def)
  show "sys_content f' q = (if normpath q = normpath p then Some d else sys_content f q)"
    if "bf_write system_backup_fs f p d = Ok f'"
    using that by (intro sys_write_Ok) (simp add: system_backup_simps)
qed

subsection \<open>Separate directories\<close>

text \<open>Two roots in normal form, neither inside the other.\<close>

definition separate :: "string \<Rightarrow> string \<Rightarrow> bool" where
  "separate a b \<longleftrightarrow> abs_normal a \<and> abs_normal b \<and> backslash \<notin> set a \<and> backslash \<notin> set b \<and>
     \<not> startswith (a @ ''/'') (b @ ''/'') \<and> \<not> startswith (b @ ''/'') (a @ ''/'')"

lemma joined_normal:
  assumes "plain_relpath rel" and "abs_normal base" and "backslash \<notin> set base"
  shows "normpath (joined base rel) = base @ ''/'' @ rel"
proof -
  obtain n cs where n: "n = 1 \<or> n = 2" and cs: "cs \<noteq> []" "\<forall>c \<in> set cs. good_comp c" and base: "base = abs_path n cs"
    using assms(2) by (auto simp: abs_normal_def)
  have j: "joined base rel = base @ ''/'' @ rel"
    using assms(3) plain_no_backslash [OF assms(1)] rstrip_abs_path [OF cs] base
    by (simp add: joined_def replace_char_id)
  have "norm_loop True (rev cs) (split_on slash rel) = cs @ split_on slash rel"
    using norm_loop_id [of "split_on slash rel" True "rev cs" "[]"] plain_comps [OF assms(1)] by simp
  then have "normpath (joined base rel) = abs_path n (cs @ split_on slash rel)"
    using normpath_abs_path_append [OF cs n, of rel] by (simp add: j [unfolded base] base)
  also have "\<dots> = base @ ''/'' @ rel"
    by (simp add: base abs_path_def join_with_append [OF cs(1)] join_split_on)
  finally show ?thesis .
qed

lemma separate_joined:
  assumes "separate a b" and "plain_relpath r" and "plain_relpath s"
  shows "normpath (joined a r) \<noteq> normpath (joined b s)"
proof
  assume "normpath (joined a r) = normpath (joined b s)"
  then have "(a @ ''/'') @ r = (b @ ''/'') @ s"
    using assms by (simp add: joined_normal separate_def)
  then have "startswith (a @ ''/'') (b @ ''/'') \<or> startswith (b @ ''/'') (a @ ''/'')"
    unfolding startswith_iff by (metis append_eq_append_conv2)
  then show False using assms(1) by (simp add: separate_def)
qed

subsection \<open>Restoring\<close>

lemma restored_content:
  assumes "restore_loop system_backup_fs base dest rels f = (f1, Ok ())"
    and "separate dest base" and "\<forall>rel \<in> set rels. plain_relpath rel"
  shows "(\<forall>q. normpath q \<notin> normpath ` joined dest ` set rels \<longrightarrow> sys_content f1 q = sys_content f q) \<and>
    (\<forall>rel \<in> set rels. \<exists>d. sys_content f (joined base rel) = Some d \<and> sys_content f1 (joined dest rel) = Some d)"
  by (rule sys.restore_loop_Ok [OF assms(1)])
    (use assms(2,3) separate_joined joined_inject in blast)+

text \<open>C15: A restore is guarded: if it refuses, the file system is untouched; if it succeeds, the backup was of this
  instance and schema, the signature demanded was good, every file in it had the recorded hash, each was restored with
  exactly that content, and no other file changed.\<close>
theorem restore_is_guarded:
  assumes "restore_backup system_backup_fs m base dest f inst schema td = (f1, Ok r)" and "separate dest base"
  shows "(\<not> rs_ok r \<longrightarrow> f1 = f) \<and>
    (rs_ok r \<longrightarrow> mf_instance_id m = inst \<and> mf_schema_version m = schema \<and> snd (demanded_signature m td) \<noteq> Some False \<and>
       (\<forall>(rel, h) \<in> set (mf_files m). \<exists>d. sys_content f (joined base rel) = Some d \<and> sha256_hex d = h \<and>
          sys_content f1 (joined dest rel) = Some d) \<and>
       (\<forall>q. normpath q \<notin> normpath ` joined dest ` fst ` set (mf_files m) \<longrightarrow> sys_content f1 q = sys_content f q))"
proof -
  note r = sys.restore_Ok [OF assms(1)]
  have "(\<forall>(rel, h) \<in> set (mf_files m). \<exists>d. sys_content f (joined base rel) = Some d \<and> sha256_hex d = h \<and>
          sys_content f1 (joined dest rel) = Some d) \<and>
       (\<forall>q. normpath q \<notin> normpath ` joined dest ` fst ` set (mf_files m) \<longrightarrow> sys_content f1 q = sys_content f q)"
    if ok: "rs_ok r"
  proof -
    have files: "\<forall>(rel, h) \<in> set (mf_files m). plain_relpath rel \<and> (\<exists>d. sys_content f (joined base rel) = Some d \<and> sha256_hex d = h)"
      and loop: "restore_loop system_backup_fs base dest (sort (map fst (mf_files m))) f = (f1, Ok ())"
      using r ok by simp_all
    have "\<forall>rel \<in> set (sort (map fst (mf_files m))). plain_relpath rel" using files by auto
    from restored_content [OF loop assms(2) this] files show ?thesis by fastforce
  qed
  with r show ?thesis by argo
qed

subsection \<open>Backup, then restore\<close>

definition no_demand :: trust_demand where
  "no_demand = \<lparr>td_public_key = None, td_signature = None, td_trust_store = None, td_signer = None\<rparr>"

text \<open>C16: A backup that is restored gives back every file: when the copies are still what the backup wrote, the restore of its
  manifest cannot refuse, and each listed file ends up in the target with the content it had in the source.\<close>
theorem backup_then_restore:
  assumes "create_backup system_backup_fs source rels store f bid inst schema = (f1, Ok m)"
    and "separate store source" and "separate target store"
    and "\<forall>rel \<in> set rels. sys_content f2 (joined store rel) = sys_content f1 (joined store rel)"
    and "restore_backup system_backup_fs m store target f2 inst schema no_demand = (f3, Ok r)"
  shows "rs_ok r \<and> set (rs_restored r) = set rels \<and>
    (\<forall>rel \<in> set rels. \<exists>d. sys_content f (joined source rel) = Some d \<and> sys_content f3 (joined target rel) = Some d)"
proof -
  obtain files where loop: "backup_loop system_backup_fs source store (sort rels) f [] = (f1, Ok files)"
      and m: "m = \<lparr>mf_backup_id = bid, mf_instance_id = inst, mf_schema_version = schema, mf_files = files\<rparr>"
    using assms(1) by (auto simp: create_backup_def and_then_Ok_iff split: prod.splits)
  have plain: "\<forall>rel \<in> set (sort rels). plain_relpath rel"
    using sys.backup_loop_plain [OF loop] .
  have b: "\<forall>rel \<in> set rels. \<exists>d. sys_content f (joined source rel) = Some d \<and> sys_content f1 (joined store rel) = Some d \<and>
       map_of files rel = Some (sha256_hex d)"
    and keys: "set (map fst files) = set rels" and ok: "dict_ok files"
    using sys.backup_loop_Ok [OF loop] assms(2) plain separate_joined joined_inject
    by (smt (verit, ccfv_threshold) set_sort list.simps(8) set_empty2 Un_empty_right dict_ok_Nil)+
  have intact: "\<forall>(rel, h) \<in> set files. plain_relpath rel \<and> (\<exists>d. sys_content f2 (joined store rel) = Some d \<and> sha256_hex d = h)"
  proof (rule ballI, clarsimp)
    fix rel h assume mem: "(rel, h) \<in> set files"
    then have "rel \<in> set rels" and "map_of files rel = Some h"
      using keys map_of_mem_iff [OF ok] by force+
    then show "plain_relpath rel \<and> (\<exists>d. sys_content f2 (joined store rel) = Some d \<and> sha256_hex d = h)"
      using b assms(4) plain by fastforce
  qed
  note r = sys.restore_Ok [OF assms(5)]
  have sig: "snd (demanded_signature m no_demand) \<noteq> Some False" by (simp add: demanded_signature_def no_demand_def)
  then have rs: "rs_ok r" using r intact by (simp add: m)
  then have run: "restore_loop system_backup_fs store target (sort (map fst files)) f2 = (f3, Ok ())"
    and restored: "rs_restored r = sort (map fst files)" using r by (simp_all add: m)
  have "set (sort (map fst files)) = set rels" using keys by simp
  with restored_content [OF run assms(3)] plain
  have "\<forall>rel \<in> set rels. \<exists>d. sys_content f2 (joined store rel) = Some d \<and> sys_content f3 (joined target rel) = Some d"
    by (metis set_sort)
  then show ?thesis using rs restored keys b assms(4) by fastforce
qed

subsection \<open>One file backed up and restored\<close>

definition store_fs :: system_fs where
  "store_fs = [(''/d'', Directory), (''/d/s'', Directory), (''/d/s/q.db'', File [7])]"

definition backup_fs1 :: system_fs where
  "backup_fs1 = store_fs @ [(''/d/b'', Directory), (''/d/b/q.db'', File [7])]"

definition restored_fs :: system_fs where
  "restored_fs = backup_fs1 @ [(''/d/t'', Directory), (''/d/t/q.db'', File [7])]"

definition store_manifest :: manifest where
  "store_manifest = \<lparr>mf_backup_id = ''b1'', mf_instance_id = ''i1'', mf_schema_version = ''s1'',
     mf_files = [(''q.db'', sha256_hex [7])]\<rparr>"

lemma sample_separate: "separate ''/d/b'' ''/d/s''" "separate ''/d/t'' ''/d/b''"
proof -
  have "abs_normal (''/d/'' @ [c])" if "c \<noteq> slash" "c \<noteq> CHR ''.''" for c
    unfolding abs_normal_def
    by (rule exI [of _ 1], rule exI [of _ "[''d'', [c]]"]) (use that in \<open>auto simp: good_comp_def abs_path_def\<close>)
  from this [of "CHR ''b''"] this [of "CHR ''s''"] this [of "CHR ''t''"]
  show "separate ''/d/b'' ''/d/s''" "separate ''/d/t'' ''/d/b''"
    by (simp_all add: separate_def startswith_def)
qed

lemmas path_eval = normpath_def joined_def startswith_def endswith_def replace_char_def rstrip_char_def
  initial_slashes_def parents_def

lemma sample_paths:
  "plain_relpath ''q.db''"
  "joined ''/d/s'' ''q.db'' = ''/d/s/q.db''" "joined ''/d/b'' ''q.db'' = ''/d/b/q.db''" "joined ''/d/t'' ''q.db'' = ''/d/t/q.db''"
  "normpath ''/d/s/q.db'' = ''/d/s/q.db''" "normpath ''/d/b/q.db'' = ''/d/b/q.db''" "normpath ''/d/t/q.db'' = ''/d/t/q.db''"
  "parents ''/d/b/q.db'' = [''/d'', ''/d/b'']" "parents ''/d/t/q.db'' = [''/d'', ''/d/t'']"
  by code_simp+

lemmas sample_eval = sample_paths join_path_eq system_backup_fs_def sys_read_def sys_write_def sys_sha256_def sys_exists_def

lemma sample_backup:
  "create_backup system_backup_fs ''/d/s'' [''q.db''] ''/d/b'' store_fs ''b1'' ''i1'' ''s1'' = (backup_fs1, Ok store_manifest)"
  by (simp add: create_backup_def backup_one_def sample_eval store_fs_def backup_fs1_def store_manifest_def)

lemma sample_restore:
  "restore_backup system_backup_fs store_manifest ''/d/b'' ''/d/t'' backup_fs1 ''i1'' ''s1'' no_demand =
     (restored_fs, Ok \<lparr>rs_ok = True, rs_restored = [''q.db''], rs_reason = None\<rparr>)"
  by (simp add: restore_backup_def verify_backup_def demanded_signature_def no_demand_def check_file_def with_check_def
      sample_eval store_fs_def backup_fs1_def restored_fs_def store_manifest_def sorted_items_def)

lemma restore_is_guarded_witness:
  "sys_content restored_fs (joined ''/d/t'' ''q.db'') = Some [7]"
  using restore_is_guarded [OF sample_restore sample_separate(2)]
  by (simp add: store_manifest_def sample_paths sys_content_def backup_fs1_def store_fs_def)

lemma backup_then_restore_witness:
  "\<exists>d. sys_content store_fs (joined ''/d/s'' ''q.db'') = Some d \<and> sys_content restored_fs (joined ''/d/t'' ''q.db'') = Some d"
  using backup_then_restore [OF sample_backup sample_separate _ sample_restore] by simp

subsection \<open>Manifests that were read\<close>

lemma relpath_problems_Nil: "relpath_problems rels = [] \<longleftrightarrow> (\<forall>r \<in> set rels. plain_relpath r)"
  by (auto simp: relpath_problems_def check_relpath_def config_error_def split: if_splits)

lemma manifest_from_dict_paths:
  "manifest_from_dict j = Ok m \<Longrightarrow> (\<forall>(rel, h) \<in> set (mf_files m). plain_relpath rel)"
  by (auto simp: manifest_from_dict_def config_error_def result_simps relpath_problems_Nil
      split: json.splits prod.splits option.splits if_splits) fastforce

text \<open>Whatever document a manifest was read from, every path of it stays strictly inside the directory it is joined
  to: it has only proper components below that directory, in the backup and in the destination of a restore.\<close>
theorem manifest_paths_stay_inside:
  assumes "manifest_from_dict j = Ok m" and "(rel, h) \<in> set (mf_files m)"
    and "abs_normal base" and "backslash \<notin> set base"
  shows "\<exists>p. join_path base rel = Ok p \<and> below base p"
  using manifest_from_dict_paths [OF assms(1)] assms joined_below [of rel base]
  by (auto simp: join_path_eq)

subsection \<open>Health\<close>

text \<open>Reconcile is what the health check asks for: after it, at the same clock reading, no queue has the finding of
  orphaned leases, and the report is good exactly when the journal is within its cap and the disk above its floor.\<close>
theorem health_after_reconcile:
  assumes "queue_reachable m db" and "reconcile m db now = (db', n)"
    and "check_operational_health db' free_disk min_free row_cap now = report"
  shows "''orphaned-leases'' \<notin> fst ` set (hr_findings report) \<and>
    (hr_ok report \<longleftrightarrow> length (db_journal db') \<le> row_cap \<and> (\<forall>free. free_disk = Some free \<longrightarrow> min_free \<le> free))"
proof -
  have "sql_count (expired now) db' = 0"
    using reconciled_none_expired [OF queue_reachable_inv [OF assms(1)], of now] assms(2)
    by (simp add: sql_count_def filter_empty_conv)
  moreover have "snd (stats db') = length (db_journal db')" by (simp add: stats_def)
  ultimately show ?thesis
    using assms(3) by (cases free_disk) (auto simp: check_operational_health_def Let_def split: if_splits)
qed

lemma sample_manifest_read:
  "manifest_from_dict (JObj [(''backup_id'', JStr ''b1''), (''instance_id'', JStr ''i1''), (''schema_version'', JStr ''s1''),
     (''files'', JObj [(''q.db'', JStr ''00'')])]) =
   Ok \<lparr>mf_backup_id = ''b1'', mf_instance_id = ''i1'', mf_schema_version = ''s1'', mf_files = [(''q.db'', ''00'')]\<rparr>"
  by code_simp

lemma manifest_paths_stay_inside_witness:
  "\<exists>p. join_path ''/d/b'' ''q.db'' = Ok p \<and> below ''/d/b'' p"
  by (rule manifest_paths_stay_inside [OF sample_manifest_read])
    (use sample_separate(1) in \<open>simp_all add: separate_def\<close>)

lemma health_after_reconcile_witness:
  "''orphaned-leases'' \<notin> fst ` set (hr_findings (check_operational_health (fst (reconcile 5 db2 100)) (Some 50) 1 9 100))"
  using health_after_reconcile [OF reachable_db2, where now = 100 and db' = "fst (reconcile 5 db2 100)"
      and n = "snd (reconcile 5 db2 100)", OF _ refl] by simp

end
