(* ===== verification/Runner.thy ===== *)
theory Runner
  imports Recipe Durable_Queue
begin

text \<open>
  \<open>runner.py\<close>: the environment of a task, \<open>run_task\<close> over a launcher, a clock and a cancel token (a record
  \<open>task_host\<close> of operations on a state \<open>'w\<close>), the readers that keep the tail of the output, and the process
  group behind \<open>_SubprocessHandle\<close> on a POSIX host.  The polling loop may run for ever, so it is a
  \<open>partial_function\<close>: \<open>None\<close> is a call that does not return.
\<close>

subsection \<open>The environment of a task\<close>

definition safe_env_keys :: "string list" where
  "safe_env_keys = [''PATH'', ''HOME'', ''LANG'', ''LC_ALL'', ''TZ'']"

definition safe_env_keys_windows :: "string list" where
  "safe_env_keys_windows =
     [''SYSTEMROOT'', ''SYSTEMDRIVE'', ''WINDIR'', ''COMSPEC'', ''PATHEXT'',
      ''TEMP'', ''TMP'', ''NUMBER_OF_PROCESSORS'', ''PROCESSOR_ARCHITECTURE'']"

definition fixed_path :: string where
  "fixed_path = ''/usr/local/bin:/usr/bin:/bin''"

definition inherited :: "string dict \<Rightarrow> string \<Rightarrow> (string \<times> string) list" where
  "inherited src key = (case map_of src key of None \<Rightarrow> [] | Some v \<Rightarrow> if v = [] then [] else [(key, v)])"

definition build_task_env :: "string \<Rightarrow> string dict \<Rightarrow> string dict" where
  "build_task_env os_name src =
     (let keys = safe_env_keys @ (if os_name = ''nt'' then safe_env_keys_windows else []);
          env = concat (map (inherited src) keys)
      in if os_name = ''posix'' then dict_set ''PATH'' fixed_path env else env)"

subsection \<open>Running one task\<close>

record run_result =
  rr_task_id :: string
  rr_outcome :: string
  rr_exit_code :: "int option"
  rr_duration :: rat
  rr_stdout_tail :: string
  rr_stderr_tail :: string
  rr_rejection_reason :: "msg list option"
  rr_killed_group :: bool
  rr_sandbox :: string

definition round_3 :: "rat \<Rightarrow> rat" where
  "round_3 r = of_int (round_half_even (r * 1000)) / 1000"

definition msgs_json :: "msg list option \<Rightarrow> json" where
  "msgs_json ms = (case ms of None \<Rightarrow> JNull | Some l \<Rightarrow> JArr (map (\<lambda>m. msg_json (Some m)) l))"

definition run_result_to_dict :: "run_result \<Rightarrow> json" where
  "run_result_to_dict r = JObj
     [(''task_id'', JStr (rr_task_id r)), (''outcome'', JStr (rr_outcome r)), (''exit_code'', opt_int (rr_exit_code r)),
      (''duration_seconds'', JFloat (Finite (round_3 (rr_duration r)))),
      (''stdout_tail'', JStr (rr_stdout_tail r)), (''stderr_tail'', JStr (rr_stderr_tail r)),
      (''rejection_reason'', msgs_json (rr_rejection_reason r)),
      (''killed_process_group'', JBool (rr_killed_group r)), (''sandbox'', JStr (rr_sandbox r))]"

text \<open>
  What the run works against.  \<open>th_cancelled\<close> is \<open>cancel_token.cancelled\<close> (constantly false without a token),
  \<open>th_used\<close> the launcher's \<open>used\<close> (or \<open>none\<close>), \<open>th_spawn\<close> the launcher, and the other operations those of its handle
  and of the clock.
\<close>

record 'w task_host =
  th_os_name :: string
  th_environ :: "string dict"
  th_used :: string
  th_spawn :: "string list \<Rightarrow> string \<Rightarrow> string dict \<Rightarrow> 'w \<Rightarrow> 'w result"
  th_monotonic :: "'w \<Rightarrow> rat \<times> 'w"
  th_sleep :: "rat \<Rightarrow> 'w \<Rightarrow> 'w"
  th_poll :: "'w \<Rightarrow> int option \<times> 'w"
  th_kill_tree :: "'w \<Rightarrow> 'w"
  th_cancelled :: "'w \<Rightarrow> bool"
  th_stdout :: "'w \<Rightarrow> string"
  th_stderr :: "'w \<Rightarrow> string"

text \<open>The file system a run may look at: \<open>exists\<close> and \<open>realpath\<close>.\<close>

record 'w task_fs =
  tf_exists :: "'w \<Rightarrow> string \<Rightarrow> bool"
  tf_realpath :: "'w \<Rightarrow> string \<Rightarrow> string"

definition rejected :: "string \<Rightarrow> msg list \<Rightarrow> string \<Rightarrow> run_result" where
  "rejected task_id reason used =
     \<lparr>rr_task_id = task_id, rr_outcome = ''rejected'', rr_exit_code = None, rr_duration = 0, rr_stdout_tail = [],
      rr_stderr_tail = [], rr_rejection_reason = Some reason, rr_killed_group = False, rr_sandbox = used\<rparr>"

text \<open>The script of a repository is looked for in the workspace: the program to start, or the refusal.\<close>

definition find_program ::
  "('w task_fs) option \<Rightarrow> workspace \<Rightarrow> string \<Rightarrow> 'w \<Rightarrow> string result" where
  "find_program fs ws program w =
     (let first = (if startswith program ''./'' then drop 2 program else program) in
      case fs of
        None \<Rightarrow> Ok program
      | Some f \<Rightarrow>
          if slash \<in> set first then Ok program
          else and_then (resolve_with (tf_realpath f w) ws first) (\<lambda>candidate.
            if tf_exists f w candidate then Ok candidate
            else if startswith program ''./'' then
              config_error [Msg ''the script {} does not exist in the workspace'' [JStr program]]
            else Ok program))"

text \<open>One turn of the polling loop: the run is over, or it goes on.\<close>

definition poll_turn :: "'w task_host \<Rightarrow> rat \<Rightarrow> int \<Rightarrow> 'w \<Rightarrow> (string \<times> int option \<times> bool) option \<times> 'w" where
  "poll_turn h started timeout w =
     (case th_poll h w of
        (Some code, w1) \<Rightarrow> (Some (''completed'', Some code, False), w1)
      | (None, w1) \<Rightarrow>
          (let (now, w2) = th_monotonic h w1 in
           if th_cancelled h w2 then (Some (''cancelled'', None, True), th_kill_tree h w2)
           else if now - started \<ge> of_int timeout then (Some (''timed-out'', None, True), th_kill_tree h w2)
           else (None, w2)))"

partial_function (option) poll_loop ::
  "'w task_host \<Rightarrow> rat \<Rightarrow> int \<Rightarrow> rat \<Rightarrow> 'w \<Rightarrow> ((string \<times> int option \<times> bool) \<times> 'w) option" where
  "poll_loop h started timeout interval w =
     (case poll_turn h started timeout w of
        (Some r, w1) \<Rightarrow> Some (r, w1)
      | (None, w1) \<Rightarrow> poll_loop h started timeout interval (th_sleep h interval w1))"

text \<open>From the command line that passed every check to the result.\<close>

definition run_started ::
  "'w task_host \<Rightarrow> task_recipe \<Rightarrow> workspace \<Rightarrow> rat \<Rightarrow> string list \<Rightarrow> 'w \<Rightarrow> ('w \<times> run_result result) option" where
  "run_started h r ws interval argv w =
     (let env = dict_set ''HOME'' (ws_root ws) (build_task_env (th_os_name h) (th_environ h));
          (started, w1) = th_monotonic h w
      in case th_spawn h argv (ws_root ws) env w1 of
           Inl (Raise c ms) \<Rightarrow>
             if c = PyOSError \<or> c = PyFileExistsError then
               Some (w1, Ok (rejected (tr_task_id r) (Msg ''the command could not be started: {}'' [] # ms) (th_used h)))
             else Some (w1, Err (Raise c ms))
         | Inr w2 \<Rightarrow>
             (case poll_loop h started (tr_timeout r) interval w2 of
                None \<Rightarrow> None
              | Some ((outcome, code, killed), w3) \<Rightarrow>
                  (let (finished, w4) = th_monotonic h w3 in
                   Some (w4, Ok \<lparr>rr_task_id = tr_task_id r, rr_outcome = outcome, rr_exit_code = code,
                     rr_duration = finished - started, rr_stdout_tail = th_stdout h w4, rr_stderr_tail = th_stderr h w4,
                     rr_rejection_reason = None, rr_killed_group = killed, rr_sandbox = th_used h\<rparr>))))"

definition run_task ::
  "'w task_host \<Rightarrow> ('w task_fs) option \<Rightarrow> rat \<Rightarrow> task_recipe \<Rightarrow> task_policy \<Rightarrow> workspace \<Rightarrow> 'w \<Rightarrow> ('w \<times> run_result result) option" where
  "run_task h fs interval r policy ws w =
     (case and_then (validate_against r policy)
             (\<lambda>_. resolved_input_paths r ws (map_option (\<lambda>f. tf_realpath f w) fs)) of
        Inl e \<Rightarrow> if is_config_error e then Some (w, Ok (rejected (tr_task_id r) (exn_msgs e) ''none'')) else Some (w, Inl e)
      | Inr _ \<Rightarrow>
          (case tr_command r of
             [] \<Rightarrow> Some (w, Err (Raise PyIndexError []))
           | program # args \<Rightarrow>
               (case find_program fs ws program w of
                  Inl e \<Rightarrow> if is_config_error e then Some (w, Ok (rejected (tr_task_id r) (exn_msgs e) (th_used h))) else Some (w, Inl e)
                | Inr found \<Rightarrow> run_started h r ws interval (found # args) w)))"

subsection \<open>The tail of an output stream\<close>

record tail_reader =
  tl_chunks :: "string list"
  tl_size :: nat

definition empty_reader :: tail_reader where
  "empty_reader = \<lparr>tl_chunks = [], tl_size = 0\<rparr>"

text \<open>\<open>while self._chunks and self._size - len(self._chunks[0]) >= self._limit\<close>.\<close>

fun trim_chunks :: "nat \<Rightarrow> string list \<Rightarrow> nat \<Rightarrow> tail_reader" where
  "trim_chunks limit [] bulk = \<lparr>tl_chunks = [], tl_size = bulk\<rparr>"
| "trim_chunks limit (c # cs) bulk =
     (if int bulk - int (length c) \<ge> int limit then trim_chunks limit cs (bulk - length c)
      else \<lparr>tl_chunks = c # cs, tl_size = bulk\<rparr>)"

definition read_chunk :: "nat \<Rightarrow> tail_reader \<Rightarrow> string \<Rightarrow> tail_reader" where
  "read_chunk limit t piece = trim_chunks limit (tl_chunks t @ [piece]) (tl_size t + length piece)"

text \<open>\<open>run\<close>: chunk after chunk until an empty one.\<close>

fun drain_stream :: "nat \<Rightarrow> tail_reader \<Rightarrow> string list \<Rightarrow> tail_reader" where
  "drain_stream limit t [] = t"
| "drain_stream limit t (piece # pieces) = (if piece = [] then t else drain_stream limit (read_chunk limit t piece) pieces)"

definition reader_text :: "nat \<Rightarrow> tail_reader \<Rightarrow> string" where
  "reader_text limit t = (let text = concat (tl_chunks t) in if limit = 0 then text else last_chars limit text)"

definition tail_bytes :: nat where
  "tail_bytes = 8 * 1024"

subsection \<open>The process group of a child\<close>

text \<open>
  A process ends by itself at \<open>pr_ends\<close> (\<open>None\<close>: never) with \<open>pr_code\<close>, and SIGTERM ends it only if it does
  not ignore it; SIGKILL always does.  \<open>pw_child\<close> is the direct child (the leader of the group) or its return code,
  \<open>pw_rest\<close> its descendants in the group, \<open>pw_forks\<close> the ones still to be forked.
\<close>

record proc =
  pr_ends :: "rat option"
  pr_code :: int
  pr_heeds_term :: bool

record proc_world =
  pw_now :: rat
  pw_child :: "proc + int"
  pw_rest :: "proc list"
  pw_forks :: "(rat \<times> proc) list"
  pw_reaped :: bool
  pw_out :: "string list"
  pw_err :: "string list"

definition ended :: "rat \<Rightarrow> proc \<Rightarrow> bool" where
  "ended now p = (case pr_ends p of None \<Rightarrow> False | Some t \<Rightarrow> t \<le> now)"

definition group_empty :: "proc_world \<Rightarrow> bool" where
  "group_empty w \<longleftrightarrow> \<not> (\<exists>p. pw_child w = Inl p) \<and> pw_rest w = [] \<and> pw_forks w = []"

text \<open>Time passes: processes fork and end.  Nothing forks once the group is empty.\<close>

definition pw_sleep :: "rat \<Rightarrow> proc_world \<Rightarrow> proc_world" where
  "pw_sleep d w =
     (let now = pw_now w + d; born = filter (\<lambda>(t, p). t \<le> now) (pw_forks w) in
      w\<lparr>pw_now := now,
        pw_child := (case pw_child w of Inl p \<Rightarrow> if ended now p then Inr (pr_code p) else Inl p | Inr c \<Rightarrow> Inr c),
        pw_rest := filter (\<lambda>p. \<not> ended now p) (pw_rest w @ map snd born),
        pw_forks := filter (\<lambda>(t, p). \<not> t \<le> now) (pw_forks w)\<rparr>)"

text \<open>\<open>_kill_group\<close> with SIGTERM (15) or SIGKILL (9); a group that is gone is not an error.\<close>

definition kill_group :: "int \<Rightarrow> proc_world \<Rightarrow> proc_world" where
  "kill_group sig w =
     (if sig = 9 then
        w\<lparr>pw_child := (case pw_child w of Inl p \<Rightarrow> Inr (- 9) | Inr c \<Rightarrow> Inr c), pw_rest := [], pw_forks := []\<rparr>
      else
        w\<lparr>pw_child := (case pw_child w of Inl p \<Rightarrow> if pr_heeds_term p then Inr (- sig) else Inl p | Inr c \<Rightarrow> Inr c),
          pw_rest := filter (\<lambda>p. \<not> pr_heeds_term p) (pw_rest w)\<rparr>)"

definition proc_poll :: "proc_world \<Rightarrow> int option" where
  "proc_poll w = (case pw_child w of Inl _ \<Rightarrow> None | Inr c \<Rightarrow> Some c)"

text \<open>\<open>_drain\<close>: the rest of the group is killed, the readers end with the pipes, the child is reaped.\<close>

definition drain_handle :: "proc_world \<Rightarrow> proc_world" where
  "drain_handle w = (kill_group 9 w)\<lparr>pw_reaped := True\<rparr>"

definition handle_poll :: "proc_world \<Rightarrow> int option \<times> proc_world" where
  "handle_poll w =
     (let code = proc_poll w in (code, if code \<noteq> None \<and> \<not> pw_reaped w then drain_handle w else w))"

fun wait_briefly :: "nat \<Rightarrow> proc_world \<Rightarrow> proc_world" where
  "wait_briefly 0 w = w"
| "wait_briefly (Suc n) w = (if proc_poll w \<noteq> None then w else wait_briefly n (pw_sleep (1 / 20) w))"

definition kill_tree :: "proc_world \<Rightarrow> proc_world" where
  "kill_tree w =
     (let w1 = kill_group 9 (wait_briefly 20 (kill_group 15 w))
      in if \<not> pw_reaped w1 then drain_handle w1 else w1)"

text \<open>\<open>SubprocessLauncher\<close>: the child the kernel starts for a command line, or the error it gives.\<close>

type_synonym kernel = "string list \<Rightarrow> string \<Rightarrow> string dict \<Rightarrow> (proc \<times> (rat \<times> proc) list \<times> string list \<times> string list) result"

definition spawn_process :: "kernel \<Rightarrow> string list \<Rightarrow> string \<Rightarrow> string dict \<Rightarrow> proc_world \<Rightarrow> proc_world result" where
  "spawn_process start argv cwd env w =
     and_then (start argv cwd env) (\<lambda>(child, forks, out, err).
       Ok \<lparr>pw_now = pw_now w, pw_child = Inl child, pw_rest = [], pw_forks = forks, pw_reaped = False, pw_out = out, pw_err = err\<rparr>)"

definition subprocess_host :: "kernel \<Rightarrow> string dict \<Rightarrow> (rat \<Rightarrow> bool) \<Rightarrow> proc_world task_host" where
  "subprocess_host start environ cancelled_at =
     \<lparr>th_os_name = ''posix'', th_environ = environ, th_used = ''none'', th_spawn = spawn_process start,
      th_monotonic = (\<lambda>w. (pw_now w, w)), th_sleep = pw_sleep, th_poll = handle_poll, th_kill_tree = kill_tree,
      th_cancelled = (\<lambda>w. cancelled_at (pw_now w)),
      th_stdout = (\<lambda>w. reader_text tail_bytes (drain_stream tail_bytes empty_reader (pw_out w))),
      th_stderr = (\<lambda>w. reader_text tail_bytes (drain_stream tail_bytes empty_reader (pw_err w)))\<rparr>"

end
