(* ===== verification/Runner_Proofs.thy ===== *)
theory Runner_Proofs
  imports Runner
begin

text \<open>
  The bounded run: it returns on every host whose clock moves (a locale), its outcomes, what the launcher is ever
  asked to start, the process group that is gone afterwards, and the tail kept of an output stream.
\<close>

subsection \<open>The tail of a stream\<close>

text \<open>The reader has seen \<open>seen\<close>: it keeps an end of it, and what it dropped leaves at least \<open>limit\<close> characters.\<close>

definition tail_inv :: "nat \<Rightarrow> string \<Rightarrow> tail_reader \<Rightarrow> bool" where
  "tail_inv limit seen t \<longleftrightarrow>
     tl_size t = length (concat (tl_chunks t)) \<and>
     (\<exists>dropped. seen = dropped @ concat (tl_chunks t) \<and> (dropped \<noteq> [] \<longrightarrow> limit \<le> length (concat (tl_chunks t))))"

lemma trim_chunks_inv:
  "bulk = length (concat cs) \<Longrightarrow> seen = dropped @ concat cs \<Longrightarrow> (dropped \<noteq> [] \<longrightarrow> limit \<le> length (concat cs)) \<Longrightarrow>
     tail_inv limit seen (trim_chunks limit cs bulk)"
proof (induction limit cs bulk arbitrary: dropped rule: trim_chunks.induct)
  case (2 limit c cs bulk)
  show ?case
  proof (cases "int bulk - int (length c) \<ge> int limit")
    case True
    then have "limit \<le> length (concat cs)" using 2(2) by simp
    then show ?thesis using True 2(1) [OF True, of "dropped @ c"] 2(2-) by simp
  next
    case False
    then show ?thesis using 2(2-) by (auto simp: tail_inv_def)
  qed
qed (auto simp: tail_inv_def)

lemma trim_chunks_size:
  "bulk = length (concat cs) \<Longrightarrow> \<forall>c \<in> set cs. length c \<le> n \<Longrightarrow> tl_size (trim_chunks limit cs bulk) \<le> limit + n"
  by (induction limit cs bulk rule: trim_chunks.induct) (auto split: if_splits)

lemma trim_chunks_subset: "set (tl_chunks (trim_chunks limit cs bulk)) \<subseteq> set cs"
  by (induction limit cs bulk rule: trim_chunks.induct) auto

lemma read_chunk_inv: "tail_inv limit seen t \<Longrightarrow> tail_inv limit (seen @ piece) (read_chunk limit t piece)"
proof -
  assume inv: "tail_inv limit seen t"
  then obtain dropped where "seen = dropped @ concat (tl_chunks t)" "dropped \<noteq> [] \<longrightarrow> limit \<le> length (concat (tl_chunks t))"
    by (auto simp: tail_inv_def)
  then show ?thesis
    unfolding read_chunk_def using inv by (intro trim_chunks_inv [of _ _ _ dropped]) (auto simp: tail_inv_def)
qed

lemma drain_stream_inv:
  "tail_inv limit seen t \<Longrightarrow> tail_inv limit (seen @ concat (takeWhile (\<lambda>c. c \<noteq> []) pieces)) (drain_stream limit t pieces)"
proof (induction limit t pieces arbitrary: seen rule: drain_stream.induct)
  case (2 limit t piece pieces)
  then show ?case using read_chunk_inv [of limit seen t piece] by (cases "piece = []") (auto simp flip: append_assoc)
qed simp

lemma tail_is_last:
  assumes "limit > 0"
  shows "reader_text limit (drain_stream limit empty_reader pieces) =
    last_chars limit (concat (takeWhile (\<lambda>c. c \<noteq> []) pieces))"
proof -
  let ?t = "drain_stream limit empty_reader pieces"
  have "tail_inv limit (concat (takeWhile (\<lambda>c. c \<noteq> []) pieces)) ?t"
    using drain_stream_inv [of limit "[]" empty_reader pieces] by (simp add: tail_inv_def empty_reader_def)
  then obtain dropped where "concat (takeWhile (\<lambda>c. c \<noteq> []) pieces) = dropped @ concat (tl_chunks ?t)"
      and "dropped \<noteq> [] \<longrightarrow> limit \<le> length (concat (tl_chunks ?t))"
    by (auto simp: tail_inv_def)
  then show ?thesis
    using assms by (cases "dropped = []") (simp_all add: reader_text_def last_chars_def Let_def)
qed

text \<open>However much a task prints, and however the pipe cuts it into chunks, the tail of a stream is exactly its last
  \<open>limit\<close> characters: dropping whole chunks early loses none of them.\<close>
theorem tail_is_the_end_of_the_output:
  assumes "limit > 0"
  shows "reader_text limit (drain_stream limit empty_reader pieces) =
    last_chars limit (concat (takeWhile (\<lambda>c. c \<noteq> []) pieces))"
  by (rule tail_is_last [OF assms])

lemma tail_is_the_end_of_the_output_witness:
  "reader_text 4 (drain_stream 4 empty_reader [''abc'', ''de'', ''fgh'', [], ''x'']) = ''efgh''"
  by (subst tail_is_the_end_of_the_output) (simp_all add: last_chars_def)

text \<open>The memory of a reader: no more than the limit and one chunk.\<close>

lemma drain_stream_bounded:
  assumes "\<forall>c \<in> set pieces. length c \<le> n" and "\<forall>c \<in> set (tl_chunks t). length c \<le> n"
    and "tl_size t = length (concat (tl_chunks t))" and "tl_size t \<le> limit + n"
  shows "tl_size (drain_stream limit t pieces) \<le> limit + n"
  using assms
proof (induction limit t pieces rule: drain_stream.induct)
  case (2 limit t piece pieces)
  have "tl_size (read_chunk limit t piece) = length (concat (tl_chunks (read_chunk limit t piece)))"
    using trim_chunks_inv [of _ "tl_chunks t @ [piece]" _ "[]" limit] 2(4)
    by (auto simp: read_chunk_def tail_inv_def)
  moreover have "tl_size (read_chunk limit t piece) \<le> limit + n"
    using trim_chunks_size [of _ "tl_chunks t @ [piece]" n limit] 2(2-4) by (auto simp: read_chunk_def)
  moreover have "\<forall>c \<in> set (tl_chunks (read_chunk limit t piece)). length c \<le> n"
    using trim_chunks_subset [of limit "tl_chunks t @ [piece]"] 2(2,3) by (fastforce simp: read_chunk_def)
  ultimately show ?case using 2 by auto
qed simp

lemma task_output_bounded:
  "\<forall>c \<in> set pieces. length c \<le> 4096 \<Longrightarrow>
     tl_size (drain_stream tail_bytes empty_reader pieces) \<le> tail_bytes + 4096"
  by (rule drain_stream_bounded) (auto simp: empty_reader_def)

subsection \<open>The environment\<close>

lemma inherited_keys: "set (map fst (concat (map (inherited src) ks))) \<subseteq> set ks"
  by (auto simp: inherited_def split: option.splits if_splits)

lemma inherited_values: "(k, v) \<in> set (concat (map (inherited src) ks)) \<Longrightarrow> map_of src k = Some v \<and> v \<noteq> []"
  by (auto simp: inherited_def split: option.splits if_splits)

lemma posix_env_keys: "fst ` set (build_task_env ''posix'' src) \<subseteq> set safe_env_keys"
  using inherited_keys [of src safe_env_keys]
    keys_dict_set [of "''PATH''" fixed_path "concat (map (inherited src) safe_env_keys)"]
  by (auto simp: build_task_env_def Let_def safe_env_keys_def)

subsection \<open>A run that returns\<close>

lemmas poll_loop_unfold = poll_loop.simps

lemma poll_turn_result:
  "poll_turn h started timeout w = (Some (outcome, code, killed), w') \<Longrightarrow>
     (outcome = ''completed'' \<and> code \<noteq> None \<and> \<not> killed) \<or>
     (outcome = ''cancelled'' \<and> code = None \<and> killed) \<or> (outcome = ''timed-out'' \<and> code = None \<and> killed)"
  by (auto simp: poll_turn_def Let_def split: prod.splits option.splits if_splits)

lemma poll_loop_result:
  assumes "poll_loop h started timeout interval w = Some ((outcome, code, killed), w')"
  shows "\<exists>w0. poll_turn h started timeout w0 = (Some (outcome, code, killed), w')"
proof -
  have "\<exists>w0. poll_turn h started timeout w0 = (Some (fst r), snd r)"
    if "poll_loop h started timeout interval w = Some r" for r
    by (rule poll_loop.raw_induct
        [where P = "\<lambda>h started timeout interval w r. \<exists>w0. poll_turn h started timeout w0 = (Some (fst r), snd r)", OF _ that])
      (auto split: prod.splits option.splits)
  from this [OF assms] show ?thesis by simp
qed

locale moving_clock =
  fixes h :: "'w task_host" and now :: "'w \<Rightarrow> rat"
  assumes reading: "th_monotonic h w = (t, w') \<Longrightarrow> now w \<le> t \<and> t \<le> now w'"
    and polling: "th_poll h w = (c, w') \<Longrightarrow> now w \<le> now w'"
    and sleeping: "0 \<le> d \<Longrightarrow> now w + d \<le> now (th_sleep h d w)"
    and killing: "now w \<le> now (th_kill_tree h w)"
begin

lemma poll_turn_time:
  "poll_turn h started timeout w = (r, w') \<Longrightarrow> now w \<le> now w' \<and> (r = None \<longrightarrow> now w < started + of_int timeout)"
proof -
  assume turn: "poll_turn h started timeout w = (r, w')"
  obtain c w1 where poll: "th_poll h w = (c, w1)" by fastforce
  obtain t w2 where read: "th_monotonic h w1 = (t, w2)" by fastforce
  have "now w \<le> now w1" "now w1 \<le> t" "t \<le> now w2" "now w2 \<le> now (th_kill_tree h w2)"
    using polling [OF poll] reading [OF read] killing by auto
  then show ?thesis using turn poll read
    by (auto simp: poll_turn_def split: option.splits if_splits)
qed

lemma poll_loop_returns:
  assumes "0 < interval"
  shows "\<exists>r w'. poll_loop h started timeout interval w = Some (r, w') \<and> now w \<le> now w'"
proof -
  have "\<exists>r w'. poll_loop h started timeout interval w = Some (r, w') \<and> now w \<le> now w'"
    if "started + of_int timeout - now w \<le> of_nat n * interval" for n w
    using that
  proof (induction n arbitrary: w)
    case 0
    obtain r w1 where turn: "poll_turn h started timeout w = (r, w1)" by fastforce
    with 0 poll_turn_time [OF turn] have "r \<noteq> None" by auto
    then show ?case using turn poll_turn_time [OF turn] by (auto simp: poll_loop_unfold [of h started timeout interval w])
  next
    case (Suc n)
    obtain r w1 where turn: "poll_turn h started timeout w = (r, w1)" by fastforce
    have "now w \<le> now w1" "now w1 + interval \<le> now (th_sleep h interval w1)"
      using poll_turn_time [OF turn] sleeping [of interval w1] assms by auto
    then show ?case
      using Suc.IH [of "th_sleep h interval w1"] Suc.prems turn assms
      by (cases r) (fastforce simp: poll_loop_unfold [of h started timeout interval w] algebra_simps)+
  qed
  moreover obtain n :: nat where "(started + of_int timeout - now w) / interval \<le> of_nat n"
    using reals_Archimedean2 less_imp_le by blast
  ultimately show ?thesis using assms by (simp add: field_simps)
qed

lemma run_started_returns:
  assumes "0 < interval"
  shows "run_started h r ws interval argv w \<noteq> None"
proof -
  have [simp]: "poll_loop h started timeout interval w \<noteq> None" for started timeout w
    using poll_loop_returns [OF assms, of started timeout w] by auto
  show ?thesis
    by (auto simp: run_started_def Let_def split: prod.splits sum.splits exn.splits option.splits)
qed

lemma run_task_returns: "0 < interval \<Longrightarrow> run_task h fs interval r policy ws w \<noteq> None"
  using run_started_returns
  by (auto simp: run_task_def split: sum.splits list.splits)

end

subsection \<open>The subprocess launcher\<close>

lemma kill_group_now [simp]: "pw_now (kill_group sig w) = pw_now w"
  by (simp add: kill_group_def)

lemma pw_sleep_now [simp]: "pw_now (pw_sleep d w) = pw_now w + d"
  by (simp add: pw_sleep_def Let_def)

lemma drain_handle_now [simp]: "pw_now (drain_handle w) = pw_now w"
  by (simp add: drain_handle_def)

lemma wait_briefly_now: "pw_now w \<le> pw_now (wait_briefly n w)"
proof (induction n w rule: wait_briefly.induct)
  case (2 n w)
  show ?case
  proof (cases "proc_poll w")
    case None
    then have "pw_now (pw_sleep (1 / 20) w) \<le> pw_now (wait_briefly (Suc n) w)" using 2 by simp
    then show ?thesis by simp
  qed simp
qed simp

lemma kill_tree_now: "pw_now w \<le> pw_now (kill_tree w)"
  using wait_briefly_now [of "kill_group 15 w" 20] by (simp add: kill_tree_def Let_def)

lemma handle_poll_now: "handle_poll w = (c, w') \<Longrightarrow> pw_now w' = pw_now w"
  by (auto simp: handle_poll_def Let_def)

interpretation sub: moving_clock "subprocess_host start environ cancelled_at" pw_now
  for start environ cancelled_at
  by unfold_locales (auto simp: subprocess_host_def kill_tree_now dest: handle_poll_now)

text \<open>C17: Running a task always comes back on a host whose clock moves: whatever the child and its descendants do, and
  whatever the signals they ignore, the poll loop ends with a result or with the exception the launcher raised.\<close>
theorem run_task_always_returns:
  assumes "0 < interval"
  shows "\<exists>w' res. run_task (subprocess_host start environ cancelled_at) fs interval r policy ws w = Some (w', res)"
  using sub.run_task_returns [OF assms, of start environ cancelled_at fs r policy ws w] by auto

lemma kill_group_empties: "group_empty (kill_group 9 w)"
  by (auto simp: group_empty_def kill_group_def split: sum.splits)

lemma drain_handle_empties: "group_empty (drain_handle w)"
  using kill_group_empties [of w] by (simp add: drain_handle_def group_empty_def)

lemma kill_tree_empties: "group_empty (kill_tree w)"
  unfolding kill_tree_def by (simp add: Let_def kill_group_empties drain_handle_empties)

lemma group_empty_sleep: "group_empty w \<Longrightarrow> group_empty (pw_sleep d w)"
  by (auto simp: group_empty_def pw_sleep_def Let_def split: sum.splits)

definition reaped_empty :: "proc_world \<Rightarrow> bool" where
  "reaped_empty w \<longleftrightarrow> (pw_reaped w \<longrightarrow> group_empty w)"

lemma handle_poll_ends:
  "handle_poll w = (Some code, w') \<Longrightarrow> reaped_empty w \<Longrightarrow> group_empty w'"
  by (auto simp: handle_poll_def Let_def reaped_empty_def drain_handle_empties split: if_splits)

lemma handle_poll_goes_on: "handle_poll w = (None, w') \<Longrightarrow> w' = w"
  by (auto simp: handle_poll_def Let_def)

lemma sub_poll_turn:
  assumes "poll_turn (subprocess_host start environ cancelled_at) started timeout w = (r, w')" and "reaped_empty w"
  shows "if r = None then w' = w else group_empty w'"
  using assms handle_poll_ends handle_poll_goes_on kill_tree_empties
  by (auto simp: poll_turn_def subprocess_host_def Let_def split: prod.splits option.splits if_splits)

lemma pw_sleep_reaped: "reaped_empty w \<Longrightarrow> reaped_empty (pw_sleep d w)"
  using group_empty_sleep [of w d] by (simp add: reaped_empty_def pw_sleep_def Let_def)

lemma sub_poll_loop:
  assumes "poll_loop (subprocess_host start environ cancelled_at) started timeout interval w = Some r" and "reaped_empty w"
  shows "group_empty (snd r)"
proof -
  have "h = subprocess_host start environ cancelled_at \<longrightarrow> reaped_empty w \<longrightarrow> group_empty (snd r)"
    if "poll_loop h started timeout interval w = Some r" for h w
    by (rule poll_loop.raw_induct
        [where P = "\<lambda>h _ _ _ w r. h = subprocess_host start environ cancelled_at \<longrightarrow> reaped_empty w \<longrightarrow> group_empty (snd r)",
          OF _ that])
      (auto split: prod.splits option.splits dest!: sub_poll_turn
        simp: pw_sleep_reaped subprocess_host_def [of start environ cancelled_at, THEN arg_cong, of th_sleep])
  from this [OF assms(1)] assms(2) show ?thesis by simp
qed

text \<open>The ways a run can come out.\<close>

definition outcome_consistent :: "run_result \<Rightarrow> bool" where
  "outcome_consistent res \<longleftrightarrow>
     (rr_outcome res = ''completed'' \<and> rr_exit_code res \<noteq> None \<and> \<not> rr_killed_group res \<and> rr_rejection_reason res = None) \<or>
     ((rr_outcome res = ''cancelled'' \<or> rr_outcome res = ''timed-out'') \<and> rr_exit_code res = None \<and> rr_killed_group res \<and>
        rr_rejection_reason res = None) \<or>
     (rr_outcome res = ''rejected'' \<and> rr_exit_code res = None \<and> \<not> rr_killed_group res \<and> rr_rejection_reason res \<noteq> None)"

lemma rejected_consistent [simp]: "outcome_consistent (rejected i reason used)"
  by (simp add: outcome_consistent_def rejected_def)

lemma run_started_consistent:
  assumes "run_started h r ws interval argv w = Some (w', Ok res)"
  shows "outcome_consistent res"
proof -
  obtain started w1 where mono: "th_monotonic h w = (started, w1)" by fastforce
  let ?env = "dict_set ''HOME'' (ws_root ws) (build_task_env (th_os_name h) (th_environ h))"
  show ?thesis
  proof (cases "th_spawn h argv (ws_root ws) ?env w1")
    case (Inl e)
    then show ?thesis using assms mono by (cases e) (auto simp: run_started_def split: if_splits)
  next
    case (Inr w2)
    then obtain outcome code killed w3 where loop: "poll_loop h started (tr_timeout r) interval w2 = Some ((outcome, code, killed), w3)"
        and res: "rr_outcome res = outcome" "rr_exit_code res = code" "rr_killed_group res = killed" "rr_rejection_reason res = None"
      using assms mono by (auto simp: run_started_def split: option.splits prod.splits)
    obtain w0 where "poll_turn h started (tr_timeout r) w0 = (Some (outcome, code, killed), w3)"
      using poll_loop_result [OF loop] by blast
    from poll_turn_result [OF this] res show ?thesis by (auto simp: outcome_consistent_def)
  qed
qed

lemma run_task_consistent: "run_task h fs interval r policy ws w = Some (w', Ok res) \<Longrightarrow> outcome_consistent res"
  using run_started_consistent
  by (auto simp: run_task_def split: sum.splits list.splits if_splits)

lemma spawned_fresh: "spawn_process start argv cwd env w = Ok w' \<Longrightarrow> reaped_empty w'"
  by (auto simp: spawn_process_def and_then_Ok_iff reaped_empty_def)

lemma run_started_group:
  assumes "run_started (subprocess_host start environ cancelled_at) r ws interval argv w = Some (w', Ok res)"
  shows "if rr_outcome res = ''rejected'' then w' = w else group_empty w'"
proof -
  let ?h = "subprocess_host start environ cancelled_at"
  have mono: "th_monotonic ?h v = (pw_now v, v)" for v by (simp add: subprocess_host_def)
  have spawn: "th_spawn ?h = spawn_process start" by (simp add: subprocess_host_def)
  show ?thesis
  proof (cases "spawn_process start argv (ws_root ws) (dict_set ''HOME'' (ws_root ws) (build_task_env (th_os_name ?h) (th_environ ?h))) w")
    case (Inl e)
    then show ?thesis using assms by (cases e) (auto simp: run_started_def mono spawn rejected_def split: if_splits)
  next
    case (Inr w1)
    then obtain outcome code killed where
      loop: "poll_loop ?h (pw_now w) (tr_timeout r) interval w1 = Some ((outcome, code, killed), w')" and "rr_outcome res = outcome"
      using assms by (auto simp: run_started_def mono spawn split: option.splits prod.splits)
    then have "rr_outcome res \<noteq> ''rejected''"
      using poll_loop_result [OF loop] poll_turn_result by fastforce
    moreover have "group_empty w'" using sub_poll_loop [OF loop spawned_fresh [OF Inr]] by simp
    ultimately show ?thesis by simp
  qed
qed

text \<open>C18: After a run nothing of the task is alive: whether it completed, was cancelled or timed out, no process of its group
  remains and none can still be forked; a run that was rejected started nothing at all.  The exit code, the killed flag
  and the rejection reason are those of the outcome.\<close>
theorem process_group_is_gone:
  assumes "run_task (subprocess_host start environ cancelled_at) fs interval r policy ws w = Some (w', Ok res)"
  shows "outcome_consistent res \<and> (if rr_outcome res = ''rejected'' then w' = w else group_empty w')"
proof
  show "outcome_consistent res" by (rule run_task_consistent [OF assms])
  show "if rr_outcome res = ''rejected'' then w' = w else group_empty w'"
    using assms run_started_group
    by (fastforce simp: run_task_def rejected_def split: sum.splits list.splits if_splits)
qed

subsection \<open>What is started\<close>

text \<open>What the launcher may be asked to start: the command of a recipe the policy allows, unchanged but for a program found in
  the workspace, in the workspace, with nothing inherited in its environment but the allow-list.\<close>

definition may_start ::
  "'w task_host \<Rightarrow> ('w task_fs) option \<Rightarrow> task_recipe \<Rightarrow> task_policy \<Rightarrow> workspace \<Rightarrow> 'w \<Rightarrow>
     string list \<Rightarrow> string \<Rightarrow> string dict \<Rightarrow> bool" where
  "may_start h fs r policy ws w argv cwd env \<longleftrightarrow>
     validate_against r policy = Ok () \<and>
     is_ok (resolved_input_paths r ws (map_option (\<lambda>f. tf_realpath f w) fs)) \<and>
     tl argv = tl (tr_command r) \<and>
     (hd argv = hd (tr_command r) \<or>
        (\<exists>f. fs = Some f \<and> resolve_with (tf_realpath f w) ws (command_key (hd (tr_command r))) = Ok (hd argv))) \<and>
     cwd = ws_root ws \<and> map_of env ''HOME'' = Some (ws_root ws) \<and>
     (th_os_name h = ''posix'' \<longrightarrow> map_of env ''PATH'' = Some fixed_path \<and> fst ` set env \<subseteq> set safe_env_keys)"

definition guarded_host ::
  "'w task_host \<Rightarrow> (string list \<Rightarrow> string \<Rightarrow> string dict \<Rightarrow> bool) \<Rightarrow> 'w task_host" where
  "guarded_host h allowed =
     h\<lparr>th_spawn := \<lambda>argv cwd env w. if allowed argv cwd env then th_spawn h argv cwd env w else Err (Raise PyRuntimeError [])\<rparr>"

lemma guarded_host_sel [simp]:
  "th_os_name (guarded_host h p) = th_os_name h" "th_environ (guarded_host h p) = th_environ h"
  "th_used (guarded_host h p) = th_used h" "th_monotonic (guarded_host h p) = th_monotonic h"
  "th_sleep (guarded_host h p) = th_sleep h" "th_poll (guarded_host h p) = th_poll h"
  "th_kill_tree (guarded_host h p) = th_kill_tree h" "th_cancelled (guarded_host h p) = th_cancelled h"
  "th_stdout (guarded_host h p) = th_stdout h" "th_stderr (guarded_host h p) = th_stderr h"
  by (simp_all add: guarded_host_def)

lemma poll_turn_same:
  assumes "th_poll h' = th_poll h" and "th_monotonic h' = th_monotonic h" and "th_cancelled h' = th_cancelled h"
    and "th_kill_tree h' = th_kill_tree h"
  shows "poll_turn h' = poll_turn h"
  unfolding poll_turn_def assms ..

lemma poll_loop_same_Some:
  assumes "poll_turn h' = poll_turn h" and "th_sleep h' = th_sleep h"
    and "poll_loop h started timeout interval w = Some x"
  shows "poll_loop h' started timeout interval w = Some x"
proof -
  have "k = h \<longrightarrow> poll_loop h' started timeout interval w = Some x" if "poll_loop k started timeout interval w = Some x" for k
    by (rule poll_loop.raw_induct
        [where P = "\<lambda>k started timeout interval w x. k = h \<longrightarrow> poll_loop h' started timeout interval w = Some x", OF _ that])
      (subst poll_loop_unfold, auto simp: assms(1,2) split: prod.splits option.splits)
  with assms(3) show ?thesis by blast
qed

lemma poll_loop_same:
  assumes "poll_turn h' = poll_turn h" and "th_sleep h' = th_sleep h"
  shows "poll_loop h' started timeout interval w = poll_loop h started timeout interval w"
  using poll_loop_same_Some [OF assms] poll_loop_same_Some [OF assms [symmetric]]
  by (metis not_None_eq)

lemma run_started_guarded:
  assumes "allowed argv (ws_root ws) (dict_set ''HOME'' (ws_root ws) (build_task_env (th_os_name h) (th_environ h)))"
  shows "run_started (guarded_host h allowed) r ws interval argv w = run_started h r ws interval argv w"
proof -
  have loop: "poll_loop (guarded_host h allowed) = poll_loop h"
    by (intro ext poll_loop_same poll_turn_same) simp_all
  have spawn: "th_spawn (guarded_host h allowed) argv (ws_root ws)
      (dict_set ''HOME'' (ws_root ws) (build_task_env (th_os_name h) (th_environ h))) =
      th_spawn h argv (ws_root ws) (dict_set ''HOME'' (ws_root ws) (build_task_env (th_os_name h) (th_environ h)))"
    using assms by (intro ext) (simp add: guarded_host_def)
  show ?thesis
    unfolding run_started_def Let_def guarded_host_sel loop spawn ..
qed

lemma found_program:
  "find_program fs ws program w = Ok found \<Longrightarrow>
     found = program \<or> (\<exists>f. fs = Some f \<and> resolve_with (tf_realpath f w) ws (command_key program) = Ok found)"
  by (auto simp: find_program_def command_key_def Let_def and_then_Ok_iff config_error_def
      split: option.splits if_splits)

lemma task_env_home: "map_of (dict_set ''HOME'' d env) ''HOME'' = Some d"
  by simp

lemma task_env_posix:
  "map_of (dict_set ''HOME'' d (build_task_env ''posix'' src)) ''PATH'' = Some fixed_path"
  "fst ` set (dict_set ''HOME'' d (build_task_env ''posix'' src)) \<subseteq> set safe_env_keys"
  using posix_env_keys [of src] keys_dict_set [of "''HOME''" d "build_task_env ''posix'' src"]
  by (auto simp: build_task_env_def Let_def safe_env_keys_def)

text \<open>The launcher is only ever asked to start what the policy allows: a launcher that refuses everything but the
  validated command of the recipe, in its workspace, with HOME the workspace, the fixed PATH and no other variable than
  the allow-list (so no secret of the service), makes no difference to any run.\<close>
theorem launcher_starts_only_what_is_allowed:
  "run_task (guarded_host h (may_start h fs r policy ws w)) fs interval r policy ws w = run_task h fs interval r policy ws w"
proof -
  have "run_started (guarded_host h (may_start h fs r policy ws w)) r ws interval (found # args) w =
      run_started h r ws interval (found # args) w"
    if "and_then (validate_against r policy)
          (\<lambda>_. resolved_input_paths r ws (map_option (\<lambda>f. tf_realpath f w) fs)) = Ok ps"
      and "tr_command r = program # args" and "find_program fs ws program w = Ok found" for ps program args found
    by (rule run_started_guarded)
      (use that found_program [OF that(3)] task_env_posix [of "ws_root ws" "th_environ h"] in
        \<open>auto simp: may_start_def and_then_Ok_iff\<close>)
  then show ?thesis
    by (auto simp: run_task_def split: sum.splits list.splits)
qed

subsection \<open>One run\<close>

definition sample_kernel :: kernel where
  "sample_kernel argv cwd env =
     Ok (\<lparr>pr_ends = Some 1, pr_code = 0, pr_heeds_term = True\<rparr>,
         [(1, \<lparr>pr_ends = None, pr_code = 0, pr_heeds_term = False\<rparr>)], [''all passed''], [])"

definition idle_world :: proc_world where
  "idle_world = \<lparr>pw_now = 0, pw_child = Inr 0, pw_rest = [], pw_forks = [], pw_reaped = True, pw_out = [], pw_err = []\<rparr>"

abbreviation sample_host :: "proc_world task_host" where
  "sample_host \<equiv> subprocess_host sample_kernel [(''PATH'', ''/x''), (''API_TOKEN'', ''s'')] (\<lambda>_. False)"

lemma run_task_always_returns_witness:
  "\<exists>w' res. run_task sample_host None 1 sample_recipe pytest_policy sample_ws idle_world = Some (w', res)"
  by (rule run_task_always_returns) simp

definition after_run :: proc_world where
  "after_run = \<lparr>pw_now = 1, pw_child = Inr 0, pw_rest = [], pw_forks = [], pw_reaped = True, pw_out = [''all passed''], pw_err = []\<rparr>"

definition sample_result :: run_result where
  "sample_result = \<lparr>rr_task_id = ''t1'', rr_outcome = ''completed'', rr_exit_code = Some 0, rr_duration = 1,
     rr_stdout_tail = ''all passed'', rr_stderr_tail = [], rr_rejection_reason = None, rr_killed_group = False,
     rr_sandbox = ''none''\<rparr>"

definition spawned_world :: proc_world where
  "spawned_world = \<lparr>pw_now = 0, pw_child = Inl \<lparr>pr_ends = Some 1, pr_code = 0, pr_heeds_term = True\<rparr>, pw_rest = [],
     pw_forks = [(1, \<lparr>pr_ends = None, pr_code = 0, pr_heeds_term = False\<rparr>)], pw_reaped = False,
     pw_out = [''all passed''], pw_err = []\<rparr>"

lemma sample_loop:
  "poll_loop sample_host 0 300 1 spawned_world = Some ((''completed'', Some 0, False), after_run)"
proof -
  have "poll_turn sample_host 0 300 spawned_world = (None, spawned_world)"
    by (simp add: poll_turn_def subprocess_host_def handle_poll_def proc_poll_def spawned_world_def)
  moreover have "poll_turn sample_host 0 300 (pw_sleep 1 spawned_world) = (Some (''completed'', Some 0, False), after_run)"
    by (simp add: poll_turn_def subprocess_host_def handle_poll_def proc_poll_def spawned_world_def after_run_def
        pw_sleep_def ended_def drain_handle_def kill_group_def)
  moreover have "th_sleep sample_host = pw_sleep" by (simp add: subprocess_host_def)
  ultimately show ?thesis
    by (subst poll_loop_unfold, simp) (subst poll_loop_unfold, simp)
qed

lemma sample_task_run:
  "run_task sample_host None 1 sample_recipe pytest_policy sample_ws idle_world = Some (after_run, Ok sample_result)"
proof -
  have "resolved_input_paths sample_recipe sample_ws None = Ok []"
    and "tr_command sample_recipe = [''pytest'', ''-q'', ''tests'']"
    and "tr_timeout sample_recipe = 300" and "tr_task_id sample_recipe = ''t1''"
    by (simp_all add: resolved_input_paths_def sample_recipe_def)
  moreover have "th_spawn sample_host argv cwd env idle_world = Ok spawned_world" for argv cwd env
    by (simp add: subprocess_host_def spawn_process_def sample_kernel_def idle_world_def spawned_world_def)
  moreover have "th_monotonic sample_host v = (pw_now v, v)" "th_used sample_host = ''none''"
      "th_stdout sample_host after_run = ''all passed''" "th_stderr sample_host after_run = []" for v
    by (simp_all add: subprocess_host_def after_run_def tail_is_last tail_bytes_def last_chars_def)
  moreover have "pw_now idle_world = 0" "pw_now after_run = 1" by (simp_all add: idle_world_def after_run_def)
  ultimately show ?thesis
    by (simp add: run_task_def sample_recipe_passes find_program_def run_started_def sample_loop sample_result_def)
qed

lemma process_group_is_gone_witness: "outcome_consistent sample_result \<and> group_empty after_run"
  using process_group_is_gone [OF sample_task_run] by (simp add: sample_result_def)

end
