(* ===== verification/Sandbox.thy ===== *)
theory Sandbox
  imports Runner_Proofs
begin

text \<open>
  \<open>sandbox.py\<close>: which sandbox a host has, the command lines of \<open>bwrap\<close> and \<open>systemd-run\<close>, and the launcher that
  wraps every command.  \<open>shutil.which\<close>, \<open>os.path.exists\<close> and \<open>os.geteuid\<close> are arguments.
\<close>

subsection \<open>Which sandbox\<close>

record sandbox_spec =
  sp_mode :: string
  sp_network :: bool
  sp_read_only_paths :: "string list"
  sp_required :: bool
  sp_memory_max :: "string option"
  sp_cpu_quota :: "string option"
  sp_tasks_max :: "int option"

definition sandbox_mode_names :: "string list" where
  "sandbox_mode_names = [''auto'', ''bubblewrap'', ''systemd-run'', ''none'']"

definition unavailable :: "msg \<Rightarrow> 'a result" where
  "unavailable m = Err (Raise SandboxUnavailableError [m])"

definition detect_sandbox :: "(string \<Rightarrow> bool) \<Rightarrow> string \<Rightarrow> string \<Rightarrow> string result" where
  "detect_sandbox which os_name mode =
     (if mode \<notin> set sandbox_mode_names then
        config_error [Msg ''sandbox must be one of {}, not {}'' [JArr (map JStr sandbox_mode_names), JStr mode]]
      else if mode = ''none'' then Ok ''none''
      else if os_name \<noteq> ''posix'' then
        (if mode = ''auto'' then Ok ''none'' else unavailable (Msg ''the sandbox {} needs a Linux host'' [JStr mode]))
      else if (mode = ''auto'' \<or> mode = ''bubblewrap'') \<and> which ''bwrap'' then Ok ''bubblewrap''
      else if (mode = ''auto'' \<or> mode = ''systemd-run'') \<and> which ''systemd-run'' then Ok ''systemd-run''
      else if mode = ''auto'' then Ok ''none''
      else unavailable (Msg ''the sandbox {} was asked for but its program is not installed'' [JStr mode]))"

subsection \<open>bubblewrap\<close>

definition system_ro_dirs :: "string list" where
  "system_ro_dirs = [''/usr'', ''/bin'', ''/sbin'', ''/lib'', ''/lib32'', ''/lib64'', ''/opt'']"

definition system_ro_files :: "string list" where
  "system_ro_files = [''/etc/alternatives'', ''/etc/ld.so.cache'', ''/etc/ld.so.conf'', ''/etc/ld.so.conf.d'',
     ''/etc/ssl'', ''/etc/ca-certificates'']"

definition network_ro_files :: "string list" where
  "network_ro_files = [''/etc/resolv.conf'', ''/etc/hosts'', ''/etc/nsswitch.conf'']"

definition ro_bind :: "string \<Rightarrow> string list" where
  "ro_bind p = [''--ro-bind'', p, p]"

text \<open>\<open>for key in sorted(env)\<close>.\<close>

definition env_values :: "string dict \<Rightarrow> (string \<times> string) list" where
  "env_values env = sorted_items env"

definition bubblewrap_argv ::
  "(string \<Rightarrow> bool) \<Rightarrow> sandbox_spec \<Rightarrow> string list \<Rightarrow> string \<Rightarrow> string dict \<Rightarrow> string list" where
  "bubblewrap_argv path_exists spec argv cwd env =
     [''bwrap'', ''--die-with-parent'', ''--new-session'', ''--unshare-all''] @
     (if sp_network spec then [''--share-net''] else []) @
     concat (map ro_bind (filter path_exists
       (system_ro_dirs @ system_ro_files @ (if sp_network spec then network_ro_files else [])))) @
     concat (map ro_bind (sp_read_only_paths spec)) @
     [''--proc'', ''/proc'', ''--dev'', ''/dev'', ''--tmpfs'', ''/tmp''] @
     [''--bind'', cwd, cwd, ''--chdir'', cwd, ''--clearenv''] @
     concat (map (\<lambda>(k, v). [''--setenv'', k, v]) (env_values env)) @
     [''--''] @ argv"

subsection \<open>systemd-run\<close>

definition hidden_by_protect_home :: "string list" where
  "hidden_by_protect_home = [''/home'', ''/root'', ''/run/user'']"

definition is_hidden :: "string \<Rightarrow> string \<Rightarrow> bool" where
  "is_hidden cwd hidden = (cwd = hidden \<or> startswith cwd (hidden @ ''/''))"

definition truthy :: "string option \<Rightarrow> bool" where
  "truthy s = (case s of None \<Rightarrow> False | Some t \<Rightarrow> t \<noteq> [])"

definition unit_properties :: "sandbox_spec \<Rightarrow> string \<Rightarrow> string list" where
  "unit_properties spec cwd =
     [''ProtectHome=yes'', ''ProtectSystem=strict'', ''PrivateTmp=yes'', ''PrivateDevices=yes'', ''NoNewPrivileges=yes'',
      ''ProtectKernelTunables=yes'', ''ProtectControlGroups=yes'', ''ReadWritePaths='' @ cwd, ''BindPaths='' @ cwd] @
     (if sp_read_only_paths spec \<noteq> [] then [''ReadOnlyPaths='' @ join_with '' '' (sp_read_only_paths spec)] else []) @
     (if \<not> sp_network spec then [''PrivateNetwork=yes''] else []) @
     (if truthy (sp_memory_max spec) then [''MemoryMax='' @ the (sp_memory_max spec), ''MemorySwapMax=0''] else []) @
     (if truthy (sp_cpu_quota spec) then [''CPUQuota='' @ the (sp_cpu_quota spec)] else []) @
     (case sp_tasks_max spec of None \<Rightarrow> [] | Some n \<Rightarrow> if n = 0 then [] else [''TasksMax='' @ int_str n])"

definition systemd_run_argv ::
  "bool \<Rightarrow> sandbox_spec \<Rightarrow> string list \<Rightarrow> string \<Rightarrow> string dict \<Rightarrow> string list result" where
  "systemd_run_argv is_superuser spec argv cwd env =
     (case find (is_hidden cwd) hidden_by_protect_home of
        Some hidden \<Rightarrow> unavailable (Msg ''the workspace {} is under {}, which the systemd-run sandbox hides (ProtectHome)''
          [JStr cwd, JStr hidden])
      | None \<Rightarrow> Ok
          ([''systemd-run''] @ (if \<not> is_superuser then [''--user''] else []) @
           [''--pipe'', ''--wait'', ''--collect'', ''--quiet'', ''--working-directory='' @ cwd] @
           concat (map (\<lambda>p. [''-p'', p]) (unit_properties spec cwd)) @
           map (\<lambda>(k, v). ''--setenv='' @ k @ ''='' @ v) (env_values env) @
           [''--''] @ argv))"

subsection \<open>The launcher\<close>

definition new_sandboxed_launcher :: "(string \<Rightarrow> bool) \<Rightarrow> string \<Rightarrow> sandbox_spec \<Rightarrow> string result" where
  "new_sandboxed_launcher which os_name spec =
     and_then (detect_sandbox which os_name (sp_mode spec)) (\<lambda>used.
       if sp_required spec \<and> used = ''none'' then
         unavailable (Msg ''the task policy requires a sandbox and this host has neither bubblewrap nor systemd-run'' [])
       else Ok used)"

record sandbox_host =
  sh_exists :: "string \<Rightarrow> bool"
  sh_superuser :: bool

definition wrapper_env :: "string dict \<Rightarrow> string dict" where
  "wrapper_env environ =
     [(''PATH'', case map_of environ ''PATH'' of Some p \<Rightarrow> p | None \<Rightarrow> ''/usr/local/bin:/usr/bin:/bin'')]"

text \<open>\<open>SandboxedLauncher.spawn\<close> over the launcher of the host below.\<close>

definition sandboxed :: "sandbox_host \<Rightarrow> sandbox_spec \<Rightarrow> string \<Rightarrow> 'w task_host \<Rightarrow> 'w task_host" where
  "sandboxed sh spec used h =
     h\<lparr>th_used := used,
       th_spawn := \<lambda>argv cwd env w.
         if used = ''bubblewrap'' then
           th_spawn h (bubblewrap_argv (sh_exists sh) spec argv cwd env) cwd (wrapper_env (th_environ h)) w
         else if used = ''systemd-run'' then
           and_then (systemd_run_argv (sh_superuser sh) spec argv cwd env) (\<lambda>wrapped.
             th_spawn h wrapped cwd (wrapper_env (th_environ h)) w)
         else th_spawn h argv cwd env w\<rparr>"

subsection \<open>Reading a bubblewrap command line\<close>

text \<open>
  The command line as its options are read, with the number of arguments each takes: an abstract account of what
  the line asks for, against which the builder is proved.
\<close>

datatype bwrap_option =
    Switch string | Read_only string string | Writable string string | Special string string
  | Work_dir string | Set_env string string

fun read_bwrap :: "string list \<Rightarrow> (bwrap_option list \<times> string list) option" where
  "read_bwrap [] = None"
| "read_bwrap (opt # rest) =
     (if opt = ''--'' then Some ([], rest)
      else if opt \<in> {''--die-with-parent'', ''--new-session'', ''--unshare-all'', ''--share-net'', ''--clearenv''} then
        map_option (\<lambda>(os, c). (Switch opt # os, c)) (read_bwrap rest)
      else (case rest of
        [] \<Rightarrow> None
      | a # rest1 \<Rightarrow>
          if opt \<in> {''--proc'', ''--dev'', ''--tmpfs''} then map_option (\<lambda>(os, c). (Special opt a # os, c)) (read_bwrap rest1)
          else if opt = ''--chdir'' then map_option (\<lambda>(os, c). (Work_dir a # os, c)) (read_bwrap rest1)
          else (case rest1 of
            [] \<Rightarrow> None
          | b # rest2 \<Rightarrow>
              if opt = ''--ro-bind'' then map_option (\<lambda>(os, c). (Read_only a b # os, c)) (read_bwrap rest2)
              else if opt = ''--bind'' then map_option (\<lambda>(os, c). (Writable a b # os, c)) (read_bwrap rest2)
              else if opt = ''--setenv'' then map_option (\<lambda>(os, c). (Set_env a b # os, c)) (read_bwrap rest2)
              else None)))"

lemma read_ro_binds:
  "read_bwrap (concat (map ro_bind ps) @ rest) =
     map_option (\<lambda>(os, c). (map (\<lambda>p. Read_only p p) ps @ os, c)) (read_bwrap rest)"
  by (induction ps) (auto simp: ro_bind_def option.map_comp comp_def case_prod_beta map_option.id [unfolded id_def])

lemma read_setenvs:
  "read_bwrap (concat (map (\<lambda>(k, v). [''--setenv'', k, v]) kvs) @ rest) =
     map_option (\<lambda>(os, c). (map (\<lambda>(k, v). Set_env k v) kvs @ os, c)) (read_bwrap rest)"
  by (induction kvs) (auto simp: option.map_comp comp_def case_prod_beta map_option.id [unfolded id_def])

definition ro_paths :: "(string \<Rightarrow> bool) \<Rightarrow> sandbox_spec \<Rightarrow> string list" where
  "ro_paths path_exists spec =
     filter path_exists (system_ro_dirs @ system_ro_files @ (if sp_network spec then network_ro_files else [])) @
     sp_read_only_paths spec"

text \<open>C19: Whatever the strings in it (paths, variables or arguments that look like options), the bubblewrap command line is read
  back as: everything unshared, the network shared only if the policy opens it, the system paths read-only, an empty
  /tmp, the workspace the one writable place and the working directory, exactly the given environment, and the command
  of the task unchanged.\<close>
theorem bubblewrap_line_reads_as_asked:
  "read_bwrap (tl (bubblewrap_argv path_exists spec argv cwd env)) = Some
     (map Switch ([''--die-with-parent'', ''--new-session'', ''--unshare-all''] @ (if sp_network spec then [''--share-net''] else [])) @
      map (\<lambda>p. Read_only p p) (ro_paths path_exists spec) @
      [Special ''--proc'' ''/proc'', Special ''--dev'' ''/dev'', Special ''--tmpfs'' ''/tmp'', Writable cwd cwd, Work_dir cwd,
       Switch ''--clearenv''] @
      map (\<lambda>(k, v). Set_env k v) (sorted_items env), argv)"
  by (simp add: bubblewrap_argv_def ro_paths_def env_values_def read_ro_binds read_setenvs)

subsection \<open>Nothing starts outside the sandbox\<close>

definition wrapped_line :: "sandbox_host \<Rightarrow> sandbox_spec \<Rightarrow> string list \<Rightarrow> string \<Rightarrow> bool" where
  "wrapped_line sh spec line cwd \<longleftrightarrow>
     (\<exists>argv env. line = bubblewrap_argv (sh_exists sh) spec argv cwd env \<or>
        systemd_run_argv (sh_superuser sh) spec argv cwd env = Ok line)"

lemma detect_sandbox_named:
  "detect_sandbox which os_name mode = Ok used \<Longrightarrow>
     (mode \<noteq> ''auto'' \<longrightarrow> used = mode) \<and>
     (used = ''none'' \<or> os_name = ''posix'' \<and>
        (used = ''bubblewrap'' \<and> which ''bwrap'' \<or> used = ''systemd-run'' \<and> which ''systemd-run''))"
  by (auto simp: detect_sandbox_def sandbox_mode_names_def unavailable_def config_error_def split: if_splits)

lemma sandboxed_wraps:
  assumes "used = ''bubblewrap'' \<or> used = ''systemd-run''"
  shows "sandboxed sh spec used (guarded_host h (\<lambda>line cwd env. wrapped_line sh spec line cwd)) = sandboxed sh spec used h"
proof -
  have "th_spawn (guarded_host h (\<lambda>line cwd env. wrapped_line sh spec line cwd)) line cwd env w = th_spawn h line cwd env w"
    if "wrapped_line sh spec line cwd" for line cwd env w
    using that by (simp add: guarded_host_def)
  moreover have "wrapped_line sh spec (bubblewrap_argv (sh_exists sh) spec argv cwd env) cwd" for argv cwd env
    by (auto simp: wrapped_line_def)
  moreover have "wrapped_line sh spec line cwd"
    if "systemd_run_argv (sh_superuser sh) spec argv cwd env = Ok line" for argv cwd env line
    using that by (auto simp: wrapped_line_def)
  ultimately have spawn: "th_spawn (sandboxed sh spec used (guarded_host h (\<lambda>line cwd env. wrapped_line sh spec line cwd))) argv cwd env w =
      th_spawn (sandboxed sh spec used h) argv cwd env w" for argv cwd env w
    using assms by (cases "systemd_run_argv (sh_superuser sh) spec argv cwd env") (auto simp: sandboxed_def)
  show ?thesis
  proof (rule task_host.equality)
    show "th_spawn (sandboxed sh spec used (guarded_host h (\<lambda>line cwd env. wrapped_line sh spec line cwd))) =
        th_spawn (sandboxed sh spec used h)"
      by (intro ext) (rule spawn)
  qed (simp_all add: sandboxed_def)
qed

text \<open>C20: A policy that requires a sandbox gets one: the launcher is made only when the sandbox found (the one named, or for
  auto one that is installed) is real, and then no run of any task reaches the operating system except through its
  command line; a launcher below that refuses every other line makes no difference.\<close>
theorem nothing_starts_outside_the_sandbox:
  assumes "new_sandboxed_launcher which os_name spec = Ok used" and "sp_required spec"
  shows "(used = ''bubblewrap'' \<and> which ''bwrap'' \<or> used = ''systemd-run'' \<and> which ''systemd-run'') \<and>
    (sp_mode spec \<noteq> ''auto'' \<longrightarrow> used = sp_mode spec) \<and>
    run_task (sandboxed sh spec used (guarded_host h (\<lambda>line cwd env. wrapped_line sh spec line cwd))) fs interval r policy ws w =
      run_task (sandboxed sh spec used h) fs interval r policy ws w"
proof -
  have "detect_sandbox which os_name (sp_mode spec) = Ok used" and "used \<noteq> ''none''"
    using assms by (auto simp: new_sandboxed_launcher_def unavailable_def and_then_Ok_iff split: if_splits)
  with detect_sandbox_named [OF this(1)]
  have "used = ''bubblewrap'' \<and> which ''bwrap'' \<or> used = ''systemd-run'' \<and> which ''systemd-run''"
    and "sp_mode spec \<noteq> ''auto'' \<longrightarrow> used = sp_mode spec" by blast+
  then show ?thesis by (metis sandboxed_wraps)
qed

definition strict_spec :: sandbox_spec where
  "strict_spec = \<lparr>sp_mode = ''auto'', sp_network = False, sp_read_only_paths = [], sp_required = True,
     sp_memory_max = None, sp_cpu_quota = None, sp_tasks_max = None\<rparr>"

lemma nothing_starts_outside_the_sandbox_witness:
  "new_sandboxed_launcher (\<lambda>p. p = ''systemd-run'') ''posix'' strict_spec = Ok ''systemd-run'' \<and>
   run_task (sandboxed \<lparr>sh_exists = \<lambda>_. True, sh_superuser = False\<rparr> strict_spec ''systemd-run''
       (guarded_host sample_host
         (\<lambda>line cwd env. wrapped_line \<lparr>sh_exists = \<lambda>_. True, sh_superuser = False\<rparr> strict_spec line cwd)))
     None 1 sample_recipe pytest_policy sample_ws idle_world =
   run_task (sandboxed \<lparr>sh_exists = \<lambda>_. True, sh_superuser = False\<rparr> strict_spec ''systemd-run'' sample_host)
     None 1 sample_recipe pytest_policy sample_ws idle_world"
proof -
  have made: "new_sandboxed_launcher (\<lambda>p. p = ''systemd-run'') ''posix'' strict_spec = Ok ''systemd-run''"
    by (simp add: new_sandboxed_launcher_def detect_sandbox_def strict_spec_def sandbox_mode_names_def)
  show ?thesis
    using nothing_starts_outside_the_sandbox [OF made] made by (simp add: strict_spec_def)
qed

text \<open>A workspace that \<open>ProtectHome\<close> would hide is refused, and the refusal is not one that \<open>run_task\<close> turns into a
  rejected result: it is raised to the caller.\<close>

lemma hidden_workspace_raises:
  assumes "validate_against r policy = Ok ()" and "tr_input_paths r = []" and "tr_command r = program # args"
    and "is_hidden (ws_root ws) ''/home''" and "th_os_name h = ''posix''"
  shows "\<exists>w' m. run_task (sandboxed sh spec ''systemd-run'' h) None interval r policy ws w =
    Some (w', Err (Raise SandboxUnavailableError [m]))"
  using assms
  by (auto simp: run_task_def resolved_input_paths_def find_program_def run_started_def Let_def sandboxed_def
      systemd_run_argv_def hidden_by_protect_home_def unavailable_def split: prod.splits)

end
