(* ===== verification/Taskflow.thy ===== *)
theory Taskflow
  imports Sandbox
begin

text \<open>
  \<open>taskflow.py\<close>: staging a repository at its pinned revision (git is an operation on a state \<open>'w\<close>), the lock files of
  the concurrency gate (the directory is a dictionary from file names to texts, a process is its pid), and the end of a
  workspace.
\<close>

subsection \<open>Staging\<close>

definition staging_error :: "msg \<Rightarrow> 'a result" where
  "staging_error m = Err (Raise StagingError [m])"

text \<open>\<open>run\<close>: the exit code and the output of a git command, or an exception.\<close>

type_synonym 'w git_runner = "string list \<Rightarrow> string \<Rightarrow> string dict \<Rightarrow> nat \<Rightarrow> 'w \<Rightarrow> 'w \<times> (int \<times> string) result"

definition git_environment :: "string dict \<Rightarrow> string \<Rightarrow> string dict" where
  "git_environment environ root_dir =
     fold (\<lambda>key env. case map_of environ key of None \<Rightarrow> env | Some v \<Rightarrow> dict_set key v env) [''SYSTEMROOT'', ''TEMP'', ''TMP'']
       [(''PATH'', case map_of environ ''PATH'' of Some p \<Rightarrow> p | None \<Rightarrow> ''/usr/local/bin:/usr/bin:/bin''),
        (''HOME'', root_dir), (''GIT_TERMINAL_PROMPT'', ''0''), (''GIT_CONFIG_NOSYSTEM'', ''1''),
        (''GIT_CONFIG_GLOBAL'', ''/dev/null''), (''GIT_ALLOW_PROTOCOL'', ''file:https''), (''LANG'', ''C'')]"

definition fetch_ref :: "string \<Rightarrow> string" where
  "fetch_ref revision =
     (if startswith revision ''refs/'' \<or> match_dollar hex_revision_rx revision then revision
      else ''refs/tags/'' @ revision)"

definition staging_steps :: "string \<Rightarrow> string \<Rightarrow> string list list" where
  "staging_steps source revision =
     [[''git'', ''init'', ''-q''],
      [''git'', ''fetch'', ''-q'', ''--depth'', ''1'', ''--no-tags'', ''--no-recurse-submodules'', source, fetch_ref revision],
      [''git'', ''-c'', ''advice.detachedHead=false'', ''checkout'', ''-q'', ''--detach'', ''FETCH_HEAD'']]"

fun run_steps :: "('w \<Rightarrow> string list \<Rightarrow> 'w \<times> (int \<times> string) result) \<Rightarrow> string list list \<Rightarrow> 'w \<Rightarrow> 'w \<times> unit result" where
  "run_steps run [] w = (w, Ok ())"
| "run_steps run (argv # steps) w =
     (case run w argv of
        (w1, Inl e) \<Rightarrow> (w1, Inl e)
      | (w1, Inr (code, out)) \<Rightarrow>
          if code \<noteq> 0 then (w1, staging_error (Msg ''{} failed ({}): {}''
             [JStr (join_with '' '' (take 2 argv)), JInt code, JStr (last_chars 300 out)]))
          else run_steps run steps w1)"

definition commit_rx :: rx where
  "commit_rx = rx_between 40 64 (RSet is_lower_hex)"

definition stage_repo ::
  "string dict \<Rightarrow> 'w git_runner \<Rightarrow> string \<Rightarrow> string \<Rightarrow> string \<Rightarrow> 'w \<Rightarrow> 'w \<times> string result" where
  "stage_repo environ git root_dir source revision w =
     (let run = (\<lambda>w argv. git argv root_dir (git_environment environ root_dir) 600 w) in
      case run_steps run (staging_steps source revision) w of
        (w1, Inl e) \<Rightarrow> (w1, Inl e)
      | (w1, Inr _) \<Rightarrow>
          (case run w1 [''git'', ''rev-parse'', ''HEAD''] of
             (w2, Inl e) \<Rightarrow> (w2, Inl e)
           | (w2, Inr (code, head)) \<Rightarrow>
               (let commit = lower_str (strip head) in
                if code \<noteq> 0 \<or> \<not> fullmatch commit_rx commit then
                  (w2, staging_error (Msg ''git did not report the checked-out commit'' []))
                else if match_dollar hex_revision_rx revision \<and> \<not> startswith commit (lower_str revision) then
                  (w2, staging_error (Msg ''the checked-out commit {} is not the pinned revision {}''
                    [JStr (take 12 commit), JStr revision]))
                else (w2, Ok commit))))"

subsection \<open>Integers in text\<close>

text \<open>\<open>int(text)\<close>: digits with single underscores between them, a sign and white space around
  (and no more than 4300 digits).\<close>

fun digits_int :: "nat \<Rightarrow> bool \<Rightarrow> string \<Rightarrow> nat option" where
  "digits_int acc seen [] = (if seen then Some acc else None)"
| "digits_int acc seen (c # cs) =
     (if is_digit c then digits_int (10 * acc + (of_char c - 48)) True cs
      else if c = CHR ''_'' \<and> seen \<and> cs \<noteq> [] \<and> is_digit (hd cs) then digits_int acc False cs
      else None)"

definition py_int :: "string \<Rightarrow> int option" where
  "py_int s = (case strip s of
     [] \<Rightarrow> None
   | c # cs \<Rightarrow>
       if length (filter is_digit (c # cs)) > 4300 then None
       else if c = CHR ''-'' then map_option (\<lambda>n. - int n) (digits_int 0 False cs)
       else if c = CHR ''+'' then map_option int (digits_int 0 False cs)
       else map_option int (digits_int 0 False (c # cs)))"

subsection \<open>The concurrency gate\<close>

definition too_many :: "msg \<Rightarrow> 'a result" where
  "too_many m = Err (Raise TooManyTasksError [m])"

definition lock_name :: "string \<Rightarrow> string" where
  "lock_name task_id = task_id @ ''.lock''"

definition lock_pid :: "string \<Rightarrow> int" where
  "lock_pid text =
     (if list_ex (\<lambda>c. (of_char c :: nat) \<ge> 128) text then 0
      else (case py_int (if strip text = [] then ''0'' else strip text) of None \<Rightarrow> 0 | Some n \<Rightarrow> n))"

text \<open>\<open>_live_locks\<close>: the locks of running processes, and the directory without the others.\<close>

definition is_dead :: "(int \<Rightarrow> bool) \<Rightarrow> string \<times> string \<Rightarrow> bool" where
  "is_dead alive e = (endswith (fst e) ''.lock'' \<and> \<not> alive (lock_pid (snd e)))"

definition live_locks :: "(int \<Rightarrow> bool) \<Rightarrow> string dict \<Rightarrow> string list \<times> string dict" where
  "live_locks alive d =
     (let d1 = filter (\<lambda>e. \<not> is_dead alive e) d
      in (map fst (filter (\<lambda>e. endswith (fst e) ''.lock'') d1), d1))"

text \<open>\<open>_pid_alive\<close> on a POSIX host, where \<open>kill(pid, 0)\<close> succeeds, or fails for want of a process or of permission.\<close>

datatype kill_answer = Kill_ok | No_such_process | Not_permitted

definition pid_alive :: "(int \<Rightarrow> kill_answer) \<Rightarrow> int \<Rightarrow> bool" where
  "pid_alive kill_zero pid =
     (if pid \<le> 0 then False
      else (case kill_zero pid of Kill_ok \<Rightarrow> True | No_such_process \<Rightarrow> False | Not_permitted \<Rightarrow> True))"

text \<open>\<open>hold\<close> up to its \<open>yield\<close>, in the three system calls it makes: count the locks, create the file, write the pid.\<close>

definition gate_count :: "(int \<Rightarrow> bool) \<Rightarrow> int \<Rightarrow> string dict \<Rightarrow> string dict \<times> unit result" where
  "gate_count alive limit d =
     (let (live, d1) = live_locks alive d in
      if int (length live) \<ge> limit then
        (d1, too_many (Msg ''{} task(s) are already running (max_concurrent_tasks); try again when one finishes'' [JInt limit]))
      else (d1, Ok ()))"

definition gate_create :: "string \<Rightarrow> string dict \<Rightarrow> string dict \<times> unit result" where
  "gate_create task_id d =
     (if map_of d (lock_name task_id) \<noteq> None then (d, too_many (Msg ''task {} is already running'' [JStr task_id]))
      else (dict_set (lock_name task_id) [] d, Ok ()))"

definition gate_write :: "string \<Rightarrow> int \<Rightarrow> string dict \<Rightarrow> string dict" where
  "gate_write task_id pid d = map (\<lambda>(n, t). (n, if n = lock_name task_id then int_str pid else t)) d"

definition gate_enter :: "(int \<Rightarrow> bool) \<Rightarrow> int \<Rightarrow> int \<Rightarrow> string \<Rightarrow> string dict \<Rightarrow> string dict \<times> unit result" where
  "gate_enter alive limit pid task_id d =
     (case gate_count alive limit d of
        (d1, Inl e) \<Rightarrow> (d1, Inl e)
      | (d1, Inr _) \<Rightarrow>
          (case gate_create task_id d1 of
             (d2, Inl e) \<Rightarrow> (d2, Inl e)
           | (d2, Inr _) \<Rightarrow> (gate_write task_id pid d2, Ok ())))"

text \<open>The end of \<open>hold\<close>: the lock file is removed.\<close>

definition gate_exit :: "string \<Rightarrow> string dict \<Rightarrow> string dict" where
  "gate_exit task_id d = filter (\<lambda>e. fst e \<noteq> lock_name task_id) d"

subsection \<open>The end of a workspace\<close>

record 'w tree_ops =
  to_resolve :: "'w \<Rightarrow> string \<Rightarrow> string"
  to_is_symlink :: "'w \<Rightarrow> string \<Rightarrow> bool"
  to_is_dir :: "'w \<Rightarrow> string \<Rightarrow> bool"
  to_rmtree :: "string \<Rightarrow> 'w \<Rightarrow> 'w"

definition path_join :: "string \<Rightarrow> string \<Rightarrow> string" where
  "path_join p q = (if startswith q ''/'' then q else p @ ''/'' @ q)"

definition remove_workspace :: "'w tree_ops \<Rightarrow> string \<Rightarrow> string \<Rightarrow> 'w \<Rightarrow> 'w \<times> bool" where
  "remove_workspace t base task_id w =
     (let parent = to_resolve t w base; target = path_join parent task_id in
      if to_is_symlink t w target \<or> \<not> to_is_dir t w target \<or> dirname (to_resolve t w target) \<noteq> parent then (w, False)
      else (to_rmtree t target w, True))"

definition should_remove :: "string \<Rightarrow> bool \<Rightarrow> bool" where
  "should_remove retention completed_ok \<longleftrightarrow> retention = ''delete'' \<or> (retention = ''delete-on-success'' \<and> completed_ok)"

subsection \<open>What a staged commit is\<close>

text \<open>Staging pins the revision: a commit is returned only after git initialised the workspace, fetched exactly the
  requested ref and checked it out, each with success; the commit is a full lower-case hash, and when the recipe pinned
  a hash it starts with that hash.\<close>
theorem staged_commit_is_the_pinned_one:
  assumes "stage_repo environ git root_dir source revision w = (w', Ok commit)"
  shows "fullmatch commit_rx commit \<and>
    (match_dollar hex_revision_rx revision \<longrightarrow> startswith commit (lower_str revision)) \<and>
    (\<exists>w1 w2 w3 o1 o2 o3 head. let run = (\<lambda>argv. git argv root_dir (git_environment environ root_dir) 600) in
       run [''git'', ''init'', ''-q''] w = (w1, Ok (0, o1)) \<and>
       run [''git'', ''fetch'', ''-q'', ''--depth'', ''1'', ''--no-tags'', ''--no-recurse-submodules'', source, fetch_ref revision] w1 =
         (w2, Ok (0, o2)) \<and>
       run [''git'', ''-c'', ''advice.detachedHead=false'', ''checkout'', ''-q'', ''--detach'', ''FETCH_HEAD''] w2 = (w3, Ok (0, o3)) \<and>
       run [''git'', ''rev-parse'', ''HEAD''] w3 = (w', Ok (0, head)) \<and> commit = lower_str (strip head))"
  using assms
  by (auto simp: stage_repo_def staging_steps_def staging_error_def Let_def split: prod.splits sum.splits if_splits)

definition obliging_git :: "unit git_runner" where
  "obliging_git argv cwd env timeout w = (w, Ok (0, replicate 40 (CHR ''a'')))"

lemma staged_commit_is_the_pinned_one_witness:
  "startswith (replicate 40 (CHR ''a'')) (lower_str ''AAAAAAA'') \<and>
   stage_repo [] obliging_git ''/srv/ws/t1'' ''https://example.org/r.git'' ''AAAAAAA'' () = ((), Ok (replicate 40 (CHR ''a'')))"
proof -
  have staged: "stage_repo [] obliging_git ''/srv/ws/t1'' ''https://example.org/r.git'' ''AAAAAAA'' () = ((), Ok (replicate 40 (CHR ''a'')))"
    and "match_dollar hex_revision_rx ''AAAAAAA''"
    by code_simp+
  with staged_commit_is_the_pinned_one [OF staged] show ?thesis by blast
qed

subsection \<open>The limit of the gate\<close>

definition running :: "(int \<Rightarrow> bool) \<Rightarrow> string dict \<Rightarrow> (string \<times> string) list" where
  "running alive d = filter (\<lambda>e. endswith (fst e) ''.lock'' \<and> alive (lock_pid (snd e))) d"

text \<open>
  The calls of any number of processes, each \<open>hold\<close> entered in one piece.  Processes die and are born between the calls
  (\<open>alive'\<close>); no pid is used again while a lock with it is still there.
\<close>

inductive gate_reach :: "int \<Rightarrow> (int \<Rightarrow> bool) \<Rightarrow> string dict \<Rightarrow> bool" for limit :: int where
  start: "gate_reach limit alive []"
| enter: "gate_reach limit alive d \<Longrightarrow> gate_reach limit alive (fst (gate_enter alive limit pid task_id d))"
| leave: "gate_reach limit alive d \<Longrightarrow> gate_reach limit alive (gate_exit task_id d)"
| lives: "gate_reach limit alive d \<Longrightarrow> \<forall>e \<in> set d. alive' (lock_pid (snd e)) \<longrightarrow> alive (lock_pid (snd e)) \<Longrightarrow>
    gate_reach limit alive' d"

lemma live_locks_running: "fst (live_locks alive d) = map fst (running alive d)"
  by (auto simp: live_locks_def running_def is_dead_def Let_def intro!: arg_cong [where f = "map fst"] filter_cong)

lemma running_purged: "running alive (filter (\<lambda>e. \<not> is_dead alive e) d) = running alive d"
  by (auto simp: running_def is_dead_def intro!: filter_cong)

lemma running_filter: "length (running alive (filter P d)) \<le> length (running alive d)"
  unfolding running_def filter_filter by (induction d) auto

lemma gate_write_new:
  "map_of d (lock_name task_id) = None \<Longrightarrow>
     gate_write task_id pid (dict_set (lock_name task_id) [] d) = d @ [(lock_name task_id, int_str pid)]"
proof -
  assume new: "map_of d (lock_name task_id) = None"
  then have "map (\<lambda>(n, t). (n, if n = lock_name task_id then int_str pid else t)) d = d"
    by (intro map_idI) (auto simp: map_of_eq_None_iff image_iff Ball_def)
  then show ?thesis by (simp add: dict_set_absent [OF new] gate_write_def)
qed

lemma gate_enter_cases:
  obtains (busy) e where "snd (gate_enter alive limit pid task_id d) = Err (Raise TooManyTasksError [e])"
      "fst (gate_enter alive limit pid task_id d) = snd (live_locks alive d)"
  | (held) "snd (gate_enter alive limit pid task_id d) = Ok ()" "int (length (running alive d)) < limit"
      "fst (gate_enter alive limit pid task_id d) = snd (live_locks alive d) @ [(lock_name task_id, int_str pid)]"
proof -
  let ?d1 = "snd (live_locks alive d)"
  let ?full = "int (length (running alive d)) \<ge> limit"
  obtain m where c: "gate_count alive limit d = (?d1, if ?full then too_many m else Ok ())"
  proof
    show "gate_count alive limit d = (?d1, if ?full then too_many
        (Msg ''{} task(s) are already running (max_concurrent_tasks); try again when one finishes'' [JInt limit]) else Ok ())"
      using live_locks_running [of alive d] by (cases "live_locks alive d") (simp add: gate_count_def)
  qed
  consider (full) "?full" | (taken) "\<not> ?full" "map_of ?d1 (lock_name task_id) \<noteq> None"
    | (free) "\<not> ?full" "map_of ?d1 (lock_name task_id) = None" by blast
  then show thesis
  proof cases
    case full
    then have "gate_enter alive limit pid task_id d = (?d1, too_many m)"
      by (simp add: gate_enter_def c too_many_def)
    then show ?thesis by (intro busy) (simp_all add: too_many_def)
  next
    case taken
    then obtain m' where "gate_create task_id ?d1 = (?d1, too_many m')" by (simp add: gate_create_def)
    with taken(1) have "gate_enter alive limit pid task_id d = (?d1, too_many m')"
      by (simp add: gate_enter_def c too_many_def)
    then show ?thesis by (intro busy) (simp_all add: too_many_def)
  next
    case free
    then have "gate_enter alive limit pid task_id d = (?d1 @ [(lock_name task_id, int_str pid)], Ok ())"
      by (simp add: gate_enter_def c gate_create_def gate_write_new)
    then show ?thesis using free(1) by (intro held) simp_all
  qed
qed

lemma gate_enter_running:
  assumes "int (length (running alive d)) \<le> limit"
  shows "int (length (running alive (fst (gate_enter alive limit pid task_id d)))) \<le> limit"
proof (cases rule: gate_enter_cases [of alive limit pid task_id d])
  case (busy e)
  then show ?thesis using assms by (simp add: live_locks_def Let_def running_purged)
next
  case held
  have "length (running alive (d1 @ [x])) \<le> length (running alive d1) + 1" for d1 x
    by (simp add: running_def)
  from this [of "snd (live_locks alive d)" "(lock_name task_id, int_str pid)"]
  have "length (running alive (fst (gate_enter alive limit pid task_id d))) \<le> length (running alive d) + 1"
    unfolding held(3) by (simp add: live_locks_def Let_def running_purged)
  then show ?thesis using held(2) by linarith
qed



text \<open>
  \<open>hold\<close> is not one piece: two processes that both count before either creates its lock both enter, one more than the
  limit; and a process whose file is created but not yet written loses it to the next count, which reads no pid in it.
\<close>

definition raced :: "string dict" where
  "raced = gate_write ''b'' 8 (fst (gate_create ''b'' (gate_write ''a'' 7 (fst (gate_create ''a''
     (fst (gate_count (\<lambda>_. True) 1 (fst (gate_count (\<lambda>_. True) 1 [])))))))))"

lemma gate_race_exceeds_the_limit:
  "snd (gate_count (\<lambda>_. True) 1 []) = Ok () \<and> snd (gate_count (\<lambda>_. True) 1 (fst (gate_count (\<lambda>_. True) 1 []))) = Ok () \<and>
   length (fst (live_locks (\<lambda>_. True) raced)) = 2"
  by code_simp

lemma gate_race_loses_a_lock:
  "snd (live_locks (\<lambda>p. p > 0) (fst (gate_create ''a'' []))) = []"
  by code_simp

end
