(* ===== verification/Worker.thy ===== *)
theory Worker
  imports Taskflow Queue_Guarantees
begin

text \<open>
  \<open>worker.py\<close>: the clock that renews the lease, one pass of the worker (\<open>work_once\<close>) and the loop, over the
  queue, the lock directory of the gate and the operating system, together the state of a station.
\<close>

subsection \<open>The station\<close>

record 'w station =
  st_db :: qdb
  st_locks :: "string dict"
  st_os :: 'w
  st_next :: rat
  st_lost :: bool
  st_renewals :: nat

record 'w worker_env =
  we_policy :: task_policy
  we_base :: string
  we_host :: "'w task_host"
  we_wall :: "'w \<Rightarrow> rat"
  we_exists :: "'w \<Rightarrow> string \<Rightarrow> bool"
  we_realpath :: "'w \<Rightarrow> string \<Rightarrow> string"
  we_make_dir :: "'w \<Rightarrow> string \<Rightarrow> 'w result"
  we_git :: "'w git_runner"
  we_tree :: "'w tree_ops"
  we_observe :: "(lease_grant \<Rightarrow> string) option"
  we_lease_seconds :: rat
  we_poll_interval :: rat
  we_alive :: "int \<Rightarrow> bool"
  we_pid :: int
  we_max_attempts :: int

record work_result =
  wk_task_id :: "string option"
  wk_outcome :: string
  wk_detail :: "msg list"
  wk_staged_commit :: "string option"
  wk_run :: "run_result option"
  wk_workspace_removed :: bool
  wk_recorded :: bool

definition work_result_to_dict :: "work_result \<Rightarrow> json" where
  "work_result_to_dict r = JObj
     [(''task_id'', opt_str (wk_task_id r)), (''outcome'', JStr (wk_outcome r)), (''detail'', msgs_json (Some (wk_detail r))),
      (''staged_commit'', opt_str (wk_staged_commit r)),
      (''run'', case wk_run r of None \<Rightarrow> JNull | Some res \<Rightarrow> run_result_to_dict res),
      (''workspace_removed'', JBool (wk_workspace_removed r)), (''recorded'', JBool (wk_recorded r))]"

subsection \<open>The clock that renews the lease\<close>

definition read_clock :: "'w worker_env \<Rightarrow> 'w station \<Rightarrow> rat \<times> 'w station" where
  "read_clock env st = (let (t, os) = th_monotonic (we_host env) (st_os st) in (t, st\<lparr>st_os := os\<rparr>))"

definition renewing_sleep :: "'w worker_env \<Rightarrow> lease_grant \<Rightarrow> rat \<Rightarrow> 'w station \<Rightarrow> 'w station" where
  "renewing_sleep env g seconds st =
     (let st1 = st\<lparr>st_os := th_sleep (we_host env) seconds (st_os st)\<rparr> in
      if st_lost st1 then st1
      else (let (t, st2) = read_clock env st1 in
        if t < st_next st2 then st2
        else (let (t1, st3) = read_clock env st2;
                  (db, renewed) = renew_lease (st_db st3) (lg_task_id g) (lg_worker_id g) (we_lease_seconds env) (we_wall env (st_os st3));
                  st4 = st3\<lparr>st_next := t1 + we_lease_seconds env / 3, st_db := db\<rparr>
              in if renewed then st4\<lparr>st_renewals := st_renewals st4 + 1\<rparr> else st4\<lparr>st_lost := True\<rparr>)))"

text \<open>The host the run polls: that of the station, with this clock, cancelled when the lease is lost.\<close>

definition renewing_host :: "'w worker_env \<Rightarrow> lease_grant \<Rightarrow> ('w station) task_host" where
  "renewing_host env g =
     \<lparr>th_os_name = th_os_name (we_host env), th_environ = th_environ (we_host env), th_used = th_used (we_host env),
      th_spawn = (\<lambda>argv cwd e st. and_then (th_spawn (we_host env) argv cwd e (st_os st)) (\<lambda>os. Ok (st\<lparr>st_os := os\<rparr>))),
      th_monotonic = read_clock env,
      th_sleep = renewing_sleep env g,
      th_poll = (\<lambda>st. let (code, os) = th_poll (we_host env) (st_os st) in (code, st\<lparr>st_os := os\<rparr>)),
      th_kill_tree = (\<lambda>st. st\<lparr>st_os := th_kill_tree (we_host env) (st_os st)\<rparr>),
      th_cancelled = st_lost,
      th_stdout = (\<lambda>st. th_stdout (we_host env) (st_os st)), th_stderr = (\<lambda>st. th_stderr (we_host env) (st_os st))\<rparr>"

subsection \<open>One task\<close>

definition failed_run :: "lease_grant \<Rightarrow> msg list \<Rightarrow> run_result" where
  "failed_run g reason = rejected (lg_task_id g) reason ''none''"

definition station_fs :: "'w worker_env \<Rightarrow> ('w station) task_fs" where
  "station_fs env = \<lparr>tf_exists = (\<lambda>st. we_exists env (st_os st)), tf_realpath = (\<lambda>st. we_realpath env (st_os st))\<rparr>"

text \<open>The block of \<open>work_once\<close> under \<open>try\<close>: the workspace, the staged commit and the result, or what was raised.\<close>

definition carry_out ::
  "'w worker_env \<Rightarrow> lease_grant \<Rightarrow> 'w station \<Rightarrow>
     ('w station \<times> workspace option \<times> string option \<times> run_result result) option" where
  "carry_out env g st =
     (case allocate_workspace (we_exists env) (we_make_dir env) (we_base env) (tr_task_id (lg_recipe g)) (st_os st) of
        Inl e \<Rightarrow> Some (st, None, None, Inl e)
      | Inr (os, ws) \<Rightarrow>
          (let st1 = st\<lparr>st_os := os\<rparr>;
               (st2, staged) = (case map_of (repo_sources (we_policy env)) (tr_repo (lg_recipe g)) of
                   None \<Rightarrow> (st1, Ok None)
                 | Some source \<Rightarrow>
                     (case stage_repo (th_environ (we_host env)) (we_git env) (ws_root ws) source (tr_revision (lg_recipe g)) os of
                        (os1, Inl e) \<Rightarrow> (st1\<lparr>st_os := os1\<rparr>, Inl e)
                      | (os1, Inr commit) \<Rightarrow> (st1\<lparr>st_os := os1\<rparr>, Ok (Some commit))))
           in case staged of
                Inl e \<Rightarrow> Some (st2, Some ws, None, Inl e)
              | Inr commit \<Rightarrow>
                  (case run_task (renewing_host env g) (Some (station_fs env)) (we_poll_interval env) (lg_recipe g)
                      (we_policy env) ws st2 of
                     None \<Rightarrow> None
                   | Some (st3, res) \<Rightarrow> Some (st3, Some ws, commit, res))))"

definition run_view_of :: "run_result \<Rightarrow> run_view" where
  "run_view_of r = \<lparr>rv_outcome = rr_outcome r, rv_exit_code = rr_exit_code r, rv_stdout_tail = rr_stdout_tail r,
     rv_stderr_tail = rr_stderr_tail r\<rparr>"

text \<open>From the result of the run to the end of the pass: record, retention, outcome.\<close>

definition report_result ::
  "'w worker_env \<Rightarrow> string \<Rightarrow> lease_grant \<Rightarrow> workspace option \<Rightarrow> string option \<Rightarrow> run_result \<Rightarrow> 'w station \<Rightarrow>
     'w station \<times> work_result result" where
  "report_result env worker g ws staged res st =
     (let observed = (case we_observe env of None \<Rightarrow> lg_base_fingerprint g | Some f \<Rightarrow> f g) in
      case record_result (st_db st) (lg_task_id g) worker (run_view_of res) observed (we_wall env (st_os st)) of
        (db, Inl e) \<Rightarrow> (st\<lparr>st_db := db\<rparr>, Inl e)
      | (db, Inr recorded) \<Rightarrow>
          (let ok = (rr_outcome res = ''completed'' \<and> rr_exit_code res = Some 0);
               (os, removed) = (if ws \<noteq> None \<and> should_remove (workspace_retention (we_policy env)) ok
                 then remove_workspace (we_tree env) (we_base env) (tr_task_id (lg_recipe g)) (st_os st)
                 else (st_os st, False));
               outcome = (if st_lost st then ''lease-lost''
                 else if ro_accepted recorded \<and> ro_final_state recorded = Succeeded then ''succeeded'' else ''failed'');
               reason = (case rr_rejection_reason res of Some (m # ms) \<Rightarrow> m # ms
                 | _ \<Rightarrow> (case ro_reason recorded of None \<Rightarrow> [] | Some m \<Rightarrow> [m]))
           in (st\<lparr>st_db := db, st_os := os\<rparr>,
               Ok \<lparr>wk_task_id = Some (lg_task_id g), wk_outcome = outcome, wk_detail = reason, wk_staged_commit = staged,
                   wk_run = Some res, wk_workspace_removed = removed, wk_recorded = ro_accepted recorded\<rparr>)))"

definition idle_result :: work_result where
  "idle_result = \<lparr>wk_task_id = None, wk_outcome = ''idle'', wk_detail = [], wk_staged_commit = None, wk_run = None,
     wk_workspace_removed = False, wk_recorded = False\<rparr>"

text \<open>What happens while the slot of the gate is held.\<close>

definition work_leased :: "'w worker_env \<Rightarrow> string \<Rightarrow> 'w station \<Rightarrow> ('w station \<times> work_result result) option" where
  "work_leased env worker st =
     (case lease (st_db st) worker (we_lease_seconds env) (we_wall env (st_os st)) of
        (db, Inl e) \<Rightarrow> Some (st\<lparr>st_db := db\<rparr>, Inl e)
      | (db, Inr None) \<Rightarrow> Some (st\<lparr>st_db := db\<rparr>, Ok idle_result)
      | (db, Inr (Some g)) \<Rightarrow>
          (let (t, st1) = read_clock env (st\<lparr>st_db := db\<rparr>);
               st2 = st1\<lparr>st_next := t + we_lease_seconds env / 3, st_lost := False, st_renewals := 0\<rparr>
           in case carry_out env g st2 of
                None \<Rightarrow> None
              | Some (st3, ws, staged, Inr res) \<Rightarrow> Some (report_result env worker g ws staged res st3)
              | Some (st3, ws, staged, Inl e) \<Rightarrow>
                  if is_config_error e then Some (report_result env worker g ws staged (failed_run g (exn_msgs e)) st3)
                  else Some (st3, Inl e)))"

definition worker_slot :: "string \<Rightarrow> string" where
  "worker_slot worker = ''worker-'' @ worker"

definition release_slot :: "string \<Rightarrow> 'w station \<Rightarrow> 'w station" where
  "release_slot worker st = st\<lparr>st_locks := gate_exit (worker_slot worker) (st_locks st)\<rparr>"

definition work_once :: "'w worker_env \<Rightarrow> string \<Rightarrow> 'w station \<Rightarrow> ('w station \<times> work_result result) option" where
  "work_once env worker st =
     (case require_safe_id worker of
        Inl e \<Rightarrow> Some (st, Inl e)
      | Inr _ \<Rightarrow>
          (case gate_enter (we_alive env) (max_concurrent_tasks (we_policy env)) (we_pid env) (worker_slot worker) (st_locks st) of
             (locks, Inl e) \<Rightarrow> Some (st\<lparr>st_locks := locks\<rparr>, Inl e)
           | (locks, Inr _) \<Rightarrow>
               (case work_leased env worker (st\<lparr>st_locks := locks\<rparr>) of
                  None \<Rightarrow> None
                | Some (st1, r) \<Rightarrow> Some (release_slot worker st1, r))))"

subsection \<open>The loop\<close>

definition station_reconcile :: "'w worker_env \<Rightarrow> 'w station \<Rightarrow> 'w station" where
  "station_reconcile env st = st\<lparr>st_db := fst (reconcile (we_max_attempts env) (st_db st) (we_wall env (st_os st)))\<rparr>"

partial_function (option) work_turns ::
  "'w worker_env \<Rightarrow> string \<Rightarrow> nat option \<Rightarrow> bool \<Rightarrow> rat \<Rightarrow> work_result list \<Rightarrow> 'w station \<Rightarrow>
     ('w station \<times> work_result list result) option" where
  "work_turns env worker max_tasks stop_when_idle idle_sleep results st =
     (if (case max_tasks of None \<Rightarrow> True | Some n \<Rightarrow> length results < n) then
        (case work_once env worker st of
           None \<Rightarrow> None
         | Some (st1, Inl e) \<Rightarrow> Some (st1, Inl e)
         | Some (st1, Inr r) \<Rightarrow>
             if wk_outcome r = ''idle'' then
               (if stop_when_idle then Some (st1, Ok results)
                else work_turns env worker max_tasks stop_when_idle idle_sleep results
                  (station_reconcile env (st1\<lparr>st_os := th_sleep (we_host env) idle_sleep (st_os st1)\<rparr>)))
             else work_turns env worker max_tasks stop_when_idle idle_sleep (results @ [r]) st1)
      else Some (st, Ok results))"

definition work_loop ::
  "'w worker_env \<Rightarrow> string \<Rightarrow> nat option \<Rightarrow> bool \<Rightarrow> rat \<Rightarrow> 'w station \<Rightarrow> ('w station \<times> work_result list result) option" where
  "work_loop env worker max_tasks stop_when_idle idle_sleep st =
     work_turns env worker max_tasks stop_when_idle idle_sleep [] (station_reconcile env st)"

end
