(* ===== verification/Run_Keeps.thy ===== *)
theory Run_Keeps
  imports Runner_Proofs
begin

text \<open>
  A relation between states that every operation of a host keeps is kept by every run on it: the rule by which the
  worker carries the queue through a run.
\<close>

subsection \<open>What a run leaves alone\<close>

text \<open>A relation every operation of the host keeps, and so every run.\<close>

definition host_keeps :: "('w \<Rightarrow> 'w \<Rightarrow> bool) \<Rightarrow> 'w task_host \<Rightarrow> bool" where
  "host_keeps R h \<longleftrightarrow>
     (\<forall>w t w'. th_monotonic h w = (t, w') \<longrightarrow> R w w') \<and> (\<forall>w c w'. th_poll h w = (c, w') \<longrightarrow> R w w') \<and>
     (\<forall>d w. R w (th_sleep h d w)) \<and> (\<forall>w. R w (th_kill_tree h w)) \<and>
     (\<forall>argv cwd env w w'. th_spawn h argv cwd env w = Ok w' \<longrightarrow> R w w')"

lemma poll_turn_keeps:
  assumes "host_keeps R h" and "transp R" and "poll_turn h started timeout w = (r, w')"
  shows "R w w'"
proof -
  obtain c w1 where poll: "th_poll h w = (c, w1)" by fastforce
  obtain t w2 where read: "th_monotonic h w1 = (t, w2)" by fastforce
  have "R w w1" "R w1 w2" "R w2 (th_kill_tree h w2)" using assms(1) poll read by (auto simp: host_keeps_def)
  then have "R w w1" "R w w2" "R w (th_kill_tree h w2)" using assms(2) by (blast dest: transpD)+
  then show ?thesis using assms(3) poll read
    by (auto simp: poll_turn_def split: option.splits if_splits)
qed

lemma poll_loop_keeps:
  assumes "host_keeps R h" and "transp R" and "poll_loop h started timeout interval w = Some r"
  shows "R w (snd r)"
proof -
  have "k = h \<longrightarrow> R w (snd r)" if "poll_loop k started timeout interval w = Some r" for k
  proof (rule poll_loop.raw_induct [where P = "\<lambda>k started timeout interval w r. k = h \<longrightarrow> R w (snd r)", OF _ that], rule impI)
    fix loop k started timeout interval w y
    assume ih: "\<And>k started timeout interval w y. loop k started timeout interval w = Some y \<Longrightarrow> k = h \<longrightarrow> R w (snd y)"
      and step: "(case poll_turn k started timeout w of
          (None, w1) \<Rightarrow> loop k started timeout interval (th_sleep k interval w1)
        | (Some r, w1) \<Rightarrow> Some (r, w1)) = Some y" and "k = h"
    obtain r1 w1 where turn: "poll_turn h started timeout w = (r1, w1)" by fastforce
    have "R w w1" by (rule poll_turn_keeps [OF assms(1,2) turn])
    moreover have "R w1 (th_sleep h interval w1)" using assms(1) by (simp add: host_keeps_def)
    ultimately show "R w (snd y)"
      using step turn \<open>k = h\<close> ih [of h started timeout interval "th_sleep h interval w1" y] assms(2)
      by (cases r1) (auto dest: transpD)
  qed
  with assms(3) show ?thesis by blast
qed

lemma run_started_keeps:
  assumes keeps: "host_keeps R h" and "transp R" and "run_started h r ws interval argv w = Some (w', res)"
  shows "R w w'"
proof -
  obtain started w1 where mono: "th_monotonic h w = (started, w1)" by fastforce
  have w1: "R w w1" using keeps mono by (auto simp: host_keeps_def)
  let ?env = "dict_set ''HOME'' (ws_root ws) (build_task_env (th_os_name h) (th_environ h))"
  show ?thesis
  proof (cases "th_spawn h argv (ws_root ws) ?env w1")
    case (Inl e)
    then show ?thesis using assms(3) mono w1 by (cases e) (auto simp: run_started_def split: if_splits)
  next
    case (Inr w2)
    then obtain p w3 where loop: "poll_loop h started (tr_timeout r) interval w2 = Some (p, w3)"
        and w': "w' = snd (th_monotonic h w3)"
      using assms(3) mono by (auto simp: run_started_def split: option.splits prod.splits)
    have "R w1 w2" using keeps Inr by (auto simp: host_keeps_def)
    moreover have "R w2 w3" using poll_loop_keeps [OF keeps assms(2) loop] by simp
    moreover have "R w3 w'" using keeps w' by (cases "th_monotonic h w3") (auto simp: host_keeps_def)
    ultimately show ?thesis using w1 assms(2) by (meson transpD)
  qed
qed

lemma run_task_keeps:
  assumes "host_keeps R h" and "transp R" and "reflp R" and "run_task h fs interval r policy ws w = Some (w', res)"
  shows "R w w'"
  using assms(4) run_started_keeps [OF assms(1,2)] reflpD [OF assms(3)]
  by (auto simp: run_task_def split: sum.splits list.splits if_splits)

end
