(* ===== verification/Worker_Proofs.thy ===== *)
theory Worker_Proofs
  imports Worker Run_Keeps
begin

text \<open>
  The worker against the queue it works for: every pass is a sequence of queue calls, what it reports is what the queue
  holds, its slot is given back, and the loop ends.
\<close>

subsection \<open>The queue during a run\<close>

text \<open>While a task runs, the only calls are renewals, and the locks are not touched.\<close>

definition renewed :: "qdb \<Rightarrow> qdb \<Rightarrow> bool" where
  "renewed db db' \<longleftrightarrow> (\<exists>i w ttl t. db' = fst (renew_lease db i w ttl t))"

definition only_renews :: "'w station \<Rightarrow> 'w station \<Rightarrow> bool" where
  "only_renews a b \<longleftrightarrow> renewed\<^sup>*\<^sup>* (st_db a) (st_db b) \<and> st_locks b = st_locks a"

lemma only_renews_refl [simp]: "only_renews a a"
  by (simp add: only_renews_def)

lemma only_renews_same: "st_db b = st_db a \<Longrightarrow> st_locks b = st_locks a \<Longrightarrow> only_renews a b"
  by (simp add: only_renews_def)

lemma transp_only_renews: "transp only_renews"
  by (rule transpI) (auto simp: only_renews_def)

lemma read_clock_keeps: "read_clock env st = (t, st') \<Longrightarrow> st_db st' = st_db st \<and> st_locks st' = st_locks st"
  by (auto simp: read_clock_def split: prod.splits)

lemma renewing_sleep_keeps: "only_renews st (renewing_sleep env g d st)"
proof -
  let ?st1 = "st\<lparr>st_os := th_sleep (we_host env) d (st_os st)\<rparr>"
  obtain t st2 where c2: "read_clock env ?st1 = (t, st2)" by fastforce
  obtain t3 st3 where c3: "read_clock env st2 = (t3, st3)" by fastforce
  obtain db ok where rn: "renew_lease (st_db st3) (lg_task_id g) (lg_worker_id g) (we_lease_seconds env) (we_wall env (st_os st3)) = (db, ok)"
    by fastforce
  have "renewed (st_db st) db"
    using read_clock_keeps [OF c2] read_clock_keeps [OF c3] rn unfolding renewed_def
    by (metis fst_conv select_convs(1) station.surjective station.update_convs(3) station.select_convs(1))
  then show ?thesis
    using read_clock_keeps [OF c2] read_clock_keeps [OF c3] rn
    by (auto simp: renewing_sleep_def only_renews_def c2 c3 Let_def)
qed

lemma renewing_host_keeps: "host_keeps only_renews (renewing_host env g)"
  unfolding host_keeps_def renewing_host_def
  by (auto simp: renewing_sleep_keeps and_then_Ok_iff read_clock_def split: prod.splits intro!: only_renews_same)

lemma run_keeps:
  "run_task (renewing_host env g) fs interval r policy ws st = Some (st', res) \<Longrightarrow> only_renews st st'"
  by (rule run_task_keeps [OF renewing_host_keeps transp_only_renews]) (auto intro: reflpI)

lemma carry_out_keeps:
  assumes "carry_out env g st = Some (st', ws, staged, res)"
  shows "only_renews st st'"
proof (cases "allocate_workspace (we_exists env) (we_make_dir env) (we_base env) (tr_task_id (lg_recipe g)) (st_os st)")
  case (Inl e)
  then show ?thesis using assms by (simp add: carry_out_def)
next
  case (Inr p)
  then obtain os w where a: "allocate_workspace (we_exists env) (we_make_dir env) (we_base env) (tr_task_id (lg_recipe g)) (st_os st) = Ok (os, w)"
    by (cases p) simp
  have ran: "only_renews st st''"
    if "run_task h fs i r p w (st\<lparr>st_os := os'\<rparr>) = Some (st'', x)" and "h = renewing_host env g" for os' st'' x h fs i r p
    using run_keeps [of env g fs i r p w "st\<lparr>st_os := os'\<rparr>"] that by (simp add: only_renews_def)
  show ?thesis
    using assms ran
    by (auto simp: carry_out_def a Let_def intro: only_renews_same split: option.splits prod.splits sum.splits)
qed

lemma renewed_steps: "renewed\<^sup>*\<^sup>* db db' \<Longrightarrow> (queue_step m)\<^sup>*\<^sup>* db db'"
  by (rule rtranclp_mono [THEN predicate2D]) (auto simp: renewed_def intro: queue_step.do_renew)

lemma record_result_step: "record_result db i w rv obs t = (db', r) \<Longrightarrow> queue_step m db db'"
  by (metis fst_conv queue_step.do_record)

lemma report_result_step:
  "report_result env worker g ws staged res st = (st', r) \<Longrightarrow> queue_step m (st_db st) (st_db st') \<and> st_locks st' = st_locks st"
  by (auto simp: report_result_def Let_def dest: record_result_step split: prod.splits sum.splits)

lemma leased_step: "lease db w ttl t = (db', r) \<Longrightarrow> queue_step m db db'"
  by (metis fst_conv queue_step.do_lease)

text \<open>The shapes of a pass while its slot is held.\<close>

lemma work_leased_cases:
  assumes "work_leased env worker st = Some (st', r)"
  obtains (refused) e where "lease (st_db st) worker (we_lease_seconds env) (we_wall env (st_os st)) = (st_db st', Inl e)"
      and "r = Inl e" and "st_locks st' = st_locks st"
  | (idle) "lease (st_db st) worker (we_lease_seconds env) (we_wall env (st_os st)) = (st_db st', Ok None)"
      and "r = Ok idle_result" and "st_locks st' = st_locks st"
  | (raised) g db e where "lease (st_db st) worker (we_lease_seconds env) (we_wall env (st_os st)) = (db, Ok (Some g))"
      and "renewed\<^sup>*\<^sup>* db (st_db st')" and "r = Inl e" and "\<not> is_config_error e" and "st_locks st' = st_locks st"
  | (reported) g db st1 ws staged res where
      "lease (st_db st) worker (we_lease_seconds env) (we_wall env (st_os st)) = (db, Ok (Some g))"
      and "renewed\<^sup>*\<^sup>* db (st_db st1)" and "st_locks st1 = st_locks st"
      and "report_result env worker g ws staged res st1 = (st', r)"
proof -
  obtain db l where l: "lease (st_db st) worker (we_lease_seconds env) (we_wall env (st_os st)) = (db, l)" by fastforce
  show thesis
  proof (cases l)
    case (Inl e)
    then show thesis using assms l by (intro refused) (auto simp: work_leased_def)
  next
    case (Inr grant)
    show thesis
    proof (cases grant)
      case None
      then show thesis using assms l Inr by (intro idle) (auto simp: work_leased_def)
    next
      case (Some g)
      obtain t st1 where c: "read_clock env (st\<lparr>st_db := db\<rparr>) = (t, st1)" by fastforce
      let ?st2 = "st1\<lparr>st_next := t + we_lease_seconds env / 3, st_lost := False, st_renewals := 0\<rparr>"
      obtain st3 ws staged res where co: "carry_out env g ?st2 = Some (st3, ws, staged, res)"
        using assms by (auto simp: work_leased_def l Inr Some c split: option.splits)
      have k: "renewed\<^sup>*\<^sup>* db (st_db st3)" "st_locks st3 = st_locks st"
        using carry_out_keeps [OF co] read_clock_keeps [OF c] by (simp_all add: only_renews_def)
      have r: "(case res of Inr v \<Rightarrow> report_result env worker g ws staged v st3
          | Inl e \<Rightarrow> if is_config_error e then report_result env worker g ws staged (failed_run g (exn_msgs e)) st3
             else (st3, Inl e)) = (st', r)"
        using assms by (auto simp: work_leased_def l Inr Some c co split: sum.splits if_splits)
      show thesis
      proof (cases res)
        case (Inr v)
        then show thesis using r k l \<open>l = Inr grant\<close> Some by (intro reported) auto
      next
        case (Inl e)
        then show thesis using r k l \<open>l = Inr grant\<close> Some raised reported by (cases "is_config_error e") auto
      qed
    qed
  qed
qed

lemma work_leased_steps:
  assumes "work_leased env worker st = Some (st', r)"
  shows "(queue_step m)\<^sup>*\<^sup>* (st_db st) (st_db st') \<and> st_locks st' = st_locks st"
proof (cases rule: work_leased_cases [OF assms])
  case (4 g db st1 ws staged res)
  have "queue_step m (st_db st) db" by (rule leased_step [OF 4(1)])
  moreover have "(queue_step m)\<^sup>*\<^sup>* db (st_db st1)" by (rule renewed_steps [OF 4(2)])
  moreover have "queue_step m (st_db st1) (st_db st')" and "st_locks st' = st_locks st1"
    using report_result_step [OF 4(4)] by simp_all
  ultimately have "(queue_step m)\<^sup>*\<^sup>* (st_db st) (st_db st')"
    by (meson converse_rtranclp_into_rtranclp rtranclp.rtrancl_into_rtrancl)
  with \<open>st_locks st' = st_locks st1\<close> show ?thesis using 4(3) by simp
next
  case (3 g db e)
  then show ?thesis using leased_step [OF 3(1), of m] renewed_steps [OF 3(2), of m]
    by (simp add: converse_rtranclp_into_rtranclp [of "queue_step m" "st_db st" db])
qed (auto dest: leased_step)

lemma gate_enter_Ok:
  assumes "gate_enter alive limit pid task_id d = (d', Ok ())"
  shows "gate_exit task_id d' = gate_exit task_id (snd (live_locks alive d))"
  by (cases rule: gate_enter_cases [of alive limit pid task_id d])
    (use assms in \<open>simp_all add: gate_exit_def\<close>)

lemma work_once_cases:
  assumes "work_once env worker st = Some (st', r)"
  obtains (bad_id) e where "require_safe_id worker = Inl e" and "st' = st" and "r = Inl e"
  | (full) locks e where
      "gate_enter (we_alive env) (max_concurrent_tasks (we_policy env)) (we_pid env) (worker_slot worker) (st_locks st) = (locks, Inl e)"
      and "st_db st' = st_db st" and "r = Inl e"
  | (entered) locks st1 where
      "gate_enter (we_alive env) (max_concurrent_tasks (we_policy env)) (we_pid env) (worker_slot worker) (st_locks st) = (locks, Ok ())"
      and "work_leased env worker (st\<lparr>st_locks := locks\<rparr>) = Some (st1, r)" and "st' = release_slot worker st1"
  using assms
  by (auto simp: work_once_def split: sum.splits prod.splits option.splits)

text \<open>C22: A pass of the worker is nothing but calls of the queue: whatever happens to the task, the queue goes through a sequence
  of its own steps, so every guarantee of the queue holds of it; and the slot of the gate is given back on every path, with
  or without an exception.\<close>
theorem worker_only_makes_queue_calls:
  assumes "work_once env worker st = Some (st', r)"
  shows "(queue_step m)\<^sup>*\<^sup>* (st_db st) (st_db st') \<and>
    (is_ok (require_safe_id worker) \<and>
       snd (gate_enter (we_alive env) (max_concurrent_tasks (we_policy env)) (we_pid env) (worker_slot worker) (st_locks st)) = Ok () \<longrightarrow>
     st_locks st' = gate_exit (worker_slot worker) (snd (live_locks (we_alive env) (st_locks st))))"
proof (cases rule: work_once_cases [OF assms])
  case (3 locks st1)
  then show ?thesis
    using work_leased_steps [OF 3(2), of m] gate_enter_Ok [OF 3(1)] by (simp add: release_slot_def)
qed simp_all

subsection \<open>What a pass reports\<close>

lemma report_result_reports:
  assumes "queue_inv m (st_db st)" and "report_result env worker g ws staged res st = (st', Ok r)"
  shows "wk_task_id r = Some (lg_task_id g) \<and> wk_run r = Some res \<and> wk_outcome r \<noteq> ''idle'' \<and>
    (wk_outcome r = ''succeeded'' \<longrightarrow> wk_recorded r) \<and>
    (wk_recorded r \<longrightarrow> (\<exists>s. task_state (st_db st') (lg_task_id g) = Some s \<and> s \<in> {Succeeded, Failed} \<and>
       (s = Succeeded \<longrightarrow> ran_ok (run_view_of res)) \<and> (wk_outcome r = ''succeeded'' \<longrightarrow> s = Succeeded)))"
proof -
  let ?obs = "case we_observe env of None \<Rightarrow> lg_base_fingerprint g | Some f \<Rightarrow> f g"
  obtain db x where rec: "record_result (st_db st) (lg_task_id g) worker (run_view_of res) ?obs (we_wall env (st_os st)) = (db, x)"
    by fastforce
  obtain ro where x: "x = Ok ro" and st': "st_db st' = db"
      and r: "wk_task_id r = Some (lg_task_id g)" "wk_run r = Some res" "wk_recorded r = ro_accepted ro"
        "wk_outcome r = (if st_lost st then ''lease-lost''
           else if ro_accepted ro \<and> ro_final_state ro = Succeeded then ''succeeded'' else ''failed'')"
    using assms(2) rec by (cases x) (auto simp: report_result_def Let_def split: prod.splits)
  show ?thesis
  proof (cases rule: record_cases [OF assms(1), where i = "lg_task_id g" and w = worker and rv = "run_view_of res"
        and obs = ?obs and t = "we_wall env (st_os st)"])
    case 1
    then show ?thesis using rec x by simp
  next
    case (2 row d ro')
    then show ?thesis using rec x r by auto
  next
    case (3 row d ro' s)
    have "find_row db (lg_task_id g) = Some (clear_lease s (we_wall env (st_os st)) row)"
      using rec 3(1,2,4) by (auto simp: find_row_journal find_row_update)
    then have "task_state db (lg_task_id g) = Some s" by (simp add: task_state_def)
    then show ?thesis using rec x r st' 3 by auto
  qed
qed

lemma renewed_inv: "renewed\<^sup>*\<^sup>* db db' \<Longrightarrow> queue_inv m db \<Longrightarrow> queue_inv m db'"
  by (induction rule: rtranclp_induct) (auto simp: renewed_def intro: renew_inv)

text \<open>The worker reports what the queue holds: a pass that says succeeded ran the task to completion with exit code 0 and
  left it succeeded in the queue, and a pass whose result was recorded left its task succeeded or failed, never leased.\<close>
theorem pass_reports_what_the_queue_holds:
  assumes "queue_reachable m (st_db st)" and "work_once env worker st = Some (st', Ok r)"
  shows "(wk_outcome r = ''succeeded'' \<longrightarrow> wk_recorded r) \<and>
    (wk_recorded r \<longrightarrow> (\<exists>i res s. wk_task_id r = Some i \<and> wk_run r = Some res \<and> task_state (st_db st') i = Some s \<and>
       s \<in> {Succeeded, Failed} \<and> (s = Succeeded \<longrightarrow> rr_outcome res = ''completed'' \<and> rr_exit_code res = Some 0) \<and>
       (wk_outcome r = ''succeeded'' \<longrightarrow> s = Succeeded)))"
proof (cases rule: work_once_cases [OF assms(2)])
  case (3 locks st1)
  show ?thesis
  proof (cases rule: work_leased_cases [OF 3(2)])
    case (4 g db st2 ws staged res)
    have "queue_inv m (st_db st2)"
      using renewed_inv [OF 4(2)] lease_inv [OF queue_reachable_inv [OF assms(1)]] 4(1) by (metis fst_conv station.select_convs(1) station.surjective station.update_convs(2))
    from report_result_reports [OF this 4(4)] show ?thesis
      by (auto simp: 3(3) release_slot_def ran_ok_def run_view_of_def)
  qed (simp_all add: idle_result_def)
qed simp_all

end
