(* ===== verification/Worker_Termination.thy ===== *)
theory Worker_Termination
  imports Worker_Proofs
begin

text \<open>
  The worker always comes back: the host that renews the lease has a moving clock whenever the host below has one, so
  every run on it returns, and the loop that stops when idle takes each queued task at most once.
\<close>

subsection \<open>The renewing host\<close>

locale worker_host = moving_clock "we_host env" now for env :: "'w worker_env" and now :: "'w \<Rightarrow> rat"
begin

lemma read_clock_time: "read_clock env st = (t, st') \<Longrightarrow> now (st_os st) \<le> t \<and> t \<le> now (st_os st')"
  by (auto simp: read_clock_def dest: reading split: prod.splits)

lemma renewing_sleep_time:
  assumes "0 \<le> d"
  shows "now (st_os st) + d \<le> now (st_os (renewing_sleep env g d st))"
proof -
  let ?st1 = "st\<lparr>st_os := th_sleep (we_host env) d (st_os st)\<rparr>"
  obtain t st2 where c2: "read_clock env ?st1 = (t, st2)" by fastforce
  obtain t3 st3 where c3: "read_clock env st2 = (t3, st3)" by fastforce
  have "now (st_os st) + d \<le> now (st_os ?st1)" using sleeping [OF assms] by simp
  moreover have "now (st_os ?st1) \<le> now (st_os st2)" and "now (st_os st2) \<le> now (st_os st3)"
    using read_clock_time [OF c2] read_clock_time [OF c3] by linarith+
  ultimately show ?thesis
    by (auto simp: renewing_sleep_def c2 c3 Let_def split: prod.splits)
qed

sublocale renewing: moving_clock "renewing_host env g" "\<lambda>st. now (st_os st)" for g
proof unfold_locales
  show "now (st_os w) \<le> t \<and> t \<le> now (st_os w')" if "th_monotonic (renewing_host env g) w = (t, w')" for g w t w'
    using that read_clock_time by (simp add: renewing_host_def)
  show "now (st_os w) \<le> now (st_os w')" if "th_poll (renewing_host env g) w = (c, w')" for g w c w'
    using that by (auto simp: renewing_host_def dest: polling split: prod.splits)
  show "now (st_os w) + d \<le> now (st_os (th_sleep (renewing_host env g) d w))" if "0 \<le> d" for g d w
    using that renewing_sleep_time by (simp add: renewing_host_def)
  show "now (st_os w) \<le> now (st_os (th_kill_tree (renewing_host env g) w))" for g w
    using killing by (simp add: renewing_host_def)
qed

lemma carry_out_returns:
  assumes "0 < we_poll_interval env"
  shows "carry_out env g st \<noteq> None"
proof -
  have [simp]: "run_task (renewing_host env g) fs (we_poll_interval env) r policy ws w \<noteq> None" for fs r policy ws w
    by (rule renewing.run_task_returns [OF assms])
  show ?thesis
    by (auto simp: carry_out_def Let_def split: sum.splits prod.splits option.splits)
qed

lemma work_once_returns:
  assumes "0 < we_poll_interval env"
  shows "work_once env worker st \<noteq> None"
proof -
  have [simp]: "carry_out env g st1 \<noteq> None" for g st1
    by (rule carry_out_returns [OF assms])
  have [simp]: "work_leased env worker st1 \<noteq> None" for st1
    by (auto simp: work_leased_def Let_def split: sum.splits prod.splits option.splits)
  show ?thesis
    by (auto simp: work_once_def split: sum.splits prod.splits option.splits)
qed

end

subsection \<open>Each queued task once\<close>

definition queued_count :: "qdb \<Rightarrow> nat" where
  "queued_count db = sql_count (\<lambda>r. q_state r = Queued) db"

lemma queued_count_journal [simp]: "queued_count (journal db i a ev t d) = queued_count db"
  by (simp add: queued_count_def sql_count_def journal_entries)

lemma queued_count_update:
  assumes "\<And>r. P r \<Longrightarrow> q_state (f r) = Queued \<Longrightarrow> q_state r = Queued"
  shows "queued_count (sql_update P f db) \<le> queued_count db"
proof -
  have "length (filter (\<lambda>r. q_state r = Queued) (map (\<lambda>r. if P r then f r else r) rs)) \<le>
      length (filter (\<lambda>r. q_state r = Queued) rs)" for rs
    using assms by (induction rs) (auto intro: le_SucI)
  then show ?thesis by (simp add: queued_count_def sql_count_def sql_update_def)
qed

lemma queued_count_renewed: "renewed\<^sup>*\<^sup>* db db' \<Longrightarrow> queued_count db' \<le> queued_count db"
proof (induction rule: rtranclp_induct)
  case (step a b)
  then show ?case
    by (auto simp: renewed_def renew_lease_def intro: order_trans [OF queued_count_update])
qed simp

lemma queued_count_record:
  assumes "queue_inv m db"
  shows "queued_count (fst (record_result db i w rv obs t)) \<le> queued_count db"
  by (cases rule: record_cases [OF assms, where i = i and w = w and rv = rv and obs = obs and t = t])
    (auto intro: queued_count_update split: if_splits)

lemma queued_count_lease:
  assumes "queue_inv m db" and "lease db w ttl t = (db', Ok (Some g))"
  shows "queued_count db' < queued_count db"
proof (cases rule: lease_cases [OF assms(1), where w = w and ttl = ttl and t = t])
  case (3 r e)
  have r: "r \<in> set (db_entries db)" "q_state r = Queued" using oldest_queued_Some [OF 3(2)] by auto
  have "length (filter (\<lambda>r. q_state r = Queued) (map (\<lambda>s. if q_task_id s = q_task_id r then f s else s) rs)) <
      length (filter (\<lambda>r. q_state r = Queued) rs)"
    if "r \<in> set rs" and "\<And>s. q_state (f s) = Leased" for rs f
    using that(1)
  proof (induction rs)
    case (Cons a rs)
    have le: "length (filter (\<lambda>r. q_state r = Queued) (map (\<lambda>s. if q_task_id s = q_task_id r then f s else s) rs)) \<le>
        length (filter (\<lambda>r. q_state r = Queued) rs)"
      using that(2) by (induction rs) auto
    show ?case using Cons le that(2) r(2) by (auto split: if_splits)
  qed simp
  from this [OF r(1), of "set_leased w (t + ttl) (q_attempt r + 1) t"] show ?thesis
    using assms(2) 3(5) by (auto simp: queued_count_def sql_count_def sql_update_def journal_entries)
qed (use assms(2) in auto)

lemma pass_takes_one:
  assumes inv: "queue_inv m (st_db st)" and "work_once env worker st = Some (st', Ok r)" and "wk_outcome r \<noteq> ''idle''"
  shows "queue_inv m (st_db st') \<and> queued_count (st_db st') < queued_count (st_db st)"
proof (cases rule: work_once_cases [OF assms(2)])
  case (3 locks st1)
  show ?thesis
  proof (cases rule: work_leased_cases [OF 3(2)])
    case (4 g db st2 ws staged res)
    have l: "lease (st_db st) worker (we_lease_seconds env) (we_wall env (st_os st)) = (db, Ok (Some g))"
      using 4(1) by simp
    have inv1: "queue_inv m db" using lease_inv [OF inv] l by (metis fst_conv)
    have inv2: "queue_inv m (st_db st2)" by (rule renewed_inv [OF 4(2) inv1])
    have step: "queue_step m (st_db st2) (st_db st1)" using report_result_step [OF 4(4)] by blast
    obtain i w rv obs t where "st_db st1 = fst (record_result (st_db st2) i w rv obs t)"
      using 4(4) by (auto simp: report_result_def Let_def split: prod.splits sum.splits) (metis fst_conv)+
    then have "queued_count (st_db st1) \<le> queued_count (st_db st2)"
      using queued_count_record [OF inv2] by simp
    moreover have "queued_count (st_db st2) \<le> queued_count db" by (rule queued_count_renewed [OF 4(2)])
    moreover have "queued_count db < queued_count (st_db st)" by (rule queued_count_lease [OF inv l])
    ultimately show ?thesis
      using queue_step_inv [OF step inv2] 3(3) by (simp add: release_slot_def)
  qed (use assms(3) in \<open>auto simp: idle_result_def\<close>)
qed (use assms(3) in auto)

lemmas work_turns_unfold = work_turns.simps

context worker_host
begin

lemma work_turns_returns:
  assumes "0 < we_poll_interval env" and "queue_inv m (st_db st)"
  shows "\<exists>st' res. work_turns env worker max_tasks True idle_sleep results st = Some (st', res) \<and>
    (\<forall>rs. res = Ok rs \<longrightarrow> length rs \<le> length results + queued_count (st_db st))"
  using assms(2)
proof (induction "queued_count (st_db st)" arbitrary: st results rule: less_induct)
  case less
  obtain st1 x where pass: "work_once env worker st = Some (st1, x)"
    using work_once_returns [OF assms(1), of worker st] by auto
  show ?case
  proof (cases x)
    case (Inl e)
    then show ?thesis using pass by (simp add: work_turns_unfold [of _ _ _ _ _ _ st])
  next
    case (Inr r)
    show ?thesis
    proof (cases "wk_outcome r = ''idle''")
      case True
      then show ?thesis using pass Inr by (simp add: work_turns_unfold [of _ _ _ _ _ _ st])
    next
      case False
      have next_pass: "queue_inv m (st_db st1)" "queued_count (st_db st1) < queued_count (st_db st)"
        using pass_takes_one [OF less.prems] pass Inr False by auto
      from less.hyps [OF next_pass(2,1), of "results @ [r]"]
      show ?thesis using pass Inr False next_pass(2)
        by (fastforce simp: work_turns_unfold [of _ _ _ _ _ _ st])
    qed
  qed
qed

end

subsection \<open>The worker on a POSIX host\<close>

definition posix_worker ::
  "sandbox_host \<Rightarrow> sandbox_spec \<Rightarrow> string \<Rightarrow> kernel \<Rightarrow> string dict \<Rightarrow> proc_world worker_env \<Rightarrow> proc_world worker_env" where
  "posix_worker sh spec used start environ env =
     env\<lparr>we_host := sandboxed sh spec used (subprocess_host start environ (\<lambda>_. False))\<rparr>"

interpretation posix: worker_host "posix_worker sh spec used start environ env" pw_now
  for sh spec used start environ env
  unfolding worker_host_def
  by unfold_locales
    (auto simp: posix_worker_def sandboxed_def subprocess_host_def kill_tree_now dest: handle_poll_now)

lemma reconciled_reachable:
  "queue_reachable (we_max_attempts env) (st_db st) \<Longrightarrow> queue_reachable (we_max_attempts env) (st_db (station_reconcile env st))"
  by (auto simp: station_reconcile_def intro: queue_reachable.step queue_step.do_reconcile)


subsection \<open>An exception that escapes\<close>

text \<open>An operating system error while the workspace is made (a base directory that is not there, or not writable) is not one
  of the refusals the worker records: the pass ends with that exception and the task is left leased.\<close>
theorem failed_directory_leaves_the_task_leased:
  assumes "queue_reachable m (st_db st)" and "is_ok (require_safe_id worker)"
    and "snd (gate_enter (we_alive env) (max_concurrent_tasks (we_policy env)) (we_pid env) (worker_slot worker) (st_locks st)) = Ok ()"
    and "lease (st_db st) worker (we_lease_seconds env) (we_wall env (st_os st)) = (db, Ok (Some g))"
    and "allocate_workspace (we_exists env) (we_make_dir env) (we_base env) (tr_task_id (lg_recipe g))
      (snd (th_monotonic (we_host env) (st_os st))) = Err (Raise PyOSError ms)"
  shows "\<exists>st'. work_once env worker st = Some (st', Err (Raise PyOSError ms)) \<and>
    task_state (st_db st') (lg_task_id g) = Some Leased"
proof -
  obtain locks where locks: "gate_enter (we_alive env) (max_concurrent_tasks (we_policy env)) (we_pid env) (worker_slot worker) (st_locks st) =
      (locks, Ok ())"
    using assms(3) by (metis prod.collapse)
  obtain t os where clock: "th_monotonic (we_host env) (st_os st) = (t, os)" by fastforce
  let ?st = "st\<lparr>st_locks := locks, st_db := db, st_os := os, st_next := t + we_lease_seconds env / 3, st_lost := False, st_renewals := 0\<rparr>"
  have "work_leased env worker (st\<lparr>st_locks := locks\<rparr>) = Some (?st, Err (Raise PyOSError ms))"
    using assms(4,5) clock
    by (simp add: work_leased_def read_clock_def carry_out_def is_config_error_def)
  then have "work_once env worker st = Some (release_slot worker ?st, Err (Raise PyOSError ms))"
    using assms(2) locks by (auto simp: work_once_def is_ok_def split: sum.splits)
  moreover have "task_state db (lg_task_id g) = Some Leased"
  proof (cases rule: lease_cases [OF queue_reachable_inv [OF assms(1)], where w = worker and ttl = "we_lease_seconds env"
        and t = "we_wall env (st_os st)"])
    case (3 r e)
    have "find_row (st_db st) (q_task_id r) = Some r"
      using oldest_queued_Some [OF 3(2)] find_row_iff [OF queue_reachable_inv [OF assms(1)]] by auto
    then show ?thesis using assms(4) 3(5)
      by (auto simp: task_state_def find_row_journal find_row_update)
  qed (use assms(4) in auto)
  ultimately show ?thesis by (auto simp: release_slot_def)
qed

subsection \<open>One pass\<close>

definition sample_env :: "proc_world worker_env" where
  "sample_env = \<lparr>we_policy = pytest_policy, we_base = ''/srv/ws'', we_host = sample_host, we_wall = (\<lambda>w. 20 + pw_now w),
     we_exists = (\<lambda>_ _. False), we_realpath = (\<lambda>_ p. p), we_make_dir = (\<lambda>w _. Ok w), we_git = (\<lambda>_ _ _ _ w. (w, Ok (0, []))),
     we_tree = \<lparr>to_resolve = (\<lambda>_ p. p), to_is_symlink = (\<lambda>_ _. False), to_is_dir = (\<lambda>_ _. True), to_rmtree = (\<lambda>_ w. w)\<rparr>,
     we_observe = None, we_lease_seconds = 60, we_poll_interval = 1, we_alive = (\<lambda>_. True), we_pid = 7, we_max_attempts = 5\<rparr>"

definition sample_station :: "proc_world station" where
  "sample_station = \<lparr>st_db = db1, st_locks = [], st_os = idle_world, st_next = 0, st_lost = False, st_renewals = 0\<rparr>"


definition sample_grant :: lease_grant where
  "sample_grant = \<lparr>lg_task_id = ''t1'', lg_worker_id = ''w1'', lg_attempt = 1, lg_lease_expires_at = 80,
     lg_recipe = sample_recipe, lg_revision = ''v1.2.3'', lg_base_fingerprint = ''base-1''\<rparr>"

lemma sample_lease: "lease db1 ''w1'' 60 20 = (db2, Ok (Some sample_grant))"
proof -
  have "q_task_id row1 = ''t1''" "q_attempt row1 = 0" by (simp_all add: row1_def new_row_def sample_recipe_def)
  moreover have "\<exists>e. row_to_entry row1 = Ok e \<and> qe_task_id e = ''t1'' \<and> qe_recipe e = sample_recipe \<and>
      qe_revision e = ''v1.2.3'' \<and> qe_base_fingerprint e = ''base-1''"
    using sample_recipe_read by (simp add: row_to_entry_def row1_def new_row_def) (simp add: sample_recipe_def)
  ultimately have "snd (lease db1 ''w1'' 60 20) = Ok (Some sample_grant)"
    by (auto simp: lease_def oldest_db1 Let_def sample_grant_def)
  then show ?thesis by (metis db2_def prod.collapse)
qed

definition no_directory_env :: "proc_world worker_env" where
  "no_directory_env = sample_env\<lparr>we_make_dir := \<lambda>w p. Err (Raise PyOSError [])\<rparr>"

lemma sample_gate: "gate_enter (\<lambda>_. True) 2 7 (worker_slot ''w1'') [] = ([(''worker-w1.lock'', ''7'')], Ok ())"
  by code_simp

lemma failed_directory_leaves_the_task_leased_witness:
  "\<exists>st'. work_once no_directory_env ''w1'' sample_station = Some (st', Err (Raise PyOSError [])) \<and>
     task_state (st_db st') ''t1'' = Some Leased"
proof -
  have id: "is_ok (require_safe_id ''w1'')" "is_ok (require_safe_id ''t1'')" by code_simp+
  have env: "we_alive no_directory_env = (\<lambda>_. True)" "we_pid no_directory_env = 7" "we_policy no_directory_env = pytest_policy"
      "max_concurrent_tasks pytest_policy = 2" "we_lease_seconds no_directory_env = 60" "we_host no_directory_env = sample_host"
      "we_wall no_directory_env = (\<lambda>w. 20 + pw_now w)" "we_exists no_directory_env = (\<lambda>_ _. False)"
      "we_make_dir no_directory_env = (\<lambda>_ _. Err (Raise PyOSError []))" "we_base no_directory_env = ''/srv/ws''"
    by (simp_all add: no_directory_env_def sample_env_def pytest_policy_def sample_policy_value_def)
  have alloc: "allocate_workspace (\<lambda>_ _. False) (\<lambda>_ _. Err (Raise PyOSError [])) ''/srv/ws'' ''t1'' w =
      (Err (Raise PyOSError []) :: (proc_world \<times> workspace) result)" for w
    using id(2) by (auto simp: allocate_workspace_def startswith_def and_then_def Let_def split: sum.splits)
  have st: "st_db sample_station = db1" "st_locks sample_station = []" "st_os sample_station = idle_world" "pw_now idle_world = 0"
    by (simp_all add: sample_station_def idle_world_def)
  have grant: "lg_task_id sample_grant = ''t1''" "tr_task_id (lg_recipe sample_grant) = ''t1''"
    by (simp_all add: sample_grant_def sample_recipe_def)
  show ?thesis
    using failed_directory_leaves_the_task_leased [of 5 sample_station "''w1''" no_directory_env db2 sample_grant "[]"]
    by (simp only: st env grant alloc id sample_gate sample_lease snd_conv reachable_db1 simp_thms add_0_right)
qed

definition running_station :: "proc_world \<Rightarrow> proc_world station" where
  "running_station os = \<lparr>st_db = db2, st_locks = [(''worker-w1.lock'', ''7'')], st_os = os, st_next = 20, st_lost = False, st_renewals = 0\<rparr>"

lemma running_station_os [simp]: "running_station w\<lparr>st_os := w'\<rparr> = running_station w'"
  by (simp add: running_station_def)

lemmas sample_host_simps = subprocess_host_def handle_poll_def proc_poll_def spawned_world_def after_run_def
  pw_sleep_def ended_def drain_handle_def kill_group_def

lemma sample_env_sel:
  "we_host sample_env = sample_host" "we_lease_seconds sample_env = 60" "we_poll_interval sample_env = 1"
  "we_policy sample_env = pytest_policy" "we_base sample_env = ''/srv/ws''" "we_exists sample_env = (\<lambda>_ _. False)"
  "we_realpath sample_env = (\<lambda>_ p. p)" "we_make_dir sample_env = (\<lambda>w _. Ok w)" "we_observe sample_env = None"
  "we_wall sample_env = (\<lambda>w. 20 + pw_now w)" "we_alive sample_env = (\<lambda>_. True)" "we_pid sample_env = 7"
  by (simp_all add: sample_env_def)

lemma sample_host_sel:
  "th_monotonic sample_host w = (pw_now w, w)" "th_sleep sample_host = pw_sleep" "th_poll sample_host = handle_poll"
  "th_used sample_host = ''none''" "th_kill_tree sample_host = kill_tree"
  by (simp_all add: subprocess_host_def)

lemma sample_renewing_loop:
  "poll_loop (renewing_host sample_env sample_grant) 0 300 1 (running_station spawned_world) =
     Some ((''completed'', Some 0, False), running_station after_run)"
proof -
  let ?h = "renewing_host sample_env sample_grant"
  have "poll_turn ?h 0 300 (running_station spawned_world) = (None, running_station spawned_world)"
    by (simp add: poll_turn_def renewing_host_def read_clock_def sample_env_sel sample_host_sel running_station_def
        handle_poll_def proc_poll_def spawned_world_def)
  moreover have "th_sleep ?h 1 (running_station spawned_world) = running_station (pw_sleep 1 spawned_world)"
    by (simp add: renewing_host_def renewing_sleep_def read_clock_def sample_env_sel sample_host_sel running_station_def Let_def
        spawned_world_def)
  moreover have "poll_turn ?h 0 300 (running_station (pw_sleep 1 spawned_world)) =
      (Some (''completed'', Some 0, False), running_station after_run)"
    by (simp add: poll_turn_def renewing_host_def sample_env_sel sample_host_sel running_station_def sample_host_simps)
  ultimately show ?thesis
    by (subst poll_loop_unfold, simp) (subst poll_loop_unfold, simp)
qed

lemma sample_renewing_run:
  "run_task (renewing_host sample_env sample_grant) (Some (station_fs sample_env)) 1 sample_recipe pytest_policy sample_ws
     (running_station idle_world) = Some (running_station after_run, Ok sample_result)"
proof -
  let ?h = "renewing_host sample_env sample_grant"
  have "resolved_input_paths sample_recipe sample_ws fs = Ok []"
    and "tr_command sample_recipe = [''pytest'', ''-q'', ''tests'']"
    and "tr_timeout sample_recipe = 300" and "tr_task_id sample_recipe = ''t1''" for fs
    by (simp_all add: resolved_input_paths_def sample_recipe_def)
  moreover have "find_program (Some (station_fs sample_env)) sample_ws ''pytest'' (running_station idle_world) = Ok ''pytest''"
  proof -
    have "resolve_with (\<lambda>p. p) sample_ws ''pytest'' = Ok ''/srv/ws/t1/pytest''" by code_simp
    then show ?thesis by (simp add: find_program_def station_fs_def sample_env_sel startswith_def)
  qed
  moreover have "th_spawn ?h argv cwd e (running_station idle_world) = Ok (running_station spawned_world)" for argv cwd e
    by (simp add: renewing_host_def sample_env_sel running_station_def subprocess_host_def spawn_process_def sample_kernel_def
        idle_world_def spawned_world_def)
  moreover have "th_monotonic ?h (running_station w) = (pw_now w, running_station w)" "th_used ?h = ''none''"
      "th_stdout ?h (running_station after_run) = ''all passed''" "th_stderr ?h (running_station after_run) = []" for w
    by (simp_all add: renewing_host_def read_clock_def sample_env_sel sample_host_sel running_station_def)
      (simp_all add: subprocess_host_def after_run_def tail_is_last tail_bytes_def last_chars_def)
  moreover have "pw_now idle_world = 0" "pw_now after_run = 1" by (simp_all add: idle_world_def after_run_def)
  ultimately show ?thesis
    by (simp add: run_task_def sample_recipe_passes run_started_def sample_renewing_loop sample_result_def)
qed

lemma sample_carry_out:
  "carry_out sample_env sample_grant (running_station idle_world) = Some (running_station after_run, Some sample_ws, None, Ok sample_result)"
proof -
  have "is_ok (require_safe_id ''t1'')" by code_simp
  then have "allocate_workspace (\<lambda>_ _. False) (\<lambda>w _. Ok w) ''/srv/ws'' ''t1'' idle_world = Ok (idle_world, sample_ws)"
    using sample_ws_allocated
    by (auto simp: allocate_workspace_def startswith_def Let_def and_then_def os_exists_def os_mkdir_def split: sum.splits if_splits)
  moreover have "lg_recipe sample_grant = sample_recipe" "tr_task_id sample_recipe = ''t1''" "repo_sources pytest_policy = []"
    by (simp_all add: sample_grant_def sample_recipe_def pytest_policy_def sample_policy_value_def)
  moreover have "st_os (running_station w) = w" for w
    by (simp add: running_station_def)
  ultimately show ?thesis
    by (simp add: carry_out_def sample_env_sel sample_renewing_run)
qed

lemma sample_record:
  "\<exists>db ro. record_result db2 ''t1'' ''w1'' (run_view_of sample_result) ''base-1'' 21 = (db, Ok ro) \<and> ro_accepted ro \<and>
     ro_final_state ro = Succeeded"
proof -
  have row2: "leased_to ''t1'' ''w1'' row2" "\<not> expired 21 row2" "q_base_fingerprint row2 = ''base-1''"
    by (simp_all add: leased_to_def expired_def row2_def row1_def new_row_def set_leased_def sample_recipe_def)
  have ran: "ran_ok (run_view_of sample_result)" by (simp add: ran_ok_def run_view_of_def sample_result_def)
  show ?thesis
    by (cases rule: record_cases [OF queue_reachable_inv [OF reachable_db2, of 5], where i = "''t1''" and w = "''w1''"
          and rv = "run_view_of sample_result" and obs = "''base-1''" and t = 21])
      (use row2 ran find_row_db2 in auto)
qed

lemma sample_pass:
  "\<exists>st' r. work_once sample_env ''w1'' sample_station = Some (st', Ok r) \<and> wk_task_id r = Some ''t1'' \<and> wk_outcome r = ''succeeded''"
proof -
  obtain db ro where rec: "record_result db2 ''t1'' ''w1'' (run_view_of sample_result) ''base-1'' 21 = (db, Ok ro)"
      and ro: "ro_accepted ro" "ro_final_state ro = Succeeded"
    using sample_record by blast
  have "\<exists>st' r. report_result sample_env ''w1'' sample_grant (Some sample_ws) None sample_result (running_station after_run) = (st', Ok r) \<and>
      wk_task_id r = Some ''t1'' \<and> wk_outcome r = ''succeeded''"
    using rec ro
    by (simp add: report_result_def sample_env_sel running_station_def sample_grant_def Let_def after_run_def split: prod.splits)
  then obtain st' r where rep: "report_result sample_env ''w1'' sample_grant (Some sample_ws) None sample_result (running_station after_run) = (st', Ok r)"
      and r: "wk_task_id r = Some ''t1''" "wk_outcome r = ''succeeded''" by blast
  have "work_leased sample_env ''w1'' (sample_station\<lparr>st_locks := [(''worker-w1.lock'', ''7'')]\<rparr>) = Some (st', Ok r)"
  proof -
    have "read_clock sample_env (sample_station\<lparr>st_locks := [(''worker-w1.lock'', ''7'')], st_db := db2\<rparr>) =
        (0, sample_station\<lparr>st_locks := [(''worker-w1.lock'', ''7'')], st_db := db2\<rparr>)"
      by (simp add: read_clock_def sample_env_sel sample_host_sel sample_station_def idle_world_def)
    moreover have "sample_station\<lparr>st_locks := [(''worker-w1.lock'', ''7'')], st_db := db2, st_next := 20, st_lost := False,
        st_renewals := 0\<rparr> = running_station idle_world"
      by (simp add: sample_station_def running_station_def)
    moreover have "st_db sample_station = db1" "we_wall sample_env (st_os sample_station) = 20"
      by (simp_all add: sample_station_def sample_env_sel idle_world_def)
    ultimately show ?thesis
      by (simp add: work_leased_def sample_lease sample_carry_out rep sample_env_sel(2))
  qed
  moreover have "is_ok (require_safe_id ''w1'')" by code_simp
  moreover have "st_locks sample_station = []" "max_concurrent_tasks pytest_policy = 2"
    by (simp_all add: sample_station_def pytest_policy_def sample_policy_value_def)
  ultimately show ?thesis
    using r by (auto simp: work_once_def sample_env_sel sample_gate is_ok_def split: sum.splits)
qed

lemma pass_reports_what_the_queue_holds_witness:
  "\<exists>st' r. work_once sample_env ''w1'' sample_station = Some (st', Ok r) \<and> task_state (st_db st') ''t1'' = Some Succeeded"
proof -
  obtain st' r where pass: "work_once sample_env ''w1'' sample_station = Some (st', Ok r)"
      and r: "wk_task_id r = Some ''t1''" "wk_outcome r = ''succeeded''" using sample_pass by blast
  have "queue_reachable 5 (st_db sample_station)" by (simp add: sample_station_def reachable_db1)
  from pass_reports_what_the_queue_holds [OF this pass] show ?thesis using pass r by auto
qed

lemma worker_only_makes_queue_calls_witness:
  "\<exists>st' r. work_once sample_env ''w1'' sample_station = Some (st', Ok r) \<and> (queue_step 5)\<^sup>*\<^sup>* db1 (st_db st')"
proof -
  obtain st' r where pass: "work_once sample_env ''w1'' sample_station = Some (st', Ok r)" using sample_pass by blast
  from worker_only_makes_queue_calls [OF pass, of 5] have "(queue_step 5)\<^sup>*\<^sup>* db1 (st_db st')"
    by (simp add: sample_station_def)
  with pass show ?thesis by blast
qed

end
