(* ===== verification/Migration.thy ===== *)
theory Migration
  imports Config Glob Paths
begin

text \<open>
  \<open>migration.py\<close>: what is private in a source checkout, the four destinations, the inventory of a repository through a
  read-only inspector (a record of answers) and the plan that sends every file to the destination of its class.
\<close>

subsection \<open>Privacy\<close>

record privacy_policy =
  pp_path_prefixes :: "string list"
  pp_name_globs :: "string list"
  pp_extra_relpaths :: "string list"

definition default_privacy :: privacy_policy where
  "default_privacy = \<lparr>pp_path_prefixes = [''SONNET/''],
     pp_name_globs = [''.env'', ''.env.*'', ''*.env'', ''*.pem'', ''*.key'', ''id_ed25519*'', ''id_rsa*'',
       ''*.secret'', ''refresh_tokens.json'', ''*.p12'', ''*.keystore'',
       ''.git-credentials'', ''.netrc'', ''.npmrc'', ''.pypirc'', ''credentials.json'',
       ''service-account*.json'', ''*.kdbx''],
     pp_extra_relpaths = []\<rparr>"

function strip_here :: "string \<Rightarrow> string" where
  "strip_here p = (if startswith p ''./'' then strip_here (drop 2 p) else p)"
  by pat_completeness auto
termination
  by (relation "measure length") (auto simp: startswith_iff)

declare strip_here.simps [simp del]

definition is_private :: "privacy_policy \<Rightarrow> string \<Rightarrow> bool" where
  "is_private p relpath =
     (let norm = strip_here (replace_char backslash slash relpath) in
      norm \<in> set (pp_extra_relpaths p) \<or>
      list_ex (\<lambda>prefix. norm = rstrip_char slash prefix \<or> startswith norm prefix) (pp_path_prefixes p) \<or>
      list_ex (fnmatch (basename norm)) (pp_name_globs p))"

definition privacy_to_dict :: "privacy_policy \<Rightarrow> json" where
  "privacy_to_dict p = JObj
     [(''path_prefixes'', JArr (map JStr (pp_path_prefixes p))), (''name_globs'', JArr (map JStr (pp_name_globs p))),
      (''extra_relpaths'', JArr (map JStr (pp_extra_relpaths p)))]"

definition str_tuple :: "json dict \<Rightarrow> string \<Rightarrow> string list \<Rightarrow> string list \<times> msg list" where
  "str_tuple d key fallback = (case map_of d key of
     None \<Rightarrow> (fallback, [])
   | Some v \<Rightarrow> (case str_list v of
        None \<Rightarrow> (fallback, [Msg ''{} must be a list of non-empty strings'' [JStr key]])
      | Some ss \<Rightarrow> (ss, [])))"

definition privacy_from_dict :: "json \<Rightarrow> privacy_policy result" where
  "privacy_from_dict data = (case data of
     JNull \<Rightarrow> Ok default_privacy
   | JObj d \<Rightarrow>
       (let (prefixes, e1) = str_tuple d ''path_prefixes'' (pp_path_prefixes default_privacy);
            (globs, e2) = str_tuple d ''name_globs'' (pp_name_globs default_privacy);
            (extra, e3) = str_tuple d ''extra_relpaths'' []
        in finish (e1 @ e2 @ e3) \<lparr>pp_path_prefixes = prefixes, pp_name_globs = globs, pp_extra_relpaths = extra\<rparr>)
   | _ \<Rightarrow> config_error [Msg ''privacy policy must be a JSON object'' []])"

subsection \<open>Destinations\<close>

definition is_within :: "string \<Rightarrow> string \<Rightarrow> bool" where
  "is_within child parent =
     (let child_n = rstrip_char slash child @ ''/''; parent_n = rstrip_char slash parent @ ''/''
      in child_n = parent_n \<or> startswith child_n parent_n)"

record destinations =
  md_reference :: string
  md_local_changes :: string
  md_private :: string
  md_work_in_progress :: string

definition destination_fields :: "string list" where
  "destination_fields = [''reference_root'', ''local_changes_root'', ''private_root'', ''work_in_progress_root'']"

definition destination_roots :: "destinations \<Rightarrow> string dict" where
  "destination_roots m =
     [(''reference_root'', md_reference m), (''local_changes_root'', md_local_changes m),
      (''private_root'', md_private m), (''work_in_progress_root'', md_work_in_progress m)]"

definition destinations_to_dict :: "destinations \<Rightarrow> json" where
  "destinations_to_dict m = JObj (map (\<lambda>(k, v). (k, JStr v)) (destination_roots m))"

definition not_absolute :: "string \<times> string \<Rightarrow> msg list" where
  "not_absolute e = (case e of (name, v) \<Rightarrow>
     if v \<noteq> [] \<and> \<not> startswith v ''/'' then [Msg ''{} must be an absolute path, got {}'' [JStr name, JStr v]] else [])"

definition overlap :: "string \<times> string \<Rightarrow> string \<times> string \<Rightarrow> msg list" where
  "overlap x y = (case (x, y) of ((name_a, a), (name_b, b)) \<Rightarrow>
     if a = b then [Msg ''{} and {} must be different paths'' [JStr name_a, JStr name_b]]
     else if is_within a b \<or> is_within b a then
       [Msg ''{} and {} must not be nested inside each other'' [JStr name_a, JStr name_b]]
     else [])"

fun overlaps :: "(string \<times> string) list \<Rightarrow> msg list" where
  "overlaps [] = []"
| "overlaps (x # xs) = concat (map (overlap x) xs) @ overlaps xs"

definition destinations_from_dict :: "json \<Rightarrow> destinations result" where
  "destinations_from_dict data = (case data of
     JObj d \<Rightarrow>
       (let (a, e1) = require_str d ''reference_root'';
            (b, e2) = require_str d ''local_changes_root'';
            (c, e3) = require_str d ''private_root'';
            (w, e4) = require_str d ''work_in_progress_root'';
            values = [(''reference_root'', a), (''local_changes_root'', b), (''private_root'', c), (''work_in_progress_root'', w)];
            present = map (\<lambda>(n, v). (n, rstrip_char slash v)) (filter (\<lambda>(n, v). v \<noteq> []) values)
        in finish (e1 @ e2 @ e3 @ e4 @ concat (map not_absolute values) @ overlaps present)
             \<lparr>md_reference = a, md_local_changes = b, md_private = c, md_work_in_progress = w\<rparr>)
   | _ \<Rightarrow> config_error [Msg ''migration destinations must be a JSON object'' []])"

subsection \<open>Inventory\<close>

text \<open>The answers of a \<open>SourceInspector\<close> about one source; \<open>unpushed_files\<close> is optional in the protocol.\<close>

record inspector =
  in_is_repo :: "string \<Rightarrow> bool"
  in_files :: "string \<Rightarrow> string list"
  in_size :: "string \<Rightarrow> string \<Rightarrow> nat"
  in_sha256 :: "string \<Rightarrow> string \<Rightarrow> string"
  in_modified :: "string \<Rightarrow> string list"
  in_untracked :: "string \<Rightarrow> string list"
  in_unpushed :: "string \<Rightarrow> string list"
  in_unpushed_files :: "(string \<Rightarrow> string list) option"

record source_entry =
  se_relpath :: string
  se_size :: nat
  se_sha256 :: string
  se_class :: string

definition entry_to_dict :: "source_entry \<Rightarrow> json" where
  "entry_to_dict e = JObj
     [(''relpath'', JStr (se_relpath e)), (''size'', JInt (int (se_size e))), (''sha256'', JStr (se_sha256 e)),
      (''classification'', JStr (se_class e))]"

record inventory =
  iv_name :: string
  iv_source_root :: string
  iv_has_git :: bool
  iv_unpushed :: "string list"
  iv_entries :: "source_entry list"

definition by_class :: "inventory \<Rightarrow> string \<Rightarrow> source_entry list" where
  "by_class iv c = filter (\<lambda>e. se_class e = c) (iv_entries iv)"

definition class_counts :: "source_entry list \<Rightarrow> nat dict" where
  "class_counts es = fold (\<lambda>e counts. dict_set (se_class e)
     ((case map_of counts (se_class e) of None \<Rightarrow> 0 | Some n \<Rightarrow> n) + 1) counts) es []"

definition inventory_to_dict :: "inventory \<Rightarrow> json" where
  "inventory_to_dict iv = JObj
     [(''name'', JStr (iv_name iv)), (''source_root'', JStr (iv_source_root iv)), (''has_git'', JBool (iv_has_git iv)),
      (''unpushed_commits'', JArr (map JStr (iv_unpushed iv))),
      (''class_counts'', JObj (map (\<lambda>(k, n). (k, JInt (int n))) (class_counts (iv_entries iv)))),
      (''entries'', JArr (map entry_to_dict (iv_entries iv)))]"

definition classify :: "string \<Rightarrow> string list \<Rightarrow> string list \<Rightarrow> privacy_policy \<Rightarrow> bool \<Rightarrow> string" where
  "classify relpath modified untracked policy has_git =
     (if is_private policy relpath then ''private''
      else if \<not> has_git \<or> relpath \<in> set untracked then ''untracked''
      else if relpath \<in> set modified then ''tracked-modified''
      else ''tracked-clean'')"

definition build_repo_inventory ::
  "string \<Rightarrow> inspector \<Rightarrow> privacy_policy option \<Rightarrow> string option \<Rightarrow> inventory" where
  "build_repo_inventory source i policy name =
     (let p = (case policy of None \<Rightarrow> default_privacy | Some q \<Rightarrow> q);
          has_git = in_is_repo i source;
          modified = (if has_git then in_modified i source else []);
          untracked = (if has_git then in_untracked i source else []);
          unpushed = (if has_git then in_unpushed i source else []);
          modified1 = (case in_unpushed_files i of
              None \<Rightarrow> modified | Some f \<Rightarrow> if has_git then modified @ f source else modified);
          base = basename (rstrip_char slash (replace_char backslash slash source));
          given = (case name of None \<Rightarrow> [] | Some n \<Rightarrow> n)
      in \<lparr>iv_name = (if given \<noteq> [] then given else if base \<noteq> [] then base else source),
          iv_source_root = source, iv_has_git = has_git, iv_unpushed = unpushed,
          iv_entries = map (\<lambda>relpath. let norm = replace_char backslash slash relpath in
              \<lparr>se_relpath = norm, se_size = in_size i source relpath, se_sha256 = in_sha256 i source relpath,
               se_class = classify norm modified1 untracked p has_git\<rparr>) (sort (in_files i source))\<rparr>)"

subsection \<open>Plan\<close>

definition class_to_field :: "string dict" where
  "class_to_field = [(''tracked-clean'', ''reference_root''), (''tracked-modified'', ''local_changes_root''),
     (''untracked'', ''local_changes_root''), (''private'', ''private_root'')]"

record planned_copy =
  pc_source :: string
  pc_sha256 :: string
  pc_size :: nat
  pc_class :: string
  pc_destination :: string
  pc_reason :: string

definition copy_to_dict :: "planned_copy \<Rightarrow> json" where
  "copy_to_dict c = JObj
     [(''source_relpath'', JStr (pc_source c)), (''sha256'', JStr (pc_sha256 c)), (''size'', JInt (int (pc_size c))),
      (''classification'', JStr (pc_class c)), (''destination'', JStr (pc_destination c)), (''reason'', JStr (pc_reason c))]"

record migration_plan =
  mp_repo :: string
  mp_source_root :: string
  mp_copies :: "planned_copy list"
  mp_commit_bundle :: "string option"
  mp_manifest :: "string dict"
  mp_warnings :: "msg list"

definition plan_to_dict :: "migration_plan \<Rightarrow> json" where
  "plan_to_dict p = JObj
     [(''repo_name'', JStr (mp_repo p)), (''source_root'', JStr (mp_source_root p)),
      (''copies'', JArr (map copy_to_dict (mp_copies p))),
      (''commit_bundle'', case mp_commit_bundle p of None \<Rightarrow> JNull | Some b \<Rightarrow> JStr b),
      (''manifest'', JObj (map (\<lambda>(k, v). (k, JStr v)) (sorted_items (mp_manifest p)))),
      (''warnings'', JArr (map (\<lambda>m. msg_json (Some m)) (mp_warnings p)))]"

definition reasons :: "string dict" where
  "reasons =
     [(''tracked-clean'', ''published and matches origin - safe as a reference copy''),
      (''tracked-modified'', ''locally modified, not committed - kept apart from the clean reference''),
      (''untracked'', ''untracked working file - kept apart from the clean reference''),
      (''private'', ''private document or secret - never a Git-backed or shareable destination'')]"

definition root_of :: "destinations \<Rightarrow> string \<Rightarrow> string" where
  "root_of m field = (case map_of (destination_roots m) field of None \<Rightarrow> [] | Some r \<Rightarrow> r)"

definition planned_path :: "destinations \<Rightarrow> string \<Rightarrow> string \<Rightarrow> source_entry \<Rightarrow> string" where
  "planned_path m field name e = rstrip_char slash (root_of m field) @ ''/'' @ name @ ''/'' @ se_relpath e"

text \<open>One turn of the loop over the entries: the copies and the warnings it adds, or the refusal.\<close>

definition plan_entry :: "destinations \<Rightarrow> string \<Rightarrow> source_entry \<Rightarrow> (planned_copy list \<times> msg list) result" where
  "plan_entry m name e =
     (case map_of class_to_field (se_class e) of
        None \<Rightarrow> Ok ([], [Msg ''{}: class {} has no destination - skipped'' [JStr (se_relpath e), JStr (se_class e)]])
      | Some field \<Rightarrow>
          (let destination = planned_path m field name e in
           if se_class e = ''private'' \<and>
              (is_within destination (md_reference m) \<or> is_within destination (md_work_in_progress m)) then
             config_error [Msg ''private file {} would land under a shareable destination - refusing'' [JStr (se_relpath e)]]
           else Ok ([\<lparr>pc_source = se_relpath e, pc_sha256 = se_sha256 e, pc_size = se_size e, pc_class = se_class e,
                      pc_destination = destination, pc_reason = (case map_of reasons (se_class e) of None \<Rightarrow> [] | Some r \<Rightarrow> r)\<rparr>], [])))"

definition build_migration_plan :: "inventory \<Rightarrow> destinations \<Rightarrow> migration_plan result" where
  "build_migration_plan iv m =
     and_then (map_result (plan_entry m (iv_name iv)) (iv_entries iv)) (\<lambda>rs. Ok
       \<lparr>mp_repo = iv_name iv, mp_source_root = iv_source_root iv, mp_copies = concat (map fst rs),
        mp_commit_bundle = (if iv_unpushed iv \<noteq> [] then
          Some (rstrip_char slash (md_work_in_progress m) @ ''/'' @ iv_name iv @ ''.unpushed.bundle'') else None),
        mp_manifest = fold (\<lambda>e d. dict_set (se_relpath e) (se_sha256 e) d) (iv_entries iv) [],
        mp_warnings = concat (map snd rs)\<rparr>)"

end
