(* ===== verification/Migration_Proofs.thy ===== *)
theory Migration_Proofs
  imports Migration
begin

text \<open>
  The plan of a migration keeps the classes apart: destinations that were read do not overlap, every file lands under
  the root of its class and under no other, and no file is lost.
\<close>

subsection \<open>Roots that do not overlap\<close>

definition root_dir :: "string \<Rightarrow> string" where
  "root_dir r = rstrip_char slash r @ ''/''"

lemma rstrip_char_idem [simp]: "rstrip_char c (rstrip_char c s) = rstrip_char c s"
  by (simp add: rstrip_char_def dropWhile_idem)

lemma startswith_refl: "startswith s s"
  by (simp add: startswith_def)

lemma is_within_iff: "is_within child parent \<longleftrightarrow> startswith (root_dir child) (root_dir parent)"
  by (auto simp: is_within_def root_dir_def startswith_refl)

lemma startswith_linear: "startswith s p \<Longrightarrow> startswith s q \<Longrightarrow> startswith p q \<or> startswith q p"
  by (auto simp: startswith_iff) (metis append_eq_append_conv2)

text \<open>The four roots of a document that was read: absolute, and no root inside another.\<close>

definition apart :: "destinations \<Rightarrow> bool" where
  "apart m \<longleftrightarrow> (\<forall>f \<in> set destination_fields. \<forall>g \<in> set destination_fields. f \<noteq> g \<longrightarrow> \<not> is_within (root_of m f) (root_of m g))"

lemma overlap_Nil:
  "overlap (n, rstrip_char slash a) (k, rstrip_char slash b) = [] \<Longrightarrow> \<not> is_within a b \<and> \<not> is_within b a"
  by (auto simp: overlap_def is_within_iff root_dir_def split: if_splits)

lemma destinations_read_apart:
  assumes "destinations_from_dict j = Ok m"
  shows "apart m"
proof -
  obtain d where j: "j = JObj d"
    using assms by (cases j) (simp_all add: destinations_from_dict_def config_error_def)
  obtain a e1 b e2 c e3 w e4 where req: "require_str d ''reference_root'' = (a, e1)" "require_str d ''local_changes_root'' = (b, e2)"
      "require_str d ''private_root'' = (c, e3)" "require_str d ''work_in_progress_root'' = (w, e4)" by fastforce
  have "e1 = []" "e2 = []" "e3 = []" "e4 = []"
    and m: "m = \<lparr>md_reference = a, md_local_changes = b, md_private = c, md_work_in_progress = w\<rparr>"
    using assms by (simp_all add: destinations_from_dict_def j req Let_def result_simps)
  then have ne: "a \<noteq> []" "b \<noteq> []" "c \<noteq> []" "w \<noteq> []"
    using require_str_errors [of d "''reference_root''"] require_str_errors [of d "''local_changes_root''"]
      require_str_errors [of d "''private_root''"] require_str_errors [of d "''work_in_progress_root''"] req by simp_all
  have "overlaps [(''reference_root'', rstrip_char slash a), (''local_changes_root'', rstrip_char slash b),
      (''private_root'', rstrip_char slash c), (''work_in_progress_root'', rstrip_char slash w)] = []"
    using assms ne by (simp add: destinations_from_dict_def j req Let_def result_simps)
  then have "\<not> is_within a b \<and> \<not> is_within b a" "\<not> is_within a c \<and> \<not> is_within c a" "\<not> is_within a w \<and> \<not> is_within w a"
      "\<not> is_within b c \<and> \<not> is_within c b" "\<not> is_within b w \<and> \<not> is_within w b" "\<not> is_within c w \<and> \<not> is_within w c"
    by (auto dest!: overlap_Nil)
  then show ?thesis
    by (simp add: apart_def destination_fields_def root_of_def destination_roots_def m)
qed

subsection \<open>Where a file lands\<close>

lemma rstrip_char_joined:
  "rstrip_char c (s @ c # t) = (if rstrip_char c t = [] then rstrip_char c s else s @ c # rstrip_char c t)"
  by (simp add: rstrip_char_def dropWhile_append)

lemma planned_path_within: "is_within (planned_path m field name e) (root_of m field)"
  by (auto simp: is_within_iff root_dir_def planned_path_def rstrip_char_joined startswith_iff)

lemma class_fields: "map_of class_to_field c = Some field \<Longrightarrow> field \<in> set destination_fields"
  by (auto simp: class_to_field_def destination_fields_def split: if_splits)

lemma landed_apart:
  assumes "apart m" and "map_of class_to_field c = Some field" and "other \<in> set destination_fields" and "other \<noteq> field"
  shows "\<not> is_within (planned_path m field name e) (root_of m other)"
proof
  assume "is_within (planned_path m field name e) (root_of m other)"
  then have "is_within (root_of m field) (root_of m other) \<or> is_within (root_of m other) (root_of m field)"
    using planned_path_within [of m field name e] startswith_linear unfolding is_within_iff by blast
  then show False using assms class_fields [OF assms(2)] by (auto simp: apart_def)
qed

lemma plan_entry_known:
  assumes "apart m" and "map_of class_to_field (se_class e) = Some field"
  shows "plan_entry m name e = Ok ([\<lparr>pc_source = se_relpath e, pc_sha256 = se_sha256 e, pc_size = se_size e,
     pc_class = se_class e, pc_destination = planned_path m field name e,
     pc_reason = (case map_of reasons (se_class e) of None \<Rightarrow> [] | Some r \<Rightarrow> r)\<rparr>], [])"
proof -
  have "\<not> (se_class e = ''private'' \<and> (is_within (planned_path m field name e) (md_reference m) \<or>
      is_within (planned_path m field name e) (md_work_in_progress m)))"
  proof
    assume a: "se_class e = ''private'' \<and> (is_within (planned_path m field name e) (md_reference m) \<or>
      is_within (planned_path m field name e) (md_work_in_progress m))"
    then have "field = ''private_root''" using assms(2) by (simp add: class_to_field_def)
    moreover have "md_reference m = root_of m ''reference_root''" "md_work_in_progress m = root_of m ''work_in_progress_root''"
      by (simp_all add: root_of_def destination_roots_def)
    ultimately show False
      using a landed_apart [OF assms(1,2), of "''reference_root''"] landed_apart [OF assms(1,2), of "''work_in_progress_root''"]
      by (auto simp: destination_fields_def)
  qed
  then show ?thesis using assms(2) by (auto simp: plan_entry_def Let_def)
qed

lemma inventory_classes:
  "e \<in> set (iv_entries (build_repo_inventory source i policy name)) \<Longrightarrow> \<exists>field. map_of class_to_field (se_class e) = Some field"
  by (auto simp: build_repo_inventory_def Let_def classify_def class_to_field_def split: if_splits)

text \<open>C24: A migration loses nothing and mixes nothing: for an inventory of any source and destinations that were read from a
  document the plan cannot be refused, has no warning, and holds exactly one copy of each inventoried file, in order and
  with its hash; the copy lies under the root of the file's class and under none of the other three roots.\<close>
theorem migration_keeps_the_classes_apart:
  assumes "destinations_from_dict j = Ok m" and "iv = build_repo_inventory source i policy name"
  shows "\<exists>plan. build_migration_plan iv m = Ok plan \<and> mp_warnings plan = [] \<and>
    list_all2 (\<lambda>e c. pc_source c = se_relpath e \<and> pc_sha256 c = se_sha256 e \<and> pc_class c = se_class e \<and>
      (\<exists>field. map_of class_to_field (se_class e) = Some field \<and> is_within (pc_destination c) (root_of m field) \<and>
        (\<forall>other \<in> set destination_fields. other \<noteq> field \<longrightarrow> \<not> is_within (pc_destination c) (root_of m other))))
      (iv_entries iv) (mp_copies plan)"
proof -
  note apart = destinations_read_apart [OF assms(1)]
  define field where "field e = the (map_of class_to_field (se_class e))" for e :: source_entry
  define cp where "cp e = \<lparr>pc_source = se_relpath e, pc_sha256 = se_sha256 e, pc_size = se_size e,
     pc_class = se_class e, pc_destination = planned_path m (field e) (iv_name iv) e,
     pc_reason = (case map_of reasons (se_class e) of None \<Rightarrow> [] | Some r \<Rightarrow> r)\<rparr>" for e :: source_entry
  have known: "map_of class_to_field (se_class e) = Some (field e)" if "e \<in> set (iv_entries iv)" for e
    using inventory_classes [of e source i policy name] that assms(2) by (auto simp: field_def)
  have "map_result (plan_entry m (iv_name iv)) es = Ok (map (\<lambda>e. ([cp e], [])) es)" if "set es \<subseteq> set (iv_entries iv)" for es
    using that
  proof (induction es)
    case (Cons e es)
    then show ?case using plan_entry_known [OF apart known [of e], of "iv_name iv"] by (simp add: cp_def)
  qed simp
  from this [of "iv_entries iv"]
  have plan: "map_result (plan_entry m (iv_name iv)) (iv_entries iv) = Ok (map (\<lambda>e. ([cp e], [])) (iv_entries iv))" by simp
  have copies: "concat (map fst (map (\<lambda>e. ([cp e], [] :: msg list)) es)) = map cp es"
      "concat (map snd (map (\<lambda>e. ([cp e], [] :: msg list)) es)) = []" for es
    by (induction es) simp_all
  have "list_all2 (\<lambda>e c. pc_source c = se_relpath e \<and> pc_sha256 c = se_sha256 e \<and> pc_class c = se_class e \<and>
      (\<exists>field. map_of class_to_field (se_class e) = Some field \<and> is_within (pc_destination c) (root_of m field) \<and>
        (\<forall>other \<in> set destination_fields. other \<noteq> field \<longrightarrow> \<not> is_within (pc_destination c) (root_of m other))))
      (iv_entries iv) (map cp (iv_entries iv))"
    unfolding list_all2_map2
    by (rule list.rel_refl_strong) (use known landed_apart [OF apart known] planned_path_within in \<open>auto simp: cp_def\<close>)
  then show ?thesis
    using plan copies by (simp add: build_migration_plan_def)
qed

definition sample_destinations :: json where
  "sample_destinations = JObj
     [(''reference_root'', JStr ''/m/ref''), (''local_changes_root'', JStr ''/m/local/''),
      (''private_root'', JStr ''/m/private''), (''work_in_progress_root'', JStr ''/m/wip'')]"

definition sample_inspector :: inspector where
  "sample_inspector = \<lparr>in_is_repo = \<lambda>_. True, in_files = \<lambda>_. [''src/a.py'', ''.env''], in_size = \<lambda>_ _. 1,
     in_sha256 = \<lambda>_ p. p, in_modified = \<lambda>_. [''src/a.py''], in_untracked = \<lambda>_. [], in_unpushed = \<lambda>_. [''abc fix''],
     in_unpushed_files = None\<rparr>"

lemma sample_destinations_read:
  "destinations_from_dict sample_destinations = Ok
     \<lparr>md_reference = ''/m/ref'', md_local_changes = ''/m/local/'', md_private = ''/m/private'', md_work_in_progress = ''/m/wip''\<rparr>"
  by code_simp

lemma migration_keeps_the_classes_apart_witness:
  "\<exists>plan. build_migration_plan (build_repo_inventory ''/home/u/repo'' sample_inspector None None)
     \<lparr>md_reference = ''/m/ref'', md_local_changes = ''/m/local/'', md_private = ''/m/private'', md_work_in_progress = ''/m/wip''\<rparr> =
       Ok plan \<and> mp_warnings plan = [] \<and> length (mp_copies plan) = 2"
proof -
  have "length (iv_entries (build_repo_inventory ''/home/u/repo'' sample_inspector None None)) = 2"
    by (simp add: build_repo_inventory_def Let_def sample_inspector_def)
  then show ?thesis
    using migration_keeps_the_classes_apart [OF sample_destinations_read refl, of "''/home/u/repo''" sample_inspector None None]
    by (auto dest: list_all2_lengthD)
qed

subsection \<open>What a policy document may do\<close>

text \<open>The defaults of the privacy policy are replaced by the lists of a document, not extended: a document can make a private
  key an ordinary file.\<close>

definition narrow_policy :: json where
  "narrow_policy = JObj [(''name_globs'', JArr []), (''path_prefixes'', JArr [])]"

lemma document_narrows_the_policy:
  "is_private default_privacy ''keys/id_rsa'' \<and>
   privacy_from_dict narrow_policy = Ok \<lparr>pp_path_prefixes = [], pp_name_globs = [], pp_extra_relpaths = []\<rparr> \<and>
   \<not> is_private \<lparr>pp_path_prefixes = [], pp_name_globs = [], pp_extra_relpaths = []\<rparr> ''keys/id_rsa''"
proof -
  have "strip_here ''keys/id_rsa'' = ''keys/id_rsa''" by (simp add: strip_here.simps startswith_def)
  moreover have "fnmatch ''id_rsa'' ''id_rsa*''" by code_simp
  moreover have "replace_char backslash slash ''keys/id_rsa'' = ''keys/id_rsa''" "basename ''keys/id_rsa'' = ''id_rsa''"
    by code_simp+
  ultimately show ?thesis
    by (simp add: is_private_def default_privacy_def narrow_policy_def privacy_from_dict_def str_tuple_def str_list_def Let_def)
qed

text \<open>Separation is of texts: a source directory named by a path that ends in \<open>..\<close> gives a repository of that name, and
  the planned path of its files is outside their root for the operating system.\<close>

lemma source_named_parent:
  "iv_name (build_repo_inventory ''/home/u/..'' sample_inspector None None) = ''..''"
proof -
  have "basename (rstrip_char slash (replace_char backslash slash ''/home/u/..'')) = ''..''" by code_simp
  then show ?thesis by (simp add: build_repo_inventory_def Let_def)
qed

lemma clean_entry:
  assumes "e \<in> set (iv_entries (build_repo_inventory source i policy name))" and "se_class e = ''tracked-clean''"
  shows "in_is_repo i source" and "se_relpath e \<notin> set (in_untracked i source)" and "se_relpath e \<notin> set (in_modified i source)"
    and "in_unpushed_files i = Some f \<Longrightarrow> se_relpath e \<notin> set (f source)"
  using assms by (auto simp: build_repo_inventory_def Let_def classify_def split: if_splits option.splits)

text \<open>What is private stays private: a file of an inventory is classed private exactly when the policy says so, whatever git
  says of it, and a file that was modified or touched by an unpushed commit is never classed as published.\<close>
theorem classification_is_conservative:
  assumes "e \<in> set (iv_entries (build_repo_inventory source i (Some policy) name))"
  shows "(se_class e = ''private'' \<longleftrightarrow> is_private policy (se_relpath e)) \<and>
    (se_class e = ''tracked-clean'' \<longrightarrow> in_is_repo i source \<and> se_relpath e \<notin> set (in_untracked i source) \<and>
       se_relpath e \<notin> set (in_modified i source) \<and>
       (\<forall>f. in_unpushed_files i = Some f \<longrightarrow> se_relpath e \<notin> set (f source)))"
  using assms
  by (auto simp: build_repo_inventory_def Let_def classify_def split: if_splits option.splits)

lemma classification_is_conservative_witness:
  "\<exists>e \<in> set (iv_entries (build_repo_inventory ''/r'' sample_inspector (Some default_privacy) None)).
     se_relpath e = ''src/a.py'' \<and> se_class e \<noteq> ''tracked-clean''"
proof -
  let ?iv = "build_repo_inventory ''/r'' sample_inspector (Some default_privacy) None"
  have "replace_char backslash slash ''src/a.py'' = ''src/a.py''" by code_simp
  then have "\<exists>e \<in> set (iv_entries ?iv). se_relpath e = ''src/a.py''"
    by (simp add: build_repo_inventory_def Let_def sample_inspector_def)
  then obtain e where e: "e \<in> set (iv_entries ?iv)" "se_relpath e = ''src/a.py''" by blast
  have "se_class e \<noteq> ''tracked-clean''"
    using classification_is_conservative [OF e(1)] e(2) by (auto simp: sample_inspector_def)
  with e show ?thesis by blast
qed

end
