(* ===== verification/Inspector.thy ===== *)
theory Inspector
  imports Migration_Proofs Sha2
begin

text \<open>
  \<open>SystemSourceInspector\<close> of \<open>migration.py\<close>: the answers about a source, read from git's output and from a directory tree.
  Git (the return code and the text of its standard output) and the file system are arguments.
\<close>

subsection \<open>The host\<close>

text \<open>What \<open>os.walk\<close> meets: regular files, links (of any kind), other entries, and directories with their entries.\<close>

datatype node = Regular | Link | Special | Folder "(string \<times> node) list"

record source_host =
  sh_git :: "string \<Rightarrow> string list \<Rightarrow> int \<times> string"
  sh_isdir :: "string \<Rightarrow> bool"
  sh_isfile :: "string \<Rightarrow> bool"
  sh_islink :: "string \<Rightarrow> bool"
  sh_listdir :: "string \<Rightarrow> string list option"
  sh_tree :: "string \<Rightarrow> (string \<times> node) list"
  sh_size :: "string \<Rightarrow> nat"
  sh_read :: "string \<Rightarrow> bytes"

text \<open>\<open>os.path.join\<close> of two parts.\<close>

definition path_join :: "string \<Rightarrow> string \<Rightarrow> string" where
  "path_join a b = (if startswith b ''/'' then b else if a = [] \<or> last a = slash then a @ b else a @ ''/'' @ b)"

definition run_git :: "source_host \<Rightarrow> string \<Rightarrow> string list \<Rightarrow> string" where
  "run_git h dir args = (case sh_git h dir ([''git'', ''--no-optional-locks'', ''-C'', dir] @ args) of
     (code, out) \<Rightarrow> if code = 0 then out else [])"

definition is_repo :: "source_host \<Rightarrow> string \<Rightarrow> bool" where
  "is_repo h dir = (sh_isdir h (path_join dir ''.git'') \<or>
     strip (run_git h dir [''rev-parse'', ''--is-inside-work-tree'']) = ''true'')"

definition child_repos :: "source_host \<Rightarrow> string \<Rightarrow> string list" where
  "child_repos h dir = (case sh_listdir h dir of
     None \<Rightarrow> []
   | Some names \<Rightarrow> filter (\<lambda>path. sh_isdir h path \<and> sh_isdir h (path_join path ''.git'')) (map (path_join dir) (sort names)))"

subsection \<open>The files of a source\<close>

definition NUL :: char where
  "NUL = CHR 0x00"

text \<open>One path of \<open>git ls-files -z\<close>; a path that was seen, is not a file or is a link is left out.\<close>

definition listed_file :: "source_host \<Rightarrow> string \<Rightarrow> string \<Rightarrow> string list \<Rightarrow> string list" where
  "listed_file h dir line seen =
     (let rel = replace_char backslash slash (strip line); full = path_join dir rel in
      if rel \<noteq> [] \<and> rel \<notin> set seen \<and> sh_isfile h full \<and> \<not> sh_islink h full then seen @ [rel] else seen)"

definition git_files :: "source_host \<Rightarrow> string \<Rightarrow> string list" where
  "git_files h dir =
     fold (listed_file h dir) (concat (map (\<lambda>opt. split_on NUL (run_git h dir ([''ls-files'', ''-z''] @ opt)))
       [[''--cached''], [''--others'', ''--exclude-standard'']])) []"

definition walk_excludes :: "string list" where
  "walk_excludes = [''.git'', ''.venv'', ''venv'', ''node_modules'', ''__pycache__'', ''dist'', ''build'', ''target'', ''.gradle'',
     ''.mypy_cache'', ''.pytest_cache'']"

text \<open>\<open>os.walk\<close> from the top, without the excluded directories: the files of a directory first, then its directories.
  A link to a directory is not descended into.\<close>

fun walk_files :: "(string \<times> node) list \<Rightarrow> string list" where
  "walk_files es =
     map fst (filter (\<lambda>(n, k). k = Regular) es) @
     concat (map (\<lambda>(n, k). case k of
         Folder sub \<Rightarrow> if n \<in> set walk_excludes then [] else map (\<lambda>p. n @ ''/'' @ p) (walk_files sub)
       | _ \<Rightarrow> []) es)"

definition source_files :: "source_host \<Rightarrow> string \<Rightarrow> string list" where
  "source_files h dir = (if is_repo h dir then git_files h dir else walk_files (sh_tree h dir))"

definition source_size :: "source_host \<Rightarrow> string \<Rightarrow> string \<Rightarrow> nat" where
  "source_size h dir relpath = sh_size h (path_join dir relpath)"

definition source_sha256 :: "source_host \<Rightarrow> string \<Rightarrow> string \<Rightarrow> string" where
  "source_sha256 h dir relpath = sha256_hex (sh_read h (path_join dir relpath))"

subsection \<open>What git says of the files\<close>

text \<open>The tokens of \<open>git status --porcelain -z\<close>: a rename or copy takes one more token, the old path.\<close>

fun porcelain_rows :: "string list \<Rightarrow> (string \<times> string) list" where
  "porcelain_rows [] = []"
| "porcelain_rows (line # tokens) =
     (if length line < 4 then porcelain_rows tokens
      else (take 2 line, replace_char backslash slash (drop 3 line)) #
        porcelain_rows (if CHR ''R'' \<in> set (take 2 line) \<or> CHR ''C'' \<in> set (take 2 line) then drop 1 tokens else tokens))"

definition porcelain :: "source_host \<Rightarrow> string \<Rightarrow> (string \<times> string) list" where
  "porcelain h dir = porcelain_rows (split_on NUL (run_git h dir [''status'', ''--porcelain'', ''-z'', ''--untracked-files=all'']))"

definition modified_code :: "string \<Rightarrow> bool" where
  "modified_code code = (code \<noteq> ''??'' \<and> strip code \<noteq> [] \<and> \<not> startswith code ''!'')"

definition modified_tracked :: "source_host \<Rightarrow> string \<Rightarrow> string list" where
  "modified_tracked h dir = map snd (filter (\<lambda>(code, path). modified_code code) (porcelain h dir))"

definition untracked_files :: "source_host \<Rightarrow> string \<Rightarrow> string list" where
  "untracked_files h dir = map snd (filter (\<lambda>(code, path). code = ''??'') (porcelain h dir))"

definition upstream_of :: "source_host \<Rightarrow> string \<Rightarrow> string" where
  "upstream_of h dir = strip (run_git h dir [''rev-parse'', ''--abbrev-ref'', ''--symbolic-full-name'', ''@'' @ ''{u}''])"

definition unpushed_files :: "source_host \<Rightarrow> string \<Rightarrow> string list" where
  "unpushed_files h dir =
     (let upstream = upstream_of h dir in
      if upstream = [] then []
      else map (replace_char backslash slash) (filter (\<lambda>p. p \<noteq> [])
        (split_on NUL (run_git h dir [''diff'', ''--name-only'', ''-z'', upstream @ ''..HEAD'']))))"

text \<open>\<open>str.splitlines()\<close>.\<close>

definition line_end :: "char \<Rightarrow> bool" where
  "line_end c = (of_char c \<in> set [0x0A, 0x0B, 0x0C, 0x0D, 0x1C, 0x1D, 0x1E, 0x85 :: nat])"

fun splitlines :: "string \<Rightarrow> string \<Rightarrow> string list" where
  "splitlines cur [] = (if cur = [] then [] else [cur])"
| "splitlines cur (c # cs) =
     (if c = CHR 0x0D \<and> startswith cs [CHR 0x0A] then splitlines cur cs
      else if line_end c then cur # splitlines [] cs
      else splitlines (cur @ [c]) cs)"

definition unpushed_commits :: "source_host \<Rightarrow> string \<Rightarrow> string list" where
  "unpushed_commits h dir =
     (let upstream = upstream_of h dir in
      if upstream = [] then []
      else filter (\<lambda>line. strip line \<noteq> [])
        (splitlines [] (run_git h dir [''log'', ''--oneline'', ''--no-decorate'', upstream @ ''..HEAD''])))"

text \<open>The inspector that \<open>build_repo_inventory\<close> is given.\<close>

definition system_inspector :: "source_host \<Rightarrow> inspector" where
  "system_inspector h =
     \<lparr>in_is_repo = is_repo h, in_files = source_files h, in_size = source_size h, in_sha256 = source_sha256 h,
      in_modified = modified_tracked h, in_untracked = untracked_files h, in_unpushed = unpushed_commits h,
      in_unpushed_files = Some (unpushed_files h)\<rparr>"

end
