(* ===== verification/Inspector_Proofs.thy ===== *)
theory Inspector_Proofs
  imports Inspector
begin

text \<open>
  The system inspector: git's status output read back row by row, what follows for the classes of an inventory, and the walk
  over a tree against its specification.
\<close>

subsection \<open>git status\<close>

text \<open>
  The format git documents for \<open>status --porcelain -z\<close>: the two letters, a space and the path, each entry ended by NUL;
  a rename or copy is followed by the old path.
\<close>

type_synonym status_row = "string \<times> string \<times> string option"

definition row_tokens :: "status_row \<Rightarrow> string list" where
  "row_tokens r = (case r of (code, path, old) \<Rightarrow> (code @ '' '' @ path) # (case old of None \<Rightarrow> [] | Some p \<Rightarrow> [p]))"

definition status_text :: "status_row list \<Rightarrow> string" where
  "status_text rows = concat (map (\<lambda>t. t @ [NUL]) (concat (map row_tokens rows)))"

definition row_ok :: "status_row \<Rightarrow> bool" where
  "row_ok r = (case r of (code, path, old) \<Rightarrow>
     length code = 2 \<and> path \<noteq> [] \<and> NUL \<notin> set code \<and> NUL \<notin> set path \<and>
     (case old of None \<Rightarrow> CHR ''R'' \<notin> set code \<and> CHR ''C'' \<notin> set code
                | Some p \<Rightarrow> NUL \<notin> set p \<and> (CHR ''R'' \<in> set code \<or> CHR ''C'' \<in> set code)))"

definition read_row :: "status_row \<Rightarrow> string \<times> string" where
  "read_row r = (case r of (code, path, old) \<Rightarrow> (code, replace_char backslash slash path))"

lemma split_ended_tokens:
  "(\<And>t. t \<in> set ts \<Longrightarrow> c \<notin> set t) \<Longrightarrow> split_on c (concat (map (\<lambda>t. t @ [c]) ts)) = ts @ [[]]"
proof (induction ts)
  case (Cons t ts)
  then have "split_on c (t @ c # concat (map (\<lambda>t. t @ [c]) ts)) = t # split_on c (concat (map (\<lambda>t. t @ [c]) ts))"
    by (simp add: split_on_append_sep split_on_single)
  then show ?case using Cons by simp
qed simp

lemma tokens_no_NUL: "row_ok r \<Longrightarrow> t \<in> set (row_tokens r) \<Longrightarrow> NUL \<notin> set t"
  by (auto simp: row_ok_def row_tokens_def NUL_def split: option.splits)

lemma porcelain_rows_tokens:
  "list_all row_ok rows \<Longrightarrow> porcelain_rows (concat (map row_tokens rows) @ [[]]) = map read_row rows"
proof (induction rows)
  case (Cons r rows)
  obtain code path old where r: "r = (code, path, old)" by (cases r)
  have ok: "length code = 2" "path \<noteq> []" using Cons.prems by (auto simp: r row_ok_def)
  then have "\<not> length (code @ '' '' @ path) < 4" by (cases path) auto
  moreover have "take 2 (code @ '' '' @ path) = code" "drop 3 (code @ '' '' @ path) = path" using ok by simp_all
  ultimately show ?case
    using Cons by (cases old) (auto simp: r row_tokens_def read_row_def row_ok_def)
qed simp

lemma porcelain_reads_every_row:
  assumes "sh_git h dir [''git'', ''--no-optional-locks'', ''-C'', dir, ''status'', ''--porcelain'', ''-z'', ''--untracked-files=all''] =
      (0, status_text rows)" and "list_all row_ok rows"
  shows "porcelain h dir = map read_row rows"
proof -
  have "split_on NUL (status_text rows) = concat (map row_tokens rows) @ [[]]"
    unfolding status_text_def using assms(2) by (intro split_ended_tokens) (auto simp: list_all_iff dest: tokens_no_NUL)
  then show ?thesis using assms porcelain_rows_tokens by (simp add: porcelain_def run_git_def)
qed

text \<open>What git reports as changed is never migrated as published: when \<open>git status\<close> prints rows in its documented format,
  every path of a row that is untracked or modified (renames and copies included) that appears in the inventory of the checkout is
  classed as something other than clean, whatever the rest of git's answers say.\<close>
theorem changed_files_are_never_published:
  assumes "sh_git h dir [''git'', ''--no-optional-locks'', ''-C'', dir, ''status'', ''--porcelain'', ''-z'', ''--untracked-files=all''] =
      (0, status_text rows)" and "list_all row_ok rows"
    and "(code, path, old) \<in> set rows" and "code = ''??'' \<or> modified_code code"
    and "e \<in> set (iv_entries (build_repo_inventory dir (system_inspector h) policy name))"
    and "se_relpath e = replace_char backslash slash path"
  shows "se_class e \<noteq> ''tracked-clean''"
proof -
  have row: "(code, se_relpath e) \<in> set (porcelain h dir)"
    using assms(3,6) porcelain_reads_every_row [OF assms(1,2)] by (force simp: read_row_def)
  then have "se_relpath e \<in> set (untracked_files h dir) \<or> se_relpath e \<in> set (modified_tracked h dir)"
    using assms(4) by (force simp: untracked_files_def modified_tracked_def)
  then show ?thesis using clean_entry [OF assms(5)] by (auto simp: system_inspector_def)
qed

definition sample_source :: source_host where
  "sample_source = \<lparr>sh_git = \<lambda>dir args. (0,
       if ''status'' \<in> set args then status_text [('' M'', ''a.py'', None)]
       else if ''--cached'' \<in> set args then ''a.py'' @ [NUL] else []),
     sh_isdir = \<lambda>_. True, sh_isfile = \<lambda>_. True, sh_islink = \<lambda>_. False, sh_listdir = \<lambda>_. None,
     sh_tree = \<lambda>_. [], sh_size = \<lambda>_. 1, sh_read = \<lambda>_. []\<rparr>"

lemma sample_files: "source_files sample_source ''/r'' = [''a.py'']"
  by code_simp

lemma changed_files_are_never_published_witness:
  "\<exists>e \<in> set (iv_entries (build_repo_inventory ''/r'' (system_inspector sample_source) None None)).
     se_relpath e = ''a.py'' \<and> se_class e \<noteq> ''tracked-clean''"
proof -
  let ?iv = "build_repo_inventory ''/r'' (system_inspector sample_source) None None"
  have slash: "replace_char backslash slash ''a.py'' = ''a.py''" by code_simp
  have "in_files (system_inspector sample_source) ''/r'' = [''a.py'']" by (simp add: system_inspector_def sample_files)
  then have "\<exists>e \<in> set (iv_entries ?iv). se_relpath e = ''a.py''" by (simp add: build_repo_inventory_def Let_def slash)
  then obtain e where e: "e \<in> set (iv_entries ?iv)" "se_relpath e = ''a.py''" by blast
  have out: "sh_git sample_source ''/r''
      [''git'', ''--no-optional-locks'', ''-C'', ''/r'', ''status'', ''--porcelain'', ''-z'', ''--untracked-files=all''] =
      (0, status_text [('' M'', ''a.py'', None)])"
    by (simp add: sample_source_def)
  have row: "list_all row_ok [('' M'', ''a.py'', None)]" "modified_code '' M''" by code_simp+
  have "se_class e \<noteq> ''tracked-clean''"
    using changed_files_are_never_published [OF out row(1) _ _ e(1), of "'' M''" "''a.py''" None] row(2) slash e(2) by auto
  then show ?thesis using e by blast
qed

text \<open>A listed path is stripped: a file whose name ends in a space is looked for under another name and left out.\<close>

definition spaced_source :: source_host where
  "spaced_source = sample_source
     \<lparr>sh_git := \<lambda>dir args. (0, if ''--cached'' \<in> set args then ''a.py '' @ [NUL] else []), sh_isfile := \<lambda>p. p = ''/r/a.py ''\<rparr>"

lemma name_with_a_space_is_lost: "sh_isfile spaced_source (path_join ''/r'' ''a.py '') \<and> source_files spaced_source ''/r'' = []"
  by code_simp

subsection \<open>The walk\<close>

text \<open>Where a file of a tree is: through directories that are not excluded.\<close>

inductive file_at :: "(string \<times> node) list \<Rightarrow> string list \<Rightarrow> bool" where
  here: "(n, Regular) \<in> set es \<Longrightarrow> file_at es [n]"
| below: "(n, Folder sub) \<in> set es \<Longrightarrow> n \<notin> set walk_excludes \<Longrightarrow> file_at sub p \<Longrightarrow> file_at es (n # p)"

lemma file_at_not_Nil: "file_at es p \<Longrightarrow> p \<noteq> []"
  by (induction rule: file_at.induct) simp_all

declare walk_files.simps [simp del]

lemma walk_here: "(n, Regular) \<in> set es \<Longrightarrow> n \<in> set (walk_files es)"
  by (subst walk_files.simps) force

lemma walk_below:
  assumes "(n, Folder sub) \<in> set es" and "n \<notin> set walk_excludes" and "r \<in> set (walk_files sub)"
  shows "n @ ''/'' @ r \<in> set (walk_files es)"
  using assms(2,3) by (subst walk_files.simps) (auto intro!: bexI [OF _ assms(1)])

lemma walk_cases:
  assumes "q \<in> set (walk_files es)"
  obtains "(q, Regular) \<in> set es"
    | n sub r where "(n, Folder sub) \<in> set es" "n \<notin> set walk_excludes" "r \<in> set (walk_files sub)" "q = n @ ''/'' @ r"
proof -
  from assms consider "(q, Regular) \<in> set es"
    | n k where "(n, k) \<in> set es" "q \<in> set (case k of
         Folder sub \<Rightarrow> if n \<in> set walk_excludes then [] else map (\<lambda>p. n @ ''/'' @ p) (walk_files sub) | _ \<Rightarrow> [])"
    by (subst (asm) walk_files.simps) auto
  then show thesis
  proof cases
    case 1
    then show thesis by (rule that(1))
  next
    case (2 n k)
    then show thesis using that(2) by (cases k) (auto split: if_splits)
  qed
qed

lemma walk_sound: "q \<in> set (walk_files es) \<Longrightarrow> \<exists>p. file_at es p \<and> q = join_with ''/'' p"
proof (induction es arbitrary: q rule: walk_files.induct)
  case (1 es)
  show ?case
  proof (cases rule: walk_cases [OF "1.prems"])
    case 1
    then have "file_at es [q]" by (rule file_at.here)
    then show ?thesis by force
  next
    case (2 n sub r)
    then obtain p where p: "file_at sub p" "r = join_with ''/'' p" using "1.IH" by blast
    then have "file_at es (n # p)" using 2 by (blast intro: file_at.below)
    moreover have "q = join_with ''/'' (n # p)" using 2(4) p(2) file_at_not_Nil [OF p(1)] by (cases p) simp_all
    ultimately show ?thesis by blast
  qed
qed

lemma walk_complete: "file_at es p \<Longrightarrow> join_with ''/'' p \<in> set (walk_files es)"
proof (induction rule: file_at.induct)
  case (here n es)
  then show ?case by (simp add: walk_here)
next
  case (below n sub es p)
  then show ?case using walk_below [OF below(1,2,4)] file_at_not_Nil [OF below(3)] by (cases p) simp_all
qed

text \<open>Outside a checkout the inventory holds exactly the regular files that lie under no excluded directory (no link is
  followed, no virtual environment or build directory entered), each under its relative path.\<close>
theorem walk_finds_exactly_the_files:
  "set (walk_files es) = {join_with ''/'' p | p. file_at es p}"
  using walk_sound walk_complete by auto

end
