(* ===== verification/Plugins.thy ===== *)
theory Plugins
  imports Signing Identifiers Config
begin

text \<open>
  \<open>plugins.py\<close>: plugin manifests and their digest, the registry with its lifecycle, and what is accepted back from a plugin.
  A plugins directory is a dictionary from directory names to their files; the JSON reader of a manifest and the
  isolated process that runs a module are arguments.
\<close>

subsection \<open>Manifests\<close>

record plugin_manifest =
  pm_name :: string
  pm_version :: string
  pm_api_version :: json
  pm_entry :: string
  pm_provides :: "string list"

definition plugin_kinds :: "string list" where
  "plugin_kinds = [''checks'', ''reports'', ''generators'']"

definition is_slug_char :: "char \<Rightarrow> bool" where
  "is_slug_char c = (is_lower c \<or> is_digit c \<or> c = CHR ''-'')"

text \<open>\<open>^[a-z0-9][a-z0-9-]{0,39}$\<close>, \<open>^\d+\.\d+\.\d+$\<close>, \<open>^[A-Za-z0-9_][A-Za-z0-9_.-]*\.py$\<close>, \<open>^[A-Za-z0-9][A-Za-z0-9_.-]{0,79}$\<close>\<close>

definition plugin_name_rx :: rx where
  "plugin_name_rx = RCat (RSet (\<lambda>c. is_lower c \<or> is_digit c)) (rx_upto 39 (RSet is_slug_char))"

definition plugin_version_rx :: rx where
  "plugin_version_rx = rx_seq [rx_plus (RSet is_digit), rx_lit ''.'', rx_plus (RSet is_digit), rx_lit ''.'', rx_plus (RSet is_digit)]"

definition is_file_char :: "char \<Rightarrow> bool" where
  "is_file_char c = (is_alnum c \<or> c = CHR ''_'' \<or> c = CHR ''.'' \<or> c = CHR ''-'')"

definition plugin_entry_rx :: rx where
  "plugin_entry_rx = rx_seq [RSet (\<lambda>c. is_alnum c \<or> c = CHR ''_''), RStar (RSet is_file_char), rx_lit ''.py'']"

definition plugin_filename_rx :: rx where
  "plugin_filename_rx = RCat (RSet is_alnum) (rx_upto 79 (RSet is_file_char))"

definition plugin_error :: "msg \<Rightarrow> 'a result" where
  "plugin_error m = Err (Raise PluginError [m])"

definition str_matches :: "rx \<Rightarrow> json \<Rightarrow> bool" where
  "str_matches r v = (case v of JStr s \<Rightarrow> match_dollar r s | _ \<Rightarrow> False)"

text \<open>\<open>api_version != 1\<close>, where a float may equal an int.\<close>

definition is_number_one :: "json \<Rightarrow> bool" where
  "is_number_one v = (case v of JInt n \<Rightarrow> n = 1 | JFloat (Finite r) \<Rightarrow> r = 1 | _ \<Rightarrow> False)"

definition provides_list :: "json \<Rightarrow> string list option" where
  "provides_list v = (case v of
     JArr vs \<Rightarrow> if vs \<noteq> [] \<and> list_all (\<lambda>k. is_str k \<and> str_of k \<in> set plugin_kinds) vs \<and> distinct (map str_of vs)
                then Some (map str_of vs) else None
   | _ \<Rightarrow> None)"

definition plugin_manifest_from_dict :: "json \<Rightarrow> plugin_manifest result" where
  "plugin_manifest_from_dict raw = (case raw of
     JObj d \<Rightarrow>
       (let unknown = filter (\<lambda>k. k \<notin> {''name'', ''version'', ''api_version'', ''entry'', ''provides''}) (sort (map fst d));
            name = get_or_none d ''name''; version = get_or_none d ''version'';
            api_version = get_or_none d ''api_version''; entry_name = get_or_none d ''entry''
        in if unknown \<noteq> [] then plugin_error (Msg ''plugin.json has unknown field(s) {}'' [JArr (map JStr unknown)])
           else if \<not> str_matches plugin_name_rx name then
             plugin_error (Msg ''name must be 1-40 characters: lowercase letters, digits and hyphens'' [])
           else if \<not> str_matches plugin_version_rx version then plugin_error (Msg ''version must look like 1.2.3'' [])
           else if \<not> is_number_one api_version then plugin_error (Msg ''api_version must be {}'' [JInt 1])
           else if \<not> str_matches plugin_entry_rx entry_name then
             plugin_error (Msg ''entry must be a plain .py file name inside the plugin directory'' [])
           else (case provides_list (get_default d ''provides'' (JArr [JStr ''checks''])) of
               None \<Rightarrow> plugin_error (Msg ''provides must be a non-empty list of distinct values from {}'' [JArr (map JStr plugin_kinds)])
             | Some kinds \<Rightarrow> Ok \<lparr>pm_name = str_of name, pm_version = str_of version, pm_api_version = api_version,
                 pm_entry = str_of entry_name, pm_provides = kinds\<rparr>))
   | _ \<Rightarrow> plugin_error (Msg ''plugin.json must be a JSON object'' []))"

subsection \<open>Digests\<close>

definition manifest_name :: string where
  "manifest_name = ''plugin.json''"

type_synonym plugin_dir = "bytes dict"

definition read_file :: "plugin_dir \<Rightarrow> string \<Rightarrow> bytes result" where
  "read_file dir name = (case map_of dir name of
     None \<Rightarrow> Err (Raise PyOSError [Msg ''No such file or directory: {}'' [JStr name]]) | Some b \<Rightarrow> Ok b)"

definition read_plugin_bytes :: "plugin_dir \<Rightarrow> plugin_manifest \<Rightarrow> (bytes \<times> bytes) result" where
  "read_plugin_bytes dir m =
     and_then (read_file dir manifest_name) (\<lambda>a. and_then (read_file dir (pm_entry m)) (\<lambda>b. Ok (a, b)))"

definition digest_input :: "plugin_manifest \<Rightarrow> bytes \<Rightarrow> bytes \<Rightarrow> bytes" where
  "digest_input m manifest_bytes entry_bytes =
     utf8 manifest_name @ [0] @ manifest_bytes @ utf8 (pm_entry m) @ [0] @ entry_bytes"

definition digest_of :: "plugin_manifest \<Rightarrow> bytes \<Rightarrow> bytes \<Rightarrow> string" where
  "digest_of m manifest_bytes entry_bytes = sha256_hex (digest_input m manifest_bytes entry_bytes)"

definition plugin_digest :: "plugin_dir \<Rightarrow> plugin_manifest \<Rightarrow> string result" where
  "plugin_digest dir m = and_then (read_plugin_bytes dir m) (\<lambda>(a, b). Ok (digest_of m a b))"

subsection \<open>Records and registration\<close>

datatype plugin_state = Discovered | Enabled | Disabled | Broken

fun plugin_state_name :: "plugin_state \<Rightarrow> string" where
  "plugin_state_name Discovered = ''discovered''"
| "plugin_state_name Enabled = ''enabled''"
| "plugin_state_name Disabled = ''disabled''"
| "plugin_state_name Broken = ''failed''"

record plugin_record =
  pl_manifest :: plugin_manifest
  pl_directory :: string
  pl_digest :: string
  pl_state :: plugin_state
  pl_detail :: "msg list"
  pl_items :: "string \<Rightarrow> string list"
  pl_source :: bytes

definition no_items :: "string \<Rightarrow> string list" where
  "no_items = (\<lambda>_. [])"

definition clear_record :: "plugin_record \<Rightarrow> plugin_record" where
  "clear_record r = r\<lparr>pl_items := no_items, pl_source := []\<rparr>"

definition describe :: "plugin_record \<Rightarrow> json" where
  "describe r = JObj
     [(''name'', JStr (pm_name (pl_manifest r))), (''version'', JStr (pm_version (pl_manifest r))),
      (''state'', JStr (plugin_state_name (pl_state r))), (''detail'', JArr (map (\<lambda>m. msg_json (Some m)) (pl_detail r))),
      (''sha256'', JStr (pl_digest r)), (''provides'', JArr (map JStr (pm_provides (pl_manifest r)))),
      (''checks'', JArr (map JStr (sort (pl_items r ''checks'')))),
      (''reports'', JArr (map JStr (sort (pl_items r ''reports'')))),
      (''generators'', JArr (map JStr (sort (pl_items r ''generators''))))]"

text \<open>\<open>_Registration._add\<close>: one item of a kind (\<open>named\<close> and \<open>callable\<close> say what the plugin passed).\<close>

definition add_item ::
  "string list \<Rightarrow> string \<Rightarrow> json \<Rightarrow> bool \<Rightarrow> (string \<Rightarrow> string list) \<Rightarrow> (string \<Rightarrow> string list) result" where
  "add_item provides kind name callable items =
     (if kind \<notin> set provides then plugin_error (Msg ''the manifest does not declare {} in provides'' [JStr kind])
      else if \<not> str_matches plugin_name_rx name then plugin_error (Msg ''{} name {} is not valid'' [JStr (butlast kind), name])
      else if \<not> callable then plugin_error (Msg ''{} {} is not callable'' [JStr (butlast kind), name])
      else if str_of name \<in> set (items kind) then plugin_error (Msg ''{} {} is registered twice'' [JStr (butlast kind), name])
      else Ok (items(kind := items kind @ [str_of name])))"

subsection \<open>What a plugin may give back\<close>

definition max_result_bytes :: nat where
  "max_result_bytes = 256 * 1024"

definition max_params_bytes :: nat where
  "max_params_bytes = 4096"

datatype run_outcome = Run_ok json | Run_error msg

definition as_dict_result :: "json \<Rightarrow> run_outcome" where
  "as_dict_result v = (if is_obj v then Run_ok v else Run_error (Msg ''it must return a dict'' []))"

definition plain_filename :: "json \<Rightarrow> bool" where
  "plain_filename v = (str_matches plugin_filename_rx v \<and> \<not> contains_sub (str_of v) ''..'')"

definition as_generated_file :: "json \<Rightarrow> run_outcome" where
  "as_generated_file v = (case v of
     JObj d \<Rightarrow>
       (if set (map fst d) \<noteq> {''filename'', ''content''} then
          Run_error (Msg ''it must return a dict of filename and content'' [])
        else if \<not> plain_filename (get_or_none d ''filename'') then
          Run_error (Msg ''filename must be a plain file name (letters, digits, . _ -)'' [])
        else if \<not> is_str (get_or_none d ''content'') then Run_error (Msg ''content must be text'' [])
        else Run_ok (JObj [(''filename'', get_or_none d ''filename''), (''content'', get_or_none d ''content'')]))
   | _ \<Rightarrow> Run_error (Msg ''it must return a dict of filename and content'' []))"

text \<open>\<open>_shape_result\<close>; \<open>None\<close> is a value that is not JSON.\<close>

definition shape_result :: "json option \<Rightarrow> string \<Rightarrow> (json \<Rightarrow> run_outcome) \<Rightarrow> run_outcome" where
  "shape_result result label shape = (case result of
     None \<Rightarrow> Run_error (Msg ''the {} returned something that is not JSON'' [JStr label])
   | Some v \<Rightarrow>
       if length (utf8 (dumps_default v)) > max_result_bytes then
         Run_error (Msg ''the {} returned more than {} bytes'' [JStr label, JInt (int max_result_bytes)])
       else (case shape v of
           Run_ok w \<Rightarrow> Run_ok w
         | Run_error (Msg t vs) \<Rightarrow> Run_error (Msg ''the {}: {}'' [JStr label, JStr t])))"

subsection \<open>The isolated process\<close>

record child_request =
  cq_source :: bytes
  cq_entry :: string
  cq_provides :: "string list"
  cq_action :: string
  cq_kind :: string
  cq_name :: string
  cq_args :: "json list"

datatype child_end = Not_started msg | Overran | Ended bytes int

type_synonym child = "child_request \<Rightarrow> child_end"

definition result_mark :: string where
  "result_mark = CHR 0x00 # ''HYDRA-PLUGIN-RESULT'' @ [CHR 0x00]"

text \<open>\<open>text.rpartition(mark)\<close>: what follows the last mark, if there is one.\<close>

fun after_last :: "string \<Rightarrow> string \<Rightarrow> string option" where
  "after_last mark [] = (if mark = [] then Some [] else None)"
| "after_last mark (c # cs) = (case after_last mark cs of
     Some t \<Rightarrow> Some t
   | None \<Rightarrow> if startswith (c # cs) mark then Some (drop (length mark) (c # cs)) else None)"

text \<open>
  What the process and the decoders do: whether bytes are UTF-8, their text with replaced errors, the JSON reader, the
  isolated process.
\<close>

record plugin_host =
  ph_utf8 :: "bytes \<Rightarrow> bool"
  ph_decode :: "bytes \<Rightarrow> string"
  ph_loads :: "string \<Rightarrow> json option"
  ph_child :: child

text \<open>An answer of the process: an error (and whether it is a timeout), or a dictionary.\<close>

type_synonym child_answer = "(bool \<times> msg) + json dict"

definition call_child ::
  "plugin_host \<Rightarrow> bytes \<Rightarrow> plugin_manifest \<Rightarrow> string \<Rightarrow> string \<Rightarrow> string \<Rightarrow> json list \<Rightarrow> child_answer" where
  "call_child h source m action kind item args =
     (if \<not> ph_utf8 h source then Inl (False, Msg ''the module cannot be handed to the isolated process'' [])
      else (case ph_child h \<lparr>cq_source = source, cq_entry = pm_entry m, cq_provides = pm_provides m, cq_action = action,
                cq_kind = kind, cq_name = item, cq_args = args\<rparr> of
          Not_started e \<Rightarrow> Inl (False, e)
        | Overran \<Rightarrow> Inl (True, Msg ''timeout: it did not finish within its time'' [])
        | Ended out code \<Rightarrow>
            (case after_last result_mark (ph_decode h (take (max_result_bytes * 2 + 4096) out)) of
               None \<Rightarrow> Inl (False, Msg ''the isolated process ended without an answer (exit code {})'' [JInt code])
             | Some payload \<Rightarrow>
                 (case ph_loads h payload of
                    None \<Rightarrow> Inl (False, Msg ''the isolated process answered something that is not JSON'' [])
                  | Some (JObj d) \<Rightarrow>
                      (case map_of d ''error'' of
                         None \<Rightarrow> Inr d
                       | Some v \<Rightarrow> Inl (startswith (str_of v) ''timeout'', Msg ''{}'' [v]))
                  | Some _ \<Rightarrow> Inl (False, Msg ''the isolated process answered the wrong shape'' [])))))"

definition item_names :: "json \<Rightarrow> bool" where
  "item_names v = (case v of JArr vs \<Rightarrow> list_all (str_matches plugin_name_rx) vs | _ \<Rightarrow> False)"

definition names_of :: "json \<Rightarrow> string list" where
  "names_of v = (case v of JArr vs \<Rightarrow> map str_of vs | _ \<Rightarrow> [])"

definition register_in_child :: "plugin_host \<Rightarrow> bytes \<Rightarrow> plugin_manifest \<Rightarrow> (string \<times> json) list result" where
  "register_in_child h source m =
     (case call_child h source m ''register'' [] [] [] of
        Inl (_, e) \<Rightarrow> plugin_error e
      | Inr d \<Rightarrow>
          (case get_or_none d ''names'' of
             JObj names \<Rightarrow>
               if list_all (\<lambda>(kind, items). kind \<in> set plugin_kinds \<and> item_names items) names then Ok names
               else plugin_error (Msg ''the plugin registers a name that is not valid'' [])
           | _ \<Rightarrow> plugin_error (Msg ''the isolated process did not report what the plugin registers'' [])))"

text \<open>\<open>_run_isolated\<close>: one item, in a process of its own.\<close>

definition run_isolated ::
  "plugin_host \<Rightarrow> bytes \<Rightarrow> plugin_manifest \<Rightarrow> string \<Rightarrow> string \<Rightarrow> json list \<Rightarrow> string \<Rightarrow> (json \<Rightarrow> run_outcome) \<Rightarrow> run_outcome" where
  "run_isolated h source m kind item args label shape =
     (case call_child h source m ''run'' kind item args of
        Inl (timed_out, e) \<Rightarrow> if timed_out then Run_error (Msg ''the {} did not finish within its time'' [JStr label]) else Run_error e
      | Inr d \<Rightarrow> shape_result (Some (get_or_none d ''result'')) label shape)"

subsection \<open>The registry\<close>

record plugin_registry =
  rg_records :: "plugin_record dict"
  rg_problems :: "(string \<times> msg list) list"

definition empty_registry :: plugin_registry where
  "empty_registry = \<lparr>rg_records = [], rg_problems = []\<rparr>"

text \<open>A plugins directory: \<open>None\<close> when it is not there.\<close>

type_synonym plugin_root = "plugin_dir dict option"

definition read_manifest :: "(bytes \<Rightarrow> json result) \<Rightarrow> plugin_record dict \<Rightarrow> string \<Rightarrow> plugin_dir \<Rightarrow> plugin_record result" where
  "read_manifest read_json found dirname dir =
     and_then (and_then (read_file dir manifest_name) read_json) (\<lambda>raw.
     and_then (plugin_manifest_from_dict raw) (\<lambda>m.
       if map_of dir (pm_entry m) = None then plugin_error (Msg ''entry {} is missing'' [JStr (pm_entry m)])
       else if map_of found (pm_name m) \<noteq> None then
         plugin_error (Msg ''name {} is already used by another directory'' [JStr (pm_name m)])
       else and_then (plugin_digest dir m) (\<lambda>digest. Ok
         \<lparr>pl_manifest = m, pl_directory = dirname, pl_digest = digest, pl_state = Discovered, pl_detail = [],
          pl_items = no_items, pl_source = []\<rparr>)))"

definition discover_one ::
  "(bytes \<Rightarrow> json result) \<Rightarrow> plugin_record dict \<Rightarrow> string \<times> plugin_dir \<Rightarrow>
     plugin_record dict \<times> (string \<times> msg list) list \<Rightarrow> plugin_record dict \<times> (string \<times> msg list) list" where
  "discover_one read_json previous e acc = (case (e, acc) of ((dirname, dir), (found, problems)) \<Rightarrow>
     if map_of dir manifest_name = None then (found, problems)
     else (case read_manifest read_json found dirname dir of
         Inl x \<Rightarrow> (found, problems @ [(dirname, exn_msgs x)])
       | Inr r \<Rightarrow>
           (let name = pm_name (pl_manifest r);
                kept = (case map_of previous name of
                    None \<Rightarrow> r | Some p \<Rightarrow> if pl_digest p = pl_digest r then p else r)
            in (dict_set name kept found, problems))))"

definition discover :: "(bytes \<Rightarrow> json result) \<Rightarrow> plugin_root \<Rightarrow> plugin_registry \<Rightarrow> plugin_registry" where
  "discover read_json dirs reg = (case dirs of
     None \<Rightarrow> \<lparr>rg_records = [], rg_problems = []\<rparr>
   | Some ds \<Rightarrow>
       (let (found, problems) = fold (discover_one read_json (rg_records reg)) (sorted_items ds) ([], [])
        in \<lparr>rg_records = found, rg_problems = problems\<rparr>))"

definition list_plugins :: "plugin_registry \<Rightarrow> json list" where
  "list_plugins reg = map (\<lambda>(n, r). describe r) (sorted_items (rg_records reg))"

definition get_plugin :: "plugin_registry \<Rightarrow> string \<Rightarrow> plugin_record result" where
  "get_plugin reg name = (case map_of (rg_records reg) name of
     None \<Rightarrow> plugin_error (Msg ''no plugin named {}'' [JStr name]) | Some r \<Rightarrow> Ok r)"

definition put_plugin :: "string \<Rightarrow> plugin_record \<Rightarrow> plugin_registry \<Rightarrow> plugin_registry" where
  "put_plugin name r reg = reg\<lparr>rg_records := dict_set name r (rg_records reg)\<rparr>"

definition fail_record :: "plugin_record \<Rightarrow> msg list \<Rightarrow> plugin_record" where
  "fail_record r detail = (clear_record r)\<lparr>pl_state := Broken, pl_detail := detail\<rparr>"

definition directory_of :: "plugin_root \<Rightarrow> string \<Rightarrow> plugin_dir" where
  "directory_of dirs name = (case dirs of None \<Rightarrow> [] | Some ds \<Rightarrow> (case map_of ds name of None \<Rightarrow> [] | Some d \<Rightarrow> d))"

text \<open>\<open>_enable\<close> with isolated processes: the record it leaves.\<close>

definition enabled_record :: "plugin_host \<Rightarrow> plugin_root \<Rightarrow> plugin_record \<Rightarrow> string \<Rightarrow> plugin_record" where
  "enabled_record h dirs r expected =
     (if pl_state r = Enabled then r
      else (case read_plugin_bytes (directory_of dirs (pl_directory r)) (pl_manifest r) of
          Inl e \<Rightarrow> fail_record r (Msg ''cannot read the plugin: {}'' [] # exn_msgs e)
        | Inr (manifest_bytes, entry_bytes) \<Rightarrow>
            (let current = digest_of (pl_manifest r) manifest_bytes entry_bytes in
             if lower_str expected \<noteq> current then
               fail_record r [Msg ''the plugin does not match the SHA-256 that was approved'' []]
             else (let r1 = r\<lparr>pl_digest := current\<rparr> in
               case register_in_child h entry_bytes (pl_manifest r) of
                 Inl e \<Rightarrow> fail_record r1 (Msg ''register failed: {}'' [] # exn_msgs e)
               | Inr names \<Rightarrow>
                   r1\<lparr>pl_items := (\<lambda>kind. if kind \<in> set plugin_kinds then remdups (names_of (get_or_none names kind)) else []),
                      pl_source := entry_bytes, pl_state := Enabled, pl_detail := []\<rparr>))))"

definition enable_plugin :: "plugin_host \<Rightarrow> plugin_root \<Rightarrow> string \<Rightarrow> string \<Rightarrow> plugin_registry \<Rightarrow> plugin_registry \<times> json result" where
  "enable_plugin h dirs name expected reg =
     (case get_plugin reg name of
        Inl e \<Rightarrow> (reg, Inl e)
      | Inr r \<Rightarrow> (let r1 = enabled_record h dirs r expected in (put_plugin name r1 reg, Ok (describe r1))))"

definition disabled_record :: "plugin_record \<Rightarrow> plugin_record" where
  "disabled_record r = (clear_record r)\<lparr>pl_state := Disabled, pl_detail := []\<rparr>"

definition disable_plugin :: "string \<Rightarrow> plugin_registry \<Rightarrow> plugin_registry \<times> json result" where
  "disable_plugin name reg =
     (case get_plugin reg name of
        Inl e \<Rightarrow> (reg, Inl e)
      | Inr r \<Rightarrow> (put_plugin name (disabled_record r) reg, Ok (describe (disabled_record r))))"

definition enabled_plugin :: "plugin_registry \<Rightarrow> string \<Rightarrow> plugin_record result" where
  "enabled_plugin reg name =
     and_then (get_plugin reg name) (\<lambda>r.
       if pl_state r \<noteq> Enabled then
         plugin_error (Msg ''plugin {} is {}, not enabled'' [JStr name, JStr (plugin_state_name (pl_state r))])
       else Ok r)"

text \<open>\<open>_run\<close> with isolated processes; \<open>free\<close> says whether one of the parallel slots is free.\<close>

definition run_item ::
  "plugin_host \<Rightarrow> bool \<Rightarrow> plugin_record \<Rightarrow> string \<Rightarrow> string \<Rightarrow> json list \<Rightarrow> string \<Rightarrow> (json \<Rightarrow> run_outcome) \<Rightarrow> run_outcome" where
  "run_item h free r kind item args label shape =
     (if \<not> free then Run_error (Msg ''{} plugin calls are already running; try again in a moment'' [JInt 4])
      else run_isolated h (pl_source r) (pl_manifest r) kind item args label shape)"

definition run_named ::
  "plugin_host \<Rightarrow> bool \<Rightarrow> plugin_registry \<Rightarrow> string \<Rightarrow> string \<Rightarrow> string \<Rightarrow> json list \<Rightarrow> string \<Rightarrow> (json \<Rightarrow> run_outcome) \<Rightarrow>
     run_outcome result" where
  "run_named h free reg name kind item args label shape =
     and_then (enabled_plugin reg name) (\<lambda>r.
       if item \<notin> set (pl_items r kind) then plugin_error (Msg ''plugin {} has no {} {}'' [JStr name, JStr label, JStr item])
       else Ok (run_item h free r kind item args label shape))"

definition run_check :: "plugin_host \<Rightarrow> bool \<Rightarrow> plugin_registry \<Rightarrow> string \<Rightarrow> string \<Rightarrow> run_outcome result" where
  "run_check h free reg name check = run_named h free reg name ''checks'' check [] ''check'' as_dict_result"

definition run_report :: "plugin_host \<Rightarrow> bool \<Rightarrow> plugin_registry \<Rightarrow> string \<Rightarrow> string \<Rightarrow> run_outcome result" where
  "run_report h free reg name report = run_named h free reg name ''reports'' report [] ''report'' as_dict_result"

definition run_generator :: "plugin_host \<Rightarrow> bool \<Rightarrow> plugin_registry \<Rightarrow> string \<Rightarrow> string \<Rightarrow> json \<Rightarrow> run_outcome result" where
  "run_generator h free reg name generator params =
     and_then (enabled_plugin reg name) (\<lambda>r.
       let p = (if params = JNull then JObj [] else params) in
       if generator \<notin> set (pl_items r ''generators'') then
         plugin_error (Msg ''plugin {} has no {} {}'' [JStr name, JStr ''generator'', JStr generator])
       else if \<not> is_obj p then plugin_error (Msg ''the generator parameters must be a JSON object'' [])
       else if length (utf8 (dumps_default p)) > max_params_bytes then
         plugin_error (Msg ''the generator parameters may be at most {} bytes'' [JInt (int max_params_bytes)])
       else Ok (run_item h free r ''generators'' generator [p] ''generator'' as_generated_file))"

end
