(* ===== verification/Plugins_Proofs.thy ===== *)
theory Plugins_Proofs
  imports Plugins Paths
begin

text \<open>
  The life of a plugin: only an approved module ever runs, enabling is all or nothing, and what comes back is checked.
\<close>

subsection \<open>Registries that can come about\<close>

definition record_ok :: "string set \<Rightarrow> plugin_record \<Rightarrow> bool" where
  "record_ok approved r \<longleftrightarrow>
     (if pl_state r = Enabled then pl_digest r \<in> approved \<and> (\<exists>mb. pl_digest r = digest_of (pl_manifest r) mb (pl_source r))
      else pl_items r = no_items \<and> pl_source r = [])"

text \<open>Any number of calls, over any states of the disk; \<open>approved\<close> are the digests given to \<open>enable\<close> so far.\<close>

inductive registry_reach :: "plugin_host \<Rightarrow> (bytes \<Rightarrow> json result) \<Rightarrow> string set \<Rightarrow> plugin_registry \<Rightarrow> bool"
  for h :: plugin_host and read_json :: "bytes \<Rightarrow> json result" where
  start: "registry_reach h read_json {} empty_registry"
| rescan: "registry_reach h read_json approved reg \<Longrightarrow> registry_reach h read_json approved (discover read_json dirs reg)"
| enable: "registry_reach h read_json approved reg \<Longrightarrow>
    registry_reach h read_json (insert (lower_str expected) approved) (fst (enable_plugin h dirs name expected reg))"
| disable: "registry_reach h read_json approved reg \<Longrightarrow> registry_reach h read_json approved (fst (disable_plugin name reg))"

definition registry_ok :: "string set \<Rightarrow> plugin_registry \<Rightarrow> bool" where
  "registry_ok approved reg \<longleftrightarrow> (\<forall>name r. map_of (rg_records reg) name = Some r \<longrightarrow> record_ok approved r)"

lemma record_ok_mono: "record_ok a r \<Longrightarrow> a \<subseteq> b \<Longrightarrow> record_ok b r"
  by (auto simp: record_ok_def)

lemma fail_record_ok [simp]: "record_ok a (fail_record r d)"
  by (simp add: record_ok_def fail_record_def clear_record_def)

lemma disabled_record_ok [simp]: "record_ok a (disabled_record r)"
  by (simp add: record_ok_def disabled_record_def clear_record_def)

text \<open>Enabling: unchanged if it was enabled, else enabled on the approved bytes, or failed with nothing registered.\<close>

lemma enabled_record_cases:
  obtains (was) "pl_state r = Enabled" "enabled_record h dirs r expected = r"
  | (enabled) mb eb items where "enabled_record h dirs r expected =
        r\<lparr>pl_digest := digest_of (pl_manifest r) mb eb, pl_items := items, pl_source := eb, pl_state := Enabled, pl_detail := []\<rparr>"
      and "read_plugin_bytes (directory_of dirs (pl_directory r)) (pl_manifest r) = Ok (mb, eb)"
      and "lower_str expected = digest_of (pl_manifest r) mb eb"
  | (failed) r1 d where "enabled_record h dirs r expected = fail_record r1 d" "pl_manifest r1 = pl_manifest r"
proof (cases "pl_state r = Enabled")
  case True
  then show thesis by (intro was) (simp_all add: enabled_record_def)
next
  case False
  show thesis
  proof (cases "read_plugin_bytes (directory_of dirs (pl_directory r)) (pl_manifest r)")
    case (Inl e)
    then show thesis using False by (intro failed [of r]) (simp_all add: enabled_record_def)
  next
    case (Inr p)
    then obtain mb eb where rb: "read_plugin_bytes (directory_of dirs (pl_directory r)) (pl_manifest r) = Ok (mb, eb)"
      by (cases p) simp
    show thesis
    proof (cases "lower_str expected = digest_of (pl_manifest r) mb eb")
      case mismatch: False
      then show thesis using False rb by (intro failed [of r]) (simp_all add: enabled_record_def Let_def)
    next
      case match: True
      let ?r1 = "r\<lparr>pl_digest := digest_of (pl_manifest r) mb eb\<rparr>"
      show thesis
      proof (cases "register_in_child h eb (pl_manifest r)")
        case (Inl e)
        then show thesis using False rb match by (intro failed [of ?r1]) (simp_all add: enabled_record_def Let_def)
      next
        case (Inr names)
        then show thesis using False rb match by (intro enabled) (simp_all add: enabled_record_def Let_def)
      qed
    qed
  qed
qed

lemma enabled_record_ok: "record_ok a r \<Longrightarrow> record_ok (insert (lower_str expected) a) (enabled_record h dirs r expected)"
  by (cases rule: enabled_record_cases [of r h dirs expected]) (auto simp: record_ok_def fail_record_def clear_record_def)

lemma discover_fold_ok:
  assumes "\<forall>name r. map_of previous name = Some r \<longrightarrow> record_ok a r"
    and "\<forall>name r. map_of (fst acc) name = Some r \<longrightarrow> record_ok a r"
  shows "\<forall>name r. map_of (fst (fold (discover_one read_json previous) ds acc)) name = Some r \<longrightarrow> record_ok a r"
  using assms(2)
proof (induction ds arbitrary: acc)
  case (Cons e ds)
  obtain dirname dir where e: "e = (dirname, dir)" by fastforce
  obtain found problems where acc: "acc = (found, problems)" by fastforce
  have new: "record_ok a r" if "read_manifest read_json found dirname dir = Ok r" for r
    using that by (auto simp: read_manifest_def result_simps record_ok_def plugin_error_def split: if_splits)
  have "\<forall>name r. map_of (fst (discover_one read_json previous e acc)) name = Some r \<longrightarrow> record_ok a r"
    using Cons.prems assms(1) new
    by (auto simp: discover_one_def e acc Let_def split: sum.splits option.splits if_splits)
  from Cons.IH [OF this] show ?case by simp
qed simp

lemma registry_ok_mono: "registry_ok a reg \<Longrightarrow> a \<subseteq> b \<Longrightarrow> registry_ok b reg"
  using record_ok_mono by (simp add: registry_ok_def) blast

lemma put_plugin_ok: "registry_ok a reg \<Longrightarrow> record_ok a r \<Longrightarrow> registry_ok a (put_plugin name r reg)"
  by (simp add: registry_ok_def put_plugin_def)

lemma registry_reach_ok: "registry_reach h read_json approved reg \<Longrightarrow> registry_ok approved reg"
proof (induction rule: registry_reach.induct)
  case start
  then show ?case by (simp add: registry_ok_def empty_registry_def)
next
  case (rescan approved reg dirs)
  show ?case
  proof (cases dirs)
    case None
    then show ?thesis by (simp add: registry_ok_def discover_def)
  next
    case (Some ds)
    have "rg_records (discover read_json dirs reg) = fst (fold (discover_one read_json (rg_records reg)) (sorted_items ds) ([], []))"
      by (simp add: discover_def Some split: prod.splits)
    then show ?thesis
      using discover_fold_ok [of "rg_records reg" approved "([], [])" read_json "sorted_items ds"] rescan.IH
      by (simp add: registry_ok_def)
  qed
next
  case (enable approved reg expected dirs name)
  have ok: "registry_ok (insert (lower_str expected) approved) reg"
    using registry_ok_mono [OF enable.IH] by blast
  show ?case
  proof (cases "map_of (rg_records reg) name")
    case None
    then show ?thesis using ok by (simp add: enable_plugin_def get_plugin_def plugin_error_def)
  next
    case (Some r)
    then have "record_ok approved r" using enable.IH by (simp add: registry_ok_def)
    from put_plugin_ok [OF ok enabled_record_ok [OF this]] show ?thesis
      by (simp add: enable_plugin_def get_plugin_def Some Let_def)
  qed
next
  case (disable approved reg name)
  show ?case
  proof (cases "map_of (rg_records reg) name")
    case None
    then show ?thesis using disable.IH by (simp add: disable_plugin_def get_plugin_def plugin_error_def)
  next
    case (Some r)
    then show ?thesis using put_plugin_ok [OF disable.IH disabled_record_ok]
      by (simp add: disable_plugin_def get_plugin_def)
  qed
qed

subsection \<open>Only approved code runs\<close>

definition is_approved :: "string set \<Rightarrow> child_request \<Rightarrow> bool" where
  "is_approved approved rq \<longleftrightarrow> (\<exists>m mb. pm_entry m = cq_entry rq \<and> pm_provides m = cq_provides rq \<and>
     digest_of m mb (cq_source rq) \<in> approved)"

definition only_approved :: "string set \<Rightarrow> plugin_host \<Rightarrow> plugin_host" where
  "only_approved approved h = h\<lparr>ph_child := \<lambda>rq. if is_approved approved rq then ph_child h rq else Not_started (Msg [] [])\<rparr>"

lemma run_item_approved:
  assumes "record_ok approved r" and "pl_state r = Enabled"
  shows "run_item (only_approved approved h) free r kind item args label shape = run_item h free r kind item args label shape"
proof -
  obtain mb where "digest_of (pl_manifest r) mb (pl_source r) \<in> approved"
    using assms by (auto simp: record_ok_def)
  then have "is_approved approved \<lparr>cq_source = pl_source r, cq_entry = pm_entry (pl_manifest r),
      cq_provides = pm_provides (pl_manifest r), cq_action = ''run'', cq_kind = kind, cq_name = item, cq_args = args\<rparr>"
    by (auto simp: is_approved_def)
  then have same: "ph_child (only_approved approved h) \<lparr>cq_source = pl_source r, cq_entry = pm_entry (pl_manifest r),
      cq_provides = pm_provides (pl_manifest r), cq_action = ''run'', cq_kind = kind, cq_name = item, cq_args = args\<rparr> =
      ph_child h \<lparr>cq_source = pl_source r, cq_entry = pm_entry (pl_manifest r),
      cq_provides = pm_provides (pl_manifest r), cq_action = ''run'', cq_kind = kind, cq_name = item, cq_args = args\<rparr>"
    and other: "ph_utf8 (only_approved approved h) = ph_utf8 h" "ph_loads (only_approved approved h) = ph_loads h" "ph_decode (only_approved approved h) = ph_decode h"
    by (simp_all add: only_approved_def)
  show ?thesis unfolding run_item_def run_isolated_def call_child_def same other ..
qed

lemma enabled_plugin_state:
  "enabled_plugin reg name = Ok r \<Longrightarrow> map_of (rg_records reg) name = Some r \<and> pl_state r = Enabled"
  by (auto simp: enabled_plugin_def get_plugin_def plugin_error_def result_simps split: option.splits if_splits)

lemma run_named_approved:
  assumes "registry_ok approved reg"
  shows "run_named (only_approved approved h) free reg name kind item args label shape = run_named h free reg name kind item args label shape"
proof (cases "enabled_plugin reg name")
  case (Inr r)
  have "record_ok approved r" using enabled_plugin_state [OF Inr] assms by (auto simp: registry_ok_def)
  then show ?thesis
    using run_item_approved [of approved r h] enabled_plugin_state [OF Inr] Inr by (simp add: run_named_def)
qed (simp add: run_named_def)


text \<open>Enabling is all or nothing: it either leaves a plugin that was enabled alone, or enables it on bytes whose digest is the
  approved one, or leaves it failed with no item and no module; no other plugin changes.\<close>
theorem enabling_is_all_or_nothing:
  assumes "map_of (rg_records reg) name = Some r" and "enable_plugin h dirs name expected reg = (reg', res)"
  shows "(\<exists>r'. map_of (rg_records reg') name = Some r' \<and> pl_manifest r' = pl_manifest r \<and>
      (r' = r \<and> pl_state r = Enabled \<or>
       pl_state r' = Enabled \<and> lower_str expected = pl_digest r' \<and>
         (\<exists>mb. read_plugin_bytes (directory_of dirs (pl_directory r)) (pl_manifest r) = Ok (mb, pl_source r') \<and>
            pl_digest r' = digest_of (pl_manifest r) mb (pl_source r')) \<or>
       pl_state r' = Broken \<and> pl_items r' = no_items \<and> pl_source r' = [])) \<and>
    (\<forall>other. other \<noteq> name \<longrightarrow> map_of (rg_records reg') other = map_of (rg_records reg) other)"
proof -
  have reg': "reg' = put_plugin name (enabled_record h dirs r expected) reg"
    using assms by (auto simp: enable_plugin_def get_plugin_def Let_def)
  show ?thesis
    by (cases rule: enabled_record_cases [of r h dirs expected])
      (auto simp: reg' put_plugin_def fail_record_def clear_record_def)
qed

subsection \<open>What comes back\<close>

lemma plugin_filename_chars:
  assumes "match_dollar plugin_filename_rx s"
  shows "slash \<notin> set s"
proof -
  have "slash \<notin> set t" if "fullmatch plugin_filename_rx t" for t
  proof -
    have "\<exists>c u. t = c # u \<and> is_alnum c \<and> list_all is_file_char u"
      using that by (cases t) (auto simp: plugin_filename_rx_def fullmatch_iff rx_match_set_cat rx_match_upto_set)
    moreover have "\<not> is_alnum slash" "\<not> is_file_char slash"
      by (simp_all add: is_file_char_def is_alnum_def is_digit_def is_lower_def is_upper_def)
    ultimately show ?thesis by (auto simp: list_all_iff)
  qed
  moreover have "set s \<subseteq> insert (CHR 0x0A) (set (butlast s))" if "s \<noteq> []" "last s = CHR 0x0A"
    using that by (metis append_butlast_last_id list.set(1) list.simps(15) set_append subset_insertI2 subset_refl Un_insert_right sup_bot_right)
  ultimately show ?thesis using assms by (auto simp: match_dollar_def)
qed

lemma shape_result_ok:
  "shape_result res label shape = Run_ok v \<Longrightarrow>
     \<exists>w. res = Some w \<and> shape w = Run_ok v \<and> length (utf8 (dumps_default w)) \<le> max_result_bytes"
  by (auto simp: shape_result_def split: option.splits if_splits run_outcome.splits msg.splits)

lemma run_item_ok:
  assumes "run_item h free r kind item args label shape = Run_ok v"
  shows "\<exists>w. shape w = Run_ok v \<and> length (utf8 (dumps_default w)) \<le> max_result_bytes"
proof (cases "call_child h (pl_source r) (pl_manifest r) ''run'' kind item args")
  case (Inl x)
  then show ?thesis using assms by (cases x) (auto simp: run_item_def run_isolated_def split: if_splits)
next
  case (Inr d)
  then have "shape_result (Some (get_or_none d ''result'')) label shape = Run_ok v"
    using assms by (auto simp: run_item_def run_isolated_def split: if_splits)
  from shape_result_ok [OF this] show ?thesis by blast
qed

text \<open>A generated file is a plain file: what run_generator reports as a success has a name without a slash and without
  two dots in a row, text for content and nothing else, and no more than the size limit.\<close>
theorem generated_file_is_plain:
  assumes "run_generator h free reg name generator params = Ok (Run_ok v)"
  shows "\<exists>f c. v = JObj [(''filename'', JStr f), (''content'', JStr c)] \<and> slash \<notin> set f \<and> \<not> contains_sub f ''..'' \<and>
    (\<exists>w. as_generated_file w = Run_ok v \<and> length (utf8 (dumps_default w)) \<le> max_result_bytes)"
proof -
  obtain r p where "run_item h free r ''generators'' generator [p] ''generator'' as_generated_file = Run_ok v"
    using assms by (auto simp: run_generator_def result_simps plugin_error_def Let_def split: if_splits)
  then obtain w where w: "as_generated_file w = Run_ok v" "length (utf8 (dumps_default w)) \<le> max_result_bytes"
    using run_item_ok by blast
  obtain d where d: "w = JObj d" using w(1) by (cases w) (simp_all add: as_generated_file_def)
  then have "plain_filename (get_or_none d ''filename'')" "is_str (get_or_none d ''content'')"
      and v: "v = JObj [(''filename'', get_or_none d ''filename''), (''content'', get_or_none d ''content'')]"
    using w(1) by (auto simp: as_generated_file_def split: if_splits)
  then obtain f c where "get_or_none d ''filename'' = JStr f" "match_dollar plugin_filename_rx f" "\<not> contains_sub f ''..''"
      "get_or_none d ''content'' = JStr c"
    by (cases "get_or_none d ''filename''"; cases "get_or_none d ''content''") (auto simp: plain_filename_def str_matches_def)
  then show ?thesis using v w plugin_filename_chars by blast
qed

subsection \<open>What the approval does not cover\<close>

text \<open>The manifest is not read again when a plugin is enabled: whatever bytes \<open>plugin.json\<close> has by then are in the approved
  digest, but the kinds and the entry of the manifest that was discovered stay in force.\<close>

lemma enable_keeps_the_old_manifest:
  assumes "read_plugin_bytes (directory_of dirs (pl_directory r)) (pl_manifest r) = Ok (changed, eb)"
    and "pl_state r \<noteq> Enabled" and "register_in_child h eb (pl_manifest r) = Ok names"
    and "lower_str expected = digest_of (pl_manifest r) changed eb"
  shows "pl_state (enabled_record h dirs r expected) = Enabled \<and> pl_manifest (enabled_record h dirs r expected) = pl_manifest r"
  using assms by (simp add: enabled_record_def)

text \<open>The digest joins its parts without their lengths: bytes moved from the end of the manifest to the front of the module
  (with the name of the module between them) give the same digest.\<close>

lemma digest_is_ambiguous:
  "digest_of m (a @ utf8 (pm_entry m) @ [0] @ b) c = digest_of m a (b @ utf8 (pm_entry m) @ [0] @ c)"
  by (simp add: digest_of_def digest_input_def)

lemma marked_answer:
  "after_last result_mark (map (char_of :: nat \<Rightarrow> char) (take (max_result_bytes * 2 + 4096) (utf8 (result_mark @ ''x'')))) = Some ''x''"
proof -
  have bs: "map (char_of :: nat \<Rightarrow> char) (utf8 (result_mark @ ''x'')) = result_mark @ ''x''" by code_simp
  then have "length (utf8 (result_mark @ ''x'')) = length (result_mark @ ''x'')" by (metis length_map)
  then have "length (utf8 (result_mark @ ''x'')) \<le> max_result_bytes * 2 + 4096"
    by (simp add: result_mark_def max_result_bytes_def)
  then have "map (char_of :: nat \<Rightarrow> char) (take (max_result_bytes * 2 + 4096) (utf8 (result_mark @ ''x''))) = result_mark @ ''x''"
    by (simp only: take_all bs)
  moreover have "after_last result_mark (result_mark @ ''x'') = Some ''x''" by code_simp
  ultimately show ?thesis by simp
qed

definition lying_host :: plugin_host where
  "lying_host = \<lparr>ph_utf8 = \<lambda>_. True,
     ph_decode = map (char_of :: nat \<Rightarrow> char),
     ph_loads = (\<lambda>s. if s = ''x'' then Some (JObj [(''names'', JObj [(''generators'', JArr [JStr ''g''])])]) else None),
     ph_child = (\<lambda>rq. Ended (utf8 (result_mark @ ''x'')) 0)\<rparr>"

text \<open>The kinds a manifest declares are enforced in the isolated process only: a module that writes the answer itself registers
  a kind its manifest does not declare.\<close>

lemma undeclared_kind_is_registered:
  "pm_provides m = [''checks''] \<Longrightarrow> register_in_child lying_host eb m = Ok [(''generators'', JArr [JStr ''g''])]"
proof -
  have "after_last result_mark (map char_of (take (max_result_bytes * 2 + 4096) (utf8 (result_mark @ ''x'')))) = Some ''x''"
    by (rule marked_answer)
  moreover have "str_matches plugin_name_rx (JStr ''g'')" by code_simp
  ultimately show ?thesis
    by (simp add: register_in_child_def call_child_def lying_host_def get_or_none_def item_names_def plugin_kinds_def)
qed

subsection \<open>One plugin\<close>

definition lint_manifest :: plugin_manifest where
  "lint_manifest = \<lparr>pm_name = ''lint'', pm_version = ''1.0.0'', pm_api_version = JInt 1, pm_entry = ''plugin.py'',
     pm_provides = [''checks'']\<rparr>"

definition lint_record :: plugin_record where
  "lint_record = \<lparr>pl_manifest = lint_manifest, pl_directory = ''lint'', pl_digest = ''00'', pl_state = Disabled, pl_detail = [],
     pl_items = no_items, pl_source = []\<rparr>"

definition lint_dirs :: plugin_root where
  "lint_dirs = Some [(''lint'', [(''plugin.json'', [123]), (''plugin.py'', [35])])]"

definition read_lint :: "bytes \<Rightarrow> json result" where
  "read_lint b = Ok (JObj [(''name'', JStr ''lint''), (''version'', JStr ''1.0.0''), (''api_version'', JInt 1), (''entry'', JStr ''plugin.py'')])"


lemma enabling_is_all_or_nothing_witness:
  "\<exists>r'. map_of (rg_records (fst (enable_plugin lying_host lint_dirs ''lint'' ''00''
     \<lparr>rg_records = [(''lint'', lint_record)], rg_problems = []\<rparr>))) ''lint'' = Some r' \<and> pl_manifest r' = lint_manifest"
proof -
  let ?reg = "\<lparr>rg_records = [(''lint'', lint_record)], rg_problems = []\<rparr>"
  have rec: "map_of (rg_records ?reg) ''lint'' = Some lint_record" by simp
  obtain reg' res where e: "enable_plugin lying_host lint_dirs ''lint'' ''00'' ?reg = (reg', res)" by fastforce
  obtain r' where "map_of (rg_records reg') ''lint'' = Some r'" "pl_manifest r' = pl_manifest lint_record"
    using enabling_is_all_or_nothing [OF rec e] by blast
  then show ?thesis unfolding e by (simp add: lint_record_def)
qed

definition report_host :: plugin_host where
  "report_host = \<lparr>ph_utf8 = \<lambda>_. True,
     ph_decode = map (char_of :: nat \<Rightarrow> char),
     ph_loads = (\<lambda>s. Some (JObj [(''result'', JObj [(''filename'', JStr ''a.txt''), (''content'', JStr ''hi'')])])),
     ph_child = (\<lambda>rq. Ended (utf8 (result_mark @ ''x'')) 0)\<rparr>"

definition running_registry :: plugin_registry where
  "running_registry = \<lparr>rg_records = [(''lint'', lint_record\<lparr>pl_state := Enabled, pl_items := (\<lambda>_. [''g''])\<rparr>)], rg_problems = []\<rparr>"

lemma sample_generator:
  "run_generator report_host True running_registry ''lint'' ''g'' JNull =
     Ok (Run_ok (JObj [(''filename'', JStr ''a.txt''), (''content'', JStr ''hi'')]))"
proof -
  note mark = marked_answer
  have shaped: "as_generated_file (JObj [(''filename'', JStr ''a.txt''), (''content'', JStr ''hi'')]) =
      Run_ok (JObj [(''filename'', JStr ''a.txt''), (''content'', JStr ''hi'')])" by code_simp
  have "length (utf8 (dumps_default (JObj [(''filename'', JStr ''a.txt''), (''content'', JStr ''hi'')]))) = 38"
    and "length (utf8 (dumps_default (JObj []))) = 2" by code_simp+
  then show ?thesis
    using mark shaped
    by (simp add: run_generator_def enabled_plugin_def get_plugin_def running_registry_def lint_record_def run_item_def
        run_isolated_def call_child_def report_host_def get_or_none_def shape_result_def max_params_bytes_def
        max_result_bytes_def)
qed

lemma generated_file_is_plain_witness:
  "slash \<notin> set ''a.txt'' \<and> \<not> contains_sub ''a.txt'' ''..''"
  using generated_file_is_plain [OF sample_generator] by simp

end
