(* ===== verification/Plugin_Threads.thy ===== *)
theory Plugin_Threads
  imports Plugins
begin

text \<open>
  \<open>plugins.py\<close>: the two sides of an enabled plugin that run its code.  What \<open>register\<close> may do with the object it receives (in this
  process, or in the isolated one, whose program is a text of the module), the threads of the mode \<open>thread\<close>, and the answer of the isolated
  program.  The plugin itself is a value: the calls it makes, each going on with what the call gave.
\<close>

subsection \<open>The mode\<close>

definition isolations :: "string list" where
  "isolations = [''process'', ''thread'']"

text \<open>\<open>PluginRegistry.__init__\<close>: the argument, else the environment variable.\<close>

definition registry_isolation :: "string option \<Rightarrow> string option \<Rightarrow> string result" where
  "registry_isolation isolation environ =
     (let chosen = (case isolation of
          Some s \<Rightarrow> s
        | None \<Rightarrow> (let s = lower_str (strip (case environ of None \<Rightarrow> ''process'' | Some e \<Rightarrow> e)) in if s = [] then ''process'' else s))
      in if chosen \<notin> set isolations then plugin_error (Msg ''isolation must be one of {}'' [JArr (map JStr isolations)]) else Ok chosen)"

subsection \<open>Registering\<close>

text \<open>What a plugin raises: an \<open>Exception\<close>, or a \<open>BaseException\<close> that is none (\<open>SystemExit\<close>, \<open>KeyboardInterrupt\<close>).\<close>

datatype raised = An_exception "msg list" | An_exit "msg list"

text \<open>
  A \<open>register(registry)\<close>: it adds an item (the kind, the name it gives, whether the function is callable) and goes on, knowing whether the call
  raised; it returns, or it raises.
\<close>

datatype register_run =
    Adds string json bool "bool \<Rightarrow> register_run"
  | Returns
  | Raises raised

primrec run_register ::
  "(string \<Rightarrow> json \<Rightarrow> bool \<Rightarrow> (string \<Rightarrow> string list) \<Rightarrow> (string \<Rightarrow> string list) result) \<Rightarrow> register_run \<Rightarrow> (string \<Rightarrow> string list) \<Rightarrow>
     raised + (string \<Rightarrow> string list)" where
  "run_register add (Adds kind name callable go_on) = (\<lambda>items.
     (case add kind name callable items of
        Inl e \<Rightarrow> run_register add (go_on False) items
      | Inr items1 \<Rightarrow> run_register add (go_on True) items1))"
| "run_register add Returns = Inr"
| "run_register add (Raises e) = (\<lambda>items. Inl e)"

text \<open>What running the approved bytes comes to: they raise, they define no \<open>register\<close>, or they define one.\<close>

datatype module_run = Module_raises raised | No_register | Has_register register_run

text \<open>\<open>_enable\<close> in the mode \<open>thread\<close>: the bytes run in this process.\<close>

definition register_here :: "plugin_manifest \<Rightarrow> module_run \<Rightarrow> raised + (string \<Rightarrow> string list)" where
  "register_here m r = (case r of
     Module_raises e \<Rightarrow> Inl e
   | No_register \<Rightarrow> Inl (An_exception [Msg ''the entry module defines no register(registry)'' []])
   | Has_register reg \<Rightarrow> run_register (add_item (pm_provides m)) reg no_items)"

text \<open>The record afterwards, and what leaves the call: only an \<open>Exception\<close> makes the plugin fail.\<close>

definition enabled_here :: "(bytes \<Rightarrow> module_run) \<Rightarrow> plugin_root \<Rightarrow> plugin_record \<Rightarrow> string \<Rightarrow> plugin_record \<times> msg list option" where
  "enabled_here exec dirs r expected =
     (if pl_state r = Enabled then (r, None)
      else (case read_plugin_bytes (directory_of dirs (pl_directory r)) (pl_manifest r) of
          Inl e \<Rightarrow> (fail_record r (Msg ''cannot read the plugin: {}'' [] # exn_msgs e), None)
        | Inr (manifest_bytes, entry_bytes) \<Rightarrow>
            (let current = digest_of (pl_manifest r) manifest_bytes entry_bytes in
             if lower_str expected \<noteq> current then
               (fail_record r [Msg ''the plugin does not match the SHA-256 that was approved'' []], None)
             else (let r1 = r\<lparr>pl_digest := current\<rparr> in
               case register_here (pl_manifest r) (exec entry_bytes) of
                 Inl (An_exception e) \<Rightarrow> (fail_record r1 (Msg ''register failed: {}'' [] # e), None)
               | Inl (An_exit e) \<Rightarrow> (r1, Some e)
               | Inr items \<Rightarrow> (r1\<lparr>pl_items := items, pl_source := entry_bytes, pl_state := Enabled, pl_detail := []\<rparr>, None)))))"

subsection \<open>The program of the isolated process\<close>

text \<open>\<open>Registration._add\<close> of \<open>_CHILD_PROGRAM\<close>: its rule for a name is weaker.\<close>

definition child_add ::
  "string list \<Rightarrow> string \<Rightarrow> json \<Rightarrow> bool \<Rightarrow> (string \<Rightarrow> string list) \<Rightarrow> (string \<Rightarrow> string list) result" where
  "child_add provides kind name callable items =
     (if kind \<notin> set provides then Err (Raise PyValueError [Msg ''the manifest does not declare {} in provides'' [JStr kind]])
      else if \<not> is_str name \<or> str_of name = [] \<or> \<not> callable \<or> str_of name \<in> set (items kind) then
        Err (Raise PyValueError [Msg ''{} {} is not valid or is registered twice'' [JStr (butlast kind), name]])
      else Ok (items(kind := items kind @ [str_of name])))"

fun raised_text :: "raised \<Rightarrow> msg list" where
  "raised_text (An_exception e) = e"
| "raised_text (An_exit e) = e"

definition child_names :: "(string \<Rightarrow> string list) \<Rightarrow> json" where
  "child_names items = JObj [(''names'', JObj (map (\<lambda>kind. (kind, JArr (map JStr (sort (items kind))))) plugin_kinds))]"

text \<open>
  The program from the request to its answer; \<open>call\<close> is what the function registered under a kind and a name does with the arguments (an
  exception, or a value that \<open>json.dumps\<close> takes).
\<close>

definition child_program ::
  "(bytes \<Rightarrow> module_run) \<Rightarrow> (string \<Rightarrow> string \<Rightarrow> json list \<Rightarrow> msg list + json) \<Rightarrow> child_request \<Rightarrow> msg list + json" where
  "child_program exec call q =
     (case exec (cq_source q) of
        Module_raises e \<Rightarrow> Inl (raised_text e)
      | No_register \<Rightarrow> Inl [Msg ''the entry module defines no register(registry)'' []]
      | Has_register reg \<Rightarrow>
          (case run_register (child_add (cq_provides q)) reg no_items of
             Inl e \<Rightarrow> Inl (raised_text e)
           | Inr items \<Rightarrow>
               if cq_action q = ''register'' then Inr (child_names items)
               else if cq_kind q \<notin> set plugin_kinds then Inl [Msg ''AttributeError: {}'' [JStr (cq_kind q)]]
               else if cq_name q \<notin> set (items (cq_kind q)) then Inl [Msg ''KeyError: {}'' [JStr (cq_name q)]]
               else map_sum id (\<lambda>v. JObj [(''result'', v)]) (call (cq_kind q) (cq_name q) (cq_args q))))"

subsection \<open>The threads of the mode thread\<close>

definition max_stuck_threads :: nat where
  "max_stuck_threads = 8"

text \<open>The threads that were given up (the newest last), those of them and of the running calls that are alive, and the next number.\<close>

record thread_state =
  ts_stuck :: "nat list"
  ts_alive :: "nat list"
  ts_next :: nat

definition no_threads :: thread_state where
  "no_threads = \<lparr>ts_stuck = [], ts_alive = [], ts_next = 0\<rparr>"

datatype thread_end = Still_running | Raised msg | Returned "json option"

text \<open>\<open>_run\<close>, the check: the dead are forgotten and the rest is counted.\<close>

definition count_stuck :: "thread_state \<Rightarrow> thread_state \<times> nat" where
  "count_stuck ts = (let stuck = filter (\<lambda>t. t \<in> set (ts_alive ts)) (ts_stuck ts) in (ts\<lparr>ts_stuck := stuck\<rparr>, length stuck))"

text \<open>\<open>_run_bounded\<close>: a thread of its own, given up when it is alive after the time.\<close>

definition start_thread :: "thread_state \<Rightarrow> thread_state \<times> nat" where
  "start_thread ts = (ts\<lparr>ts_alive := ts_next ts # ts_alive ts, ts_next := Suc (ts_next ts)\<rparr>, ts_next ts)"

definition thread_ends :: "nat \<Rightarrow> thread_state \<Rightarrow> thread_state" where
  "thread_ends t ts = ts\<lparr>ts_alive := filter (\<lambda>u. u \<noteq> t) (ts_alive ts)\<rparr>"

definition join_thread ::
  "nat \<Rightarrow> thread_end \<Rightarrow> string \<Rightarrow> (json \<Rightarrow> run_outcome) \<Rightarrow> thread_state \<Rightarrow> thread_state \<times> run_outcome" where
  "join_thread t ended label shape ts = (case ended of
     Still_running \<Rightarrow> (ts\<lparr>ts_stuck := ts_stuck ts @ [t]\<rparr>, Run_error (Msg ''the {} did not finish within its time'' [JStr label]))
   | Raised e \<Rightarrow> (thread_ends t ts, Run_error e)
   | Returned v \<Rightarrow> (thread_ends t ts, shape_result v label shape))"

text \<open>One call from its check to its answer.\<close>

definition run_in_thread ::
  "thread_end \<Rightarrow> string \<Rightarrow> (json \<Rightarrow> run_outcome) \<Rightarrow> thread_state \<Rightarrow> thread_state \<times> run_outcome" where
  "run_in_thread ended label shape ts =
     (let (ts1, stuck) = count_stuck ts in
      if stuck \<ge> max_stuck_threads then
        (ts1, Run_error (Msg ''{} earlier plugin calls are still running after their timeout; no new call is started'' [JInt (int stuck)]))
      else (let (ts2, t) = start_thread ts1 in join_thread t ended label shape ts2))"

subsection \<open>What register leaves\<close>

text \<open>Only kinds that were declared, each name once and none of them empty.\<close>

definition items_ok :: "string list \<Rightarrow> (string \<Rightarrow> string list) \<Rightarrow> bool" where
  "items_ok provides items \<longleftrightarrow> (\<forall>kind. distinct (items kind) \<and> (items kind \<noteq> [] \<longrightarrow> kind \<in> set provides))"

lemma items_ok_start: "items_ok provides no_items"
  by (simp add: items_ok_def no_items_def)

lemma run_register_invariant:
  assumes "\<And>kind name callable items items1. add kind name callable items = Ok items1 \<Longrightarrow> keeps items \<Longrightarrow> keeps items1"
    and "keeps items" "run_register add r items = Inr items1"
  shows "keeps items1"
  using assms(2,3)
proof (induction r arbitrary: items)
  case (Adds kind name callable go_on)
  show ?case
  proof (cases "add kind name callable items")
    case (Inl e)
    with Adds.prems show ?thesis by (auto intro: Adds.IH [of "go_on False"])
  next
    case (Inr items2)
    with Adds.prems show ?thesis by (auto intro: Adds.IH [of "go_on True"] assms(1) [OF Inr])
  qed
qed auto

lemma add_item_ok: "add_item provides kind name callable items = Ok items1 \<Longrightarrow> items_ok provides items \<Longrightarrow> items_ok provides items1"
  by (auto simp: add_item_def plugin_error_def items_ok_def split: if_splits)

lemma child_add_ok: "child_add provides kind name callable items = Ok items1 \<Longrightarrow> items_ok provides items \<Longrightarrow> items_ok provides items1"
  by (auto simp: child_add_def items_ok_def split: if_splits)

text \<open>Whatever \<open>register\<close> does with the object, and whichever errors it catches, in this process as in the isolated one.\<close>

lemma registered_here_declared: "register_here m r = Inr items \<Longrightarrow> items_ok (pm_provides m) items"
  using run_register_invariant [where keeps = "items_ok (pm_provides m)", OF add_item_ok items_ok_start]
  by (auto simp: register_here_def split: module_run.splits)

lemma enabled_here_declared:
  assumes "pl_state r \<noteq> Enabled" "enabled_here exec dirs r expected = (r1, x)" "pl_state r1 = Enabled"
  shows "items_ok (pm_provides (pl_manifest r)) (pl_items r1)"
  using assms registered_here_declared
  by (auto simp: enabled_here_def fail_record_def clear_record_def Let_def split: sum.splits prod.splits if_splits raised.splits)

lemma enabled_here_all_or_nothing:
  assumes "pl_state r \<noteq> Enabled" "enabled_here exec dirs r expected = (r1, None)"
  shows "pl_state r1 = Enabled \<and> pl_digest r1 = lower_str expected \<or> pl_state r1 = Broken \<and> pl_items r1 = no_items \<and> pl_source r1 = []"
  using assms by (auto simp: enabled_here_def fail_record_def clear_record_def Let_def split: sum.splits prod.splits if_splits raised.splits)

text \<open>
  The comment of \<open>_enable\<close> says that whatever a plugin raises is taken, but a \<open>register\<close> that calls \<open>sys.exit\<close> leaves the call in the
  mode \<open>thread\<close>; the isolated program takes it as any other error.
\<close>

lemma exit_leaves_enable:
  assumes "pl_state r \<noteq> Enabled" "read_plugin_bytes (directory_of dirs (pl_directory r)) (pl_manifest r) = Ok (a, b)"
    and "lower_str expected = digest_of (pl_manifest r) a b" "exec b = Has_register (Raises (An_exit e))"
  shows "snd (enabled_here exec dirs r expected) = Some e" "cq_source q = b \<Longrightarrow> child_program exec call q = Inl e"
  using assms by (simp_all add: enabled_here_def register_here_def Let_def child_program_def)

lemma child_names_declared:
  assumes "child_program exec call q = Inr (JObj [(''names'', JObj names)])" "cq_action q = ''register''"
    and "(kind, JArr vs) \<in> set names" "vs \<noteq> []"
  shows "kind \<in> set (cq_provides q)"
proof -
  obtain reg items where reg: "run_register (child_add (cq_provides q)) reg no_items = Inr items"
      "names = map (\<lambda>kind. (kind, JArr (map JStr (sort (items kind))))) plugin_kinds"
    using assms(1,2) by (auto simp: child_program_def child_names_def split: module_run.splits sum.splits)
  then have items: "items_ok (cq_provides q) items" "names = map (\<lambda>kind. (kind, JArr (map JStr (sort (items kind))))) plugin_kinds"
    using run_register_invariant [where add = "child_add (cq_provides q)" and keeps = "items_ok (cq_provides q)", OF _ items_ok_start] child_add_ok
    by blast+
  with assms(3,4) have "items kind \<noteq> []" by (auto simp: sort_key_def)
  with items(1) show ?thesis by (simp add: items_ok_def)
qed

subsection \<open>The bound on the threads that were given up\<close>

definition threads_ok :: "thread_state \<Rightarrow> bool" where
  "threads_ok ts \<longleftrightarrow> set (ts_alive ts) \<subseteq> set (ts_stuck ts) \<and> length (ts_stuck ts) \<le> max_stuck_threads \<and> distinct (ts_alive ts) \<and>
     distinct (ts_stuck ts) \<and> (\<forall>t \<in> set (ts_stuck ts) \<union> set (ts_alive ts). t < ts_next ts)"

text \<open>Calls one after the other, with threads ending in between.\<close>

inductive thread_run :: "thread_state \<Rightarrow> bool" where
  start: "thread_run no_threads"
| call: "thread_run ts \<Longrightarrow> thread_run (fst (run_in_thread ended label shape ts))"
| ends: "thread_run ts \<Longrightarrow> thread_run (thread_ends t ts)"

lemma threads_ok_count:
  assumes "threads_ok ts" "count_stuck ts = (ts1, n)"
  shows "threads_ok ts1" "n = length (ts_stuck ts1)" "set (ts_alive ts1) = set (ts_stuck ts1)"
  using assms by (auto simp: threads_ok_def count_stuck_def Let_def intro: order_trans [OF length_filter_le])

lemma threads_ok_call:
  assumes "threads_ok ts"
  shows "threads_ok (fst (run_in_thread ended label shape ts))"
proof -
  obtain ts1 n where count: "count_stuck ts = (ts1, n)" by fastforce
  note ok = threads_ok_count [OF assms count]
  show ?thesis
  proof (cases "n \<ge> max_stuck_threads")
    case True
    with ok(1) show ?thesis by (simp add: run_in_thread_def count)
  next
    case False
    with ok show ?thesis
      by (cases ended) (auto simp: run_in_thread_def count start_thread_def join_thread_def thread_ends_def threads_ok_def)
  qed
qed

lemma threads_reachable_ok: "thread_run ts \<Longrightarrow> threads_ok ts"
proof (induction rule: thread_run.induct)
  case start
  show ?case by (simp add: threads_ok_def no_threads_def)
next
  case (call ts ended label shape)
  show ?case by (rule threads_ok_call [OF call.IH])
next
  case (ends ts t)
  then show ?case by (auto simp: threads_ok_def thread_ends_def)
qed

lemma stuck_threads_are_bounded:
  assumes "thread_run ts"
  shows "length (ts_alive ts) \<le> max_stuck_threads"
proof -
  have "threads_ok ts" using threads_reachable_ok [OF assms] .
  then have "card (set (ts_alive ts)) \<le> card (set (ts_stuck ts))" "length (ts_stuck ts) \<le> max_stuck_threads" "distinct (ts_alive ts)"
    by (auto simp: threads_ok_def intro: card_mono)
  then show ?thesis using card_length [of "ts_stuck ts"] by (simp add: distinct_card)
qed

text \<open>
  The lock is released between the check and the run, so calls that arrive together are all let in: ten of them pass the check of an empty
  registry, and ten threads are left.
\<close>

lemma parallel_calls_pass_the_bound:
  "snd (count_stuck no_threads) < max_stuck_threads"
  "length (ts_alive (fold (\<lambda>_ ts. case start_thread ts of (ts1, t) \<Rightarrow> fst (join_thread t Still_running ''check'' as_dict_result ts1)) [0..<10]
      (fst (count_stuck no_threads)))) = 10"
  by code_simp+

end
