(* ===== verification/Base64.thy ===== *)
theory Base64
  imports Prelude Sha2
begin

text \<open>
  \<open>base64.urlsafe_b64encode\<close> and \<open>base64.urlsafe_b64decode\<close> of the standard library, with the lenient reading of the decoder
  (characters outside the alphabet are skipped, what follows a complete padding is not read), and the round trip of the two.
\<close>

definition b64_char :: "nat \<Rightarrow> char" where
  "b64_char n = (if n < 26 then char_of (65 + n) else if n < 52 then char_of (71 + n) else if n < 62 then char_of (n - 4)
     else if n = 62 then CHR ''-'' else CHR ''_'')"

definition b64_value :: "char \<Rightarrow> nat option" where
  "b64_value c = (let n = (of_char c :: nat) in
     if 65 \<le> n \<and> n \<le> 90 then Some (n - 65) else if 97 \<le> n \<and> n \<le> 122 then Some (n - 71)
     else if 48 \<le> n \<and> n \<le> 57 then Some (n + 4)
     else if c = CHR ''-'' \<or> c = CHR ''+'' then Some 62 else if c = CHR ''_'' \<or> c = CHR ''/'' then Some 63 else None)"

definition b64_pad :: char where
  "b64_pad = CHR ''=''"

fun b64_encode :: "bytes \<Rightarrow> string" where
  "b64_encode [] = []"
| "b64_encode [a] = [b64_char (a div 4), b64_char (a mod 4 * 16), b64_pad, b64_pad]"
| "b64_encode [a, b] = [b64_char (a div 4), b64_char (a mod 4 * 16 + b div 16), b64_char (b mod 16 * 4), b64_pad]"
| "b64_encode (a # b # c # bs) =
     b64_char (a div 4) # b64_char (a mod 4 * 16 + b div 16) # b64_char (b mod 16 * 4 + c div 64) # b64_char (c mod 64) #
       b64_encode bs"

text \<open>
  The decoder's loop: how many characters of a group were read, the bits left over, and the padding characters seen.
  \<open>None\<close> is \<open>binascii.Error\<close>: the text ends inside a group.
\<close>

fun b64_loop :: "nat \<Rightarrow> nat \<Rightarrow> nat \<Rightarrow> string \<Rightarrow> bytes option" where
  "b64_loop quad bits pads [] = (if quad = 0 then Some [] else None)"
| "b64_loop quad bits pads (c # cs) =
     (if c = b64_pad then
        (if quad \<ge> 2 then (if quad + (pads + 1) \<ge> 4 then Some [] else b64_loop quad bits (pads + 1) cs)
         else b64_loop quad bits pads cs)
      else (case b64_value c of
          None \<Rightarrow> b64_loop quad bits pads cs
        | Some v \<Rightarrow>
            if quad = 0 then b64_loop 1 v 0 cs
            else if quad = 1 then map_option (Cons (bits * 4 + v div 16)) (b64_loop 2 (v mod 16) 0 cs)
            else if quad = 2 then map_option (Cons (bits * 16 + v div 4)) (b64_loop 3 (v mod 4) 0 cs)
            else map_option (Cons (bits * 64 + v)) (b64_loop 0 0 0 cs)))"

text \<open>\<open>urlsafe_b64decode\<close> of a \<open>str\<close>, which must be ASCII.\<close>

definition b64_decode :: "string \<Rightarrow> bytes option" where
  "b64_decode s = (if is_ascii s then b64_loop 0 0 0 s else None)"

subsection \<open>Round trip\<close>

lemma of_b64_char:
  "n < 64 \<Longrightarrow> (of_char (b64_char n) :: nat) =
     (if n < 26 then 65 + n else if n < 52 then 71 + n else if n < 62 then n - 4 else if n = 62 then 45 else 95)"
  by (simp add: b64_char_def)

lemma b64_value_char:
  assumes "n < 64"
  shows "b64_value (b64_char n) = Some n"
proof -
  consider "n < 26" | "26 \<le> n" "n < 52" | "52 \<le> n" "n < 62" | "n = 62" | "n = 63" using assms by linarith
  then show ?thesis
  proof cases
    case 3
    then have v: "(of_char (b64_char n) :: nat) = n - 4" by (simp add: of_b64_char)
    have "48 \<le> n - 4" "n - 4 \<le> 57" "\<not> 65 \<le> n - 4" "\<not> 97 \<le> n - 4" "n - 4 + 4 = n" using 3 by linarith+
    then show ?thesis unfolding b64_value_def Let_def v by (simp only: if_True if_False simp_thms)
  next
    case 4
    then show ?thesis by (simp add: b64_value_def b64_char_def)
  next
    case 5
    then show ?thesis by (simp add: b64_value_def b64_char_def)
  qed (simp_all add: b64_value_def of_b64_char Let_def)
qed

lemma b64_char_ascii:
  assumes "n < 64"
  shows "b64_char n \<noteq> b64_pad \<and> (of_char (b64_char n) :: nat) < 128 \<and> b64_char n \<noteq> CHR ''.''"
proof -
  have "(of_char (b64_char n) :: nat) < 128 \<and> (of_char (b64_char n) :: nat) \<noteq> 61 \<and> (of_char (b64_char n) :: nat) \<noteq> 46"
    using assms by (auto simp: of_b64_char split: if_splits)
  moreover have "(of_char b64_pad :: nat) = 61" "(of_char (CHR ''.'') :: nat) = 46" by (simp_all add: b64_pad_def)
  ultimately show ?thesis by metis
qed

definition byte_list :: "bytes \<Rightarrow> bool" where
  "byte_list bs = (\<forall>b \<in> set bs. b < 256)"

lemma b64_loop_char:
  assumes "n < 64"
  shows "b64_loop 0 bits pads (b64_char n # cs) = b64_loop (Suc 0) n 0 cs"
    and "b64_loop (Suc 0) bits pads (b64_char n # cs) = map_option (Cons (bits * 4 + n div 16)) (b64_loop 2 (n mod 16) 0 cs)"
    and "b64_loop 2 bits pads (b64_char n # cs) = map_option (Cons (bits * 16 + n div 4)) (b64_loop 3 (n mod 4) 0 cs)"
    and "b64_loop 3 bits pads (b64_char n # cs) = map_option (Cons (bits * 64 + n)) (b64_loop 0 0 0 cs)"
  using b64_value_char [OF assms] b64_char_ascii [OF assms] by simp_all

lemma b64_loop_end: "b64_loop 2 bits 0 [b64_pad, b64_pad] = Some []" "b64_loop 3 bits 0 [b64_pad] = Some []"
  by simp_all

lemma b64_loop_encode: "byte_list bs \<Longrightarrow> b64_loop 0 0 0 (b64_encode bs) = Some bs"
proof (induction bs rule: b64_encode.induct)
  case (2 a)
  then have a: "a < 256" by (simp add: byte_list_def)
  then have "a div 4 < 64" "a mod 4 * 16 < 64" "a mod 4 * 16 div 16 = a mod 4" "a div 4 * 4 + a mod 4 = a" by auto
  then show ?case by (simp add: b64_loop_char b64_loop_end del: b64_loop.simps(2))
next
  case (3 a b)
  then have "a < 256" "b < 256" by (simp_all add: byte_list_def)
  then have "a div 4 < 64" "a mod 4 * 16 + b div 16 < 64" "b mod 16 * 4 < 64" by auto
  moreover have "(a mod 4 * 16 + b div 16) div 16 = a mod 4" "(a mod 4 * 16 + b div 16) mod 16 = b div 16"
    using \<open>b < 256\<close> by simp_all
  moreover have "a div 4 * 4 + a mod 4 = a" "b div 16 * 16 + b mod 16 = b" by simp_all
  ultimately show ?case by (simp add: b64_loop_char b64_loop_end del: b64_loop.simps(2))
next
  case (4 a b c bs)
  then have "a < 256" "b < 256" "c < 256" "byte_list bs" by (simp_all add: byte_list_def)
  then have "a div 4 < 64" "a mod 4 * 16 + b div 16 < 64" "b mod 16 * 4 + c div 64 < 64" "c mod 64 < 64" by auto
  moreover have "(a mod 4 * 16 + b div 16) div 16 = a mod 4" "(a mod 4 * 16 + b div 16) mod 16 = b div 16"
    "(b mod 16 * 4 + c div 64) div 4 = b mod 16" "(b mod 16 * 4 + c div 64) mod 4 = c div 64"
    using \<open>b < 256\<close> \<open>c < 256\<close> by simp_all
  moreover have "a div 4 * 4 + a mod 4 = a" "b div 16 * 16 + b mod 16 = b" "c div 64 * 64 + c mod 64 = c" by simp_all
  ultimately show ?case using 4 \<open>byte_list bs\<close> by (simp add: b64_loop_char del: b64_loop.simps(2))
qed simp

text \<open>An encoding is a text without padding characters or dots, and the padding.\<close>

definition b64_plain :: "string \<Rightarrow> bool" where
  "b64_plain s = (\<forall>c \<in> set s. c \<noteq> b64_pad \<and> (of_char c :: nat) < 128 \<and> c \<noteq> CHR ''.'')"

definition b64_shape :: "bytes \<Rightarrow> string \<Rightarrow> nat \<Rightarrow> bool" where
  "b64_shape bs s k \<longleftrightarrow> b64_encode bs = s @ replicate k b64_pad \<and> k \<le> 2 \<and> (length s + k) mod 4 = 0 \<and> b64_plain s \<and> (bs \<noteq> [] \<longrightarrow> s \<noteq> [])"

lemma b64_plain_simps [simp]: "b64_plain []" "n < 64 \<Longrightarrow> b64_plain (b64_char n # s) = b64_plain s"
  using b64_char_ascii by (auto simp: b64_plain_def)

lemma b64_group_small:
  fixes a b c :: nat
  assumes "a < 256" "b < 256" "c < 256"
  shows "a div 4 < 64" "a mod 4 * 16 < 64" "a mod 4 * 16 + b div 16 < 64" "b mod 16 * 4 < 64" "b mod 16 * 4 + c div 64 < 64" "c mod 64 < 64"
proof -
  show a: "a div 4 < 64" using assms by (simp add: less_mult_imp_div_less)
  have b: "b div 16 < 16" and c: "c div 64 < 4" using assms by (simp_all add: less_mult_imp_div_less)
  have m: "a mod 4 < 4" "b mod 16 < 16" by simp_all
  show "a mod 4 * 16 < 64" "a mod 4 * 16 + b div 16 < 64" "b mod 16 * 4 < 64" "b mod 16 * 4 + c div 64 < 64" "c mod 64 < 64"
    using m b c by linarith+
qed

lemma b64_encode_shape: "byte_list bs \<Longrightarrow> \<exists>s k. b64_shape bs s k"
proof (induction bs rule: b64_encode.induct)
  case 1
  have "b64_shape [] [] 0" by (simp add: b64_shape_def)
  then show ?case by blast
next
  case (2 a)
  then have "a < 256" by (simp add: byte_list_def)
  note b64_group_small [OF this this this]
  then have "b64_shape [a] [b64_char (a div 4), b64_char (a mod 4 * 16)] 2" by (simp add: b64_shape_def numeral_2_eq_2)
  then show ?case by blast
next
  case (3 a b)
  then have "a < 256" "b < 256" by (simp_all add: byte_list_def)
  note b64_group_small [OF this this(2)]
  then have "b64_shape [a, b] [b64_char (a div 4), b64_char (a mod 4 * 16 + b div 16), b64_char (b mod 16 * 4)] 1"
    by (simp add: b64_shape_def)
  then show ?case by blast
next
  case (4 a b c bs)
  then have small: "a < 256" "b < 256" "c < 256" and "byte_list bs" by (simp_all add: byte_list_def)
  then obtain s k where s: "b64_shape bs s k" using 4 by blast
  then have "(length s + k) mod 4 = 0" by (simp add: b64_shape_def)
  then have "(length s + k + 4) mod 4 = 0" by simp
  then have "b64_shape (a # b # c # bs) (b64_char (a div 4) # b64_char (a mod 4 * 16 + b div 16) #
      b64_char (b mod 16 * 4 + c div 64) # b64_char (c mod 64) # s) k"
    using s b64_group_small [OF small] by (simp add: b64_shape_def ac_simps)
  then show ?case by blast
qed

definition b64_unpadded :: "bytes \<Rightarrow> string" where
  "b64_unpadded bs = rstrip_char b64_pad (b64_encode bs)"

text \<open>Stripping the padding and adding as much as the length asks for gives the bytes back.\<close>

lemma b64_round_trip:
  assumes "byte_list bs"
  shows "b64_decode (b64_unpadded bs @ replicate (nat (- int (length (b64_unpadded bs)) mod 4)) b64_pad) = Some bs"
    and "is_ascii (b64_unpadded bs)" and "CHR ''.'' \<notin> set (b64_unpadded bs)" and "bs \<noteq> [] \<Longrightarrow> b64_unpadded bs \<noteq> []"
proof -
  obtain s k where "b64_shape bs s k" using b64_encode_shape [OF assms] by blast
  then have s: "b64_encode bs = s @ replicate k b64_pad" "k \<le> 2" "(length s + k) mod 4 = 0" "b64_plain s" "bs \<noteq> [] \<longrightarrow> s \<noteq> []"
    by (simp_all add: b64_shape_def)
  have u: "b64_unpadded bs = s"
  proof -
    have "s = [] \<or> last s \<noteq> b64_pad" using s(4) by (cases s rule: rev_cases) (simp_all add: b64_plain_def)
    then have "rev s = [] \<or> hd (rev s) \<noteq> b64_pad" by (simp add: hd_rev)
    then have "dropWhile (\<lambda>c. c = b64_pad) (rev s) = rev s" by (cases "rev s") simp_all
    moreover have "dropWhile (\<lambda>c. c = b64_pad) (replicate k b64_pad @ rev s) = dropWhile (\<lambda>c. c = b64_pad) (rev s)"
      by (rule dropWhile_append2) simp
    ultimately show ?thesis by (simp add: b64_unpadded_def s(1) rstrip_char_def)
  qed
  have "nat (- int (length s) mod 4) = k"
  proof -
    obtain q where "length s + k = 4 * q" using s(3) by (auto simp: mod_eq_0_iff_dvd dvd_def)
    then have "- int (length s) = int k + 4 * - int q" by linarith
    then have "- int (length s) mod 4 = int k mod 4" by (simp only: mod_mult_self2)
    then show ?thesis using s(2) by simp
  qed
  moreover have "is_ascii (b64_encode bs)" using s(4) by (simp add: s(1) is_ascii_def b64_plain_def ball_Un b64_pad_def)
  ultimately show "b64_decode (b64_unpadded bs @ replicate (nat (- int (length (b64_unpadded bs)) mod 4)) b64_pad) = Some bs"
    using b64_loop_encode [OF assms] by (simp add: u b64_decode_def s(1))
  show "is_ascii (b64_unpadded bs)" "CHR ''.'' \<notin> set (b64_unpadded bs)" "bs \<noteq> [] \<Longrightarrow> b64_unpadded bs \<noteq> []"
    using s(4,5) by (auto simp: u is_ascii_def b64_plain_def)
qed

end
