(* ===== verification/Server_Identity.thy ===== *)
theory Server_Identity
  imports Base64 Results
begin

text \<open>
  \<open>server_identity.py\<close>: the signed tokens of the server (a JWT with HS256), the rule by which a request is let in, the token
  a probe signs, and where the key comes from.  The JSON reader, the file reader, the clock and the name of the package are
  arguments.
\<close>

definition identity_error :: "string \<Rightarrow> 'a result" where
  "identity_error t = Err (Raise IdentityError [Msg t []])"

definition value_error :: "msg \<Rightarrow> 'a result" where
  "value_error m = Err (Raise PyValueError [m])"

subsection \<open>The key\<close>

definition min_key_length :: nat where
  "min_key_length = 32"

definition load_identity_key :: "(string \<Rightarrow> string result) \<Rightarrow> string \<Rightarrow> bytes result" where
  "load_identity_key read path = (case read path of
     Inl (Raise c ms) \<Rightarrow> if c = PyOSError \<or> c = PyFileExistsError
       then Err (Raise PyValueError (Msg ''cannot read the identity key file: {}'' [] # ms)) else Err (Raise c ms)
   | Inr text \<Rightarrow>
       (let key = strip text in
        if length key < min_key_length then
          value_error (Msg ''the identity key must have at least {} characters'' [JInt (int min_key_length)])
        else Ok (utf8 key)))"

definition identity_key_from ::
  "(string \<Rightarrow> string result) \<Rightarrow> string \<Rightarrow> string option \<Rightarrow> string dict \<Rightarrow> bytes option result" where
  "identity_key_from read variable flag env =
     (let named = (case flag of Some p \<Rightarrow> if p \<noteq> [] then p else (case map_of env variable of None \<Rightarrow> [] | Some v \<Rightarrow> v)
                              | None \<Rightarrow> (case map_of env variable of None \<Rightarrow> [] | Some v \<Rightarrow> v));
          path = strip named
      in if path \<noteq> [] then and_then (load_identity_key read path) (\<lambda>k. Ok (Some k)) else Ok None)"

subsection \<open>A token\<close>

record identity =
  id_username :: string
  id_role :: string

definition roles :: "string list" where
  "roles = [''admin'', ''operator'', ''viewer'']"

definition write_roles :: "string list" where
  "write_roles = [''admin'', ''operator'']"

definition read_methods :: "string list" where
  "read_methods = [''GET'', ''HEAD'', ''OPTIONS'']"

definition max_token_chars :: nat where
  "max_token_chars = 4096"

definition b64_segment :: "string \<Rightarrow> bytes result" where
  "b64_segment segment =
     (case b64_decode (segment @ replicate (nat (- int (length segment) mod 4)) b64_pad) of
        None \<Rightarrow> identity_error ''the token is malformed'' | Some bs \<Rightarrow> Ok bs)"

text \<open>\<open>_json_part\<close>; \<open>loads\<close> decodes UTF-8 and reads JSON, a \<open>ValueError\<close> of either is a malformed token.\<close>

definition json_part :: "(bytes \<Rightarrow> json result) \<Rightarrow> string \<Rightarrow> json dict result" where
  "json_part loads segment =
     and_then (b64_segment segment) (\<lambda>bs. case loads bs of
        Inl (Raise c ms) \<Rightarrow> if c = PyValueError then identity_error ''the token is malformed'' else Err (Raise c ms)
      | Inr (JObj d) \<Rightarrow> Ok d
      | Inr _ \<Rightarrow> identity_error ''the token is malformed'')"

text \<open>\<open>text.encode("ascii", "replace")\<close>.\<close>

definition ascii_replace :: "string \<Rightarrow> bytes" where
  "ascii_replace s = map (\<lambda>c. let n = of_char c in if n < 128 then n else 63) s"

text \<open>
  \<open>isinstance(v, (int, float))\<close>, not a \<open>bool\<close>, and \<open>math.isfinite(v)\<close>: the number, \<open>None\<close> where the test
  fails, or the \<open>OverflowError\<close> of an integer that is no \<open>float\<close>.
\<close>

definition finite_number :: "json \<Rightarrow> rat option result" where
  "finite_number v = (case v of
     JInt i \<Rightarrow> and_then (float_of_int i) (\<lambda>_. Ok (Some (of_int i)))
   | JFloat (Finite r) \<Rightarrow> Ok (Some r)
   | _ \<Rightarrow> Ok None)"

text \<open>The times of the claims: a future \<open>exp\<close>, and \<open>nbf\<close> and \<open>iat\<close> that have passed when they are there.\<close>

definition check_exp :: "json dict \<Rightarrow> rat \<Rightarrow> unit result" where
  "check_exp d now = and_then (finite_number (get_or_none d ''exp'')) (\<lambda>n. case n of
     None \<Rightarrow> identity_error ''the token has no expiry''
   | Some e \<Rightarrow> if e \<le> now then identity_error ''the token has expired'' else Ok ())"

definition check_not_after :: "json dict \<Rightarrow> string \<Rightarrow> rat \<Rightarrow> string \<Rightarrow> unit result" where
  "check_not_after d k limit why =
     (if get_or_none d k = JNull then Ok ()
      else and_then (finite_number (get_or_none d k)) (\<lambda>n. case n of
        None \<Rightarrow> identity_error why | Some t \<Rightarrow> if t > limit then identity_error why else Ok ()))"

definition check_claims :: "json dict \<Rightarrow> rat \<Rightarrow> identity result" where
  "check_claims d now =
     and_then (check_exp d now) (\<lambda>_.
     and_then (check_not_after d ''nbf'' now ''the token is not valid yet'') (\<lambda>_.
     and_then (check_not_after d ''iat'' (now + 5) ''the token was issued in the future'') (\<lambda>_.
       if \<not> nonempty_str (get_or_none d ''username'') then identity_error ''the token names no user''
       else if \<not> (is_str (get_or_none d ''role'') \<and> str_of (get_or_none d ''role'') \<in> set roles) then
         identity_error ''the token carries no known role''
       else Ok \<lparr>id_username = str_of (get_or_none d ''username''), id_role = str_of (get_or_none d ''role'')\<rparr>)))"

definition verify_token :: "(bytes \<Rightarrow> json result) \<Rightarrow> string \<Rightarrow> bytes \<Rightarrow> rat \<Rightarrow> identity result" where
  "verify_token loads token key now =
     (if token = [] then identity_error ''a signed token of HYDRA-UMC-SERVER is required''
      else if length token > max_token_chars then identity_error ''the token is malformed''
      else (case split_on (CHR ''.'') token of
        [a, b, c] \<Rightarrow>
          if a = [] \<or> b = [] \<or> c = [] then identity_error ''the token is malformed''
          else and_then (json_part loads a) (\<lambda>head.
            if get_or_none head ''alg'' \<noteq> JStr ''HS256'' then
              identity_error ''the token algorithm is not accepted (only HS256)''
            else and_then (b64_segment c) (\<lambda>signature.
              if hmac_sha256 key (ascii_replace (a @ ''.'' @ b)) \<noteq> signature then
                identity_error ''the token signature is not valid''
              else and_then (json_part loads b) (\<lambda>claims. check_claims claims now)))
      | _ \<Rightarrow> identity_error ''the token is malformed''))"

subsection \<open>A request\<close>

record http_request =
  hq_command :: string
  hq_authorization :: "string option"

definition presented :: "http_request \<Rightarrow> string" where
  "presented r = (case partition_at (CHR '' '') (case hq_authorization r of None \<Rightarrow> [] | Some h \<Rightarrow> h) of
     (scheme, sep, rest) \<Rightarrow> if scheme = ''Bearer'' then strip rest else [])"

text \<open>\<open>accepts\<close>: whether the request may go on, and the identity it leaves on the handler.\<close>

definition accepts ::
  "(bytes \<Rightarrow> json result) \<Rightarrow> http_request \<Rightarrow> string \<Rightarrow> bytes option \<Rightarrow> rat \<Rightarrow> (bool \<times> identity option) result" where
  "accepts loads r own key now =
     (let p = presented r in
      case key of
        None \<Rightarrow> Ok (own = [] \<or> (p \<noteq> [] \<and> utf8 p = utf8 own), None)
      | Some k \<Rightarrow>
          if own \<noteq> [] \<and> p \<noteq> [] \<and> utf8 p = utf8 own then Ok (True, None)
          else if length (filter (\<lambda>c. c = CHR ''.'') p) \<noteq> 2 then Ok (False, None)
          else (case verify_token loads p k now of
              Inl (Raise c ms) \<Rightarrow> if c = IdentityError then Ok (False, None) else Err (Raise c ms)
            | Inr i \<Rightarrow>
                if hq_command r \<notin> set read_methods \<and> id_role i \<notin> set write_roles then Ok (False, None)
                else Ok (True, Some i)))"

subsection \<open>Signing\<close>

text \<open>\<open>int(moment)\<close>.\<close>

definition whole :: "rat \<Rightarrow> int" where
  "whole r = (if r \<ge> 0 then \<lfloor>r\<rfloor> else \<lceil>r\<rceil>)"

definition token_head :: json where
  "token_head = JObj [(''alg'', JStr ''HS256''), (''typ'', JStr ''JWT'')]"

definition token_body :: "string \<Rightarrow> string \<Rightarrow> int \<Rightarrow> rat \<Rightarrow> json" where
  "token_body username role ttl now =
     JObj [(''username'', JStr username), (''role'', JStr role), (''exp'', JInt (whole now + ttl))]"

definition token_part :: "json \<Rightarrow> string" where
  "token_part j = b64_unpadded (utf8 (dumps_default j))"

definition sign_token :: "bytes \<Rightarrow> string \<Rightarrow> string \<Rightarrow> int \<Rightarrow> rat \<Rightarrow> string" where
  "sign_token key username role ttl now =
     (let head = token_part token_head; body = token_part (token_body username role ttl now)
      in head @ ''.'' @ body @ ''.'' @ b64_unpadded (hmac_sha256 key (utf8 (head @ ''.'' @ body))))"

text \<open>\<open>probe\<close>: what the probe of a container sends and how it reads the answer (\<open>None\<close>: the request failed).\<close>

definition probe ::
  "(string \<Rightarrow> string option \<Rightarrow> int option) \<Rightarrow> bytes option result \<Rightarrow> string \<Rightarrow> int \<Rightarrow> string \<Rightarrow> rat \<Rightarrow> bool result" where
  "probe fetch key host port path now =
     and_then key (\<lambda>k. Ok (fetch (''http://'' @ host @ '':'' @ int_str port @ path)
       (map_option (\<lambda>b. ''Bearer '' @ sign_token b ''health-probe'' ''viewer'' 60 now) k) = Some 200))"

end
