(* ===== verification/Node_Channel.thy ===== *)
theory Node_Channel
  imports Incident_Transport Regex
begin

text \<open>
  \<open>node_channel.py\<close>: the tokens of the nodes (issue, revoke, authenticate), the settings of the channel, and the handler of a
  post.  The files are a record; opening and writing them, the JSON reader, the random token and the clock are arguments.
\<close>

definition channel_error :: "msg \<Rightarrow> 'a result" where
  "channel_error m = Err (Raise NodeChannelError [m])"

subsection \<open>Names\<close>

definition is_label_char :: "char \<Rightarrow> bool" where
  "is_label_char c = (is_alnum c \<or> c \<in> set ''._:-'')"

definition node_label_rx :: rx where
  "node_label_rx = rx_between 1 64 (RSet is_label_char)"

definition message_id_rx :: rx where
  "message_id_rx = rx_between 1 128 (RSet is_label_char)"

definition token_prefix :: string where
  "token_prefix = ''hnt1_''"

definition min_token_length :: nat where
  "min_token_length = 40"

definition tokens_schema :: string where
  "tokens_schema = ''dev-server-node-tokens/1''"

definition token_hash :: "string \<Rightarrow> string" where
  "token_hash token = sha256_hex (utf8 token)"

subsection \<open>Files and host\<close>

text \<open>
  \<open>cw_tokens\<close> is the tokens file: absent, or what reading and parsing it gives; \<open>cw_outputs\<close> the files a token was
  written to, \<open>cw_registry\<close> the registry document, \<open>cw_state\<close> the verifier's SQLite file, \<open>cw_inbox\<close> the inbox.
\<close>

record channel_world =
  cw_tokens :: "json result option"
  cw_outputs :: "string dict"
  cw_registry :: "json dict result"
  cw_state :: sql_state
  cw_inbox :: "json dict"

text \<open>
  \<open>nh_create\<close> and \<open>nh_replace\<close> are the outcome of writing a new file and of replacing the tokens file, \<open>nh_mkdir\<close> of
  making the inbox, \<open>nh_open\<close> of opening a new file in it; \<open>nh_repr\<close> is \<open>str\<close> of a JSON value that is no string.
\<close>

record channel_host =
  nh_create :: "string \<Rightarrow> unit result"
  nh_replace :: "unit result"
  nh_mkdir :: "unit result"
  nh_open :: "string \<Rightarrow> unit result"
  nh_loads :: "bytes \<Rightarrow> json result"
  nh_repr :: "json \<Rightarrow> string"

subsection \<open>The tokens file\<close>

text \<open>The nodes of a tokens file; every way reading or parsing it can fail is a \<open>NodeChannelError\<close>.\<close>

definition load_tokens :: "channel_world \<Rightarrow> json dict result" where
  "load_tokens w = (case cw_tokens w of
     None \<Rightarrow> Ok []
   | Some (Inl (Raise c ms)) \<Rightarrow>
       if c \<in> {PyOSError, PyValueError} then channel_error (Msg ''cannot read the tokens file: {}'' [])
       else Err (Raise c ms)
   | Some (Inr data) \<Rightarrow>
       (case data of
          JObj d \<Rightarrow>
            (case get_or_none d ''nodes'' of
               JObj nodes \<Rightarrow> if get_or_none d ''schema'' = JStr tokens_schema then Ok nodes
                 else channel_error (Msg ''the tokens file is not a node-tokens file'' [])
             | _ \<Rightarrow> channel_error (Msg ''the tokens file is not a node-tokens file'' []))
        | _ \<Rightarrow> channel_error (Msg ''the tokens file is not a node-tokens file'' [])))"

text \<open>The file \<open>json.dump(..., sort_keys=True)\<close> writes.\<close>

definition sorted_entry :: "json \<Rightarrow> json" where
  "sorted_entry v = (case v of JObj d \<Rightarrow> JObj (sorted_items d) | _ \<Rightarrow> v)"

definition saved_tokens :: "json dict \<Rightarrow> json" where
  "saved_tokens nodes =
     JObj [(''nodes'', JObj (sorted_items (map (\<lambda>(n, v). (n, sorted_entry v)) nodes))), (''schema'', JStr tokens_schema)]"

definition save_tokens :: "channel_host \<Rightarrow> json dict \<Rightarrow> channel_world \<Rightarrow> channel_world \<times> unit result" where
  "save_tokens h nodes w = (case nh_replace h of
     Inl e \<Rightarrow> (w, Inl e)
   | Inr _ \<Rightarrow> (w\<lparr>cw_tokens := Some (Ok (saved_tokens nodes))\<rparr>, Ok ()))"

definition new_entry :: "string \<Rightarrow> string \<Rightarrow> json" where
  "new_entry token now = JObj [(''token_sha256'', JStr (token_hash token)), (''issued_at'', JStr now), (''revoked_at'', JNull)]"

text \<open>\<open>issue_token\<close>; \<open>random\<close> is \<open>secrets.token_urlsafe(32)\<close>, \<open>now\<close> the text of the clock.\<close>

definition issue_token ::
  "channel_host \<Rightarrow> string \<Rightarrow> string \<Rightarrow> string \<Rightarrow> string \<Rightarrow> channel_world \<Rightarrow> channel_world \<times> unit result" where
  "issue_token h random now node out w =
     (if \<not> match_dollar node_label_rx node then
        (w, channel_error (Msg ''the node name has characters a node name does not have'' []))
      else if map_of (cw_outputs w) out \<noteq> None then
        (w, channel_error (Msg ''the output file already exists: the token is written to a new file'' []))
      else (let token = token_prefix @ random in
        case load_tokens w of
          Inl e \<Rightarrow> (w, Inl e)
        | Inr nodes \<Rightarrow>
            (case nh_create h out of
               Inl e \<Rightarrow> (w, Inl e)
             | Inr _ \<Rightarrow> save_tokens h (dict_set node (new_entry token now) nodes)
                 (w\<lparr>cw_outputs := dict_set out (token @ [CHR 0x0A]) (cw_outputs w)\<rparr>))))"

definition revoke_token :: "channel_host \<Rightarrow> string \<Rightarrow> string \<Rightarrow> channel_world \<Rightarrow> channel_world \<times> unit result" where
  "revoke_token h now node w =
     (case load_tokens w of
        Inl e \<Rightarrow> (w, Inl e)
      | Inr nodes \<Rightarrow>
          (case map_of nodes node of
             None \<Rightarrow> (w, channel_error (Msg ''no token was issued for that node'' []))
           | Some (JObj entry) \<Rightarrow> save_tokens h (dict_set node (JObj (dict_set ''revoked_at'' (JStr now) entry)) nodes) w
           | Some _ \<Rightarrow> (w, Err (Raise PyTypeError []))))"

text \<open>\<open>str(entry.get("token_sha256", ""))\<close>.\<close>

definition entry_hash :: "(json \<Rightarrow> string) \<Rightarrow> json dict \<Rightarrow> string" where
  "entry_hash repr d = (case map_of d ''token_sha256'' of None \<Rightarrow> [] | Some (JStr s) \<Rightarrow> s | Some v \<Rightarrow> repr v)"

text \<open>The loop of \<open>authenticate\<close>: every entry is compared, the last live one that fits is the answer.\<close>

fun find_live :: "(json \<Rightarrow> string) \<Rightarrow> string \<Rightarrow> json dict \<Rightarrow> string option \<Rightarrow> string option result" where
  "find_live repr digest [] found = Ok found"
| "find_live repr digest ((node, JObj d) # es) found =
     and_then (compare_digest (entry_hash repr d) digest) (\<lambda>same.
       find_live repr digest es (if same \<and> get_or_none d ''revoked_at'' = JNull then Some node else found))"
| "find_live repr digest ((node, v) # es) found = Err (Raise PyAttributeError [])"

definition authenticate :: "channel_host \<Rightarrow> channel_world \<Rightarrow> string \<Rightarrow> string option result" where
  "authenticate h w presented =
     (if length presented < min_token_length \<or> \<not> startswith presented token_prefix then Ok None
      else and_then (load_tokens w) (\<lambda>nodes. find_live (nh_repr h) (token_hash presented) nodes None))"

subsection \<open>Settings\<close>

record channel_settings =
  cs_tokens_file :: string
  cs_registry_file :: string
  cs_state_file :: string
  cs_inbox_dir :: string
  cs_to_node :: string
  cs_policy :: transport_policy
  cs_max_body_bytes :: int

definition max_body_limit :: int where
  "max_body_limit = 1048576"

definition channel_keys :: "string list" where
  "channel_keys = [''tokens_file'', ''registry_file'', ''state_file'', ''inbox_dir'', ''to_node'', ''policy'', ''max_body_bytes'']"

text \<open>A \<open>ConfigValidationError\<close> becomes a \<open>NodeChannelError\<close> with the same text.\<close>

definition as_channel_error :: "'a result \<Rightarrow> 'a result" where
  "as_channel_error r = (case r of
     Inl e \<Rightarrow> if is_config_error e then Err (Raise NodeChannelError (exn_msgs e)) else Inl e | Inr v \<Rightarrow> Inr v)"

definition needed_text :: "json dict \<Rightarrow> string \<Rightarrow> unit result" where
  "needed_text d k = (if nonempty_str (get_or_none d k) then Ok ()
     else channel_error (Msg ''the channel file needs '{}' as text'' [JStr k]))"

definition read_body_limit :: "json dict \<Rightarrow> int result" where
  "read_body_limit d = (case (case map_of d ''max_body_bytes'' of None \<Rightarrow> JInt 65536 | Some v \<Rightarrow> v) of
     JInt n \<Rightarrow> if 256 \<le> n \<and> n \<le> max_body_limit then Ok n
       else channel_error (Msg '''max_body_bytes' must be a whole number between 256 and {}'' [JInt max_body_limit])
   | _ \<Rightarrow> channel_error (Msg '''max_body_bytes' must be a whole number between 256 and {}'' [JInt max_body_limit]))"

definition load_settings :: "json dict result \<Rightarrow> channel_settings result" where
  "load_settings document =
     and_then (as_channel_error document) (\<lambda>d.
     let unknown = sort (filter (\<lambda>k. k \<notin> set channel_keys) (map fst d)) in
     if unknown \<noteq> [] then channel_error (Msg ''the channel file has unknown key(s): {}'' (map JStr unknown))
     else and_then (map_result (needed_text d) [''tokens_file'', ''registry_file'', ''state_file'', ''inbox_dir'', ''to_node'']) (\<lambda>_.
       let text = (\<lambda>k. str_of (get_or_none d k)) in
       if \<not> match_dollar node_label_rx (text ''to_node'') then
         channel_error (Msg '''to_node' has characters a node name does not have'' [])
       else and_then (read_body_limit d) (\<lambda>limit.
         and_then (as_channel_error (transport_from_dict (case map_of d ''policy'' of
             None \<Rightarrow> JObj [(''contract_version'', JStr contract_version)] | Some p \<Rightarrow> p))) (\<lambda>policy. Ok
           \<lparr>cs_tokens_file = text ''tokens_file'', cs_registry_file = text ''registry_file'', cs_state_file = text ''state_file'',
            cs_inbox_dir = text ''inbox_dir'', cs_to_node = text ''to_node'', cs_policy = policy, cs_max_body_bytes = limit\<rparr>))))"

subsection \<open>A post\<close>

type_synonym answer = "int \<times> json"

definition refused_post :: "int \<Rightarrow> string \<Rightarrow> answer" where
  "refused_post status why = (status, JObj [(''ok'', JBool False), (''error'', JStr why)])"

definition taken_post :: "bool \<Rightarrow> incident_message \<Rightarrow> answer" where
  "taken_post duplicate m =
     (200, JObj [(''ok'', JBool True), (''duplicate'', JBool duplicate), (''message_id'', JStr (im_message_id m))])"

definition registry_of :: "channel_world \<Rightarrow> node_registry result" where
  "registry_of w = and_then (cw_registry w) (\<lambda>d.
     if list_all (\<lambda>(k, v). is_str v) d then Ok \<lparr>nr_secrets = map (\<lambda>(k, v). (k, str_of v)) d\<rparr>
     else config_error [Msg ''registry'' []])"

definition inbox_name :: "incident_message \<Rightarrow> string" where
  "inbox_name m = replace_char (CHR '':'') (CHR ''_'') (im_message_id m) @ ''.json''"

definition inbox_document :: "string \<Rightarrow> string \<Rightarrow> incident_message \<Rightarrow> json" where
  "inbox_document node now m =
     JObj [(''from_node'', JStr node), (''received_at'', JStr now), (''message'', message_to_dict m False)]"

text \<open>A message that was verified goes to the inbox.\<close>

definition store_message :: "channel_host \<Rightarrow> string \<Rightarrow> string \<Rightarrow> incident_message \<Rightarrow> channel_world \<Rightarrow> channel_world \<times> answer result" where
  "store_message h now_text node m w =
     (case nh_mkdir h of
        Inl e \<Rightarrow> (w, Inl e)
      | Inr _ \<Rightarrow>
          if map_of (cw_inbox w) (inbox_name m) \<noteq> None then (w, Ok (taken_post True m))
          else (case nh_open h (inbox_name m) of
              Inl (Raise c ms) \<Rightarrow>
                if c = PyFileExistsError then (w, Ok (taken_post True m))
                else if c = PyOSError then (w, Ok (refused_post 503 ''the channel is not available''))
                else (w, Err (Raise c ms))
            | Inr _ \<Rightarrow> (w\<lparr>cw_inbox := dict_set (inbox_name m) (inbox_document node now_text m) (cw_inbox w)\<rparr>, Ok (taken_post False m))))"

text \<open>The message of a body, or the answer that refuses it.\<close>

definition read_post :: "channel_host \<Rightarrow> bytes \<Rightarrow> (answer + incident_message) result" where
  "read_post h raw =
     (case and_then (nh_loads h raw) message_from_dict of
        Inl (Raise c ms) \<Rightarrow>
          if c = PyValueError \<or> is_config_class c then Ok (Inl (refused_post 400 ''not an incident-transport message''))
          else Err (Raise c ms)
      | Inr m \<Rightarrow> if match_dollar message_id_rx (im_message_id m) then Ok (Inr m) else Ok (Inl (refused_post 400 ''message_id'')))"

definition verify_post :: "channel_host \<Rightarrow> channel_settings \<Rightarrow> rat \<Rightarrow> string \<Rightarrow> string \<Rightarrow> incident_message \<Rightarrow> channel_world \<Rightarrow>
    channel_world \<times> answer result" where
  "verify_post h s now now_text node m w =
     (case registry_of w of
        Inl (Raise c ms) \<Rightarrow>
          if is_config_class c \<or> c = PyOSError then (w, Ok (refused_post 503 ''the channel is not available'')) else (w, Err (Raise c ms))
      | Inr reg \<Rightarrow>
          (case verify_message sql_ops m reg (cs_policy s) (cw_state w) node now (Some (cs_to_node s)) of
             (st, Inl (Raise c ms)) \<Rightarrow>
               if is_config_class c \<or> c = PyOSError then (w\<lparr>cw_state := st\<rparr>, Ok (refused_post 503 ''the channel is not available''))
               else (w\<lparr>cw_state := st\<rparr>, Err (Raise c ms))
           | (st, Inr r) \<Rightarrow>
               if \<not> vr_ok r then (w\<lparr>cw_state := st\<rparr>,
                 Ok (403, JObj [(''ok'', JBool False), (''code'', case vr_code r of None \<Rightarrow> JNull | Some c \<Rightarrow> JStr c)]))
               else store_message h now_text node m (w\<lparr>cw_state := st\<rparr>)))"

text \<open>\<open>NodeChannel.handle\<close>.\<close>

definition handle_post :: "channel_host \<Rightarrow> channel_settings \<Rightarrow> rat \<Rightarrow> string \<Rightarrow> string \<Rightarrow> bytes \<Rightarrow> channel_world \<Rightarrow>
    channel_world \<times> answer result" where
  "handle_post h s now now_text authorization raw w =
     (case partition_at (CHR '' '') authorization of (scheme, sep, presented) \<Rightarrow>
       (case (if scheme = ''Bearer'' then authenticate h w presented else Ok None) of
          Inl (Raise c ms) \<Rightarrow>
            if c = NodeChannelError then (w, Ok (refused_post 503 ''the channel is not available'')) else (w, Err (Raise c ms))
        | Inr None \<Rightarrow> (w, Ok (refused_post 401 ''unauthorized''))
        | Inr (Some node) \<Rightarrow>
            if int (length raw) > cs_max_body_bytes s then (w, Ok (refused_post 413 ''too large''))
            else (case read_post h raw of
                Inl e \<Rightarrow> (w, Inl e)
              | Inr (Inl a) \<Rightarrow> (w, Ok a)
              | Inr (Inr m) \<Rightarrow> verify_post h s now now_text node m w)))"

end
