(* ===== verification/Inventory.thy ===== *)
theory Inventory
  imports Config
begin

text \<open>
  \<open>inventory.py\<close>: the projects found under a workspace root, and the reasons why a manifest that is there is no project.
  The root is a dictionary from the names of its directories to the outcome of reading the manifest in each.
\<close>

record project_manifest =
  pj_name :: string
  pj_version :: string
  pj_maturity :: string
  pj_path :: string

record scan_issue =
  si_path :: string
  si_reason :: msg

record scan_result =
  sr_projects :: "project_manifest list"
  sr_issues :: "scan_issue list"

definition manifest_filename :: string where
  "manifest_filename = ''hydra-umc.project.json''"

definition required_fields :: "string list" where
  "required_fields = [''name'', ''version'', ''maturity'']"

definition manifest_path :: "string \<Rightarrow> string \<Rightarrow> string" where
  "manifest_path dir dirname = dir @ ''/'' @ dirname @ ''/'' @ manifest_filename"

definition missing_fields :: "json dict \<Rightarrow> string list" where
  "missing_fields d = filter (\<lambda>f. \<not> nonempty_str (get_or_none d f)) required_fields"

text \<open>
  One manifest: a project, or the reason why it is none.  \<open>loads\<close> is the JSON reader (\<open>None\<close>: a
  \<open>JSONDecodeError\<close>); an exception of reading that is no \<open>OSError\<close> is not caught.
\<close>

definition read_project :: "(string \<Rightarrow> json option) \<Rightarrow> string \<Rightarrow> string result \<Rightarrow> (msg + project_manifest) result" where
  "read_project loads path raw = (case raw of
     Inl (Raise c ms) \<Rightarrow>
       if c = PyOSError \<or> c = PyFileExistsError then Ok (Inl (Msg ''could not read: {}'' [])) else Err (Raise c ms)
   | Inr content \<Rightarrow> (case loads content of
       None \<Rightarrow> Ok (Inl (Msg ''not valid JSON: {}'' []))
     | Some (JObj d) \<Rightarrow>
         (let missing = missing_fields d in
          if missing \<noteq> [] then Ok (Inl (Msg ''missing/empty required field(s): {}'' (map JStr missing)))
          else Ok (Inr \<lparr>pj_name = str_of (get_or_none d ''name''), pj_version = str_of (get_or_none d ''version''),
                        pj_maturity = str_of (get_or_none d ''maturity''), pj_path = path\<rparr>))
     | Some _ \<Rightarrow> Ok (Inl (Msg ''manifest is not a JSON object'' []))))"

definition scan_one ::
  "(string \<Rightarrow> json option) \<Rightarrow> string \<Rightarrow> string \<times> string result option \<Rightarrow> scan_result \<Rightarrow> scan_result result" where
  "scan_one loads dir e acc = (case e of
     (dirname, None) \<Rightarrow> Ok acc
   | (dirname, Some raw) \<Rightarrow>
       and_then (read_project loads (manifest_path dir dirname) raw) (\<lambda>p. Ok (case p of
           Inl why \<Rightarrow> acc\<lparr>sr_issues := sr_issues acc @ [\<lparr>si_path = manifest_path dir dirname, si_reason = why\<rparr>]\<rparr>
         | Inr m \<Rightarrow> acc\<lparr>sr_projects := sr_projects acc @ [m]\<rparr>)))"

fun scan_all ::
  "(string \<Rightarrow> json option) \<Rightarrow> string \<Rightarrow> (string \<times> string result option) list \<Rightarrow> scan_result \<Rightarrow> scan_result result" where
  "scan_all loads dir [] acc = Ok acc"
| "scan_all loads dir (e # es) acc = and_then (scan_one loads dir e acc) (scan_all loads dir es)"

text \<open>\<open>dirs\<close> is \<open>None\<close> when the root is no directory; a directory without a manifest has no entry to read.\<close>

definition scan_project_manifests ::
  "(string \<Rightarrow> json option) \<Rightarrow> string \<Rightarrow> (string result option) dict option \<Rightarrow> scan_result result" where
  "scan_project_manifests loads dir dirs = (case dirs of
     None \<Rightarrow> Ok \<lparr>sr_projects = [], sr_issues = [\<lparr>si_path = dir, si_reason = Msg ''root is not a real directory'' []\<rparr>]\<rparr>
   | Some ds \<Rightarrow> scan_all loads dir (sorted_items ds) \<lparr>sr_projects = [], sr_issues = []\<rparr>)"

subsection \<open>Every manifest is accounted for\<close>

definition scanned_paths :: "scan_result \<Rightarrow> string list" where
  "scanned_paths r = map pj_path (sr_projects r) @ map si_path (sr_issues r)"

lemma read_project_path: "read_project loads path raw = Ok (Inr m) \<Longrightarrow> pj_path m = path"
  by (auto simp: read_project_def Let_def split: sum.splits exn.splits option.splits json.splits if_splits)

lemma scan_one_paths:
  assumes "scan_one loads dir (n, raw) acc = Ok r"
  shows "mset (scanned_paths r) = mset (scanned_paths acc) + (if raw = None then {#} else {#manifest_path dir n#})"
proof (cases raw)
  case None
  then show ?thesis using assms by (simp add: scan_one_def)
next
  case (Some content)
  then obtain v where "read_project loads (manifest_path dir n) content = Ok v"
      "r = (case v of
           Inl why \<Rightarrow> acc\<lparr>sr_issues := sr_issues acc @ [\<lparr>si_path = manifest_path dir n, si_reason = why\<rparr>]\<rparr>
         | Inr m \<Rightarrow> acc\<lparr>sr_projects := sr_projects acc @ [m]\<rparr>)"
    using assms by (auto simp: scan_one_def result_simps)
  then show ?thesis using Some read_project_path by (cases v) (auto simp: scanned_paths_def)
qed

lemma scan_all_paths:
  "scan_all loads dir es acc = Ok r \<Longrightarrow>
     mset (scanned_paths r) = mset (scanned_paths acc) + mset (map (\<lambda>(n, raw). manifest_path dir n) (filter (\<lambda>(n, raw). raw \<noteq> None) es))"
proof (induction es arbitrary: acc)
  case (Cons e es)
  obtain n raw where e: "e = (n, raw)" by (cases e)
  obtain acc' where "scan_one loads dir (n, raw) acc = Ok acc'" "scan_all loads dir es acc' = Ok r"
    using Cons.prems by (auto simp: e result_simps)
  then show ?case using Cons.IH [of acc'] scan_one_paths [of loads dir n raw acc acc'] by (auto simp: e)
qed simp

text \<open>Every manifest under the root is reported exactly once, as a project or as an issue.\<close>

lemma every_manifest_is_reported:
  assumes "scan_project_manifests loads dir (Some ds) = Ok r"
  shows "mset (scanned_paths r) = mset (map (\<lambda>(n, raw). manifest_path dir n) (filter (\<lambda>(n, raw). raw \<noteq> None) (sorted_items ds)))"
  using scan_all_paths assms by (fastforce simp: scan_project_manifests_def scanned_paths_def)

text \<open>A manifest that is not UTF-8 raises \<open>UnicodeDecodeError\<close>, which is no \<open>OSError\<close>: the scan of the whole workspace
  ends with it.\<close>

lemma undecodable_manifest_ends_the_scan:
  "scan_project_manifests loads dir (Some [(''a'', Some (Err (Raise PyValueError []))), (''b'', raw)]) = Err (Raise PyValueError [])"
  by (simp add: scan_project_manifests_def sorted_items_def scan_one_def read_project_def)

end
