(* ===== verification/Ip_Address.thy ===== *)
theory Ip_Address
  imports Prelude "HOL-Library.Word"
begin

text \<open>
  \<open>ipaddress.ip_address\<close> of the standard library and the questions the code asks of an address: the parser for both
  versions, the zone (scope id) an IPv6 address may carry, and the registry of networks of CPython 3.11.
\<close>

unbundle bit_operations_syntax

datatype ip_address = V4 "32 word" | V6 "128 word" "string option"

subsection \<open>Version 4\<close>

definition decimal_digit :: "char \<Rightarrow> bool" where
  "decimal_digit c = (48 \<le> (of_char c :: nat) \<and> (of_char c :: nat) \<le> 57)"

definition decimal_value :: "string \<Rightarrow> nat" where
  "decimal_value s = foldl (\<lambda>a c. 10 * a + (of_char c - 48)) 0 s"

definition parse_octet :: "string \<Rightarrow> nat option" where
  "parse_octet s =
     (if s = [] \<or> \<not> list_all decimal_digit s \<or> length s > 3 \<or> (s \<noteq> ''0'' \<and> hd s = CHR ''0'') \<or> decimal_value s > 255 then None
      else Some (decimal_value s))"

definition v4_word :: "nat list \<Rightarrow> 32 word" where
  "v4_word os = foldl (\<lambda>a n. push_bit 8 a OR of_nat n) 0 os"

definition parse_v4 :: "string \<Rightarrow> 32 word option" where
  "parse_v4 s =
     (let octets = split_on (CHR ''.'') s in
      if CHR ''/'' \<in> set s \<or> length octets \<noteq> 4 then None else map_option v4_word (those (map parse_octet octets)))"

subsection \<open>Version 6\<close>

definition hex_value :: "char \<Rightarrow> nat option" where
  "hex_value c = (let n = of_char c :: nat in
     if 48 \<le> n \<and> n \<le> 57 then Some (n - 48)
     else if 65 \<le> n \<and> n \<le> 70 then Some (n - 55)
     else if 97 \<le> n \<and> n \<le> 102 then Some (n - 87) else None)"

definition parse_hextet :: "string \<Rightarrow> nat option" where
  "parse_hextet s = (if s = [] \<or> length s > 4 then None
     else map_option (foldl (\<lambda>a n. 16 * a + n) 0) (those (map hex_value s)))"

definition v6_word :: "nat list \<Rightarrow> 128 word" where
  "v6_word hs = foldl (\<lambda>a n. push_bit 16 a OR of_nat n) 0 hs"

text \<open>The parts of the text; an IPv4 suffix counts as two hextets.\<close>

definition v6_parts :: "string \<Rightarrow> nat option list option" where
  "v6_parts s =
     (let parts = split_on (CHR '':'') s in
      if s = [] \<or> length parts < 3 then None
      else if CHR ''.'' \<in> set (last parts) then
        (case parse_v4 (last parts) of
           None \<Rightarrow> None
         | Some a \<Rightarrow> Some (map parse_hextet (butlast parts) @ [Some (unat (drop_bit 16 a)), Some (unat (take_bit 16 a))]))
      else Some (map parse_hextet parts))"

text \<open>Which of the parts are empty texts.\<close>

definition v6_empty :: "string \<Rightarrow> bool list" where
  "v6_empty s =
     (let parts = split_on (CHR '':'') s in
      if CHR ''.'' \<in> set (last parts) then map (\<lambda>p. p = []) (butlast parts) @ [False, False] else map (\<lambda>p. p = []) parts)"

text \<open>
  How many parts stand before and after the gap \<open>::\<close> and how many zeros it stands for; a part may be empty in the gap
  only, and at an end only as a part of the gap.
\<close>

definition v6_layout :: "bool list \<Rightarrow> (nat \<times> nat \<times> nat) option" where
  "v6_layout blank =
     (let n = length blank; gaps = filter (\<lambda>i. blank ! i) [1..<n - 1] in
      if n > 9 then None
      else (case gaps of
          [] \<Rightarrow> if n \<noteq> 8 \<or> hd blank \<or> last blank then None else Some (8, 0, 0)
        | [skip] \<Rightarrow>
            (let hi = (if hd blank then skip - 1 else skip);
                 lo = (if last blank then n - skip - 2 else n - skip - 1)
             in if (hd blank \<and> hi \<noteq> 0) \<or> (last blank \<and> lo \<noteq> 0) \<or> hi + lo > 7 then None
                else Some (hi, 8 - (hi + lo), lo))
        | _ \<Rightarrow> None))"

definition parse_v6_number :: "string \<Rightarrow> 128 word option" where
  "parse_v6_number s = (case v6_parts s of
     None \<Rightarrow> None
   | Some parts \<Rightarrow>
       (case v6_layout (v6_empty s) of
          None \<Rightarrow> None
        | Some (hi, zeros, lo) \<Rightarrow>
            map_option v6_word (those (take hi parts @ replicate zeros (Some 0) @ drop (length parts - lo) parts))))"

text \<open>\<open>_split_scope_id\<close>: everything after the percent sign is the zone, whatever its characters.\<close>

definition parse_v6 :: "string \<Rightarrow> ip_address option" where
  "parse_v6 s =
     (if CHR ''/'' \<in> set s then None
      else (case partition_at (CHR ''%'') s of (addr, sep, zone) \<Rightarrow>
         if sep = [] then map_option (\<lambda>a. V6 a None) (parse_v6_number addr)
         else if zone = [] \<or> CHR ''%'' \<in> set zone then None
         else map_option (\<lambda>a. V6 a (Some zone)) (parse_v6_number addr)))"

definition ip_address :: "string \<Rightarrow> ip_address option" where
  "ip_address s = (case parse_v4 s of Some a \<Rightarrow> Some (V4 a) | None \<Rightarrow> parse_v6 s)"

subsection \<open>Networks\<close>

definition in_net :: "'a::len word \<Rightarrow> 'a word \<times> nat \<Rightarrow> bool" where
  "in_net a net = (case net of (b, p) \<Rightarrow> drop_bit (LENGTH('a) - p) a = drop_bit (LENGTH('a) - p) b)"

definition v4_net :: "nat list \<Rightarrow> nat \<Rightarrow> 32 word \<times> nat" where
  "v4_net os p = (v4_word os, p)"

definition v6_net :: "nat list \<Rightarrow> nat \<Rightarrow> 128 word \<times> nat" where
  "v6_net hs p = (v6_word (take 8 (hs @ replicate 8 0)), p)"

definition v4_private :: "(32 word \<times> nat) list" where
  "v4_private = [v4_net [0,0,0,0] 8, v4_net [10,0,0,0] 8, v4_net [127,0,0,0] 8, v4_net [169,254,0,0] 16, v4_net [172,16,0,0] 12,
     v4_net [192,0,0,0] 24, v4_net [192,0,0,170] 31, v4_net [192,0,2,0] 24, v4_net [192,168,0,0] 16, v4_net [198,18,0,0] 15,
     v4_net [198,51,100,0] 24, v4_net [203,0,113,0] 24, v4_net [240,0,0,0] 4, v4_net [255,255,255,255] 32]"

definition v4_private_except :: "(32 word \<times> nat) list" where
  "v4_private_except = [v4_net [192,0,0,9] 32, v4_net [192,0,0,10] 32]"

definition v4_is_private :: "32 word \<Rightarrow> bool" where
  "v4_is_private a = (list_ex (in_net a) v4_private \<and> \<not> list_ex (in_net a) v4_private_except)"

definition v6_private :: "(128 word \<times> nat) list" where
  "v6_private = [v6_net [0,0,0,0,0,0,0,1] 128, v6_net [] 128, v6_net [0,0,0,0,0,0xFFFF] 96, v6_net [0x64,0xFF9B,1] 48,
     v6_net [0x100] 64, v6_net [0x2001] 23, v6_net [0x2001,0xDB8] 32, v6_net [0x2002] 16, v6_net [0xFC00] 7, v6_net [0xFE80] 10]"

definition v6_private_except :: "(128 word \<times> nat) list" where
  "v6_private_except = [v6_net [0x2001,1,0,0,0,0,0,1] 128, v6_net [0x2001,1,0,0,0,0,0,2] 128, v6_net [0x2001,3] 32,
     v6_net [0x2001,4,0x112] 48, v6_net [0x2001,0x20] 28, v6_net [0x2001,0x30] 28]"

fun is_loopback :: "ip_address \<Rightarrow> bool" where
  "is_loopback (V4 a) = in_net a (v4_net [127,0,0,0] 8)"
| "is_loopback (V6 a zone) = (a = 1)"

fun is_unspecified :: "ip_address \<Rightarrow> bool" where
  "is_unspecified (V4 a) = (a = 0)"
| "is_unspecified (V6 a zone) = (a = 0)"

fun is_link_local :: "ip_address \<Rightarrow> bool" where
  "is_link_local (V4 a) = in_net a (v4_net [169,254,0,0] 16)"
| "is_link_local (V6 a zone) = in_net a (v6_net [0xFE80] 10)"

fun is_multicast :: "ip_address \<Rightarrow> bool" where
  "is_multicast (V4 a) = in_net a (v4_net [224,0,0,0] 4)"
| "is_multicast (V6 a zone) = in_net a (v6_net [0xFF00] 8)"

fun is_private_address :: "ip_address \<Rightarrow> bool" where
  "is_private_address (V4 a) = v4_is_private a"
| "is_private_address (V6 a zone) =
     (if drop_bit 32 a = 0xFFFF then v4_is_private (ucast a)
      else list_ex (in_net a) v6_private \<and> \<not> list_ex (in_net a) v6_private_except)"

subsection \<open>The characters of an address\<close>

definition address_char :: "char \<Rightarrow> bool" where
  "address_char c = (hex_value c \<noteq> None \<or> c = CHR '':'' \<or> c = CHR ''.'')"

lemma those_Some_iff: "those xs = Some ys \<longleftrightarrow> xs = map Some ys"
proof (induction xs arbitrary: ys)
  case (Cons x xs)
  show ?case using Cons.IH by (cases ys) (auto split: option.splits)
qed auto

lemma decimal_is_hex: "decimal_digit c \<Longrightarrow> hex_value c \<noteq> None"
  by (simp add: decimal_digit_def hex_value_def Let_def)

lemma parse_octet_chars: "parse_octet s \<noteq> None \<Longrightarrow> list_all decimal_digit s"
  by (auto simp: parse_octet_def split: if_splits)

lemma parse_hextet_chars: "parse_hextet s \<noteq> None \<Longrightarrow> c \<in> set s \<Longrightarrow> hex_value c \<noteq> None"
  by (auto simp: parse_hextet_def those_Some_iff map_eq_conv split: if_splits) (metis in_set_conv_nth length_map nth_map option.distinct(1))

lemma chars_of_parts:
  assumes "\<And>p. p \<in> set (split_on d s) \<Longrightarrow> list_all P p" and "P d"
  shows "list_all P s"
proof -
  have "set s \<subseteq> {d} \<union> \<Union> (set ` set (split_on d s))"
    using set_join_with [of "[d]" "split_on d s"] by (simp add: join_split_on)
  then show ?thesis using assms by (fastforce simp: list_all_iff)
qed

lemma parse_v4_chars: "parse_v4 s = Some a \<Longrightarrow> list_all address_char s"
proof (rule chars_of_parts)
  fix p
  assume "parse_v4 s = Some a" and p: "p \<in> set (split_on (CHR ''.'') s)"
  then obtain ns where "map parse_octet (split_on (CHR ''.'') s) = map Some ns"
    by (auto simp: parse_v4_def Let_def those_Some_iff split: if_splits)
  then have "parse_octet p \<noteq> None" using p by (metis image_iff list.set_map option.distinct(1))
  from parse_octet_chars [OF this] show "list_all address_char p"
    by (auto simp: list_all_iff address_char_def dest: decimal_is_hex)
qed (simp add: address_char_def)

text \<open>A part that is in the gap, or an empty end of it, is an empty text.\<close>

lemma v6_layout_covers:
  assumes "v6_layout es = Some (hi, z, lo)" and "i < length es" and "\<not> i < hi" and "\<not> length es - lo \<le> i"
  shows "es ! i"
proof -
  let ?n = "length es"
  let ?gaps = "filter (\<lambda>i. es ! i) [1..<?n - 1]"
  have ne: "es \<noteq> []" using assms(2) by auto
  then have ends: "hd es = es ! 0" "last es = es ! (?n - 1)" by (simp_all add: hd_conv_nth last_conv_nth)
  show ?thesis
  proof (cases ?gaps)
    case Nil
    then show ?thesis using assms by (auto simp: v6_layout_def Let_def split: if_splits)
  next
    case (Cons skip rest)
    then have "rest = []" using assms(1) by (cases rest) (auto simp: v6_layout_def Let_def split: if_splits)
    then have gap: "?gaps = [skip]" using Cons by simp
    then have "skip \<in> set ?gaps" by simp
    then have skip: "es ! skip" "1 \<le> skip" "skip < ?n - 1" by auto
    have hi: "hi = (if hd es then skip - 1 else skip)" "lo = (if last es then ?n - skip - 2 else ?n - skip - 1)"
        "\<not> (hd es \<and> hi \<noteq> 0)" "\<not> (last es \<and> lo \<noteq> 0)"
      using assms(1) gap by (auto simp: v6_layout_def Let_def split: if_splits)
    have "i = skip \<or> (i = 0 \<and> hd es) \<or> (i = ?n - 1 \<and> last es)"
      using assms(2-4) hi skip(2,3) by (cases "hd es"; cases "last es") auto
    then show ?thesis using skip(1) ends by auto
  qed
qed

lemma v6_empty_parts: "v6_parts s = Some ps \<Longrightarrow> length (v6_empty s) = length ps"
  by (auto simp: v6_parts_def v6_empty_def Let_def split: if_splits option.splits)

lemma v6_part_read:
  assumes "parse_v6_number s = Some a" and "v6_parts s = Some ps" and "i < length ps"
  shows "v6_empty s ! i \<or> ps ! i \<noteq> None"
proof -
  obtain hi z lo where layout: "v6_layout (v6_empty s) = Some (hi, z, lo)"
      and read: "those (take hi ps @ replicate z (Some 0) @ drop (length ps - lo) ps) \<noteq> None"
    using assms(1,2) by (auto simp: parse_v6_number_def split: option.splits prod.splits)
  then have some: "None \<notin> set (take hi ps)" "None \<notin> set (drop (length ps - lo) ps)"
    by (auto simp: those_Some_iff) (metis UnCI ex_map_conv option.distinct(1) set_append)+
  note len = v6_empty_parts [OF assms(2)]
  show ?thesis
  proof (cases "i < hi")
    case True
    then have "ps ! i \<in> set (take hi ps)" using assms(3) by (metis in_set_conv_nth length_take min_less_iff_conj nth_take)
    then show ?thesis using some by metis
  next
    case False
    show ?thesis
    proof (cases "length ps - lo \<le> i")
      case True
      then have "ps ! i \<in> set (drop (length ps - lo) ps)"
        using nth_mem [of "i - (length ps - lo)" "drop (length ps - lo) ps"] assms(3) by simp
      then show ?thesis using some by metis
    next
      case low: False
      then show ?thesis using v6_layout_covers [OF layout _ False] assms(3) len by auto
    qed
  qed
qed

lemma parse_v6_number_chars:
  assumes "parse_v6_number s = Some a"
  shows "list_all address_char s"
proof (rule chars_of_parts)
  fix t
  assume t: "t \<in> set (split_on (CHR '':'') s)"
  let ?ts = "split_on (CHR '':'') s"
  obtain ps where ps: "v6_parts s = Some ps" using assms by (auto simp: parse_v6_number_def split: option.splits)
  note read = v6_part_read [OF assms ps]
  have hextets: "list_all address_char t" if "t = [] \<or> parse_hextet t \<noteq> None"
    using that parse_hextet_chars [of t] by (auto simp: list_all_iff address_char_def)
  show "list_all address_char t"
  proof (cases "CHR ''.'' \<in> set (last ?ts)")
    case True
    then obtain b where v4: "parse_v4 (last ?ts) = Some b" and shape: "ps = map parse_hextet (butlast ?ts) @ [Some (unat (drop_bit 16 b)), Some (unat (take_bit 16 b))]"
      using ps by (auto simp: v6_parts_def Let_def split: if_splits option.splits)
    have blank: "v6_empty s = map (\<lambda>p. p = []) (butlast ?ts) @ [False, False]" using True by (simp add: v6_empty_def)
    show ?thesis
    proof (cases "t = last ?ts")
      case last: True
      then show ?thesis using parse_v4_chars [OF v4] by simp
    next
      case False
      then have "t \<in> set (butlast ?ts)" using t by (metis append_butlast_last_id in_set_butlastD insert_iff list.set(2) rotate1.simps(2) set_rotate1 split_on_not_Nil)
      then obtain i where i: "i < length (butlast ?ts)" "t = butlast ?ts ! i" by (metis in_set_conv_nth)
      then have "t = [] \<or> parse_hextet t \<noteq> None" using read [of i] by (simp add: shape blank nth_append)
      then show ?thesis by (rule hextets)
    qed
  next
    case False
    then have "ps = map parse_hextet ?ts" "v6_empty s = map (\<lambda>p. p = []) ?ts"
      using ps by (auto simp: v6_parts_def v6_empty_def Let_def split: if_splits)
    moreover obtain i where "i < length ?ts" "t = ?ts ! i" using t by (metis in_set_conv_nth)
    ultimately have "t = [] \<or> parse_hextet t \<noteq> None" using read [of i] by simp
    then show ?thesis by (rule hextets)
  qed
qed (simp add: address_char_def)

text \<open>Without a zone an address is written with hexadecimal digits, colons and dots only.\<close>

lemma ip_address_chars:
  assumes "ip_address s = Some ip" and "CHR ''%'' \<notin> set s"
  shows "list_all address_char s"
proof (cases "parse_v4 s")
  case (Some a)
  then show ?thesis by (rule parse_v4_chars)
next
  case None
  have rest: "dropWhile (\<lambda>x. x \<noteq> CHR ''%'') s = []" using assms(2) by (auto simp: dropWhile_eq_Nil_conv)
  have "partition_at (CHR ''%'') s = (s, [], [])" by (simp only: partition_at_def Let_def rest list.case)
  then have "parse_v6_number s \<noteq> None" using assms(1) None by (auto simp: ip_address_def parse_v6_def split: if_splits)
  then show ?thesis using parse_v6_number_chars by blast
qed

end
