(* ===== verification/Api.thy ===== *)
theory Api
  imports Plugins Server_Identity Node_Channel Inventory Taskflow Ip_Address
begin

text \<open>
  \<open>api.py\<close> and \<open>health_route.py\<close>: what the HTTP API may listen on, its routes, and the handling of one request, with the
  plugin registry, the node channel and the trail of requests as its state.  A request is parsed already; sending a reply adds it to a list.
\<close>

subsection \<open>Routes\<close>

definition max_body_bytes :: int where
  "max_body_bytes = 4096"

definition api_token_length :: nat where
  "api_token_length = 24"

definition audit_entries :: nat where
  "audit_entries = 500"

datatype route =
    Enable_route string | Disable_route string | Check_route string string
  | Report_route string string | Generator_route string string

definition slug :: "string \<Rightarrow> bool" where
  "slug s = (s \<noteq> [] \<and> list_all is_slug_char s)"

text \<open>The five patterns on a path that has no newline at its end.\<close>

definition plugin_route :: "string \<Rightarrow> route option" where
  "plugin_route path = (case split_on (CHR ''/'') path of
     [a, v, p, name, action] \<Rightarrow>
       if a = [] \<and> v = ''v1'' \<and> p = ''plugins'' \<and> slug name then
         (if action = ''enable'' then Some (Enable_route name)
          else if action = ''disable'' then Some (Disable_route name) else None)
       else None
   | [a, v, p, name, kind, item] \<Rightarrow>
       if a = [] \<and> v = ''v1'' \<and> p = ''plugins'' \<and> slug name \<and> slug item then
         (if kind = ''checks'' then Some (Check_route name item)
          else if kind = ''reports'' then Some (Report_route name item)
          else if kind = ''generators'' then Some (Generator_route name item) else None)
       else None
   | _ \<Rightarrow> None)"

text \<open>\<open>pattern.match(path)\<close>: the \<open>$\<close> of the patterns also matches before a newline that ends the path.\<close>

definition post_pattern :: "string \<Rightarrow> route option" where
  "post_pattern path = (case plugin_route path of
     Some r \<Rightarrow> Some r
   | None \<Rightarrow> if path \<noteq> [] \<and> last path = CHR 0x0A then plugin_route (butlast path) else None)"

definition rescan_path :: string where
  "rescan_path = ''/v1/plugins/rescan''"

definition get_routes :: "string list" where
  "get_routes = [''/v1/health'', ''/v1/inventory'', ''/v1/audit'', ''/v1/plugins'']"

definition is_post_route :: "string \<Rightarrow> bool" where
  "is_post_route path = (path = rescan_path \<or> post_pattern path \<noteq> None)"

subsection \<open>Where the API listens\<close>

definition validate_bind :: "string \<Rightarrow> string \<Rightarrow> unit result" where
  "validate_bind host token = (case ip_address host of
     None \<Rightarrow> Err (Raise ApiConfigError [Msg ''host must be a loopback IP address, got {}'' [JStr host]])
   | Some ip \<Rightarrow>
       if \<not> is_loopback ip then Err (Raise ApiConfigError [Msg ''host must be a loopback address, got {}'' [JStr host]])
       else if length token < api_token_length then
         Err (Raise ApiConfigError [Msg ''the API token must be at least {} characters'' [JInt (int api_token_length)]])
       else Ok ())"

subsection \<open>State\<close>

type_synonym reply = "int \<times> json"

record audit_entry =
  ae_at :: rat
  ae_method :: string
  ae_path :: string
  ae_status :: int
  ae_client :: string

record api_config =
  ac_token :: string
  ac_identity_key :: "bytes option"
  ac_health_open :: bool
  ac_public_detail :: bool
  ac_channel :: "channel_settings option"
  ac_version :: string

record api_state =
  as_registry :: plugin_registry
  as_channel :: channel_world
  as_audit :: "audit_entry list"
  as_sent :: "reply list"

text \<open>
  A request as the standard library hands it over; \<open>rq_body\<close> is what the connection holds, \<open>rq_client\<close> the
  client's address, \<open>rq_at\<close> the clock when it is answered.
\<close>

record api_request = http_request +
  rq_target :: string
  rq_length :: "string option"
  rq_body :: bytes
  rq_client :: string
  rq_at :: rat

text \<open>What the handler works with: the plugin host and directory, the channel's host, the JSON readers, the clock, the inventory.\<close>

record api_host =
  ah_plugins :: plugin_host
  ah_free :: bool
  ah_dirs :: plugin_root
  ah_manifest :: "bytes \<Rightarrow> json result"
  ah_inventory :: "json result"
  ah_channel :: channel_host
  ah_loads :: "bytes \<Rightarrow> json result"
  ah_now :: rat
  ah_now_text :: string

definition path_of :: "api_request \<Rightarrow> string" where
  "path_of r = takeWhile (\<lambda>c. c \<noteq> CHR ''?'') (rq_target r)"

text \<open>\<open>_send\<close>: the reply and its line in the trail, which keeps the last ones.\<close>

definition send_reply :: "api_request \<Rightarrow> int \<Rightarrow> json \<Rightarrow> api_state \<Rightarrow> api_state" where
  "send_reply r status payload st =
     (let trail = as_audit st @ [\<lparr>ae_at = of_int (round_half_even (rq_at r * 1000)) / 1000, ae_method = hq_command r, ae_path = take 200 (path_of r),
            ae_status = status, ae_client = rq_client r\<rparr>]
      in st\<lparr>as_audit := drop (length trail - audit_entries) trail, as_sent := as_sent st @ [(status, payload)]\<rparr>)"

text \<open>The reply of the common health route, which leaves no line in the trail.\<close>

definition write_reply :: "int \<Rightarrow> json \<Rightarrow> api_state \<Rightarrow> api_state" where
  "write_reply status payload st = st\<lparr>as_sent := as_sent st @ [(status, payload)]\<rparr>"

definition error_body :: "string \<Rightarrow> json" where
  "error_body why = JObj [(''error'', JStr why)]"

definition refuse_unauthorized :: "api_request \<Rightarrow> api_state \<Rightarrow> api_state" where
  "refuse_unauthorized r = send_reply r 401 (error_body ''a valid bearer token is required'')"

definition method_not_allowed :: "api_request \<Rightarrow> api_state \<Rightarrow> api_state" where
  "method_not_allowed r = send_reply r 405 (error_body ''method not allowed'')"

text \<open>A step of the handler: the state it leaves, and an exception that ends the connection.\<close>

type_synonym handled = "api_state \<times> unit result"

definition answered :: "api_state \<Rightarrow> handled" where
  "answered st = (st, Ok ())"

subsection \<open>Who may ask\<close>

definition authorized :: "api_config \<Rightarrow> api_host \<Rightarrow> api_request \<Rightarrow> bool result" where
  "authorized cfg h r = (case ac_identity_key cfg of
     Some key \<Rightarrow> and_then (accepts (ah_loads h) (http_request.truncate r) (ac_token cfg) (Some key) (ah_now h)) (\<lambda>(ok, who). Ok ok)
   | None \<Rightarrow>
       (case partition_at (CHR '' '') (case hq_authorization r of None \<Rightarrow> [] | Some a \<Rightarrow> a) of
          (scheme, sep, given) \<Rightarrow> Ok (scheme = ''Bearer'' \<and> utf8 given = utf8 (ac_token cfg))))"

subsection \<open>The common health route\<close>

text \<open>\<open>health_open_requested\<close>; \<open>env\<close> is the value of the environment variable, empty when it is not set.\<close>

definition health_open_requested :: "bool \<Rightarrow> string \<Rightarrow> bool" where
  "health_open_requested flag env = (flag \<or> lower_str (strip env) \<in> set [''1'', ''true'', ''yes'', ''on''])"

definition bearer_ok :: "api_request \<Rightarrow> string \<Rightarrow> bool" where
  "bearer_ok r expected =
     (case partition_at (CHR '' '') (case hq_authorization r of None \<Rightarrow> [] | Some a \<Rightarrow> a) of
        (scheme, sep, given) \<Rightarrow> scheme = ''Bearer'' \<and> utf8 (strip given) = utf8 expected)"

definition health_body :: "api_config \<Rightarrow> json" where
  "health_body cfg = JObj [(''status'', JStr ''ok''), (''service'', JStr ''hydra-umc-dev-server''), (''version'', JStr (ac_version cfg))]"

text \<open>\<open>_is_loopback\<close>: the address of the client, without its zone.\<close>

definition loopback_client :: "string \<Rightarrow> bool" where
  "loopback_client address =
     (case ip_address (fst (partition_at (CHR ''%'') address)) of None \<Rightarrow> False | Some ip \<Rightarrow> is_loopback ip)"

text \<open>\<open>serve_health\<close>: \<open>None\<close> when the path is another one.\<close>

definition serve_health :: "api_config \<Rightarrow> api_host \<Rightarrow> api_request \<Rightarrow> api_state \<Rightarrow> handled option" where
  "serve_health cfg h r st =
     (if path_of r \<noteq> ''/health'' then None
      else if \<not> ac_health_open cfg then Some (answered (write_reply 404 (error_body ''not found'') st))
      else (case ac_identity_key cfg of
          Some key \<Rightarrow>
            (case accepts (ah_loads h) (http_request.truncate r) (ac_token cfg) (Some key) (ah_now h) of
               Inl e \<Rightarrow> Some (st, Inl e)
             | Inr (ok, who) \<Rightarrow> Some (answered (if ok then write_reply 200 (health_body cfg) st
                 else write_reply 401 (error_body ''a valid identity is required'') st)))
        | None \<Rightarrow>
            if \<not> loopback_client (rq_client r) \<and> (ac_token cfg = [] \<or> \<not> bearer_ok r (ac_token cfg)) then
              Some (answered (write_reply 401 (error_body ''a valid bearer token is required'') st))
            else Some (answered (write_reply 200 (health_body cfg) st))))"

subsection \<open>GET\<close>

definition plugins_body :: "plugin_registry \<Rightarrow> json" where
  "plugins_body reg = JObj [(''plugins'', JArr (list_plugins reg)),
     (''problems'', JArr (map (\<lambda>(d, ms). JObj [(''directory'', JStr d), (''reason'', JArr (map (\<lambda>m. msg_json (Some m)) ms))])
        (rg_problems reg)))]"

definition audit_body :: "audit_entry list \<Rightarrow> json" where
  "audit_body es = JObj [(''entries'', JArr (map (\<lambda>e. JObj [(''at'', JFloat (Finite (ae_at e))), (''method'', JStr (ae_method e)),
     (''path'', JStr (ae_path e)), (''status'', JInt (ae_status e)), (''client'', JStr (ae_client e))]) es))]"

definition v1_health :: "api_config \<Rightarrow> api_host \<Rightarrow> api_request \<Rightarrow> api_state \<Rightarrow> handled" where
  "v1_health cfg h r st =
     (let detail = JObj [(''status'', JStr ''ok''), (''version'', JStr (ac_version cfg)),
            (''plugins'', JInt (int (length (rg_records (as_registry st)))))];
          plain = JObj [(''status'', JStr ''ok'')]
      in if ac_identity_key cfg \<noteq> None then
           (case authorized cfg h r of
              Inl e \<Rightarrow> (st, Inl e)
            | Inr ok \<Rightarrow> if \<not> ok then answered (refuse_unauthorized r st) else answered (send_reply r 200 detail st))
         else if ac_public_detail cfg then answered (send_reply r 200 detail st)
         else (case authorized cfg h r of
              Inl e \<Rightarrow> (st, Inl e)
            | Inr ok \<Rightarrow> answered (send_reply r 200 (if ok then detail else plain) st)))"

definition get_authorized :: "api_host \<Rightarrow> api_request \<Rightarrow> api_state \<Rightarrow> handled" where
  "get_authorized h r st =
     (if path_of r = ''/v1/inventory'' then
        (case ah_inventory h of Inl e \<Rightarrow> (st, Inl e) | Inr j \<Rightarrow> answered (send_reply r 200 j st))
      else if path_of r = ''/v1/plugins'' then answered (send_reply r 200 (plugins_body (as_registry st)) st)
      else if path_of r = ''/v1/audit'' then answered (send_reply r 200 (audit_body (as_audit st)) st)
      else if is_post_route (path_of r) then answered (method_not_allowed r st)
      else answered (send_reply r 404 (error_body ''not found'') st))"

definition do_GET :: "api_config \<Rightarrow> api_host \<Rightarrow> api_request \<Rightarrow> api_state \<Rightarrow> handled" where
  "do_GET cfg h r st = (case serve_health cfg h r st of
     Some res \<Rightarrow> res
   | None \<Rightarrow>
       if path_of r = ''/v1/health'' then v1_health cfg h r st
       else (case authorized cfg h r of
           Inl e \<Rightarrow> (st, Inl e)
         | Inr ok \<Rightarrow> if \<not> ok then answered (refuse_unauthorized r st) else get_authorized h r st))"

subsection \<open>POST\<close>

text \<open>\<open>int(header or 0)\<close>.\<close>

definition content_length :: "api_request \<Rightarrow> int option" where
  "content_length r = (case rq_length r of None \<Rightarrow> Some 0 | Some s \<Rightarrow> if s = [] then Some 0 else py_int s)"

text \<open>\<open>_read_json\<close>: the object of the body, or the refusal that was sent.\<close>

definition read_body :: "api_host \<Rightarrow> api_request \<Rightarrow> api_state \<Rightarrow> (handled + json dict)" where
  "read_body h r st = (case content_length r of
     None \<Rightarrow> Inl (answered (send_reply r 400 (error_body ''Content-Length must be a number'') st))
   | Some n \<Rightarrow>
       if n < 0 then Inl (answered (send_reply r 400 (error_body ''Content-Length must not be negative'') st))
       else if n > max_body_bytes then Inl (answered (send_reply r 413 (error_body ''the body may be at most 4096 bytes'') st))
       else if n = 0 then Inr []
       else (case ah_loads h (take (nat n) (rq_body r)) of
           Inl (Raise c ms) \<Rightarrow>
             if c = PyValueError then Inl (answered (send_reply r 400 (error_body ''the body is not valid JSON'') st))
             else Inl (st, Err (Raise c ms))
         | Inr (JObj d) \<Rightarrow> Inr d
         | Inr _ \<Rightarrow> Inl (answered (send_reply r 400 (error_body ''the body must be a JSON object'') st))))"

text \<open>The text of a message: each \<open>{}\<close> is filled with the next value.\<close>

fun fill :: "string \<Rightarrow> string list \<Rightarrow> string" where
  "fill [] vs = []"
| "fill (c # d # t) (v # vs) =
     (if c = CHR ''{'' \<and> d = CHR ''}'' then v @ fill t vs else c # fill (d # t) (v # vs))"
| "fill (c # t) vs = c # fill t vs"

definition shown :: "json \<Rightarrow> string" where
  "shown v = (case v of JStr s \<Rightarrow> s | _ \<Rightarrow> dumps_default v)"

fun msg_text :: "msg \<Rightarrow> string" where
  "msg_text (Msg t vs) = fill t (map shown vs)"

definition send_run :: "api_request \<Rightarrow> run_outcome \<Rightarrow> api_state \<Rightarrow> api_state" where
  "send_run r out st = (case out of
     Run_ok v \<Rightarrow> send_reply r 200 (JObj [(''status'', JStr ''ok''), (''result'', v)]) st
   | Run_error m \<Rightarrow>
       send_reply r (if contains_sub (msg_text m) ''did not finish within'' then 504 else 502)
         (JObj [(''status'', JStr ''error''), (''error'', JStr (msg_text m))]) st)"

definition with_registry :: "plugin_registry \<Rightarrow> api_state \<Rightarrow> api_state" where
  "with_registry reg st = st\<lparr>as_registry := reg\<rparr>"

text \<open>What a \<open>PluginError\<close> or any other exception of the registry becomes.\<close>

definition registry_error :: "api_request \<Rightarrow> exn \<Rightarrow> api_state \<Rightarrow> api_state" where
  "registry_error r e st =
     (if exn_class_of e = PluginError then
        (let text = concat (map msg_text (exn_msgs e)) in
         send_reply r (if startswith text ''no plugin'' then 404 else 409) (error_body text) st)
      else send_reply r 500 (error_body ''internal error'') st)"

definition run_reply :: "api_request \<Rightarrow> run_outcome result \<Rightarrow> api_state \<Rightarrow> api_state" where
  "run_reply r out st = (case out of Inl e \<Rightarrow> registry_error r e st | Inr o1 \<Rightarrow> send_run r o1 st)"

definition enable_reply :: "api_host \<Rightarrow> api_request \<Rightarrow> string \<Rightarrow> json dict \<Rightarrow> api_state \<Rightarrow> api_state" where
  "enable_reply h r name body st =
     (if \<not> is_str (get_or_none body ''sha256'') then
        send_reply r 400 (error_body ''sha256 (the approved digest) is required'') st
      else (case enable_plugin (ah_plugins h) (ah_dirs h) name (str_of (get_or_none body ''sha256'')) (as_registry st) of
          (reg, Inl e) \<Rightarrow> registry_error r e (with_registry reg st)
        | (reg, Inr (JObj d)) \<Rightarrow>
            send_reply r (if get_or_none d ''state'' = JStr ''failed'' then 409 else 200) (JObj d) (with_registry reg st)
        | (reg, Inr v) \<Rightarrow> send_reply r 200 v (with_registry reg st)))"

definition disable_reply :: "api_request \<Rightarrow> string \<Rightarrow> api_state \<Rightarrow> api_state" where
  "disable_reply r name st = (case disable_plugin name (as_registry st) of
     (reg, Inl e) \<Rightarrow> registry_error r e (with_registry reg st)
   | (reg, Inr v) \<Rightarrow> send_reply r 200 v (with_registry reg st))"

text \<open>The routes of an authorized POST with a readable body.\<close>

definition post_route :: "api_host \<Rightarrow> api_request \<Rightarrow> json dict \<Rightarrow> api_state \<Rightarrow> api_state" where
  "post_route h r body st =
     (if path_of r = rescan_path then
        (let reg = discover (ah_manifest h) (ah_dirs h) (as_registry st)
         in send_reply r 200 (plugins_body reg) (with_registry reg st))
      else (case post_pattern (path_of r) of
          Some (Enable_route name) \<Rightarrow> enable_reply h r name body st
        | Some (Disable_route name) \<Rightarrow> disable_reply r name st
        | Some (Check_route name item) \<Rightarrow> run_reply r (run_check (ah_plugins h) (ah_free h) (as_registry st) name item) st
        | Some (Report_route name item) \<Rightarrow> run_reply r (run_report (ah_plugins h) (ah_free h) (as_registry st) name item) st
        | Some (Generator_route name item) \<Rightarrow>
            run_reply r (run_generator (ah_plugins h) (ah_free h) (as_registry st) name item (get_or_none body ''params'')) st
        | None \<Rightarrow> send_reply r 404 (error_body ''not found'') st))"

text \<open>The route of the nodes, which has its own tokens.\<close>

definition node_channel_post :: "api_config \<Rightarrow> api_host \<Rightarrow> api_request \<Rightarrow> api_state \<Rightarrow> handled" where
  "node_channel_post cfg h r st = (case ac_channel cfg of
     None \<Rightarrow> answered (send_reply r 404 (error_body ''not found'') st)
   | Some s \<Rightarrow>
       (let n = (case content_length r of None \<Rightarrow> -1 | Some n \<Rightarrow> n) in
        if n < 0 \<or> n > cs_max_body_bytes s then
          answered (send_reply r (if n > 0 then 413 else 400) (JObj [(''ok'', JBool False), (''error'', JStr ''body size'')]) st)
        else (case handle_post (ah_channel h) s (ah_now h) (ah_now_text h) (case hq_authorization r of None \<Rightarrow> [] | Some a \<Rightarrow> a)
                 (take (nat n) (rq_body r)) (as_channel st) of
            (w, Inl e) \<Rightarrow> (st\<lparr>as_channel := w\<rparr>, Inl e)
          | (w, Inr (status, body)) \<Rightarrow> answered (send_reply r status body (st\<lparr>as_channel := w\<rparr>)))))"

definition do_POST :: "api_config \<Rightarrow> api_host \<Rightarrow> api_request \<Rightarrow> api_state \<Rightarrow> handled" where
  "do_POST cfg h r st =
     (if path_of r = ''/v1/incident-transport'' then node_channel_post cfg h r st
      else (case authorized cfg h r of
          Inl e \<Rightarrow> (st, Inl e)
        | Inr ok \<Rightarrow>
            if \<not> ok then answered (refuse_unauthorized r st)
            else if path_of r \<in> set get_routes then answered (method_not_allowed r st)
            else (case read_body h r st of Inl res \<Rightarrow> res | Inr body \<Rightarrow> answered (post_route h r body st))))"

text \<open>\<open>do_PUT\<close>, \<open>do_PATCH\<close>, \<open>do_DELETE\<close>, \<open>do_HEAD\<close>, \<open>do_OPTIONS\<close>.\<close>

definition other_method :: "api_request \<Rightarrow> api_state \<Rightarrow> handled" where
  "other_method r st = answered (method_not_allowed r st)"

definition other_methods :: "string list" where
  "other_methods = [''PUT'', ''PATCH'', ''DELETE'', ''HEAD'', ''OPTIONS'']"

text \<open>The standard library calls the method of the command; a command without one is its own refusal (501) and nothing is kept.\<close>

definition handle_request :: "api_config \<Rightarrow> api_host \<Rightarrow> api_request \<Rightarrow> api_state \<Rightarrow> handled" where
  "handle_request cfg h r st =
     (if hq_command r = ''GET'' then do_GET cfg h r st
      else if hq_command r = ''POST'' then do_POST cfg h r st
      else if hq_command r \<in> set other_methods then other_method r st
      else answered (write_reply 501 JNull st))"

subsection \<open>Connections\<close>

text \<open>The semaphore of the server: a connection takes a slot or is told that the server is busy.\<close>

record connections =
  cn_free :: nat
  cn_running :: "nat list"

text \<open>\<open>DevServer.__init__\<close> up to the listening socket: the checks of the settings, the plugins found, a free slot per connection.\<close>

definition new_server :: "string \<Rightarrow> string \<Rightarrow> int \<Rightarrow> (bytes \<Rightarrow> json result) \<Rightarrow> plugin_root \<Rightarrow> channel_world \<Rightarrow>
    (api_state \<times> connections) result" where
  "new_server host token max_connections read_json dirs channel =
     and_then (validate_bind host token) (\<lambda>_.
       if max_connections < 1 then Err (Raise ApiConfigError [Msg ''max_connections must be at least 1'' []])
       else Ok (\<lparr>as_registry = discover read_json dirs empty_registry, as_channel = channel, as_audit = [], as_sent = []\<rparr>,
         \<lparr>cn_free = nat max_connections, cn_running = []\<rparr>))"

definition process_request :: "nat \<Rightarrow> connections \<Rightarrow> connections \<times> bool" where
  "process_request c s = (if cn_free s = 0 then (s, False) else (\<lparr>cn_free = cn_free s - 1, cn_running = c # cn_running s\<rparr>, True))"

definition request_ends :: "nat \<Rightarrow> connections \<Rightarrow> connections" where
  "request_ends c s = (if c \<in> set (cn_running s) then \<lparr>cn_free = cn_free s + 1, cn_running = remove1 c (cn_running s)\<rparr> else s)"

end
