(* ===== verification/Server_Identity_Proofs.thy ===== *)
theory Server_Identity_Proofs
  imports Server_Identity
begin

text \<open>
  What a token proves: no request goes on without the service's own token or a token signed with the key (and one that may
  write, for a request that writes), and a token that was signed here is read back until it expires.
\<close>

subsection \<open>What an accepted token says\<close>

lemma identity_error_Ok [simp]: "identity_error t \<noteq> Ok v"
  by (simp add: identity_error_def)

text \<open>The claims of a good token.\<close>

definition good_claims :: "json dict \<Rightarrow> rat \<Rightarrow> identity \<Rightarrow> bool" where
  "good_claims d now i \<longleftrightarrow>
     (\<exists>e. finite_number (get_or_none d ''exp'') = Ok (Some e) \<and> now < e) \<and>
     (get_or_none d ''nbf'' = JNull \<or> (\<exists>t. finite_number (get_or_none d ''nbf'') = Ok (Some t) \<and> t \<le> now)) \<and>
     (get_or_none d ''iat'' = JNull \<or> (\<exists>t. finite_number (get_or_none d ''iat'') = Ok (Some t) \<and> t \<le> now + 5)) \<and>
     get_or_none d ''username'' = JStr (id_username i) \<and> id_username i \<noteq> [] \<and>
     get_or_none d ''role'' = JStr (id_role i) \<and> id_role i \<in> set roles"

lemma check_exp_Ok: "check_exp d now = Ok u \<Longrightarrow> \<exists>e. finite_number (get_or_none d ''exp'') = Ok (Some e) \<and> now < e"
  by (auto simp: check_exp_def and_then_def split: sum.splits option.splits if_splits)

lemma check_not_after_Ok:
  "check_not_after d k limit why = Ok u \<Longrightarrow>
     get_or_none d k = JNull \<or> (\<exists>t. finite_number (get_or_none d k) = Ok (Some t) \<and> t \<le> limit)"
  by (auto simp: check_not_after_def and_then_def split: sum.splits option.splits if_splits)

lemma is_str_eq: "is_str v \<Longrightarrow> v = JStr (str_of v)"
  by (cases v) simp_all

lemma check_claims_Ok:
  assumes "check_claims d now = Ok i"
  shows "good_claims d now i"
proof -
  have "check_exp d now = Ok ()" "check_not_after d ''nbf'' now ''the token is not valid yet'' = Ok ()"
    "check_not_after d ''iat'' (now + 5) ''the token was issued in the future'' = Ok ()"
    "nonempty_str (get_or_none d ''username'')" "is_str (get_or_none d ''role'')" "str_of (get_or_none d ''role'') \<in> set roles"
    "i = \<lparr>id_username = str_of (get_or_none d ''username''), id_role = str_of (get_or_none d ''role'')\<rparr>"
    using assms by (auto simp: check_claims_def result_simps split: if_splits)
  then show ?thesis
    using check_exp_Ok check_not_after_Ok is_str_eq by (fastforce simp: good_claims_def nonempty_str_conv)
qed

text \<open>A token signed with a key: its three parts, the HMAC in the third and the claims in the second.\<close>

definition signed_token :: "(bytes \<Rightarrow> json result) \<Rightarrow> string \<Rightarrow> bytes \<Rightarrow> rat \<Rightarrow> identity \<Rightarrow> bool" where
  "signed_token loads token key now i \<longleftrightarrow>
     (\<exists>a b c head claims. token = a @ ''.'' @ b @ ''.'' @ c \<and> json_part loads a = Ok head \<and> get_or_none head ''alg'' = JStr ''HS256'' \<and>
        b64_segment c = Ok (hmac_sha256 key (ascii_replace (a @ ''.'' @ b))) \<and>
        json_part loads b = Ok claims \<and> good_claims claims now i)"

lemma split_three: "split_on c s = [x, y, z] \<Longrightarrow> s = x @ [c] @ y @ [c] @ z"
  using join_split_on [of c s] by simp

lemma verify_token_Ok:
  assumes "verify_token loads token key now = Ok i"
  shows "signed_token loads token key now i \<and> length token \<le> max_token_chars"
proof -
  obtain a b c where split: "split_on (CHR ''.'') token = [a, b, c]" and short: "length token \<le> max_token_chars"
    using assms by (auto simp: verify_token_def split: if_splits list.splits)
  then have "and_then (json_part loads a) (\<lambda>head.
            if get_or_none head ''alg'' \<noteq> JStr ''HS256'' then
              identity_error ''the token algorithm is not accepted (only HS256)''
            else and_then (b64_segment c) (\<lambda>signature.
              if hmac_sha256 key (ascii_replace (a @ ''.'' @ b)) \<noteq> signature then
                identity_error ''the token signature is not valid''
              else and_then (json_part loads b) (\<lambda>claims. check_claims claims now))) = Ok i"
    using assms by (auto simp: verify_token_def split: if_splits)
  then show ?thesis
    using split_three [OF split] short check_claims_Ok
    by (fastforce simp: signed_token_def result_simps split: if_splits)
qed

text \<open>C26: With an identity key nothing is open: a request goes on only when it presents the service's own token, or a token whose
  third part is the HMAC of the first two under the key, whose algorithm is HS256, which has not expired and names a user with a
  known role; and a request that is no GET, HEAD or OPTIONS only when that role is admin or operator.\<close>
theorem nothing_is_open_with_a_key:
  assumes "accepts loads r own (Some key) now = Ok (True, who)"
  shows "(who = None \<and> own \<noteq> [] \<and> utf8 (presented r) = utf8 own) \<or>
    (\<exists>i. who = Some i \<and> signed_token loads (presented r) key now i \<and>
      (hq_command r \<in> set read_methods \<or> id_role i \<in> set write_roles))"
  using assms verify_token_Ok
  by (fastforce simp: accepts_def Let_def split: if_splits sum.splits exn.splits)

subsection \<open>Signing and reading back\<close>

lemma utf8_byte_list: "byte_list (utf8 s)"
proof -
  have small: "(of_char c :: nat) < 256" for c :: char by (cases c) simp
  have "192 + (of_char c :: nat) div 64 < 256" "128 + (of_char c :: nat) mod 64 < 256" for c :: char
  proof -
    have "(of_char c :: nat) div 64 < 4" using small [of c] by (simp add: less_mult_imp_div_less)
    then show "192 + (of_char c :: nat) div 64 < 256" by linarith
    have "(of_char c :: nat) mod 64 < 64" by simp
    then show "128 + (of_char c :: nat) mod 64 < 256" by linarith
  qed
  then show ?thesis using small by (auto simp: byte_list_def utf8_def Let_def)
qed

lemma hmac_byte_list: "byte_list (hmac_sha256 k m)"
  using sha256_bytes by (simp add: byte_list_def hmac_sha256_def)

lemma hmac_nonempty: "hmac_sha256 k m \<noteq> []"
  using length_sha256 by (metis hmac_sha256_def list.size(3) zero_neq_numeral)

lemma ascii_replace_utf8: "is_ascii s \<Longrightarrow> ascii_replace s = utf8 s"
  by (induction s) (auto simp: ascii_replace_def utf8_def is_ascii_def Let_def)

lemma b64_segment_unpadded: "byte_list bs \<Longrightarrow> b64_segment (b64_unpadded bs) = Ok bs"
  using b64_round_trip(1) by (simp add: b64_segment_def)

lemma token_part_read: "loads (utf8 (dumps_default j)) = Ok j \<Longrightarrow> j = JObj d \<Longrightarrow> json_part loads (token_part j) = Ok d"
  by (simp add: json_part_def token_part_def b64_segment_unpadded utf8_byte_list)

lemma utf8_Nil_iff: "utf8 s = [] \<longleftrightarrow> s = []"
  by (cases s) (auto simp: utf8_def Let_def)

lemma dumps_obj_not_Nil: "dumps_default (JObj d) \<noteq> []"
  by simp

lemma token_part_shape:
  "is_ascii (token_part (JObj d))" "CHR ''.'' \<notin> set (token_part (JObj d))" "token_part (JObj d) \<noteq> []"
  unfolding token_part_def using b64_round_trip [OF utf8_byte_list] utf8_Nil_iff dumps_obj_not_Nil by blast+

lemma check_claims_body:
  assumes "user \<noteq> []" and "role \<in> set roles" and "\<bar>whole made + ttl\<bar> < 2 ^ 1023"
    and "token_body user role ttl made = JObj d"
  shows "check_claims d now = (if now < of_int (whole made + ttl) then Ok \<lparr>id_username = user, id_role = role\<rparr>
    else identity_error ''the token has expired'')"
proof -
  have d: "d = [(''username'', JStr user), (''role'', JStr role), (''exp'', JInt (whole made + ttl))]"
    using assms(4) by (simp add: token_body_def)
  have "(2::int) ^ 1023 \<le> 2 ^ 1024 - 2 ^ 970" by simp
  then have "\<not> \<bar>whole made + ttl\<bar> \<ge> 2 ^ 1024 - 2 ^ 970" using assms(3) by linarith
  then have "\<exists>f. float_of_int (whole made + ttl) = Ok f" by (simp add: float_of_int_def)
  then have exp: "finite_number (get_or_none d ''exp'') = Ok (Some (of_int (whole made + ttl)))"
    by (auto simp: d get_or_none_def finite_number_def)
  have claims: "get_or_none d ''nbf'' = JNull" "get_or_none d ''iat'' = JNull" "get_or_none d ''username'' = JStr user" "get_or_none d ''role'' = JStr role"
    by (simp_all add: d get_or_none_def)
  show ?thesis
    using assms(1,2) by (simp add: check_claims_def check_exp_def check_not_after_def exp claims not_less identity_error_def)
qed

text \<open>A token that was signed with a key is read back with that key as the identity it was signed for, until its time to live is
  over and from then on refused as expired (given that \<open>json.loads\<close> reads what \<open>json.dumps\<close> wrote of the two parts).\<close>
theorem signed_token_is_read_back:
  assumes "loads (utf8 (dumps_default token_head)) = Ok token_head"
    and "loads (utf8 (dumps_default (token_body user role ttl made))) = Ok (token_body user role ttl made)"
    and "user \<noteq> []" and "role \<in> set roles" and "\<bar>whole made + ttl\<bar> < 2 ^ 1023"
    and "length (sign_token key user role ttl made) \<le> max_token_chars"
  shows "verify_token loads (sign_token key user role ttl made) key now =
    (if now < of_int (whole made + ttl) then Ok \<lparr>id_username = user, id_role = role\<rparr>
     else identity_error ''the token has expired'')"
proof -
  obtain dh where dh: "token_head = JObj dh" by (simp add: token_head_def)
  obtain db where db: "token_body user role ttl made = JObj db" by (simp add: token_body_def)
  let ?a = "token_part token_head" and ?b = "token_part (token_body user role ttl made)"
  let ?c = "b64_unpadded (hmac_sha256 key (utf8 (?a @ ''.'' @ ?b)))"
  have shapes: "is_ascii ?a" "CHR ''.'' \<notin> set ?a" "?a \<noteq> []" "is_ascii ?b" "CHR ''.'' \<notin> set ?b" "?b \<noteq> []"
    unfolding dh db by (rule token_part_shape)+
  have c: "CHR ''.'' \<notin> set ?c" "?c \<noteq> []" using b64_round_trip [OF hmac_byte_list] hmac_nonempty by blast+
  have token: "sign_token key user role ttl made = ?a @ CHR ''.'' # ?b @ CHR ''.'' # ?c"
    by (simp add: sign_token_def Let_def)
  have split: "split_on (CHR ''.'') (?a @ CHR ''.'' # ?b @ CHR ''.'' # ?c) = [?a, ?b, ?c]"
    using shapes(2,5) c(1) by (simp add: split_on_append_sep split_on_single)
  have "is_ascii (?a @ ''.'' @ ?b)" using shapes(1,4) by (auto simp: is_ascii_def)
  then have sig: "ascii_replace (?a @ ''.'' @ ?b) = utf8 (?a @ ''.'' @ ?b)" by (rule ascii_replace_utf8)
  have head: "json_part loads ?a = Ok dh" "get_or_none dh ''alg'' = JStr ''HS256''"
    using token_part_read [where loads = loads, OF assms(1) dh] dh by (auto simp: token_head_def get_or_none_def)
  have "json_part loads ?b = Ok db" using token_part_read [where loads = loads, OF assms(2) db] .
  then show ?thesis
    using check_claims_body [OF assms(3-5) db] head sig assms(6) shapes(3,6) c(2)
    unfolding token verify_token_def split by (simp add: b64_segment_unpadded hmac_byte_list)
qed

subsection \<open>A key, a token and a request\<close>

lemma b64_encode_length: "length (b64_encode bs) \<le> 2 * length bs + 2"
  by (induction bs rule: b64_encode.induct) simp_all

lemma b64_unpadded_length: "length (b64_unpadded bs) \<le> 2 * length bs + 2"
proof -
  have "length (b64_unpadded bs) \<le> length (b64_encode bs)"
    using length_dropWhile_le [of _ "rev (b64_encode bs)"] by (simp add: b64_unpadded_def rstrip_char_def)
  then show ?thesis using b64_encode_length [of bs] by linarith
qed

definition sample_key :: bytes where
  "sample_key = replicate 32 75"

definition sample_body :: json where
  "sample_body = token_body ''op'' ''operator'' 60 1000"

definition sample_reader :: "bytes \<Rightarrow> json result" where
  "sample_reader bs = (if bs = utf8 (dumps_default token_head) then Ok token_head else Ok sample_body)"

lemma sample_lengths: "length (utf8 (dumps_default token_head)) \<le> 60" "length (utf8 (dumps_default sample_body)) \<le> 60"
  by code_simp+

lemma sample_parts_differ: "utf8 (dumps_default sample_body) \<noteq> utf8 (dumps_default token_head)"
  by code_simp

lemma signed_token_is_read_back_witness:
  "verify_token sample_reader (sign_token sample_key ''op'' ''operator'' 60 1000) sample_key 1030 =
     Ok \<lparr>id_username = ''op'', id_role = ''operator''\<rparr>"
proof -
  have head: "sample_reader (utf8 (dumps_default token_head)) = Ok token_head" by (simp add: sample_reader_def)
  have body: "sample_reader (utf8 (dumps_default (token_body ''op'' ''operator'' 60 1000))) =
      Ok (token_body ''op'' ''operator'' 60 1000)"
    using sample_parts_differ by (simp add: sample_reader_def sample_body_def)
  have "length (token_part token_head) \<le> 122" "length (token_part sample_body) \<le> 122"
    using b64_unpadded_length [of "utf8 (dumps_default token_head)"] b64_unpadded_length [of "utf8 (dumps_default sample_body)"]
    using sample_lengths by (simp_all add: token_part_def)
  have "length (b64_unpadded (hmac_sha256 sample_key m)) \<le> 66" for m
    using b64_unpadded_length [of "hmac_sha256 sample_key m"] by (simp add: hmac_sha256_def length_sha256)
  from this [of "utf8 (token_part token_head @ ''.'' @ token_part sample_body)"]
  have "length (sign_token sample_key ''op'' ''operator'' 60 1000) \<le> 122 + 1 + (122 + 1 + 66)"
    using \<open>length (token_part token_head) \<le> 122\<close> \<open>length (token_part sample_body) \<le> 122\<close>
    by (simp add: sign_token_def Let_def sample_body_def [symmetric])
  then have short: "length (sign_token sample_key ''op'' ''operator'' 60 1000) \<le> max_token_chars"
    by (simp add: max_token_chars_def)
  have "whole 1000 = 1000" by (simp add: whole_def)
  then show ?thesis
    using signed_token_is_read_back [OF head body _ _ _ short, of 1030] by (simp add: roles_def)
qed

lemma nothing_is_open_with_a_key_witness:
  "utf8 (presented \<lparr>hq_command = ''POST'', hq_authorization = Some ''Bearer api-token''\<rparr>) = utf8 ''api-token'' \<or>
   (\<exists>i. signed_token sample_reader (presented \<lparr>hq_command = ''POST'', hq_authorization = Some ''Bearer api-token''\<rparr>) sample_key 1000 i)"
proof -
  let ?r = "\<lparr>hq_command = ''POST'', hq_authorization = Some ''Bearer api-token''\<rparr>"
  have "presented ?r = ''api-token''" by code_simp
  then have "accepts sample_reader ?r ''api-token'' (Some sample_key) 1000 = Ok (True, None)" by (simp add: accepts_def)
  then show ?thesis using nothing_is_open_with_a_key by blast
qed

end
