(* ===== verification/Node_Channel_Proofs.thy ===== *)
theory Node_Channel_Proofs
  imports Node_Channel Incident_Guarantees
begin

text \<open>
  The channel: a revoked node stays out until a token is issued for it again, issuing replaces the older token, and the inbox
  only ever receives messages that were verified as coming from the node of the token.
\<close>

subsection \<open>A header\<close>

lemma partition_at_eq: "partition_at c s = (a, b, t) \<Longrightarrow> s = a @ b @ t \<and> (b = [] \<longrightarrow> t = []) \<and> (b \<noteq> [] \<longrightarrow> b = [c])"
proof -
  assume eq: "partition_at c s = (a, b, t)"
  have s: "s = takeWhile (\<lambda>x. x \<noteq> c) s @ dropWhile (\<lambda>x. x \<noteq> c) s" by simp
  show ?thesis
  proof (cases "dropWhile (\<lambda>x. x \<noteq> c) s")
    case Nil
    have "partition_at c s = (s, [], [])" unfolding partition_at_def Let_def Nil by simp
    then show ?thesis using eq by simp
  next
    case (Cons x u)
    have "\<not> hd (dropWhile (\<lambda>x. x \<noteq> c) s) \<noteq> c" by (rule hd_dropWhile) (simp add: Cons)
    then have x: "x = c" unfolding Cons by simp
    have "partition_at c s = (takeWhile (\<lambda>x. x \<noteq> c) s, [c], u)" unfolding partition_at_def Let_def Cons using x by simp
    then show ?thesis using eq s Cons x by (metis Pair_inject append_Cons append_Nil list.distinct(1))
  qed
qed

subsection \<open>The tokens file\<close>

lemma channel_error_simps [simp]: "channel_error m \<noteq> Ok v" "channel_error m = Err (Raise NodeChannelError [m])"
  by (simp_all add: channel_error_def)

lemma find_live_Some:
  "find_live repr digest es found = Ok (Some n) \<Longrightarrow>
     found = Some n \<or> (\<exists>d. (n, JObj d) \<in> set es \<and> get_or_none d ''revoked_at'' = JNull \<and> entry_hash repr d = digest)"
proof (induction es arbitrary: found)
  case (Cons e es)
  obtain m v where e: "e = (m, v)" by (cases e)
  then obtain d where v: "v = JObj d" using Cons.prems by (cases v) simp_all
  let ?found = "if entry_hash repr d = digest \<and> get_or_none d ''revoked_at'' = JNull then Some m else found"
  have "find_live repr digest es ?found = Ok (Some n)"
    using Cons.prems by (auto simp: e v compare_digest_def split: if_splits)
  from Cons.IH [OF this] show ?case by (auto simp: e v split: if_splits)
qed simp

lemma find_live_last:
  assumes "\<And>n v. (n, v) \<in> set es \<Longrightarrow> \<exists>d. v = JObj d \<and> is_ascii (entry_hash repr d)" and "is_ascii digest"
    and "\<And>n d. (n, JObj d) \<in> set es \<Longrightarrow> get_or_none d ''revoked_at'' = JNull \<Longrightarrow> entry_hash repr d = digest \<Longrightarrow> n = node"
    and "found = Some node \<or> (\<exists>d. (node, JObj d) \<in> set es \<and> get_or_none d ''revoked_at'' = JNull \<and> entry_hash repr d = digest)"
    and "found = None \<or> found = Some node"
  shows "find_live repr digest es found = Ok (Some node)"
  using assms
proof (induction es arbitrary: found)
  case (Cons e es)
  obtain n d where e: "e = (n, JObj d)" and ascii: "is_ascii (entry_hash repr d)" using Cons.prems(1) by (cases e) auto
  have same: "entry_hash repr d = digest \<and> get_or_none d ''revoked_at'' = JNull \<Longrightarrow> n = node" using Cons.prems(3) [of n d] e by auto
  let ?found = "if entry_hash repr d = digest \<and> get_or_none d ''revoked_at'' = JNull then Some node else found"
  have "find_live repr digest (e # es) found = find_live repr digest es ?found"
    using ascii Cons.prems(2) same by (auto simp: e compare_digest_def)
  moreover have "find_live repr digest es ?found = Ok (Some node)"
  proof (rule Cons.IH)
    show "?found = Some node \<or> (\<exists>d. (node, JObj d) \<in> set es \<and> get_or_none d ''revoked_at'' = JNull \<and> entry_hash repr d = digest)"
      using Cons.prems(4) by (auto simp: e)
    show "?found = None \<or> ?found = Some node" using Cons.prems(5) by simp
  qed (use Cons.prems(1-3) in \<open>simp_all, blast+\<close>)
  ultimately show ?case by simp
qed simp

text \<open>The dictionaries of the tokens file have unique keys, as the JSON reader makes them.\<close>

definition tokens_ok :: "channel_world \<Rightarrow> bool" where
  "tokens_ok w \<longleftrightarrow> (\<forall>nodes. load_tokens w = Ok nodes \<longrightarrow> dict_ok nodes \<and> (\<forall>n d. (n, JObj d) \<in> set nodes \<longrightarrow> dict_ok d))"

definition live_entry :: "json dict \<Rightarrow> string \<Rightarrow> bool" where
  "live_entry nodes node \<longleftrightarrow> (\<exists>d. map_of nodes node = Some (JObj d) \<and> get_or_none d ''revoked_at'' = JNull)"

definition locked_out :: "channel_world \<Rightarrow> string \<Rightarrow> bool" where
  "locked_out w node \<longleftrightarrow> (\<forall>nodes. load_tokens w = Ok nodes \<longrightarrow> \<not> live_entry nodes node)"

lemma dict_ok_map_values: "dict_ok (map (\<lambda>(n, v). (n, f v)) d) = dict_ok d"
  by (simp add: dict_ok_def o_def case_prod_unfold)

lemma map_of_map_values: "map_of (map (\<lambda>(n, v). (n, f v)) d) k = map_option f (map_of d k)"
  by (induction d) auto

lemma load_saved:
  "load_tokens (w\<lparr>cw_tokens := Some (Ok (saved_tokens nodes))\<rparr>) = Ok (sorted_items (map (\<lambda>(n, v). (n, sorted_entry v)) nodes))"
  by (simp add: load_tokens_def saved_tokens_def get_or_none_def)

lemma get_sorted: "dict_ok d \<Longrightarrow> get_or_none (sorted_items d) k = get_or_none d k"
  by (simp add: get_or_none_def map_of_sorted_items)

lemma saved_entry:
  assumes "dict_ok nodes"
  shows "map_of (sorted_items (map (\<lambda>(n, v). (n, sorted_entry v)) nodes)) node = map_option sorted_entry (map_of nodes node)"
  using assms by (simp add: map_of_sorted_items dict_ok_map_values map_of_map_values)

lemma saved_ok:
  assumes "dict_ok nodes" and "\<And>n d. (n, JObj d) \<in> set nodes \<Longrightarrow> dict_ok d"
  shows "tokens_ok (w\<lparr>cw_tokens := Some (Ok (saved_tokens nodes))\<rparr>)"
  using assms
  by (auto simp: tokens_ok_def load_saved dict_ok_sorted_items dict_ok_map_values sorted_entry_def split: json.splits)

lemma saved_live:
  assumes "dict_ok nodes" and "\<And>n d. (n, JObj d) \<in> set nodes \<Longrightarrow> dict_ok d"
  shows "live_entry (sorted_items (map (\<lambda>(n, v). (n, sorted_entry v)) nodes)) node = live_entry nodes node"
proof -
  have "map_of nodes node = Some (JObj d) \<Longrightarrow> dict_ok d" for d using assms(2) by (meson map_of_SomeD)
  then show ?thesis
    unfolding live_entry_def saved_entry [OF assms(1)]
    by (cases "map_of nodes node"; cases "the (map_of nodes node)") (simp_all add: sorted_entry_def get_sorted)
qed

lemma authenticate_live:
  assumes "tokens_ok w" and "authenticate h w presented = Ok (Some node)"
  shows "\<exists>nodes d. load_tokens w = Ok nodes \<and> map_of nodes node = Some (JObj d) \<and> get_or_none d ''revoked_at'' = JNull \<and>
    entry_hash (nh_repr h) d = token_hash presented"
proof -
  obtain nodes where nodes: "load_tokens w = Ok nodes" "find_live (nh_repr h) (token_hash presented) nodes None = Ok (Some node)"
    using assms(2) by (auto simp: authenticate_def result_simps split: if_splits)
  then obtain d where "(node, JObj d) \<in> set nodes" "get_or_none d ''revoked_at'' = JNull" "entry_hash (nh_repr h) d = token_hash presented"
    using find_live_Some by blast
  then show ?thesis using nodes(1) assms(1) by (auto simp: tokens_ok_def map_of_mem_iff)
qed

subsection \<open>Sequences of calls\<close>

datatype channel_call =
    Issue channel_host string string string string
  | Revoke channel_host string string
  | Post channel_host channel_settings rat string string bytes

fun channel_step :: "channel_call \<Rightarrow> channel_world \<Rightarrow> channel_world" where
  "channel_step (Issue h random now node out) w = fst (issue_token h random now node out w)"
| "channel_step (Revoke h now node) w = fst (revoke_token h now node w)"
| "channel_step (Post h s now now_text authorization raw) w = fst (handle_post h s now now_text authorization raw w)"

fun issues_for :: "string \<Rightarrow> channel_call \<Rightarrow> bool" where
  "issues_for n (Issue h random now node out) = (node = n)"
| "issues_for n _ = False"

lemma handle_post_tokens:
  "cw_tokens (fst (handle_post h s now now_text authorization raw w)) = cw_tokens w"
  by (simp add: handle_post_def verify_post_def store_message_def split: prod.splits sum.splits exn.splits option.splits)

lemma load_tokens_cong: "cw_tokens w' = cw_tokens w \<Longrightarrow> load_tokens w' = load_tokens w"
  by (simp add: load_tokens_def)

lemma issue_cases:
  obtains (same) "cw_tokens (fst (issue_token h random now node out w)) = cw_tokens w"
  | (issued) nodes w1 where "load_tokens w = Ok nodes" "fst (issue_token h random now node out w) =
      w1\<lparr>cw_tokens := Some (Ok (saved_tokens (dict_set node (new_entry (token_prefix @ random) now) nodes)))\<rparr>"
proof -
  have "cw_tokens (fst (issue_token h random now node out w)) = cw_tokens w \<or>
    (\<exists>nodes w1. load_tokens w = Ok nodes \<and> fst (issue_token h random now node out w) =
      w1\<lparr>cw_tokens := Some (Ok (saved_tokens (dict_set node (new_entry (token_prefix @ random) now) nodes)))\<rparr>)"
    by (auto simp: issue_token_def save_tokens_def Let_def split: sum.splits)
  then show thesis using same issued by blast
qed

lemma revoke_cases:
  obtains (same) "cw_tokens (fst (revoke_token h now node w)) = cw_tokens w" "\<not> is_ok (snd (revoke_token h now node w))"
  | (revoked) nodes d where "load_tokens w = Ok nodes" "map_of nodes node = Some (JObj d)" "fst (revoke_token h now node w) =
      w\<lparr>cw_tokens := Some (Ok (saved_tokens (dict_set node (JObj (dict_set ''revoked_at'' (JStr now) d)) nodes)))\<rparr>"
proof -
  have "(cw_tokens (fst (revoke_token h now node w)) = cw_tokens w \<and> \<not> is_ok (snd (revoke_token h now node w))) \<or>
    (\<exists>nodes d. load_tokens w = Ok nodes \<and> map_of nodes node = Some (JObj d) \<and> fst (revoke_token h now node w) =
      w\<lparr>cw_tokens := Some (Ok (saved_tokens (dict_set node (JObj (dict_set ''revoked_at'' (JStr now) d)) nodes)))\<rparr>)"
    by (auto simp: revoke_token_def save_tokens_def split: sum.splits option.splits json.splits)
  then show thesis using same revoked by blast
qed

lemma dict_set_entries:
  "(n, JObj e) \<in> set (dict_set k v nodes) \<Longrightarrow> (n, JObj e) \<in> set nodes \<or> v = JObj e"
  by (induction k v nodes rule: dict_set.induct) (auto split: if_splits)

lemma new_entry_ok: "new_entry token now = JObj d \<Longrightarrow> dict_ok d"
  by (auto simp: new_entry_def dict_ok_def)

lemma updated_ok:
  assumes "tokens_ok w" and "load_tokens w = Ok nodes" and "\<And>d. v = JObj d \<Longrightarrow> dict_ok d"
  shows "dict_ok (dict_set k v nodes)" and "\<And>n d. (n, JObj d) \<in> set (dict_set k v nodes) \<Longrightarrow> dict_ok d"
  using assms dict_set_entries by (auto simp: tokens_ok_def dict_ok_set) blast+

lemma saved_update:
  assumes "tokens_ok w" and "load_tokens w = Ok nodes" and "\<And>d. v = JObj d \<Longrightarrow> dict_ok d"
  shows "tokens_ok (w1\<lparr>cw_tokens := Some (Ok (saved_tokens (dict_set k v nodes)))\<rparr>)"
    and "\<not> live_entry (dict_set k v nodes) n \<Longrightarrow> locked_out (w1\<lparr>cw_tokens := Some (Ok (saved_tokens (dict_set k v nodes)))\<rparr>) n"
proof -
  have keys: "dict_ok (dict_set k v nodes)" using updated_ok(1) [OF assms(1,2)] assms(3) by blast
  have entries: "dict_ok d" if "(n, JObj d) \<in> set (dict_set k v nodes)" for n d
    using updated_ok(2) [OF assms(1,2)] assms(3) that by blast
  show "tokens_ok (w1\<lparr>cw_tokens := Some (Ok (saved_tokens (dict_set k v nodes)))\<rparr>)" by (rule saved_ok [OF keys]) (rule entries)
  assume "\<not> live_entry (dict_set k v nodes) n"
  then have "\<not> live_entry (sorted_items (map (\<lambda>(n, v). (n, sorted_entry v)) (dict_set k v nodes))) n"
    using saved_live [OF keys] entries by blast
  then show "locked_out (w1\<lparr>cw_tokens := Some (Ok (saved_tokens (dict_set k v nodes)))\<rparr>) n"
    unfolding locked_out_def load_saved by simp
qed

lemma revoked_ok:
  assumes "tokens_ok w" and "load_tokens w = Ok nodes" and "map_of nodes node = Some (JObj d)"
  shows "JObj (dict_set ''revoked_at'' (JStr now) d) = JObj e \<Longrightarrow> dict_ok e"
  using assms by (auto simp: tokens_ok_def dict_ok_set dest: map_of_SomeD)

lemma channel_step_tokens_ok:
  assumes "tokens_ok w"
  shows "tokens_ok (channel_step c w)"
proof (cases c)
  case (Issue h random now node out)
  show ?thesis
  proof (cases rule: issue_cases [of h random now node out w])
    case same
    then show ?thesis using assms load_tokens_cong [OF same] by (simp add: Issue tokens_ok_def)
  next
    case (issued nodes w1)
    show ?thesis
      unfolding Issue channel_step.simps issued(2) using assms issued(1) new_entry_ok by (rule saved_update(1))
  qed
next
  case (Revoke h now node)
  show ?thesis
  proof (cases rule: revoke_cases [of h now node w])
    case same
    then show ?thesis using assms load_tokens_cong [OF same(1)] by (simp add: Revoke tokens_ok_def)
  next
    case (revoked nodes d)
    show ?thesis
      unfolding Revoke channel_step.simps revoked(3) using assms revoked(1) revoked_ok [OF assms revoked(1,2)]
      by (rule saved_update(1))
  qed
next
  case (Post h s now now_text authorization raw)
  show ?thesis using assms load_tokens_cong [OF handle_post_tokens] by (simp add: Post tokens_ok_def)
qed

lemma channel_step_locked:
  assumes "tokens_ok w" and "locked_out w n" and "\<not> issues_for n c"
  shows "locked_out (channel_step c w) n"
proof (cases c)
  case (Issue h random now node out)
  then have "node \<noteq> n" using assms(3) by simp
  show ?thesis
  proof (cases rule: issue_cases [of h random now node out w])
    case same
    then show ?thesis using assms(2) load_tokens_cong [OF same] by (simp add: Issue locked_out_def)
  next
    case (issued nodes w1)
    have dead: "\<not> live_entry (dict_set node (new_entry (token_prefix @ random) now) nodes) n"
      using assms(2) issued(1) \<open>node \<noteq> n\<close> by (auto simp: locked_out_def live_entry_def)
    show ?thesis
      unfolding Issue channel_step.simps issued(2) by (rule saved_update(2) [OF assms(1) issued(1) _ dead]) (rule new_entry_ok)
  qed
next
  case (Revoke h now node)
  show ?thesis
  proof (cases rule: revoke_cases [of h now node w])
    case same
    then show ?thesis using assms(2) load_tokens_cong [OF same(1)] by (simp add: Revoke locked_out_def)
  next
    case (revoked nodes d)
    have dead: "\<not> live_entry (dict_set node (JObj (dict_set ''revoked_at'' (JStr now) d)) nodes) n"
      using assms(2) revoked(1) by (auto simp: locked_out_def live_entry_def get_or_none_def)
    show ?thesis
      unfolding Revoke channel_step.simps revoked(3)
      by (rule saved_update(2) [OF assms(1) revoked(1) _ dead]) (rule revoked_ok [OF assms(1) revoked(1,2)])
  qed
next
  case (Post h s now now_text authorization raw)
  show ?thesis using assms(2) load_tokens_cong [OF handle_post_tokens] by (simp add: Post locked_out_def)
qed

lemma channel_run_locked:
  assumes "tokens_ok w" and "locked_out w n" and "\<forall>c \<in> set cs. \<not> issues_for n c"
  shows "tokens_ok (fold channel_step cs w) \<and> locked_out (fold channel_step cs w) n"
  using assms by (induction cs arbitrary: w) (auto simp: channel_step_tokens_ok channel_step_locked)

text \<open>C27: Revoking works at once and for good: after a token was revoked, no text presented to the channel is the node's, whatever
  tokens are issued for other nodes, revoked or used in posts, until a token is issued for that node again.\<close>
theorem revoked_node_stays_out:
  assumes "tokens_ok w" and "revoke_token h now node w = (w1, Ok ())" and "\<forall>c \<in> set cs. \<not> issues_for node c"
  shows "authenticate h' (fold channel_step cs w1) presented \<noteq> Ok (Some node)"
proof -
  have "tokens_ok w1" using channel_step_tokens_ok [OF assms(1), of "Revoke h now node"] assms(2) by simp
  moreover have "locked_out w1 node"
  proof (cases rule: revoke_cases [of h now node w])
    case same
    then show ?thesis by (simp add: assms(2))
  next
    case (revoked nodes d)
    have "w1 = fst (revoke_token h now node w)" by (simp add: assms(2))
    moreover have dead: "\<not> live_entry (dict_set node (JObj (dict_set ''revoked_at'' (JStr now) d)) nodes) node"
      by (simp add: live_entry_def get_or_none_def)
    ultimately show ?thesis
      unfolding revoked(3) using saved_update(2) [OF assms(1) revoked(1) _ dead] revoked_ok [OF assms(1) revoked(1,2)] by simp
  qed
  ultimately have "tokens_ok (fold channel_step cs w1)" "locked_out (fold channel_step cs w1) node"
    using channel_run_locked assms(3) by blast+
  then show ?thesis using authenticate_live by (fastforce simp: locked_out_def live_entry_def)
qed

end
