(* ===== verification/Node_Channel_Guarantees.thy ===== *)
theory Node_Channel_Guarantees
  imports Node_Channel_Proofs
begin

text \<open>
  The rotation of a node's token, what reaches the inbox, and two ways a message that was verified is lost.
\<close>

subsection \<open>Rotation\<close>

lemma entry_hash_sorted: "dict_ok d \<Longrightarrow> entry_hash repr (sorted_items d) = entry_hash repr d"
  by (simp add: entry_hash_def map_of_sorted_items)

lemma issued_Ok:
  assumes "issue_token h random now node out w = (w1, Ok ())"
  obtains nodes where "load_tokens w = Ok nodes"
    and "w1 = w\<lparr>cw_outputs := dict_set out (token_prefix @ random @ [CHR 0x0A]) (cw_outputs w),
      cw_tokens := Some (Ok (saved_tokens (dict_set node (new_entry (token_prefix @ random) now) nodes)))\<rparr>"
  using assms by (auto simp: issue_token_def save_tokens_def Let_def split: if_splits sum.splits)

text \<open>Issuing a token for a node replaces the older one: when it succeeds, the only texts that the channel takes for that node
  are those with the hash of the new token, which is in the new output file; when it fails, the tokens file is as it was.\<close>
theorem issuing_replaces_the_token:
  assumes "tokens_ok w" and "issue_token h random now node out w = (w1, res)"
  shows "(res = Ok () \<longrightarrow> map_of (cw_outputs w1) out = Some (token_prefix @ random @ [CHR 0x0A]) \<and>
      (\<forall>h' presented. authenticate h' w1 presented = Ok (Some node) \<longrightarrow>
         token_hash presented = token_hash (token_prefix @ random))) \<and>
    (\<not> is_ok res \<longrightarrow> cw_tokens w1 = cw_tokens w)"
proof (intro conjI impI allI)
  assume "\<not> is_ok res"
  then show "cw_tokens w1 = cw_tokens w"
    using assms(2) by (auto simp: issue_token_def save_tokens_def Let_def is_ok_def split: if_splits sum.splits)
next
  assume "res = Ok ()"
  then show "map_of (cw_outputs w1) out = Some (token_prefix @ random @ [CHR 0x0A])"
    using assms(2) by (auto elim: issued_Ok)
next
  fix h' presented
  assume "res = Ok ()" and auth: "authenticate h' w1 presented = Ok (Some node)"
  then obtain nodes where nodes: "load_tokens w = Ok nodes" and w1: "w1 = w\<lparr>cw_outputs := dict_set out (token_prefix @ random @ [CHR 0x0A]) (cw_outputs w),
      cw_tokens := Some (Ok (saved_tokens (dict_set node (new_entry (token_prefix @ random) now) nodes)))\<rparr>"
    using assms(2) issued_Ok by blast
  have ok: "tokens_ok w1" using channel_step_tokens_ok [OF assms(1), of "Issue h random now node out"] assms(2) by simp
  obtain ns d where d: "load_tokens w1 = Ok ns" "map_of ns node = Some (JObj d)" "entry_hash (nh_repr h') d = token_hash presented"
    using authenticate_live [OF ok auth] by blast
  have keys: "dict_ok (dict_set node (new_entry (token_prefix @ random) now) nodes)"
    using assms(1) nodes by (auto simp: tokens_ok_def dict_ok_set)
  have "map_of ns node = Some (sorted_entry (new_entry (token_prefix @ random) now))"
    using d(1) saved_entry [OF keys, of node] unfolding w1 load_saved by simp
  then have "JObj d = sorted_entry (new_entry (token_prefix @ random) now)" using d(2) by simp
  then show "token_hash presented = token_hash (token_prefix @ random)"
    using d(3) entry_hash_sorted [of "[(''token_sha256'', JStr (token_hash (token_prefix @ random))), (''issued_at'', JStr now), (''revoked_at'', JNull)]"]
    by (simp add: sorted_entry_def new_entry_def dict_ok_def) (simp add: entry_hash_def)
qed

subsection \<open>The inbox\<close>

lemma verified_message:
  assumes "verify_message sql_ops m reg policy st node now to = (st', Ok r)" and "vr_ok r"
  shows "authentic m reg node to \<and> fresh m policy now \<and> im_nonce m \<notin> fst ` set (ss_nonces st)"
proof (cases rule: verify_message_cases [of m reg node to policy now sql_ops st])
  case checked
  then have "vr_ok (snd (check_and_accept sql_ops m policy st node now))" using assms by simp
  then show ?thesis
    using checked(1,2)
    by (force simp: check_and_accept_def refused_def sql_ops_def sql_nonce_seen_def list_ex_iff Let_def split: if_splits prod.splits)
next
  case (turned_away r')
  then show ?thesis using assms by (auto simp: says_ok_def)
qed

definition kept :: "channel_world \<Rightarrow> channel_world \<Rightarrow> bool" where
  "kept w w' \<longleftrightarrow> cw_tokens w' = cw_tokens w \<and> cw_registry w' = cw_registry w \<and> cw_outputs w' = cw_outputs w"

lemma store_message_inbox:
  "kept w (fst (store_message h stamp node m w)) \<and>
   (cw_inbox (fst (store_message h stamp node m w)) = cw_inbox w \<or>
    (map_of (cw_inbox w) (inbox_name m) = None \<and>
     cw_inbox (fst (store_message h stamp node m w)) = cw_inbox w @ [(inbox_name m, inbox_document node stamp m)] \<and>
     snd (store_message h stamp node m w) = Ok (taken_post False m)))"
  by (auto simp: store_message_def kept_def dict_set_absent split: sum.splits exn.splits)

definition verified_post :: "channel_settings \<Rightarrow> rat \<Rightarrow> string \<Rightarrow> incident_message \<Rightarrow> channel_world \<Rightarrow> bool" where
  "verified_post s now node m w \<longleftrightarrow> (\<exists>reg. registry_of w = Ok reg \<and> authentic m reg node (Some (cs_to_node s)) \<and>
     fresh m (cs_policy s) now \<and> im_nonce m \<notin> fst ` set (ss_nonces (cw_state w)))"

definition stored_post :: "string \<Rightarrow> string \<Rightarrow> incident_message \<Rightarrow> channel_world \<Rightarrow> channel_world \<times> answer result \<Rightarrow> bool" where
  "stored_post stamp node m w res \<longleftrightarrow> map_of (cw_inbox w) (inbox_name m) = None \<and>
     cw_inbox (fst res) = cw_inbox w @ [(inbox_name m, inbox_document node stamp m)] \<and> snd res = Ok (taken_post False m)"

lemma verify_post_inbox:
  "kept w (fst (verify_post h s now stamp node m w)) \<and>
   (cw_inbox (fst (verify_post h s now stamp node m w)) = cw_inbox w \<or>
    (verified_post s now node m w \<and> stored_post stamp node m w (verify_post h s now stamp node m w)))"
proof (cases "registry_of w")
  case (Inl e)
  then show ?thesis by (cases e) (simp add: verify_post_def kept_def)
next
  case (Inr reg)
  obtain st r where v: "verify_message sql_ops m reg (cs_policy s) (cw_state w) node now (Some (cs_to_node s)) = (st, r)"
    by fastforce
  show ?thesis
  proof (cases r)
    case err: (Inl e)
    then show ?thesis using Inr v by (cases e) (simp add: verify_post_def kept_def)
  next
    case ok: (Inr q)
    show ?thesis
    proof (cases "vr_ok q")
      case False
      then show ?thesis using Inr v ok by (simp add: verify_post_def kept_def)
    next
      case True
      then have "verified_post s now node m w" using verified_message v ok Inr by (auto simp: verified_post_def)
      then show ?thesis
        using store_message_inbox [of "w\<lparr>cw_state := st\<rparr>" h stamp node m] Inr v ok True
        by (auto simp: verify_post_def kept_def stored_post_def)
    qed
  qed
qed

text \<open>C28: The inbox holds only what was verified: handling a post never touches the tokens, the token files or the registry, and
  either leaves the inbox alone or adds exactly one new file, whose message was sent with the live token of a node, names that node
  as its sender and this server as its recipient, carries the HMAC of its content under the node's secret, is fresh and has a new
  nonce; the answer then says that it was kept.\<close>
theorem inbox_holds_only_verified_messages:
  "kept w (fst (handle_post h s now stamp auth raw w)) \<and>
   (cw_inbox (fst (handle_post h s now stamp auth raw w)) = cw_inbox w \<or>
    (\<exists>node given m. auth = ''Bearer '' @ given \<and> authenticate h w given = Ok (Some node) \<and>
       and_then (nh_loads h raw) message_from_dict = Ok m \<and> verified_post s now node m w \<and>
       stored_post stamp node m w (handle_post h s now stamp auth raw w)))"
proof (cases "fst (handle_post h s now stamp auth raw w) = w")
  case True
  then show ?thesis by (simp add: kept_def)
next
  case False
  obtain a b t where p: "partition_at (CHR '' '') auth = (a, b, t)" using prod_cases3 by blast
  then obtain node m where n: "a = ''Bearer''" "authenticate h w t = Ok (Some node)" "read_post h raw = Ok (Inr m)"
      and res: "handle_post h s now stamp auth raw w = verify_post h s now stamp node m w"
    using False by (auto simp: handle_post_def split: sum.splits option.splits exn.splits if_splits)
  then have "t \<noteq> []" by (auto simp: authenticate_def min_token_length_def)
  then have "auth = ''Bearer '' @ t" using partition_at_eq [OF p] n(1) by auto
  moreover have "and_then (nh_loads h raw) message_from_dict = Ok m"
    using n(3) by (auto simp: read_post_def split: sum.splits exn.splits if_splits)
  ultimately show ?thesis using verify_post_inbox [of w h s now stamp node m] n(2) unfolding res by blast
qed

subsection \<open>Where a verified message is lost\<close>

text \<open>A colon of an id becomes an underscore in the file name, so two ids share one file: the second message is acknowledged as a
  duplicate and not kept.\<close>

lemma ids_share_a_file:
  "inbox_name (m\<lparr>im_message_id := ''esc:1''\<rparr>) = inbox_name (m\<lparr>im_message_id := ''esc_1''\<rparr>)"
  "nh_mkdir h = Ok () \<Longrightarrow> map_of (cw_inbox w) (inbox_name m) \<noteq> None \<Longrightarrow> store_message h stamp node m w = (w, Ok (taken_post True m))"
  by (simp_all add: inbox_name_def replace_char_def store_message_def)

text \<open>The nonce is spent before the inbox is written: when the inbox cannot be made the exception ends the request and the same
  message is refused as a replay afterwards.\<close>

lemma unwritable_inbox_spends_the_nonce:
  assumes "registry_of w = Ok reg" and "nh_mkdir h = Err e"
    and "verify_message sql_ops m reg (cs_policy s) (cw_state w) node now (Some (cs_to_node s)) = (st, Ok accepted)"
  shows "verify_post h s now stamp node m w = (w\<lparr>cw_state := st\<rparr>, Err e)"
  using assms by (simp add: verify_post_def store_message_def accepted_def)

subsection \<open>A node, its token and its revocation\<close>

definition willing_host :: channel_host where
  "willing_host = \<lparr>nh_create = \<lambda>_. Ok (), nh_replace = Ok (), nh_mkdir = Ok (), nh_open = \<lambda>_. Ok (), nh_loads = \<lambda>_. Ok JNull,
     nh_repr = \<lambda>_. []\<rparr>"

definition empty_channel :: channel_world where
  "empty_channel = \<lparr>cw_tokens = None, cw_outputs = [], cw_registry = Ok [], cw_state = empty_sql, cw_inbox = []\<rparr>"

lemma empty_channel_ok: "tokens_ok empty_channel"
  by (simp add: tokens_ok_def empty_channel_def load_tokens_def dict_ok_def)

lemma sample_issue:
  "issue_token willing_host ''r'' ''now'' ''node-a'' ''out'' empty_channel =
     (empty_channel\<lparr>cw_outputs := [(''out'', token_prefix @ ''r'' @ [CHR 0x0A])],
        cw_tokens := Some (Ok (saved_tokens [(''node-a'', new_entry (token_prefix @ ''r'') ''now'')]))\<rparr>, Ok ())"
proof -
  have "match_dollar node_label_rx ''node-a''" by code_simp
  then show ?thesis
    by (simp add: issue_token_def empty_channel_def load_tokens_def willing_host_def save_tokens_def Let_def)
qed

lemma issuing_replaces_the_token_witness:
  "map_of (cw_outputs (fst (issue_token willing_host ''r'' ''now'' ''node-a'' ''out'' empty_channel))) ''out'' =
     Some (token_prefix @ ''r'' @ [CHR 0x0A])"
  using issuing_replaces_the_token [OF empty_channel_ok sample_issue] by (simp add: sample_issue)

definition issued_channel :: channel_world where
  "issued_channel = fst (issue_token willing_host ''r'' ''now'' ''node-a'' ''out'' empty_channel)"

lemma issued_channel_ok: "tokens_ok issued_channel"
  using channel_step_tokens_ok [OF empty_channel_ok, of "Issue willing_host ''r'' ''now'' ''node-a'' ''out''"]
  by (simp add: issued_channel_def)

lemma sample_revoke: "\<exists>w1. revoke_token willing_host ''later'' ''node-a'' issued_channel = (w1, Ok ())"
proof -
  have "load_tokens issued_channel =
      Ok (sorted_items (map (\<lambda>(n, v). (n, sorted_entry v)) [(''node-a'', new_entry (token_prefix @ ''r'') ''now'')]))"
    unfolding issued_channel_def sample_issue fst_conv by (rule load_saved)
  then have "load_tokens issued_channel = Ok [(''node-a'', sorted_entry (new_entry (token_prefix @ ''r'') ''now''))]"
    by (simp add: sorted_items_def)
  then show ?thesis
    by (simp add: revoke_token_def sorted_entry_def new_entry_def save_tokens_def willing_host_def)
qed

lemma revoked_node_stays_out_witness:
  "\<exists>w1. revoke_token willing_host ''later'' ''node-a'' issued_channel = (w1, Ok ()) \<and>
     authenticate willing_host w1 (token_prefix @ ''r'') \<noteq> Ok (Some ''node-a'')"
proof -
  obtain w1 where r: "revoke_token willing_host ''later'' ''node-a'' issued_channel = (w1, Ok ())" using sample_revoke by blast
  show ?thesis using revoked_node_stays_out [OF issued_channel_ok r, of "[]"] r by auto
qed

end
