(* ===== verification/Api_Proofs.thy ===== *)
theory Api_Proofs
  imports Api Server_Identity_Proofs Node_Channel_Guarantees
begin

text \<open>
  The API: nothing changes without authorization, every request is answered once, the trail is bounded and holds no query, and no
  more connections run than there are slots.
\<close>

subsection \<open>Sending\<close>

lemma send_reply_simps [simp]:
  "as_registry (send_reply r n j st) = as_registry st" "as_channel (send_reply r n j st) = as_channel st"
  "as_sent (send_reply r n j st) = as_sent st @ [(n, j)]"
  by (simp_all add: send_reply_def Let_def)

lemma write_reply_simps [simp]:
  "as_registry (write_reply n j st) = as_registry st" "as_channel (write_reply n j st) = as_channel st"
  "as_sent (write_reply n j st) = as_sent st @ [(n, j)]" "as_audit (write_reply n j st) = as_audit st"
  by (simp_all add: write_reply_def)

lemma with_registry_simps [simp]:
  "as_registry (with_registry reg st) = reg" "as_channel (with_registry reg st) = as_channel st"
  "as_sent (with_registry reg st) = as_sent st" "as_audit (with_registry reg st) = as_audit st"
  by (simp_all add: with_registry_def)

lemmas reply_defs = refuse_unauthorized_def method_not_allowed_def answered_def registry_error_def send_run_def run_reply_def

text \<open>A handled request: its reply when nothing was raised.\<close>

definition one_reply :: "api_state \<Rightarrow> handled \<Rightarrow> bool" where
  "one_reply st res = (case snd res of
     Inr _ \<Rightarrow> (\<exists>reply. as_sent (fst res) = as_sent st @ [reply]) | Inl _ \<Rightarrow> as_sent (fst res) = as_sent st)"

lemma one_reply_answered [intro]: "as_sent st' = as_sent st @ [reply] \<Longrightarrow> one_reply st (answered st')"
  by (simp add: one_reply_def answered_def)

lemma one_reply_raised [intro]: "as_sent st' = as_sent st \<Longrightarrow> one_reply st (st', Inl e)"
  by (simp add: one_reply_def)

subsection \<open>The parts of the handler\<close>

text \<open>The parts that leave registry and channel alone.\<close>

definition harmless :: "api_state \<Rightarrow> handled \<Rightarrow> bool" where
  "harmless st res \<longleftrightarrow> as_registry (fst res) = as_registry st \<and> as_channel (fst res) = as_channel st"

lemma harmless_sent [simp]:
  "harmless st (answered (send_reply r n j st))" "harmless st (answered (write_reply n j st))" "harmless st (st, res)"
  "harmless st (answered (refuse_unauthorized r st))" "harmless st (answered (method_not_allowed r st))"
  by (simp_all add: harmless_def reply_defs)

lemma one_reply_sent [simp]:
  "one_reply st (answered (send_reply r n j st))" "one_reply st (answered (write_reply n j st))" "one_reply st (st, Inl e)"
  "one_reply st (answered (refuse_unauthorized r st))" "one_reply st (answered (method_not_allowed r st))"
  by (simp_all add: one_reply_def reply_defs)

lemma serve_health_facts:
  "serve_health cfg h r st = Some res \<Longrightarrow> harmless st res \<and> one_reply st res"
  by (auto simp: serve_health_def split: if_splits option.splits sum.splits)

lemma v1_health_facts: "harmless st (v1_health cfg h r st) \<and> one_reply st (v1_health cfg h r st)"
  by (simp add: v1_health_def Let_def split: sum.splits)

lemma get_authorized_facts: "harmless st (get_authorized h r st) \<and> one_reply st (get_authorized h r st)"
  by (simp add: get_authorized_def split: sum.splits)

lemma do_GET_facts: "harmless st (do_GET cfg h r st) \<and> one_reply st (do_GET cfg h r st)"
  using serve_health_facts [of cfg h r st] v1_health_facts get_authorized_facts
  by (auto simp: do_GET_def split: option.splits sum.splits)

lemma read_body_facts: "read_body h r st = Inl res \<Longrightarrow> harmless st res \<and> one_reply st res"
  by (auto simp: read_body_def split: option.splits if_splits sum.splits exn.splits json.splits)

lemma registry_error_sent: "\<exists>reply. as_sent (registry_error r e st) = as_sent st @ [reply]"
  "as_registry (registry_error r e st) = as_registry st" "as_channel (registry_error r e st) = as_channel st"
  by (simp_all add: registry_error_def Let_def)

lemma run_reply_sent: "\<exists>reply. as_sent (run_reply r out st) = as_sent st @ [reply]"
  "as_registry (run_reply r out st) = as_registry st" "as_channel (run_reply r out st) = as_channel st"
  using registry_error_sent [of r _ st] by (simp_all add: run_reply_def send_run_def split: sum.splits run_outcome.splits)

lemma enable_reply_sent: "\<exists>reply. as_sent (enable_reply h r name body st) = as_sent st @ [reply]"
  "as_channel (enable_reply h r name body st) = as_channel st"
  using registry_error_sent [of r _ "with_registry _ st"]
  by (auto simp: enable_reply_def split: prod.splits sum.splits json.splits)

lemma disable_reply_sent: "\<exists>reply. as_sent (disable_reply r name st) = as_sent st @ [reply]"
  "as_channel (disable_reply r name st) = as_channel st"
  using registry_error_sent [of r _ "with_registry _ st"] by (auto simp: disable_reply_def split: prod.splits sum.splits)

lemma post_route_sent: "\<exists>reply. as_sent (post_route h r body st) = as_sent st @ [reply]"
  "as_channel (post_route h r body st) = as_channel st"
  using run_reply_sent [of r _ st] enable_reply_sent [of h r _ body st] disable_reply_sent [of r _ st]
  by (auto simp: post_route_def Let_def split: option.splits route.splits)

lemma node_channel_post_facts:
  "one_reply st (node_channel_post cfg h r st)" "as_registry (fst (node_channel_post cfg h r st)) = as_registry st"
  by (auto simp: node_channel_post_def one_reply_def Let_def answered_def split: option.splits prod.splits sum.splits)

lemma one_reply_route: "one_reply st (answered (post_route h r body st))"
  using post_route_sent(1) by (auto simp: one_reply_def answered_def)

lemma do_POST_one_reply: "one_reply st (do_POST cfg h r st)"
  using node_channel_post_facts(1) read_body_facts [of h r st] one_reply_route
  by (auto simp: do_POST_def split: sum.splits)

text \<open>Every request gets exactly one answer: handling a request of any method either sends one reply, or ends with an exception
  of the code it calls and sends none.\<close>
theorem every_request_is_answered_once:
  "case handle_request cfg h r st of (st', res) \<Rightarrow>
     (\<exists>reply. res = Ok () \<and> as_sent st' = as_sent st @ [reply]) \<or> (\<exists>e. res = Inl e \<and> as_sent st' = as_sent st)"
proof -
  have "one_reply st (handle_request cfg h r st)"
    using do_GET_facts do_POST_one_reply by (simp add: handle_request_def other_method_def)
  then show ?thesis by (auto simp: one_reply_def split: prod.splits sum.splits)
qed

subsection \<open>Who may change something\<close>

text \<open>The credentials that may change what the server keeps: with an identity key the API's own token or a signed token of an
  operator or administrator, without one the API's own token.\<close>

definition may_change :: "api_config \<Rightarrow> api_host \<Rightarrow> api_request \<Rightarrow> bool" where
  "may_change cfg h r \<longleftrightarrow> (case ac_identity_key cfg of
     None \<Rightarrow> \<exists>given. hq_authorization r = Some (''Bearer '' @ given) \<and> utf8 given = utf8 (ac_token cfg)
   | Some key \<Rightarrow>
       (ac_token cfg \<noteq> [] \<and> utf8 (presented (http_request.truncate r)) = utf8 (ac_token cfg)) \<or>
       (\<exists>i. signed_token (ah_loads h) (presented (http_request.truncate r)) key (ah_now h) i \<and> id_role i \<in> set write_roles))"

lemma authorized_may_change:
  assumes "authorized cfg h r = Ok True" and "hq_command r = ''POST''" and "ac_token cfg \<noteq> []"
  shows "may_change cfg h r"
proof (cases "ac_identity_key cfg")
  case None
  obtain a b t where p: "partition_at (CHR '' '') (case hq_authorization r of None \<Rightarrow> [] | Some a \<Rightarrow> a) = (a, b, t)"
    using prod_cases3 by blast
  then have a: "a = ''Bearer''" "utf8 t = utf8 (ac_token cfg)" using assms(1) by (simp_all add: authorized_def None)
  then have "t \<noteq> []" using assms(3) utf8_Nil_iff [of t] utf8_Nil_iff [of "ac_token cfg"] by auto
  then have "(case hq_authorization r of None \<Rightarrow> [] | Some a \<Rightarrow> a) = ''Bearer '' @ t" using partition_at_eq [OF p] a(1) by auto
  then show ?thesis using a(2) by (cases "hq_authorization r") (auto simp: may_change_def None)
next
  case (Some key)
  have cmd: "hq_command (http_request.truncate r) = ''POST''" using assms(2) by (simp add: http_request.defs)
  obtain who where "accepts (ah_loads h) (http_request.truncate r) (ac_token cfg) (Some key) (ah_now h) = Ok (True, who)"
    using assms(1) by (auto simp: authorized_def Some result_simps)
  then show ?thesis
    using verify_token_Ok cmd
    by (fastforce simp: may_change_def Some accepts_def Let_def read_methods_def split: if_splits sum.splits exn.splits)
qed

lemma handle_post_unauthenticated:
  assumes "fst (handle_post host s now stamp auth raw w) \<noteq> w"
  shows "\<exists>node given. auth = ''Bearer '' @ given \<and> authenticate host w given = Ok (Some node)"
proof -
  obtain a b t where p: "partition_at (CHR '' '') auth = (a, b, t)" using prod_cases3 by blast
  then obtain node where node: "a = ''Bearer''" "authenticate host w t = Ok (Some node)"
    using assms by (auto simp: handle_post_def split: sum.splits option.splits exn.splits if_splits)
  then have "t \<noteq> []" by (auto simp: authenticate_def min_token_length_def)
  then show ?thesis using partition_at_eq [OF p] node by auto
qed

lemma node_channel_post_changes:
  assumes "as_channel (fst (node_channel_post cfg h r st)) \<noteq> as_channel st"
  shows "\<exists>node given. hq_authorization r = Some (''Bearer '' @ given) \<and>
    authenticate (ah_channel h) (as_channel st) given = Ok (Some node)"
proof -
  let ?auth = "case hq_authorization r of None \<Rightarrow> [] | Some a \<Rightarrow> a"
  obtain s n where "fst (handle_post (ah_channel h) s (ah_now h) (ah_now_text h) ?auth (take n (rq_body r)) (as_channel st)) \<noteq>
      as_channel st"
  proof (cases "ac_channel cfg")
    case None
    then show ?thesis using assms by (simp add: node_channel_post_def answered_def)
  next
    case (Some s)
    let ?n = "case content_length r of None \<Rightarrow> -1 | Some n \<Rightarrow> n"
    have "fst (handle_post (ah_channel h) s (ah_now h) (ah_now_text h) ?auth (take (nat ?n) (rq_body r)) (as_channel st)) \<noteq>
        as_channel st"
      using assms
      by (simp add: node_channel_post_def Some Let_def answered_def split: if_splits prod.splits sum.splits)
    then show ?thesis by (rule that)
  qed
  from handle_post_unauthenticated [OF this] show ?thesis by (cases "hq_authorization r") auto
qed

lemma do_POST_other:
  assumes "path_of r \<noteq> ''/v1/incident-transport''"
  shows "harmless st (do_POST cfg h r st) \<or>
    (authorized cfg h r = Ok True \<and> as_channel (fst (do_POST cfg h r st)) = as_channel st)"
proof (cases "authorized cfg h r = Ok True \<and> path_of r \<notin> set get_routes")
  case False
  then show ?thesis using assms by (auto simp: do_POST_def split: sum.splits)
next
  case True
  then show ?thesis
    using assms read_body_facts [of h r st] post_route_sent(2) [of h r _ st]
    by (cases "read_body h r st") (auto simp: do_POST_def answered_def)
qed

text \<open>C29: Nothing changes without a credential: whatever request is handled, when the plugin registry is no longer what it was the
  request was a POST to another route than the nodes' with a credential that may change something, and when the files of the node
  channel are no longer what they were it was a POST to the nodes' route with the live token of a node.\<close>
theorem no_change_without_credential:
  assumes "ac_token cfg \<noteq> []" and "handle_request cfg h r st = (st', res)"
  shows "(as_registry st' \<noteq> as_registry st \<longrightarrow>
      hq_command r = ''POST'' \<and> path_of r \<noteq> ''/v1/incident-transport'' \<and> may_change cfg h r) \<and>
    (as_channel st' \<noteq> as_channel st \<longrightarrow>
      hq_command r = ''POST'' \<and> path_of r = ''/v1/incident-transport'' \<and>
      (\<exists>node given. hq_authorization r = Some (''Bearer '' @ given) \<and>
         authenticate (ah_channel h) (as_channel st) given = Ok (Some node)))"
proof (cases "hq_command r = ''POST''")
  case False
  then have "harmless st (st', res)"
    using do_GET_facts [of st cfg h r] harmless_sent(2,5)
    unfolding assms(2) [symmetric] handle_request_def other_method_def by presburger
  then show ?thesis by (simp add: harmless_def)
next
  case True
  then have post: "do_POST cfg h r st = (st', res)" using assms(2) by (simp add: handle_request_def)
  show ?thesis
  proof (cases "path_of r = ''/v1/incident-transport''")
    case nodes: True
    then have "fst (node_channel_post cfg h r st) = st'" using post by (simp add: do_POST_def)
    then show ?thesis
      using nodes True node_channel_post_facts(2) [of cfg h r st] node_channel_post_changes [of cfg h r st] by auto
  next
    case other: False
    then have "harmless st (st', res) \<or> (authorized cfg h r = Ok True \<and> as_channel st' = as_channel st)"
      using do_POST_other [of r st cfg h] post by simp
    then show ?thesis using other True authorized_may_change [OF _ True assms(1)] by (auto simp: harmless_def)
  qed
qed

subsection \<open>The trail\<close>

definition trail_ok :: "api_state \<Rightarrow> bool" where
  "trail_ok st \<longleftrightarrow> length (as_audit st) \<le> audit_entries \<and>
     (\<forall>e \<in> set (as_audit st). CHR ''?'' \<notin> set (ae_path e) \<and> length (ae_path e) \<le> 200)"

lemma path_of_no_query: "CHR ''?'' \<notin> set (path_of r)"
  by (auto simp: path_of_def dest: set_takeWhileD)

lemma trail_ok_send: "trail_ok st \<Longrightarrow> trail_ok (send_reply r n j st)"
  using path_of_no_query [of r]
  by (auto simp: trail_ok_def send_reply_def Let_def audit_entries_def dest!: in_set_dropD in_set_takeD)

lemma trail_ok_cong: "as_audit st' = as_audit st \<Longrightarrow> trail_ok st' = trail_ok st"
  by (simp add: trail_ok_def)

lemma trail_ok_others [simp]:
  "trail_ok (write_reply n j st) = trail_ok st" "trail_ok (with_registry reg st) = trail_ok st"
  "trail_ok (st\<lparr>as_channel := w\<rparr>) = trail_ok st"
  by (simp_all add: trail_ok_def)

lemma trail_ok_refusals:
  "trail_ok st \<Longrightarrow> trail_ok (refuse_unauthorized r st)" "trail_ok st \<Longrightarrow> trail_ok (method_not_allowed r st)"
  "trail_ok st \<Longrightarrow> trail_ok (registry_error r e st)" "trail_ok st \<Longrightarrow> trail_ok (send_run r out st)"
  by (auto simp: refuse_unauthorized_def method_not_allowed_def registry_error_def send_run_def Let_def trail_ok_send
    split: run_outcome.splits)

lemmas trail_ok_intros = trail_ok_send trail_ok_refusals

lemma trail_ok_GET: "trail_ok st \<Longrightarrow> trail_ok (fst (do_GET cfg h r st))"
  by (simp add: do_GET_def serve_health_def v1_health_def get_authorized_def answered_def Let_def trail_ok_intros
    split: option.splits sum.splits if_splits prod.splits)

lemma trail_ok_routes:
  "trail_ok st \<Longrightarrow> trail_ok (enable_reply h r name body st)" "trail_ok st \<Longrightarrow> trail_ok (disable_reply r name st)"
  "trail_ok st \<Longrightarrow> trail_ok (run_reply r res st)"
  by (auto simp: enable_reply_def disable_reply_def run_reply_def intro!: trail_ok_intros
    split: prod.splits sum.splits json.splits)

lemma trail_ok_post_route: "trail_ok st \<Longrightarrow> trail_ok (post_route h r body st)"
  by (auto simp: post_route_def Let_def intro!: trail_ok_intros trail_ok_routes split: option.splits route.splits)

lemma trail_ok_read_body: "trail_ok st \<Longrightarrow> read_body h r st = Inl res \<Longrightarrow> trail_ok (fst res)"
  by (auto simp: read_body_def answered_def intro!: trail_ok_intros
    split: option.splits if_splits sum.splits exn.splits json.splits)

lemma trail_ok_channel: "trail_ok st \<Longrightarrow> trail_ok (fst (node_channel_post cfg h r st))"
  by (auto simp: node_channel_post_def answered_def Let_def intro!: trail_ok_intros split: option.splits prod.splits sum.splits)

lemma trail_ok_POST: "trail_ok st \<Longrightarrow> trail_ok (fst (do_POST cfg h r st))"
  using trail_ok_read_body [of st h r]
  by (auto simp: do_POST_def answered_def intro!: trail_ok_intros trail_ok_post_route trail_ok_channel split: sum.splits)

lemma trail_ok_request: "trail_ok st \<Longrightarrow> trail_ok (fst (handle_request cfg h r st))"
  by (simp add: handle_request_def other_method_def answered_def trail_ok_GET trail_ok_POST trail_ok_intros)

fun serve_all :: "api_config \<Rightarrow> (api_host \<times> api_request) list \<Rightarrow> api_state \<Rightarrow> api_state" where
  "serve_all cfg [] st = st"
| "serve_all cfg ((h, r) # rs) st = serve_all cfg rs (fst (handle_request cfg h r st))"

lemma trail_ok_serve_all: "trail_ok st \<Longrightarrow> trail_ok (serve_all cfg rs st)"
  by (induction cfg rs st rule: serve_all.induct) (simp_all add: trail_ok_request)

text \<open>The trail of requests never grows past its bound and holds no query: after any run of requests from an empty trail it has
  at most 500 lines, and no path in it is longer than 200 characters or has a question mark.\<close>
theorem trail_is_bounded_and_clean:
  "length (as_audit (serve_all cfg rs (st\<lparr>as_audit := []\<rparr>))) \<le> 500 \<and>
   list_all (\<lambda>e. CHR ''?'' \<notin> set (ae_path e) \<and> length (ae_path e) \<le> 200) (as_audit (serve_all cfg rs (st\<lparr>as_audit := []\<rparr>)))"
proof -
  have "trail_ok (serve_all cfg rs (st\<lparr>as_audit := []\<rparr>))" by (rule trail_ok_serve_all) (simp add: trail_ok_def)
  then show ?thesis by (simp add: trail_ok_def audit_entries_def list_all_iff)
qed

subsection \<open>Connections\<close>

inductive connections_reached :: "nat \<Rightarrow> connections \<Rightarrow> bool" for slots :: nat where
  start: "connections_reached slots \<lparr>cn_free = slots, cn_running = []\<rparr>"
| arrive: "connections_reached slots s \<Longrightarrow> connections_reached slots (fst (process_request c s))"
| finish: "connections_reached slots s \<Longrightarrow> connections_reached slots (request_ends c s)"

lemma slots_are_conserved: "connections_reached slots s \<Longrightarrow> cn_free s + length (cn_running s) = slots"
proof (induction rule: connections_reached.induct)
  case (arrive s c)
  then show ?case by (simp add: process_request_def)
next
  case (finish s c)
  show ?case
  proof (cases "c \<in> set (cn_running s)")
    case True
    then obtain n where n: "length (cn_running s) = Suc n" by (cases "cn_running s") auto
    then show ?thesis using finish(2) True by (simp add: request_ends_def length_remove1 n)
  qed (use finish in \<open>simp add: request_ends_def\<close>)
qed simp

lemma connection_refused_only_when_full:
  assumes "connections_reached slots s"
  shows "\<not> snd (process_request c s) \<longleftrightarrow> length (cn_running s) = slots"
  using slots_are_conserved [OF assms] by (auto simp: process_request_def)

lemma server_listens_on_loopback_only:
  assumes "new_server host token n read_json dirs channel = Ok (st, slots)"
  shows "(\<exists>ip. ip_address host = Some ip \<and> is_loopback ip) \<and> 24 \<le> length token \<and> connections_reached (nat n) slots \<and> trail_ok st"
  using assms
  by (auto simp: new_server_def validate_bind_def api_token_length_def trail_ok_def connections_reached.start result_simps
    split: option.splits if_splits)

subsection \<open>A sample\<close>

definition quiet_host :: api_host where
  "quiet_host = \<lparr>ah_plugins = \<lparr>ph_utf8 = \<lambda>_. True, ph_decode = \<lambda>_. [], ph_loads = \<lambda>_. None, ph_child = \<lambda>_. Overran\<rparr>,
     ah_free = True, ah_dirs = None, ah_manifest = \<lambda>_. Ok JNull, ah_inventory = Ok JNull, ah_channel = willing_host,
     ah_loads = \<lambda>_. Ok JNull, ah_now = 0, ah_now_text = []\<rparr>"

definition closed_config :: api_config where
  "closed_config = \<lparr>ac_token = ''a-token-of-the-operator--'', ac_identity_key = None, ac_health_open = False,
     ac_public_detail = False, ac_channel = None, ac_version = ''1''\<rparr>"

definition rescan_request :: api_request where
  "rescan_request = \<lparr>hq_command = ''POST'', hq_authorization = Some (''Bearer a-token-of-the-operator--''),
     rq_target = rescan_path, rq_length = None, rq_body = [], rq_client = ''127.0.0.1'', rq_at = 0\<rparr>"

definition one_problem :: api_state where
  "one_problem = \<lparr>as_registry = \<lparr>rg_records = [], rg_problems = [(''old'', [])]\<rparr>, as_channel = empty_channel,
     as_audit = [], as_sent = []\<rparr>"

lemma sample_rescan: "rg_problems (as_registry (fst (handle_request closed_config quiet_host rescan_request one_problem))) = []"
  by code_simp

lemma no_change_without_credential_witness: "may_change closed_config quiet_host rescan_request"
proof -
  obtain st' res where r: "handle_request closed_config quiet_host rescan_request one_problem = (st', res)" by fastforce
  have "ac_token closed_config \<noteq> []" by (simp add: closed_config_def)
  from no_change_without_credential [OF this r] show ?thesis using sample_rescan r by (auto simp: one_problem_def)
qed

end
