(* ===== verification/Remote_Station.thy ===== *)
theory Remote_Station
  imports Config Identifiers Ip_Address
begin

text \<open>
  \<open>remote_station.py\<close>: the document of a remote station (the account, how an editor reaches it, the tools it needs), read
  and written.
\<close>

subsection \<open>Readers\<close>

text \<open>The problems of a part, as one problem of the whole.\<close>

definition part_problem :: "string \<Rightarrow> msg list \<Rightarrow> msg" where
  "part_problem t ms = Msg t (map (\<lambda>m. msg_json (Some m)) ms)"

text \<open>\<open>_require_positive_number\<close>; \<open>NaN <= 0\<close> is false, and \<open>float\<close> of a large integer raises.\<close>

definition require_positive_number :: "json dict \<Rightarrow> string \<Rightarrow> rat \<Rightarrow> (pyfloat \<times> msg list) result" where
  "require_positive_number d field dflt =
     (let bad = (\<lambda>v. Ok (Finite dflt, [Msg ''{} must be a positive number, not {}'' [JStr field, v]])) in
      case map_of d field of
        None \<Rightarrow> Ok (Finite dflt, [])
      | Some (JInt n) \<Rightarrow> if n \<le> 0 then bad (JInt n) else and_then (float_of_int n) (\<lambda>f. Ok (f, []))
      | Some (JFloat (Finite q)) \<Rightarrow> if q \<le> 0 then bad (JFloat (Finite q)) else Ok (Finite q, [])
      | Some (JFloat NegInf) \<Rightarrow> bad (JFloat NegInf)
      | Some (JFloat f) \<Rightarrow> Ok (f, [])
      | Some v \<Rightarrow> bad v)"

subsection \<open>The account\<close>

record remote_identity =
  ri_user :: string
  ri_home :: string
  ri_subdir :: string

definition forbidden_users :: "string list" where
  "forbidden_users = [''root'', ''admin'', ''hydra-umc'']"

definition workspace_path :: "remote_identity \<Rightarrow> string" where
  "workspace_path i = (if endswith (ri_home i) ''/'' then ri_home i else ri_home i @ ''/'') @ ri_subdir i"

definition identity_to_dict :: "remote_identity \<Rightarrow> json" where
  "identity_to_dict i =
     JObj [(''user'', JStr (ri_user i)), (''home'', JStr (ri_home i)), (''workspace_subdir'', JStr (ri_subdir i))]"

definition read_subdir :: "json dict \<Rightarrow> string \<times> msg list" where
  "read_subdir d =
     (let v = get_default d ''workspace_subdir'' (JStr ''workspace''); s = str_of v in
      if \<not> is_str v \<or> s = [] \<or> startswith s ''/'' \<or> contains_sub s ''..'' then
        (''workspace'', [Msg ''workspace_subdir must be a non-empty relative path with no .. segments'' []])
      else (s, []))"

definition identity_from_dict :: "json \<Rightarrow> remote_identity result" where
  "identity_from_dict data = (case data of
     JObj d \<Rightarrow>
       (let (user, e1) = require_str d ''user'';
            (home, e2) = require_str d ''home'';
            (subdir, e3) = read_subdir d;
            e4 = (if user \<noteq> [] \<and> \<not> is_account_name (JStr user) then
                    [Msg ''user must be a lowercase account name (letters, digits, _ or -, up to 32 characters)'' []] else []);
            e5 = (if home = [] then [] else (case path_text_problem (JStr home) of None \<Rightarrow> []
                  | Some p \<Rightarrow> [Msg ''home is not a path that can go into a systemd unit: {}'' [JStr p]]));
            e6 = (case path_text_problem (JStr subdir) of None \<Rightarrow> []
                  | Some p \<Rightarrow> [Msg ''workspace_subdir is not a plain relative path: {}'' [JStr p]]);
            e7 = (if user \<in> set forbidden_users then
                    [Msg ''user must be a dedicated system account, not {}'' [JStr user]] else []);
            e8 = (if home \<noteq> [] \<and> \<not> startswith home ''/'' then
                    [Msg ''home must be an absolute path, got {}'' [JStr home]] else [])
        in finish (e1 @ e2 @ e3 @ e4 @ e5 @ e6 @ e7 @ e8) \<lparr>ri_user = user, ri_home = home, ri_subdir = subdir\<rparr>)
   | _ \<Rightarrow> config_error [Msg ''remote identity must be a JSON object'' []])"

subsection \<open>The endpoint\<close>

record remote_access =
  ra_kind :: string
  ra_port :: int
  ra_bind :: string
  ra_public :: bool

definition access_kinds :: "string list" where
  "access_kinds = [''code-server'', ''ssh-remote'']"

definition min_remote_port :: int where
  "min_remote_port = 1024"

definition max_remote_port :: int where
  "max_remote_port = 65535"

definition is_loopback_or_private :: "remote_access \<Rightarrow> bool" where
  "is_loopback_or_private a = (case ip_address (ra_bind a) of
     None \<Rightarrow> False
   | Some ip \<Rightarrow> if is_unspecified ip \<or> is_link_local ip \<or> is_multicast ip then False
       else is_loopback ip \<or> is_private_address ip)"

definition access_to_dict :: "remote_access \<Rightarrow> json" where
  "access_to_dict a =
     JObj [(''kind'', JStr (ra_kind a)), (''port'', JInt (ra_port a)), (''bind_address'', JStr (ra_bind a)),
           (''allow_public_bind'', JBool (ra_public a))]"

definition read_port :: "json dict \<Rightarrow> int \<times> msg list" where
  "read_port d =
     (let bad = (\<lambda>v. (min_remote_port, [Msg ''port must be an integer in [{}, {}], not {}''
            [JInt min_remote_port, JInt max_remote_port, v]])) in
      case get_or_none d ''port'' of
        JInt n \<Rightarrow> if min_remote_port \<le> n \<and> n \<le> max_remote_port then (n, []) else bad (JInt n)
      | v \<Rightarrow> bad v)"

definition bind_problems :: "string \<Rightarrow> bool \<Rightarrow> msg list" where
  "bind_problems bind public =
     (if bind = [] then []
      else (case ip_address bind of
          None \<Rightarrow> [Msg ''bind_address must be a valid IP address, got {}'' [JStr bind]]
        | Some ip \<Rightarrow> if \<not> (is_loopback ip \<or> is_private_address ip) \<and> \<not> public then
            [Msg ''bind_address {} is routable/public - refusing without allow_public_bind: true'' [JStr bind]] else []))"

definition access_from_dict :: "json \<Rightarrow> remote_access result" where
  "access_from_dict data = (case data of
     JObj d \<Rightarrow>
       (let (kind, e1) = require_str d ''kind'';
            (bind, e2) = require_str d ''bind_address'';
            (public, e3) = require_bool d ''allow_public_bind'' False;
            (port, e4) = read_port d;
            e5 = (if kind \<noteq> [] \<and> kind \<notin> set access_kinds then
                    [Msg ''kind must be one of {}, not {}'' [JArr (map JStr access_kinds), JStr kind]] else []);
            e6 = bind_problems bind public
        in finish (e1 @ e2 @ e3 @ e4 @ e5 @ e6) \<lparr>ra_kind = kind, ra_port = port, ra_bind = bind, ra_public = public\<rparr>)
   | _ \<Rightarrow> config_error [Msg ''remote access must be a JSON object'' []])"

subsection \<open>The station\<close>

record station_profile =
  sn_identity :: remote_identity
  sn_access :: remote_access
  sn_tools :: "toolchain_policy list"
  sn_min_disk :: pyfloat

definition station_to_dict :: "station_profile \<Rightarrow> json" where
  "station_to_dict p =
     JObj [(''identity'', identity_to_dict (sn_identity p)), (''remote_access'', access_to_dict (sn_access p)),
           (''required_tools'', JArr (map toolchain_to_dict (sn_tools p))), (''min_free_disk_gb'', JFloat (sn_min_disk p))]"

text \<open>The tools: those that were read, and a problem for each that was not.\<close>

fun read_tools :: "nat \<Rightarrow> json list \<Rightarrow> toolchain_policy list \<times> msg list" where
  "read_tools i [] = ([], [])"
| "read_tools i (v # vs) =
     (let (ts, errs) = read_tools (Suc i) vs in
      case toolchain_from_dict v of
        Inl e \<Rightarrow> (ts, part_problem (''required_tools['' @ nat_str i @ '']: {}'') (exn_msgs e) # errs)
      | Inr t \<Rightarrow> (t # ts, errs))"

definition read_required_tools :: "json dict \<Rightarrow> toolchain_policy list \<times> msg list" where
  "read_required_tools d = (case get_default d ''required_tools'' (JArr []) of
     JArr (v # vs) \<Rightarrow> read_tools 0 (v # vs)
   | _ \<Rightarrow> ([], [Msg ''required_tools must be a non-empty list of toolchain entries'' []]))"

definition part_errors :: "string \<Rightarrow> 'a result \<Rightarrow> msg list" where
  "part_errors t r = (case r of Inl e \<Rightarrow> [part_problem t (exn_msgs e)] | Inr _ \<Rightarrow> [])"

definition station_from_dict :: "json \<Rightarrow> station_profile result" where
  "station_from_dict data = (case data of
     JObj d \<Rightarrow>
       (let identity = identity_from_dict (get_or_none d ''identity'');
            access = access_from_dict (get_or_none d ''remote_access'');
            (tools, e3) = read_required_tools d
        in and_then (require_positive_number d ''min_free_disk_gb'' 10) (\<lambda>(disk, e4).
             let errors = part_errors ''identity: {}'' identity @ part_errors ''remote_access: {}'' access @ e3 @ e4 in
             if errors \<noteq> [] then config_error errors
             else and_then identity (\<lambda>i. and_then access (\<lambda>a.
               Ok \<lparr>sn_identity = i, sn_access = a, sn_tools = tools, sn_min_disk = disk\<rparr>))))
   | _ \<Rightarrow> config_error [Msg ''remote station profile must be a JSON object'' []])"

end
