(* ===== verification/Preflight.thy ===== *)
theory Preflight
  imports Remote_Station Paths
begin

text \<open>
  \<open>preflight.py\<close>: the checks of a host against a station profile, with the inspector as a record of its answers, and the
  system inspector over a record of the host (passwd, groups, files, sockets).
\<close>

subsection \<open>The report\<close>

record preflight_check =
  pf_name :: string
  pf_ok :: bool
  pf_detail :: msg
  pf_create :: bool

definition report_ok :: "preflight_check list \<Rightarrow> bool" where
  "report_ok cs = list_all pf_ok cs"

definition report_failures :: "preflight_check list \<Rightarrow> preflight_check list" where
  "report_failures cs = filter (\<lambda>c. \<not> pf_ok c) cs"

definition report_to_create :: "preflight_check list \<Rightarrow> preflight_check list" where
  "report_to_create cs = filter pf_create cs"

definition check_to_json :: "preflight_check \<Rightarrow> json" where
  "check_to_json c = JObj [(''name'', JStr (pf_name c)), (''ok'', JBool (pf_ok c)), (''detail'', msg_json (Some (pf_detail c))),
     (''will_create'', JBool (pf_create c))]"

definition report_to_dict :: "preflight_check list \<Rightarrow> json" where
  "report_to_dict cs = JObj [(''ok'', JBool (report_ok cs)), (''checks'', JArr (map check_to_json cs)),
     (''failures'', JArr (map (\<lambda>c. JStr (pf_name c)) (report_failures cs))),
     (''will_create'', JArr (map (\<lambda>c. JStr (pf_name c)) (report_to_create cs)))]"

subsection \<open>The inspector\<close>

text \<open>The methods that an inspector may lack are options.\<close>

record host_inspector =
  hi_python :: "int \<times> int \<times> int"
  hi_free_disk :: "string \<Rightarrow> rat option"
  hi_executable :: "string \<Rightarrow> bool"
  hi_writable :: "string \<Rightarrow> bool"
  hi_port_free :: "string \<Rightarrow> int \<Rightarrow> bool"
  hi_user_exists :: "string \<Rightarrow> bool"
  hi_system_account :: "string \<Rightarrow> bool"
  hi_writable_by :: "(string \<Rightarrow> string \<Rightarrow> bool) option"
  hi_uid :: "(string \<Rightarrow> int option) option"
  hi_shell :: "(string \<Rightarrow> string option) option"
  hi_keys :: "(string \<Rightarrow> bool) option"

definition min_python :: "int \<times> int \<times> int" where
  "min_python = (3, 11, 0)"

text \<open>\<open>>=\<close> of two tuples.\<close>

fun version_ge :: "int \<times> int \<times> int \<Rightarrow> int \<times> int \<times> int \<Rightarrow> bool" where
  "version_ge (a, b, c) (x, y, z) = (a > x \<or> (a = x \<and> (b > y \<or> (b = y \<and> c \<ge> z))))"

text \<open>A rational against a float.\<close>

fun at_least :: "rat \<Rightarrow> pyfloat \<Rightarrow> bool" where
  "at_least q (Finite r) = (q \<ge> r)"
| "at_least q NegInf = True"
| "at_least q f = False"

definition plain_check :: "string \<Rightarrow> bool \<Rightarrow> msg \<Rightarrow> preflight_check" where
  "plain_check name ok detail = \<lparr>pf_name = name, pf_ok = ok, pf_detail = detail, pf_create = False\<rparr>"

definition created_check :: "string \<Rightarrow> msg \<Rightarrow> preflight_check" where
  "created_check name detail = \<lparr>pf_name = name, pf_ok = True, pf_detail = detail, pf_create = True\<rparr>"

text \<open>What is wrong with an account that Remote-SSH logs in to.\<close>

definition ssh_problems :: "int option \<Rightarrow> string \<Rightarrow> bool \<Rightarrow> msg list" where
  "ssh_problems uid shell keys =
     (if uid = None \<or> uid = Some 0 then [Msg ''it is uid 0 or has no uid'' []]
      else if 1000 \<le> the uid then [Msg ''it is a normal login user, not a dedicated account (uid >= 1000)'' []] else []) @
     (if shell = [] \<or> endswith shell ''nologin'' \<or> endswith shell ''false'' then
        [Msg ''its shell {} cannot log in, and Remote-SSH has to log in'' [JStr shell]] else []) @
     (if keys then [] else [Msg ''it has no authorized_keys file, so nobody can log in as it'' []])"

definition identity_check :: "station_profile \<Rightarrow> host_inspector \<Rightarrow> bool \<Rightarrow> preflight_check" where
  "identity_check p h exists =
     (let user = ri_user (sn_identity p) in
      if \<not> exists then
        created_check ''identity-user'' (Msg ''system account {} does not exist yet; the plan creates it'' [JStr user])
      else if ra_kind (sn_access p) \<noteq> ''ssh-remote'' then
        plain_check ''identity-user'' (hi_system_account h user)
          (if hi_system_account h user then Msg ''{} exists and is a dedicated system account'' [JStr user]
           else Msg ''{} exists but is a normal login user / uid 0 - refuse to run the station as it'' [JStr user])
      else (case (hi_uid h, hi_shell h, hi_keys h) of
          (Some uid_of, Some shell_of, Some keys_of) \<Rightarrow>
            (let problems = ssh_problems (uid_of user) (case shell_of user of None \<Rightarrow> [] | Some s \<Rightarrow> s) (keys_of user) in
             plain_check ''identity-user'' (problems = [])
               (if problems = [] then
                  Msg ''{} exists, is a dedicated account with a login shell and an authorized_keys file'' [JStr user]
                else part_problem ''{} exists but '' problems))
        | _ \<Rightarrow> plain_check ''identity-user'' False
            (Msg ''this host inspector cannot tell the shell and the authorized keys of the account, which ssh-remote needs'' [])))"

subsection \<open>run_preflight\<close>

definition python_check :: "host_inspector \<Rightarrow> int \<times> int \<times> int \<Rightarrow> preflight_check" where
  "python_check h need = plain_check ''python-version'' (version_ge (hi_python h) need) (Msg ''found {}, need >= {}'' [])"

definition disk_check :: "station_profile \<Rightarrow> host_inspector \<Rightarrow> preflight_check" where
  "disk_check p h =
     (let w = workspace_path (sn_identity p) in
      case hi_free_disk h w of
        None \<Rightarrow> plain_check ''free-disk'' False (Msg ''cannot measure free space: {} has no existing parent'' [JStr w])
      | Some free \<Rightarrow> plain_check ''free-disk'' (at_least free (sn_min_disk p))
          (Msg ''{} GiB free at {}, need >= {}'' [JFloat (Finite free), JStr w, JFloat (sn_min_disk p)]))"

definition writable_check :: "station_profile \<Rightarrow> host_inspector \<Rightarrow> bool \<Rightarrow> preflight_check" where
  "writable_check p h exists =
     (let w = workspace_path (sn_identity p); user = ri_user (sn_identity p) in
      if \<not> exists then
        created_check ''workspace-writable'' (Msg ''{} is not there yet; the plan creates it, owned by {}'' [JStr w, JStr user])
      else plain_check ''workspace-writable''
        (case hi_writable_by h of Some by_user \<Rightarrow> by_user w user | None \<Rightarrow> hi_writable h w)
        (Msg ''{} must be writable by {}'' [JStr w, JStr user]))"

definition tool_check :: "host_inspector \<Rightarrow> toolchain_policy \<Rightarrow> preflight_check" where
  "tool_check h t = plain_check (''tool:'' @ tool_name t) (hi_executable h (tool_name t) \<or> \<not> tool_required t)
     (Msg (if hi_executable h (tool_name t) then ''{} found on PATH{}'' else ''{} not found on PATH{}'')
       [JStr (tool_name t), JStr (if tool_required t then [] else '' (optional)'')])"

definition port_check :: "station_profile \<Rightarrow> host_inspector \<Rightarrow> preflight_check" where
  "port_check p h = (let a = sn_access p in
     plain_check ''remote-port-free'' (hi_port_free h (ra_bind a) (ra_port a))
       (Msg ''{}:{} must be free for the {} endpoint'' [JStr (ra_bind a), JInt (ra_port a), JStr (ra_kind a)]))"

definition bind_check :: "station_profile \<Rightarrow> preflight_check" where
  "bind_check p = (let a = sn_access p in
     plain_check ''bind-address-is-private'' (is_loopback_or_private a \<or> ra_public a)
       (Msg (if is_loopback_or_private a then ''{} is loopback/private'' else if ra_public a then ''{} is routable; allowed by allow_public_bind''
             else ''{} is routable'') [JStr (ra_bind a)]))"

definition run_preflight :: "station_profile \<Rightarrow> host_inspector \<Rightarrow> int \<times> int \<times> int \<Rightarrow> preflight_check list" where
  "run_preflight p h need =
     (let exists = hi_user_exists h (ri_user (sn_identity p)) in
      [python_check h need, disk_check p h, writable_check p h exists] @ map (tool_check h) (sn_tools p) @
      [port_check p h, bind_check p, identity_check p h exists])"

subsection \<open>The system inspector\<close>

record passwd_entry =
  pw_uid :: int
  pw_gid :: int
  pw_shell :: string
  pw_dir :: string

record file_stat =
  st_uid :: int
  st_gid :: int
  st_mode :: "32 word"

record sys_host =
  sy_python :: "int \<times> int \<times> int"
  sy_stat :: "string \<Rightarrow> file_stat option"
  sy_isfile :: "string \<Rightarrow> bool"
  sy_free :: "string \<Rightarrow> nat"
  sy_which :: "string \<Rightarrow> string option"
  sy_access_w :: "string \<Rightarrow> bool"
  sy_binds :: "bool \<Rightarrow> string \<Rightarrow> int \<Rightarrow> bool"
  sy_passwd :: "string \<Rightarrow> passwd_entry option"
  sy_groups :: "(int \<times> string list) list"

lemma rstrip_char_prefix: "\<exists>t. s = rstrip_char c s @ t"
proof -
  have "rev s = takeWhile (\<lambda>d. d = c) (rev s) @ dropWhile (\<lambda>d. d = c) (rev s)" by simp
  then have "s = rstrip_char c s @ rev (takeWhile (\<lambda>d. d = c) (rev s))"
    unfolding rstrip_char_def by (metis rev_append rev_rev_ident)
  then show ?thesis by blast
qed

lemma dirname_prefix: "\<exists>t. p = dirname p @ t"
proof -
  let ?head = "take (length p - length (basename p)) p"
  have "\<exists>t. p = ?head @ t" by (metis append_take_drop_id)
  moreover have "\<exists>t. ?head = dirname p @ t" using rstrip_char_prefix by (simp add: dirname_def Let_def)
  ultimately show ?thesis by (metis append_assoc)
qed

text \<open>The loop that goes up from a path to the nearest one that exists; \<open>None\<close> when the text runs out or repeats.\<close>

function nearest :: "(string \<Rightarrow> bool) \<Rightarrow> string \<Rightarrow> string option" where
  "nearest exists p =
     (if p = [] then None
      else if exists p then Some p
      else if dirname p = p then None
      else nearest exists (dirname p))"
  by pat_completeness auto

termination
proof (relation "measure (length \<circ> snd)")
  fix exists and p :: string
  assume "dirname p \<noteq> p"
  moreover obtain t where "p = dirname p @ t" using dirname_prefix by blast
  ultimately have "length (dirname p) < length p" by (metis append_Nil2 length_append length_greater_0_conv less_add_same_cancel1)
  then show "((exists, dirname p), (exists, p)) \<in> measure (length \<circ> snd)" by simp
qed simp

declare nearest.simps [simp del]

definition sys_exists :: "sys_host \<Rightarrow> string \<Rightarrow> bool" where
  "sys_exists y p = (sy_stat y p \<noteq> None)"

definition sys_free_disk :: "sys_host \<Rightarrow> string \<Rightarrow> rat option" where
  "sys_free_disk y p = map_option (\<lambda>probe. of_nat (sy_free y probe) / 1073741824) (nearest (sys_exists y) p)"

definition sys_writable :: "sys_host \<Rightarrow> string \<Rightarrow> bool" where
  "sys_writable y p = (case nearest (sys_exists y) p of None \<Rightarrow> False | Some probe \<Rightarrow> sy_access_w y probe)"

definition sys_port_free :: "sys_host \<Rightarrow> string \<Rightarrow> int \<Rightarrow> bool" where
  "sys_port_free y bind port = sy_binds y (CHR '':'' \<in> set bind) bind port"

definition sys_uid :: "sys_host \<Rightarrow> string \<Rightarrow> int option" where
  "sys_uid y name = map_option pw_uid (sy_passwd y name)"

definition sys_shell :: "sys_host \<Rightarrow> string \<Rightarrow> string option" where
  "sys_shell y name = (case sy_passwd y name of None \<Rightarrow> None | Some e \<Rightarrow> if pw_shell e = [] then None else Some (pw_shell e))"

text \<open>\<open>os.path.join(home, ".ssh", "authorized_keys")\<close>.\<close>

definition keys_path :: "string \<Rightarrow> string" where
  "keys_path home = (if last home = slash then home else home @ ''/'') @ ''.ssh/authorized_keys''"

definition sys_keys :: "sys_host \<Rightarrow> string \<Rightarrow> bool" where
  "sys_keys y name = (case sy_passwd y name of None \<Rightarrow> False | Some e \<Rightarrow> pw_dir e \<noteq> [] \<and> sy_isfile y (keys_path (pw_dir e)))"

definition mode_bit :: "32 word \<Rightarrow> 32 word \<Rightarrow> bool" where
  "mode_bit mode flag = (mode AND flag \<noteq> 0)"

text \<open>\<open>path_is_writable_by\<close>, for an absolute path: owner, group and others of the nearest existing parent.\<close>

definition sys_writable_by :: "sys_host \<Rightarrow> string \<Rightarrow> string \<Rightarrow> bool" where
  "sys_writable_by y p name = (case sy_passwd y name of
     None \<Rightarrow> False
   | Some e \<Rightarrow> (case nearest (sys_exists y) p of
       None \<Rightarrow> False
     | Some probe \<Rightarrow> (case sy_stat y probe of
         None \<Rightarrow> False
       | Some info \<Rightarrow>
           if pw_uid e = 0 then True
           else if st_uid info = pw_uid e then mode_bit (st_mode info) 0x80
           else if st_gid info = pw_gid e \<or> list_ex (\<lambda>(gid, members). gid = st_gid info \<and> name \<in> set members) (sy_groups y)
             then mode_bit (st_mode info) 0x10
           else mode_bit (st_mode info) 0x02)))"

definition sys_system_account :: "sys_host \<Rightarrow> string \<Rightarrow> bool" where
  "sys_system_account y name = (case sy_passwd y name of
     None \<Rightarrow> False
   | Some e \<Rightarrow> pw_uid e \<noteq> 0 \<and> pw_uid e < 1000 \<and> (endswith (pw_shell e) ''nologin'' \<or> endswith (pw_shell e) ''false''))"

definition system_host :: "sys_host \<Rightarrow> host_inspector" where
  "system_host y =
     \<lparr>hi_python = sy_python y, hi_free_disk = sys_free_disk y, hi_executable = (\<lambda>n. sy_which y n \<noteq> None),
      hi_writable = sys_writable y, hi_port_free = sys_port_free y, hi_user_exists = (\<lambda>n. sy_passwd y n \<noteq> None),
      hi_system_account = sys_system_account y, hi_writable_by = Some (sys_writable_by y), hi_uid = Some (sys_uid y),
      hi_shell = Some (sys_shell y), hi_keys = Some (sys_keys y)\<rparr>"

end
