(* ===== verification/Provision.thy ===== *)
theory Provision
  imports Preflight
begin

text \<open>
  \<open>provision.py\<close>: the plan of a station, its steps with the command lines as data, and the text of the systemd unit.
\<close>

definition newline :: char where
  "newline = CHR 0x0A"

definition code_server_exec :: string where
  "code_server_exec = ''/usr/bin/code-server''"

definition installer_url :: string where
  "installer_url = ''https://code-server.dev/install.sh''"

definition config_dir :: string where
  "config_dir = ''.config/code-server''"

definition data_dir :: string where
  "data_dir = ''.local/share/code-server''"

definition env_file_name :: string where
  "env_file_name = ''code-server.env''"

definition home_path :: "remote_identity \<Rightarrow> string \<Rightarrow> string" where
  "home_path i relative = rstrip_char slash (ri_home i) @ ''/'' @ relative"

record provision_step =
  pv_kind :: string
  pv_description :: msg
  pv_command :: "string list"

record provision_plan =
  pn_profile :: station_profile
  pn_steps :: "provision_step list"
  pn_unit_name :: string
  pn_unit_text :: string

definition step_to_dict :: "provision_step \<Rightarrow> json" where
  "step_to_dict s = JObj [(''kind'', JStr (pv_kind s)), (''description'', msg_json (Some (pv_description s))),
     (''command_preview'', JArr (map JStr (pv_command s)))]"

definition provision_to_dict :: "provision_plan \<Rightarrow> json" where
  "provision_to_dict p = JObj
     [(''identity_user'', JStr (ri_user (sn_identity (pn_profile p)))),
      (''remote_access'', access_to_dict (sn_access (pn_profile p))),
      (''steps'', JArr (map step_to_dict (pn_steps p))), (''systemd_unit_name'', JStr (pn_unit_name p)),
      (''systemd_unit_text'', JStr (pn_unit_text p))]"

subsection \<open>The unit\<close>

definition unit_lines :: "station_profile \<Rightarrow> string list" where
  "unit_lines p =
     (let i = sn_identity p; a = sn_access p; base = rstrip_char slash (ri_home i); env = home_path i env_file_name in
      [''[Unit]'',
       ''Description=HYDRA-UMC-DEV-SERVER remote station ('' @ ra_kind a @ '') for '' @ ri_user i,
       ''After=network-online.target'',
       ''Wants=network-online.target'',
       ''ConditionPathExists='' @ env,
       [],
       ''[Service]'',
       ''Type=exec'',
       ''User='' @ ri_user i,
       ''WorkingDirectory='' @ workspace_path i,
       ''Environment=HOME='' @ ri_home i,
       ''Environment=XDG_CONFIG_HOME='' @ base @ ''/.config'',
       ''Environment=XDG_DATA_HOME='' @ base @ ''/.local/share'',
       ''EnvironmentFile='' @ env,
       ''ExecStart='' @ code_server_exec @ '' --bind-addr '' @ ra_bind a @ '':'' @ int_str (ra_port a) @
         '' --auth password --disable-telemetry'',
       ''Restart=on-failure'',
       ''RestartSec=3'',
       ''NoNewPrivileges=yes'',
       ''ProtectSystem=strict'',
       ''ProtectHome=tmpfs'',
       ''ReadWritePaths='' @ workspace_path i @ '' '' @ home_path i config_dir @ '' '' @ home_path i data_dir,
       ''PrivateTmp=yes'',
       ''RestrictAddressFamilies=AF_UNIX AF_INET AF_INET6 AF_NETLINK'',
       [],
       ''[Install]'',
       ''WantedBy=multi-user.target'',
       []])"

definition systemd_unit_text :: "station_profile \<Rightarrow> string" where
  "systemd_unit_text p = join_with [newline] (unit_lines p)"

subsection \<open>The plan\<close>

definition install_dir :: "string \<Rightarrow> string \<Rightarrow> string list" where
  "install_dir user mode = [''install'', ''-d'', ''-o'', user, ''-g'', user, ''-m'', mode]"

definition account_steps :: "remote_identity \<Rightarrow> bool \<Rightarrow> provision_step list" where
  "account_steps i ssh =
     [\<lparr>pv_kind = ''create-system-user'',
       pv_description = Msg ''create dedicated system account {} with home {}, {} and no files copied into the home''
         [JStr (ri_user i), JStr (ri_home i), JStr (if ssh then ''a login shell (Remote-SSH logs in)'' else ''no login shell'')],
       pv_command = [''useradd'', ''--system'', ''--no-create-home'', ''--home-dir'', ri_home i, ''--shell'',
         if ssh then ''/bin/bash'' else ''/usr/sbin/nologin'', ri_user i]\<rparr>,
      \<lparr>pv_kind = ''create-home'',
       pv_description = Msg ''create {} empty, owned by {} and closed to everybody else'' [JStr (ri_home i), JStr (ri_user i)],
       pv_command = install_dir (ri_user i) ''0700'' @ [ri_home i]\<rparr>,
      \<lparr>pv_kind = ''create-workspace'',
       pv_description = Msg ''create {} owned by {}'' [JStr (workspace_path i), JStr (ri_user i)],
       pv_command = install_dir (ri_user i) ''0750'' @ [workspace_path i]\<rparr>]"

definition tool_step :: "toolchain_policy \<Rightarrow> provision_step" where
  "tool_step t =
     (let optional = JStr (if tool_required t then [] else '' (optional)'') in
      if tool_name t = ''code-server'' then
        \<lparr>pv_kind = ''install-code-server'',
         pv_description = Msg ''code-server >= {} is not in the Debian / Raspberry Pi OS repositories: download its official installer, read it, then run it (the plan does not pipe a download into a shell){}''
           [JStr (tool_min_version t), optional],
         pv_command = [''curl'', ''-fsSL'', ''-o'', ''code-server-install.sh'', installer_url]\<rparr>
      else
        \<lparr>pv_kind = ''ensure-tool'',
         pv_description = Msg ''ensure {} >= {} is installed{}'' [JStr (tool_name t), JStr (tool_min_version t), optional],
         pv_command = [''apt-get'', ''install'', ''--yes'', tool_name t]\<rparr>)"

definition unit_name :: "remote_identity \<Rightarrow> string" where
  "unit_name i = ''hydra-umc-dev-station-'' @ ri_user i @ ''.service''"

definition editor_steps :: "remote_identity \<Rightarrow> provision_step list" where
  "editor_steps i =
     [\<lparr>pv_kind = ''create-editor-state'',
       pv_description = Msg ''create the directories code-server writes to ({} and {} under {}), owned by {}; the unit lists them as writable''
         [JStr config_dir, JStr data_dir, JStr (ri_home i), JStr (ri_user i)],
       pv_command = install_dir (ri_user i) ''0700'' @ [home_path i ''.config'', home_path i ''.local'', home_path i ''.local/share'',
         home_path i config_dir, home_path i data_dir]\<rparr>,
      \<lparr>pv_kind = ''set-editor-password'',
       pv_description = Msg ''the operator writes {} (mode 0600, owned by {}) with the line HASHED_PASSWORD'' [JStr (home_path i env_file_name), JStr (ri_user i)],
       pv_command = []\<rparr>,
      \<lparr>pv_kind = ''write-systemd-unit'',
       pv_description = Msg ''write /etc/systemd/system/{} (text below) and systemctl enable --now it'' [JStr (unit_name i)],
       pv_command = []\<rparr>]"

definition ssh_steps :: "remote_identity \<Rightarrow> remote_access \<Rightarrow> provision_step list" where
  "ssh_steps i a =
     [\<lparr>pv_kind = ''prepare-ssh-access'',
       pv_description = Msg ''create ~/.ssh of {} (mode 0700) for the operator to put the public key of the developer in authorized_keys (mode 0600); the plan never installs a key'' [JStr (ri_user i)],
       pv_command = install_dir (ri_user i) ''0700'' @ [home_path i ''.ssh'']\<rparr>,
      \<lparr>pv_kind = ''reuse-sshd'',
       pv_description = Msg ''no new service: VS Code Remote-SSH connects over the existing sshd of the host as {}; confirm sshd listens on {} and {} may log in''
         [JStr (ri_user i), JStr (ra_bind a), JStr (ri_user i)],
       pv_command = [''sshd'', ''-T'']\<rparr>]"

definition plan_of :: "station_profile \<Rightarrow> provision_plan" where
  "plan_of p =
     (let i = sn_identity p; a = sn_access p; editor = (ra_kind a = ''code-server'') in
      \<lparr>pn_profile = p,
       pn_steps = account_steps i (ra_kind a = ''ssh-remote'') @ map tool_step (sn_tools p) @
         (if editor then editor_steps i else ssh_steps i a),
       pn_unit_name = unit_name i,
       pn_unit_text = (if editor then systemd_unit_text p else [])\<rparr>)"

definition build_provision_plan :: "station_profile \<Rightarrow> preflight_check list option \<Rightarrow> provision_plan result" where
  "build_provision_plan p preflight =
     (case preflight of
        Some cs \<Rightarrow> if \<not> report_ok cs then
            config_error [Msg ''refusing to build a provision plan over a failed preflight ({})''
              (map (\<lambda>c. JStr (pf_name c)) (report_failures cs))]
          else Ok (plan_of p)
      | None \<Rightarrow> Ok (plan_of p))"

end
