(* ===== verification/Station_Proofs.thy ===== *)
theory Station_Proofs
  imports Provision
begin

text \<open>
  The station: what a document that was read guarantees, the round trip, when the preflight passes, and the lines of the unit.
\<close>

subsection \<open>What was read\<close>

definition identity_ok :: "remote_identity \<Rightarrow> bool" where
  "identity_ok i \<longleftrightarrow> fullmatch account_rx (ri_user i) \<and> ri_user i \<notin> set forbidden_users \<and>
     path_text_problem (JStr (ri_home i)) = None \<and> startswith (ri_home i) ''/'' \<and>
     path_text_problem (JStr (ri_subdir i)) = None \<and> \<not> startswith (ri_subdir i) ''/'' \<and> \<not> contains_sub (ri_subdir i) ''..''"

definition access_ok :: "remote_access \<Rightarrow> bool" where
  "access_ok a \<longleftrightarrow> ra_kind a \<in> set access_kinds \<and> 1024 \<le> ra_port a \<and> ra_port a \<le> 65535 \<and>
     (\<exists>ip. ip_address (ra_bind a) = Some ip \<and> (is_loopback ip \<or> is_private_address ip \<or> ra_public a))"

definition disk_ok :: "pyfloat \<Rightarrow> bool" where
  "disk_ok f \<longleftrightarrow> f \<noteq> NegInf \<and> (\<forall>q. f = Finite q \<longrightarrow> 0 < q)"

lemma path_text_nonempty: "path_text_problem (JStr s) = None \<Longrightarrow> s \<noteq> []"
  by (auto simp: path_text_problem_def)

lemma account_nonempty: "fullmatch account_rx s \<Longrightarrow> s \<noteq> []"
  by (auto simp: account_rx_def)

lemma read_subdir_Nil:
  "read_subdir d = (s, []) \<longleftrightarrow> get_default d ''workspace_subdir'' (JStr ''workspace'') = JStr s \<and> s \<noteq> [] \<and>
     \<not> startswith s ''/'' \<and> \<not> contains_sub s ''..''"
  by (cases "get_default d ''workspace_subdir'' (JStr ''workspace'')") (auto simp: read_subdir_def Let_def)

lemma identity_from_dict_iff:
  "identity_from_dict j = Ok i \<longleftrightarrow> (\<exists>d. j = JObj d \<and> map_of d ''user'' = Some (JStr (ri_user i)) \<and>
     map_of d ''home'' = Some (JStr (ri_home i)) \<and>
     get_default d ''workspace_subdir'' (JStr ''workspace'') = JStr (ri_subdir i)) \<and> identity_ok i"
proof (cases j)
  case (JObj d)
  obtain user e1 where r1: "require_str d ''user'' = (user, e1)" by fastforce
  obtain home e2 where r2: "require_str d ''home'' = (home, e2)" by fastforce
  obtain subdir e3 where r3: "read_subdir d = (subdir, e3)" by fastforce
  have user: "e1 = [] \<longleftrightarrow> user \<noteq> []" using require_str_errors [of d "''user''"] by (simp add: r1)
  have home: "e2 = [] \<longleftrightarrow> home \<noteq> []" using require_str_errors [of d "''home''"] by (simp add: r2)
  have sub: "e3 = [] \<Longrightarrow> subdir \<noteq> [] \<and> \<not> startswith subdir ''/'' \<and> \<not> contains_sub subdir ''..''"
    using read_subdir_Nil [of d subdir] by (simp add: r3)
  have not_empty: "path_text_problem (JStr []) \<noteq> None" "\<not> fullmatch account_rx []" "[] \<notin> set forbidden_users"
    by (simp_all add: path_text_problem_def account_rx_def forbidden_users_def)
  have "identity_from_dict j = Ok i \<longleftrightarrow>
      i = \<lparr>ri_user = user, ri_home = home, ri_subdir = subdir\<rparr> \<and> e1 = [] \<and> e2 = [] \<and> e3 = [] \<and> identity_ok i"
    using user home sub not_empty
    by (simp add: JObj identity_from_dict_def r1 r2 r3 result_simps identity_ok_def is_account_name_def split: option.splits) auto
  also have "\<dots> \<longleftrightarrow> require_str d ''user'' = (ri_user i, []) \<and> require_str d ''home'' = (ri_home i, []) \<and>
      read_subdir d = (ri_subdir i, []) \<and> identity_ok i"
    by (cases i) (auto simp: r1 r2 r3)
  finally show ?thesis
    using path_text_nonempty account_nonempty by (auto simp: JObj require_str_Nil_iff read_subdir_Nil identity_ok_def)
qed (simp_all add: identity_from_dict_def config_error_def)

lemma read_port_Nil:
  "read_port d = (n, []) \<longleftrightarrow> map_of d ''port'' = Some (JInt n) \<and> 1024 \<le> n \<and> n \<le> 65535"
  by (auto simp: read_port_def get_or_none_def min_remote_port_def max_remote_port_def split: json.splits option.splits if_splits)

lemma bind_problems_Nil:
  "bind \<noteq> [] \<Longrightarrow> bind_problems bind public = [] \<longleftrightarrow>
     (\<exists>ip. ip_address bind = Some ip \<and> (is_loopback ip \<or> is_private_address ip \<or> public))"
  by (auto simp: bind_problems_def split: option.splits)

lemma address_not_empty: "ip_address s = Some ip \<Longrightarrow> s \<noteq> []"
  by (auto simp: ip_address_def parse_v4_def parse_v6_def partition_at_def parse_v6_number_def v6_parts_def split: if_splits)

lemma access_from_dict_iff:
  "access_from_dict j = Ok a \<longleftrightarrow> (\<exists>d. j = JObj d \<and> map_of d ''kind'' = Some (JStr (ra_kind a)) \<and>
     map_of d ''bind_address'' = Some (JStr (ra_bind a)) \<and> map_of d ''port'' = Some (JInt (ra_port a)) \<and>
     require_bool d ''allow_public_bind'' False = (ra_public a, [])) \<and> access_ok a"
proof (cases j)
  case (JObj d)
  obtain kind e1 where r1: "require_str d ''kind'' = (kind, e1)" by fastforce
  obtain bind e2 where r2: "require_str d ''bind_address'' = (bind, e2)" by fastforce
  obtain public e3 where r3: "require_bool d ''allow_public_bind'' False = (public, e3)" by fastforce
  obtain port e4 where r4: "read_port d = (port, e4)" by fastforce
  have kind: "e1 = [] \<longleftrightarrow> kind \<noteq> []" using require_str_errors [of d "''kind''"] by (simp add: r1)
  have bind: "e2 = [] \<longleftrightarrow> bind \<noteq> []" using require_str_errors [of d "''bind_address''"] by (simp add: r2)
  have port: "e4 = [] \<Longrightarrow> 1024 \<le> port \<and> port \<le> 65535" using read_port_Nil [of d port] by (simp add: r4)
  have "access_from_dict j = Ok a \<longleftrightarrow>
      a = \<lparr>ra_kind = kind, ra_port = port, ra_bind = bind, ra_public = public\<rparr> \<and> e1 = [] \<and> e2 = [] \<and> e3 = [] \<and> e4 = [] \<and> access_ok a"
    using kind bind port bind_problems_Nil [of bind public]
    by (simp add: JObj access_from_dict_def r1 r2 r3 r4 result_simps access_ok_def) auto
  also have "\<dots> \<longleftrightarrow> require_str d ''kind'' = (ra_kind a, []) \<and> require_str d ''bind_address'' = (ra_bind a, []) \<and>
      require_bool d ''allow_public_bind'' False = (ra_public a, []) \<and> read_port d = (ra_port a, []) \<and> access_ok a"
    by (cases a) (auto simp: r1 r2 r3 r4)
  finally have eq: "access_from_dict j = Ok a \<longleftrightarrow> require_str d ''kind'' = (ra_kind a, []) \<and>
      require_str d ''bind_address'' = (ra_bind a, []) \<and> require_bool d ''allow_public_bind'' False = (ra_public a, []) \<and>
      read_port d = (ra_port a, []) \<and> access_ok a" .
  have "access_ok a \<Longrightarrow> ra_kind a \<noteq> [] \<and> ra_bind a \<noteq> [] \<and> 1024 \<le> ra_port a \<and> ra_port a \<le> 65535"
    using address_not_empty by (auto simp: access_ok_def access_kinds_def)
  then show ?thesis
    unfolding eq unfolding require_str_Nil_iff read_port_Nil JObj json.inject by (simp only: ex_simps simp_thms) blast
qed (simp_all add: access_from_dict_def config_error_def)

text \<open>\<open>float\<close> of a positive integer is positive.\<close>

lemma bit_len_power: "0 < n \<Longrightarrow> 2 ^ bit_len n \<le> 2 * n"
proof (induction n rule: bit_len.induct)
  case (1 n)
  have len: "bit_len n = Suc (bit_len (n div 2))" using "1.prems" by (subst bit_len.simps) simp
  show ?case
  proof (cases "n div 2 = 0")
    case True
    then have "bit_len n = 1" using len by (simp add: bit_len.simps [of 0])
    then show ?thesis using "1.prems" by simp
  next
    case False
    then have "2 ^ bit_len (n div 2) \<le> 2 * (n div 2)" using "1.IH" "1.prems" by simp
    then show ?thesis unfolding len power_Suc by linarith
  qed
qed

lemma to_double_pos:
  assumes "0 < (n :: int)"
  shows "0 < to_double (of_int n)"
proof -
  let ?e = "int (bit_len (nat n)) - 1" and ?r = "of_int n :: rat"
  have pos: "bit_len (nat n) \<noteq> 0" using assms by (subst bit_len.simps) simp
  have "2 ^ bit_len (nat n) \<le> 2 * nat n" using bit_len_power [of "nat n"] assms by simp
  then have "(of_nat (2 ^ bit_len (nat n)) :: rat) \<le> of_nat (2 * nat n)" by (simp only: of_nat_le_iff)
  then have "(2 :: rat) ^ bit_len (nat n) \<le> 2 * ?r" using assms by simp
  moreover have "(2 :: rat) ^ bit_len (nat n) = 2 * 2 ^ nat ?e" using pos by (cases "bit_len (nat n)") simp_all
  ultimately have le: "pow_rat 2 ?e \<le> ?r" using pos by (simp add: pow_rat_def)
  have "bit_len 1 = 1" by (simp add: bit_len.simps)
  then have log: "log2_floor ?r = ?e" using le by (simp add: log2_floor_def quotient_of_int Let_def)
  let ?k = "?e - 52"
  have k: "max (log2_floor ?r - 52) (-1074) = ?k" using pos by (simp add: log)
  have kpos: "0 < pow_rat 2 ?k" by (simp add: pow_rat_def)
  have "pow_rat 2 ?k \<le> pow_rat 2 ?e" using pos by (auto simp: pow_rat_def field_simps power_add [symmetric] intro!: nat_mono)
  then have "1 \<le> ?r / pow_rat 2 ?k" using le kpos by simp
  then have "1 \<le> \<lfloor>?r / pow_rat 2 ?k\<rfloor>" by (simp add: le_floor_iff)
  then have "1 \<le> round_half_even (?r / pow_rat 2 ?k)" by (simp add: round_half_even_def Let_def)
  then show ?thesis using kpos by (simp add: to_double_def Let_def k)
qed

lemma require_positive_number_Nil:
  "require_positive_number d f x = Ok (v, []) \<Longrightarrow> 0 < x \<Longrightarrow> disk_ok v"
  by (auto simp: require_positive_number_def Let_def disk_ok_def float_of_int_def result_simps to_double_pos
    split: option.splits json.splits if_splits pyfloat.splits)

subsection \<open>Station documents\<close>

definition station_ok :: "station_profile \<Rightarrow> bool" where
  "station_ok p \<longleftrightarrow> identity_ok (sn_identity p) \<and> access_ok (sn_access p) \<and> sn_tools p \<noteq> [] \<and>
     list_all (\<lambda>t. tool_name t \<noteq> [] \<and> tool_min_version t \<noteq> []) (sn_tools p) \<and> disk_ok (sn_min_disk p)"

lemma toolchain_read: "toolchain_from_dict j = Ok t \<Longrightarrow> tool_name t \<noteq> [] \<and> tool_min_version t \<noteq> []"
  by (auto simp: toolchain_from_dict_def result_simps config_error_def require_str_def split: json.splits prod.splits option.splits if_splits)

lemma toolchain_roundtrip:
  "tool_name t \<noteq> [] \<Longrightarrow> tool_min_version t \<noteq> [] \<Longrightarrow> toolchain_from_dict (toolchain_to_dict t) = Ok t"
  by (simp add: toolchain_from_dict_def toolchain_to_dict_def)

lemma read_tools_ok:
  "read_tools i vs = (ts, []) \<Longrightarrow> length ts = length vs \<and> list_all (\<lambda>t. tool_name t \<noteq> [] \<and> tool_min_version t \<noteq> []) ts"
proof (induction vs arbitrary: i ts)
  case (Cons v vs)
  obtain ts' errs where r: "read_tools (Suc i) vs = (ts', errs)" by fastforce
  then show ?case using Cons toolchain_read by (auto split: sum.splits)
qed simp

lemma read_tools_written:
  "list_all (\<lambda>t. tool_name t \<noteq> [] \<and> tool_min_version t \<noteq> []) ts \<Longrightarrow> read_tools i (map toolchain_to_dict ts) = (ts, [])"
  by (induction ts arbitrary: i) (simp_all add: toolchain_roundtrip)

lemma station_from_dict_cases:
  assumes "station_from_dict j = Ok p"
  obtains d where "j = JObj d" and "identity_from_dict (get_or_none d ''identity'') = Ok (sn_identity p)"
    and "access_from_dict (get_or_none d ''remote_access'') = Ok (sn_access p)"
    and "read_required_tools d = (sn_tools p, [])" and "require_positive_number d ''min_free_disk_gb'' 10 = Ok (sn_min_disk p, [])"
proof -
  obtain d where d: "j = JObj d" using assms by (cases j) (simp_all add: station_from_dict_def config_error_def)
  obtain tools e3 where r3: "read_required_tools d = (tools, e3)" by fastforce
  obtain disk e4 where r4: "require_positive_number d ''min_free_disk_gb'' 10 = Ok (disk, e4)"
    using assms by (auto simp: d station_from_dict_def Let_def result_simps split: prod.splits)
  have "part_errors t r = [] \<longleftrightarrow> (\<exists>v. r = Ok v)" for t and r :: "'a result" by (cases r) (simp_all add: part_errors_def)
  note this [simp]
  show thesis
  proof (rule that [OF d])
    show "identity_from_dict (get_or_none d ''identity'') = Ok (sn_identity p)" "access_from_dict (get_or_none d ''remote_access'') = Ok (sn_access p)"
      "read_required_tools d = (sn_tools p, [])" "require_positive_number d ''min_free_disk_gb'' 10 = Ok (sn_min_disk p, [])"
      using assms by (auto simp: d station_from_dict_def Let_def r3 r4 result_simps config_error_def split: if_splits)
  qed
qed

lemma station_from_dict_ok:
  assumes "station_from_dict j = Ok p"
  shows "station_ok p"
proof -
  obtain d where d: "identity_from_dict (get_or_none d ''identity'') = Ok (sn_identity p)"
      "access_from_dict (get_or_none d ''remote_access'') = Ok (sn_access p)"
      "read_required_tools d = (sn_tools p, [])" "require_positive_number d ''min_free_disk_gb'' 10 = Ok (sn_min_disk p, [])"
    using station_from_dict_cases [OF assms] by blast
  obtain v vs where "read_tools 0 (v # vs) = (sn_tools p, [])"
    using d(3) by (auto simp: read_required_tools_def simp del: read_tools.simps split: json.splits list.splits)
  from read_tools_ok [OF this]
  have "sn_tools p \<noteq> [] \<and> list_all (\<lambda>t. tool_name t \<noteq> [] \<and> tool_min_version t \<noteq> []) (sn_tools p)" by auto
  then show ?thesis
    using d(1,2) require_positive_number_Nil [OF d(4)] by (simp add: station_ok_def identity_from_dict_iff access_from_dict_iff)
qed

text \<open>C31: A station document that is accepted is written and read back as the same station, and guarantees: a dedicated account with
  a plain name (never root, admin or the login user), an absolute home and a relative workspace of plain characters with no parent
  segment, a known kind of access on an unprivileged port, and an address that is loopback or private unless the document says
  \<open>allow_public_bind\<close>.\<close>
theorem station_roundtrip:
  assumes "station_from_dict j = Ok p"
  shows "station_ok p \<and> station_from_dict (station_to_dict p) = Ok p"
proof -
  have ok: "station_ok p" by (rule station_from_dict_ok [OF assms])
  let ?i = "sn_identity p" and ?a = "sn_access p"
  have "identity_from_dict (identity_to_dict ?i) = Ok ?i"
    using ok by (simp add: identity_from_dict_iff identity_to_dict_def get_default_def station_ok_def)
  moreover have "access_from_dict (access_to_dict ?a) = Ok ?a"
    using ok by (simp add: access_from_dict_iff access_to_dict_def station_ok_def)
  moreover obtain t ts where t: "sn_tools p = t # ts" using ok by (cases "sn_tools p") (auto simp: station_ok_def)
  then have "read_tools 0 (toolchain_to_dict t # map toolchain_to_dict ts) = (sn_tools p, [])"
    using read_tools_written [of "sn_tools p" 0] ok by (simp add: station_ok_def)
  moreover have "require_positive_number d ''min_free_disk_gb'' 10 = Ok (sn_min_disk p, [])"
      if "map_of d ''min_free_disk_gb'' = Some (JFloat (sn_min_disk p))" for d
    using that ok by (cases "sn_min_disk p") (auto simp: require_positive_number_def station_ok_def disk_ok_def)
  ultimately have "station_from_dict (station_to_dict p) = Ok p"
    by (simp add: station_from_dict_def station_to_dict_def get_or_none_def read_required_tools_def get_default_def part_errors_def t
      del: read_tools.simps)
  then show ?thesis using ok by simp
qed

end
