(* ===== verification/Station_Guarantees.thy ===== *)
theory Station_Guarantees
  imports Station_Proofs
begin

text \<open>
  What a preflight on the system inspector guarantees to a plan, the lines of the unit, and three documents that the readers accept
  although their rules say otherwise.
\<close>

subsection \<open>A ready host\<close>

lemma nearest_Some: "nearest exists p = Some q \<Longrightarrow> exists q \<and> q \<noteq> [] \<and> (\<exists>t. p = q @ t)"
proof (induction exists p rule: nearest.induct)
  case (1 exists p)
  obtain t where t: "p = dirname p @ t" using dirname_prefix by blast
  consider "p = []" | "p \<noteq> []" "exists p" | "p \<noteq> []" "\<not> exists p" "dirname p = p" | "p \<noteq> []" "\<not> exists p" "dirname p \<noteq> p" by blast
  then show ?case
  proof cases
    case 4
    then have "nearest exists p = nearest exists (dirname p)" by (subst nearest.simps) simp
    then obtain u where "exists q" "q \<noteq> []" "dirname p = q @ u" using "1.IH" 4 "1.prems" by metis
    then show ?thesis using t by (metis append.assoc)
  qed (use "1.prems" nearest.simps [of exists p] in auto)
qed

definition dedicated :: "sys_host \<Rightarrow> string \<Rightarrow> passwd_entry \<Rightarrow> bool \<Rightarrow> bool" where
  "dedicated y user e ssh \<longleftrightarrow> pw_uid e \<noteq> 0 \<and> pw_uid e < 1000 \<and>
     (if ssh then pw_shell e \<noteq> [] \<and> \<not> endswith (pw_shell e) ''nologin'' \<and> \<not> endswith (pw_shell e) ''false'' \<and> sys_keys y user
      else endswith (pw_shell e) ''nologin'' \<or> endswith (pw_shell e) ''false'')"

definition ready :: "sys_host \<Rightarrow> station_profile \<Rightarrow> bool" where
  "ready y p \<longleftrightarrow> (let i = sn_identity p; a = sn_access p in
     version_ge (sy_python y) (3, 11, 0) \<and>
     (\<exists>probe. nearest (sys_exists y) (workspace_path i) = Some probe \<and>
        at_least (of_nat (sy_free y probe) / 1073741824) (sn_min_disk p)) \<and>
     (\<forall>t \<in> set (sn_tools p). tool_required t \<longrightarrow> sy_which y (tool_name t) \<noteq> None) \<and>
     sys_port_free y (ra_bind a) (ra_port a) \<and> (is_loopback_or_private a \<or> ra_public a) \<and>
     (case sy_passwd y (ri_user i) of
        None \<Rightarrow> True
      | Some e \<Rightarrow> sys_writable_by y (workspace_path i) (ri_user i) \<and> dedicated y (ri_user i) e (ra_kind a = ''ssh-remote'')))"

lemma plain_check_ok [simp]: "pf_ok (plain_check n ok m) = ok" "pf_ok (created_check n m)"
  by (simp_all add: plain_check_def created_check_def)

lemma identity_check_ok:
  "pf_ok (identity_check p (system_host y) (sy_passwd y (ri_user (sn_identity p)) \<noteq> None)) \<longleftrightarrow>
     (case sy_passwd y (ri_user (sn_identity p)) of None \<Rightarrow> True
      | Some e \<Rightarrow> dedicated y (ri_user (sn_identity p)) e (ra_kind (sn_access p) = ''ssh-remote''))"
proof (cases "sy_passwd y (ri_user (sn_identity p))")
  case None
  then show ?thesis by (simp add: identity_check_def Let_def)
next
  case (Some e)
  then show ?thesis
    by (cases "ra_kind (sn_access p) = ''ssh-remote''")
      (auto simp: identity_check_def Let_def system_host_def sys_system_account_def dedicated_def ssh_problems_def sys_uid_def sys_shell_def)
qed

lemma preflight_ready: "report_ok (run_preflight p (system_host y) min_python) \<longleftrightarrow> ready y p"
proof -
  let ?user = "ri_user (sn_identity p)" and ?h = "system_host y"
  have exists: "hi_user_exists ?h ?user \<longleftrightarrow> sy_passwd y ?user \<noteq> None" by (simp add: system_host_def)
  have "report_ok (run_preflight p ?h min_python) \<longleftrightarrow> pf_ok (python_check ?h min_python) \<and> pf_ok (disk_check p ?h) \<and>
      pf_ok (writable_check p ?h (sy_passwd y ?user \<noteq> None)) \<and> (\<forall>t \<in> set (sn_tools p). pf_ok (tool_check ?h t)) \<and>
      pf_ok (port_check p ?h) \<and> pf_ok (bind_check p) \<and> pf_ok (identity_check p ?h (sy_passwd y ?user \<noteq> None))"
    unfolding run_preflight_def Let_def exists by (simp add: report_ok_def list_all_iff) blast
  also have "\<dots> \<longleftrightarrow> ready y p"
    unfolding identity_check_ok ready_def Let_def
    by (auto simp: python_check_def min_python_def disk_check_def sys_free_disk_def writable_check_def tool_check_def port_check_def
      bind_check_def system_host_def Let_def split: option.splits)
  finally show ?thesis .
qed

text \<open>A plan is only made for a host that is ready: over the preflight of the real inspector, the plan is handed back exactly
  when Python, the free disk, every required tool, the port and the address are as asked and the account is either not there yet or
  a dedicated one (below uid 1000 and not root, with the shell its kind of access needs) that can write to the workspace; otherwise
  building the plan raises \<open>ConfigValidationError\<close>.\<close>
theorem plan_only_for_a_ready_host:
  "case build_provision_plan p (Some (run_preflight p (system_host y) min_python)) of
     Inr plan \<Rightarrow> ready y p \<and> plan = plan_of p
   | Inl e \<Rightarrow> \<not> ready y p \<and> exn_class_of e = ConfigValidationError"
  by (simp add: build_provision_plan_def preflight_ready config_error_def)

subsection \<open>The lines of the unit\<close>

lemma plain_has_no_newline:
  "path_text_problem (JStr s) = None \<Longrightarrow> newline \<notin> set s" "fullmatch account_rx s \<Longrightarrow> newline \<notin> set s"
proof -
  assume "path_text_problem (JStr s) = None"
  then have "list_all path_text_char s"
    by (auto simp: path_text_problem_def fullmatch_path_text split: if_splits)
  moreover have "\<not> path_text_char newline"
    by (simp add: path_text_char_def is_alnum_def is_digit_def is_lower_def is_upper_def newline_def)
  ultimately show "newline \<notin> set s" by (auto simp: list_all_iff)
next
  let ?P = "\<lambda>c. is_lower c \<or> is_digit c \<or> c = CHR ''_'' \<or> c = CHR ''-''"
  assume "fullmatch account_rx s"
  then have "list_all ?P s" by (cases s) (auto simp: account_rx_def rx_class_simps)
  moreover have "\<not> ?P newline" by (simp add: is_digit_def is_lower_def newline_def)
  ultimately show "newline \<notin> set s" by (auto simp: list_all_iff)
qed

lemma address_has_no_newline: "ip_address s = Some ip \<Longrightarrow> CHR ''%'' \<notin> set s \<Longrightarrow> newline \<notin> set s"
  using ip_address_chars [of s ip] by (auto simp: list_all_iff address_char_def hex_value_def newline_def)

lemma int_str_digits: "0 \<le> n \<Longrightarrow> newline \<notin> set (int_str n)"
proof -
  have "\<forall>c \<in> set (nat_str k). \<exists>m < 10. c = digit_char m" for k
  proof (induction k rule: nat_str.induct)
    case (1 k)
    have "k mod 10 < 10" by simp
    then show ?case using 1 by (subst nat_str.simps) (auto intro!: exI [of _ "k mod 10"])
  qed
  moreover have "m < 10 \<Longrightarrow> digit_char m \<noteq> newline" for m :: nat
    by (auto simp: digit_char_def newline_def dest!: arg_cong [where f = "of_char :: char \<Rightarrow> nat"])
  ultimately have "newline \<notin> set (nat_str k)" for k by metis
  then show "0 \<le> n \<Longrightarrow> newline \<notin> set (int_str n)" by (simp add: int_str_def)
qed

lemma set_rstrip_char: "set (rstrip_char c s) \<subseteq> set s"
  using rstrip_char_prefix [of s c] by (metis Un_upper1 set_append)

lemma unit_lines_plain:
  assumes "station_ok p" and "newline \<notin> set (ra_bind (sn_access p))"
  shows "\<forall>l \<in> set (unit_lines p). newline \<notin> set l"
proof -
  let ?i = "sn_identity p" and ?a = "sn_access p"
  have plain: "newline \<notin> set (ri_user ?i)" "newline \<notin> set (ri_home ?i)" "newline \<notin> set (ri_subdir ?i)"
    using assms(1) plain_has_no_newline by (simp_all add: station_ok_def identity_ok_def)
  have base: "newline \<notin> set (rstrip_char slash (ri_home ?i))" using plain(2) set_rstrip_char by blast
  have kind: "newline \<notin> set (ra_kind ?a)" using assms(1) by (auto simp: station_ok_def access_ok_def access_kinds_def newline_def)
  have port: "newline \<notin> set (int_str (ra_port ?a))" using assms(1) int_str_digits by (simp add: station_ok_def access_ok_def)
  have workspace: "newline \<notin> set (workspace_path ?i)" using plain by (simp add: workspace_path_def newline_def)
  have home: "newline \<notin> set (home_path ?i r)" if "newline \<notin> set r" for r
    using base that by (simp add: home_path_def newline_def)
  have fixed: "newline \<notin> set config_dir" "newline \<notin> set data_dir" "newline \<notin> set env_file_name" "newline \<notin> set code_server_exec"
    by (simp_all add: config_dir_def data_dir_def env_file_name_def code_server_exec_def newline_def)
  show ?thesis
    using plain base kind port workspace home [OF fixed(1)] home [OF fixed(2)] home [OF fixed(3)] fixed assms(2)
    by (simp add: unit_lines_def Let_def newline_def)
qed

text \<open>C30: The systemd unit of an accepted station holds the lines the code writes and no other: when the address has no zone, the
  text split at its newlines is exactly the list of lines, so no field of the document adds a directive, and the account of the unit
  is the one of the document, not root.\<close>
theorem unit_holds_only_its_lines:
  assumes "station_from_dict j = Ok p" and "CHR ''%'' \<notin> set (ra_bind (sn_access p))"
  shows "split_on newline (systemd_unit_text p) = unit_lines p \<and>
    filter (\<lambda>l. startswith l ''User='') (split_on newline (systemd_unit_text p)) = [''User='' @ ri_user (sn_identity p)] \<and>
    ri_user (sn_identity p) \<noteq> ''root''"
proof -
  have ok: "station_ok p" by (rule station_from_dict_ok [OF assms(1)])
  then obtain ip where "ip_address (ra_bind (sn_access p)) = Some ip" by (auto simp: station_ok_def access_ok_def)
  then have "newline \<notin> set (ra_bind (sn_access p))" using assms(2) by (rule address_has_no_newline)
  then have "split_on newline (systemd_unit_text p) = unit_lines p"
    unfolding systemd_unit_text_def using unit_lines_plain [OF ok] by (intro split_join) (simp_all add: unit_lines_def Let_def)
  moreover have "filter (\<lambda>l. startswith l ''User='') (unit_lines p) = [''User='' @ ri_user (sn_identity p)]"
    by (simp add: unit_lines_def Let_def startswith_def)
  moreover have "ri_user (sn_identity p) \<noteq> ''root''" using ok by (auto simp: station_ok_def identity_ok_def forbidden_users_def)
  ultimately show ?thesis by simp
qed

definition sample_station_doc :: "string \<Rightarrow> string \<Rightarrow> json" where
  "sample_station_doc bind tool = JObj
     [(''identity'', JObj [(''user'', JStr ''dev''), (''home'', JStr ''/srv/dev'')]),
      (''remote_access'', JObj [(''kind'', JStr ''code-server''), (''port'', JInt 8443), (''bind_address'', JStr bind)]),
      (''required_tools'', JArr [JObj [(''name'', JStr tool), (''min_version'', JStr ''1'')]])]"

definition sample_station_profile :: "string \<Rightarrow> string \<Rightarrow> station_profile" where
  "sample_station_profile bind tool =
     \<lparr>sn_identity = \<lparr>ri_user = ''dev'', ri_home = ''/srv/dev'', ri_subdir = ''workspace''\<rparr>,
      sn_access = \<lparr>ra_kind = ''code-server'', ra_port = 8443, ra_bind = bind, ra_public = False\<rparr>,
      sn_tools = [\<lparr>tool_name = tool, tool_min_version = ''1'', tool_required = True\<rparr>], sn_min_disk = Finite 10\<rparr>"

lemma sample_station_read:
  assumes "ip_address bind = Some ip" and "is_loopback ip \<or> is_private_address ip" and "tool \<noteq> []"
  shows "station_from_dict (sample_station_doc bind tool) = Ok (sample_station_profile bind tool)"
proof -
  have "identity_from_dict (JObj [(''user'', JStr ''dev''), (''home'', JStr ''/srv/dev'')]) =
      Ok \<lparr>ri_user = ''dev'', ri_home = ''/srv/dev'', ri_subdir = ''workspace''\<rparr>"
    by code_simp
  moreover have "access_from_dict (JObj [(''kind'', JStr ''code-server''), (''port'', JInt 8443), (''bind_address'', JStr bind)]) =
      Ok \<lparr>ra_kind = ''code-server'', ra_port = 8443, ra_bind = bind, ra_public = False\<rparr>"
    using assms(1,2) by (simp add: access_from_dict_iff access_ok_def access_kinds_def require_bool_def)
  ultimately show ?thesis
    using assms(3)
    by (simp add: station_from_dict_def sample_station_doc_def sample_station_profile_def get_or_none_def get_default_def
      read_required_tools_def part_errors_def require_positive_number_def toolchain_from_dict_def require_bool_def)
qed

lemma sample_addresses:
  "ip_address ''127.0.0.1'' = Some (V4 0x7F000001)" "is_loopback (V4 0x7F000001)"
  by code_simp+

lemma unit_holds_only_its_lines_witness:
  "split_on newline (systemd_unit_text (sample_station_profile ''127.0.0.1'' ''git'')) = unit_lines (sample_station_profile ''127.0.0.1'' ''git'')"
  using unit_holds_only_its_lines [OF sample_station_read [OF sample_addresses(1)]] sample_addresses(2)
  by (simp add: sample_station_profile_def)

lemma station_roundtrip_witness:
  "station_from_dict (station_to_dict (sample_station_profile ''127.0.0.1'' ''git'')) = Ok (sample_station_profile ''127.0.0.1'' ''git'')"
  using station_roundtrip [OF sample_station_read [OF sample_addresses(1)]] sample_addresses(2) by simp

subsection \<open>Documents that pass\<close>

lemma split_concat: "ls \<noteq> [] \<Longrightarrow> split_on c (join_with [c] ls) = concat (map (split_on c) ls)"
proof (induction ls)
  case (Cons l ls)
  then show ?case by (cases ls) (simp_all add: split_on_append_sep)
qed simp

lemma unit_split: "split_on newline (systemd_unit_text p) = concat (map (split_on newline) (unit_lines p))"
proof -
  have "unit_lines p \<noteq> []" by (simp add: unit_lines_def Let_def)
  then show ?thesis unfolding systemd_unit_text_def by (rule split_concat)
qed

text \<open>The zone of an IPv6 address is any text: newlines in it start directives of their own in the unit, here one that makes it run
  as root.\<close>

definition zoned :: string where
  "zoned = ''::1%x'' @ newline # ''User=root'' @ newline # ''X-A=''"

lemma zoned_address: "ip_address zoned = Some (V6 1 (Some (''x'' @ newline # ''User=root'' @ newline # ''X-A='')))"
  by code_simp

lemma unit_split_line:
  "l \<in> set (unit_lines p) \<Longrightarrow> d \<in> set (split_on newline l) \<Longrightarrow> d \<in> set (split_on newline (systemd_unit_text p))"
  by (auto simp: unit_split)

definition exec_line :: "station_profile \<Rightarrow> string" where
  "exec_line p = ''ExecStart='' @ code_server_exec @ '' --bind-addr '' @ ra_bind (sn_access p) @ '':'' @ int_str (ra_port (sn_access p)) @
     '' --auth password --disable-telemetry''"

lemma exec_line_there: "exec_line p \<in> set (unit_lines p)"
  unfolding exec_line_def unit_lines_def Let_def by (simp only: list.set insert_iff simp_thms)

lemma sample_port: "int_str 8443 = ''8443''"
proof -
  have "digit_char 8 = CHR ''8''" "digit_char 4 = CHR ''4''" "digit_char 3 = CHR ''3''" by code_simp+
  then show ?thesis by (simp add: int_str_def nat_str.simps)
qed

lemma zone_adds_a_directive:
  "station_from_dict (sample_station_doc zoned ''git'') = Ok (sample_station_profile zoned ''git'') \<and>
   ''User=root'' \<in> set (split_on newline (systemd_unit_text (sample_station_profile zoned ''git'')))"
proof -
  let ?p = "sample_station_profile zoned ''git''" and ?line = "''ExecStart=/usr/bin/code-server --bind-addr '' @ zoned @ '':8443 --auth password --disable-telemetry''"
  have "exec_line ?p = ?line"
    by (simp add: exec_line_def sample_station_profile_def code_server_exec_def sample_port)
  then have "?line \<in> set (unit_lines ?p)" using exec_line_there [of ?p] by simp
  moreover have "''User=root'' \<in> set (split_on newline ?line)" by code_simp
  ultimately have "''User=root'' \<in> set (split_on newline (systemd_unit_text ?p))" by (rule unit_split_line)
  then show ?thesis using sample_station_read [OF zoned_address] by simp
qed

text \<open>\<open>0.0.0.0\<close> (every interface) is private for the reader of the document, and only the preflight refuses it.\<close>

lemma every_interface_is_private:
  "ip_address ''0.0.0.0'' = Some (V4 0)" "bind_problems ''0.0.0.0'' False = []"
  "\<not> is_loopback_or_private \<lparr>ra_kind = ''code-server'', ra_port = 8443, ra_bind = ''0.0.0.0'', ra_public = False\<rparr>"
  by code_simp+

text \<open>The name of a tool is any text: one that starts with a hyphen is an option of \<open>apt-get\<close> in the plan.\<close>

lemma tool_name_is_an_option:
  "\<exists>step \<in> set (pn_steps (plan_of (sample_station_profile ''127.0.0.1'' ''--allow-unauthenticated''))).
     pv_command step = [''apt-get'', ''install'', ''--yes'', ''--allow-unauthenticated'']"
  by (simp add: plan_of_def Let_def sample_station_profile_def tool_step_def)

end
