(* ===== verification/Ai_Provider_Proofs.thy ===== *)
theory Ai_Provider_Proofs
  imports Ai_Provider
begin

text \<open>
  The contract of a provider step: what each outcome means, the budget over a run of steps, and where the code leaves it.
\<close>

subsection \<open>The result of a step\<close>

lemma not_suggested_simps [simp]:
  "pr_outcome (not_suggested out u ms) = out" "pr_text (not_suggested out u ms) = []" "pr_usage (not_suggested out u ms) = u"
  "pr_no_permissions (not_suggested out u ms)" "pr_no_deploy (not_suggested out u ms)" "\<not> pr_flagged (not_suggested out u ms)"
  by (simp_all add: not_suggested_def)

lemma failed_step_simps [simp]:
  "pr_outcome (failed_step u e) \<noteq> Suggested" "pr_text (failed_step u e) = []" "pr_usage (failed_step u e) = u"
  "pr_no_permissions (failed_step u e)" "pr_no_deploy (failed_step u e)" "\<not> pr_flagged (failed_step u e)"
  by (cases e; simp add: failed_step_def)+

lemma suggest_simps [simp]:
  "pr_outcome (suggest u t) = Suggested" "pr_text (suggest u t) = take 8192 t" "pr_usage (suggest u t) = u"
  "pr_no_permissions (suggest u t)" "pr_no_deploy (suggest u t)" "pr_flagged (suggest u t) = rx_search injection_rx (take 8192 t)"
  by (simp_all add: suggest_def Let_def max_suggestion_chars_def)

text \<open>A completion as it may be used: a text, and two non-negative numbers that a float can hold.\<close>

definition completion_of :: "string \<Rightarrow> rat \<Rightarrow> rat \<Rightarrow> raw_completion \<Rightarrow> bool" where
  "completion_of t tokens cost c \<longleftrightarrow> rc_text c = JStr t \<and> strip t \<noteq> [] \<and> usage_problem c = Ok (Inr (tokens, cost))"

lemma usage_number_nonneg: "usage_number v = Ok (Some q) \<Longrightarrow> 0 \<le> q"
  by (auto simp: usage_number_def result_simps split: json.splits pyfloat.splits if_splits)

lemma usage_problem_nonneg: "usage_problem c = Ok (Inr (t, q)) \<Longrightarrow> 0 \<le> t \<and> 0 \<le> q"
  by (auto simp: usage_problem_def result_simps dest!: usage_number_nonneg split: option.splits)

lemma take_completion_cases:
  assumes "take_completion usage left c = Ok r"
  obtains (turned_away) out u ms where "out \<noteq> Suggested" "r = not_suggested out u ms" 
      "u = usage \<or> (\<exists>tokens cost. 0 \<le> tokens \<and> 0 \<le> cost \<and> u = usage_plus usage tokens cost)"
  | (used) rc t tokens cost where "c = Some rc" "completion_of t tokens cost rc" "tokens \<le> fst left" "\<not> goes_past cost (snd left)"
      "r = suggest (usage_plus usage tokens cost) t"
proof (cases "usable_text c")
  case False
  then have "r = not_suggested Rejected usage [Msg ''provider returned an unusable completion'' []]"
    using assms by (simp add: take_completion_def)
  then show thesis by (rule turned_away [of Rejected, rotated]) simp_all
next
  case True
  then obtain rc t where rc: "c = Some rc" "rc_text rc = JStr t" "strip t \<noteq> []"
    by (cases c) (auto simp: usable_text_def split: json.splits, metis is_str.elims(2) str_of.simps(1))
  obtain p where p: "usage_problem rc = Ok p" using assms True rc(1) by (auto simp: take_completion_def result_simps)
  show thesis
  proof (cases p)
    case (Inl why)
    then have "r = not_suggested Rejected usage [why]" using assms True rc(1) p by (simp add: take_completion_def)
    then show thesis by (rule turned_away [of Rejected, rotated]) simp_all
  next
    case (Inr pair)
    obtain tokens cost where q: "pair = (tokens, cost)" by (cases pair)
    show thesis
    proof (cases "tokens > fst left \<or> goes_past cost (snd left)")
      case True
      then have "\<exists>ms. r = not_suggested Budget_exhausted (usage_plus usage tokens cost) ms"
        using assms \<open>usable_text c\<close> rc(1) p Inr q by (auto simp: take_completion_def Let_def)
      then obtain ms where "r = not_suggested Budget_exhausted (usage_plus usage tokens cost) ms" ..
      then show thesis
        by (rule turned_away [of Budget_exhausted, rotated]) (use usage_problem_nonneg [of rc tokens cost] p Inr q in auto)
    next
      case False
      then have "r = suggest (usage_plus usage tokens cost) t"
        using assms \<open>usable_text c\<close> rc(1,2) p Inr q by (simp add: take_completion_def Let_def)
      then show thesis using used [of rc t tokens cost] False rc p Inr q by (simp add: completion_of_def)
    qed
  qed
qed

text \<open>C32: A suggestion is inert and within the budget: whatever the provider does, a step that comes back grants no permission and
  triggers no deploy; it carries text exactly when it is a suggestion, and then the text is the first 8192 characters of what the
  provider answered, it is flagged exactly when that text matches the patterns of instruction-like text, the provider was called with
  something left of the budget, and the usage after it has not gone past the tokens and the cost allowed.\<close>
theorem suggestion_is_inert_and_in_budget:
  assumes "run_provider_step cfg call accepted prompt usage = Ok r"
  shows "pr_no_permissions r \<and> pr_no_deploy r \<and> (pr_outcome r \<noteq> Suggested \<longrightarrow> pr_text r = [] \<and> \<not> pr_flagged r) \<and>
    (pr_outcome r = Suggested \<longrightarrow>
       (\<exists>c t tokens cost. call prompt (pc_timeout cfg) (accepted_limits accepted (remaining (pc_budget cfg) usage)) = Answered (Some c) \<and>
          completion_of t tokens cost c \<and> pr_text r = take 8192 t \<and>
          pr_flagged r = rx_search injection_rx (take 8192 t) \<and> pr_usage r = usage_plus usage tokens cost \<and>
          pu_calls (pr_usage r) \<le> pb_calls (pc_budget cfg) \<and> pu_tokens (pr_usage r) \<le> of_int (pb_tokens (pc_budget cfg)) \<and>
          (\<forall>b. pb_cost (pc_budget cfg) = Finite b \<longrightarrow> pu_cost (pr_usage r) \<le> b + 1 / 1000000000000)))"
proof (cases "budget_headroom (pc_budget cfg) usage")
  case (Some over)
  then have "r = not_suggested Budget_exhausted usage [over]" using assms by (simp add: run_provider_step_def)
  then show ?thesis by simp
next
  case None
  let ?b = "pc_budget cfg"
  let ?left = "remaining ?b usage"
  have room: "pu_calls usage < pb_calls ?b" "pu_tokens usage < of_int (pb_tokens ?b)" "\<not> reaches (pu_cost usage) (pb_cost ?b)"
    using None by (auto simp: budget_headroom_def split: if_splits)
  show ?thesis
  proof (cases "call prompt (pc_timeout cfg) (accepted_limits accepted ?left)")
    case Hangs
    then have "\<exists>e. r = failed_step usage e" using assms None by (auto simp: run_provider_step_def Let_def)
    then show ?thesis by auto
  next
    case (Failed_with e)
    then have "r = failed_step usage e" using assms None by (simp add: run_provider_step_def Let_def)
    then show ?thesis by simp
  next
    case (Answered c)
    then have take: "take_completion usage ?left c = Ok r" using assms None by (simp add: run_provider_step_def Let_def)
    then show ?thesis
    proof (cases rule: take_completion_cases)
      case turned_away
      then show ?thesis by simp
    next
      case (used rc t tokens cost)
      have "pu_tokens usage + tokens \<le> of_int (pb_tokens ?b)" using used(3) room(2) by (simp add: remaining_def max_def split: if_splits)
      moreover have "pu_cost usage + cost \<le> b + 1 / 1000000000000" if "pb_cost ?b = Finite b" for b
        using used(4) room(3) by (simp add: remaining_def that max_def split: if_splits)
      ultimately show ?thesis using Answered used(1,2,5) room(1) by (auto simp: usage_plus_def)
    qed
  qed
qed

subsection \<open>A run of steps\<close>

text \<open>Steps one after the other, each with the usage the last one left; the number counts the calls of providers.\<close>

fun run_steps :: "provider_config \<Rightarrow> (provider \<times> string list \<times> string) list \<Rightarrow> provider_usage \<Rightarrow> provider_usage result" where
  "run_steps cfg [] usage = Ok usage"
| "run_steps cfg ((call, accepted, prompt) # steps) usage =
     and_then (run_provider_step cfg call accepted prompt usage) (\<lambda>r. run_steps cfg steps (pr_usage r))"

lemma step_usage:
  assumes "run_provider_step cfg call accepted prompt usage = Ok r"
  shows "pr_usage r = usage \<or> (budget_headroom (pc_budget cfg) usage = None \<and> (\<exists>tokens cost. 0 \<le> tokens \<and> 0 \<le> cost \<and>
     pr_usage r = usage_plus usage tokens cost))"
proof (cases "budget_headroom (pc_budget cfg) usage")
  case (Some over)
  then show ?thesis using assms by (auto simp: run_provider_step_def)
next
  case None
  show ?thesis
  proof (cases "call prompt (pc_timeout cfg) (accepted_limits accepted (remaining (pc_budget cfg) usage))")
    case (Answered c)
    then have "take_completion usage (remaining (pc_budget cfg) usage) c = Ok r"
      using assms None by (simp add: run_provider_step_def Let_def)
    then have "pr_usage r = usage \<or> (\<exists>tokens cost. 0 \<le> tokens \<and> 0 \<le> cost \<and> pr_usage r = usage_plus usage tokens cost)"
    proof (cases rule: take_completion_cases)
      case turned_away
      then show ?thesis by simp
    next
      case (used rc t tokens cost)
      then have "0 \<le> tokens \<and> 0 \<le> cost" using usage_problem_nonneg by (auto simp: completion_of_def)
      then show ?thesis using used(5) by auto
    qed
    then show ?thesis using None by blast
  qed (use assms None in \<open>auto simp: run_provider_step_def Let_def\<close>)
qed

text \<open>Over any run of steps the calls that were counted never pass the budget, and the usage never goes down: once it has reached
  a limit no provider is called again and it stays where it is.\<close>
theorem budget_is_never_refunded:
  assumes "run_steps cfg steps usage = Ok final"
  shows "pu_calls usage \<le> pu_calls final \<and> pu_tokens usage \<le> pu_tokens final \<and> pu_cost usage \<le> pu_cost final \<and>
    pu_calls final \<le> max (pu_calls usage) (pb_calls (pc_budget cfg)) \<and>
    (budget_headroom (pc_budget cfg) usage \<noteq> None \<longrightarrow> final = usage)"
  using assms
proof (induction cfg steps usage rule: run_steps.induct)
  case (2 cfg call accepted prompt steps usage)
  then obtain r where r: "run_provider_step cfg call accepted prompt usage = Ok r" and rest: "run_steps cfg steps (pr_usage r) = Ok final"
    by (auto simp: result_simps)
  note IH = "2.IH" [OF rest]
  consider "pr_usage r = usage" | tokens cost where "budget_headroom (pc_budget cfg) usage = None" "0 \<le> tokens" "0 \<le> cost"
      "pr_usage r = usage_plus usage tokens cost"
    using step_usage [OF r] by blast
  then show ?case
  proof cases
    case 1
    then show ?thesis using IH by simp
  next
    case 2
    then have "pu_calls usage < pb_calls (pc_budget cfg)" by (auto simp: budget_headroom_def split: if_splits)
    then show ?thesis using IH 2 by (auto simp: usage_plus_def)
  qed
qed simp

subsection \<open>Samples\<close>

definition sample_config :: provider_config where
  "sample_config = \<lparr>pc_kind = ''fake'', pc_timeout = 30, pc_budget = default_budget\<rparr>"

definition short_answer :: raw_completion where
  "short_answer = \<lparr>rc_text = JStr ''ok'', rc_tokens = JInt 0, rc_cost = JFloat (Finite 0)\<rparr>"

lemma sample_step:
  "run_provider_step sample_config (\<lambda>_ _ _. Answered (Some short_answer)) [] [] no_usage =
     Ok (suggest \<lparr>pu_calls = 1, pu_tokens = 0, pu_cost = 0\<rparr> ''ok'')"
proof -
  have "strip ''ok'' = ''ok''" by code_simp
  then show ?thesis
    by (simp add: run_provider_step_def sample_config_def default_budget_def budget_headroom_def no_usage_def Let_def remaining_def
      take_completion_def usable_text_def short_answer_def usage_problem_def usage_number_def float_of_int_def usage_plus_def)
qed

lemma suggestion_is_inert_and_in_budget_witness:
  "pu_calls (pr_usage (suggest \<lparr>pu_calls = 1, pu_tokens = 0, pu_cost = 0\<rparr> ''ok'')) \<le> 4"
  using suggestion_is_inert_and_in_budget [OF sample_step] by (simp add: sample_config_def default_budget_def)

lemma sample_steps:
  "run_steps sample_config [(\<lambda>_ _ _. Answered (Some short_answer), [], [])] no_usage = Ok \<lparr>pu_calls = 1, pu_tokens = 0, pu_cost = 0\<rparr>"
  by (simp add: sample_step)

lemma budget_is_never_refunded_witness: "pu_calls \<lparr>pu_calls = 1, pu_tokens = 0, pu_cost = 0\<rparr> \<le> max 0 4"
  using budget_is_never_refunded [OF sample_steps] by (simp add: sample_config_def default_budget_def no_usage_def)

subsection \<open>Where the budget does not hold\<close>

text \<open>\<open>NaN\<close> passes as a positive number, and then no cost is too high.\<close>

lemma nan_is_a_positive_cost:
  "budget_from_dict (JObj [(''max_cost_usd'', JFloat NaN)]) = Ok \<lparr>pb_calls = 4, pb_tokens = 20000, pb_cost = NaN\<rparr>"
  "\<not> reaches cost NaN" "\<not> goes_past cost (left_of NaN used)"
  by (simp_all add: budget_from_dict_def require_positive_int_def default_budget_def read_cost_def get_default_def float_of_def)

text \<open>A call that times out or fails is not counted: a provider that only does that is called without end.\<close>

lemma failed_calls_are_not_counted:
  assumes "budget_headroom (pc_budget cfg) usage = None" and "\<And>p t l. call p t l = Failed_with (Raise ProviderTimeout ms)"
  shows "run_steps cfg (replicate n (call, accepted, prompt)) usage = Ok usage"
proof (induction n)
  case (Suc n)
  have "run_provider_step cfg call accepted prompt usage = Ok (failed_step usage (Raise ProviderTimeout ms))"
    using assms by (simp add: run_provider_step_def Let_def)
  then show ?case using Suc by simp
qed simp

text \<open>The check of the reported usage raises for an integer that no float can hold.\<close>

lemma huge_usage_raises:
  "usage_number (JInt (10 ^ 400)) = Err (Raise PyOverflowError [Msg ''int too large to convert to float'' []])"
  by (simp add: usage_number_def float_of_int_def)

end
