(* ===== verification/Url.thy ===== *)
theory Url
  imports Regex Ip_Address
begin

text \<open>
  \<open>urllib.parse.urlsplit\<close> of the standard library (CPython 3.11), as far as the code asks: scheme, host, user and password.  No
  code point below 256 becomes a delimiter under NFKC, so the check of the network location for that never fails here.
\<close>

record split_url =
  su_scheme :: string
  su_netloc :: string

text \<open>C0 controls and the space, and the characters that are taken out of a URL.\<close>

definition c0_or_space :: "char \<Rightarrow> bool" where
  "c0_or_space c = ((of_char c :: nat) \<le> 32)"

definition unsafe_url_char :: "char \<Rightarrow> bool" where
  "unsafe_url_char c = (c \<in> {CHR 0x09, CHR 0x0A, CHR 0x0D})"

definition is_letter :: "char \<Rightarrow> bool" where
  "is_letter c = (is_lower c \<or> is_upper c)"

definition scheme_char :: "char \<Rightarrow> bool" where
  "scheme_char c = (is_alnum c \<or> c \<in> {CHR ''+'', CHR ''-'', CHR ''.''})"

text \<open>The scheme and what follows it.\<close>

definition split_scheme :: "string \<Rightarrow> string \<times> string" where
  "split_scheme url = (case partition_at (CHR '':'') url of (s, sep, rest) \<Rightarrow>
     if sep \<noteq> [] \<and> s \<noteq> [] \<and> is_letter (hd s) \<and> list_all scheme_char s then (lower_str s, rest) else ([], url))"

definition ends_netloc :: "char \<Rightarrow> bool" where
  "ends_netloc c = (c \<in> {CHR ''/'', CHR ''?'', CHR ''#''})"

text \<open>\<open>s.rpartition(c)\<close>: what stands before and after the last \<open>c\<close>.\<close>

definition rpartition_at :: "char \<Rightarrow> string \<Rightarrow> string \<times> string \<times> string" where
  "rpartition_at c s = (case partition_at c (rev s) of (b, sep, a) \<Rightarrow> (rev a, sep, rev b))"

definition future_address_rx :: rx where
  "future_address_rx = rx_seq [rx_lit ''v'', rx_plus (RSet is_hex), rx_lit ''.'', rx_plus (RSet (\<lambda>c. c \<noteq> CHR 0x0A))]"

definition bracketed_ok :: "string \<Rightarrow> bool" where
  "bracketed_ok h =
     (if startswith h ''v'' then fullmatch future_address_rx h
      else (case ip_address h of Some (V6 a z) \<Rightarrow> True | _ \<Rightarrow> False))"

text \<open>\<open>None\<close>: \<open>ValueError\<close>.\<close>

definition urlsplit :: "string \<Rightarrow> split_url option" where
  "urlsplit given =
     (let url = filter (\<lambda>c. \<not> unsafe_url_char c) (dropWhile c0_or_space given);
          (scheme, rest) = split_scheme url;
          netloc = (if startswith rest ''//'' then takeWhile (\<lambda>c. \<not> ends_netloc c) (drop 2 rest) else []);
          opened = (CHR ''['' \<in> set netloc); closed = (CHR '']'' \<in> set netloc);
          host = fst (partition_at (CHR '']'') (snd (snd (partition_at (CHR ''['') netloc))))
      in if opened \<noteq> closed \<or> (opened \<and> \<not> bracketed_ok host) then None
         else Some \<lparr>su_scheme = scheme, su_netloc = netloc\<rparr>)"

text \<open>\<open>username\<close> and \<open>password\<close>, \<open>None\<close> when there is none.\<close>

definition url_username :: "split_url \<Rightarrow> string option" where
  "url_username u = (case rpartition_at (CHR ''@'') (su_netloc u) of (info, sep, host) \<Rightarrow>
     if sep = [] then None else Some (fst (partition_at (CHR '':'') info)))"

definition url_password :: "split_url \<Rightarrow> string option" where
  "url_password u = (case rpartition_at (CHR ''@'') (su_netloc u) of (info, sep, host) \<Rightarrow>
     (case partition_at (CHR '':'') info of (name, colon, pw) \<Rightarrow> if sep = [] \<or> colon = [] then None else Some pw))"

text \<open>\<open>hostname\<close>: empty for \<open>None\<close>.  A zone keeps its case.\<close>

definition url_hostname :: "split_url \<Rightarrow> string" where
  "url_hostname u =
     (let hostinfo = snd (snd (rpartition_at (CHR ''@'') (su_netloc u)));
          (before, sep, bracketed) = partition_at (CHR ''['') hostinfo;
          name = (if sep \<noteq> [] then fst (partition_at (CHR '']'') bracketed) else fst (partition_at (CHR '':'') hostinfo));
          (plain, percent, zone) = partition_at (CHR ''%'') name
      in if name = [] then [] else lower_str plain @ percent @ zone)"

end
