(* ===== verification/Scenario_Ingest.thy ===== *)
theory Scenario_Ingest
  imports Config Sha2 Url
begin

text \<open>
  \<open>scenario_ingest.py\<close>: the check of an outcome, the settings, the addresses a credential may go to, the login and the post.
  The network is an argument that answers each request; the requests made are returned with the result, in order.
\<close>

record ingest_settings =
  is_url :: string
  is_token_file :: "string option"
  is_username :: "string option"
  is_password_file :: "string option"
  is_timeout :: pyfloat
  is_plain_http :: bool

record ingest_result =
  ig_ok :: bool
  ig_status :: "int option"
  ig_detail :: msg
  ig_seq :: "int option"

definition ingest_result_to_dict :: "ingest_result \<Rightarrow> json" where
  "ingest_result_to_dict r = JObj [(''ok'', JBool (ig_ok r)), (''status'', case ig_status r of None \<Rightarrow> JNull | Some n \<Rightarrow> JInt n),
     (''detail'', msg_json (Some (ig_detail r))), (''seq'', case ig_seq r of None \<Rightarrow> JNull | Some n \<Rightarrow> JInt n)]"

definition scenario_route :: string where
  "scenario_route = ''/api/ingest/scenario-outcome''"

definition login_route :: string where
  "login_route = ''/api/login''"

definition loopback_hosts :: "string list" where
  "loopback_hosts = [''127.0.0.1'', ''::1'', ''localhost'']"

definition required_keys :: "string list" where
  "required_keys = [''schema_version'', ''scenario_id'', ''run_id'', ''base_fingerprint'', ''phase'', ''repro_case'', ''observed'', ''timestamp_utc'']"

subsection \<open>The outcome\<close>

definition outcome_problem :: "json \<Rightarrow> msg option" where
  "outcome_problem outcome = (case outcome of
     JObj d \<Rightarrow>
       (let missing = filter (\<lambda>k. map_of d k = None) required_keys;
            plain = filter (\<lambda>k. \<not> nonempty_str (get_or_none d k))
              [''scenario_id'', ''run_id'', ''base_fingerprint'', ''repro_case'', ''timestamp_utc'']
        in if missing \<noteq> [] then Some (Msg ''the outcome lacks {}'' (map JStr missing))
           else if get_or_none d ''schema_version'' \<noteq> JStr ''1.0'' then Some (Msg ''schema_version must be 1.0'' [])
           else if get_or_none d ''phase'' \<notin> {JStr ''before'', JStr ''after''} then Some (Msg ''phase must be before or after'' [])
           else (case plain of
               k # ks \<Rightarrow> Some (Msg ''{} must be a non-empty string'' [JStr k])
             | [] \<Rightarrow>
                 (case get_or_none d ''observed'' of
                    JObj o1 \<Rightarrow> if get_or_none o1 ''outcome'' \<in> {JStr ''reproduced'', JStr ''not-reproduced'', JStr ''error''} then None
                      else Some (Msg ''observed.outcome must be reproduced, not-reproduced or error'' [])
                  | _ \<Rightarrow> Some (Msg ''observed.outcome must be reproduced, not-reproduced or error'' []))))
   | _ \<Rightarrow> Some (Msg ''the outcome is not an object'' []))"

subsection \<open>Secrets and addresses\<close>

text \<open>\<open>read\<close> is reading a file as UTF-8 text.\<close>

definition read_secret :: "(string \<Rightarrow> string result) \<Rightarrow> string option \<Rightarrow> string option result" where
  "read_secret read path = (case path of
     None \<Rightarrow> Ok None
   | Some p \<Rightarrow> if p = [] then Ok None
       else (case read p of
           Inl (Raise c ms) \<Rightarrow> if c = PyOSError \<or> c = PyFileExistsError then Ok None else Err (Raise c ms)
         | Inr content \<Rightarrow> Ok (if strip content = [] then None else Some (strip content))))"

text \<open>\<open>_url_for\<close>: the address of a route, or why not; an address that cannot be split raises.\<close>

definition url_for :: "ingest_settings \<Rightarrow> string \<Rightarrow> (msg + string) result" where
  "url_for s route = (case urlsplit (strip (is_url s)) of
     None \<Rightarrow> Err (Raise PyValueError [])
   | Some u \<Rightarrow> Ok (
       if su_scheme u \<notin> {''http'', ''https''} \<or> url_hostname u = [] then Inl (Msg ''server_url must be an http(s) address'' [])
       else if url_username u \<noteq> None \<or> url_password u \<noteq> None then Inl (Msg ''server_url must not carry a user or password'' [])
       else if su_scheme u = ''http'' \<and> url_hostname u \<notin> set loopback_hosts \<and> \<not> is_plain_http s then
         Inl (Msg ''the credential only goes over HTTPS (set allow_plain_http for a bench)'' [])
       else Inr (rstrip_char (CHR ''/'') (is_url s) @ route)))"

subsection \<open>Requests\<close>

record http_post =
  po_url :: string
  po_token :: "string option"
  po_body :: json
  po_timeout :: pyfloat

text \<open>
  The network: the status and the first bytes of the answer (an \<open>HTTPError\<close> is an answer too, redirects included, which are not
  followed), or an exception; \<open>URLError\<close> and \<open>TimeoutError\<close> are \<open>OSError\<close>s.
\<close>

type_synonym network = "http_post \<Rightarrow> (int \<times> bytes) result"

type_synonym 'a sent = "http_post list \<times> 'a result"

definition send_post :: "network \<Rightarrow> (bytes \<Rightarrow> json result) \<Rightarrow> http_post \<Rightarrow> ((int option \<times> json option) \<times> msg) sent" where
  "send_post net loads post = ([post], (case net post of
     Inl (Raise c ms) \<Rightarrow> if c = PyOSError \<or> c = PyFileExistsError then
         Ok ((None, None), Msg ''the server cannot be reached ({})'' []) else Err (Raise c ms)
   | Inr (status, raw) \<Rightarrow>
       (case (if raw = [] then Ok (JObj []) else loads raw) of
          Inr v \<Rightarrow> Ok ((Some status, Some v), Msg [] [])
        | Inl (Raise c ms) \<Rightarrow> if c = PyValueError then Ok ((Some status, None), Msg [] []) else Err (Raise c ms))))"

definition key_of :: "json option \<Rightarrow> string \<Rightarrow> json" where
  "key_of answer k = (case answer of Some (JObj d) \<Rightarrow> get_or_none d k | _ \<Rightarrow> JNull)"

text \<open>\<open>_login\<close>: a token, or why there is none.\<close>

definition login :: "network \<Rightarrow> (bytes \<Rightarrow> json result) \<Rightarrow> (string \<Rightarrow> string result) \<Rightarrow> ingest_settings \<Rightarrow> (msg + string) sent" where
  "login net loads read s = (case read_secret read (is_password_file s) of
     Inl e \<Rightarrow> ([], Inl e)
   | Inr password \<Rightarrow>
       (case (is_username s, password) of
          (Some (c # cs), Some pw) \<Rightarrow>
            (case url_for s login_route of
               Inl e \<Rightarrow> ([], Inl e)
             | Inr (Inl why) \<Rightarrow> ([], Ok (Inl why))
             | Inr (Inr url) \<Rightarrow>
                 (case send_post net loads \<lparr>po_url = url, po_token = None,
                     po_body = JObj [(''username'', JStr (c # cs)), (''password'', JStr pw)], po_timeout = is_timeout s\<rparr> of
                    (posts, Inl e) \<Rightarrow> (posts, Inl e)
                  | (posts, Inr ((None, answer), why)) \<Rightarrow> (posts, Ok (Inl why))
                  | (posts, Inr ((Some status, answer), why)) \<Rightarrow>
                      if status \<noteq> 200 \<or> \<not> nonempty_str (key_of answer ''token'') then
                        (posts, Ok (Inl (Msg ''the server refused the login (HTTP {})'' [JInt status])))
                      else (posts, Ok (Inr (str_of (key_of answer ''token''))))))
        | _ \<Rightarrow> ([], Ok (Inl (Msg ''no credential: set token_file, or username and password_file'' [])))))"

definition failed_post :: "int option \<Rightarrow> msg \<Rightarrow> ingest_result" where
  "failed_post status why = \<lparr>ig_ok = False, ig_status = status, ig_detail = why, ig_seq = None\<rparr>"

definition status_meaning :: "int \<Rightarrow> string" where
  "status_meaning n =
     (if n = 400 then ''the server does not take this outcome''
      else if n = 401 then ''the server refused the credential''
      else if n = 403 then ''the account may not hand in outcomes (operator or administrator)''
      else if n = 404 then ''the server has this feed off (HYDRA_UMC_INGEST_SCENARIO)''
      else if n = 503 then ''the server cannot sign its record''
      else ''the server did not keep it'')"

definition judge_answer :: "(int option \<times> json option) \<times> msg \<Rightarrow> ingest_result" where
  "judge_answer a = (case a of
     ((None, answer), why) \<Rightarrow> failed_post None why
   | ((Some status, answer), why) \<Rightarrow>
       if status = 201 then \<lparr>ig_ok = True, ig_status = Some 201, ig_detail = Msg ''kept by the server'' [],
         ig_seq = (case key_of answer ''seq'' of JInt n \<Rightarrow> Some n | JBool b \<Rightarrow> Some (if b then 1 else 0) | _ \<Rightarrow> None)\<rparr>
       else failed_post (Some status) (Msg (status_meaning status @ '' (HTTP {})'') [JInt status]))"

text \<open>The post of the outcome with a token.\<close>

definition post_with :: "network \<Rightarrow> (bytes \<Rightarrow> json result) \<Rightarrow> ingest_settings \<Rightarrow> string \<Rightarrow> json \<Rightarrow> string \<Rightarrow> ingest_result sent" where
  "post_with net loads s url outcome token =
     (case send_post net loads \<lparr>po_url = url, po_token = Some token, po_body = outcome, po_timeout = is_timeout s\<rparr> of
        (posts, r) \<Rightarrow> (posts, and_then r (\<lambda>a. Ok (judge_answer a))))"

definition post_scenario_outcome ::
  "network \<Rightarrow> (bytes \<Rightarrow> json result) \<Rightarrow> (string \<Rightarrow> string result) \<Rightarrow> json \<Rightarrow> ingest_settings \<Rightarrow> ingest_result sent" where
  "post_scenario_outcome net loads read outcome s = (case outcome_problem outcome of
     Some problem \<Rightarrow> ([], Ok (failed_post None problem))
   | None \<Rightarrow>
       (case url_for s scenario_route of
          Inl e \<Rightarrow> ([], Inl e)
        | Inr (Inl why) \<Rightarrow> ([], Ok (failed_post None why))
        | Inr (Inr url) \<Rightarrow>
            (case read_secret read (is_token_file s) of
               Inl e \<Rightarrow> ([], Inl e)
             | Inr (Some token) \<Rightarrow> post_with net loads s url outcome token
             | Inr None \<Rightarrow>
                 (case login net loads read s of
                    (posts, Inl e) \<Rightarrow> (posts, Inl e)
                  | (posts, Inr (Inl why)) \<Rightarrow> (posts, Ok (failed_post None why))
                  | (posts, Inr (Inr token)) \<Rightarrow>
                      (case post_with net loads s url outcome token of (posted, r) \<Rightarrow> (posts @ posted, r))))))"

subsection \<open>Settings\<close>

definition ingest_keys :: "string list" where
  "ingest_keys = [''enabled'', ''server_url'', ''token_file'', ''username'', ''password_file'', ''timeout_seconds'', ''allow_plain_http'']"

definition text_setting_ok :: "json dict \<Rightarrow> string \<Rightarrow> bool" where
  "text_setting_ok d k = (get_or_none d k = JNull \<or> (is_str (get_or_none d k) \<and> strip (str_of (get_or_none d k)) \<noteq> []))"

definition text_setting :: "json dict \<Rightarrow> string \<Rightarrow> string option" where
  "text_setting d k = (case get_or_none d k of JStr s \<Rightarrow> Some s | _ \<Rightarrow> None)"

definition flag_setting_ok :: "json dict \<Rightarrow> string \<Rightarrow> bool" where
  "flag_setting_ok d k = (case map_of d k of None \<Rightarrow> True | Some (JBool b) \<Rightarrow> True | Some v \<Rightarrow> False)"

definition timeout_setting :: "json dict \<Rightarrow> rat option" where
  "timeout_setting d = (case get_default d ''timeout_seconds'' (JFloat (Finite 5)) of
     JInt n \<Rightarrow> if 1 \<le> n \<and> n \<le> 600 then Some (of_int n) else None
   | JFloat (Finite q) \<Rightarrow> if to_double (1 / 10) \<le> q \<and> q \<le> 600 then Some q else None
   | _ \<Rightarrow> None)"

text \<open>\<open>load_ingest_settings\<close>; \<open>None\<close> while the document does not turn the feed on.\<close>

definition load_ingest_settings :: "json dict result \<Rightarrow> ingest_settings option result" where
  "load_ingest_settings document = and_then document (\<lambda>d.
     let unknown = sort (filter (\<lambda>k. k \<notin> set ingest_keys) (map fst d));
         flags = filter (\<lambda>k. \<not> flag_setting_ok d k) [''enabled'', ''allow_plain_http''];
         texts = filter (\<lambda>k. \<not> text_setting_ok d k) [''server_url'', ''token_file'', ''username'', ''password_file'']
     in if unknown \<noteq> [] then config_error [Msg ''unknown key(s): {}'' (map JStr unknown)]
        else if flags \<noteq> [] then config_error [Msg ''{} must be true or false'' [JStr (hd flags)]]
        else if texts \<noteq> [] then config_error [Msg ''{} must be a non-empty string or null'' [JStr (hd texts)]]
        else (case timeout_setting d of
            None \<Rightarrow> config_error [Msg ''timeout_seconds must be a number between 0.1 and 600'' []]
          | Some timeout \<Rightarrow>
              if get_or_none d ''enabled'' \<noteq> JBool True then Ok None
              else (case text_setting d ''server_url'' of
                  None \<Rightarrow> config_error [Msg ''server_url is needed when enabled is true'' []]
                | Some url \<Rightarrow>
                    if text_setting d ''token_file'' = None \<and>
                       (text_setting d ''username'' = None \<or> text_setting d ''password_file'' = None) then
                      config_error [Msg ''give token_file, or username and password_file'' []]
                    else Ok (Some \<lparr>is_url = url, is_token_file = text_setting d ''token_file'', is_username = text_setting d ''username'',
                      is_password_file = text_setting d ''password_file'', is_timeout = Finite timeout,
                      is_plain_http = (get_or_none d ''allow_plain_http'' = JBool True)\<rparr>))))"

text \<open>\<open>outcome_sink\<close>: what a cycle hands on while the feed is on, and the list of what came of it.\<close>

definition sink_outcome :: "network \<Rightarrow> (bytes \<Rightarrow> json result) \<Rightarrow> (string \<Rightarrow> string result) \<Rightarrow> ingest_settings option \<Rightarrow> json \<Rightarrow>
    ingest_result list \<Rightarrow> ingest_result list result" where
  "sink_outcome net loads read settings outcome results = (case settings of
     None \<Rightarrow> Ok results
   | Some s \<Rightarrow> and_then (snd (post_scenario_outcome net loads read outcome s)) (\<lambda>r. Ok (results @ [r])))"

end
