(* ===== verification/Scenario_Ingest_Proofs.thy ===== *)
theory Scenario_Ingest_Proofs
  imports Scenario_Ingest
begin

text \<open>
  Where a credential may go, what a result says, and the exceptions that leave the function although it reports failures as results.
\<close>

subsection \<open>Addresses\<close>

text \<open>The address of a route that may carry a credential.\<close>

definition safe_address :: "ingest_settings \<Rightarrow> string \<Rightarrow> string \<Rightarrow> bool" where
  "safe_address s route url \<longleftrightarrow> url = rstrip_char (CHR ''/'') (is_url s) @ route \<and>
     (\<exists>u. urlsplit (strip (is_url s)) = Some u \<and> url_username u = None \<and> url_password u = None \<and> url_hostname u \<noteq> [] \<and>
       (su_scheme u = ''https'' \<or>
        (su_scheme u = ''http'' \<and> (url_hostname u \<in> {''127.0.0.1'', ''::1'', ''localhost''} \<or> is_plain_http s))))"

lemma url_for_safe: "url_for s route = Ok (Inr url) \<Longrightarrow> safe_address s route url"
  by (auto simp: url_for_def safe_address_def loopback_hosts_def split: option.splits if_splits)

lemma fst_send_post [simp]: "fst (send_post net loads post) = [post]"
  by (simp add: send_post_def)

lemma login_posts:
  assumes "post \<in> set (fst (login net loads read s))"
  shows "safe_address s login_route (po_url post) \<and> po_token post = None"
  using assms
  by (auto simp: login_def send_post_def dest: url_for_safe split: sum.splits option.splits list.splits prod.splits if_splits)

lemma fst_post_with [simp]:
  "fst (post_with net loads s url outcome token) =
     [\<lparr>po_url = url, po_token = Some token, po_body = outcome, po_timeout = is_timeout s\<rparr>]"
  by (simp add: post_with_def send_post_def)

text \<open>C33: A credential only goes where the settings allow: every request that posting an outcome makes goes to the server's own address
  (its text, without trailing slashes, and a fixed route), which has no user or password in it and is HTTPS, or this machine, or
  HTTP because the settings say so; the token is only sent with the outcome itself, on its route, and only a well-formed outcome
  makes any request.\<close>
theorem credential_goes_only_where_allowed:
  "list_all (\<lambda>post. outcome_problem outcome = None \<and>
     (if po_token post = None then safe_address s login_route (po_url post)
      else safe_address s scenario_route (po_url post) \<and> po_body post = outcome))
   (fst (post_scenario_outcome net loads read outcome s))"
proof -
  have "outcome_problem outcome = None \<and>
     (if po_token post = None then safe_address s login_route (po_url post)
      else safe_address s scenario_route (po_url post) \<and> po_body post = outcome)"
    if post: "post \<in> set (fst (post_scenario_outcome net loads read outcome s))" for post
  proof (cases "outcome_problem outcome")
    case (Some p)
    then show ?thesis using post by (simp add: post_scenario_outcome_def)
  next
    case None
    obtain url where url: "url_for s scenario_route = Ok (Inr url)"
      using post None by (auto simp: post_scenario_outcome_def split: sum.splits)
    then have "post \<in> set (fst (login net loads read s)) \<or>
        (\<exists>token. post = \<lparr>po_url = url, po_token = Some token, po_body = outcome, po_timeout = is_timeout s\<rparr>)"
      using post None fst_post_with
      by (auto simp: post_scenario_outcome_def simp del: fst_post_with split: sum.splits option.splits prod.splits) (auto simp: post_with_def send_post_def)
    then show ?thesis using login_posts url_for_safe [OF url] None by auto
  qed
  then show ?thesis by (simp add: list_all_iff)
qed

subsection \<open>What a result says\<close>

lemma judged_ok:
  "snd (post_with net loads s url outcome token) = Ok r \<Longrightarrow>
     ig_ok r \<longleftrightarrow> (\<exists>raw. net \<lparr>po_url = url, po_token = Some token, po_body = outcome, po_timeout = is_timeout s\<rparr> = Ok (201, raw))"
  by (auto simp: post_with_def send_post_def judge_answer_def failed_post_def result_simps
    split: sum.splits exn.splits if_splits prod.splits)

lemma login_never_has_token: "p \<in> set (fst (login net loads read s)) \<Longrightarrow> po_token p = None"
  using login_posts by blast

text \<open>A result says what happened: it is a success exactly when the last request was the outcome itself, sent with a token, and the
  server answered it with 201; every other end (a malformed outcome, an address that is not allowed, no credential, a login that was
  refused, no server, any other status) is a result that is no success.\<close>
theorem success_is_a_kept_outcome:
  assumes "post_scenario_outcome net loads read outcome s = (posts, Ok r)"
  shows "ig_ok r \<longleftrightarrow> (\<exists>first post raw. posts = first @ [post] \<and> po_token post \<noteq> None \<and> po_body post = outcome \<and> net post = Ok (201, raw))"
proof -
  consider (failed) "\<not> ig_ok r" "\<forall>p \<in> set posts. po_token p = None"
    | (sent) first url token where "posts = first @ fst (post_with net loads s url outcome token)"
        "snd (post_with net loads s url outcome token) = Ok r"
    using assms login_never_has_token [of _ net loads read s]
    by (auto simp: post_scenario_outcome_def failed_post_def simp del: fst_post_with split: option.splits sum.splits prod.splits)
      (metis append_Nil fst_conv snd_conv)+
  then show ?thesis
  proof cases
    case failed
    then show ?thesis by auto
  next
    case (sent first url token)
    then show ?thesis using judged_ok [OF sent(2)] by auto
  qed
qed

text \<open>It comes back with a result for every network that only fails as an \<open>OSError\<close>, when the address can be split and the secrets
  can be read or are missing.\<close>

lemma comes_back:
  assumes "urlsplit (strip (is_url s)) \<noteq> None"
    and "\<And>post c ms. net post = Err (Raise c ms) \<Longrightarrow> c = PyOSError" and "\<And>raw c ms. loads raw = Err (Raise c ms) \<Longrightarrow> c = PyValueError"
    and "\<And>p c ms. read p = Err (Raise c ms) \<Longrightarrow> c = PyOSError"
  shows "\<exists>r. snd (post_scenario_outcome net loads read outcome s) = Ok r"
proof -
  have url: "\<exists>v. url_for s route = Ok v" for route using assms(1) by (auto simp: url_for_def)
  have secret: "\<exists>v. read_secret read p = Ok v" for p
  proof (cases p)
    case (Some path)
    then show ?thesis using assms(4) [of path] by (cases "read path"; cases "projl (read path)") (auto simp: read_secret_def)
  qed (simp add: read_secret_def)
  have sends: "\<exists>a. snd (send_post net loads post) = Ok a" for post
  proof (cases "net post")
    case (Inl e)
    then show ?thesis using assms(2) [of post] by (cases e) (simp add: send_post_def)
  next
    case (Inr answer)
    obtain status raw where a: "answer = (status, raw)" by (cases answer)
    show ?thesis
    proof (cases "if raw = [] then Ok (JObj []) else loads raw")
      case (Inl e)
      then have "\<exists>ms. e = Raise PyValueError ms" using assms(3) [of raw] by (cases e) (auto split: if_splits)
      then show ?thesis using Inr Inl a by (auto simp: send_post_def)
    qed (use Inr a in \<open>simp add: send_post_def\<close>)
  qed
  have post: "\<exists>r. snd (post_with net loads s u outcome t) = Ok r" for u t
    using sends by (auto simp: post_with_def result_simps split: prod.splits) (metis and_then_simps(1) snd_conv)
  have logged: "\<exists>v. snd (login net loads read s) = Ok v"
  proof -
    obtain pw u where pw: "read_secret read (is_password_file s) = Ok pw" and u: "url_for s login_route = Ok u" using secret url by blast
    show ?thesis
    proof (cases "case (is_username s, pw, u) of (Some (c # cs), Some k, Inr url) \<Rightarrow> True | _ \<Rightarrow> False")
      case False
      then show ?thesis using pw u by (auto simp: login_def split: option.splits list.splits sum.splits)
    next
      case True
      then obtain c cs k url where parts: "is_username s = Some (c # cs)" "pw = Some k" "u = Inr url"
        by (auto split: option.splits list.splits sum.splits)
      let ?post = "\<lparr>po_url = url, po_token = None, po_body = JObj [(''username'', JStr (c # cs)), (''password'', JStr k)], po_timeout = is_timeout s\<rparr>"
      obtain status answer why where "send_post net loads ?post = ([?post], Ok ((status, answer), why))"
        using sends [of ?post] by (metis fst_send_post prod.collapse)
      then show ?thesis using pw u parts by (cases status) (auto simp: login_def)
    qed
  qed
  show ?thesis
  proof (cases "outcome_problem outcome")
    case None
    obtain u tok where u: "url_for s scenario_route = Ok u" and tok: "read_secret read (is_token_file s) = Ok tok" using url secret by blast
    obtain posts lg where lg: "login net loads read s = (posts, Ok lg)" using logged by (metis prod.collapse)
    show ?thesis
    proof (cases u)
      case (Inr address)
      have "\<forall>t. \<exists>v. post_with net loads s address outcome t = (fst v, Ok (snd v))"
        using post [of address] by (metis fst_conv prod.collapse snd_conv)
      then have "\<exists>p. \<forall>t. post_with net loads s address outcome t = (fst (p t), Ok (snd (p t)))" by (rule choice)
      then obtain p where known: "\<And>t. post_with net loads s address outcome t = (fst (p t), Ok (snd (p t)))" by blast
      show ?thesis
        by (cases tok; cases lg) (simp_all add: post_scenario_outcome_def None u tok lg Inr known)
    qed (use None u in \<open>simp add: post_scenario_outcome_def\<close>)
  qed (simp add: post_scenario_outcome_def)
qed

subsection \<open>A run, and the exceptions that get out\<close>

definition an_outcome :: json where
  "an_outcome = JObj [(''schema_version'', JStr ''1.0''), (''scenario_id'', JStr ''s''), (''run_id'', JStr ''r''),
     (''base_fingerprint'', JStr ''f''), (''phase'', JStr ''after''), (''repro_case'', JStr ''c''),
     (''observed'', JObj [(''outcome'', JStr ''reproduced'')]), (''timestamp_utc'', JStr ''t'')]"

definition a_bench :: ingest_settings where
  "a_bench = \<lparr>is_url = ''https://h/'', is_token_file = Some ''token'', is_username = None, is_password_file = None,
     is_timeout = Finite 5, is_plain_http = False\<rparr>"

definition a_token_file :: "string \<Rightarrow> string result" where
  "a_token_file p = (if p = ''token'' then Ok ''secret'' else Err (Raise PyOSError []))"

lemma the_outcome_is_fine: "outcome_problem an_outcome = None"
  by code_simp

lemma the_bench_address: "url_for a_bench scenario_route = Ok (Inr ''https://h/api/ingest/scenario-outcome'')"
  by code_simp

lemma the_token: "read_secret a_token_file (is_token_file a_bench) = Ok (Some ''secret'')"
  by code_simp

lemma bench_run:
  "post_scenario_outcome net loads a_token_file an_outcome a_bench =
     post_with net loads a_bench ''https://h/api/ingest/scenario-outcome'' an_outcome ''secret''"
  by (simp add: post_scenario_outcome_def the_outcome_is_fine the_bench_address the_token)

lemma success_is_a_kept_outcome_witness:
  "(let posts = fst (post_scenario_outcome (\<lambda>post. Ok (201, [])) (\<lambda>raw. Err (Raise PyValueError [])) a_token_file an_outcome a_bench)
    in \<exists>first post raw. posts = first @ [post] \<and> po_token post \<noteq> None \<and> po_body post = an_outcome \<and> raw = ([] :: bytes))"
proof -
  let ?net = "\<lambda>post. Ok (201, [])" and ?loads = "\<lambda>raw. Err (Raise PyValueError [])"
  let ?run = "post_scenario_outcome ?net ?loads a_token_file an_outcome a_bench"
  have run: "?run = (fst ?run, Ok \<lparr>ig_ok = True, ig_status = Some 201, ig_detail = Msg ''kept by the server'' [], ig_seq = None\<rparr>)"
    unfolding bench_run by (simp add: post_with_def send_post_def judge_answer_def key_of_def get_or_none_def result_simps)
  show ?thesis using success_is_a_kept_outcome [OF run] by (auto simp: Let_def)
qed

text \<open>
  "Never raises", says the function.  An \<open>HTTPException\<close> of the client library is no \<open>OSError\<close> and goes through, so
  does a secret file that is no UTF-8 (\<open>UnicodeDecodeError\<close> is a \<open>ValueError\<close>), and an address that \<open>urlsplit\<close> cannot read.
\<close>

lemma http_exception_escapes:
  "snd (post_scenario_outcome (\<lambda>post. Err (Raise PyHTTPException [])) loads a_token_file an_outcome a_bench) = Err (Raise PyHTTPException [])"
  unfolding bench_run by (simp add: post_with_def send_post_def result_simps)

lemma undecodable_secret_escapes:
  "snd (post_scenario_outcome net loads (\<lambda>p. Err (Raise PyValueError [])) an_outcome a_bench) = Err (Raise PyValueError [])"
proof -
  have "read_secret (\<lambda>p. Err (Raise PyValueError [])) (is_token_file a_bench) = Err (Raise PyValueError [])" by code_simp
  then show ?thesis by (simp add: post_scenario_outcome_def the_outcome_is_fine the_bench_address)
qed

lemma unreadable_address_raises:
  "snd (post_scenario_outcome net loads read an_outcome (a_bench \<lparr>is_url := ''http://[::1''\<rparr>)) = Err (Raise PyValueError [])"
proof -
  have "url_for (a_bench \<lparr>is_url := ''http://[::1''\<rparr>) scenario_route = Err (Raise PyValueError [])" by code_simp
  then show ?thesis by (simp add: post_scenario_outcome_def the_outcome_is_fine)
qed

end
