(* ===== verification/Delivery.thy ===== *)
theory Delivery
  imports Glob Paths Sha2 Results
begin

text \<open>
  \<open>delivery.py\<close>: the manifest of what the repository ships and the evaluation of its deliveries.  The repository is a dictionary
  from the paths of its regular files (relative, with slashes) to their bytes, and the paths of its directories.
\<close>

record repository =
  rp_files :: "bytes dict"
  rp_dirs :: "string list"

record delivery_manifest =
  dm_project :: string
  dm_version :: string
  dm_files :: "string dict"
  dm_subcommands :: "string list"
  dm_tests :: nat

definition delivery_manifest_to_dict :: "delivery_manifest \<Rightarrow> json" where
  "delivery_manifest_to_dict m =
     JObj [(''project'', JStr (dm_project m)), (''version'', JStr (dm_version m)),
       (''cli_subcommands'', JArr (map JStr (dm_subcommands m))), (''test_files'', JInt (int (dm_tests m))),
       (''files'', JObj (map (\<lambda>(p, h). (p, JStr h)) (sorted_items (dm_files m))))]"

subsection \<open>Files\<close>

text \<open>\<open>directory.glob(pattern)\<close>: the names in a directory, of files and of directories.\<close>

definition names_in :: "string \<Rightarrow> string list \<Rightarrow> string list" where
  "names_in dir paths =
     map (drop (length dir + 1)) (filter (\<lambda>p. startswith p (dir @ ''/'') \<and> slash \<notin> set (drop (length dir + 1) p)) paths)"

definition glob_names :: "repository \<Rightarrow> string \<Rightarrow> (string \<Rightarrow> bool) \<Rightarrow> string list" where
  "glob_names r dir pattern = filter pattern (names_in dir (map fst (rp_files r) @ rp_dirs r))"

definition add_file :: "repository \<Rightarrow> string \<Rightarrow> string dict \<Rightarrow> string dict" where
  "add_file r rel files = (case map_of (rp_files r) rel of
     None \<Rightarrow> files
   | Some content \<Rightarrow> dict_set rel (sha256_hex content) files)"

definition add_found :: "repository \<Rightarrow> string \<Rightarrow> string \<Rightarrow> string dict \<Rightarrow> string dict" where
  "add_found r dir ending files =
     fold (\<lambda>name. add_file r (replace_char backslash slash (dir @ ''/'' @ name)))
       (sort (glob_names r dir (\<lambda>n. endswith n ending))) files"

definition source_dir :: string where
  "source_dir = ''src/hydra_umc_dev_server''"

definition delivered_files :: "repository \<Rightarrow> string dict" where
  "delivered_files r =
     fold (add_file r) [''pyproject.toml'', ''hydra-umc.project.json'', ''CHANGELOG.md'', ''README.md'']
       (add_found r ''configs'' ''.json'' (add_found r ''docs'' ''.md'' (add_found r source_dir ''.py'' [])))"

subsection \<open>The commands named in cli.py\<close>

text \<open>\<open>str.splitlines\<close>, for the code points below 256.\<close>

definition line_end :: "char \<Rightarrow> bool" where
  "line_end c = (c \<in> {CHR 0x0A, CHR 0x0B, CHR 0x0C, CHR 0x0D, CHR 0x1C, CHR 0x1D, CHR 0x1E, CHR 0x85})"

fun split_lines :: "string \<Rightarrow> string \<Rightarrow> string list" where
  "split_lines acc [] = (if acc = [] then [] else [rev acc])"
| "split_lines acc (c # cs) =
     (if line_end c then
        (if c = CHR 0x0D \<and> cs \<noteq> [] \<and> hd cs = CHR 0x0A then rev acc # split_lines [] (tl cs) else rev acc # split_lines [] cs)
      else split_lines (c # acc) cs)"

text \<open>What follows the first occurrence of a text.\<close>

fun text_after :: "string \<Rightarrow> string \<Rightarrow> string option" where
  "text_after sep [] = (if sep = [] then Some [] else None)"
| "text_after sep (c # cs) = (if startswith (c # cs) sep then Some (drop (length sep) (c # cs)) else text_after sep cs)"

definition add_parser_call :: string where
  "add_parser_call = ''add_parser('' @ [CHR 0x22]"

definition subcommand_of :: "string \<Rightarrow> string list" where
  "subcommand_of line =
     (if contains_sub line ''subparsers.add_parser('' then
        (case text_after add_parser_call line of None \<Rightarrow> [] | Some after \<Rightarrow> [takeWhile (\<lambda>c. c \<noteq> CHR 0x22) after])
      else [])"

definition subcommands :: "string \<Rightarrow> string list" where
  "subcommands cli_text = sort (remdups (concat (map subcommand_of (split_lines [] cli_text))))"

text \<open>\<open>build_delivery_manifest\<close>; \<open>decode\<close> reads bytes as UTF-8.\<close>

definition build_delivery_manifest :: "(bytes \<Rightarrow> string result) \<Rightarrow> string \<Rightarrow> repository \<Rightarrow> delivery_manifest result" where
  "build_delivery_manifest decode version r =
     and_then (case map_of (rp_files r) (source_dir @ ''/cli.py'') of None \<Rightarrow> Ok [] | Some content \<Rightarrow> decode content) (\<lambda>cli_text.
       Ok \<lparr>dm_project = ''HYDRA-UMC-DEV-SERVER'', dm_version = version, dm_files = delivered_files r,
           dm_subcommands = subcommands cli_text,
           dm_tests = (if ''tests'' \<in> set (rp_dirs r) then
             length (glob_names r ''tests'' (\<lambda>n. startswith n ''test_'' \<and> endswith n ''.py'')) else 0)\<rparr>)"

subsection \<open>The evaluation\<close>

definition deliveries :: "(string \<times> string \<times> string option \<times> string) list" where
  "deliveries =
     [(''DS01'', ''config schema + read-only manifest inventory'', Some ''config.py'', ''shipped''),
      (''DS02'', ''remote-station profile + read-only host preflight + dry-run provisioning plan'', Some ''remote_station.py'', ''shipped''),
      (''DS03'', ''conservative migration: hash + classify + separate-destination plan, source untouched'', Some ''migration.py'', ''shipped''),
      (''DS04'', ''bounded task recipe + isolated workspace runner (scrubbed env, process-group kill)'', Some ''runner.py'', ''shipped''),
      (''DS05'', ''durable SQLite queue + append-only execution journal, survives a restart'', Some ''durable_queue.py'', ''shipped''),
      (''DS06'', ''interchangeable AI provider behind a safety contract - deterministic fake only'', Some ''ai_provider.py'', ''partial''),
      (''DS07'', ''authenticated incident transport for the OPS-AGENT round trip'', Some ''incident_transport.py'', ''shipped''),
      (''DS08'', ''one fully controlled repair cycle, gated at every step with rollback'', Some ''repair_cycle.py'', ''shipped''),
      (''DS09'', ''stable-operation health checks + verified state backup/restore'', Some ''operations.py'', ''shipped''),
      (''DS10'', ''this delivery package + honest maturity evaluation'', Some ''delivery.py'', ''shipped'')]"

record delivery_status =
  ds_id :: string
  ds_scope :: string
  ds_module :: "string option"
  ds_status :: string
  ds_present :: bool

definition opt_str_json :: "string option \<Rightarrow> json" where
  "opt_str_json s = (case s of None \<Rightarrow> JNull | Some t \<Rightarrow> JStr t)"

definition delivery_status_to_dict :: "delivery_status \<Rightarrow> json" where
  "delivery_status_to_dict d =
     JObj [(''delivery_id'', JStr (ds_id d)), (''scope'', JStr (ds_scope d)), (''module'', opt_str_json (ds_module d)),
       (''status'', JStr (ds_status d)), (''module_present'', JBool (ds_present d))]"

definition delivery_of :: "repository \<Rightarrow> string \<times> string \<times> string option \<times> string \<Rightarrow> delivery_status" where
  "delivery_of r d = (case d of (i, scope, modname, status) \<Rightarrow>
     (let present = (case modname of None \<Rightarrow> False | Some m \<Rightarrow> m \<noteq> [] \<and> map_of (rp_files r) (source_dir @ ''/'' @ m) \<noteq> None) in
      \<lparr>ds_id = i, ds_scope = scope, ds_module = modname,
       ds_status = (if present \<or> modname = None then status else ''not-started''), ds_present = present\<rparr>))"

record maturity_evaluation =
  me_project :: string
  me_version :: string
  me_overall :: string
  me_deliveries :: "delivery_status list"
  me_limitations :: "string list"
  me_summary :: msg

definition with_status :: "string \<Rightarrow> delivery_status list \<Rightarrow> delivery_status list" where
  "with_status s ds = filter (\<lambda>d. ds_status d = s) ds"

definition known_limitations :: "string list" where
  "known_limitations =
     [''No real AI provider is wired - only the deterministic fake. The real provider, its authorization, cost and terms are a user decision (DS06).'',
      ''The incident transport is a protocol object with an injectable channel; no real network transport (TLS/mTLS/a bus) is implemented (DS07).'',
      ''`task run` isolates by a workspace directory and a scrubbed environment, not a container / namespace / cgroup sandbox (DS04).'',
      ''There is no worker loop wiring the queue -> provider -> runner -> repair cycle together; each piece is exercised in isolation.'',
      ''Provisioning, migration and repair install are all described or dry-run; nothing here creates a user, opens a port, copies a file to a real destination, or deploys anything.'',
      ''No target hardware (Raspberry Pi 5 / CM5) has been provisioned or validated - platform choice and hardware verification are still open.'',
      ''Every 'real host' contact in the codebase is behind an injectable seam and is never touched in a test.'']"

definition evaluate_maturity :: "string \<Rightarrow> repository \<Rightarrow> maturity_evaluation" where
  "evaluate_maturity version r =
     (let statuses = map (delivery_of r) deliveries; absent = map ds_id (with_status ''not-started'' statuses) in
      \<lparr>me_project = ''HYDRA-UMC-DEV-SERVER'', me_version = version, me_overall = ''functional'', me_deliveries = statuses,
       me_limitations = known_limitations,
       me_summary = Msg ((if absent = [] then ''All ten deliveries are in the repository'' else ''{} of the deliveries are NOT in the repository ({})'') @
           '' ({} shipped, {} partial - DS06 ships only the deterministic fake provider). The maturity is 'functional': the software is built and covered by tests, but it has not been verified on real hardware or services. Nothing here provisions a host, executes a deploy, or has touched target hardware. See known_limitations.'')
         ((if absent = [] then [] else [JInt (int (length absent)), JArr (map JStr absent)]) @
          [JInt (int (length (with_status ''shipped'' statuses))), JInt (int (length (with_status ''partial'' statuses)))])\<rparr>)"

definition maturity_to_dict :: "maturity_evaluation \<Rightarrow> json" where
  "maturity_to_dict e =
     JObj [(''project'', JStr (me_project e)), (''version'', JStr (me_version e)), (''overall_maturity'', JStr (me_overall e)),
       (''deliveries'', JArr (map delivery_status_to_dict (me_deliveries e))),
       (''known_limitations'', JArr (map JStr (me_limitations e))), (''honest_summary'', msg_json (Some (me_summary e)))]"

text \<open>A delivery is only called shipped or partial while the file of its module is in the repository.\<close>

lemma deliveries_named: "list_all (\<lambda>(i, scope, modname, status). modname \<noteq> None \<and> modname \<noteq> Some [] \<and> status \<noteq> ''not-started'') deliveries"
  by code_simp

lemma delivery_has_its_module:
  assumes "d \<in> set (me_deliveries (evaluate_maturity version r))"
  shows "ds_present d = (ds_status d \<noteq> ''not-started'') \<and>
    (ds_present d \<longrightarrow> (\<exists>m. ds_module d = Some m \<and> map_of (rp_files r) (source_dir @ ''/'' @ m) \<noteq> None))"
proof -
  obtain i scope modname status where d: "d = delivery_of r (i, scope, modname, status)" "(i, scope, modname, status) \<in> set deliveries"
    using assms by (auto simp: evaluate_maturity_def Let_def)
  then have "modname \<noteq> None" "modname \<noteq> Some []" "status \<noteq> ''not-started''"
    using deliveries_named by (auto simp: list_all_iff)
  then show ?thesis by (auto simp: d(1) delivery_of_def Let_def)
qed

end
