(* ===== verification/Commands.thy ===== *)
theory Commands
  imports Inspector Inventory Provision Repair_Cycle Scenario_Ingest Ai_Provider Backup Plugins Incident_Transport Delivery
begin

text \<open>
  \<open>cli.py\<close>: the commands that change nothing on the host (validate, scan, preflight, plan, suggest, verify, check, report, list, run
  of a plugin item).  A command is given its arguments as \<open>argparse\<close> hands them on and what it reads of the host, and returns what
  it prints, in order, and its exit code, or the exception that leaves it.  A document that is printed stands for its JSON text, a
  line for its template and values.
\<close>

subsection \<open>Output and exit codes\<close>

datatype printed = Line msg | Document json | Error_line msg | File_written string json

type_synonym ended = "printed list \<times> int result"

text \<open>The files a command reads, as UTF-8 text, and the JSON reader.\<close>

record cli_files =
  cf_read :: "string \<Rightarrow> string result"
  cf_loads :: "string \<Rightarrow> json option"

definition load_document :: "cli_files \<Rightarrow> string \<Rightarrow> json dict result" where
  "load_document c p = load_json_document (cf_read c p) (cf_loads c)"

definition load_as :: "cli_files \<Rightarrow> (json \<Rightarrow> 'a result) \<Rightarrow> string \<Rightarrow> 'a result" where
  "load_as c from_dict p = and_then (load_document c p) (\<lambda>d. from_dict (JObj d))"

definition exit_code :: "bool \<Rightarrow> int result" where
  "exit_code ok = Ok (if ok then 0 else 1)"

definition fails_with :: "msg \<Rightarrow> ended" where
  "fails_with m = ([Error_line m], Ok 1)"

text \<open>A line that names what failed and then the exception.\<close>

definition exn_line :: "string \<Rightarrow> json list \<Rightarrow> exn \<Rightarrow> msg" where
  "exn_line t vs e = Msg t (vs @ map (\<lambda>m. msg_json (Some m)) (exn_msgs e))"

text \<open>\<open>try ... except ...: print(...); return 1\<close> around the steps that give a value, and what follows them.\<close>

definition attempt :: "(exn \<Rightarrow> bool) \<Rightarrow> (exn \<Rightarrow> msg) \<Rightarrow> 'a result \<Rightarrow> ('a \<Rightarrow> ended) \<Rightarrow> ended" where
  "attempt caught line r f = (case r of
     Inr v \<Rightarrow> f v
   | Inl e \<Rightarrow> if caught e then fails_with (line e) else ([], Inl e))"

text \<open>\<open>except OSError\<close>, and with \<open>UnicodeDecodeError\<close> next to it.\<close>

definition is_os_error :: "exn \<Rightarrow> bool" where
  "is_os_error e = (exn_class_of e \<in> {PyOSError, PyFileExistsError})"

definition is_read_error :: "exn \<Rightarrow> bool" where
  "is_read_error e = (is_os_error e \<or> exn_class_of e = PyValueError)"

subsection \<open>config, inventory, station\<close>

definition load_kind :: "string \<Rightarrow> json \<Rightarrow> json result" where
  "load_kind kind data =
     (if kind = ''host-profile'' then and_then (host_profile_from_dict data) (\<lambda>p. Ok (host_profile_to_dict p))
      else if kind = ''toolchain'' then and_then (toolchain_from_dict data) (\<lambda>p. Ok (toolchain_to_dict p))
      else if kind = ''task-policy'' then and_then (task_policy_from_dict data) (\<lambda>p. Ok (task_policy_to_dict p))
      else Err (Raise PyKeyError []))"

definition cmd_config_validate :: "cli_files \<Rightarrow> string \<Rightarrow> string \<Rightarrow> ended" where
  "cmd_config_validate c kind file =
     attempt is_config_error (exn_line ''INVALID: {} ({}): {}'' [JStr file, JStr kind]) (load_as c (load_kind kind) file)
       (\<lambda>doc. ([Line (Msg ''VALID: {} ({})'' [JStr file, JStr kind]), Document doc], Ok 0))"

definition inventory_payload :: "string \<Rightarrow> scan_result \<Rightarrow> json" where
  "inventory_payload dir r = JObj
     [(''root'', JStr dir),
      (''projects'', JArr (map (\<lambda>p. JObj [(''name'', JStr (pj_name p)), (''version'', JStr (pj_version p)),
         (''maturity'', JStr (pj_maturity p)), (''manifest_path'', JStr (pj_path p))]) (sr_projects r))),
      (''issues'', JArr (map (\<lambda>i. JObj [(''path'', JStr (si_path i)), (''reason'', msg_json (Some (si_reason i)))]) (sr_issues r)))]"

text \<open>\<open>write\<close> is the outcome of writing the file that \<open>--out\<close> names.\<close>

definition cmd_inventory_scan ::
  "(string \<Rightarrow> json option) \<Rightarrow> string \<Rightarrow> (string result option) dict option \<Rightarrow> (string \<Rightarrow> unit result) \<Rightarrow> string option \<Rightarrow> ended" where
  "cmd_inventory_scan loads dir dirs write out_file = (case scan_project_manifests loads dir dirs of
     Inl e \<Rightarrow> ([], Inl e)
   | Inr r \<Rightarrow> (case out_file of
       Some (c # cs) \<Rightarrow>
         attempt is_os_error (exn_line ''INVALID: cannot write {}: {}'' [JStr (c # cs)]) (write (c # cs))
           (\<lambda>_. ([File_written (c # cs) (inventory_payload dir r),
              Line (Msg ''Wrote inventory to {} ({} project(s), {} issue(s)).''
                [JStr (c # cs), JInt (int (length (sr_projects r))), JInt (int (length (sr_issues r)))])], Ok 0))
     | _ \<Rightarrow> ([Document (inventory_payload dir r)], Ok 0)))"

definition load_station_profile :: "cli_files \<Rightarrow> string \<Rightarrow> station_profile result" where
  "load_station_profile c file = load_as c station_from_dict file"

definition station_line :: "string \<Rightarrow> exn \<Rightarrow> msg" where
  "station_line file = exn_line ''INVALID: {} (remote-station): {}'' [JStr file]"

definition cmd_station_validate :: "cli_files \<Rightarrow> string \<Rightarrow> ended" where
  "cmd_station_validate c file = attempt is_config_error (station_line file) (load_station_profile c file)
     (\<lambda>p. ([Line (Msg ''VALID: {} (remote-station)'' [JStr file]), Document (station_to_dict p)], Ok 0))"

definition cmd_station_preflight :: "cli_files \<Rightarrow> sys_host \<Rightarrow> string \<Rightarrow> ended" where
  "cmd_station_preflight c y file = attempt is_config_error (station_line file) (load_station_profile c file)
     (\<lambda>p. let report = run_preflight p (system_host y) min_python in
        if report_ok report then ([Document (report_to_dict report), Line (Msg ''PREFLIGHT=PASS'' [])], Ok 0)
        else ([Document (report_to_dict report),
          Error_line (Msg ''PREFLIGHT=FAIL {}'' (map (\<lambda>k. JStr (pf_name k)) (report_failures report)))], Ok 1))"

definition cmd_station_plan :: "cli_files \<Rightarrow> sys_host \<Rightarrow> string \<Rightarrow> bool \<Rightarrow> ended" where
  "cmd_station_plan c y file preflight = attempt is_config_error (station_line file)
     (and_then (load_station_profile c file) (\<lambda>p.
        build_provision_plan p (if preflight then Some (run_preflight p (system_host y) min_python) else None)))
     (\<lambda>plan. ([Document (provision_to_dict plan)], Ok 0))"

subsection \<open>migrate\<close>

text \<open>The root itself when it is a checkout, or the checkouts right below it.\<close>

definition source_roots :: "source_host \<Rightarrow> string \<Rightarrow> string list" where
  "source_roots h dir = (if is_repo h dir then [dir] else child_repos h dir)"

definition one_or_many :: "json list \<Rightarrow> json" where
  "one_or_many js = (case js of [j] \<Rightarrow> j | _ \<Rightarrow> JArr js)"

definition no_checkout :: "string \<Rightarrow> msg" where
  "no_checkout dir = Msg ''no git checkout found at {} or in its immediate subdirectories'' [JStr dir]"

definition cmd_migrate_inventory :: "source_host \<Rightarrow> string \<Rightarrow> ended" where
  "cmd_migrate_inventory h dir =
     (if source_roots h dir = [] then fails_with (no_checkout dir)
      else ([Document (one_or_many (map (\<lambda>r. inventory_to_dict (build_repo_inventory r (system_inspector h) None None))
        (source_roots h dir)))], Ok 0))"

definition cmd_migrate_plan :: "cli_files \<Rightarrow> source_host \<Rightarrow> string \<Rightarrow> string \<Rightarrow> ended" where
  "cmd_migrate_plan c h dir file =
     attempt is_config_error (exn_line ''INVALID: {} (migration-destinations): {}'' [JStr file])
       (and_then (load_document c file) (\<lambda>d. and_then (destinations_from_dict (JObj d)) (\<lambda>m.
          and_then (privacy_from_dict (get_or_none d ''privacy_policy'')) (\<lambda>policy. Ok (m, policy)))))
       (\<lambda>(m, policy).
          if source_roots h dir = [] then fails_with (no_checkout dir)
          else attempt is_config_error (exn_line ''REFUSED: {}'' [])
            (map_result (\<lambda>r. build_migration_plan (build_repo_inventory r (system_inspector h) (Some policy) None) m) (source_roots h dir))
            (\<lambda>plans. ([Document (one_or_many (map plan_to_dict plans))], Ok 0)))"

subsection \<open>task validate\<close>

definition cmd_task_validate :: "cli_files \<Rightarrow> string \<Rightarrow> string \<Rightarrow> ended" where
  "cmd_task_validate c recipe_file policy_file =
     attempt is_config_error (exn_line ''INVALID: {} (task-recipe): {}'' [JStr recipe_file])
       (and_then (load_as c recipe_from_dict recipe_file) (\<lambda>r. and_then (load_as c task_policy_from_dict policy_file) (\<lambda>p.
          and_then (validate_against r p) (\<lambda>_. Ok r))))
       (\<lambda>r. ([Line (Msg ''VALID: {} (task-recipe)'' [JStr recipe_file]), Document (recipe_to_dict r)], Ok 0))"

subsection \<open>provider suggest\<close>

definition cmd_provider_suggest :: "cli_files \<Rightarrow> string \<Rightarrow> string \<Rightarrow> string \<Rightarrow> ended" where
  "cmd_provider_suggest c config_file prompt_file scenario =
     attempt is_config_error (exn_line ''INVALID: {} (ai-provider): {}'' [JStr config_file]) (load_as c provider_config_from_dict config_file)
       (\<lambda>cfg. attempt is_read_error (exn_line ''INVALID: {} (prompt): {}'' [JStr prompt_file]) (cf_read c prompt_file)
          (\<lambda>prompt. case run_provider_step cfg (fake_complete scenario 120 (to_double (1 / 500))) [] prompt no_usage of
              Inl e \<Rightarrow> ([], Inl e)
            | Inr r \<Rightarrow> ([Document (provider_result_to_dict r)], exit_code (pr_outcome r = Suggested))))"

subsection \<open>incident verify\<close>

definition verify_result_to_dict :: "verify_result \<Rightarrow> json" where
  "verify_result_to_dict v = JObj [(''ok'', JBool (vr_ok v)), (''code'', opt_str_json (vr_code v)), (''reason'', msg_json (vr_reason v))]"

definition verified_end :: "verify_result result \<Rightarrow> ended" where
  "verified_end r = (case r of Inl e \<Rightarrow> ([], Inl e) | Inr v \<Rightarrow> ([Document (verify_result_to_dict v)], exit_code (vr_ok v)))"

text \<open>\<open>st\<close> is what the state file holds, \<open>None\<close> without \<open>--state-file\<close>; \<open>now\<close> the clock.\<close>

definition cmd_incident_verify ::
  "cli_files \<Rightarrow> string \<Rightarrow> string \<Rightarrow> string \<Rightarrow> string \<Rightarrow> rat \<Rightarrow> sql_state option \<Rightarrow> sql_state option \<times> ended" where
  "cmd_incident_verify c message_file policy_file registry_file authenticated now st =
     (case and_then (load_as c message_from_dict message_file) (\<lambda>m. and_then (load_as c transport_from_dict policy_file) (\<lambda>p.
          and_then (load_document c registry_file) (\<lambda>d. Ok (m, p, d)))) of
        Inl e \<Rightarrow> (st, if is_config_error e then fails_with (exn_line ''INVALID: {}'' [] e) else ([], Inl e))
      | Inr (m, p, d) \<Rightarrow>
          if \<not> list_all (\<lambda>(k, v). is_str v) d then
            (st, fails_with (Msg ''INVALID: {} must map node id -> secret string'' [JStr registry_file]))
          else (let reg = \<lparr>nr_secrets = map (\<lambda>(k, v). (k, str_of v)) d\<rparr> in
            case st of
              Some s \<Rightarrow> (case verify_message sql_ops m reg p s authenticated now None of (s1, r) \<Rightarrow> (Some s1, verified_end r))
            | None \<Rightarrow> (case verified_end (snd (verify_message mem_ops m reg p empty_mem authenticated now None)) of
                (ps, code) \<Rightarrow> (None,
                  (Error_line (Msg ''note: without --state-file a replayed message is not caught (each run starts with no memory)'' []) # ps,
                   code)))))"

subsection \<open>repair check-candidate and report-outcome\<close>

text \<open>An argument that may be left out and is taken for missing when it is empty.\<close>

definition given :: "string option \<Rightarrow> bool" where
  "given a = (a \<noteq> None \<and> a \<noteq> Some [])"

definition load_store_or_report :: "cli_files \<Rightarrow> string \<Rightarrow> printed list \<times> trust_store option result" where
  "load_store_or_report c path = (case load_document c path of
     Inl e \<Rightarrow> if is_config_error e then ([Error_line (exn_line ''INVALID: {} (trust store): {}'' [JStr path] e)], Ok None) else ([], Inl e)
   | Inr d \<Rightarrow> (case trust_store_from_config (JObj d) of (store, problems) \<Rightarrow>
       (map (\<lambda>p. Error_line (Msg ''warning: {}: {}'' [JStr path, msg_json (Some p)])) problems, Ok (Some store))))"

text \<open>A command that goes on with the store, after its warnings.\<close>

definition with_store :: "cli_files \<Rightarrow> string \<Rightarrow> (trust_store \<Rightarrow> ended) \<Rightarrow> ended" where
  "with_store c path f = (case load_store_or_report c path of
     (ps, Inl e) \<Rightarrow> (ps, Inl e)
   | (ps, Inr None) \<Rightarrow> (ps, Ok 1)
   | (ps, Inr (Some store)) \<Rightarrow> (case f store of (qs, code) \<Rightarrow> (ps @ qs, code)))"

definition checked_end :: "candidate_check result \<Rightarrow> ended" where
  "checked_end r = (case r of Inl e \<Rightarrow> ([], Inl e) | Inr k \<Rightarrow> ([Document (check_to_dict k)], exit_code (cc_accepted k)))"

record check_arguments =
  ca_candidate_file :: string
  ca_secret_file :: "string option"
  ca_trust_store :: "string option"
  ca_signer :: "string option"
  ca_incident :: string
  ca_base :: string
  ca_target :: string

definition cmd_repair_check_candidate :: "cli_files \<Rightarrow> check_arguments \<Rightarrow> ended" where
  "cmd_repair_check_candidate c a =
     attempt is_config_error (exn_line ''INVALID: {} (repair-candidate): {}'' [JStr (ca_candidate_file a)])
       (load_as c candidate_from_dict (ca_candidate_file a))
       (\<lambda>cand.
          if given (ca_secret_file a) = given (ca_trust_store a) then
            fails_with (Msg ''INVALID: give exactly one of --secret-file and --trust-store'' [])
          else if given (ca_trust_store a) then
            with_store c (the (ca_trust_store a)) (\<lambda>store.
              checked_end (check_candidate_trusted cand store (ca_incident a) (ca_base a) (ca_target a) (ca_signer a)))
          else if given (ca_signer a) then fails_with (Msg ''INVALID: --signer needs --trust-store'' [])
          else attempt is_read_error (exn_line ''INVALID: {} (secret file): {}'' [JStr (the (ca_secret_file a))])
            (cf_read c (the (ca_secret_file a)))
            (\<lambda>secret. checked_end (check_candidate cand (strip secret) (ca_incident a) (ca_base a) (ca_target a))))"

definition cmd_repair_report_outcome ::
  "cli_files \<Rightarrow> network \<Rightarrow> (bytes \<Rightarrow> json result) \<Rightarrow> string \<Rightarrow> string \<Rightarrow> http_post list \<times> ended" where
  "cmd_repair_report_outcome c net answer_loads config_file outcome_file =
     (case and_then (load_ingest_settings (load_document c config_file)) (\<lambda>s.
          and_then (load_document c outcome_file) (\<lambda>d. Ok (s, d))) of
        Inl e \<Rightarrow> ([], if is_config_error e then fails_with (exn_line ''INVALID: {}'' [] e) else ([], Inl e))
      | Inr (None, d) \<Rightarrow> ([], fails_with (Msg ''OFF: 'enabled' is false in the scenario-ingest document; nothing was sent'' []))
      | Inr (Some s, d) \<Rightarrow>
          (case post_scenario_outcome net answer_loads (cf_read c) (JObj d) s of
             (posts, Inl e) \<Rightarrow> (posts, ([], Inl e))
           | (posts, Inr r) \<Rightarrow> (posts, ([Document (ingest_result_to_dict r)], exit_code (ig_ok r)))))"

subsection \<open>trust list\<close>

definition trust_summary :: "trust_store \<Rightarrow> json" where
  "trust_summary store = JObj [(''trusted'', JArr (map JStr (active_aliases store))),
     (''revoked'', JArr (map JStr (sorted_list_of_set (ts_revoked store))))]"

definition cmd_trust_list :: "cli_files \<Rightarrow> string \<Rightarrow> ended" where
  "cmd_trust_list c path = with_store c path (\<lambda>store. ([Document (trust_summary store)], Ok 0))"

subsection \<open>ops verify-backup\<close>

definition backup_check_to_dict :: "backup_check \<Rightarrow> json" where
  "backup_check_to_dict k = JObj
     ([(''ok'', JBool (bc_ok k)), (''verified'', JArr (map JStr (bc_verified k))), (''mismatches'', JArr (map JStr (bc_mismatches k))),
       (''missing'', JArr (map JStr (bc_missing k))),
       (''signature_valid'', case bc_signature_valid k of None \<Rightarrow> JNull | Some b \<Rightarrow> JBool b)] @
      (case bc_signer k of None \<Rightarrow> [] | Some s \<Rightarrow> [(''signer'', JStr s)]))"

record verify_arguments =
  va_manifest_file :: string
  va_backup_root :: string
  va_public_key_file :: "string option"
  va_signature_file :: "string option"
  va_trust_store :: "string option"
  va_signer :: "string option"

text \<open>The key and the signature, read from their files.\<close>

definition read_demand :: "cli_files \<Rightarrow> verify_arguments \<Rightarrow> trust_store option \<Rightarrow> trust_demand result" where
  "read_demand c a store =
     and_then (if given (va_public_key_file a) then and_then (cf_read c (the (va_public_key_file a))) (\<lambda>k. Ok (Some (strip k))) else Ok None)
       (\<lambda>key. and_then (if given (va_signature_file a) then and_then (cf_read c (the (va_signature_file a))) (\<lambda>s. Ok (strip s)) else Ok [])
         (\<lambda>sig. Ok \<lparr>td_public_key = key, td_signature = Some sig, td_trust_store = store, td_signer = va_signer a\<rparr>))"

definition verify_end :: "'f backup_fs \<Rightarrow> 'f \<Rightarrow> verify_arguments \<Rightarrow> manifest \<Rightarrow> trust_demand \<Rightarrow> ended" where
  "verify_end fs f a m td = (case verify_backup fs m (va_backup_root a) f td of
     Inl e \<Rightarrow> ([], Inl e)
   | Inr k \<Rightarrow> ([Document (backup_check_to_dict k)], exit_code (bc_ok k)))"

definition cmd_ops_verify_backup :: "cli_files \<Rightarrow> 'f backup_fs \<Rightarrow> 'f \<Rightarrow> verify_arguments \<Rightarrow> ended" where
  "cmd_ops_verify_backup c fs f a =
     attempt is_config_error (exn_line ''INVALID: {} (backup-manifest): {}'' [JStr (va_manifest_file a)])
       (load_as c manifest_from_dict (va_manifest_file a))
       (\<lambda>m.
          if given (va_public_key_file a) \<and> given (va_trust_store a) then
            fails_with (Msg ''INVALID: give --public-key-file or --trust-store, not both'' [])
          else if given (va_signer a) \<and> \<not> given (va_trust_store a) then
            fails_with (Msg ''INVALID: --signer needs --trust-store'' [])
          else if given (va_trust_store a) then
            with_store c (the (va_trust_store a)) (\<lambda>store.
              attempt is_read_error (exn_line ''INVALID: {}'' []) (read_demand c a (Some store)) (verify_end fs f a m))
          else if given (va_public_key_file a) then
            attempt is_read_error (exn_line ''INVALID: {}'' []) (read_demand c a None) (verify_end fs f a m)
          else if given (va_signature_file a) then
            fails_with (Msg ''INVALID: --signature-file needs --public-key-file or --trust-store'' [])
          else verify_end fs f a m \<lparr>td_public_key = None, td_signature = None, td_trust_store = None, td_signer = va_signer a\<rparr>)"

subsection \<open>deliver\<close>

definition cmd_deliver_manifest :: "(bytes \<Rightarrow> string result) \<Rightarrow> string \<Rightarrow> repository \<Rightarrow> ended" where
  "cmd_deliver_manifest decode version r = (case build_delivery_manifest decode version r of
     Inl e \<Rightarrow> ([], Inl e) | Inr m \<Rightarrow> ([Document (delivery_manifest_to_dict m)], Ok 0))"

definition cmd_deliver_evaluate :: "string \<Rightarrow> repository \<Rightarrow> ended" where
  "cmd_deliver_evaluate version r = (let e = evaluate_maturity version r in
     ([Document (maturity_to_dict e)], exit_code (me_overall e = ''functional'')))"

subsection \<open>plugin list and run\<close>

definition problem_json :: "string \<times> msg list \<Rightarrow> json" where
  "problem_json p = (case p of (folder, ms) \<Rightarrow> JObj [(''directory'', JStr folder), (''reason'', JArr (map (\<lambda>m. msg_json (Some m)) ms))])"

definition cmd_plugin_list :: "(bytes \<Rightarrow> json result) \<Rightarrow> plugin_root \<Rightarrow> ended" where
  "cmd_plugin_list read_json dirs = (let reg = discover read_json dirs empty_registry in
     ([Document (JObj [(''plugins'', JArr (list_plugins reg)), (''problems'', JArr (map problem_json (rg_problems reg)))])],
      exit_code (rg_problems reg = [])))"

definition run_outcome_to_dict :: "run_outcome \<Rightarrow> json" where
  "run_outcome_to_dict r = (case r of
     Run_ok v \<Rightarrow> JObj [(''status'', JStr ''ok''), (''result'', v)]
   | Run_error m \<Rightarrow> JObj [(''status'', JStr ''error''), (''error'', msg_json (Some m))])"

record run_arguments =
  ra_plugin :: string
  ra_sha256 :: string
  ra_item_kind :: string
  ra_item :: string
  ra_params :: "string option"

definition run_of_kind :: "plugin_host \<Rightarrow> plugin_registry \<Rightarrow> run_arguments \<Rightarrow> json \<Rightarrow> run_outcome result" where
  "run_of_kind h reg a params =
     (if ra_item_kind a = ''check'' then run_check h True reg (ra_plugin a) (ra_item a)
      else if ra_item_kind a = ''report'' then run_report h True reg (ra_plugin a) (ra_item a)
      else run_generator h True reg (ra_plugin a) (ra_item a) params)"

definition is_plugin_error :: "exn \<Rightarrow> bool" where
  "is_plugin_error e = (exn_class_of e = PluginError)"

definition cmd_plugin_run ::
  "(string \<Rightarrow> json option) \<Rightarrow> (bytes \<Rightarrow> json result) \<Rightarrow> plugin_host \<Rightarrow> plugin_root \<Rightarrow> run_arguments \<Rightarrow> ended" where
  "cmd_plugin_run loads read_json h dirs a =
     (case (if given (ra_params a) then loads (the (ra_params a)) else Some JNull) of
        None \<Rightarrow> fails_with (Msg ''--params must be a JSON object'' [])
      | Some params \<Rightarrow>
          (case enable_plugin h dirs (ra_plugin a) (ra_sha256 a) (discover read_json dirs empty_registry) of
             (reg, r) \<Rightarrow> attempt is_plugin_error (exn_line ''refused: {}'' []) r
               (\<lambda>described. case described of
                  JObj d \<Rightarrow>
                    if get_or_none d ''state'' \<noteq> JStr ''enabled'' then ([Document described], Ok 1)
                    else attempt is_plugin_error (exn_line ''refused: {}'' []) (run_of_kind h reg a params)
                      (\<lambda>outcome. ([Document (run_outcome_to_dict outcome)],
                         exit_code (case outcome of Run_ok v \<Rightarrow> True | Run_error m \<Rightarrow> False)))
                | _ \<Rightarrow> ([], Err (Raise PyTypeError [])))))"

end
