(* ===== verification/Commands_State.thy ===== *)
theory Commands_State
  imports Commands Worker Node_Channel Api
begin

text \<open>
  \<open>cli.py\<close>: the commands that change something (run a task, the queue, the trust store, key and signature files, the tokens of the
  nodes) and the start of the server, each over the state it changes.
\<close>

subsection \<open>task run\<close>

text \<open>The host a task runs on: the launcher and the clock, the file system, git, and the processes that hold locks.\<close>

record 'w task_site =
  tk_host :: "'w task_host"
  tk_which :: "string \<Rightarrow> bool"
  tk_sandbox :: sandbox_host
  tk_exists :: "'w \<Rightarrow> string \<Rightarrow> bool"
  tk_realpath :: "'w \<Rightarrow> string \<Rightarrow> string"
  tk_make_dir :: "'w \<Rightarrow> string \<Rightarrow> 'w result"
  tk_git :: "'w git_runner"
  tk_tree :: "'w tree_ops"
  tk_alive :: "int \<Rightarrow> bool"
  tk_pid :: int
  tk_interval :: rat

definition sandbox_of :: "task_policy \<Rightarrow> sandbox_spec" where
  "sandbox_of p =
     \<lparr>sp_mode = sandbox_mode p, sp_network = sandbox_network p, sp_read_only_paths = sandbox_read_only_paths p,
      sp_required = sandbox_required p, sp_memory_max = sandbox_memory_max p, sp_cpu_quota = sandbox_cpu_quota p,
      sp_tasks_max = sandbox_tasks_max p\<rparr>"

record task_done =
  td_result :: run_result
  td_commit :: "string option"
  td_removed :: bool

definition went_well :: "run_result \<Rightarrow> bool" where
  "went_well r = (rr_outcome r = ''completed'' \<and> rr_exit_code r = Some 0)"

text \<open>The commit that was staged, when the policy has a source for the repository, and what is printed about it.\<close>

definition stage_source ::
  "'w task_site \<Rightarrow> task_policy \<Rightarrow> task_recipe \<Rightarrow> workspace \<Rightarrow> 'w \<Rightarrow> 'w \<times> printed list \<times> string option result" where
  "stage_source s p r ws w = (case map_of (repo_sources p) (tr_repo r) of
     Some source \<Rightarrow> (case stage_repo (th_environ (tk_host s)) (tk_git s) (ws_root ws) source (tr_revision r) w of
         (w1, Inl e) \<Rightarrow> (w1, [], Inl e)
       | (w1, Inr commit) \<Rightarrow> (w1, [], Ok (Some commit)))
   | None \<Rightarrow> (w, [Error_line (Msg ''note: no source is configured for {} (repo_sources); the workspace is empty'' [JStr (tr_repo r)])], Ok None))"

definition sandbox_note :: "string \<Rightarrow> string \<Rightarrow> printed list" where
  "sandbox_note used note = (if used = ''none'' then [Error_line (Msg note [])] else [])"

text \<open>The block under \<open>with gate.hold(...)\<close>.\<close>

definition run_held ::
  "'w task_site \<Rightarrow> task_policy \<Rightarrow> task_recipe \<Rightarrow> string \<Rightarrow> bool \<Rightarrow> string \<Rightarrow> 'w \<Rightarrow> ('w \<times> printed list \<times> task_done result) option" where
  "run_held s p r base replace_old used w =
     (let w1 = (if replace_old then fst (remove_workspace (tk_tree s) base (tr_task_id r) w) else w) in
      case allocate_workspace (tk_exists s) (tk_make_dir s) base (tr_task_id r) w1 of
        Inl e \<Rightarrow> Some (w1, [], Inl e)
      | Inr (w2, ws) \<Rightarrow>
          (case stage_source s p r ws w2 of
             (w3, ps, Inl e) \<Rightarrow> Some (w3, ps, Inl e)
           | (w3, ps, Inr commit) \<Rightarrow>
               (let notes = ps @ sandbox_note used ''note: no sandbox is active on this host; the task runs with the permissions of the service user'' in
                case run_task (sandboxed (tk_sandbox s) (sandbox_of p) used (tk_host s))
                    (Some \<lparr>tf_exists = tk_exists s, tf_realpath = tk_realpath s\<rparr>) (tk_interval s) r p ws w3 of
                  None \<Rightarrow> None
                | Some (w4, Inl e) \<Rightarrow> Some (w4, notes, Inl e)
                | Some (w4, Inr res) \<Rightarrow>
                    (let (w5, removed) = (if should_remove (workspace_retention p) (went_well res)
                       then remove_workspace (tk_tree s) base (tr_task_id r) w4 else (w4, False))
                     in Some (w5, notes, Ok \<lparr>td_result = res, td_commit = commit, td_removed = removed\<rparr>)))))"

definition task_done_to_dict :: "task_done \<Rightarrow> json" where
  "task_done_to_dict d = (case run_result_to_dict (td_result d) of
     JObj d1 \<Rightarrow> JObj (d1 @ [(''staged_commit'', opt_str_json (td_commit d)), (''workspace_removed'', JBool (td_removed d))])
   | j \<Rightarrow> j)"

text \<open>\<open>except ConfigValidationError\<close> of the command.\<close>

definition refuses :: "exn \<Rightarrow> ended" where
  "refuses e = (if is_config_error e then fails_with (exn_line ''REFUSED: {}'' [] e) else ([], Inl e))"

definition after_lines :: "printed list \<Rightarrow> ended \<Rightarrow> ended" where
  "after_lines ps e = (ps @ fst e, snd e)"

definition cmd_task_run ::
  "'w task_site \<Rightarrow> cli_files \<Rightarrow> string \<Rightarrow> string \<Rightarrow> string \<Rightarrow> bool \<Rightarrow> string dict \<times> 'w \<Rightarrow> ((string dict \<times> 'w) \<times> ended) option" where
  "cmd_task_run s c recipe_file policy_file base replace_old st = (case st of (locks, w) \<Rightarrow>
     (case and_then (load_as c recipe_from_dict recipe_file) (\<lambda>r. and_then (load_as c task_policy_from_dict policy_file) (\<lambda>p. Ok (r, p))) of
        Inl e \<Rightarrow> Some (st, if is_config_error e then fails_with (exn_line ''INVALID: {} (task-recipe): {}'' [JStr recipe_file] e) else ([], Inl e))
      | Inr (r, p) \<Rightarrow>
          (case new_sandboxed_launcher (tk_which s) (th_os_name (tk_host s)) (sandbox_of p) of
             Inl e \<Rightarrow> Some (st, refuses e)
           | Inr used \<Rightarrow>
               (case gate_enter (tk_alive s) (max_concurrent_tasks p) (tk_pid s) (tr_task_id r) locks of
                  (locks1, Inl e) \<Rightarrow> Some ((locks1, w), refuses e)
                | (locks1, Inr _) \<Rightarrow>
                    (case run_held s p r base replace_old used w of
                       None \<Rightarrow> None
                     | Some (w1, ps, outcome) \<Rightarrow> Some ((gate_exit (tr_task_id r) locks1, w1),
                         after_lines ps (case outcome of
                             Inl e \<Rightarrow> refuses e
                           | Inr d \<Rightarrow> ([Document (task_done_to_dict d)], exit_code (went_well (td_result d))))))))))"

subsection \<open>queue\<close>

definition opt_float :: "rat option \<Rightarrow> json" where
  "opt_float q = (case q of None \<Rightarrow> JNull | Some r \<Rightarrow> JFloat (Finite r))"

definition queue_entry_to_dict :: "queue_entry \<Rightarrow> json" where
  "queue_entry_to_dict e = JObj
     [(''task_id'', JStr (qe_task_id e)), (''recipe'', recipe_to_dict (qe_recipe e)), (''recipe_fingerprint'', JStr (qe_recipe_fingerprint e)),
      (''revision'', JStr (qe_revision e)), (''base_fingerprint'', JStr (qe_base_fingerprint e)), (''state'', JStr (state_name (qe_state e))),
      (''attempt'', JInt (qe_attempt e)), (''leased_by'', opt_str_json (qe_leased_by e)), (''lease_expires_at'', opt_float (qe_lease_expires_at e)),
      (''enqueued_at'', JFloat (Finite (qe_enqueued_at e))), (''updated_at'', JFloat (Finite (qe_updated_at e)))]"

definition cmd_queue_enqueue :: "cli_files \<Rightarrow> string \<Rightarrow> string \<Rightarrow> rat \<Rightarrow> qdb \<Rightarrow> qdb \<times> ended" where
  "cmd_queue_enqueue c recipe_file base now db = (case load_as c recipe_from_dict recipe_file of
     Inl e \<Rightarrow> (db, if is_config_error e then fails_with (exn_line ''INVALID: {} (task-recipe): {}'' [JStr recipe_file] e) else ([], Inl e))
   | Inr r \<Rightarrow> (case enqueue db r base now of
       (qd, Inl e) \<Rightarrow> (qd, ([], Inl e))
     | (qd, Inr outcome) \<Rightarrow> (qd,
         ([Document (JObj [(''created'', JBool (eo_created outcome)), (''conflict'', JBool (eo_conflict outcome)),
             (''entry'', queue_entry_to_dict (eo_entry outcome))])] @
          (if eo_conflict outcome then [Error_line (Msg ''REFUSED: task {} already exists with a different recipe'' [JStr (tr_task_id r)])] else []),
          exit_code (\<not> eo_conflict outcome)))))"

record work_arguments =
  wa_policy_file :: string
  wa_base :: string
  wa_worker :: string
  wa_max_tasks :: "nat option"
  wa_follow :: bool
  wa_lease_seconds :: rat

text \<open>The environment the loop works in: the policy that was read, the base directory, the launcher behind its sandbox.\<close>

definition work_env :: "'w worker_env \<Rightarrow> sandbox_host \<Rightarrow> task_policy \<Rightarrow> work_arguments \<Rightarrow> string \<Rightarrow> 'w worker_env" where
  "work_env env sh p a used =
     env\<lparr>we_policy := p, we_base := wa_base a, we_lease_seconds := wa_lease_seconds a,
         we_host := sandboxed sh (sandbox_of p) used (we_host env)\<rparr>"

definition work_refuses :: "exn \<Rightarrow> ended" where
  "work_refuses e = (if is_config_error e \<or> is_os_error e then fails_with (exn_line ''REFUSED: {}'' [] e) else ([], Inl e))"

text \<open>\<open>make_base\<close> is the outcome of making the workspace base.\<close>

definition cmd_queue_work ::
  "'w worker_env \<Rightarrow> (string \<Rightarrow> bool) \<Rightarrow> sandbox_host \<Rightarrow> rat \<Rightarrow> unit result \<Rightarrow> cli_files \<Rightarrow> work_arguments \<Rightarrow> 'w station \<Rightarrow>
     ('w station \<times> ended) option" where
  "cmd_queue_work env which sh idle make_base c a st =
     (case and_then (load_as c task_policy_from_dict (wa_policy_file a)) (\<lambda>p.
          and_then (new_sandboxed_launcher which (th_os_name (we_host env)) (sandbox_of p)) (\<lambda>used. Ok (p, used))) of
        Inl e \<Rightarrow> Some (st, work_refuses e)
      | Inr (p, used) \<Rightarrow>
          (let notes = sandbox_note used ''note: no sandbox is active on this host; the tasks run with the permissions of the service user'' in
           case (if startswith (wa_base a) ''/'' then make_base
                 else config_error [Msg ''workspace base {} must be an absolute path'' [JStr (wa_base a)]]) of
             Inl e \<Rightarrow> Some (st, after_lines notes (work_refuses e))
           | Inr _ \<Rightarrow>
               (case work_loop (work_env env sh p a used) (wa_worker a) (wa_max_tasks a) (\<not> wa_follow a) idle st of
                  None \<Rightarrow> None
                | Some (st1, Inl e) \<Rightarrow> Some (st1, after_lines notes (work_refuses e))
                | Some (st1, Inr results) \<Rightarrow> Some (st1, after_lines notes
                    ([Document (JObj [(''tasks'', JArr (map work_result_to_dict results))])],
                     exit_code (list_all (\<lambda>r. wk_outcome r = ''succeeded'') results))))))"

definition stats_json :: "(qstate \<times> nat) list \<times> nat \<Rightarrow> json dict" where
  "stats_json st = [(''by_state'', JObj (map (\<lambda>(s, n). (state_name s, JInt (int n))) (fst st))), (''journal_rows'', JInt (int (snd st)))]"

definition cmd_queue_status :: "int \<Rightarrow> bool \<Rightarrow> rat \<Rightarrow> qdb \<Rightarrow> qdb \<times> ended" where
  "cmd_queue_status max_attempts reclaim now db =
     (let (qd, n) = (if reclaim then reconcile max_attempts db now else (db, 0)) in
      (qd, ([Document (JObj ((''reconciled'', JInt (int n)) # stats_json (stats qd)))], Ok 0)))"

definition cmd_queue_reconcile :: "int \<Rightarrow> rat \<Rightarrow> qdb \<Rightarrow> qdb \<times> ended" where
  "cmd_queue_reconcile max_attempts now db =
     (let (qd, n) = reconcile max_attempts db now in (qd, ([Document (JObj [(''returned_to_queued'', JInt (int n))])], Ok 0)))"

definition journal_row_json :: "jrow \<Rightarrow> json" where
  "journal_row_json j = JObj [(''attempt'', JInt (j_attempt j)), (''event'', JStr (j_event j)), (''at'', JFloat (Finite (j_at j))), (''detail'', j_detail j)]"

definition cmd_queue_journal :: "string \<Rightarrow> qdb \<Rightarrow> ended" where
  "cmd_queue_journal task_id db =
     (if journal_for db task_id = [] then fails_with (Msg ''no journal entries for task {}'' [JStr task_id])
      else ([Document (JArr (map journal_row_json (journal_for db task_id)))], Ok 0))"

definition finding_json :: "string \<times> msg \<Rightarrow> json" where
  "finding_json f = JObj [(''name'', JStr (fst f)), (''detail'', msg_json (Some (snd f)))]"

definition health_to_dict :: "health_report \<Rightarrow> json" where
  "health_to_dict h = JObj [(''ok'', JBool (hr_ok h)), (''findings'', JArr (map finding_json (hr_findings h))),
     (''stats'', JObj (stats_json (hr_stats h)))]"

definition cmd_ops_health :: "rat option \<Rightarrow> rat \<Rightarrow> nat \<Rightarrow> rat \<Rightarrow> qdb \<Rightarrow> ended" where
  "cmd_ops_health free_disk min_free cap now db = (let report = check_operational_health db free_disk min_free cap now in
     ([Document (health_to_dict report)], exit_code (hr_ok report)))"

subsection \<open>trust add and revoke\<close>

text \<open>
  The store file: \<open>None\<close> when there is none, else the object read from it, or the exception of reading it.  \<open>saved\<close> is the outcome
  of writing the new file and replacing the old one by it.
\<close>

type_synonym store_file = "json dict result option"

definition is_refusal :: "exn \<Rightarrow> bool" where
  "is_refusal e = (is_config_error e \<or> is_read_error e)"

definition trust_problems :: "msg list \<Rightarrow> msg" where
  "trust_problems ps = Msg ''REFUSED: the store has problems; fix them first so nothing is lost on write: {}'' (map (\<lambda>m. msg_json (Some m)) ps)"

definition document_of :: "trust_store \<Rightarrow> json dict" where
  "document_of store = (case trust_to_dict store of JObj d \<Rightarrow> d | _ \<Rightarrow> [])"

definition read_store :: "json dict result \<Rightarrow> (trust_store \<times> msg list) result" where
  "read_store file = and_then file (\<lambda>d. Ok (trust_store_from_config (JObj d)))"

definition save_trust_store :: "unit result \<Rightarrow> trust_store \<Rightarrow> store_file \<Rightarrow> store_file \<times> unit result" where
  "save_trust_store saved store file = (case saved of Inl e \<Rightarrow> (file, Inl e) | Inr _ \<Rightarrow> (Some (Ok (document_of store)), Ok ()))"

text \<open>A changed store is written, or the change refused.\<close>

definition trust_change :: "unit result \<Rightarrow> (exn \<Rightarrow> bool) \<Rightarrow> (trust_store \<times> msg list) result \<Rightarrow> (trust_store \<Rightarrow> trust_store result) \<Rightarrow> store_file \<Rightarrow>
    store_file \<times> ended" where
  "trust_change saved caught before change file =
     (let refuse = (\<lambda>e. if caught e then fails_with (exn_line ''REFUSED: {}'' [] e) else ([], Inl e)) in
      case before of
        Inl e \<Rightarrow> (file, refuse e)
      | Inr (store, problems) \<Rightarrow>
          if problems \<noteq> [] then (file, fails_with (trust_problems problems))
          else (case change store of
              Inl e \<Rightarrow> (file, refuse e)
            | Inr store1 \<Rightarrow> (case save_trust_store saved store1 file of
                (file1, Inl e) \<Rightarrow> (file1, refuse e)
              | (file1, Inr _) \<Rightarrow> (file1, ([Document (trust_summary store1)], Ok 0)))))"

definition cmd_trust_add :: "cli_files \<Rightarrow> unit result \<Rightarrow> string \<Rightarrow> string \<Rightarrow> store_file \<Rightarrow> store_file \<times> ended" where
  "cmd_trust_add c saved alias key_file file = (case cf_read c key_file of
     Inl e \<Rightarrow> (file, if is_refusal e then fails_with (exn_line ''REFUSED: {}'' [] e) else ([], Inl e))
   | Inr key \<Rightarrow> trust_change saved is_refusal (case file of None \<Rightarrow> Ok (empty_store, []) | Some doc \<Rightarrow> read_store doc)
       (\<lambda>store. with_key store alias (strip key)) file)"

definition cmd_trust_revoke :: "unit result \<Rightarrow> string \<Rightarrow> store_file \<Rightarrow> store_file \<times> ended" where
  "cmd_trust_revoke saved alias file =
     trust_change saved (\<lambda>e. is_config_error e \<or> is_os_error e)
       (case file of None \<Rightarrow> config_error [Msg ''could not read {}: {}'' []] | Some doc \<Rightarrow> read_store doc)
       (\<lambda>store. with_revoked store alias) file"

subsection \<open>ops keygen and sign-backup\<close>

text \<open>\<open>_write_new_file\<close> over the files with their modes; \<open>create\<close> is what else opening and writing may end in.\<close>

type_synonym new_files = "(string \<times> string \<times> 32 word) list"

definition write_new_file :: "(string \<Rightarrow> unit result) \<Rightarrow> string \<Rightarrow> string \<Rightarrow> bool \<Rightarrow> new_files \<Rightarrow> new_files \<times> unit result" where
  "write_new_file create path content private files =
     (if map_of files path \<noteq> None then (files, Err (Raise PyFileExistsError [Msg ''File exists: {}'' [JStr path]]))
      else (case create path of
          Inl e \<Rightarrow> (files, Inl e)
        | Inr _ \<Rightarrow> (files @ [(path, content @ [CHR 0x0A], if private then 0x180 else 0x1A4)], Ok ())))"

definition keys_not_written :: "exn \<Rightarrow> ended" where
  "keys_not_written e = (if is_os_error e then fails_with (exn_line ''REFUSED: the key files were not written: {}'' [] e) else ([], Inl e))"

definition cmd_ops_keygen ::
  "native_backend option \<Rightarrow> (nat \<Rightarrow> bytes) \<Rightarrow> (string \<Rightarrow> unit result) \<Rightarrow> string \<Rightarrow> string \<Rightarrow> new_files \<Rightarrow> new_files \<times> ended" where
  "cmd_ops_keygen native random create private_file public_file files = (case generate_key_pair native random of
     Inl e \<Rightarrow> (files, ([], Inl e))
   | Inr (seed, public) \<Rightarrow> (case write_new_file create private_file seed True files of
       (files1, Inl e) \<Rightarrow> (files1, keys_not_written e)
     | (files1, Inr _) \<Rightarrow> (case write_new_file create public_file public False files1 of
         (files2, Inl e) \<Rightarrow> (files2, keys_not_written e)
       | (files2, Inr _) \<Rightarrow> (files2,
           ([Document (JObj [(''private_key_file'', JStr private_file), (''public_key_file'', JStr public_file), (''public_key'', JStr public)]),
             Error_line (Msg ''Keep the private key off shared hosts and out of version control; give the public key to whoever verifies.'' [])],
            Ok 0)))))"

definition cmd_ops_sign_backup ::
  "native_backend option \<Rightarrow> cli_files \<Rightarrow> (string \<Rightarrow> unit result) \<Rightarrow> string \<Rightarrow> string \<Rightarrow> string option \<Rightarrow> new_files \<Rightarrow> new_files \<times> ended" where
  "cmd_ops_sign_backup native c create manifest_file key_file output files =
     (case and_then (load_as c manifest_from_dict manifest_file) (\<lambda>m. and_then (cf_read c key_file) (\<lambda>seed. sign_manifest native m (strip seed))) of
        Inl e \<Rightarrow> (files, if is_refusal e then fails_with (exn_line ''REFUSED: {}'' [] e) else ([], Inl e))
      | Inr sig \<Rightarrow>
          if given output then (case write_new_file create (the output) sig False files of
              (files1, Inl e) \<Rightarrow> (files1,
                if is_os_error e then fails_with (exn_line ''REFUSED: the signature file was not written: {}'' [] e) else ([], Inl e))
            | (files1, Inr _) \<Rightarrow> (files1, ([Line (Msg ''{}'' [JStr sig])], Ok 0)))
          else (files, ([Line (Msg ''{}'' [JStr sig])], Ok 0)))"

subsection \<open>node-token\<close>

definition token_end :: "msg \<Rightarrow> channel_world \<times> unit result \<Rightarrow> channel_world \<times> ended" where
  "token_end line r = (case r of
     (w, Inr _) \<Rightarrow> (w, ([Line line], Ok 0))
   | (w, Inl e) \<Rightarrow> (w, if exn_class_of e = NodeChannelError \<or> is_os_error e then fails_with (exn_line ''ERROR: {}'' [] e) else ([], Inl e)))"

definition cmd_token_issue :: "channel_host \<Rightarrow> string \<Rightarrow> string \<Rightarrow> string \<Rightarrow> string \<Rightarrow> channel_world \<Rightarrow> channel_world \<times> ended" where
  "cmd_token_issue h random now node out_file w =
     token_end (Msg ''The token of {} was written to {} (mode 0600); the server keeps only its hash. Give the file to the node; an older token of that node no longer works.'' [JStr node, JStr out_file])
       (issue_token h random now node out_file w)"

definition cmd_token_revoke :: "channel_host \<Rightarrow> string \<Rightarrow> string \<Rightarrow> channel_world \<Rightarrow> channel_world \<times> ended" where
  "cmd_token_revoke h now node w = token_end (Msg ''The token of {} is revoked.'' [JStr node]) (revoke_token h now node w)"

subsection \<open>serve\<close>

record serve_arguments =
  sa_host :: string
  sa_token_file :: "string option"
  sa_public_detail :: bool
  sa_identity_key_file :: "string option"
  sa_health_open :: bool
  sa_node_channel :: "string option"

definition read_api_token :: "cli_files \<Rightarrow> string dict \<Rightarrow> string option \<Rightarrow> string result" where
  "read_api_token c environ file =
     (if given file then and_then (cf_read c (the file)) (\<lambda>t. Ok (strip t))
      else Ok (strip (case map_of environ ''HYDRA_UMC_DEV_SERVER_TOKEN'' of None \<Rightarrow> [] | Some t \<Rightarrow> t)))"

text \<open>\<open>except (ApiConfigError, OSError, ValueError)\<close>, with the subclasses of \<open>ValueError\<close>.\<close>

definition is_start_error :: "exn \<Rightarrow> bool" where
  "is_start_error e = (is_os_error e \<or> is_config_error e \<or> exn_class_of e \<in> {ApiConfigError, NodeChannelError, PluginError, PyValueError})"

definition load_channel :: "cli_files \<Rightarrow> string option \<Rightarrow> channel_settings option result" where
  "load_channel c file = (if given file then and_then (load_settings (load_document c (the file))) (\<lambda>s. Ok (Some s)) else Ok None)"

text \<open>
  The server that listens, or the end of the command.  \<open>listen\<close> is the outcome of binding the address, \<open>dirs\<close> the plugins, \<open>w\<close> the
  files of the channel.
\<close>

definition cmd_serve ::
  "cli_files \<Rightarrow> string dict \<Rightarrow> unit result \<Rightarrow> (bytes \<Rightarrow> json result) \<Rightarrow> plugin_root \<Rightarrow> channel_world \<Rightarrow> string \<Rightarrow> serve_arguments \<Rightarrow>
     ended + api_config \<times> api_state \<times> connections" where
  "cmd_serve c environ listen read_json dirs w version a =
     (let cannot = exn_line ''cannot start the API: {}'' [] in
      case load_channel c (sa_node_channel a) of
        Inl e \<Rightarrow> Inl (if exn_class_of e = NodeChannelError then fails_with (cannot e) else ([], Inl e))
      | Inr channel \<Rightarrow>
          (case and_then (read_api_token c environ (sa_token_file a)) (\<lambda>token.
               and_then (new_server (sa_host a) token 32 read_json dirs w) (\<lambda>(st, slots).
               and_then listen (\<lambda>_.
               and_then (identity_key_from (cf_read c) ''HYDRA_UMC_DEV_SERVER_IDENTITY_KEY_FILE'' (sa_identity_key_file a) environ) (\<lambda>key.
                 Ok (token, st, slots, key))))) of
             Inl e \<Rightarrow> Inl (if is_start_error e then fails_with (cannot e) else ([], Inl e))
           | Inr (token, st, slots, key) \<Rightarrow>
               Inr (\<lparr>ac_token = token, ac_identity_key = key,
                     ac_health_open = health_open_requested (sa_health_open a)
                       (case map_of environ ''HYDRA_UMC_DEV_SERVER_HEALTH_OPEN'' of None \<Rightarrow> [] | Some v \<Rightarrow> v),
                     ac_public_detail = sa_public_detail a, ac_channel = channel, ac_version = version\<rparr>, st, slots)))"

end
