(* ===== verification/Commands_Proofs.thy ===== *)
theory Commands_Proofs
  imports Commands_State Worker_Termination
begin

text \<open>
  What the commands of the command line guarantee together: when a task may touch the host, what the trust store file keeps, when a
  candidate or a backup passes.
\<close>

lemma load_as_Ok: "load_as c f p = Ok v \<longleftrightarrow> (\<exists>d. load_document c p = Ok d \<and> f (JObj d) = Ok v)"
  by (simp add: load_as_def result_simps)

lemma exit_code_Ok [simp]: "exit_code b = Ok 0 \<longleftrightarrow> b"
  by (simp add: exit_code_def)

lemma fails_with_simps [simp]: "snd (fails_with m) = Ok 1" "fst (fails_with m) = [Error_line m]"
  by (simp_all add: fails_with_def)

lemma attempt_Ok_0: "snd (attempt caught line r f) = Ok 0 \<longleftrightarrow> (\<exists>v. r = Ok v \<and> snd (f v) = Ok 0)"
  by (cases r) (simp_all add: attempt_def)

subsection \<open>task run\<close>

text \<open>The command is allowed to act: recipe and policy were read, the sandbox is the one the policy asks for, a slot is free.\<close>

definition may_act :: "'w task_site \<Rightarrow> cli_files \<Rightarrow> string \<Rightarrow> string \<Rightarrow> string dict \<Rightarrow> task_recipe \<Rightarrow> task_policy \<Rightarrow> bool" where
  "may_act s c recipe_file policy_file locks r p \<longleftrightarrow>
     load_as c recipe_from_dict recipe_file = Ok r \<and> load_as c task_policy_from_dict policy_file = Ok p \<and>
     (\<exists>used. new_sandboxed_launcher (tk_which s) (th_os_name (tk_host s)) (sandbox_of p) = Ok used \<and>
        (sandbox_required p \<longrightarrow> used \<noteq> ''none'')) \<and>
     int (length (running (tk_alive s) locks)) < max_concurrent_tasks p"

lemma launcher_required:
  "new_sandboxed_launcher which os_name (sandbox_of p) = Ok used \<Longrightarrow> sandbox_required p \<Longrightarrow> used \<noteq> ''none''"
  by (auto simp: new_sandboxed_launcher_def sandbox_of_def unavailable_def and_then_Ok_iff split: if_splits)

lemma completed_was_validated:
  assumes "run_task h fs interval r p ws w = Some (w', Ok res)" and "rr_outcome res = ''completed''"
  shows "validate_against r p = Ok ()"
  using assms
  by (cases "validate_against r p") (auto simp: run_task_def rejected_def split: if_splits)

lemma run_held_Ok:
  assumes "run_held s p r base replace_old used w = Some (w', ps, Ok d)" and "went_well (td_result d)"
  shows "validate_against r p = Ok ()"
  using assms
  by (auto simp: run_held_def went_well_def Let_def split: sum.splits prod.splits option.splits if_splits
      dest: completed_was_validated)

lemma gate_locks:
  "gate_enter alive limit pid task_id locks = (locks1, r) \<Longrightarrow>
     (r \<noteq> Ok () \<longrightarrow> set locks1 \<subseteq> set locks) \<and> (r = Ok () \<longrightarrow> set (gate_exit task_id locks1) \<subseteq> set locks \<and> int (length (running alive locks)) < limit)"
  by (cases rule: gate_enter_cases [of alive limit pid task_id locks])
    (auto simp: live_locks_def Let_def gate_exit_def)

lemma refuses_not_0 [simp]: "snd (refuses e) \<noteq> Ok 0"
  by (simp add: refuses_def)


subsection \<open>The trust store file\<close>

text \<open>The commands over one file: the key file read (or not), the name, and whether the new file could be written.\<close>

datatype trust_command = Add "string result" string "unit result" | Revoke string "unit result"

fun do_trust :: "trust_command \<Rightarrow> store_file \<Rightarrow> store_file \<times> ended" where
  "do_trust (Add key name saved) sf = cmd_trust_add \<lparr>cf_read = (\<lambda>_. key), cf_loads = (\<lambda>_. None)\<rparr> saved name [] sf"
| "do_trust (Revoke name saved) sf = cmd_trust_revoke saved name sf"

definition after_commands :: "trust_command list \<Rightarrow> store_file \<Rightarrow> store_file" where
  "after_commands cmds sf = fold (\<lambda>cmd f. fst (do_trust cmd f)) cmds sf"

text \<open>The store a file holds; a file that is not there holds the empty one.\<close>

definition holds :: "store_file \<Rightarrow> trust_store \<Rightarrow> bool" where
  "holds sf store \<longleftrightarrow> (case sf of None \<Rightarrow> store = empty_store | Some doc \<Rightarrow> read_store doc = Ok (store, []))"

definition revoked_known :: "trust_store \<Rightarrow> bool" where
  "revoked_known store \<longleftrightarrow> ts_revoked store \<subseteq> fst ` set (ts_keys store)"

lemma read_revoked_known:
  assumes "trust_store_from_config data = (store, [])"
  shows "revoked_known store"
proof -
  have known: "a \<in> fst ` set keys" if "filter (\<lambda>a. map_of keys a = None) names = []" and "a \<in> set names"
    for a names and keys :: "string dict"
    using that by (auto simp: filter_empty_conv) (metis map_of_SomeD option.exhaust image_eqI fst_conv)
  show ?thesis
    using assms known
    by (auto simp: trust_store_from_config_def revoked_known_def empty_store_def split: json.splits prod.splits option.splits)
qed

lemma holds_ok: "holds sf store \<Longrightarrow> store_ok store \<and> revoked_known store"
proof (cases sf)
  case None
  assume "holds sf store"
  then show ?thesis by (simp add: None holds_def empty_store_def store_ok_def revoked_known_def dict_ok_Nil)
next
  case (Some doc)
  assume "holds sf store"
  then obtain d where "trust_store_from_config (JObj d) = (store, [])"
    by (auto simp: Some holds_def read_store_def result_simps)
  then show ?thesis using from_config_ok [of "JObj d"] read_revoked_known by fastforce
qed

lemma step_known:
  assumes "trust_step store store'" and known: "revoked_known store"
  shows "revoked_known store'"
  using assms(1)
proof (elim trust_stepE)
  fix name key assume "with_key store name key = Ok store'"
  from with_key_Ok(1) [OF this]
  have "fst ` set (ts_keys store) \<subseteq> fst ` set (ts_keys store')" "ts_revoked store' = ts_revoked store"
    using keys_dict_set [of name "strip key" "ts_keys store"] by auto
  then show ?thesis using known by (auto simp: revoked_known_def)
next
  fix name assume "with_revoked store name = Ok store'"
  then show ?thesis using known by (auto simp: revoked_known_def with_revoked_Ok map_of_eq_None_iff)
qed

lemma read_document: "read_store (Ok (document_of store)) = Ok (trust_store_from_config (trust_to_dict store))"
  by (simp add: read_store_def document_of_def trust_to_dict_def)

lemma trust_change_cases:
  assumes "holds sf store" and "\<And>store1. change store = Ok store1 \<Longrightarrow> trust_step store store1"
    and "trust_change saved caught before change sf = (sf', ps, code)" and "before = Ok (store, [])"
  shows "(sf' = sf \<and> code \<noteq> Ok 0) \<or>
    (code = Ok 0 \<and> (\<exists>store1. trust_step store store1 \<and> sf' = Some (Ok (document_of store1)) \<and> ps = [Document (trust_summary store1)]))"
  using assms
  by (auto simp: trust_change_def save_trust_store_def fails_with_def split: sum.splits if_splits)

lemma do_trust_cases:
  assumes "holds sf store" and "do_trust cmd sf = (sf', ps, code)"
  shows "(sf' = sf \<and> code \<noteq> Ok 0) \<or>
    (code = Ok 0 \<and> (\<exists>store1. trust_step store store1 \<and> sf' = Some (Ok (document_of store1)) \<and> ps = [Document (trust_summary store1)]))"
proof (cases cmd)
  case (Add key name saved)
  have before: "(case sf of None \<Rightarrow> Ok (empty_store, []) | Some doc \<Rightarrow> read_store doc) = Ok (store, [])"
    using assms(1) by (auto simp: holds_def split: option.splits)
  show ?thesis
  proof (cases key)
    case (Inl e)
    then show ?thesis using assms(2) by (auto simp: Add cmd_trust_add_def fails_with_def split: if_splits)
  next
    case (Inr k)
    then have "trust_change saved is_refusal (Ok (store, [])) (\<lambda>store. with_key store name (strip k)) sf = (sf', ps, code)"
      using assms(2) before by (simp add: Add cmd_trust_add_def)
    from trust_change_cases [OF assms(1) _ this refl] show ?thesis using trust_step.add by blast
  qed
next
  case (Revoke name saved)
  show ?thesis
  proof (cases sf)
    case None
    then show ?thesis using assms(2)
      by (auto simp: Revoke cmd_trust_revoke_def trust_change_def config_error_def fails_with_def is_config_error_def)
  next
    case (Some doc)
    then have "trust_change saved (\<lambda>e. is_config_error e \<or> is_os_error e) (Ok (store, [])) (\<lambda>store. with_revoked store name) sf = (sf', ps, code)"
      using assms by (simp add: Revoke cmd_trust_revoke_def holds_def)
    from trust_change_cases [OF assms(1) _ this refl] show ?thesis using trust_step.revoke by blast
  qed
qed

text \<open>What a written store reads back as.\<close>

lemma written_store:
  assumes "store_ok store" and "revoked_known store"
  shows "holds (Some (Ok (document_of store))) (store\<lparr>ts_keys := sorted_items (ts_keys store)\<rparr>)"
    and "map_of (sorted_items (ts_keys store)) = map_of (ts_keys store)"
  using assms trust_store_roundtrip [of store]
  by (simp_all add: holds_def read_document revoked_known_def map_of_sorted_items store_ok_def)

definition keeps :: "trust_store \<Rightarrow> trust_store \<Rightarrow> bool" where
  "keeps a b \<longleftrightarrow> map_of (ts_keys a) \<subseteq>\<^sub>m map_of (ts_keys b) \<and> ts_revoked a \<subseteq> ts_revoked b"

lemma trust_step_keeps: "trust_step a b \<Longrightarrow> keeps a b"
proof (elim trust_stepE)
  fix name key assume "with_key a name key = Ok b"
  from with_key_Ok [OF this] show "keeps a b" by (auto simp: keeps_def map_le_def)
qed (auto simp: keeps_def with_revoked_Ok)

lemma keeps_trans: "keeps a b \<Longrightarrow> keeps b d \<Longrightarrow> keeps a d"
  by (auto simp: keeps_def intro: map_le_trans)

text \<open>C35: Adding and revoking on the command line never loses a key: whatever commands are run on a store file that reads without a
  problem (or is not there yet), in whatever order and whether or not writing succeeds, the file still reads without a
  problem, every key stands under its name as before, what was revoked stays revoked, and only public keys are in it; and
  every single command that does not end with exit code 0 leaves the file as it was.\<close>
theorem trust_file_never_loses_a_key:
  assumes "holds sf store"
  shows "(\<exists>store'. holds (after_commands cmds sf) store' \<and> keeps store store' \<and> store_ok store') \<and>
    (\<forall>cmd. snd (snd (do_trust cmd (after_commands cmds sf))) = Ok 0 \<or>
       fst (do_trust cmd (after_commands cmds sf)) = after_commands cmds sf)"
proof -
  have step: "\<exists>store'. holds (fst (do_trust cmd sf)) store' \<and> keeps store store'" if "holds sf store" for cmd sf store
  proof -
    obtain sf' ps code where d: "do_trust cmd sf = (sf', ps, code)" by (metis prod_cases3)
    from do_trust_cases [OF that d] show ?thesis
    proof (elim disjE conjE exE)
      fix store1 assume "trust_step store store1" "sf' = Some (Ok (document_of store1))"
      then show ?thesis
        using d holds_ok [OF that] trust_step_ok step_known written_store [of store1] trust_step_keeps [of store store1]
        by (auto simp: keeps_def intro!: exI [of _ "store1\<lparr>ts_keys := sorted_items (ts_keys store1)\<rparr>"])
    qed (use d that in \<open>auto simp: keeps_def\<close>)
  qed
  have all: "\<exists>store'. holds (after_commands cmds sf) store' \<and> keeps store store'" if "holds sf store" for cmds sf store
    using that
  proof (induction cmds arbitrary: sf store)
    case (Cons cmd cmds)
    then obtain store1 where "holds (fst (do_trust cmd sf)) store1" "keeps store store1" using step by blast
    then show ?case using Cons.IH keeps_trans by (fastforce simp: after_commands_def)
  qed (auto simp: after_commands_def keeps_def)
  obtain store' where "holds (after_commands cmds sf) store'" "keeps store store'" using all [OF assms] by blast
  then show ?thesis
    using holds_ok do_trust_cases [of "after_commands cmds sf" store'] by (metis prod.collapse)
qed

subsection \<open>Candidates and backups\<close>

lemma checked_end_0: "snd (checked_end r) = Ok 0 \<longleftrightarrow> (\<exists>k. r = Ok k \<and> cc_accepted k)"
  by (cases r) (simp_all add: checked_end_def)

lemma with_store_0:
  "snd (with_store c path f) = Ok 0 \<longleftrightarrow>
     (\<exists>d. load_document c path = Ok d \<and> snd (f (fst (trust_store_from_config (JObj d)))) = Ok 0)"
  by (cases "load_document c path")
    (auto simp: with_store_def load_store_or_report_def split: prod.splits)

lemma check_candidate_accepts:
  "(\<exists>k. check_candidate cand key incident base target = Ok k \<and> cc_accepted k) \<longleftrightarrow>
     candidate_signature_ok key cand = Ok True \<and> cd_incident_id cand = incident \<and> cd_base_fingerprint cand = base \<and> cd_target cand = target"
  by (cases "candidate_signature_ok key cand") (simp_all add: check_candidate_def not_accepted_def)

lemma check_trusted_accepts:
  "(\<exists>k. check_candidate_trusted cand store incident base target signer = Ok k \<and> cc_accepted k) \<longleftrightarrow>
     (\<exists>a key. trusted_key cand store signer = Some (a, key) \<and>
        candidate_signature_ok key cand = Ok True \<and> cd_incident_id cand = incident \<and> cd_base_fingerprint cand = base \<and> cd_target cand = target)"
proof (cases "trusted_key cand store signer")
  case (Some ak)
  obtain name key where ak: "ak = (name, key)" by (cases ak)
  have "(\<exists>k. check_candidate_trusted cand store incident base target signer = Ok k \<and> cc_accepted k) \<longleftrightarrow>
      (\<exists>k. check_candidate cand key incident base target = Ok k \<and> cc_accepted k)"
    by (cases "check_candidate cand key incident base target") (auto simp: check_candidate_trusted_def Some ak)
  then show ?thesis using Some ak check_candidate_accepts by simp
qed (simp add: check_candidate_trusted_def not_accepted_def)

lemma trusted_key_Some:
  "trusted_key cand store signer = Some (a, key) \<longleftrightarrow>
     a \<noteq> [] \<and> a \<notin> ts_revoked store \<and> map_of (ts_keys store) a = Some key \<and>
     (case signer of Some s \<Rightarrow> a = s | None \<Rightarrow> identify store (candidate_body cand) (cd_signature cand) = Some a)"
  by (auto simp: trusted_key_def key_for_def split: option.splits if_splits)

text \<open>The candidate is the one this cycle asked for, and the key or secret verifies it.\<close>

definition pinned_and_signed :: "check_arguments \<Rightarrow> candidate \<Rightarrow> string \<Rightarrow> bool" where
  "pinned_and_signed a cand key \<longleftrightarrow> candidate_signature_ok key cand = Ok True \<and>
     cd_incident_id cand = ca_incident a \<and> cd_base_fingerprint cand = ca_base a \<and> cd_target cand = ca_target a"

text \<open>The candidate check of the command line ends with exit code 0 exactly when the document is a candidate for this very incident,
  base and target, exactly one of the secret file and the trust store is given, and either (without a named signer) the
  secret of the file verifies it, or the key of an alias in the store that is not revoked does, which is the named one, or
  else the one the signature identifies.\<close>
theorem candidate_check_exit_code:
  "snd (cmd_repair_check_candidate c a) = Ok 0 \<longleftrightarrow>
     (\<exists>cand. load_as c candidate_from_dict (ca_candidate_file a) = Ok cand \<and>
        given (ca_secret_file a) \<noteq> given (ca_trust_store a) \<and>
        (if given (ca_trust_store a) then
           \<exists>d name key. load_document c (the (ca_trust_store a)) = Ok d \<and>
             (let store = fst (trust_store_from_config (JObj d)) in
              name \<noteq> [] \<and> name \<notin> ts_revoked store \<and> map_of (ts_keys store) name = Some key \<and> pinned_and_signed a cand key \<and>
              (case ca_signer a of Some s \<Rightarrow> name = s | None \<Rightarrow> identify store (candidate_body cand) (cd_signature cand) = Some name))
         else \<not> given (ca_signer a) \<and> (\<exists>secret. cf_read c (the (ca_secret_file a)) = Ok secret \<and> pinned_and_signed a cand (strip secret))))"
  unfolding cmd_repair_check_candidate_def attempt_Ok_0
  by (cases "given (ca_trust_store a)"; cases "given (ca_secret_file a)")
    (simp_all add: attempt_Ok_0 checked_end_0 check_candidate_accepts check_trusted_accepts with_store_0 trusted_key_Some
      pinned_and_signed_def Let_def, blast+)

text \<open>With a key or a store given, a backup only passes when the manifest is signed as asked and every file is as it says.\<close>

lemma verify_end_0: "snd (verify_end fs f a m td) = Ok 0 \<longleftrightarrow> (\<exists>k. verify_backup fs m (va_backup_root a) f td = Ok k \<and> bc_ok k)"
  by (cases "verify_backup fs m (va_backup_root a) f td") (simp_all add: verify_end_def)

lemma passing_backup_check:
  "verify_backup fs m base f td = Ok k \<Longrightarrow> bc_ok k \<Longrightarrow> bc_mismatches k = [] \<and> bc_missing k = [] \<and> snd (demanded_signature m td) \<noteq> Some False"
  by (auto simp: verify_backup_def result_simps split: prod.splits)

lemma demanded_known: "td_trust_store td \<noteq> None \<or> td_public_key td \<noteq> None \<Longrightarrow> snd (demanded_signature m td) \<noteq> None"
  by (auto simp: demanded_signature_def Let_def split: option.splits)

lemma read_demand_Ok:
  "read_demand c a store = Ok td \<Longrightarrow> td_trust_store td = store \<and> (given (va_public_key_file a) \<longrightarrow> td_public_key td \<noteq> None)"
  by (auto simp: read_demand_def result_simps split: if_splits)

lemma signed_backup_passes_only_signed:
  assumes "snd (cmd_ops_verify_backup c fs f a) = Ok 0" and "given (va_public_key_file a) \<or> given (va_trust_store a)"
  shows "\<exists>m td k. load_as c manifest_from_dict (va_manifest_file a) = Ok m \<and> verify_backup fs m (va_backup_root a) f td = Ok k \<and>
    bc_mismatches k = [] \<and> bc_missing k = [] \<and> snd (demanded_signature m td) = Some True"
proof -
  obtain m where m: "load_as c manifest_from_dict (va_manifest_file a) = Ok m"
    using assms(1) by (auto simp: cmd_ops_verify_backup_def attempt_Ok_0)
  have "\<exists>store td. read_demand c a store = Ok td \<and> (given (va_public_key_file a) \<or> store \<noteq> None) \<and> snd (verify_end fs f a m td) = Ok 0"
    using assms m unfolding cmd_ops_verify_backup_def attempt_Ok_0
    by (auto simp: attempt_Ok_0 with_store_0 split: if_splits)
  then obtain td k where "verify_backup fs m (va_backup_root a) f td = Ok k" "bc_ok k" and "snd (demanded_signature m td) \<noteq> None"
    using read_demand_Ok demanded_known by (metis verify_end_0)
  then show ?thesis using m passing_backup_check [of fs m "va_backup_root a" f td k] by (metis (full_types) option.exhaust)
qed

text \<open>The key pair is written in two files; when the second is refused the private key stays behind, although the message says
  that the key files were not written.\<close>

lemma private_key_stays_behind:
  assumes "generate_key_pair native random = Ok (seed, public)" and "map_of files private_file = None" and "create private_file = Ok ()"
    and "map_of files public_file \<noteq> None"
  shows "\<exists>line. cmd_ops_keygen native random create private_file public_file files =
    (files @ [(private_file, seed @ [CHR 0x0A], 0x180)], [Error_line line], Ok 1)"
  using assms by (auto simp: cmd_ops_keygen_def write_new_file_def keys_not_written_def is_os_error_def fails_with_def map_add_def)

subsection \<open>A run\<close>

definition sample_site :: "proc_world task_site" where
  "sample_site = \<lparr>tk_host = sample_host, tk_which = (\<lambda>n. n = ''bwrap''), tk_sandbox = \<lparr>sh_exists = \<lambda>_. True, sh_superuser = False\<rparr>,
     tk_exists = (\<lambda>_ _. False), tk_realpath = (\<lambda>_ p. p), tk_make_dir = (\<lambda>w _. Ok w), tk_git = (\<lambda>_ _ _ _ w. (w, Ok (0, []))),
     tk_tree = \<lparr>to_resolve = (\<lambda>_ p. p), to_is_symlink = (\<lambda>_ _. False), to_is_dir = (\<lambda>_ _. True), to_rmtree = (\<lambda>_ w. w)\<rparr>,
     tk_alive = (\<lambda>_. True), tk_pid = 7, tk_interval = 1\<rparr>"

definition pytest_policy_document :: json where
  "pytest_policy_document = JObj
     [(''allow_deploy'', JBool False), (''max_concurrent_tasks'', JInt 2), (''allowed_commands'', JArr [JStr ''pytest'']),
      (''sandbox'', JStr ''bubblewrap''), (''sandbox_memory_max'', JStr ''2G'')]"

lemma pytest_policy_read: "task_policy_from_dict pytest_policy_document = Ok pytest_policy"
  by code_simp

definition sample_files :: cli_files where
  "sample_files = \<lparr>cf_read = (\<lambda>p. Ok p),
     cf_loads = (\<lambda>t. if t = ''recipe'' then Some (recipe_to_dict sample_recipe) else if t = ''policy'' then Some pytest_policy_document else None)\<rparr>"

lemma sample_loads:
  "load_as sample_files recipe_from_dict ''recipe'' = Ok sample_recipe"
  "load_as sample_files task_policy_from_dict ''policy'' = Ok pytest_policy"
proof -
  obtain d e where docs: "recipe_to_dict sample_recipe = JObj d" "pytest_policy_document = JObj e"
    by (simp add: recipe_to_dict_def pytest_policy_document_def)
  show "load_as sample_files recipe_from_dict ''recipe'' = Ok sample_recipe"
    and "load_as sample_files task_policy_from_dict ''policy'' = Ok pytest_policy"
    using sample_recipe_read pytest_policy_read unfolding docs
    by (simp_all add: load_as_def load_document_def load_json_document_def sample_files_def docs)
qed

lemma sample_wrapped_run:
  "run_task (sandboxed sh spec ''bubblewrap'' sample_host) (Some \<lparr>tf_exists = \<lambda>_ _. False, tf_realpath = \<lambda>_ p. p\<rparr>) 1
     sample_recipe pytest_policy sample_ws idle_world = Some (after_run, Ok (sample_result\<lparr>rr_sandbox := ''bubblewrap''\<rparr>))"
proof -
  let ?h = "sandboxed sh spec ''bubblewrap'' sample_host" and ?fs = "\<lparr>tf_exists = \<lambda>_ _. False, tf_realpath = \<lambda>_ p. p\<rparr>"
  have same: "th_poll ?h = th_poll sample_host" "th_monotonic ?h = th_monotonic sample_host" "th_cancelled ?h = th_cancelled sample_host"
      "th_kill_tree ?h = th_kill_tree sample_host" "th_sleep ?h = th_sleep sample_host"
    by (simp_all add: sandboxed_def)
  have "poll_loop ?h 0 300 1 spawned_world = Some ((''completed'', Some 0, False), after_run)"
    unfolding poll_loop_same [OF poll_turn_same [OF same(1-4)] same(5)] by (rule sample_loop)
  moreover have "resolved_input_paths sample_recipe sample_ws fs = Ok []" and "tr_command sample_recipe = [''pytest'', ''-q'', ''tests'']"
    and "tr_timeout sample_recipe = 300" and "tr_task_id sample_recipe = ''t1''" for fs
    by (simp_all add: resolved_input_paths_def sample_recipe_def)
  moreover have "find_program (Some ?fs) sample_ws ''pytest'' idle_world = Ok ''pytest''"
  proof -
    have "resolve_with (\<lambda>p. p) sample_ws ''pytest'' = Ok ''/srv/ws/t1/pytest''" by code_simp
    then show ?thesis by (simp add: find_program_def startswith_def)
  qed
  moreover have "th_spawn ?h argv cwd env idle_world = Ok spawned_world" for argv cwd env
    by (simp add: sandboxed_def subprocess_host_def spawn_process_def sample_kernel_def idle_world_def spawned_world_def)
  moreover have "th_monotonic ?h v = (pw_now v, v)" "th_used ?h = ''bubblewrap''"
      "th_stdout ?h after_run = ''all passed''" "th_stderr ?h after_run = []" for v
    by (simp_all add: sandboxed_def subprocess_host_def after_run_def tail_is_last tail_bytes_def last_chars_def)
  moreover have "pw_now idle_world = 0" "pw_now after_run = 1" by (simp_all add: idle_world_def after_run_def)
  ultimately show ?thesis
    by (simp add: run_task_def sample_recipe_passes run_started_def sample_result_def)
qed

lemma sample_held:
  "run_held sample_site pytest_policy sample_recipe ''/srv/ws'' False ''bubblewrap'' idle_world =
     Some (after_run, [Error_line (Msg ''note: no source is configured for {} (repo_sources); the workspace is empty'' [JStr ''URTC''])],
       Ok \<lparr>td_result = sample_result\<lparr>rr_sandbox := ''bubblewrap''\<rparr>, td_commit = None, td_removed = True\<rparr>)"
proof -
  have "is_ok (require_safe_id ''t1'')" by code_simp
  then have "allocate_workspace (\<lambda>_ _. False) (\<lambda>w _. Ok w) ''/srv/ws'' ''t1'' idle_world = Ok (idle_world, sample_ws)"
    using sample_ws_allocated
    by (auto simp: allocate_workspace_def startswith_def Let_def and_then_def os_exists_def os_mkdir_def split: sum.splits if_splits)
  moreover have "tr_task_id sample_recipe = ''t1''" "tr_repo sample_recipe = ''URTC''" "repo_sources pytest_policy = []"
      "workspace_retention pytest_policy = ''delete-on-success''"
    by (simp_all add: sample_recipe_def pytest_policy_def sample_policy_value_def)
  moreover have "went_well (sample_result\<lparr>rr_sandbox := ''bubblewrap''\<rparr>)"
    by (simp add: went_well_def sample_result_def)
  moreover have "remove_workspace (tk_tree sample_site) ''/srv/ws'' ''t1'' after_run = (after_run, True)"
  proof -
    have "dirname (Taskflow.path_join ''/srv/ws'' ''t1'') = ''/srv/ws''" by code_simp
    then show ?thesis by (simp add: remove_workspace_def sample_site_def Let_def)
  qed
  ultimately show ?thesis
    by (simp add: run_held_def sample_site_def stage_source_def sandbox_note_def sample_wrapped_run should_remove_def)
qed


lemma trust_file_never_loses_a_key_witness:
  "\<exists>store. holds (after_commands [Revoke ''Ana'' (Ok ()), Add (Ok sample_key) ''Bo'' (Err (Raise PyOSError []))]
       (Some (Ok [(''trusted_keys'', JObj [(''Ana'', JStr sample_key)])]))) store \<and> map_of (ts_keys store) ''Ana'' = Some sample_key"
proof -
  have "holds (Some (Ok [(''trusted_keys'', JObj [(''Ana'', JStr sample_key)])])) sample_store"
    by (simp add: holds_def read_store_def sample_store_read)
  from trust_file_never_loses_a_key [OF this, THEN conjunct1] obtain store
    where "holds (after_commands [Revoke ''Ana'' (Ok ()), Add (Ok sample_key) ''Bo'' (Err (Raise PyOSError []))]
       (Some (Ok [(''trusted_keys'', JObj [(''Ana'', JStr sample_key)])]))) store" and "keeps sample_store store"
    by blast
  then show ?thesis by (auto simp: keeps_def sample_store_def map_le_def intro!: exI [of _ store])
qed

end
