(* ===== verification/Bench.thy ===== *)
theory Bench
  imports Delivery Taskflow
begin

text \<open>
  \<open>bench.py\<close>: the client of the bench, the four stand-in services, the check of a metrics text, and the scenarios.  A service that is
  not a stand-in is whatever the network answers.  A body that goes over the wire stands for its JSON text.
\<close>

subsection \<open>Python values\<close>

fun truth :: "json \<Rightarrow> bool" where
  "truth JNull = False"
| "truth (JBool b) = b"
| "truth (JInt i) = (i \<noteq> 0)"
| "truth (JFloat f) = (f \<noteq> Finite 0)"
| "truth (JStr s) = (s \<noteq> [])"
| "truth (JArr vs) = (vs \<noteq> [])"
| "truth (JObj d) = (d \<noteq> [])"

text \<open>\<open>v or {}\<close>.\<close>

definition or_empty :: "json \<Rightarrow> json" where
  "or_empty v = (if truth v then v else JObj [])"

text \<open>\<open>v[k]\<close>, \<open>v.get(k)\<close>, \<open>v.get(k, [])\<close> and \<open>k in v\<close> for a string \<open>k\<close>.\<close>

definition item :: "string \<Rightarrow> json \<Rightarrow> json result" where
  "item k v = (case v of
     JObj d \<Rightarrow> (case map_of d k of None \<Rightarrow> Err (Raise PyKeyError [Msg ''{}'' [JStr k]]) | Some w \<Rightarrow> Ok w)
   | _ \<Rightarrow> Err (Raise PyTypeError []))"

definition get_of :: "string \<Rightarrow> json \<Rightarrow> json result" where
  "get_of k v = (case v of JObj d \<Rightarrow> Ok (get_or_none d k) | _ \<Rightarrow> Err (Raise PyAttributeError []))"

definition get_list :: "string \<Rightarrow> json \<Rightarrow> json result" where
  "get_list k v = (case v of
     JObj d \<Rightarrow> Ok (case map_of d k of None \<Rightarrow> JArr [] | Some w \<Rightarrow> w)
   | _ \<Rightarrow> Err (Raise PyAttributeError []))"

definition key_in :: "string \<Rightarrow> json \<Rightarrow> bool result" where
  "key_in k v = (case v of
     JObj d \<Rightarrow> Ok (map_of d k \<noteq> None)
   | JArr vs \<Rightarrow> Ok (JStr k \<in> set vs)
   | JStr s \<Rightarrow> Ok (contains_sub s k)
   | _ \<Rightarrow> Err (Raise PyTypeError []))"

text \<open>\<open>for x in v\<close>: a dictionary gives its keys, a string its characters.\<close>

definition items_of :: "json \<Rightarrow> json list result" where
  "items_of v = (case v of
     JArr vs \<Rightarrow> Ok vs
   | JObj d \<Rightarrow> Ok (map (\<lambda>(k, w). JStr k) d)
   | JStr s \<Rightarrow> Ok (map (\<lambda>c. JStr [c]) s)
   | _ \<Rightarrow> Err (Raise PyTypeError []))"

definition length_of :: "json \<Rightarrow> int result" where
  "length_of v = and_then (items_of v) (\<lambda>vs. Ok (int (length vs)))"

text \<open>Numbers, and their order; strings compare too, lists are not compared here.\<close>

definition number_of :: "json \<Rightarrow> pyfloat option" where
  "number_of v = (case v of
     JInt i \<Rightarrow> Some (Finite (of_int i)) | JBool b \<Rightarrow> Some (Finite (if b then 1 else 0)) | JFloat f \<Rightarrow> Some f | _ \<Rightarrow> None)"

fun float_le :: "pyfloat \<Rightarrow> pyfloat \<Rightarrow> bool" where
  "float_le NaN y = False"
| "float_le x NaN = False"
| "float_le NegInf y = True"
| "float_le x PosInf = True"
| "float_le (Finite p) (Finite q) = (p \<le> q)"
| "float_le x y = False"

definition compares_le :: "json \<Rightarrow> json \<Rightarrow> bool result" where
  "compares_le v w = (case (number_of v, number_of w) of
     (Some x, Some y) \<Rightarrow> Ok (float_le x y)
   | _ \<Rightarrow> (case (v, w) of (JStr s, JStr t) \<Rightarrow> Ok (s \<le> t) | _ \<Rightarrow> Err (Raise PyTypeError [])))"

definition compares_less :: "json \<Rightarrow> json \<Rightarrow> bool result" where
  "compares_less v w = (case (number_of v, number_of w) of
     (Some x, Some y) \<Rightarrow> Ok (float_le x y \<and> x \<noteq> y)
   | _ \<Rightarrow> (case (v, w) of (JStr s, JStr t) \<Rightarrow> Ok (s < t) | _ \<Rightarrow> Err (Raise PyTypeError [])))"

text \<open>\<open>all(f(x) for x in xs)\<close>, which stops at the first that is false.\<close>

fun all_of :: "('a \<Rightarrow> bool result) \<Rightarrow> 'a list \<Rightarrow> bool result" where
  "all_of f [] = Ok True"
| "all_of f (x # xs) = and_then (f x) (\<lambda>b. if b then all_of f xs else Ok False)"

text \<open>\<open>int(v)\<close>.\<close>

definition int_of :: "json \<Rightarrow> int result" where
  "int_of v = (case v of
     JInt i \<Rightarrow> Ok i
   | JBool b \<Rightarrow> Ok (if b then 1 else 0)
   | JFloat (Finite q) \<Rightarrow> Ok (if q \<ge> 0 then \<lfloor>q\<rfloor> else \<lceil>q\<rceil>)
   | JFloat NaN \<Rightarrow> Err (Raise PyValueError [])
   | JFloat f \<Rightarrow> Err (Raise PyOverflowError [])
   | JStr s \<Rightarrow> (case py_int s of None \<Rightarrow> Err (Raise PyValueError []) | Some n \<Rightarrow> Ok n)
   | _ \<Rightarrow> Err (Raise PyTypeError []))"

subsection \<open>The planner stand-in\<close>

type_synonym reply = "int \<times> json"

definition error_reply :: "int \<Rightarrow> string \<Rightarrow> reply" where
  "error_reply status why = (status, JObj [(''error'', JStr why)])"

definition planner_plans :: "(string \<times> (string \<times> json) list) list" where
  "planner_plans =
     [(''assemble the pcb'',
       [(''MOVE_TO'', JObj [(''location'', JStr ''pickup'')]), (''GRIP'', JObj [(''target'', JStr ''pcb'')]),
        (''MOVE_TO'', JObj [(''location'', JStr ''assembly_point'')]), (''RELEASE'', JObj [(''target'', JStr ''pcb'')])])]"

definition step_json :: "string \<times> json \<Rightarrow> json" where
  "step_json s = JObj [(''primitive'', JStr (fst s)), (''params'', snd s)]"

text \<open>\<open>hash\<close> is the hash of a string, which differs from process to process.\<close>

definition planner_handle :: "(string \<Rightarrow> int) \<Rightarrow> string \<Rightarrow> string \<Rightarrow> json \<Rightarrow> reply" where
  "planner_handle hash method path body =
     (if method = ''GET'' \<and> path = ''/stats'' then (200, JObj [(''role'', JStr ''simulated semantic planner'')])
      else if method = ''POST'' \<and> path = ''/decompose'' then
        (case (case body of JObj d \<Rightarrow> get_or_none d ''goal'' | _ \<Rightarrow> JNull) of
           JStr goal \<Rightarrow>
             if goal = [] \<or> 512 < length goal then error_reply 400 ''goal must be text of at most 512 characters''
             else (case map_of planner_plans (lower_str (strip goal)) of
               None \<Rightarrow> (200, JObj [(''matched'', JBool False), (''goal'', JStr goal), (''steps'', JArr []),
                 (''issues'', JArr [JStr ''no matching task template'']), (''valid'', JBool False)])
             | Some steps \<Rightarrow> (200, JObj [(''matched'', JBool True), (''goal'', JStr goal), (''steps'', JArr (map step_json steps)),
                 (''issues'', JArr []), (''valid'', JBool True), (''executable'', JBool False), (''requires_approval'', JBool True),
                 (''fingerprint'', JStr (''sim-'' @ int_str (\<bar>hash goal\<bar> mod 10 ^ 8)))]))
         | _ \<Rightarrow> error_reply 400 ''goal must be text of at most 512 characters'')
      else error_reply 404 ''not found'')"

subsection \<open>The safety stand-in\<close>

definition axis_ok :: "json \<Rightarrow> json \<Rightarrow> json \<Rightarrow> string \<Rightarrow> bool result" where
  "axis_ok low high position axis =
     and_then (item axis low) (\<lambda>l. and_then (item axis position) (\<lambda>p. and_then (compares_le l p) (\<lambda>above.
       if above then and_then (item axis high) (\<lambda>h. compares_le p h) else Ok False)))"

definition inside :: "json \<Rightarrow> json \<Rightarrow> bool result" where
  "inside zone position =
     and_then (item ''min'' zone) (\<lambda>low. and_then (item ''max'' zone) (\<lambda>high. all_of (axis_ok low high position) [''x'', ''y'', ''z'']))"

definition breach_of :: "json \<Rightarrow> json \<Rightarrow> json list result" where
  "breach_of zone thing =
     and_then (item ''level'' zone) (\<lambda>level.
       and_then (if level = JStr ''danger'' then and_then (item ''position'' thing) (inside zone) else Ok False) (\<lambda>hit.
         if hit then
           and_then (item ''id'' zone) (\<lambda>z. and_then (item ''id'' thing) (\<lambda>i. and_then (item ''position'' thing) (\<lambda>p.
             Ok [JObj [(''zone_id'', z), (''level'', level), (''object_id'', i), (''position'', p)]])))
         else Ok []))"

definition breaches_of :: "json \<Rightarrow> json dict \<Rightarrow> json list result" where
  "breaches_of zones body =
     and_then (get_list ''zones'' zones) (\<lambda>zs. and_then (items_of zs) (\<lambda>zs.
       and_then (map_result (\<lambda>zone.
           and_then (get_list ''objects'' (or_empty (get_or_none body ''detections''))) (\<lambda>things. and_then (items_of things) (\<lambda>things.
             map_result (breach_of zone) things))) zs)
         (\<lambda>found. Ok (concat (concat found)))))"

definition safety_reply :: "string \<Rightarrow> string \<Rightarrow> string \<Rightarrow> json list \<Rightarrow> json list \<Rightarrow> reply" where
  "safety_reply state reason sdk breaches stops = (200, JObj
     [(''state'', JStr state), (''reason'', JStr reason), (''breaches'', JArr breaches), (''estopRequests'', JArr stops),
      (''sdkSafetyState'', JObj [(''state'', JStr sdk)])])"

text \<open>The keys of a breach that the stop request repeats.\<close>

definition stop_request :: "json \<Rightarrow> json" where
  "stop_request b = (case b of
     JObj d \<Rightarrow> JObj [(''object_id'', get_or_none d ''object_id''), (''zone_id'', get_or_none d ''zone_id'')] | _ \<Rightarrow> JNull)"

definition safety_handle :: "string \<Rightarrow> string \<Rightarrow> json \<Rightarrow> reply result" where
  "safety_handle method path body =
     (if method = ''GET'' \<and> path = ''/stats'' then Ok (200, JObj [(''role'', JStr ''simulated safety zones'')])
      else if method = ''POST'' \<and> path = ''/check'' then
        (case body of
           JObj d \<Rightarrow>
             (let zones = or_empty (get_or_none d ''zones'') in
              and_then (key_in ''calibration'' zones) (\<lambda>calibrated.
                if \<not> calibrated then
                  Ok (safety_reply ''inhibited'' ''no calibration metadata present - zone geometry cannot be trusted'' ''INHIBITED'' [] [])
                else and_then (get_of ''active'' (or_empty (get_or_none d ''observation''))) (\<lambda>active.
                  if \<not> truth active then Ok (safety_reply ''inhibited'' ''no active observer'' ''INHIBITED'' [] [])
                  else and_then (breaches_of zones d) (\<lambda>breaches.
                    if breaches \<noteq> [] then
                      Ok (safety_reply ''danger'' ''objects breached a danger zone'' ''SAFE_STOP'' breaches (map stop_request breaches))
                    else Ok (safety_reply ''ready'' ''no breach, calibration valid'' ''READY'' [] [])))))
         | _ \<Rightarrow> Ok (error_reply 400 ''a JSON object is needed''))
      else Ok (error_reply 404 ''not found''))"

subsection \<open>The dispatcher stand-in\<close>

type_synonym jobs = "json dict"

definition starts_jobs :: string where
  "starts_jobs = ''/jobs/''"

definition job_json :: "string \<Rightarrow> int \<Rightarrow> json \<Rightarrow> json" where
  "job_json name priority tool =
     JObj [(''ID'', JStr name), (''Priority'', JInt priority), (''RequiredTool'', tool), (''Status'', JStr ''pending'')]"

definition dispatcher_handle :: "string \<Rightarrow> string \<Rightarrow> json \<Rightarrow> jobs \<Rightarrow> jobs \<times> reply result" where
  "dispatcher_handle method path body jobs =
     (if method = ''GET'' \<and> path = ''/health'' then
        (jobs, Ok (200, JObj [(''status'', JStr ''ok''), (''persistenceHealthy'', JBool True), (''lastPersistError'', JNull)]))
      else if method = ''POST'' \<and> path = ''/jobs'' then
        (case body of
           JObj d \<Rightarrow> (case get_or_none d ''id'' of
               JStr (c # cs) \<Rightarrow>
                 if map_of jobs (c # cs) \<noteq> None then (jobs, Ok (error_reply 409 ''a job with this id exists''))
                 else (case int_of (case map_of d ''priority'' of None \<Rightarrow> JInt 0 | Some v \<Rightarrow> v) of
                     Inl e \<Rightarrow> (jobs, Inl e)
                   | Inr priority \<Rightarrow>
                       (let job = job_json (c # cs) priority (case map_of d ''requiredTool'' of None \<Rightarrow> JStr [] | Some v \<Rightarrow> v)
                        in (dict_set (c # cs) job jobs, Ok (201, job))))
             | _ \<Rightarrow> (jobs, Ok (error_reply 400 ''id is required'')))
         | _ \<Rightarrow> (jobs, Ok (error_reply 400 ''id is required'')))
      else if method = ''GET'' \<and> startswith path starts_jobs then
        (jobs, Ok (case map_of jobs (drop (length starts_jobs) path) of None \<Rightarrow> error_reply 404 ''unknown job'' | Some job \<Rightarrow> (200, job)))
      else (jobs, Ok (error_reply 404 ''not found'')))"

subsection \<open>The twin stand-in\<close>

definition twin_token :: string where
  "twin_token = ''bench-twin-token-0123456789''"

definition bearer :: "string \<Rightarrow> string" where
  "bearer token = ''Bearer '' @ token"

definition line_feed :: string where
  "line_feed = [CHR 0x0A]"

definition certificates_text :: "nat \<Rightarrow> string" where
  "certificates_text n =
     ''# HELP hydra_umc_twin_up 1 while the service answers.'' @ line_feed @
     ''# TYPE hydra_umc_twin_up gauge'' @ line_feed @
     ''hydra_umc_twin_up 1'' @ line_feed @
     ''# HELP hydra_umc_twin_certificates_signed_total Risk certificates signed.'' @ line_feed @
     ''# TYPE hydra_umc_twin_certificates_signed_total counter'' @ line_feed @
     ''hydra_umc_twin_certificates_signed_total '' @ nat_str n @ line_feed"

text \<open>\<open>f"sim{n:08d}"\<close>.\<close>

definition nonce_text :: "nat \<Rightarrow> string" where
  "nonce_text n = ''sim'' @ replicate (8 - length (nat_str n)) (CHR ''0'') @ nat_str n"

text \<open>\<open>now\<close> is the clock in milliseconds, \<open>auth\<close> the authorization header, \<open>n\<close> how many certificates were signed.\<close>

definition twin_handle :: "int \<Rightarrow> string \<Rightarrow> string \<Rightarrow> json \<Rightarrow> string option \<Rightarrow> nat \<Rightarrow> nat \<times> reply" where
  "twin_handle now method path body auth n =
     (if method = ''GET'' \<and> path = ''/stats'' then (n, (200, JObj [(''workspace'', JStr ''simulated'')]))
      else if method = ''GET'' \<and> path = ''/metrics'' then (n, (200, JStr (certificates_text n)))
      else if method = ''POST'' \<and> path = ''/interlock/certify'' then
        (if auth \<noteq> Some (bearer twin_token) then (n, error_reply 401 ''a valid bearer token is required on the interlock routes'')
         else (case body of
             JObj d \<Rightarrow> (case get_or_none d ''joint'' of
                 JStr joint \<Rightarrow> (Suc n, (200, JObj
                   [(''joint'', JStr joint), (''position'', get_or_none d ''position''),
                    (''collision_imminent'', JBool (truth (get_or_none d ''collision_imminent''))),
                    (''distance_m'', get_or_none d ''distance_m''), (''issued_at_ms'', JInt now), (''nonce'', JStr (nonce_text (Suc n))),
                    (''key_id'', JStr ''simulated''), (''signature'', JStr (replicate 128 (CHR ''0'')))]))
               | _ \<Rightarrow> (n, error_reply 400 ''malformed risk report''))
           | _ \<Rightarrow> (n, error_reply 400 ''malformed risk report'')))
      else (n, error_reply 404 ''not found''))"

subsection \<open>The client\<close>

record bench_request =
  bq_method :: string
  bq_url :: string
  bq_body :: "json option"
  bq_token :: "string option"

text \<open>What comes back: the text \<open>json.dumps\<close> gave for a document, or any other text; invalid UTF-8 is already replaced.\<close>

datatype wire = Encoded json | Plain string

record wire_reply =
  wr_status :: int
  wr_type :: string
  wr_content :: wire

text \<open>\<open>json.loads\<close> reads back what \<open>json.dumps\<close> wrote; of other texts it is the argument \<open>loads\<close>.\<close>

definition parse_reply :: "(string \<Rightarrow> json option) \<Rightarrow> wire_reply \<Rightarrow> json" where
  "parse_reply loads r =
     (let content = (case wr_content r of Encoded j \<Rightarrow> dumps_default j | Plain t \<Rightarrow> t) in
      if contains_sub (wr_type r) ''json'' \<or> startswith (lstrip content) ''{'' \<or> startswith (lstrip content) ''['' then
        (case wr_content r of
           Encoded j \<Rightarrow> j
         | Plain t \<Rightarrow> (case loads t of Some j \<Rightarrow> j | None \<Rightarrow> JStr t))
      else JStr content)"

text \<open>
  The network answers a request or raises; an \<open>HTTPError\<close> is an answer too.  The exchanges of a run are kept in order, with what the
  client made of the answer, or nothing when an exception went through.
\<close>

type_synonym 'w bench_net = "bench_request \<Rightarrow> 'w \<Rightarrow> 'w \<times> wire_reply result"

type_synonym exchange = "bench_request \<times> (int \<times> json) option"

type_synonym ('w, 'a) bench_step = "exchange list \<times> 'w \<Rightarrow> (exchange list \<times> 'w) \<times> 'a result"

definition call :: "(string \<Rightarrow> json option) \<Rightarrow> 'w bench_net \<Rightarrow> string \<Rightarrow> string \<Rightarrow> string \<Rightarrow> json option \<Rightarrow> string option \<Rightarrow> ('w, int \<times> json) bench_step" where
  "call loads net base method path body token s = (case s of (t, w) \<Rightarrow>
     (let q = \<lparr>bq_method = method, bq_url = rstrip_char (CHR ''/'') base @ path, bq_body = body,
               bq_token = (if token = Some [] then None else token)\<rparr> in
      case net q w of
        (w1, Inr r) \<Rightarrow> ((t @ [(q, Some (wr_status r, parse_reply loads r))], w1), Ok (wr_status r, parse_reply loads r))
      | (w1, Inl e) \<Rightarrow>
          (if exn_class_of e = PyOSError \<or> exn_class_of e = PyFileExistsError then
             ((t @ [(q, Some (0, JStr ''unreachable''))], w1), Ok (0, JStr ''unreachable''))
           else ((t @ [(q, None)], w1), Inl e))))"

subsection \<open>The stand-ins on the network\<close>

record standins =
  si_jobs :: jobs
  si_certificates :: nat
  si_calls :: "string \<Rightarrow> (string \<times> string) list"

definition fresh_standins :: standins where
  "fresh_standins = \<lparr>si_jobs = [], si_certificates = 0, si_calls = (\<lambda>name. [])\<rparr>"

definition wire_of :: "reply \<Rightarrow> wire_reply" where
  "wire_of r = (case r of
     (status, JStr t) \<Rightarrow> \<lparr>wr_status = status, wr_type = ''text/plain; version=0.0.4'', wr_content = Plain t\<rparr>
   | (status, j) \<Rightarrow> \<lparr>wr_status = status, wr_type = ''application/json'', wr_content = Encoded j\<rparr>)"

text \<open>An exception in a handler closes the connection, which the client sees as an \<open>OSError\<close>.\<close>

definition sent_back :: "reply result \<Rightarrow> wire_reply result" where
  "sent_back r = (case r of Inr reply \<Rightarrow> Ok (wire_of reply) | Inl e \<Rightarrow> Err (Raise PyOSError []))"

definition standin_serve :: "(string \<Rightarrow> int) \<Rightarrow> int \<Rightarrow> string \<Rightarrow> bench_request \<Rightarrow> string \<Rightarrow> standins \<Rightarrow> standins \<times> wire_reply result" where
  "standin_serve hash now name q target w =
     (let path = takeWhile (\<lambda>c. c \<noteq> CHR ''?'') target; method = bq_method q;
          body = (case bq_body q of None \<Rightarrow> JNull | Some j \<Rightarrow> j);
          w1 = w\<lparr>si_calls := (si_calls w)(name := si_calls w name @ [(method, path)])\<rparr> in
      if method \<noteq> ''GET'' \<and> method \<noteq> ''POST'' then (w, Ok \<lparr>wr_status = 501, wr_type = ''text/html;charset=utf-8'', wr_content = Plain []\<rparr>)
      else if name = ''planner'' then (w1, sent_back (Ok (planner_handle hash method path body)))
      else if name = ''safety'' then (w1, sent_back (safety_handle method path body))
      else if name = ''dispatcher'' then
        (case dispatcher_handle method path body (si_jobs w1) of (jobs, r) \<Rightarrow> (w1\<lparr>si_jobs := jobs\<rparr>, sent_back r))
      else (case twin_handle now method path body (map_option bearer (bq_token q)) (si_certificates w1) of
          (n, r) \<Rightarrow> (w1\<lparr>si_certificates := n\<rparr>, sent_back (Ok r))))"

text \<open>The four stand-ins, each at an address of its own; \<open>clock\<close> is the time in milliseconds.\<close>

definition standin_net :: "(string \<Rightarrow> int) \<Rightarrow> (standins \<Rightarrow> int) \<Rightarrow> string dict \<Rightarrow> standins bench_net" where
  "standin_net hash clock urls q w = (case find (\<lambda>(name, u). startswith (bq_url q) (u @ ''/'')) urls of
     None \<Rightarrow> (w, Err (Raise PyOSError []))
   | Some (name, u) \<Rightarrow> standin_serve hash (clock w) name q (drop (length u) (bq_url q)) w)"

end
