(* ===== verification/Bench_Scenarios.thy ===== *)
theory Bench_Scenarios
  imports Bench
begin

text \<open>
  \<open>bench.py\<close>: the bench and its scenarios, as steps over the exchanges with the services, the run that turns an exception into a
  failed scenario, the check of a metrics text and the exit code.
\<close>

subsection \<open>Steps\<close>

definition step_return :: "'a result \<Rightarrow> ('w, 'a) bench_step" where
  "step_return r s = (s, r)"

definition step_then :: "('w, 'a) bench_step \<Rightarrow> ('a \<Rightarrow> ('w, 'b) bench_step) \<Rightarrow> ('w, 'b) bench_step" where
  "step_then m f s = (case m s of (s1, Inl e) \<Rightarrow> (s1, Inl e) | (s1, Inr v) \<Rightarrow> f v s1)"

definition step_read :: "('w \<Rightarrow> 'a) \<Rightarrow> ('w, 'a) bench_step" where
  "step_read f s = (s, Ok (f (snd s)))"

subsection \<open>The bench\<close>

record running =
  rn_url :: string
  rn_source :: string

record 'w bench =
  bn_services :: "running dict"
  bn_token :: string
  bn_loads :: "string \<Rightarrow> json option"
  bn_net :: "'w bench_net"
  bn_clock :: "'w \<Rightarrow> int"
  bn_date :: "'w \<Rightarrow> string"
  bn_stamp :: "'w \<Rightarrow> string"

datatype bench_status = Passed | Failed | Skipped

record bench_result =
  br_name :: string
  br_status :: bench_status
  br_detail :: msg

definition scenario_end :: "string \<Rightarrow> bench_status \<Rightarrow> msg \<Rightarrow> ('w, bench_result) bench_step" where
  "scenario_end name status detail = step_return (Ok \<lparr>br_name = name, br_status = status, br_detail = detail\<rparr>)"

text \<open>A request to a service by its name.\<close>

definition url_of :: "'w bench \<Rightarrow> string \<Rightarrow> string result" where
  "url_of b name = (case map_of (bn_services b) name of
     None \<Rightarrow> Err (Raise PyKeyError [Msg ''{}'' [JStr name]]) | Some r \<Rightarrow> Ok (rn_url r))"

definition ask :: "'w bench \<Rightarrow> string \<Rightarrow> string \<Rightarrow> string \<Rightarrow> json option \<Rightarrow> string option \<Rightarrow> ('w, int \<times> json) bench_step" where
  "ask b name method path body token =
     step_then (step_return (url_of b name)) (\<lambda>url. call (bn_loads b) (bn_net b) url method path body token)"

subsection \<open>health\<close>

definition health_paths :: "string dict" where
  "health_paths = [(''planner'', ''/stats''), (''safety'', ''/stats''), (''dispatcher'', ''/health''), (''twin'', ''/stats'')]"

fun services_down :: "'w bench \<Rightarrow> string dict \<Rightarrow> ('w, string list) bench_step" where
  "services_down b [] = step_return (Ok [])"
| "services_down b ((name, path) # rest) =
     step_then (ask b name ''GET'' path None None) (\<lambda>(status, reply).
       step_then (services_down b rest) (\<lambda>down.
         step_return (Ok (if status \<noteq> 200 then (name @ '' ('' @ int_str status @ '')'') # down else down))))"

definition health :: "'w bench \<Rightarrow> ('w, bench_result) bench_step" where
  "health b = step_then (services_down b health_paths) (\<lambda>down.
     if down \<noteq> [] then scenario_end ''health'' Failed (Msg ''down: {}'' (map JStr down))
     else scenario_end ''health'' Passed (Msg ''every service answers [{}]''
       (map (\<lambda>(name, r). JStr (name @ ''='' @ rn_source r)) (bn_services b))))"

subsection \<open>What the scenarios ask\<close>

definition point :: "rat \<Rightarrow> rat \<Rightarrow> rat \<Rightarrow> json" where
  "point x y z = JObj [(''x'', JFloat (Finite x)), (''y'', JFloat (Finite y)), (''z'', JFloat (Finite z))]"

definition bench_zones :: "string \<Rightarrow> json" where
  "bench_zones date = JObj
     [(''calibration'', JObj [(''version'', JStr ''bench''), (''source'', JStr ''manual''), (''calibrated_at'', JStr date), (''max_age_days'', JInt 30)]),
      (''zones'', JArr [JObj [(''id'', JStr ''cell''), (''level'', JStr ''danger''),
         (''min'', JObj [(''x'', JInt 0), (''y'', JInt 0), (''z'', JInt 0)]),
         (''max'', JObj [(''x'', JInt 1), (''y'', JInt 1), (''z'', JInt 1)])]])]"

definition bench_observation :: "string \<Rightarrow> json" where
  "bench_observation stamp = JObj
     [(''active'', JBool True), (''observedAt'', JStr stamp), (''maxAgeSeconds'', JInt 60), (''error'', JNull)]"

definition check_body :: "string \<Rightarrow> string \<Rightarrow> json \<Rightarrow> json" where
  "check_body date stamp position = JObj
     [(''zones'', bench_zones date),
      (''detections'', JObj [(''objects'', JArr [JObj [(''id'', JStr ''thing''), (''position'', position)]])]),
      (''observation'', bench_observation stamp)]"

definition runtime_error :: "string \<Rightarrow> json list \<Rightarrow> 'a result" where
  "runtime_error t vs = Err (Raise PyRuntimeError [Msg t vs])"

definition check_step :: "'w bench \<Rightarrow> json \<Rightarrow> ('w, json) bench_step" where
  "check_step b position =
     step_then (step_read (\<lambda>w. check_body (bn_date b w) (bn_stamp b w) position)) (\<lambda>body.
     step_then (ask b ''safety'' ''POST'' ''/check'' (Some body) None) (\<lambda>(status, reply).
       step_return (if status \<noteq> 200 then runtime_error ''safety answered {}: {}'' [JInt status, reply] else Ok reply)))"

definition plan_step :: "'w bench \<Rightarrow> ('w, json) bench_step" where
  "plan_step b =
     step_then (ask b ''planner'' ''POST'' ''/decompose'' (Some (JObj [(''goal'', JStr ''assemble the pcb'')])) None) (\<lambda>(status, plan).
       step_return (if status \<noteq> 200 then runtime_error ''planner answered {}: {}'' [JInt status, plan]
         else and_then (get_of ''matched'' plan) (\<lambda>matched.
           if \<not> truth matched then runtime_error ''planner answered {}: {}'' [JInt status, plan] else Ok plan)))"

definition risk_report :: "string \<Rightarrow> rat \<Rightarrow> json" where
  "risk_report joint position = JObj
     [(''joint'', JStr joint), (''position'', JFloat (Finite position)), (''collision_imminent'', JBool False), (''distance_m'', JFloat (Finite (to_double (3 / 5))))]"

definition certify_once :: "'w bench \<Rightarrow> string \<Rightarrow> rat \<Rightarrow> ('w, int \<times> json) bench_step" where
  "certify_once b joint position =
     ask b ''twin'' ''POST'' ''/interlock/certify'' (Some (risk_report joint position)) (Some (bn_token b))"

definition sim_step :: "'w bench \<Rightarrow> json \<Rightarrow> ('w, int \<times> json) bench_step" where
  "sim_step b seconds = ask b ''twin'' ''POST'' ''/sim/step'' (Some (JObj [(''seconds'', seconds)])) (Some (bn_token b))"

text \<open>A twin that refuses for lack of a recent state of the joint (409) is given one, once.\<close>

definition certify :: "'w bench \<Rightarrow> string \<Rightarrow> rat \<Rightarrow> ('w, int \<times> json) bench_step" where
  "certify b joint position =
     step_then (certify_once b joint position) (\<lambda>(status, reply).
       if status = 409 then step_then (sim_step b (JFloat (Finite (to_double (1 / 100))))) (\<lambda>stepped. certify_once b joint position)
       else step_return (Ok (status, reply)))"

subsection \<open>chain_to_dispatch\<close>

text \<open>\<open>v["valid"] and v["steps"]\<close>, and \<open>status == 200 and v.get("signature")\<close>.\<close>

definition plan_usable :: "json \<Rightarrow> bool result" where
  "plan_usable plan = and_then (item ''valid'' plan) (\<lambda>v.
     if \<not> truth v then Ok False else and_then (item ''steps'' plan) (\<lambda>steps. Ok (truth steps)))"

definition is_signed :: "int \<Rightarrow> json \<Rightarrow> bool result" where
  "is_signed status certificate =
     (if status \<noteq> 200 then Ok False else and_then (get_of ''signature'' certificate) (\<lambda>v. Ok (truth v)))"

definition queue_job :: "'w bench \<Rightarrow> json \<Rightarrow> ('w, bench_result) bench_step" where
  "queue_job b plan = (let me = ''chain_to_dispatch'' in
     step_then (step_read (\<lambda>w. ''bench-'' @ int_str (bn_clock b w))) (\<lambda>job.
     step_then (ask b ''dispatcher'' ''POST'' ''/jobs''
         (Some (JObj [(''id'', JStr job), (''priority'', JInt 5), (''requiredTool'', JStr ''Gripper'')])) None) (\<lambda>(status, created).
       if status \<notin> {200, 201} then scenario_end me Failed (Msg ''the dispatcher answered {}: {}'' [JInt status, created])
       else step_then (ask b ''dispatcher'' ''GET'' (starts_jobs @ job) None None) (\<lambda>(status, stored).
         if status \<noteq> 200 then scenario_end me Failed (Msg ''the job is not there afterwards ({})'' [JInt status])
         else step_then (step_return (and_then (item ''steps'' plan) length_of)) (\<lambda>n.
           scenario_end me Passed (Msg ''{} steps planned, cell clear, certificate signed, job {} queued'' [JInt n, JStr job]))))))"

definition chain_to_dispatch :: "'w bench \<Rightarrow> ('w, bench_result) bench_step" where
  "chain_to_dispatch b = (let me = ''chain_to_dispatch'' in
     step_then (plan_step b) (\<lambda>plan. step_then (step_return (plan_usable plan)) (\<lambda>usable.
       if \<not> usable then scenario_end me Failed (Msg ''the plan is not valid or has no step'' [])
       else step_then (check_step b (point 5 5 0)) (\<lambda>safety. step_then (step_return (item ''state'' safety)) (\<lambda>state.
         if state \<noteq> JStr ''ready'' then
           step_then (step_return (item ''reason'' safety)) (\<lambda>reason.
             scenario_end me Failed (Msg ''the cell should be clear, safety says {}: {}'' [state, reason]))
         else step_then (certify b ''shoulder'' (1 / 2)) (\<lambda>(status, certificate).
           step_then (step_return (is_signed status certificate)) (\<lambda>signed.
             if \<not> signed then scenario_end me Failed (Msg ''the twin answered {}: {}'' [JInt status, certificate])
             else queue_job b plan)))))))"

subsection \<open>breach_stops_the_chain and unapproved_plan_is_not_executable\<close>

definition breach_stops_the_chain :: "'w bench \<Rightarrow> ('w, bench_result) bench_step" where
  "breach_stops_the_chain b = (let me = ''breach_stops_the_chain'' in
     step_then (plan_step b) (\<lambda>plan.
     step_then (check_step b (point (1 / 2) (1 / 2) (1 / 2))) (\<lambda>safety.
     step_then (step_return (item ''state'' safety)) (\<lambda>state.
     step_then (step_return (if state = JStr ''ready'' then Ok JNull else get_of ''estopRequests'' safety)) (\<lambda>stops.
       if \<not> truth stops then scenario_end me Failed (Msg ''a person in the cell must stop the chain, safety says {}'' [state])
       else step_then (ask b ''dispatcher'' ''GET'' ''/jobs/bench-breach'' None None) (\<lambda>(status, reply).
         if status = 200 then scenario_end me Failed (Msg ''a job exists for a run that was stopped'' [])
         else step_then (step_return (length_of stops)) (\<lambda>n.
           scenario_end me Passed (Msg ''safety says {} with {} stop request(s); nothing certified or queued'' [state, JInt n]))))))))"

definition unapproved_plan_is_not_executable :: "'w bench \<Rightarrow> ('w, bench_result) bench_step" where
  "unapproved_plan_is_not_executable b = (let me = ''unapproved_plan_is_not_executable'' in
     step_then (plan_step b) (\<lambda>plan.
     step_then (step_return (and_then (get_of ''executable'' plan) (\<lambda>x.
         if x \<noteq> JBool False then Ok False else and_then (get_of ''requires_approval'' plan) (\<lambda>a. Ok (a = JBool True))))) (\<lambda>proposal.
       if \<not> proposal then scenario_end me Failed (Msg ''a plan must be a proposal that needs approval until someone approves it'' [])
       else scenario_end me Passed (Msg ''the plan is a proposal (executable: false, requires_approval: true)'' []))))"

subsection \<open>The check of a metrics text\<close>

text \<open>\<open>str.split()\<close>.\<close>

fun split_words :: "string \<Rightarrow> string \<Rightarrow> string list" where
  "split_words acc [] = (if acc = [] then [] else [rev acc])"
| "split_words acc (c # cs) =
     (if is_space c then (if acc = [] then split_words [] cs else rev acc # split_words [] cs) else split_words (c # acc) cs)"

definition words_of :: "string \<Rightarrow> string list" where
  "words_of s = split_words [] s"

definition metric_kinds :: "string list" where
  "metric_kinds = [''counter'', ''gauge'', ''histogram'', ''summary'', ''untyped'']"

definition name_start :: "char \<Rightarrow> bool" where
  "name_start c = (is_lower c \<or> is_upper c \<or> c = CHR ''_'' \<or> c = CHR '':'')"

definition name_char :: "char \<Rightarrow> bool" where
  "name_char c = (name_start c \<or> is_digit c)"

text \<open>The name, the labels and the value of a series line; the name ends where the first other character stands.\<close>

definition series_value_rx :: rx where
  "series_value_rx = rx_alts
     [rx_seq [rx_opt (rx_lit ''-''), rx_plus (RSet (\<lambda>c. is_digit c \<or> c = CHR ''.'')),
        rx_opt (rx_seq [rx_lit ''e'', rx_opt (RSet (\<lambda>c. c = CHR ''+'' \<or> c = CHR ''-'')), rx_plus (RSet is_digit)])],
      rx_lit ''NaN'', rx_seq [RSet (\<lambda>c. c = CHR ''+'' \<or> c = CHR ''-''), rx_lit ''Inf'']]"

definition series_rx :: rx where
  "series_rx = rx_seq
     [RSet name_start, RStar (RSet name_char),
      rx_opt (rx_seq [rx_lit ''{'', RStar (RSet (\<lambda>c. c \<noteq> CHR ''}'')), rx_lit ''}'']), rx_lit '' '', series_value_rx]"

definition series_name :: "string \<Rightarrow> string" where
  "series_name line = takeWhile name_char line"

text \<open>The loop over the lines, with the declared names and how many series were seen; no message: nothing is wrong.\<close>

fun metrics_lines :: "string list \<Rightarrow> nat \<Rightarrow> string list \<Rightarrow> msg option" where
  "metrics_lines declared n [] = (if n = 0 then Some (Msg ''no series at all'' []) else None)"
| "metrics_lines declared n (line # rest) =
     (if strip line = [] then metrics_lines declared n rest
      else if startswith line ''# TYPE '' then
        (if length (words_of line) \<noteq> 4 \<or> words_of line ! 3 \<notin> set metric_kinds then Some (Msg ''bad TYPE line: {}'' [JStr line])
         else metrics_lines (words_of line ! 2 # declared) n rest)
      else if startswith line ''# HELP '' then
        (if length (words_of line) < 4 then Some (Msg ''bad HELP line: {}'' [JStr line]) else metrics_lines declared n rest)
      else if startswith line ''#'' then metrics_lines declared n rest
      else if \<not> fullmatch series_rx line then Some (Msg ''bad series line: {}'' [JStr line])
      else if series_name line \<notin> set declared then Some (Msg ''{} is used before its TYPE line'' [JStr (series_name line)])
      else metrics_lines declared (Suc n) rest)"

definition prometheus_problem :: "string \<Rightarrow> msg option" where
  "prometheus_problem content = metrics_lines [] 0 (split_lines [] content)"

subsection \<open>metrics_are_prometheus_text\<close>

text \<open>The names whose metrics are good, or the result that ends the scenario.\<close>

fun metrics_of :: "'w bench \<Rightarrow> string list \<Rightarrow> string list \<Rightarrow> ('w, bench_result + string list) bench_step" where
  "metrics_of b checked [] = step_return (Ok (Inr checked))"
| "metrics_of b checked (name # rest) =
     (case map_of (bn_services b) name of
        None \<Rightarrow> metrics_of b checked rest
      | Some r \<Rightarrow>
          if rn_url r = [] then metrics_of b checked rest
          else step_then (call (bn_loads b) (bn_net b) (rn_url r) ''GET'' ''/metrics'' None (if name = ''twin'' then Some (bn_token b) else None))
            (\<lambda>(status, reply).
              if status = 404 then metrics_of b checked rest
              else (case (if status = 200 \<and> is_str reply then prometheus_problem (str_of reply) else Some (Msg ''status {}'' [JInt status])) of
                  Some (Msg t vs) \<Rightarrow> step_return (Ok (Inl \<lparr>br_name = ''metrics_are_prometheus_text'', br_status = Failed,
                    br_detail = Msg (''{}: '' @ t) (JStr name # vs)\<rparr>))
                | None \<Rightarrow> metrics_of b (checked @ [name]) rest)))"

definition metrics_are_prometheus_text :: "'w bench \<Rightarrow> ('w, bench_result) bench_step" where
  "metrics_are_prometheus_text b = (let me = ''metrics_are_prometheus_text'' in
     step_then (metrics_of b [] [''twin'', ''bridge'']) (\<lambda>outcome. case outcome of
         Inl failed \<Rightarrow> step_return (Ok failed)
       | Inr checked \<Rightarrow>
           if checked = [] then scenario_end me Skipped (Msg ''no service of this run offers /metrics'' [])
           else scenario_end me Passed (Msg ''valid Prometheus text from {}'' (map JStr checked))))"

subsection \<open>certified_command_moves_the_simulated_robot\<close>

text \<open>\<open>next(j for j in v["joints"] if j["joint"] == "shoulder")\<close>: the first joint of that name, if any.\<close>

fun first_shoulder :: "json list \<Rightarrow> json option result" where
  "first_shoulder [] = Ok None"
| "first_shoulder (j # js) = and_then (item ''joint'' j) (\<lambda>name. if name = JStr ''shoulder'' then Ok (Some j) else first_shoulder js)"

definition shoulder_of :: "json \<Rightarrow> json option result" where
  "shoulder_of v = and_then (item ''joints'' v) (\<lambda>js. and_then (items_of js) first_shoulder)"

definition the_shoulder :: "json \<Rightarrow> json result" where
  "the_shoulder v = and_then (shoulder_of v) (\<lambda>s. case s of None \<Rightarrow> Err (Raise PyStopIteration []) | Some j \<Rightarrow> Ok j)"

definition on_its_way :: "json \<Rightarrow> bool result" where
  "on_its_way shoulder =
     and_then (item ''position'' shoulder) (\<lambda>p. and_then (compares_less (JFloat (Finite 0)) p) (\<lambda>above.
       and_then (if above then compares_less p (JFloat (Finite 1)) else Ok False) (\<lambda>between.
         if between then and_then (item ''moving'' shoulder) (\<lambda>m. Ok (truth m)) else Ok False)))"

definition arrived :: "json \<Rightarrow> json option \<Rightarrow> bool result" where
  "arrived shoulder seen =
     and_then (item ''position'' shoulder) (\<lambda>p.
       if number_of p \<noteq> Some (Finite 1) then Ok False
       else and_then (item ''moving'' shoulder) (\<lambda>m.
         if truth m then Ok False
         else (case seen of
             None \<Rightarrow> Ok False
           | Some j \<Rightarrow> if truth j then and_then (item ''source'' j) (\<lambda>source. Ok (source = JStr ''measured'')) else Ok False)))"

definition real_order :: "json \<Rightarrow> int \<Rightarrow> json" where
  "real_order certificate now = JObj
     [(''mode'', JStr ''real''), (''joint'', JStr ''shoulder''), (''position'', JFloat (Finite 1)), (''certificate'', certificate),
      (''issued_at_ms'', JInt now), (''valid_for_ms'', JInt 1000), (''seq'', JInt 1)]"

definition opt_json :: "json option \<Rightarrow> json" where
  "opt_json j = (case j of None \<Rightarrow> JNull | Some v \<Rightarrow> v)"

definition follow_robot :: "'w bench \<Rightarrow> ('w, bench_result) bench_step" where
  "follow_robot b = (let me = ''certified_command_moves_the_simulated_robot'' in
     step_then (sim_step b (JFloat (Finite (to_double (1 / 10))))) (\<lambda>(status, partway).
     step_then (step_return (and_then (the_shoulder partway) (\<lambda>j. and_then (on_its_way j) (\<lambda>moving. Ok (j, moving))))) (\<lambda>(j, moving).
       if \<not> moving then scenario_end me Failed (Msg ''after 100 ms the joint should be on its way: {}'' [j])
       else step_then (sim_step b (JInt 5)) (\<lambda>(status, finished).
         step_then (step_return (the_shoulder finished)) (\<lambda>j.
         step_then (ask b ''twin'' ''GET'' ''/interlock/state'' None (Some (bn_token b))) (\<lambda>(status, followed).
         step_then (step_return (and_then (shoulder_of followed) (\<lambda>seen. and_then (arrived j seen) (\<lambda>there. Ok (seen, there))))) (\<lambda>(seen, there).
           if \<not> there then scenario_end me Failed (Msg ''the joint did not arrive or the twin does not follow it: {} {}'' [j, opt_json seen])
           else scenario_end me Passed (Msg ''a certified command moved the simulated joint over time and the twin follows it as measured'' []))))))))"

definition certified_command :: "'w bench \<Rightarrow> ('w, bench_result) bench_step" where
  "certified_command b = (let me = ''certified_command_moves_the_simulated_robot''; named = map_of (bn_services b) in
     case (named ''bridge'', named ''twin'') of
       (Some bridge, Some twin) \<Rightarrow>
         if rn_source bridge = ''unavailable'' \<or> rn_source twin = ''simulated'' then
           scenario_end me Skipped (Msg ''needs the real twin and the real bridge (--real with both binaries built)'' [])
         else step_then (certify b ''shoulder'' 1) (\<lambda>(status, certificate).
           if status \<noteq> 200 then scenario_end me Failed (Msg ''the twin did not sign: {} {}'' [JInt status, certificate])
           else step_then (step_read (\<lambda>w. real_order certificate (bn_clock b w))) (\<lambda>order.
             step_then (ask b ''bridge'' ''POST'' ''/route'' (Some order) None) (\<lambda>(status, routed).
               if status \<noteq> 200 \<or> \<not> contains_sub (dumps_default routed) ''SentReal'' then
                 scenario_end me Failed (Msg ''the bridge answered {}: {}'' [JInt status, routed])
               else follow_robot b)))
     | _ \<Rightarrow> step_return (Err (Raise PyKeyError [])))"

subsection \<open>The run\<close>

definition scenarios :: "'w bench \<Rightarrow> (string \<times> ('w, bench_result) bench_step) list" where
  "scenarios b =
     [(''health'', health b), (''chain_to_dispatch'', chain_to_dispatch b), (''breach_stops_the_chain'', breach_stops_the_chain b),
      (''unapproved_plan_is_not_executable'', unapproved_plan_is_not_executable b),
      (''metrics_are_prometheus_text'', metrics_are_prometheus_text b),
      (''certified_command_moves_the_simulated_robot'', certified_command b)]"

text \<open>A scenario that raises is a failed scenario.\<close>

definition run_scenario :: "string \<times> ('w, bench_result) bench_step \<Rightarrow> exchange list \<times> 'w \<Rightarrow> (exchange list \<times> 'w) \<times> bench_result" where
  "run_scenario sc s = (case snd sc s of
     (s1, Inr r) \<Rightarrow> (s1, r)
   | (s1, Inl e) \<Rightarrow> (s1, \<lparr>br_name = fst sc, br_status = Failed, br_detail = Msg ''{}'' (map (\<lambda>m. msg_json (Some m)) (exn_msgs e))\<rparr>))"

fun run_all :: "(string \<times> ('w, bench_result) bench_step) list \<Rightarrow> exchange list \<times> 'w \<Rightarrow> (exchange list \<times> 'w) \<times> bench_result list" where
  "run_all [] s = (s, [])"
| "run_all (sc # rest) s = (case run_scenario sc s of (s1, r) \<Rightarrow> (case run_all rest s1 of (s2, rs) \<Rightarrow> (s2, r # rs)))"

definition run_bench :: "'w bench \<Rightarrow> 'w \<Rightarrow> (exchange list \<times> 'w) \<times> bench_result list" where
  "run_bench b w = run_all (scenarios b) ([], w)"

definition bench_exit :: "bench_result list \<Rightarrow> int" where
  "bench_exit rs = (if list_ex (\<lambda>r. br_status r = Failed) rs then 1 else 0)"

end
