(* ===== verification/Bench_Proofs.thy ===== *)
theory Bench_Proofs
  imports Bench_Scenarios
begin

text \<open>
  What the bench does to the services it is given, whatever they answer: a logic of steps over the exchanges (each step only adds
  exchanges, and keeps an invariant of them), and with it that a job is queued and a movement is ordered only after the checks.
\<close>

named_theorems bench_urls \<open>which addresses end in which route\<close>

subsection \<open>A logic of steps\<close>

text \<open>
  From exchanges with \<open>P\<close> (and the invariant), the step ends in exchanges with the invariant that extend them; when it returns a value,
  \<open>Q\<close> holds of the value and the exchanges.
\<close>

definition step_ok :: "(exchange list \<Rightarrow> bool) \<Rightarrow> (exchange list \<Rightarrow> bool) \<Rightarrow> ('w, 'a) bench_step \<Rightarrow> ('a \<Rightarrow> exchange list \<Rightarrow> bool) \<Rightarrow> bool" where
  "step_ok safe P m Q \<longleftrightarrow> (\<forall>t w t1 w1 r. P t \<longrightarrow> safe t \<longrightarrow> m (t, w) = ((t1, w1), r) \<longrightarrow>
     safe t1 \<and> prefix t t1 \<and> (\<forall>v. r = Ok v \<longrightarrow> Q v t1))"

text \<open>A fact about what was exchanged is not lost by exchanging more.\<close>

definition lasting :: "(exchange list \<Rightarrow> bool) \<Rightarrow> bool" where
  "lasting P \<longleftrightarrow> (\<forall>t t1. P t \<longrightarrow> prefix t t1 \<longrightarrow> P t1)"

definition said :: "(bench_request \<Rightarrow> int \<Rightarrow> json \<Rightarrow> bool) \<Rightarrow> exchange list \<Rightarrow> bool" where
  "said f t \<longleftrightarrow> (\<exists>q n j. (q, Some (n, j)) \<in> set t \<and> f q n j)"

lemma lasting_said [intro, simp]: "lasting (said f)"
  unfolding lasting_def said_def by (metis prefix_def Un_iff set_append)

lemma said_mono: "said f t \<Longrightarrow> (\<And>q n j. f q n j \<Longrightarrow> g q n j) \<Longrightarrow> said g t"
  unfolding said_def by blast

lemma lasting_const [intro, simp]: "lasting (\<lambda>t. c)"
  by (simp add: lasting_def)

lemma lasting_conj [intro, simp]: "lasting P \<Longrightarrow> lasting Q \<Longrightarrow> lasting (\<lambda>t. P t \<and> Q t)"
  by (auto simp: lasting_def)

lemma step_okI:
  assumes "\<And>t w t1 w1 r. P t \<Longrightarrow> safe t \<Longrightarrow> m (t, w) = ((t1, w1), r) \<Longrightarrow> safe t1 \<and> prefix t t1 \<and> (\<forall>v. r = Ok v \<longrightarrow> Q v t1)"
  shows "step_ok safe P m Q"
  using assms unfolding step_ok_def by blast

lemma step_okD:
  assumes "step_ok safe P m Q" "m (t, w) = ((t1, w1), r)" "P t" "safe t"
  shows "safe t1" "prefix t t1" "r = Ok v \<Longrightarrow> Q v t1"
  using assms unfolding step_ok_def by blast+

lemma step_ok_then [intro]:
  assumes m: "step_ok safe P m Q" and f: "\<And>v. step_ok safe (\<lambda>t. P t \<and> Q v t) (f v) R" and P: "lasting P"
  shows "step_ok safe P (step_then m f) R"
proof (rule step_okI)
  fix t w t1 w1 r assume start: "P t" "safe t" and run: "step_then m f (t, w) = ((t1, w1), r)"
  obtain t2 w2 r2 where m1: "m (t, w) = ((t2, w2), r2)" by (metis surj_pair)
  note first = step_okD [OF m m1 start]
  show "safe t1 \<and> prefix t t1 \<and> (\<forall>v. r = Ok v \<longrightarrow> R v t1)"
  proof (cases r2)
    case (Inl e)
    then show ?thesis using run m1 first by (auto simp: step_then_def)
  next
    case (Inr v)
    then have run2: "f v (t2, w2) = ((t1, w1), r)" using run m1 by (simp add: step_then_def)
    have "P t2" using P start(1) first(2) by (auto simp: lasting_def)
    then have start2: "P t2 \<and> Q v t2" using first(3) [OF Inr] by simp
    have "safe t1" "prefix t2 t1" using step_okD(1,2) [OF f run2 start2 first(1)] .
    moreover have "\<forall>u. r = Ok u \<longrightarrow> R u t1" using step_okD(3) [OF f run2 start2 first(1)] by blast
    ultimately show ?thesis using first(2) prefix_order.trans by blast
  qed
qed

lemma step_then_return: "step_then (step_return r) f = (case r of Inl e \<Rightarrow> step_return (Inl e) | Inr v \<Rightarrow> f v)"
  by (auto simp: fun_eq_iff step_then_def step_return_def split: sum.splits)

lemma step_ok_return [simp]: "step_ok safe P (step_return r) Q \<longleftrightarrow> (\<forall>t v. P t \<longrightarrow> safe t \<longrightarrow> r = Ok v \<longrightarrow> Q v t)"
  by (auto simp: step_ok_def step_return_def)

lemma step_ok_read [simp]: "step_ok safe P (step_read f) (\<lambda>v t. True)"
  by (auto simp: step_ok_def step_read_def)

lemma step_ok_any: "step_ok safe P (step_return r) (\<lambda>v t. True)"
  by simp

lemma step_ok_end [simp]: "step_ok safe P (scenario_end name status detail) (\<lambda>v t. True)"
  by (simp add: scenario_end_def)

lemma step_ok_pure:
  assumes "\<And>v. r = Ok v \<Longrightarrow> step_ok safe P (f v) Q"
  shows "step_ok safe P (step_then (step_return r) f) Q"
  using assms by (cases r) (simp_all add: step_then_return)

lemma step_ok_weaken:
  assumes "step_ok safe P m Q" "\<And>t. P1 t \<Longrightarrow> P t" "\<And>v t. Q v t \<Longrightarrow> R v t"
  shows "step_ok safe P1 m R"
  using assms unfolding step_ok_def by blast

lemma step_ok_if:
  assumes "c \<Longrightarrow> step_ok safe P m Q" "\<not> c \<Longrightarrow> step_ok safe P n Q"
  shows "step_ok safe P (if c then m else n) Q"
  using assms by simp

text \<open>A request keeps the invariant when it is allowed by what was exchanged before it.\<close>

definition allows :: "(exchange list \<Rightarrow> bool) \<Rightarrow> (exchange list \<Rightarrow> bool) \<Rightarrow> bench_request \<Rightarrow> bool" where
  "allows safe P q \<longleftrightarrow> (\<forall>t a. P t \<longrightarrow> safe t \<longrightarrow> safe (t @ [(q, a)]))"

lemma allows_under: "allows safe P q \<Longrightarrow> (\<And>t. P1 t \<Longrightarrow> P t) \<Longrightarrow> allows safe P1 q"
  unfolding allows_def by blast

definition request_to :: "string \<Rightarrow> string \<Rightarrow> string \<Rightarrow> json option \<Rightarrow> string option \<Rightarrow> bench_request" where
  "request_to base method path body token =
     \<lparr>bq_method = method, bq_url = rstrip_char (CHR ''/'') base @ path, bq_body = body, bq_token = (if token = Some [] then None else token)\<rparr>"

lemma step_ok_call:
  assumes "allows safe P (request_to base method path body token)"
  shows "step_ok safe P (call loads net base method path body token)
    (\<lambda>(n, j). said (\<lambda>q m k. q = request_to base method path body token \<and> m = n \<and> k = j))"
proof (rule step_okI)
  fix t w t1 w1 r assume "P t" "safe t" and run: "call loads net base method path body token (t, w) = ((t1, w1), r)"
  then have ok: "safe (t @ [(request_to base method path body token, a)])" for a using assms by (simp add: allows_def)
  show "safe t1 \<and> prefix t t1 \<and> (\<forall>v. r = Ok v \<longrightarrow> (case v of (n, j) \<Rightarrow> said (\<lambda>q m k. q = request_to base method path body token \<and> m = n \<and> k = j)) t1)"
    using run ok unfolding call_def request_to_def [symmetric] Let_def
    by (auto simp: said_def split: prod.splits sum.splits if_splits)
qed

lemma step_ok_ask:
  assumes "\<And>base. allows safe P (request_to base method path body token)"
  shows "step_ok safe P (ask b name method path body token)
    (\<lambda>(n, j). said (\<lambda>q m k. (\<exists>base. url_of b name = Ok base \<and> q = request_to base method path body token) \<and> m = n \<and> k = j))"
proof (cases "url_of b name")
  case (Inl e)
  then show ?thesis by (simp add: ask_def step_then_return)
next
  case (Inr base)
  have "step_ok safe P (call (bn_loads b) (bn_net b) base method path body token)
      (\<lambda>(n, j). said (\<lambda>q m k. (\<exists>base. url_of b name = Ok base \<and> q = request_to base method path body token) \<and> m = n \<and> k = j))"
    by (rule step_ok_weaken [OF step_ok_call [OF assms(1)]]) (use Inr in \<open>auto simp: said_def\<close>)
  then show ?thesis by (simp add: ask_def step_then_return Inr)
qed

lemma step_ok_then_pair:
  assumes "step_ok safe P m Q" "\<And>n j. step_ok safe (\<lambda>t. P t \<and> Q (n, j) t) (f n j) R" "lasting P"
  shows "step_ok safe P (step_then m (\<lambda>(n, j). f n j)) R"
proof (rule step_ok_then [OF assms(1) _ assms(3)])
  show "step_ok safe (\<lambda>t. P t \<and> Q v t) (case v of (n, j) \<Rightarrow> f n j) R" for v
    using assms(2) by (cases v) simp
qed

subsection \<open>Only after the checks\<close>

definition posts_to :: "string \<Rightarrow> bench_request \<Rightarrow> bool" where
  "posts_to route q \<longleftrightarrow> bq_method q = ''POST'' \<and> endswith (bq_url q) route"

text \<open>A usable plan was given, the cell was said to be clear, a certificate was signed.\<close>

definition planned :: "exchange list \<Rightarrow> bool" where
  "planned = said (\<lambda>q n j. posts_to ''/decompose'' q \<and> n = 200 \<and> (\<exists>m. get_of ''matched'' j = Ok m \<and> truth m) \<and> plan_usable j = Ok True)"

definition cell_clear :: "exchange list \<Rightarrow> bool" where
  "cell_clear = said (\<lambda>q n j. posts_to ''/check'' q \<and> n = 200 \<and> item ''state'' j = Ok (JStr ''ready''))"

definition risk_signed :: "exchange list \<Rightarrow> bool" where
  "risk_signed = said (\<lambda>q n j. posts_to ''/interlock/certify'' q \<and> is_signed n j = Ok True)"

text \<open>The certificate that an order carries is one the twin gave.\<close>

definition carries_certificate :: "bench_request \<Rightarrow> exchange list \<Rightarrow> bool" where
  "carries_certificate q = said (\<lambda>p n j. posts_to ''/interlock/certify'' p \<and> n = 200 \<and>
     (\<exists>d. bq_body q = Some (JObj d) \<and> map_of d ''certificate'' = Some j))"

definition may_send :: "exchange list \<Rightarrow> bench_request \<Rightarrow> bool" where
  "may_send t q \<longleftrightarrow> (posts_to ''/jobs'' q \<longrightarrow> planned t \<and> cell_clear t \<and> risk_signed t) \<and> (posts_to ''/route'' q \<longrightarrow> carries_certificate q t)"

definition checked_first :: "exchange list \<Rightarrow> bool" where
  "checked_first t \<longleftrightarrow> (\<forall>before q a after. t = before @ (q, a) # after \<longrightarrow> may_send before q)"

lemma lasting_facts [simp]: "lasting planned" "lasting cell_clear" "lasting risk_signed" "lasting (carries_certificate q)"
  by (simp_all add: planned_def cell_clear_def risk_signed_def carries_certificate_def)

lemma checked_first_Nil [simp]: "checked_first []"
  by (simp add: checked_first_def)

lemma checked_first_snoc: "checked_first (t @ [(q, a)]) \<longleftrightarrow> checked_first t \<and> may_send t q"
proof (intro iffI conjI)
  assume more: "checked_first (t @ [(q, a)])"
  then show "may_send t q" by (auto simp: checked_first_def)
  show "checked_first t"
    unfolding checked_first_def
  proof (intro allI impI)
    fix before q1 a1 after assume "t = before @ (q1, a1) # after"
    then have "t @ [(q, a)] = before @ (q1, a1) # (after @ [(q, a)])" by simp
    with more show "may_send before q1" unfolding checked_first_def by blast
  qed
next
  assume both: "checked_first t \<and> may_send t q"
  show "checked_first (t @ [(q, a)])"
    unfolding checked_first_def
  proof (intro allI impI)
    fix before q1 a1 after assume split: "t @ [(q, a)] = before @ (q1, a1) # after"
    show "may_send before q1"
    proof (cases after rule: rev_cases)
      case Nil
      with split both show ?thesis by simp
    next
      case (snoc rest e)
      with split have "t = before @ (q1, a1) # rest" by simp
      with both show ?thesis unfolding checked_first_def by blast
    qed
  qed
qed

lemma endswith_own [simp]: "endswith (u @ r) r"
  by (simp add: endswith_def)

lemma request_to_simps [simp]:
  "bq_method (request_to base method path body token) = method" "bq_body (request_to base method path body token) = body"
  "bq_url (request_to base method path body token) = rstrip_char (CHR ''/'') base @ path"
  by (simp_all add: request_to_def)

text \<open>A request that queues no job and orders no movement.\<close>

definition harmless :: "string \<Rightarrow> string \<Rightarrow> bool" where
  "harmless method path \<longleftrightarrow> (\<forall>u. method = ''POST'' \<longrightarrow> \<not> endswith (u @ path) ''/jobs'' \<and> \<not> endswith (u @ path) ''/route'')"

lemma harmless_get [simp]: "harmless ''GET'' path"
  by (simp add: harmless_def)

lemma endswith_long: "length r \<le> length p \<Longrightarrow> endswith (u @ p) r = endswith p r"
  by (simp add: endswith_def startswith_def)

definition other_route :: "string \<Rightarrow> bool" where
  "other_route path \<longleftrightarrow> length ''/route'' \<le> length path \<and> \<not> endswith path ''/jobs'' \<and> \<not> endswith path ''/route''"

lemma harmless_other: "other_route path \<Longrightarrow> harmless method path"
  by (simp add: harmless_def other_route_def endswith_long)

lemma other_routes: "list_all other_route [''/decompose'', ''/check'', ''/interlock/certify'', ''/sim/step'']"
  by code_simp

lemma harmless_posts [simp]:
  "harmless m ''/decompose''" "harmless m ''/check''" "harmless m ''/interlock/certify''" "harmless m ''/sim/step''"
  using other_routes by (simp_all add: harmless_other)

lemma harmless_may_send: "harmless (bq_method q) path \<Longrightarrow> bq_url q = u @ path \<Longrightarrow> may_send t q"
  by (auto simp: harmless_def may_send_def posts_to_def)

lemma allows_checked: "(\<And>t. P t \<Longrightarrow> may_send t q) \<Longrightarrow> allows checked_first P q"
  by (simp add: allows_def checked_first_snoc)

lemma harmless_call:
  assumes "harmless method path"
  shows "step_ok checked_first P (call loads net base method path body token)
    (\<lambda>(n, j). said (\<lambda>q m k. bq_method q = method \<and> endswith (bq_url q) path \<and> m = n \<and> k = j))"
proof -
  have "allows checked_first P (request_to base method path body token)"
    by (rule allows_checked, rule harmless_may_send [where path = path]) (use assms in simp_all)
  from step_ok_call [OF this] show ?thesis
    by (rule step_ok_weaken) (simp, clarify, erule said_mono, simp)
qed

lemma harmless_ask:
  assumes "harmless method path"
  shows "step_ok checked_first P (ask b name method path body token)
    (\<lambda>(n, j). said (\<lambda>q m k. bq_method q = method \<and> endswith (bq_url q) path \<and> m = n \<and> k = j))"
proof (cases "url_of b name")
  case (Inr base)
  then show ?thesis using harmless_call [OF assms] by (simp add: ask_def step_then_return)
qed (simp add: ask_def step_then_return)

subsection \<open>The scenarios keep to it\<close>

abbreviation quiet :: "('w, 'a) bench_step \<Rightarrow> bool" where
  "quiet m \<equiv> step_ok checked_first (\<lambda>t. True) m (\<lambda>v t. True)"

lemma quiet_under:
  assumes "quiet m"
  shows "step_ok checked_first P m (\<lambda>v t. True)"
  by (rule step_ok_weaken [OF assms]) simp_all

lemma check_step_keeps:
  "step_ok checked_first P (check_step b position) (\<lambda>reply. said (\<lambda>q n j. posts_to ''/check'' q \<and> n = 200 \<and> j = reply))"
  if "lasting P"
  unfolding check_step_def
proof (rule step_ok_then [OF quiet_under [OF step_ok_read] _ that])
  fix body
  show "step_ok checked_first (\<lambda>t. P t \<and> True)
      (step_then (ask b ''safety'' ''POST'' ''/check'' (Some body) None)
        (\<lambda>(status, reply). step_return (if status \<noteq> 200 then runtime_error ''safety answered {}: {}'' [JInt status, reply] else Ok reply)))
      (\<lambda>reply. said (\<lambda>q n j. posts_to ''/check'' q \<and> n = 200 \<and> j = reply))"
    by (rule step_ok_then_pair [OF harmless_ask]) (use that in \<open>auto simp: runtime_error_def posts_to_def elim!: said_mono\<close>)
qed

lemma plan_step_keeps:
  "step_ok checked_first P (plan_step b)
     (\<lambda>plan. said (\<lambda>q n j. posts_to ''/decompose'' q \<and> n = 200 \<and> (\<exists>m. get_of ''matched'' j = Ok m \<and> truth m) \<and> j = plan))"
  if "lasting P"
  unfolding plan_step_def
  by (rule step_ok_then_pair [OF harmless_ask])
    (use that in \<open>auto simp: runtime_error_def posts_to_def result_simps split: if_splits elim!: said_mono\<close>)

lemma certify_once_keeps:
  "step_ok checked_first P (certify_once b joint position)
     (\<lambda>(n, j). said (\<lambda>q m k. posts_to ''/interlock/certify'' q \<and> m = n \<and> k = j))"
  unfolding certify_once_def
  by (rule step_ok_weaken [OF harmless_ask]) (auto simp: posts_to_def elim!: said_mono)

lemma sim_step_quiet: "quiet (sim_step b seconds)"
  unfolding sim_step_def by (rule step_ok_weaken [OF harmless_ask]) simp_all

lemma certify_keeps:
  "step_ok checked_first P (certify b joint position)
     (\<lambda>(n, j). said (\<lambda>q m k. posts_to ''/interlock/certify'' q \<and> m = n \<and> k = j))"
  if "lasting P"
  unfolding certify_def
proof (rule step_ok_then_pair [OF certify_once_keeps _ that], rule step_ok_if)
  fix n j
  have "lasting (\<lambda>t. P t \<and> said (\<lambda>q m k. posts_to ''/interlock/certify'' q \<and> m = n \<and> k = j) t)" using that by simp
  then show "step_ok checked_first (\<lambda>t. P t \<and> (case (n, j) of (n, j) \<Rightarrow> said (\<lambda>q m k. posts_to ''/interlock/certify'' q \<and> m = n \<and> k = j)) t)
      (step_then (sim_step b (JFloat (Finite (to_double (1 / 100))))) (\<lambda>stepped. certify_once b joint position))
      (\<lambda>(n, j). said (\<lambda>q m k. posts_to ''/interlock/certify'' q \<and> m = n \<and> k = j))"
    by (intro step_ok_then [OF quiet_under [OF sim_step_quiet] certify_once_keeps]) simp
qed simp

lemma queue_job_keeps:
  "step_ok checked_first (\<lambda>t. planned t \<and> cell_clear t \<and> risk_signed t) (queue_job b plan) (\<lambda>v t. True)"
  (is "step_ok _ ?P _ _")
proof -
  have P: "lasting ?P" by simp
  have job: "allows checked_first ?P (request_to base ''POST'' ''/jobs'' body token)" for base body token
  proof (rule allows_checked)
    fix t assume "?P t"
    moreover have "\<not> endswith ''/jobs'' ''/route'' \<and> \<not> endswith (u @ ''/jobs'') ''/route''" for u
      by (simp add: endswith_def startswith_def)
    ultimately show "may_send t (request_to base ''POST'' ''/jobs'' body token)" by (simp add: may_send_def posts_to_def)
  qed
  show ?thesis
    unfolding queue_job_def Let_def
    by (intro step_ok_then [OF quiet_under [OF step_ok_read]] step_ok_then_pair [OF step_ok_ask [OF allows_under [OF job]]]
        step_ok_then_pair [OF harmless_ask] step_ok_if step_ok_then [OF step_ok_any] quiet_under [OF step_ok_end]) (auto simp: split_beta)
qed

text \<open>The chain, from the certificate backwards to the plan.\<close>

lemma chain_certified:
  "step_ok checked_first (\<lambda>t. planned t \<and> cell_clear t)
     (step_then (certify b joint position) (\<lambda>(status, certificate).
        step_then (step_return (is_signed status certificate)) (\<lambda>signed.
          if \<not> signed then scenario_end me Failed (d status certificate) else queue_job b plan))) (\<lambda>v t. True)"
proof (rule step_ok_then_pair [OF certify_keeps], simp, rule step_ok_pure, rule step_ok_if)
  fix n j signed assume s: "is_signed n j = Ok signed" "\<not> \<not> signed"
  show "step_ok checked_first (\<lambda>t. (planned t \<and> cell_clear t) \<and> (case (n, j) of (n, j) \<Rightarrow>
      said (\<lambda>q m k. posts_to ''/interlock/certify'' q \<and> m = n \<and> k = j)) t) (queue_job b plan) (\<lambda>v t. True)"
    by (rule step_ok_weaken [OF queue_job_keeps]) (use s in \<open>auto simp: risk_signed_def elim!: said_mono\<close>)
qed (simp_all add: quiet_under)

lemma chain_cleared:
  "step_ok checked_first planned
     (step_then (check_step b position) (\<lambda>safety. step_then (step_return (item ''state'' safety)) (\<lambda>state.
        if state \<noteq> JStr ''ready'' then step_then (step_return (item ''reason'' safety)) (\<lambda>reason. scenario_end me Failed (d state reason))
        else step_then (certify b joint at_place) (\<lambda>(status, certificate).
          step_then (step_return (is_signed status certificate)) (\<lambda>signed.
            if \<not> signed then scenario_end me Failed (d2 status certificate) else queue_job b plan))))) (\<lambda>v t. True)"
proof (rule step_ok_then [OF check_step_keeps], simp, rule step_ok_pure, rule step_ok_if)
  fix safety state assume s: "item ''state'' safety = Ok state" "\<not> state \<noteq> JStr ''ready''"
  show "step_ok checked_first (\<lambda>t. planned t \<and> said (\<lambda>q n j. posts_to ''/check'' q \<and> n = 200 \<and> j = safety) t)
      (step_then (certify b joint at_place) (\<lambda>(status, certificate).
          step_then (step_return (is_signed status certificate)) (\<lambda>signed.
            if \<not> signed then scenario_end me Failed (d2 status certificate) else queue_job b plan))) (\<lambda>v t. True)"
    by (rule step_ok_weaken [OF chain_certified]) (use s in \<open>auto simp: cell_clear_def elim!: said_mono\<close>)
qed (simp_all add: step_ok_pure)

lemma chain_keeps: "quiet (chain_to_dispatch b)"
  unfolding chain_to_dispatch_def Let_def
proof (rule step_ok_then [OF plan_step_keeps], simp, rule step_ok_pure, rule step_ok_if)
  fix plan usable assume s: "plan_usable plan = Ok usable" "\<not> \<not> usable"
  show "step_ok checked_first (\<lambda>t. True \<and> said (\<lambda>q n j. posts_to ''/decompose'' q \<and> n = 200 \<and>
      (\<exists>m. get_of ''matched'' j = Ok m \<and> truth m) \<and> j = plan) t)
    (step_then (check_step b (point 5 5 0)) (\<lambda>safety. step_then (step_return (item ''state'' safety)) (\<lambda>state.
        if state \<noteq> JStr ''ready'' then step_then (step_return (item ''reason'' safety)) (\<lambda>reason.
          scenario_end ''chain_to_dispatch'' Failed (Msg ''the cell should be clear, safety says {}: {}'' [state, reason]))
        else step_then (certify b ''shoulder'' (1 / 2)) (\<lambda>(status, certificate).
          step_then (step_return (is_signed status certificate)) (\<lambda>signed.
            if \<not> signed then scenario_end ''chain_to_dispatch'' Failed (Msg ''the twin answered {}: {}'' [JInt status, certificate])
            else queue_job b plan))))) (\<lambda>v t. True)"
    by (rule step_ok_weaken [OF chain_cleared]) (use s in \<open>auto simp: planned_def elim!: said_mono\<close>)
qed simp_all

text \<open>The order carries the certificate the twin gave.\<close>

lemma follow_robot_quiet: "quiet (follow_robot b)"
  unfolding follow_robot_def Let_def
  by (intro step_ok_then_pair [OF quiet_under [OF sim_step_quiet]] step_ok_then_pair [OF step_ok_any] step_ok_if
      step_ok_then [OF step_ok_any] step_ok_then_pair [OF harmless_ask] quiet_under [OF step_ok_end]) simp_all

lemma order_keeps:
  "step_ok checked_first (said (\<lambda>q m k. posts_to ''/interlock/certify'' q \<and> m = 200 \<and> k = certificate))
     (ask b name ''POST'' ''/route'' (Some (real_order certificate now)) token) (\<lambda>v t. True)"
  (is "step_ok _ ?P _ _")
proof (rule step_ok_weaken [OF step_ok_ask])
  fix base
  show "allows checked_first ?P (request_to base ''POST'' ''/route'' (Some (real_order certificate now)) token)"
  proof (rule allows_checked)
    fix t assume c: "?P t"
    have "\<not> endswith (u @ ''/route'') ''/jobs''" for u by (simp add: endswith_def startswith_def)
    moreover have "carries_certificate (request_to base ''POST'' ''/route'' (Some (real_order certificate now)) token) t"
      unfolding carries_certificate_def by (rule said_mono [OF c]) (simp add: real_order_def)
    ultimately show "may_send t (request_to base ''POST'' ''/route'' (Some (real_order certificate now)) token)"
      by (simp add: may_send_def posts_to_def)
  qed
qed simp_all

lemma ordered:
  "step_ok checked_first (said (\<lambda>q m k. posts_to ''/interlock/certify'' q \<and> m = 200 \<and> k = certificate))
     (step_then (step_read (\<lambda>w. real_order certificate (bn_clock b w))) (\<lambda>order.
        step_then (ask b ''bridge'' ''POST'' ''/route'' (Some order) None) (f order))) (\<lambda>v t. True)"
  if "\<And>order v. quiet (f order v)"
proof (rule step_ok_then [where Q = "\<lambda>order t. \<exists>now. order = real_order certificate now"])
  show "step_ok checked_first (\<lambda>t. said (\<lambda>q m k. posts_to ''/interlock/certify'' q \<and> m = 200 \<and> k = certificate) t \<and>
        (\<exists>now. order = real_order certificate now))
      (step_then (ask b ''bridge'' ''POST'' ''/route'' (Some order) None) (f order)) (\<lambda>v t. True)" for order
  proof (cases "\<exists>now. order = real_order certificate now")
    case True
    then obtain now where order: "order = real_order certificate now" ..
    show ?thesis
      unfolding order by (intro step_ok_then [OF step_ok_weaken [OF order_keeps]] quiet_under [OF that]) simp_all
  qed (simp add: step_ok_def)
qed (auto simp: step_ok_def step_read_def)

lemma certified_quiet: "quiet (certified_command b)"
proof (cases "map_of (bn_services b) ''bridge''"; cases "map_of (bn_services b) ''twin''")
  fix bridge twin assume services: "map_of (bn_services b) ''bridge'' = Some bridge" "map_of (bn_services b) ''twin'' = Some twin"
  have robot: "quiet ((\<lambda>(status :: int, routed). if status \<noteq> 200 \<or> \<not> contains_sub (dumps_default routed) ''SentReal'' then
      scenario_end me Failed (d status routed) else follow_robot b) v)" for me d v
    using follow_robot_quiet [of b] by (cases v) simp
  show ?thesis
    unfolding certified_command_def Let_def services option.case prod.case
  proof (rule step_ok_if, simp, rule step_ok_then_pair [OF certify_keeps], simp, rule step_ok_if, simp add: quiet_under)
    fix n certificate assume "\<not> n \<noteq> (200::int)"
    then show "step_ok checked_first (\<lambda>t. True \<and> (case (n, certificate) of (n, j) \<Rightarrow>
          said (\<lambda>q m k. posts_to ''/interlock/certify'' q \<and> m = n \<and> k = j)) t)
        (step_then (step_read (\<lambda>w. real_order certificate (bn_clock b w))) (\<lambda>order.
          step_then (ask b ''bridge'' ''POST'' ''/route'' (Some order) None) (\<lambda>(status, routed).
            if status \<noteq> 200 \<or> \<not> contains_sub (dumps_default routed) ''SentReal'' then
              scenario_end ''certified_command_moves_the_simulated_robot'' Failed (Msg ''the bridge answered {}: {}'' [JInt status, routed])
            else follow_robot b))) (\<lambda>v t. True)"
      by (intro step_ok_weaken [OF ordered [OF robot]]) simp_all
  qed simp
qed (simp_all add: certified_command_def)

lemma services_down_quiet: "quiet (services_down b paths)"
proof (induction paths)
  case (Cons p paths)
  obtain name path where p: "p = (name, path)" by fastforce
  show ?case
    unfolding p services_down.simps
    by (intro step_ok_then_pair [OF harmless_ask] step_ok_then [OF quiet_under [OF Cons.IH]] step_ok_any) simp_all
qed simp

lemma health_quiet: "quiet (health b)"
  unfolding health_def by (intro step_ok_then [OF services_down_quiet] step_ok_if quiet_under [OF step_ok_end]) simp_all

lemma breach_quiet: "quiet (breach_stops_the_chain b)"
  unfolding breach_stops_the_chain_def Let_def
  by (intro step_ok_then [OF plan_step_keeps] step_ok_then [OF check_step_keeps] step_ok_then [OF step_ok_any] step_ok_if
      step_ok_then_pair [OF harmless_ask] quiet_under [OF step_ok_end]) simp_all

lemma unapproved_quiet: "quiet (unapproved_plan_is_not_executable b)"
  unfolding unapproved_plan_is_not_executable_def Let_def
  by (intro step_ok_then [OF plan_step_keeps] step_ok_then [OF step_ok_any] step_ok_if quiet_under [OF step_ok_end]) simp_all

lemma metrics_of_quiet: "quiet (metrics_of b checked names)"
proof (induction names arbitrary: checked)
  case (Cons name names)
  show ?case
  proof (cases "map_of (bn_services b) name")
    case None
    then show ?thesis using Cons.IH by simp
  next
    case (Some r)
    have after: "quiet (case c of None \<Rightarrow> metrics_of b (checked @ [name]) names | Some (Msg t vs) \<Rightarrow> step_return (ends t vs))" for c ends
      using Cons.IH by (cases c) (simp, case_tac a, simp)
    show ?thesis
      unfolding metrics_of.simps Some option.case
      by (intro step_ok_if step_ok_then_pair [OF harmless_call] quiet_under [OF Cons.IH] quiet_under [OF after] Cons.IH) simp_all
  qed
qed simp

lemma metrics_quiet: "quiet (metrics_are_prometheus_text b)"
  unfolding metrics_are_prometheus_text_def Let_def
proof (rule step_ok_then [OF metrics_of_quiet])
  show "step_ok checked_first (\<lambda>t. True \<and> True) (case outcome of
      Inl failed \<Rightarrow> step_return (Ok failed)
    | Inr checked \<Rightarrow> if checked = [] then scenario_end ''metrics_are_prometheus_text'' Skipped (Msg ''no service of this run offers /metrics'' [])
        else scenario_end ''metrics_are_prometheus_text'' Passed (Msg ''valid Prometheus text from {}'' (map JStr checked))) (\<lambda>v t. True)" for outcome
    by (cases outcome) simp_all
qed simp

lemma scenarios_quiet: "sc \<in> set (scenarios b) \<Longrightarrow> quiet (snd sc)"
  using health_quiet chain_keeps breach_quiet unapproved_quiet metrics_quiet certified_quiet by (auto simp: scenarios_def)

lemma run_all_keeps:
  assumes "\<And>sc. sc \<in> set scs \<Longrightarrow> quiet (snd sc)" "run_all scs (t, w) = ((t1, w1), rs)" "checked_first t"
  shows "checked_first t1 \<and> prefix t t1"
  using assms
proof (induction scs arbitrary: t w rs)
  case (Cons sc scs)
  obtain t2 w2 r where m: "snd sc (t, w) = ((t2, w2), r)" by (metis surj_pair)
  have "quiet (snd sc)" using Cons.prems(1) by simp
  note first = step_okD(1,2) [OF this m TrueI Cons.prems(3)]
  obtain rs2 where "run_all scs (t2, w2) = ((t1, w1), rs2)"
    using Cons.prems(2) m by (auto simp: run_scenario_def split: prod.splits sum.splits)
  with Cons.IH [OF _ this first(1)] Cons.prems(1) first(2) show ?case by (auto intro: prefix_order.trans)
qed simp

end
