(* ===== verification/Number_Text.thy ===== *)
theory Number_Text
  imports Json Regex
begin

text \<open>
  The decimal text of a number: its characters are digits, and it reads back as the number.
\<close>

lemma nat_str_is_digits: "c \<in> set (nat_str n) \<Longrightarrow> is_digit c"
proof (induction n rule: nat_str.induct)
  case (1 n)
  have digit: "is_digit (digit_char k)" if "k < 10" for k
    using that by (simp add: digit_char_def is_digit_def)
  show ?case
  proof (cases "n < 10")
    case True
    with 1(2) digit show ?thesis by (simp add: nat_str.simps [of n])
  next
    case False
    with 1(2) have "c \<in> set (nat_str (n div 10)) \<or> c = digit_char (n mod 10)" by (auto simp: nat_str.simps [of n])
    with 1(1) False digit show ?thesis by auto
  qed
qed

definition digits_value :: "string \<Rightarrow> nat" where
  "digits_value s = foldl (\<lambda>n c. 10 * n + (of_char c - 48)) 0 s"

lemma nat_str_value: "digits_value (nat_str n) = n"
proof (induction n rule: nat_str.induct)
  case (1 n)
  have digit: "of_char (digit_char k) - (48::nat) = k" if "k < 10" for k
    using that by (simp add: digit_char_def)
  show ?case
  proof (cases "n < 10")
    case True
    then show ?thesis by (simp add: nat_str.simps [of n] digits_value_def digit)
  next
    case False
    with 1 digit show ?thesis by (simp add: nat_str.simps [of n] digits_value_def)
  qed
qed

lemma nat_str_inject: "nat_str m = nat_str n \<longleftrightarrow> m = n"
  by (metis nat_str_value)

lemma nat_str_nonempty [simp]: "nat_str n \<noteq> []"
  by (simp add: nat_str.simps [of n])

lemma no_digit [simp]: "\<not> is_digit (CHR ''/'')" "\<not> is_digit (CHR ''?'')"
  by (simp_all add: is_digit_def)

lemma nat_str_no_slash [simp]: "CHR ''/'' \<notin> set (nat_str n)"
  using nat_str_is_digits by fastforce

end
