(* ===== verification/Bench_Standins.thy ===== *)
theory Bench_Standins
  imports Bench_Proofs Number_Text
begin

text \<open>
  The bench against its own four stand-ins, each at a port of its own: which stand-in answers a request, and what every scenario comes to.
\<close>

lemma int_str_plain: "CHR ''?'' \<notin> set (int_str n)"
  using nat_str_is_digits [of "CHR ''?''"] by (auto simp: int_str_def)

subsection \<open>Which stand-in answers\<close>

definition port_url :: "nat \<Rightarrow> string" where
  "port_url p = ''http://127.0.0.1:'' @ nat_str p"

lemma same_port: "startswith (port_url p @ CHR ''/'' # rest) (port_url q @ ''/'') \<longleftrightarrow> p = q"
proof
  assume "startswith (port_url p @ CHR ''/'' # rest) (port_url q @ ''/'')"
  then obtain more where "nat_str p @ CHR ''/'' # rest = nat_str q @ CHR ''/'' # more"
    by (auto simp: startswith_iff port_url_def)
  then have "takeWhile (\<lambda>c. c \<noteq> CHR ''/'') (nat_str p @ CHR ''/'' # rest) = takeWhile (\<lambda>c. c \<noteq> CHR ''/'') (nat_str q @ CHR ''/'' # more)"
    by simp
  moreover have "takeWhile (\<lambda>c. c \<noteq> CHR ''/'') (nat_str n @ CHR ''/'' # more) = nat_str n" for n more
  proof -
    have "\<forall>c \<in> set (nat_str n). c \<noteq> CHR ''/''" using nat_str_no_slash by metis
    then show ?thesis by (subst takeWhile_append2) auto
  qed
  ultimately show "p = q" by (simp add: nat_str_inject)
qed (simp add: startswith_iff)

lemma port_url_stripped: "rstrip_char (CHR ''/'') (port_url p) = port_url p"
proof -
  obtain c cs where c: "rev (nat_str p) = c # cs" by (cases "rev (nat_str p)") auto
  then have "c \<in> set (nat_str p)" by (metis list.set_intros(1) set_rev)
  then have "c \<noteq> CHR ''/''" using nat_str_no_slash by metis
  with c show ?thesis by (simp add: rstrip_char_def port_url_def rev_swap)
qed

text \<open>The bench of a run without arguments: four stand-ins and no bridge.\<close>

record ports =
  pt_planner :: nat
  pt_safety :: nat
  pt_dispatcher :: nat
  pt_twin :: nat

definition port_urls :: "ports \<Rightarrow> string dict" where
  "port_urls p = [(''planner'', port_url (pt_planner p)), (''safety'', port_url (pt_safety p)),
     (''dispatcher'', port_url (pt_dispatcher p)), (''twin'', port_url (pt_twin p))]"

definition own_ports :: "ports \<Rightarrow> bool" where
  "own_ports p = distinct [pt_planner p, pt_safety p, pt_dispatcher p, pt_twin p]"

definition standin_bench ::
  "(string \<Rightarrow> int) \<Rightarrow> (standins \<Rightarrow> int) \<Rightarrow> (standins \<Rightarrow> string) \<Rightarrow> (standins \<Rightarrow> string) \<Rightarrow> (string \<Rightarrow> json option) \<Rightarrow> ports \<Rightarrow> standins bench" where
  "standin_bench hash clock date stamp loads p =
     \<lparr>bn_services = map (\<lambda>(name, u). (name, \<lparr>rn_url = u, rn_source = ''simulated''\<rparr>)) (port_urls p) @
        [(''bridge'', \<lparr>rn_url = [], rn_source = ''unavailable''\<rparr>)],
      bn_token = twin_token, bn_loads = loads, bn_net = standin_net hash clock (port_urls p), bn_clock = clock,
      bn_date = date, bn_stamp = stamp\<rparr>"

lemma standin_answers:
  assumes "own_ports p" "(name, port_url n) \<in> set (port_urls p)" "bq_url q = port_url n @ CHR ''/'' # rest"
  shows "standin_net hash clock (port_urls p) q w = standin_serve hash (clock w) name q (CHR ''/'' # rest) w"
proof -
  have n: "port_url m = port_url k \<longleftrightarrow> m = k" for m k by (simp add: port_url_def nat_str_inject)
  have "find (\<lambda>(name, u). startswith (bq_url q) (u @ ''/'')) (port_urls p) = Some (name, port_url n)"
    using assms(1,2) by (auto simp: port_urls_def own_ports_def assms(3) same_port n)
  then show ?thesis by (simp add: standin_net_def assms(3))
qed

subsection \<open>What the stand-ins answer the bench\<close>

text \<open>A document that a stand-in sends back is read as that document.\<close>

lemma json_type: "contains_sub ''application/json'' ''json''"
  by code_simp

lemma wire_of_document: "\<not> is_str j \<Longrightarrow> wire_of (n, j) = \<lparr>wr_status = n, wr_type = ''application/json'', wr_content = Encoded j\<rparr>"
  by (cases j) (simp_all add: wire_of_def)

lemma parse_wire_of:
  assumes "\<not> is_str j"
  shows "parse_reply loads (wire_of (n, j)) = j" "wr_status (wire_of (n, j)) = n"
  unfolding wire_of_document [OF assms] parse_reply_def Let_def wire_reply.simps wire.case
  by (simp_all only: json_type simp_thms if_True)

lemma standin_bench_simps [simp]:
  "bn_loads (standin_bench hash clock date stamp loads p) = loads"
  "bn_net (standin_bench hash clock date stamp loads p) = standin_net hash clock (port_urls p)"
  "bn_clock (standin_bench hash clock date stamp loads p) = clock" "bn_token (standin_bench hash clock date stamp loads p) = twin_token"
  "bn_date (standin_bench hash clock date stamp loads p) = date" "bn_stamp (standin_bench hash clock date stamp loads p) = stamp"
  by (simp_all add: standin_bench_def)

lemma port_names: "dict_ok (port_urls p)"
  by (simp add: dict_ok_def port_urls_def)

lemma call_answered:
  assumes "net (request_to base method path body token) w = (w1, Ok r)"
  shows "call loads net base method path body token (t, w) =
    ((t @ [(request_to base method path body token, Some (wr_status r, parse_reply loads r))], w1), Ok (wr_status r, parse_reply loads r))"
  using assms by (simp add: call_def request_to_def Let_def)

lemma url_standin:
  assumes "(name, u) \<in> set (port_urls p)"
  shows "url_of (standin_bench hash clock date stamp loads p) name = Ok u"
proof -
  have "map_of (port_urls p) name = Some u" using assms port_names map_of_mem_iff by metis
  then show ?thesis by (simp add: url_of_def standin_bench_def map_of_map)
qed

lemma ask_standin:
  assumes "own_ports p" "(name, port_url n) \<in> set (port_urls p)"
    and serve: "standin_serve hash (clock w) name (request_to (port_url n) method (CHR ''/'' # rest) body token) (CHR ''/'' # rest) w =
      (w1, Ok (wire_of (status, j)))"
    and j: "\<not> is_str j"
  shows "ask (standin_bench hash clock date stamp loads p) name method (CHR ''/'' # rest) body token (t, w) =
    ((t @ [(request_to (port_url n) method (CHR ''/'' # rest) body token, Some (status, j))], w1), Ok (status, j))"
proof -
  have q: "bq_url (request_to (port_url n) method (CHR ''/'' # rest) body token) = port_url n @ CHR ''/'' # rest"
    by (simp add: port_url_stripped)
  have net: "standin_net hash clock (port_urls p) (request_to (port_url n) method (CHR ''/'' # rest) body token) w = (w1, Ok (wire_of (status, j)))"
    using standin_answers [OF assms(1,2) q] serve by simp
  show ?thesis
    using net by (simp add: ask_def step_then_return url_standin [OF assms(2)] call_def request_to_def [symmetric]
      parse_wire_of j)
qed

text \<open>How the state of a stand-in counts: the jobs and the certificates.\<close>

definition same_work :: "standins \<Rightarrow> standins \<Rightarrow> bool" where
  "same_work w w1 \<longleftrightarrow> si_jobs w1 = si_jobs w \<and> si_certificates w1 = si_certificates w"

definition sample_plan :: "(string \<Rightarrow> int) \<Rightarrow> json" where
  "sample_plan hash = snd (planner_handle hash ''POST'' ''/decompose'' (JObj [(''goal'', JStr ''assemble the pcb'')]))"

lemma known_goal: "map_of planner_plans (lower_str (strip ''assemble the pcb'')) = Some (snd (hd planner_plans))"
  by code_simp

lemma goal_length: "\<not> 512 < length ''assemble the pcb''" "''assemble the pcb'' \<noteq> []"
  by simp_all

lemma sample_plan_eq:
  "planner_handle hash ''POST'' ''/decompose'' (JObj [(''goal'', JStr ''assemble the pcb'')]) = (200, sample_plan hash)"
  "sample_plan hash = JObj [(''matched'', JBool True), (''goal'', JStr ''assemble the pcb''), (''steps'', JArr (map step_json (snd (hd planner_plans)))),
     (''issues'', JArr []), (''valid'', JBool True), (''executable'', JBool False), (''requires_approval'', JBool True),
     (''fingerprint'', JStr (''sim-'' @ int_str (\<bar>hash ''assemble the pcb''\<bar> mod 10 ^ 8)))]"
  unfolding sample_plan_def planner_handle_def get_or_none_def using known_goal goal_length by simp_all

lemma safety_ready:
  "safety_handle ''POST'' ''/check'' (check_body date stamp (point 5 5 0)) = Ok (safety_reply ''ready'' ''no breach, calibration valid'' ''READY'' [] [])"
  by (simp add: safety_handle_def check_body_def bench_zones_def bench_observation_def point_def get_or_none_def or_empty_def key_in_def get_of_def
    breaches_of_def get_list_def items_of_def breach_of_def item_def inside_def axis_ok_def compares_le_def number_of_def)

definition cell_breach :: json where
  "cell_breach = JObj [(''zone_id'', JStr ''cell''), (''level'', JStr ''danger''), (''object_id'', JStr ''thing''),
     (''position'', point (1 / 2) (1 / 2) (1 / 2))]"

lemma safety_danger:
  "safety_handle ''POST'' ''/check'' (check_body date stamp (point (1 / 2) (1 / 2) (1 / 2))) =
     Ok (safety_reply ''danger'' ''objects breached a danger zone'' ''SAFE_STOP'' [cell_breach] [stop_request cell_breach])"
  by (simp add: safety_handle_def check_body_def bench_zones_def bench_observation_def point_def get_or_none_def or_empty_def key_in_def get_of_def
    breaches_of_def get_list_def items_of_def breach_of_def item_def inside_def axis_ok_def compares_le_def number_of_def cell_breach_def)

subsection \<open>The scenarios on the stand-ins\<close>

text \<open>What a step comes to on the stand-ins: its value, the exchanges only grow, and what was asked last is among them.\<close>

definition comes_to :: "('w, 'a) bench_step \<Rightarrow> exchange list \<times> 'w \<Rightarrow> 'a \<Rightarrow> ('w \<Rightarrow> bool) \<Rightarrow> bool" where
  "comes_to m s v P \<longleftrightarrow> (\<exists>t1 w1. m s = ((t1, w1), Ok v) \<and> prefix (fst s) t1 \<and> P w1)"

lemma comes_to_then:
  assumes "comes_to m s v P" "\<And>t1 w1. P w1 \<Longrightarrow> comes_to (f v) (t1, w1) u Q"
  shows "comes_to (step_then m f) s u Q"
proof -
  obtain t1 w1 where m: "m s = ((t1, w1), Ok v)" "prefix (fst s) t1" "P w1" using assms(1) by (auto simp: comes_to_def)
  obtain t2 w2 where f: "f v (t1, w1) = ((t2, w2), Ok u)" "prefix t1 t2" "Q w2" using assms(2) [OF m(3), of t1] by (auto simp: comes_to_def)
  show ?thesis using m f unfolding comes_to_def step_then_def by (auto intro: prefix_order.trans)
qed

lemma comes_to_return: "r = Ok v \<Longrightarrow> P (snd s) \<Longrightarrow> comes_to (step_return r) s v P"
  by (cases s) (simp add: comes_to_def step_return_def)

lemma comes_to_end: "P (snd s) \<Longrightarrow> comes_to (scenario_end name status detail) s \<lparr>br_name = name, br_status = status, br_detail = detail\<rparr> P"
  by (simp add: scenario_end_def comes_to_return)

lemma comes_to_read: "P (snd s) \<Longrightarrow> comes_to (step_read f) s (f (snd s)) P"
  by (cases s) (simp add: comes_to_def step_read_def)

lemma comes_to_ask:
  assumes "own_ports p" "(name, port_url n) \<in> set (port_urls p)" "\<not> is_str j"
    and "snd (standin_serve hash (clock w) name (request_to (port_url n) method (CHR ''/'' # rest) body token) (CHR ''/'' # rest) w) =
      Ok (wire_of (status, j))"
    and "P (fst (standin_serve hash (clock w) name (request_to (port_url n) method (CHR ''/'' # rest) body token) (CHR ''/'' # rest) w))"
  shows "comes_to (ask (standin_bench hash clock date stamp loads p) name method (CHR ''/'' # rest) body token) (t, w) (status, j) P"
proof -
  obtain w1 where serve: "standin_serve hash (clock w) name (request_to (port_url n) method (CHR ''/'' # rest) body token) (CHR ''/'' # rest) w =
      (w1, Ok (wire_of (status, j)))" and P: "P w1"
    using assms(4,5) by (metis prod.collapse)
  have "ask (standin_bench hash clock date stamp loads p) name method (CHR ''/'' # rest) body token (t, w) =
      ((t @ [(request_to (port_url n) method (CHR ''/'' # rest) body token, Some (status, j))], w1), Ok (status, j))"
    by (rule ask_standin) (fact assms(1) assms(2) serve assms(3))+
  with P show ?thesis by (simp add: comes_to_def)
qed

lemma own_urls:
  "(''planner'', port_url (pt_planner p)) \<in> set (port_urls p)" "(''safety'', port_url (pt_safety p)) \<in> set (port_urls p)"
  "(''dispatcher'', port_url (pt_dispatcher p)) \<in> set (port_urls p)" "(''twin'', port_url (pt_twin p)) \<in> set (port_urls p)"
  by (simp_all add: port_urls_def)

lemma plan_not_text: "\<not> is_str (sample_plan hash)"
  by (simp add: sample_plan_eq(2))

text \<open>The plan and the two checks.\<close>

lemma plan_comes:
  assumes "own_ports p"
  shows "comes_to (plan_step (standin_bench hash clock date stamp loads p)) (t, w) (sample_plan hash) (same_work w)"
  unfolding plan_step_def
proof (rule comes_to_then)
  show "comes_to (ask (standin_bench hash clock date stamp loads p) ''planner'' ''POST'' ''/decompose''
      (Some (JObj [(''goal'', JStr ''assemble the pcb'')])) None) (t, w) (200, sample_plan hash) (same_work w)"
    by (rule comes_to_ask [OF assms own_urls(1)]) (simp_all add: standin_serve_def Let_def sample_plan_eq(1) sent_back_def same_work_def plan_not_text)
qed (simp add: comes_to_return get_of_def get_or_none_def sample_plan_eq(2))

lemma check_comes:
  assumes "own_ports p" "\<And>date stamp. safety_handle ''POST'' ''/check'' (check_body date stamp position) = Ok (200, j)" "\<not> is_str j"
  shows "comes_to (check_step (standin_bench hash clock date stamp loads p) position) (t, w) j (same_work w)"
  unfolding check_step_def
proof (rule comes_to_then [OF comes_to_read [where P = "\<lambda>w1. w1 = w"]], simp, rule comes_to_then)
  fix t1 w1 assume "w1 = w"
  then show "comes_to (ask (standin_bench hash clock date stamp loads p) ''safety'' ''POST'' ''/check''
      (Some (check_body (bn_date (standin_bench hash clock date stamp loads p) (snd (t, w)))
         (bn_stamp (standin_bench hash clock date stamp loads p) (snd (t, w))) position)) None) (t1, w1) (200, j) (same_work w)"
    by (intro comes_to_ask [OF assms(1) own_urls(2) assms(3)]) (simp_all add: standin_serve_def Let_def assms(2) sent_back_def same_work_def)
qed (simp add: comes_to_return)

definition certificate_of :: "int \<Rightarrow> nat \<Rightarrow> string \<Rightarrow> rat \<Rightarrow> json" where
  "certificate_of now n joint position = JObj
     [(''joint'', JStr joint), (''position'', JFloat (Finite position)), (''collision_imminent'', JBool False),
      (''distance_m'', JFloat (Finite (to_double (3 / 5)))), (''issued_at_ms'', JInt now), (''nonce'', JStr (nonce_text n)),
      (''key_id'', JStr ''simulated''), (''signature'', JStr (replicate 128 (CHR ''0'')))]"

lemma twin_certifies:
  "twin_handle now ''POST'' ''/interlock/certify'' (risk_report joint position) (Some (bearer twin_token)) n =
     (Suc n, (200, certificate_of now (Suc n) joint position))"
  by (simp add: twin_handle_def risk_report_def get_or_none_def certificate_of_def)

lemma certificate_signed: "is_signed 200 (certificate_of now n joint position) = Ok True"
  by (simp add: is_signed_def certificate_of_def get_of_def get_or_none_def)

lemma token_given [simp]: "twin_token \<noteq> []"
  by (simp add: twin_token_def)

lemma certify_comes:
  assumes "own_ports p"
  shows "comes_to (certify (standin_bench hash clock date stamp loads p) joint position) (t, w)
    (200, certificate_of (clock w) (Suc (si_certificates w)) joint position) (\<lambda>w1. si_jobs w1 = si_jobs w)"
  unfolding certify_def
proof (rule comes_to_then)
  have token: "bq_token (request_to u m q b (Some twin_token)) = Some twin_token" for u m q b by (simp add: request_to_def)
  show "comes_to (certify_once (standin_bench hash clock date stamp loads p) joint position) (t, w)
      (200, certificate_of (clock w) (Suc (si_certificates w)) joint position) (\<lambda>w1. si_jobs w1 = si_jobs w)"
    unfolding certify_once_def standin_bench_simps
    by (rule comes_to_ask [OF assms own_urls(4)])
      (simp_all add: certificate_of_def [of "clock w"] standin_serve_def Let_def token twin_certifies sent_back_def)
qed (simp add: comes_to_return)

text \<open>The job, under a name that is not in use.\<close>

definition job_name :: "int \<Rightarrow> string" where
  "job_name now = ''bench-'' @ int_str now"

lemma job_target: "takeWhile (\<lambda>c. c \<noteq> CHR ''?'') (starts_jobs @ job_name now) = starts_jobs @ job_name now"
  using int_str_plain [of now] by (auto simp: takeWhile_eq_all_conv starts_jobs_def job_name_def)

lemma job_posted:
  assumes "map_of jobs (job_name now) = None"
  shows "dispatcher_handle ''POST'' ''/jobs'' (JObj [(''id'', JStr (job_name now)), (''priority'', JInt 5), (''requiredTool'', JStr ''Gripper'')]) jobs =
    (jobs @ [(job_name now, job_json (job_name now) 5 (JStr ''Gripper''))], Ok (201, job_json (job_name now) 5 (JStr ''Gripper'')))"
  using assms by (simp add: dispatcher_handle_def get_or_none_def int_of_def Let_def dict_set_absent job_name_def)

lemma job_found:
  assumes "map_of jobs (job_name now) = Some job"
  shows "dispatcher_handle ''GET'' (starts_jobs @ job_name now) body jobs = (jobs, Ok (200, job))"
  using assms by (simp add: dispatcher_handle_def starts_jobs_def startswith_def)

lemma job_not_text: "\<not> is_str (job_json name n tool)"
  by (simp add: job_json_def)

lemma queue_job_comes:
  assumes "own_ports p" "map_of (si_jobs w) (job_name (clock w)) = None"
  shows "\<exists>d. comes_to (queue_job (standin_bench hash clock date stamp loads p) (sample_plan hash)) (t, w)
    \<lparr>br_name = ''chain_to_dispatch'', br_status = Passed, br_detail = d\<rparr>
    (\<lambda>w1. \<exists>job. si_jobs w1 = si_jobs w @ [(job_name (clock w), job)])"
proof -
  let ?b = "standin_bench hash clock date stamp loads p"
  let ?name = "job_name (clock w)"
  let ?job = "job_json ?name 5 (JStr ''Gripper'')"
  let ?body = "JObj [(''id'', JStr ?name), (''priority'', JInt 5), (''requiredTool'', JStr ''Gripper'')]"
  let ?queued = "\<lambda>w1. si_jobs w1 = si_jobs w @ [(?name, ?job)]"
  have post: "comes_to (ask ?b ''dispatcher'' ''POST'' ''/jobs'' (Some ?body) None) (t1, w) (201, ?job) ?queued" for t1
    by (rule comes_to_ask [OF assms(1) own_urls(3) job_not_text])
      (simp_all add: standin_serve_def Let_def job_posted [OF assms(2)] sent_back_def)
  have get: "comes_to (ask ?b ''dispatcher'' ''GET'' (starts_jobs @ ?name) None None) (t1, w1) (200, ?job) ?queued" if w1: "?queued w1" for t1 and w1 :: standins
  proof -
    obtain rest where rest: "starts_jobs @ ?name = CHR ''/'' # rest" by (simp add: starts_jobs_def)
    have found: "map_of (si_jobs w @ [(?name, ?job)]) ?name = Some ?job" using assms(2) by (simp add: map_add_Some_iff)
    show ?thesis
      unfolding rest
      by (rule comes_to_ask [OF assms(1) own_urls(3) job_not_text])
        (simp_all only: rest [symmetric], simp_all add: standin_serve_def Let_def job_target job_found [OF found] sent_back_def w1)
  qed
  have name: "''bench-'' @ int_str (bn_clock ?b (snd (t, w))) = ?name" by (simp add: job_name_def)
  have ok: "(201 \<notin> {200, 201 :: int}) = False" by simp
  have steps: "and_then (item ''steps'' (sample_plan hash)) length_of = Ok 4"
    by (simp add: item_def sample_plan_eq(2) length_of_def items_of_def planner_plans_def)
  have "comes_to (queue_job ?b (sample_plan hash)) (t, w)
    \<lparr>br_name = ''chain_to_dispatch'', br_status = Passed,
      br_detail = Msg ''{} steps planned, cell clear, certificate signed, job {} queued'' [JInt 4, JStr ?name]\<rparr> ?queued"
    unfolding queue_job_def Let_def
    apply (rule comes_to_then [OF comes_to_read [where P = "\<lambda>w1. w1 = w"]])
     apply simp
    apply (unfold name)
    apply hypsubst
    apply (rule comes_to_then [OF post])
    apply (simp only: prod.case ok if_False simp_thms)
    apply (erule comes_to_then [OF get])
    apply (simp add: step_then_return steps comes_to_end)
    done
  then show ?thesis by (auto simp: comes_to_def)
qed

lemma ready_reply: "item ''state'' (snd (safety_reply ''ready'' reason sdk bs ss)) = Ok (JStr ''ready'')"
  by (simp add: item_def safety_reply_def)

lemma chain_comes:
  assumes "own_ports p" "si_jobs w = []"
  shows "\<exists>d. comes_to (chain_to_dispatch (standin_bench hash clock date stamp loads p)) (t, w)
    \<lparr>br_name = ''chain_to_dispatch'', br_status = Passed, br_detail = d\<rparr> (\<lambda>w1. \<exists>now job. si_jobs w1 = [(job_name now, job)])"
proof -
  let ?b = "standin_bench hash clock date stamp loads p"
  let ?ready = "snd (safety_reply ''ready'' ''no breach, calibration valid'' ''READY'' [] [])"
  let ?empty = "\<lambda>w1 :: standins. si_jobs w1 = []"
  have usable: "plan_usable (sample_plan hash) = Ok True"
    by (simp add: plan_usable_def item_def sample_plan_eq(2) planner_plans_def)
  have plan: "comes_to (plan_step ?b) (t, w) (sample_plan hash) ?empty"
    using plan_comes [OF assms(1), of hash clock date stamp loads t w] assms(2) by (auto simp: comes_to_def same_work_def)
  have check: "comes_to (check_step ?b (point 5 5 0)) (t1, w1) ?ready ?empty" if "?empty w1" for t1 w1
    using check_comes [OF assms(1), of "point 5 5 0" ?ready hash clock date stamp loads t1 w1] that
    by (auto simp: safety_ready comes_to_def same_work_def safety_reply_def)
  obtain t1 w1 where plan1: "plan_step ?b (t, w) = ((t1, w1), Ok (sample_plan hash))" "prefix t t1" "?empty w1"
    using plan by (auto simp: comes_to_def)
  obtain t2 w2 where check2: "check_step ?b (point 5 5 0) (t1, w1) = ((t2, w2), Ok ?ready)" "prefix t1 t2" "?empty w2"
    using check [OF plan1(3), of t1] by (auto simp: comes_to_def)
  obtain t3 w3 c where cert: "certify ?b ''shoulder'' (1 / 2) (t2, w2) = ((t3, w3), Ok (200, c))" "prefix t2 t3" "?empty w3" "is_signed 200 c = Ok True"
    using certify_comes [OF assms(1), of hash clock date stamp loads "''shoulder''" "1 / 2" t2 w2] check2(3) certificate_signed
    by (auto simp: comes_to_def)
  have free: "map_of (si_jobs w3) (job_name (clock w3)) = None" using cert(3) by simp
  obtain d t4 w4 job where job: "queue_job ?b (sample_plan hash) (t3, w3) =
      ((t4, w4), Ok \<lparr>br_name = ''chain_to_dispatch'', br_status = Passed, br_detail = d\<rparr>)" "prefix t3 t4"
      "si_jobs w4 = [(job_name (clock w3), job)]"
    using queue_job_comes [where clock = clock and w = w3, OF assms(1) free, of hash date stamp loads t3] cert(3)
    by (auto simp: comes_to_def)
  have "chain_to_dispatch ?b (t, w) = ((t4, w4), Ok \<lparr>br_name = ''chain_to_dispatch'', br_status = Passed, br_detail = d\<rparr>)"
    using plan1(1) check2(1) cert(1,4) job(1) by (simp add: chain_to_dispatch_def Let_def step_then_def step_return_def usable ready_reply)
  then show ?thesis
    using plan1(2) check2(2) cert(2) job(2,3) unfolding comes_to_def by (auto intro: prefix_order.trans)
qed

lemma no_breach_job: "job_name now \<noteq> ''bench-breach''"
proof
  assume "job_name now = ''bench-breach''"
  then have "int_str now = ''breach''" by (simp add: job_name_def)
  moreover have "hd (int_str now) = CHR ''-'' \<or> is_digit (hd (int_str now))"
    using nat_str_is_digits [OF hd_in_set [OF nat_str_nonempty]] by (simp add: int_str_def)
  ultimately show False by (simp add: is_digit_def)
qed

definition one_job :: "standins \<Rightarrow> bool" where
  "one_job w \<longleftrightarrow> (\<exists>now job. si_jobs w = [(job_name now, job)])"

lemma one_job_same: "same_work w w1 \<Longrightarrow> one_job w \<Longrightarrow> one_job w1"
  by (simp add: same_work_def one_job_def)

lemma no_breach_found:
  assumes "one_job w"
  shows "dispatcher_handle ''GET'' ''/jobs/bench-breach'' body (si_jobs w) = (si_jobs w, Ok (error_reply 404 ''unknown job''))"
  using assms no_breach_job [symmetric] by (auto simp: dispatcher_handle_def one_job_def starts_jobs_def startswith_def)

lemma breach_comes:
  assumes "own_ports p" "one_job w"
  shows "\<exists>d. comes_to (breach_stops_the_chain (standin_bench hash clock date stamp loads p)) (t, w)
    \<lparr>br_name = ''breach_stops_the_chain'', br_status = Passed, br_detail = d\<rparr> one_job"
proof -
  let ?b = "standin_bench hash clock date stamp loads p"
  let ?danger = "snd (safety_reply ''danger'' ''objects breached a danger zone'' ''SAFE_STOP'' [cell_breach] [stop_request cell_breach])"
  let ?stops = "JArr [stop_request cell_breach]"
  obtain t1 w1 where plan: "plan_step ?b (t, w) = ((t1, w1), Ok (sample_plan hash))" "prefix t t1" "one_job w1"
    using plan_comes [OF assms(1), of hash clock date stamp loads t w] assms(2) one_job_same by (auto simp: comes_to_def)
  obtain t2 w2 where check: "check_step ?b (point (1 / 2) (1 / 2) (1 / 2)) (t1, w1) = ((t2, w2), Ok ?danger)" "prefix t1 t2" "one_job w2"
    using check_comes [OF assms(1), of "point (1 / 2) (1 / 2) (1 / 2)" ?danger hash clock date stamp loads t1 w1] plan(3) one_job_same
    by (auto simp: safety_danger comes_to_def safety_reply_def)
  obtain t3 w3 where look: "ask ?b ''dispatcher'' ''GET'' ''/jobs/bench-breach'' None None (t2, w2) = ((t3, w3), Ok (404, snd (error_reply 404 ''unknown job'')))"
      "prefix t2 t3" "one_job w3"
  proof -
    have "comes_to (ask ?b ''dispatcher'' ''GET'' ''/jobs/bench-breach'' None None) (t2, w2) (404, snd (error_reply 404 ''unknown job'')) one_job"
      by (rule comes_to_ask [OF assms(1) own_urls(3)])
        (use check(3) in \<open>simp_all add: standin_serve_def Let_def no_breach_found sent_back_def error_reply_def one_job_def\<close>)
    with that show ?thesis by (auto simp: comes_to_def)
  qed
  have "breach_stops_the_chain ?b (t, w) = ((t3, w3), Ok \<lparr>br_name = ''breach_stops_the_chain'', br_status = Passed,
      br_detail = Msg ''safety says {} with {} stop request(s); nothing certified or queued'' [JStr ''danger'', JInt 1]\<rparr>)"
    using plan(1) check(1) look(1)
    by (simp add: breach_stops_the_chain_def Let_def step_then_def step_return_def item_def get_of_def get_or_none_def safety_reply_def
      scenario_end_def length_of_def items_of_def)
  then show ?thesis
    using plan(2) check(2) look(2,3) unfolding comes_to_def by (auto intro: prefix_order.trans)
qed

lemma unapproved_comes:
  assumes "own_ports p" "one_job w"
  shows "\<exists>d. comes_to (unapproved_plan_is_not_executable (standin_bench hash clock date stamp loads p)) (t, w)
    \<lparr>br_name = ''unapproved_plan_is_not_executable'', br_status = Passed, br_detail = d\<rparr> one_job"
proof -
  let ?b = "standin_bench hash clock date stamp loads p"
  obtain t1 w1 where plan: "plan_step ?b (t, w) = ((t1, w1), Ok (sample_plan hash))" "prefix t t1" "one_job w1"
    using plan_comes [OF assms(1), of hash clock date stamp loads t w] assms(2) one_job_same by (auto simp: comes_to_def)
  have "unapproved_plan_is_not_executable ?b (t, w) = ((t1, w1), Ok \<lparr>br_name = ''unapproved_plan_is_not_executable'', br_status = Passed,
      br_detail = Msg ''the plan is a proposal (executable: false, requires_approval: true)'' []\<rparr>)"
    using plan(1) by (simp add: unapproved_plan_is_not_executable_def Let_def step_then_def step_return_def get_of_def get_or_none_def
      sample_plan_eq(2) scenario_end_def)
  then show ?thesis using plan(2,3) unfolding comes_to_def by auto
qed

subsection \<open>health\<close>

lemma services_down_none:
  assumes "\<And>name path t w. (name, path) \<in> set paths \<Longrightarrow> P w \<Longrightarrow> \<exists>j. comes_to (ask b name ''GET'' path None None) (t, w) (200, j) P" "P w"
  shows "comes_to (services_down b paths) (t, w) [] P"
  using assms
proof (induction paths arbitrary: t w)
  case Nil
  then show ?case by (simp add: comes_to_return)
next
  case (Cons x paths)
  obtain name path where x: "x = (name, path)" by fastforce
  obtain j where j: "comes_to (ask b name ''GET'' path None None) (t, w) (200, j) P"
    using Cons.prems(1) [of name path w t] Cons.prems(2) x by auto
  have rest: "comes_to (services_down b paths) (t1, w1) [] P" if "P w1" for t1 w1
    using Cons.IH Cons.prems(1) that by auto
  show ?case
    unfolding x services_down.simps
    by (rule comes_to_then [OF j]) (simp, rule comes_to_then [OF rest], simp, simp add: comes_to_return)
qed

lemma health_comes:
  assumes "own_ports p"
  shows "\<exists>d. comes_to (health (standin_bench hash clock date stamp loads p)) (t, w)
    \<lparr>br_name = ''health'', br_status = Passed, br_detail = d\<rparr> (same_work w)"
proof -
  let ?b = "standin_bench hash clock date stamp loads p"
  have ups: "\<exists>j. comes_to (ask ?b name ''GET'' path None None) (t1, w1) (200, j) (same_work w)"
    if path: "(name, path) \<in> set health_paths" and w1: "same_work w w1" for name path t1 w1
  proof -
    have "comes_to (ask ?b ''planner'' ''GET'' ''/stats'' None None) (t1, w1) (200, JObj [(''role'', JStr ''simulated semantic planner'')]) (same_work w)"
      by (rule comes_to_ask [OF assms own_urls(1)])
        (use w1 in \<open>simp_all add: standin_serve_def Let_def planner_handle_def sent_back_def same_work_def\<close>)
    moreover have "comes_to (ask ?b ''safety'' ''GET'' ''/stats'' None None) (t1, w1) (200, JObj [(''role'', JStr ''simulated safety zones'')]) (same_work w)"
      by (rule comes_to_ask [OF assms own_urls(2)])
        (use w1 in \<open>simp_all add: standin_serve_def Let_def safety_handle_def sent_back_def same_work_def\<close>)
    moreover have "comes_to (ask ?b ''dispatcher'' ''GET'' ''/health'' None None) (t1, w1)
        (200, JObj [(''status'', JStr ''ok''), (''persistenceHealthy'', JBool True), (''lastPersistError'', JNull)]) (same_work w)"
      by (rule comes_to_ask [OF assms own_urls(3)])
        (use w1 in \<open>simp_all add: standin_serve_def Let_def dispatcher_handle_def sent_back_def same_work_def\<close>)
    moreover have "comes_to (ask ?b ''twin'' ''GET'' ''/stats'' None None) (t1, w1) (200, JObj [(''workspace'', JStr ''simulated'')]) (same_work w)"
      by (rule comes_to_ask [OF assms own_urls(4)])
        (use w1 in \<open>simp_all add: standin_serve_def Let_def twin_handle_def sent_back_def same_work_def\<close>)
    ultimately show ?thesis using path unfolding health_paths_def by auto
  qed
  have "comes_to (services_down ?b health_paths) (t, w) [] (same_work w)"
    by (rule services_down_none [where P = "same_work w", OF ups]) (simp_all add: same_work_def)
  from comes_to_then [OF this, of "\<lambda>down. if down \<noteq> [] then scenario_end ''health'' Failed (Msg ''down: {}'' (map JStr down))
     else scenario_end ''health'' Passed (Msg ''every service answers [{}]'' (map (\<lambda>(name, r). JStr (name @ ''='' @ rn_source r)) (bn_services ?b)))"
     "\<lparr>br_name = ''health'', br_status = Passed, br_detail = Msg ''every service answers [{}]''
       (map (\<lambda>(name, r). JStr (name @ ''='' @ rn_source r)) (bn_services ?b))\<rparr>" "same_work w"]
  show ?thesis unfolding health_def using comes_to_end [where P = "same_work w"] by fastforce
qed

subsection \<open>metrics\<close>

definition lines_text :: "string list \<Rightarrow> string" where
  "lines_text ls = concat (map (\<lambda>l. l @ [CHR 0x0A]) ls)"

lemma split_lines_line:
  assumes "list_all (\<lambda>c. \<not> line_end c) l"
  shows "split_lines acc (l @ CHR 0x0A # rest) = (rev acc @ l) # split_lines [] rest"
  using assms by (induction l arbitrary: acc) (simp_all add: line_end_def)

lemma split_lines_text: "list_all (list_all (\<lambda>c. \<not> line_end c)) ls \<Longrightarrow> split_lines [] (lines_text ls) = ls"
  by (induction ls) (simp_all add: lines_text_def split_lines_line)

lemma digit_no_line_end: "is_digit c \<Longrightarrow> \<not> line_end c"
  by (auto simp: line_end_def is_digit_def)

text \<open>A name, a space and digits make a series line.\<close>

lemma rx_opt_empty: "rx_match (rx_opt r) []"
  by (simp add: rx_opt_def rx_match_simps)

lemma rx_plus_set: "ds \<noteq> [] \<Longrightarrow> list_all q ds \<Longrightarrow> rx_match (rx_plus (RSet q)) ds"
  by (cases ds) (simp_all add: rx_plus_def rx_match_set_cat rx_match_star_set)

lemma series_line_matches:
  assumes "name_start c" "list_all name_char cs" "ds \<noteq> []" "list_all is_digit ds"
  shows "fullmatch series_rx (c # cs @ '' '' @ ds)"
proof -
  have number: "rx_match series_value_rx ([] @ ds @ [])"
    unfolding series_value_rx_def rx_alts.simps rx_seq.simps
    by (intro rx_match.alt_left rx_match.cat rx_opt_empty rx_plus_set) (use assms(3,4) in \<open>auto simp: list_all_iff\<close>)
  have space: "rx_match (rx_lit '' '') '' ''" by (simp add: rx_match_simps)
  have "rx_match series_rx ([c] @ cs @ [] @ '' '' @ ds)"
    unfolding series_rx_def rx_seq.simps
    by (intro rx_match.cat rx_opt_empty space) (use assms(1,2) number in \<open>simp_all add: rx_match_simps rx_match_star_set\<close>)
  then show ?thesis by (simp add: fullmatch_iff)
qed

definition help_lines :: "string list" where
  "help_lines =
     [''# HELP hydra_umc_twin_up 1 while the service answers.'', ''# TYPE hydra_umc_twin_up gauge'', ''hydra_umc_twin_up 1'',
      ''# HELP hydra_umc_twin_certificates_signed_total Risk certificates signed.'',
      ''# TYPE hydra_umc_twin_certificates_signed_total counter'']"

definition counter_name :: string where
  "counter_name = ''hydra_umc_twin_certificates_signed_total''"

lemma certificates_lines: "certificates_text n = lines_text (help_lines @ [counter_name @ '' '' @ nat_str n])"
  by (simp add: certificates_text_def lines_text_def help_lines_def counter_name_def line_feed_def)

lemma constant_lines:
  "list_all (list_all (\<lambda>c. \<not> line_end c)) help_lines" "list_all (\<lambda>c. \<not> line_end c) counter_name"
  "list_all name_char (tl counter_name)" "name_start (hd counter_name)"
  by code_simp+

lemma help_lines_pass: "metrics_lines [] 0 (help_lines @ rest) = metrics_lines [counter_name, ''hydra_umc_twin_up''] 1 rest"
  by code_simp

lemma counter_line:
  "counter_name @ '' '' @ nat_str n = hd counter_name # tl counter_name @ '' '' @ nat_str n"
  "series_name (counter_name @ '' '' @ nat_str n) = counter_name"
  by (simp_all add: counter_name_def series_name_def) code_simp

lemma counter_not_comment:
  "\<not> startswith (counter_name @ t) ''# TYPE ''" "\<not> startswith (counter_name @ t) ''# HELP ''" "\<not> startswith (counter_name @ t) ''#''"
  by (simp_all add: counter_name_def startswith_def)

lemma strip_keeps:
  assumes "c \<in> set s" "\<not> is_space c"
  shows "strip s \<noteq> []"
proof -
  have "c \<in> set (lstrip s)"
    using assms unfolding lstrip_def by (metis Un_iff set_append set_takeWhileD takeWhile_dropWhile_id)
  then show ?thesis using assms(2) by (auto simp: strip_def rstrip_def)
qed

lemma counter_not_blank: "strip (counter_name @ t) \<noteq> []"
  by (rule strip_keeps [of "CHR ''h''"]) (simp_all add: counter_name_def is_space_def)

lemma certificates_text_good: "prometheus_problem (certificates_text n) = None"
proof -
  let ?line = "counter_name @ '' '' @ nat_str n"
  have digits: "list_all is_digit (nat_str n)" using nat_str_is_digits by (auto simp: list_all_iff)
  then have "list_all (\<lambda>c. \<not> line_end c) (nat_str n)" by (rule list.pred_mono_strong) (rule digit_no_line_end)
  moreover have "list_all (\<lambda>c. \<not> line_end c) '' ''" by (simp add: line_end_def)
  ultimately have "list_all (\<lambda>c. \<not> line_end c) ?line" using constant_lines(2) by (simp only: list_all_append simp_thms)
  then have lines: "split_lines [] (certificates_text n) = help_lines @ [?line]"
    using constant_lines(1) by (simp add: certificates_lines split_lines_text)
  have "fullmatch series_rx ?line"
    unfolding counter_line(1) by (rule series_line_matches [OF constant_lines(4,3) nat_str_nonempty digits])
  then have "metrics_lines [counter_name, ''hydra_umc_twin_up''] 1 [?line] = None"
    using counter_not_comment [of "'' '' @ nat_str n"] counter_not_blank [of "'' '' @ nat_str n"] counter_line(2) [of n] by simp
  then show ?thesis by (simp add: prometheus_problem_def lines help_lines_pass)
qed

lemma metrics_comes:
  assumes "own_ports p" "one_job w"
  shows "\<exists>d. comes_to (metrics_are_prometheus_text (standin_bench hash clock date stamp loads p)) (t, w)
    \<lparr>br_name = ''metrics_are_prometheus_text'', br_status = Passed, br_detail = d\<rparr> one_job"
proof -
  let ?b = "standin_bench hash clock date stamp loads p"
  let ?u = "port_url (pt_twin p)"
  let ?text = "certificates_text (si_certificates w)"
  let ?q = "request_to ?u ''GET'' ''/metrics'' None (Some twin_token)"
  have named: "map_of (bn_services ?b) ''twin'' = Some \<lparr>rn_url = ?u, rn_source = ''simulated''\<rparr>"
    "map_of (bn_services ?b) ''bridge'' = Some \<lparr>rn_url = [], rn_source = ''unavailable''\<rparr>"
    by (simp_all add: standin_bench_def port_urls_def)
  have url: "?u \<noteq> []" by (simp add: port_url_def)
  have plain: "\<not> contains_sub ''text/plain; version=0.0.4'' ''json''" by code_simp
  have start: "lstrip ?text = ?text" "\<not> startswith ?text ''{''" "\<not> startswith ?text ''[''"
    by (simp_all add: certificates_text_def lstrip_def is_space_def startswith_def)
  have parse: "parse_reply loads (wire_of (200, JStr ?text)) = JStr ?text" "wr_status (wire_of (200, JStr ?text)) = 200"
    using plain start by (simp_all add: parse_reply_def wire_of_def)
  obtain w1 where w1: "standin_serve hash (clock w) ''twin'' ?q ''/metrics'' w = (w1, Ok (wire_of (200, JStr ?text)))" "one_job w1"
    using assms(2) by (simp add: standin_serve_def Let_def twin_handle_def sent_back_def one_job_def)
  have "standin_net hash clock (port_urls p) ?q w = (w1, Ok (wire_of (200, JStr ?text)))"
    using standin_answers [OF assms(1) own_urls(4), of ?q "''metrics''" hash clock w] w1(1) by (simp add: port_url_stripped)
  then have call: "call loads (standin_net hash clock (port_urls p)) ?u ''GET'' ''/metrics'' None (Some twin_token) (t, w) =
      ((t @ [(?q, Some (200, JStr ?text))], w1), Ok (200, JStr ?text))"
    by (simp add: call_answered parse)
  have "metrics_are_prometheus_text ?b (t, w) = ((t @ [(?q, Some (200, JStr ?text))], w1),
      Ok \<lparr>br_name = ''metrics_are_prometheus_text'', br_status = Passed, br_detail = Msg ''valid Prometheus text from {}'' [JStr ''twin'']\<rparr>)"
    using call by (simp add: metrics_are_prometheus_text_def Let_def step_then_def step_return_def scenario_end_def named url certificates_text_good)
  then show ?thesis using w1(2) unfolding comes_to_def by auto
qed

subsection \<open>The run\<close>

lemma robot_skipped:
  "\<exists>d. comes_to (certified_command (standin_bench hash clock date stamp loads p)) s
    \<lparr>br_name = ''certified_command_moves_the_simulated_robot'', br_status = Skipped, br_detail = d\<rparr> (\<lambda>w. w = snd s)"
proof -
  have "map_of (bn_services (standin_bench hash clock date stamp loads p)) ''twin'' = Some \<lparr>rn_url = port_url (pt_twin p), rn_source = ''simulated''\<rparr>"
    "map_of (bn_services (standin_bench hash clock date stamp loads p)) ''bridge'' = Some \<lparr>rn_url = [], rn_source = ''unavailable''\<rparr>"
    by (simp_all add: standin_bench_def port_urls_def)
  then show ?thesis
    using comes_to_end [of "\<lambda>w. w = snd s" s] by (fastforce simp: certified_command_def Let_def)
qed

lemma run_scenario_comes:
  assumes "\<exists>d. comes_to m (t, w) \<lparr>br_name = n, br_status = status, br_detail = d\<rparr> P"
  shows "\<exists>d t1 w1. run_scenario (name, m) (t, w) = ((t1, w1), \<lparr>br_name = n, br_status = status, br_detail = d\<rparr>) \<and> P w1"
  using assms by (auto simp: comes_to_def run_scenario_def)

end
