(* ===== verification/Bench_Properties.thy ===== *)
theory Bench_Properties
  imports Bench_Standins
begin

text \<open>
  The guarantees of the bench: a job or a movement only after the checks, a breach that stops the chain, the metrics text it accepts, and
  the run on its own stand-ins.
\<close>

subsection \<open>Any services\<close>

text \<open>C36: Whatever the services answer, the bench queues a job only when before that, in the same run, the planner gave a usable plan, the
  safety service said that the cell is ready and the twin signed a certificate; and it orders a movement only with a
  certificate the twin gave before in this run.\<close>
theorem queued_and_moved_after_the_checks:
  assumes "run_bench b w = ((t, w1), rs)" and "t = before @ (q, a) # after"
  shows "(posts_to ''/jobs'' q \<longrightarrow> planned before \<and> cell_clear before \<and> risk_signed before) \<and>
    (posts_to ''/route'' q \<longrightarrow> carries_certificate q before)"
proof -
  have "checked_first t"
    using run_all_keeps [of "scenarios b" "[]" w t w1 rs] scenarios_quiet [of _ b] assms(1) by (simp add: run_bench_def)
  then show ?thesis using assms(2) unfolding checked_first_def may_send_def by blast
qed

text \<open>The exchanges of the scenario with a breach.\<close>

definition reads_only :: "exchange list \<Rightarrow> bool" where
  "reads_only t \<longleftrightarrow> (\<forall>(q, a) \<in> set t. posts_to ''/decompose'' q \<or> posts_to ''/check'' q \<or> bq_method q = ''GET'')"

definition cell_breached :: "exchange list \<Rightarrow> bool" where
  "cell_breached = said (\<lambda>q n j. posts_to ''/check'' q \<and> n = 200 \<and> item ''state'' j \<noteq> Ok (JStr ''ready'') \<and>
     (\<exists>s. get_of ''estopRequests'' j = Ok s \<and> truth s))"

lemma reads_only_ask:
  assumes "\<And>base. posts_to ''/decompose'' (request_to base method path body token) \<or> posts_to ''/check'' (request_to base method path body token) \<or>
      method = ''GET''"
  shows "step_ok reads_only P (ask b name method path body token)
    (\<lambda>(n, j). said (\<lambda>q m k. bq_method q = method \<and> endswith (bq_url q) path \<and> m = n \<and> k = j))"
proof (rule step_ok_weaken [OF step_ok_ask])
  show "allows reads_only P (request_to base method path body token)" for base
    using assms [of base] by (auto simp: allows_def reads_only_def)
qed (auto elim!: said_mono)

lemma plan_reads: "step_ok reads_only (\<lambda>t. True) (plan_step b) (\<lambda>plan t. True)"
  unfolding plan_step_def by (rule step_ok_then_pair [OF reads_only_ask]) (auto simp: posts_to_def)

lemma check_reads:
  "step_ok reads_only (\<lambda>t. True) (check_step b position) (\<lambda>reply. said (\<lambda>q n j. posts_to ''/check'' q \<and> n = 200 \<and> j = reply))"
  unfolding check_step_def
proof (rule step_ok_then [OF step_ok_read])
  show "step_ok reads_only (\<lambda>t. True \<and> True) (step_then (ask b ''safety'' ''POST'' ''/check'' (Some body) None)
      (\<lambda>(status, reply). step_return (if status \<noteq> 200 then runtime_error ''safety answered {}: {}'' [JInt status, reply] else Ok reply)))
      (\<lambda>reply. said (\<lambda>q n j. posts_to ''/check'' q \<and> n = 200 \<and> j = reply))" for body
    by (rule step_ok_then_pair [OF reads_only_ask]) (auto simp: posts_to_def runtime_error_def elim!: said_mono)
qed simp

lemma breach_ends:
  assumes "item ''state'' safety = Ok state" "(if state = JStr ''ready'' then Ok JNull else get_of ''estopRequests'' safety) = Ok stops"
  shows "step_ok reads_only (said (\<lambda>q n j. posts_to ''/check'' q \<and> n = 200 \<and> j = safety))
    (if \<not> truth stops then scenario_end me Failed (d state)
     else step_then (ask b ''dispatcher'' ''GET'' path None None) (\<lambda>(status, reply).
       if status = 200 then scenario_end me Failed d2
       else step_then (step_return (length_of stops)) (\<lambda>n. scenario_end me Passed (d3 n))))
    (\<lambda>v t. br_status v = Passed \<longrightarrow> cell_breached t)"
proof (rule step_ok_if)
  assume "\<not> \<not> truth stops"
  with assms have fits: "said (\<lambda>q n j. posts_to ''/check'' q \<and> n = 200 \<and> j = safety) t \<Longrightarrow> cell_breached t" for t
    unfolding cell_breached_def by (erule_tac said_mono) (auto split: if_splits)
  show "step_ok reads_only (said (\<lambda>q n j. posts_to ''/check'' q \<and> n = 200 \<and> j = safety))
    (step_then (ask b ''dispatcher'' ''GET'' path None None) (\<lambda>(status, reply).
       if status = 200 then scenario_end me Failed d2
       else step_then (step_return (length_of stops)) (\<lambda>n. scenario_end me Passed (d3 n))))
    (\<lambda>v t. br_status v = Passed \<longrightarrow> cell_breached t)"
  proof (rule step_ok_then_pair [OF reads_only_ask], simp, rule step_ok_if)
    fix n j
    show "step_ok reads_only (\<lambda>t. said (\<lambda>q n j. posts_to ''/check'' q \<and> n = 200 \<and> j = safety) t \<and>
        (case (n, j) of (n, j) \<Rightarrow> said (\<lambda>q m k. bq_method q = ''GET'' \<and> endswith (bq_url q) path \<and> m = n \<and> k = j)) t)
      (step_then (step_return (length_of stops)) (\<lambda>n. scenario_end me Passed (d3 n))) (\<lambda>v t. br_status v = Passed \<longrightarrow> cell_breached t)"
      by (rule step_ok_pure) (simp add: scenario_end_def fits)
  qed (simp_all add: scenario_end_def)
qed (simp add: scenario_end_def)

text \<open>C37: A breach stops the chain: whatever the services answer, the scenario with a person in the cell sends nothing but the goal to the
  planner, the scene to the safety service and reads, so it asks for no certificate and queues nothing; and it passes only
  if the safety service refused the cell and asked for stops.\<close>
theorem breach_certifies_and_queues_nothing:
  assumes "breach_stops_the_chain b ([], w) = ((t, w1), r)"
  shows "reads_only t \<and> (\<forall>v. r = Ok v \<and> br_status v = Passed \<longrightarrow> cell_breached t)"
proof -
  have check: "step_ok reads_only (\<lambda>t. True \<and> True) (check_step b position)
      (\<lambda>reply. said (\<lambda>q n j. posts_to ''/check'' q \<and> n = 200 \<and> j = reply))" for position
    using check_reads by simp
  have "step_ok reads_only (\<lambda>t. True) (breach_stops_the_chain b) (\<lambda>v t. br_status v = Passed \<longrightarrow> cell_breached t)"
    unfolding breach_stops_the_chain_def Let_def
  proof (rule step_ok_then [OF plan_reads], rule step_ok_then [OF check])
    fix safety
    show "step_ok reads_only (\<lambda>t. (True \<and> True) \<and> said (\<lambda>q n j. posts_to ''/check'' q \<and> n = 200 \<and> j = safety) t)
      (step_then (step_return (item ''state'' safety)) (\<lambda>state.
       step_then (step_return (if state = JStr ''ready'' then Ok JNull else get_of ''estopRequests'' safety)) (\<lambda>stops.
         if \<not> truth stops then scenario_end ''breach_stops_the_chain'' Failed (Msg ''a person in the cell must stop the chain, safety says {}'' [state])
         else step_then (ask b ''dispatcher'' ''GET'' ''/jobs/bench-breach'' None None) (\<lambda>(status, reply).
           if status = 200 then scenario_end ''breach_stops_the_chain'' Failed (Msg ''a job exists for a run that was stopped'' [])
           else step_then (step_return (length_of stops)) (\<lambda>n. scenario_end ''breach_stops_the_chain'' Passed
             (Msg ''safety says {} with {} stop request(s); nothing certified or queued'' [state, JInt n]))))))
      (\<lambda>v t. br_status v = Passed \<longrightarrow> cell_breached t)"
      by (rule step_ok_pure, rule step_ok_pure, rule step_ok_weaken [OF breach_ends]) simp_all
  qed simp_all
  from step_okD [OF this assms] show ?thesis by (simp add: reads_only_def)
qed

subsection \<open>The metrics text\<close>

text \<open>What a line of a metrics text is, and whether it is right after the names declared before it.\<close>

datatype line_kind = Blank_line | Type_line | Help_line | Comment_line | Series_line

definition kind_of_line :: "string \<Rightarrow> line_kind" where
  "kind_of_line l =
     (if strip l = [] then Blank_line else if startswith l ''# TYPE '' then Type_line else if startswith l ''# HELP '' then Help_line
      else if startswith l ''#'' then Comment_line else Series_line)"

definition line_fits :: "string set \<Rightarrow> string \<Rightarrow> bool" where
  "line_fits declared l = (case kind_of_line l of
     Type_line \<Rightarrow> length (words_of l) = 4 \<and> words_of l ! 3 \<in> set metric_kinds
   | Help_line \<Rightarrow> 4 \<le> length (words_of l)
   | Series_line \<Rightarrow> rx_match series_rx l \<and> series_name l \<in> declared
   | _ \<Rightarrow> True)"

definition declared_by :: "string list \<Rightarrow> string set" where
  "declared_by ls = {words_of l ! 2 | l. l \<in> set ls \<and> kind_of_line l = Type_line}"

definition exposition :: "string list \<Rightarrow> bool" where
  "exposition ls \<longleftrightarrow> (\<exists>l \<in> set ls. kind_of_line l = Series_line) \<and> (\<forall>i < length ls. line_fits (declared_by (take i ls)) (ls ! i))"

lemma declared_by_simps [simp]:
  "declared_by [] = {}"
  "declared_by (l # ls) = (if kind_of_line l = Type_line then insert (words_of l ! 2) (declared_by ls) else declared_by ls)"
  by (auto simp: declared_by_def)

lemma metrics_line:
  "metrics_lines declared n (l # ls) = None \<longleftrightarrow> line_fits (set declared) l \<and>
     metrics_lines (if kind_of_line l = Type_line then words_of l ! 2 # declared else declared)
       (if kind_of_line l = Series_line then Suc n else n) ls = None"
  by (auto simp: line_fits_def kind_of_line_def fullmatch_iff)

lemma metrics_lines_iff:
  "metrics_lines declared n ls = None \<longleftrightarrow> (n \<noteq> 0 \<or> (\<exists>l \<in> set ls. kind_of_line l = Series_line)) \<and>
     (\<forall>i < length ls. line_fits (set declared \<union> declared_by (take i ls)) (ls ! i))"
proof (induction ls arbitrary: declared n)
  case Nil
  then show ?case by simp
next
  case (Cons l ls)
  have all: "(\<forall>i < length (l # ls). P i) \<longleftrightarrow> P 0 \<and> (\<forall>i < length ls. P (Suc i))" for P
    by (auto simp: less_Suc_eq_0_disj)
  have set: "set (if kind_of_line l = Type_line then words_of l ! 2 # declared else declared) \<union> declared_by (take i ls) =
      set declared \<union> declared_by (take (Suc i) (l # ls))" for i
    by simp
  show ?case
    unfolding metrics_line Cons.IH all set by auto
qed


text \<open>The series of a histogram have other names than its TYPE line, so a histogram that follows the format is refused.\<close>

lemma histogram_is_refused:
  "prometheus_problem (lines_text [''# TYPE wait_seconds histogram'', ''wait_seconds_sum 1'', ''wait_seconds_count 1'']) =
     Some (Msg ''{} is used before its TYPE line'' [JStr ''wait_seconds_sum''])"
  by code_simp

subsection \<open>The stand-ins\<close>

text \<open>C39: The bench works without any real service: at any time and with any hash function, on fresh stand-ins at four different ports every
  scenario passes, only the movement of the robot is skipped, the exit code is 0, and the dispatcher has exactly one job.\<close>
theorem bench_passes_on_its_standins:
  assumes "own_ports p" and "run_bench (standin_bench hash clock date stamp loads p) fresh_standins = ((t, w), rs)"
  shows "map (\<lambda>r. (br_name r, br_status r)) rs =
      [(''health'', Passed), (''chain_to_dispatch'', Passed), (''breach_stops_the_chain'', Passed),
       (''unapproved_plan_is_not_executable'', Passed), (''metrics_are_prometheus_text'', Passed),
       (''certified_command_moves_the_simulated_robot'', Skipped)] \<and>
    bench_exit rs = 0 \<and> length (si_jobs w) = 1"
proof -
  let ?b = "standin_bench hash clock date stamp loads p"
  obtain d1 t1 w1 where s1: "run_scenario (''health'', health ?b) ([], fresh_standins) = ((t1, w1), \<lparr>br_name = ''health'', br_status = Passed, br_detail = d1\<rparr>)"
      "same_work fresh_standins w1"
    using run_scenario_comes [OF health_comes [OF assms(1)]] by blast
  then have free: "si_jobs w1 = []" by (simp add: same_work_def fresh_standins_def)
  obtain d2 t2 w2 where s2: "run_scenario (''chain_to_dispatch'', chain_to_dispatch ?b) (t1, w1) =
      ((t2, w2), \<lparr>br_name = ''chain_to_dispatch'', br_status = Passed, br_detail = d2\<rparr>)" "one_job w2"
    using run_scenario_comes [OF chain_comes [OF assms(1) free, folded one_job_def]] by blast
  obtain d3 t3 w3 where s3: "run_scenario (''breach_stops_the_chain'', breach_stops_the_chain ?b) (t2, w2) =
      ((t3, w3), \<lparr>br_name = ''breach_stops_the_chain'', br_status = Passed, br_detail = d3\<rparr>)" "one_job w3"
    using run_scenario_comes [OF breach_comes [OF assms(1) s2(2)]] by blast
  obtain d4 t4 w4 where s4: "run_scenario (''unapproved_plan_is_not_executable'', unapproved_plan_is_not_executable ?b) (t3, w3) =
      ((t4, w4), \<lparr>br_name = ''unapproved_plan_is_not_executable'', br_status = Passed, br_detail = d4\<rparr>)" "one_job w4"
    using run_scenario_comes [OF unapproved_comes [OF assms(1) s3(2)]] by blast
  obtain d5 t5 w5 where s5: "run_scenario (''metrics_are_prometheus_text'', metrics_are_prometheus_text ?b) (t4, w4) =
      ((t5, w5), \<lparr>br_name = ''metrics_are_prometheus_text'', br_status = Passed, br_detail = d5\<rparr>)" "one_job w5"
    using run_scenario_comes [OF metrics_comes [OF assms(1) s4(2)]] by blast
  obtain d6 t6 w6 where s6: "run_scenario (''certified_command_moves_the_simulated_robot'', certified_command ?b) (t5, w5) =
      ((t6, w6), \<lparr>br_name = ''certified_command_moves_the_simulated_robot'', br_status = Skipped, br_detail = d6\<rparr>)" "w6 = w5"
    using run_scenario_comes [OF robot_skipped [where s = "(t5, w5)"]] by (metis snd_conv)
  have "run_bench ?b fresh_standins = ((t6, w6),
      [\<lparr>br_name = ''health'', br_status = Passed, br_detail = d1\<rparr>, \<lparr>br_name = ''chain_to_dispatch'', br_status = Passed, br_detail = d2\<rparr>,
       \<lparr>br_name = ''breach_stops_the_chain'', br_status = Passed, br_detail = d3\<rparr>,
       \<lparr>br_name = ''unapproved_plan_is_not_executable'', br_status = Passed, br_detail = d4\<rparr>,
       \<lparr>br_name = ''metrics_are_prometheus_text'', br_status = Passed, br_detail = d5\<rparr>,
       \<lparr>br_name = ''certified_command_moves_the_simulated_robot'', br_status = Skipped, br_detail = d6\<rparr>])"
    unfolding run_bench_def scenarios_def run_all.simps s1(1) prod.case s2(1) s3(1) s4(1) s5(1) s6(1) ..
  with assms(2) have rs: "rs = [\<lparr>br_name = ''health'', br_status = Passed, br_detail = d1\<rparr>, \<lparr>br_name = ''chain_to_dispatch'', br_status = Passed, br_detail = d2\<rparr>,
       \<lparr>br_name = ''breach_stops_the_chain'', br_status = Passed, br_detail = d3\<rparr>,
       \<lparr>br_name = ''unapproved_plan_is_not_executable'', br_status = Passed, br_detail = d4\<rparr>,
       \<lparr>br_name = ''metrics_are_prometheus_text'', br_status = Passed, br_detail = d5\<rparr>,
       \<lparr>br_name = ''certified_command_moves_the_simulated_robot'', br_status = Skipped, br_detail = d6\<rparr>]" and "w = w5"
    using s6(2) by (metis prod.inject)+
  then show ?thesis using s5(2) unfolding rs by (auto simp: bench_exit_def one_job_def)
qed

subsection \<open>Witnesses\<close>

text \<open>Services that answer every request as the bench hopes, and have no metrics.\<close>

definition willing_answer :: "string \<Rightarrow> reply" where
  "willing_answer u =
     (if endswith u ''/decompose'' then (200, JObj [(''matched'', JBool True), (''valid'', JBool True), (''steps'', JArr [JInt 1])])
      else if endswith u ''/check'' then (200, JObj [(''state'', JStr ''ready'')])
      else if endswith u ''/interlock/certify'' then (200, JObj [(''signature'', JStr ''s'')])
      else if endswith u ''/jobs'' then (201, JObj [])
      else if endswith u ''/metrics'' then (404, JNull)
      else (200, JNull))"

definition willing_bench :: "(string \<Rightarrow> reply) \<Rightarrow> unit bench" where
  "willing_bench answer =
     \<lparr>bn_services = map (\<lambda>n. (n, \<lparr>rn_url = ''http://h'', rn_source = ''given''\<rparr>)) [''planner'', ''safety'', ''dispatcher'', ''twin''] @
        [(''bridge'', \<lparr>rn_url = [], rn_source = ''unavailable''\<rparr>)],
      bn_token = ''t'', bn_loads = (\<lambda>t. None), bn_net = (\<lambda>q w. (w, Ok (wire_of (answer (bq_url q))))),
      bn_clock = (\<lambda>w. 5), bn_date = (\<lambda>w. []), bn_stamp = (\<lambda>w. [])\<rparr>"

lemma willing_run:
  "7 < length (fst (fst (run_bench (willing_bench willing_answer) ()))) \<and>
   posts_to ''/jobs'' (fst (fst (fst (run_bench (willing_bench willing_answer) ())) ! 7))"
  by code_simp

lemma queued_and_moved_after_the_checks_witness:
  "\<exists>before q a after. fst (fst (run_bench (willing_bench willing_answer) ())) = before @ (q, a) # after \<and>
     posts_to ''/jobs'' q \<and> planned before \<and> cell_clear before \<and> risk_signed before"
proof -
  obtain t w1 rs where run: "run_bench (willing_bench willing_answer) () = ((t, w1), rs)" by (metis surj_pair)
  obtain q a where e: "t ! 7 = (q, a)" by fastforce
  have "7 < length t" "posts_to ''/jobs'' q" using willing_run run e by simp_all
  moreover from this have "t = take 7 t @ (q, a) # drop 8 t" using id_take_nth_drop [of 7 t] e by simp
  ultimately show ?thesis using queued_and_moved_after_the_checks [OF run, of "take 7 t" q a "drop 8 t"] run by auto
qed

definition breached_answer :: "string \<Rightarrow> reply" where
  "breached_answer u =
     (if endswith u ''/check'' then (200, JObj [(''state'', JStr ''danger''), (''estopRequests'', JArr [JNull])])
      else if endswith u ''bench-breach'' then (404, JNull) else willing_answer u)"

lemma breached_run:
  "case breach_stops_the_chain (willing_bench breached_answer) ([], ()) of (s, Inr v) \<Rightarrow> br_status v = Passed | _ \<Rightarrow> False"
  by code_simp

lemma breach_certifies_and_queues_nothing_witness:
  "reads_only (fst (fst (breach_stops_the_chain (willing_bench breached_answer) ([], ())))) \<and>
   cell_breached (fst (fst (breach_stops_the_chain (willing_bench breached_answer) ([], ()))))"
proof -
  obtain t w1 r where run: "breach_stops_the_chain (willing_bench breached_answer) ([], ()) = ((t, w1), r)" by (metis surj_pair)
  with breached_run obtain v where "r = Ok v" "br_status v = Passed" by (cases r) simp_all
  with breach_certifies_and_queues_nothing [OF run] run show ?thesis by simp
qed

definition four_ports :: ports where
  "four_ports = \<lparr>pt_planner = 1, pt_safety = 2, pt_dispatcher = 3, pt_twin = 4\<rparr>"

lemma bench_passes_on_its_standins_witness:
  "bench_exit (snd (run_bench (standin_bench (\<lambda>s. 7) (\<lambda>w. 5) (\<lambda>w. []) (\<lambda>w. []) (\<lambda>t. None) four_ports) fresh_standins)) = 0"
proof -
  obtain t w rs where run: "run_bench (standin_bench (\<lambda>s. 7) (\<lambda>w. 5) (\<lambda>w. []) (\<lambda>w. []) (\<lambda>t. None) four_ports) fresh_standins = ((t, w), rs)"
    by (metis surj_pair)
  have "own_ports four_ports" by (simp add: own_ports_def four_ports_def)
  from bench_passes_on_its_standins [OF this run] run show ?thesis by simp
qed

end
