(* ===== verification/Bench_Services.thy ===== *)
theory Bench_Services
  imports Bench_Scenarios
begin

text \<open>
  \<open>bench.py\<close>: the services of a run, given, real or simulated: how the bench looks for a real one, starts it, waits for it, and stops what
  it started.  The operating system is a record of operations; what is done to processes is kept as a list of acts.
\<close>

subsection \<open>The stage of a run\<close>

datatype act = Started int "string list" | Terminated int | Killed int | Simulated string | Stopped string | Removed string

text \<open>The acts, the monotonic clock, the public key of the twin that was read, and the rest of the world.\<close>

record 'w stage =
  sg_acts :: "act list"
  sg_now :: rat
  sg_key :: string
  sg_world :: 'w

text \<open>
  What the bench asks of the host.  \<open>bo_overslept\<close> and \<open>bo_spent\<close> are how much longer than asked a sleep took and how long a request took: a
  sleep never ends early and a monotonic clock never goes back.
\<close>

record 'w bench_os =
  bo_python :: string
  bo_environ :: "string dict"
  bo_loads :: "string \<Rightarrow> json option"
  bo_net :: "'w bench_net"
  bo_overslept :: "rat \<Rightarrow> 'w \<Rightarrow> rat"
  bo_spent :: "'w \<Rightarrow> rat"
  bo_after_sleep :: "rat \<Rightarrow> 'w \<Rightarrow> 'w"
  bo_ended :: "int \<Rightarrow> 'w \<Rightarrow> bool"
  bo_port :: "'w \<Rightarrow> 'w \<times> int result"
  bo_is_dir :: "string \<Rightarrow> 'w \<Rightarrow> bool"
  bo_is_file :: "string \<Rightarrow> 'w \<Rightarrow> bool"
  bo_start :: "string list \<Rightarrow> string dict \<Rightarrow> 'w \<Rightarrow> 'w \<times> int result"
  bo_run :: "string list \<Rightarrow> 'w \<Rightarrow> 'w \<times> int result"
  bo_write :: "string \<Rightarrow> string \<Rightarrow> 'w \<Rightarrow> 'w \<times> unit result"
  bo_log :: "string \<Rightarrow> 'w \<Rightarrow> string result"
  bo_wait :: "int \<Rightarrow> 'w \<Rightarrow> 'w \<times> bool"
  bo_signal :: "int \<Rightarrow> bool \<Rightarrow> 'w \<Rightarrow> 'w"
  bo_simulate :: "string \<Rightarrow> 'w \<Rightarrow> 'w \<times> string result"
  bo_stop :: "string \<Rightarrow> 'w \<Rightarrow> 'w"
  bo_rmtree :: "string \<Rightarrow> 'w \<Rightarrow> 'w"

type_synonym ('w, 'a) stage_step = "('w stage, 'a) bench_step"

text \<open>A question to the host that leaves the world as it is, and an operation that changes it.\<close>

definition world_read :: "('w \<Rightarrow> 'a) \<Rightarrow> ('w, 'a) stage_step" where
  "world_read f = step_read (\<lambda>st. f (sg_world st))"

definition world_do :: "('w \<Rightarrow> 'w \<times> 'a result) \<Rightarrow> ('w, 'a) stage_step" where
  "world_do f s = (case s of (t, st) \<Rightarrow> (case f (sg_world st) of (w, r) \<Rightarrow> ((t, st\<lparr>sg_world := w\<rparr>), r)))"

definition note_act :: "act \<Rightarrow> ('w, unit) stage_step" where
  "note_act a s = (case s of (t, st) \<Rightarrow> ((t, st\<lparr>sg_acts := sg_acts st @ [a]\<rparr>), Ok ()))"

definition keep_key :: "string \<Rightarrow> ('w, unit) stage_step" where
  "keep_key key s = (case s of (t, st) \<Rightarrow> ((t, st\<lparr>sg_key := key\<rparr>), Ok ()))"

text \<open>\<open>subprocess.Popen\<close>, \<open>terminate\<close> and \<open>kill\<close>.\<close>

definition start_process :: "'w bench_os \<Rightarrow> string list \<Rightarrow> string dict \<Rightarrow> ('w, int) stage_step" where
  "start_process os line env = step_then (world_do (bo_start os line env)) (\<lambda>p.
     step_then (note_act (Started p line)) (\<lambda>_. step_return (Ok p)))"

definition signal_process :: "'w bench_os \<Rightarrow> int \<Rightarrow> bool \<Rightarrow> ('w, unit) stage_step" where
  "signal_process os p kill = step_then (world_do (\<lambda>w. (bo_signal os p kill w, Ok ()))) (\<lambda>_.
     note_act (if kill then Killed p else Terminated p))"

definition sleep :: "'w bench_os \<Rightarrow> rat \<Rightarrow> exchange list \<times> 'w stage \<Rightarrow> exchange list \<times> 'w stage" where
  "sleep os seconds s = (case s of (t, st) \<Rightarrow>
     (t, st\<lparr>sg_now := sg_now st + seconds + max 0 (bo_overslept os seconds (sg_world st)), sg_world := bo_after_sleep os seconds (sg_world st)\<rparr>))"

text \<open>A request of the client, which takes its time.\<close>

definition stage_net :: "'w bench_os \<Rightarrow> 'w stage bench_net" where
  "stage_net os q st = (case bo_net os q (sg_world st) of (w, r) \<Rightarrow> (st\<lparr>sg_now := sg_now st + max 0 (bo_spent os w), sg_world := w\<rparr>, r))"

definition stage_call ::
  "'w bench_os \<Rightarrow> string \<Rightarrow> string \<Rightarrow> string \<Rightarrow> json option \<Rightarrow> string option \<Rightarrow> ('w, int \<times> json) stage_step" where
  "stage_call os = call (bo_loads os) (stage_net os)"

subsection \<open>Waiting for a service\<close>

lemma call_clock: "stage_call os url method path body token s = (s1, r) \<Longrightarrow> sg_now (snd s) \<le> sg_now (snd s1)"
  by (auto simp: stage_call_def call_def stage_net_def Let_def split: prod.splits sum.splits if_splits)

text \<open>\<open>_wait_up\<close>: until it answers 200 or 401, its process ends, or the time is over.\<close>

function wait_until :: "'w bench_os \<Rightarrow> string \<Rightarrow> string \<Rightarrow> int option \<Rightarrow> rat \<Rightarrow> ('w, bool) stage_step" where
  "wait_until os url path process end s =
     (if \<not> sg_now (snd s) < end then (s, Ok False)
      else if (case process of None \<Rightarrow> False | Some p \<Rightarrow> bo_ended os p (sg_world (snd s))) then (s, Ok False)
      else (case stage_call os url ''GET'' path None None s of
          (s1, Inl e) \<Rightarrow> (s1, Inl e)
        | (s1, Inr x) \<Rightarrow> if fst x \<in> {200, 401} then (s1, Ok True) else wait_until os url path process end (sleep os (1 / 5) s1)))"
  by pat_completeness auto
termination
proof (relation "measure (\<lambda>(os, url, path, process, end, s). nat \<lceil>5 * (end - sg_now (snd s))\<rceil>)")
  show "wf (measure (\<lambda>(os, url, path, process, end, s). nat \<lceil>5 * (end - sg_now (snd s))\<rceil>))" by simp
next
  fix os :: "'w bench_os" and url path :: string and process :: "int option" and stop :: rat and s s1 b and x :: "int \<times> json"
  assume early: "\<not> \<not> sg_now (snd s) < stop" and called: "(s1, b) = stage_call os url ''GET'' path None None s" "b = Ok x"
  let ?s2 = "sleep os (1 / 5) s1"
  have "sg_now (snd s) \<le> sg_now (snd s1)" by (rule call_clock [OF called(1) [symmetric]])
  moreover have "sg_now (snd s1) + 1 / 5 \<le> sg_now (snd ?s2)" by (simp add: sleep_def split: prod.splits)
  ultimately have less: "5 * (stop - sg_now (snd ?s2)) \<le> 5 * (stop - sg_now (snd s)) - 1" by simp
  have "0 < 5 * (stop - sg_now (snd s))" using early by simp
  then have "0 < \<lceil>5 * (stop - sg_now (snd s))\<rceil>" by simp
  moreover have "\<lceil>5 * (stop - sg_now (snd ?s2))\<rceil> \<le> \<lceil>5 * (stop - sg_now (snd s))\<rceil> - 1" using ceiling_mono [OF less] by simp
  ultimately show "((os, url, path, process, stop, ?s2), (os, url, path, process, stop, s))
      \<in> measure (\<lambda>(os, url, path, process, end, s). nat \<lceil>5 * (end - sg_now (snd s))\<rceil>)"
    by simp
qed

declare wait_until.simps [simp del]

definition wait_up :: "'w bench_os \<Rightarrow> string \<Rightarrow> string \<Rightarrow> int option \<Rightarrow> ('w, bool) stage_step" where
  "wait_up os url path process s = wait_until os url path process (sg_now (snd s) + 20) s"

subsection \<open>Finding and starting the real services\<close>

definition loopback_text :: string where
  "loopback_text = ''127.0.0.1''"

definition local_url :: "int \<Rightarrow> string" where
  "local_url port = ''http://'' @ loopback_text @ '':'' @ int_str port"

definition below :: "string \<Rightarrow> string list \<Rightarrow> string" where
  "below p parts = join_with ''/'' (p # parts)"

text \<open>The options every service is started with: it listens on this machine only.\<close>

definition serve_line :: "int \<Rightarrow> string list" where
  "serve_line port = [''serve'', ''--addr'', loopback_text, ''--port'', int_str port]"

definition python_service :: "'w bench_os \<Rightarrow> string \<Rightarrow> string \<Rightarrow> string \<Rightarrow> int \<Rightarrow> ('w, int option) stage_step" where
  "python_service os workspace repo module_name port = (let source = below workspace [repo, ''src''] in
     step_then (world_read (bo_is_dir os source)) (\<lambda>there.
       if \<not> there then step_return (Ok None)
       else step_then (start_process os ([bo_python os, ''-m'', module_name] @ serve_line port)
             (dict_set ''PYTHONIOENCODING'' ''utf-8'' (dict_set ''PYTHONPATH'' source (bo_environ os)))) (\<lambda>p.
           step_return (Ok (Some p)))))"

text \<open>\<open>_binary\<close>: the variable, the target directory of cargo, then the checkout next to this one; the first that is a file.\<close>

definition binary_candidates :: "'w bench_os \<Rightarrow> string \<Rightarrow> string \<Rightarrow> string \<Rightarrow> string \<Rightarrow> string list" where
  "binary_candidates os workspace repo executable env_name =
     (let named = (\<lambda>v. case map_of (bo_environ os) v of None \<Rightarrow> [] | Some p \<Rightarrow> if p = [] then [] else [p]) in
      named env_name @
      concat (map (\<lambda>d. [below d [''release'', executable], below d [''debug'', executable]]) (named ''CARGO_TARGET_DIR'')) @
      map (\<lambda>profile. below workspace [repo, ''target'', profile, executable]) [''release'', ''debug''])"

definition binary :: "'w bench_os \<Rightarrow> string \<Rightarrow> string \<Rightarrow> string \<Rightarrow> string \<Rightarrow> ('w, string option) stage_step" where
  "binary os workspace repo executable env_name =
     world_read (\<lambda>w. find (\<lambda>p. bo_is_file os p w) (binary_candidates os workspace repo executable env_name))"

definition sim_model :: json where
  "sim_model = JObj [(''joints'', JArr
     [JObj [(''name'', JStr ''shoulder''), (''lower'', JFloat (Finite (-2))), (''upper'', JFloat (Finite 2)), (''max_velocity'', JFloat (Finite 1)),
        (''max_acceleration'', JFloat (Finite 5))],
      JObj [(''name'', JStr ''elbow''), (''lower'', JFloat (Finite (- 3 / 2))), (''upper'', JFloat (Finite (3 / 2))), (''max_velocity'', JFloat (Finite 2)),
        (''max_acceleration'', JFloat (Finite 10))]])]"

text \<open>\<open>re.search(r"public key ([0-9a-f]{64})", text)\<close>.\<close>

definition key_words :: string where
  "key_words = ''public key ''"

fun find_public_key :: "string \<Rightarrow> string option" where
  "find_public_key [] = None"
| "find_public_key (c # cs) =
     (let key = take 64 (drop (length key_words) (c # cs)) in
      if startswith (c # cs) key_words \<and> length key = 64 \<and> list_all is_lower_hex key then Some key else find_public_key cs)"

text \<open>A tenth of a second between the readings, and that often at most.\<close>

primrec await_key :: "'w bench_os \<Rightarrow> string \<Rightarrow> nat \<Rightarrow> ('w, unit) stage_step" where
  "await_key os file_name 0 = step_return (Ok ())"
| "await_key os file_name (Suc n) =
     step_then (step_then (world_read (bo_log os file_name)) step_return) (\<lambda>content.
       case find_public_key content of
         Some key \<Rightarrow> keep_key key
       | None \<Rightarrow> (\<lambda>s. await_key os file_name n (sleep os (1 / 10) s)))"

definition twin_line :: "string \<Rightarrow> int \<Rightarrow> string \<Rightarrow> string list" where
  "twin_line program port scratch = program # serve_line port @
     [''--workspace'', scratch, ''--signing-key-file'', below scratch [''twin.key''], ''--certify-token-file'', below scratch [''twin.token''],
      ''--sim-config'', below scratch [''sim.json''], ''--require-fresh-state-ms'', ''60000'']"

text \<open>What the bench was called with.\<close>

record bench_setup =
  bs_real :: bool
  bs_given :: "string dict"
  bs_workspace :: string
  bs_token :: string
  bs_scratch :: string

definition start_twin :: "'w bench_os \<Rightarrow> bench_setup \<Rightarrow> int \<Rightarrow> ('w, int option) stage_step" where
  "start_twin os b port =
     step_then (binary os (bs_workspace b) ''HYDRA-UMC-TWIN'' ''hydra-umc-twin'' ''HYDRA_UMC_TWIN_BIN'') (\<lambda>found. case found of
         None \<Rightarrow> step_return (Ok None)
       | Some program \<Rightarrow>
           step_then (world_do (bo_run os [program, ''keygen'', ''--key-file'', below (bs_scratch b) [''twin.key'']])) (\<lambda>code.
             if code \<noteq> 0 then step_return (Ok None)
             else step_then (world_do (bo_write os (below (bs_scratch b) [''twin.token'']) (bs_token b @ [CHR 0x0A]))) (\<lambda>_.
                  step_then (world_do (bo_write os (below (bs_scratch b) [''sim.json'']) (dumps_default sim_model))) (\<lambda>_.
                  step_then (start_process os (twin_line program port (bs_scratch b)) (bo_environ os)) (\<lambda>p.
                  step_then (await_key os (below (bs_scratch b) [''twin.log'']) 100) (\<lambda>_.
                  step_return (Ok (Some p))))))))"

record started =
  st_running :: running
  st_process :: "int option"
  st_simulated :: bool

text \<open>The process of one service and the path at which it says that it is up; the dispatcher has none.\<close>

definition start_one :: "'w bench_os \<Rightarrow> bench_setup \<Rightarrow> string \<Rightarrow> int \<Rightarrow> ('w, int option) stage_step" where
  "start_one os b name port =
     (if name = ''planner'' then python_service os (bs_workspace b) ''HYDRA-UMC-SEMANTIC-PLANNER'' ''hydra_umc_semantic_planner.main'' port
      else if name = ''safety'' then python_service os (bs_workspace b) ''HYDRA-UMC-SAFETY-ZONES'' ''hydra_umc_safety_zones.main'' port
      else if name = ''twin'' then start_twin os b port
      else step_return (Ok None))"

definition start_real :: "'w bench_os \<Rightarrow> bench_setup \<Rightarrow> string \<Rightarrow> ('w, started option) stage_step" where
  "start_real os b name =
     step_then (world_do (bo_port os)) (\<lambda>port. let url = local_url port in
     step_then (start_one os b name port) (\<lambda>process. case process of
         None \<Rightarrow> step_return (Ok None)
       | Some p \<Rightarrow>
           step_then (wait_up os url ''/stats'' (Some p)) (\<lambda>up.
             if \<not> up then step_then (signal_process os p False) (\<lambda>_. step_return (Ok None))
             else step_then (if name = ''twin''
                 then stage_call os url ''POST'' ''/sim/step'' (Some (JObj [(''seconds'', JFloat (Finite (to_double (1 / 100))))])) (Some (bs_token b))
                 else step_return (Ok (200, JNull))) (\<lambda>_.
               step_return (Ok (Some \<lparr>st_running = \<lparr>rn_url = url, rn_source = ''real''\<rparr>, st_process = Some p, st_simulated = False\<rparr>))))))"

definition simulate :: "'w bench_os \<Rightarrow> string \<Rightarrow> ('w, started) stage_step" where
  "simulate os name =
     step_then (world_do (bo_simulate os name)) (\<lambda>url. step_then (note_act (Simulated url)) (\<lambda>_.
       step_return (Ok \<lparr>st_running = \<lparr>rn_url = url, rn_source = ''simulated''\<rparr>, st_process = None, st_simulated = True\<rparr>)))"

definition bring_up :: "'w bench_os \<Rightarrow> bench_setup \<Rightarrow> string \<Rightarrow> ('w, started) stage_step" where
  "bring_up os b name =
     (case map_of (bs_given b) name of
        Some url \<Rightarrow> step_return (Ok \<lparr>st_running = \<lparr>rn_url = url, rn_source = ''given''\<rparr>, st_process = None, st_simulated = False\<rparr>)
      | None \<Rightarrow>
          if bs_real b then step_then (start_real os b name) (\<lambda>r. case r of Some x \<Rightarrow> step_return (Ok x) | None \<Rightarrow> simulate os name)
          else simulate os name)"

definition no_bridge :: started where
  "no_bridge = \<lparr>st_running = \<lparr>rn_url = [], rn_source = ''unavailable''\<rparr>, st_process = None, st_simulated = False\<rparr>"

definition bridge_line :: "string \<Rightarrow> int \<Rightarrow> string \<Rightarrow> string \<Rightarrow> string list" where
  "bridge_line program port twin_url scratch = program # serve_line port @
     [''--twin-url'', twin_url, ''--twin-state-token-file'', below scratch [''twin.token''], ''--twin-public-key-file'', below scratch [''twin.pub''], ''--sim-robot'']"

definition bring_up_bridge :: "'w bench_os \<Rightarrow> bench_setup \<Rightarrow> running \<Rightarrow> ('w, started) stage_step" where
  "bring_up_bridge os b twin =
     (case map_of (bs_given b) ''bridge'' of
        Some url \<Rightarrow> step_return (Ok \<lparr>st_running = \<lparr>rn_url = url, rn_source = ''given''\<rparr>, st_process = None, st_simulated = False\<rparr>)
      | None \<Rightarrow>
          step_then (binary os (bs_workspace b) ''HYDRA-UMC-HIL-BRIDGE'' ''hydra-umc-hil-bridge'' ''HYDRA_UMC_HIL_BRIDGE_BIN'') (\<lambda>found.
          step_then (step_read sg_key) (\<lambda>key.
            case found of
              None \<Rightarrow> step_return (Ok no_bridge)
            | Some program \<Rightarrow>
                if \<not> bs_real b \<or> rn_source twin \<noteq> ''real'' \<or> key = [] then step_return (Ok no_bridge)
                else step_then (world_do (bo_port os)) (\<lambda>port. let url = local_url port in
                  step_then (world_do (bo_write os (below (bs_scratch b) [''twin.pub'']) (key @ [CHR 0x0A]))) (\<lambda>_.
                  step_then (start_process os (bridge_line program port (rn_url twin) (bs_scratch b)) (bo_environ os)) (\<lambda>p.
                  step_then (wait_up os url ''/stats'' (Some p)) (\<lambda>up.
                    if \<not> up then step_then (signal_process os p False) (\<lambda>_. step_return (Ok no_bridge))
                    else step_return (Ok \<lparr>st_running = \<lparr>rn_url = url, rn_source = ''real''\<rparr>, st_process = Some p, st_simulated = False\<rparr>))))))))"

subsection \<open>__enter__, __exit__ and main\<close>

fun bring_up_all :: "'w bench_os \<Rightarrow> bench_setup \<Rightarrow> string list \<Rightarrow> ('w, started dict) stage_step" where
  "bring_up_all os b [] = step_return (Ok [])"
| "bring_up_all os b (name # rest) =
     step_then (bring_up os b name) (\<lambda>x. step_then (bring_up_all os b rest) (\<lambda>xs. step_return (Ok ((name, x) # xs))))"

definition bench_enter :: "'w bench_os \<Rightarrow> bench_setup \<Rightarrow> ('w, started dict) stage_step" where
  "bench_enter os b =
     step_then (bring_up_all os b [''planner'', ''safety'', ''dispatcher'', ''twin'']) (\<lambda>services.
     step_then (step_return (case map_of services ''twin'' of None \<Rightarrow> Err (Raise PyKeyError [Msg ''twin'' []]) | Some x \<Rightarrow> Ok x)) (\<lambda>twin.
     step_then (bring_up_bridge os b (st_running twin)) (\<lambda>bridge. step_return (Ok (services @ [(''bridge'', bridge)])))))"

definition stop_service :: "'w bench_os \<Rightarrow> started \<Rightarrow> ('w, unit) stage_step" where
  "stop_service os x =
     step_then (if st_simulated x then step_then (world_do (\<lambda>w. (bo_stop os (rn_url (st_running x)) w, Ok ()))) (\<lambda>_. note_act (Stopped (rn_url (st_running x))))
        else step_return (Ok ())) (\<lambda>_.
     case st_process x of
       None \<Rightarrow> step_return (Ok ())
     | Some p \<Rightarrow> step_then (signal_process os p False) (\<lambda>_.
         step_then (world_do (\<lambda>w. case bo_wait os p w of (w1, gone) \<Rightarrow> (w1, Ok gone))) (\<lambda>gone.
           if gone then step_return (Ok ()) else signal_process os p True)))"

fun stop_all :: "'w bench_os \<Rightarrow> started list \<Rightarrow> ('w, unit) stage_step" where
  "stop_all os [] = step_return (Ok ())"
| "stop_all os (x # xs) = step_then (stop_service os x) (\<lambda>_. stop_all os xs)"

definition bench_leave :: "'w bench_os \<Rightarrow> bench_setup \<Rightarrow> started dict \<Rightarrow> ('w, unit) stage_step" where
  "bench_leave os b services =
     step_then (stop_all os (map snd services)) (\<lambda>_.
     step_then (world_do (\<lambda>w. (bo_rmtree os (bs_scratch b) w, Ok ()))) (\<lambda>_. note_act (Removed (bs_scratch b))))"

text \<open>The bench of the scenarios on these services; \<open>clock\<close>, \<open>date\<close> and \<open>stamp\<close> are the wall clock and its texts.\<close>

definition bench_on ::
  "'w bench_os \<Rightarrow> bench_setup \<Rightarrow> ('w \<Rightarrow> int) \<Rightarrow> ('w \<Rightarrow> string) \<Rightarrow> ('w \<Rightarrow> string) \<Rightarrow> started dict \<Rightarrow> 'w stage bench" where
  "bench_on os b clock date stamp services =
     \<lparr>bn_services = map (\<lambda>(name, x). (name, st_running x)) services, bn_token = bs_token b, bn_loads = bo_loads os, bn_net = stage_net os,
      bn_clock = (\<lambda>st. clock (sg_world st)), bn_date = (\<lambda>st. date (sg_world st)), bn_stamp = (\<lambda>st. stamp (sg_world st))\<rparr>"

text \<open>\<open>with Bench(...) as bench: results = bench.run()\<close>: what raises while entering leaves without \<open>__exit__\<close>.\<close>

definition bench_session ::
  "'w bench_os \<Rightarrow> bench_setup \<Rightarrow> ('w \<Rightarrow> int) \<Rightarrow> ('w \<Rightarrow> string) \<Rightarrow> ('w \<Rightarrow> string) \<Rightarrow> ('w, bench_result list) stage_step" where
  "bench_session os b clock date stamp =
     step_then (bench_enter os b) (\<lambda>services s.
       (case run_all (scenarios (bench_on os b clock date stamp services)) s of
          (s1, results) \<Rightarrow> step_then (bench_leave os b services) (\<lambda>_. step_return (Ok results)) s1))"

end
