(* ===== verification/Bench_Services_Proofs.thy ===== *)
theory Bench_Services_Proofs
  imports Bench_Services
begin

text \<open>
  What the bench leaves behind: every process and every simulated service of a session that entered is ended when the session is over, whatever the
  services, the host and the scenarios do; and every process it starts listens on this machine only.
\<close>

subsection \<open>Steps that do nothing to processes\<close>

definition keeps_acts :: "('w, 'a) stage_step \<Rightarrow> bool" where
  "keeps_acts m \<longleftrightarrow> (\<forall>s s1 r. m s = (s1, r) \<longrightarrow> sg_acts (snd s1) = sg_acts (snd s))"

named_theorems keeps_rules \<open>steps that keep the acts\<close>

lemma keeps_then [keeps_rules]: "keeps_acts m \<Longrightarrow> (\<And>v. keeps_acts (f v)) \<Longrightarrow> keeps_acts (step_then m f)"
  unfolding keeps_acts_def step_then_def by (fastforce split: prod.splits sum.splits)

lemma keeps_return [keeps_rules]: "keeps_acts (step_return r)"
  by (simp add: keeps_acts_def step_return_def)

lemma keeps_read [keeps_rules]: "keeps_acts (step_read f)" "keeps_acts (world_read g)"
  by (simp_all add: keeps_acts_def step_read_def world_read_def)

lemma keeps_end [keeps_rules]: "keeps_acts (scenario_end name status detail)"
  by (simp add: scenario_end_def keeps_return)

lemma keeps_do [keeps_rules]: "keeps_acts (world_do f)"
  by (auto simp: keeps_acts_def world_do_def split: prod.splits)

lemma keeps_key [keeps_rules]: "keeps_acts (keep_key key)"
  by (auto simp: keeps_acts_def keep_key_def split: prod.splits)

lemma keeps_call [keeps_rules]: "keeps_acts (call loads (stage_net os) url method path body token)"
  by (auto simp: keeps_acts_def call_def stage_net_def Let_def split: prod.splits sum.splits if_splits)

lemma keeps_stage_call [keeps_rules]: "keeps_acts (stage_call os url method path body token)"
  by (simp add: stage_call_def keeps_call)

lemma keeps_if [keeps_rules]: "keeps_acts m \<Longrightarrow> keeps_acts n \<Longrightarrow> keeps_acts (if c then m else n)"
  by (cases c) simp_all

lemma keeps_pair [keeps_rules]: "(\<And>a b. keeps_acts (g a b)) \<Longrightarrow> keeps_acts (case_prod g x)"
  by (cases x) simp

lemma keeps_option [keeps_rules]: "keeps_acts m \<Longrightarrow> (\<And>v. keeps_acts (h v)) \<Longrightarrow> keeps_acts (case_option m h y)"
  by (cases y) simp_all

lemma keeps_sum [keeps_rules]: "(\<And>v. keeps_acts (h1 v)) \<Longrightarrow> (\<And>v. keeps_acts (h2 v)) \<Longrightarrow> keeps_acts (case_sum h1 h2 z)"
  by (cases z) simp_all

lemma keeps_msg [keeps_rules]: "(\<And>t vs. keeps_acts (g t vs)) \<Longrightarrow> keeps_acts (case_msg g x)"
  by (cases x) simp

lemma sleep_acts [simp]: "sg_acts (snd (sleep os seconds s)) = sg_acts (snd s)"
  by (simp add: sleep_def split: prod.splits)

lemma keeps_sleep: "keeps_acts m \<Longrightarrow> keeps_acts (\<lambda>s. m (sleep os seconds s))"
  unfolding keeps_acts_def using sleep_acts by metis

lemma keeps_wait_until: "wait_until os url path process end s = (s1, r) \<Longrightarrow> sg_acts (snd s1) = sg_acts (snd s)"
proof (induction os url path process "end" s arbitrary: s1 r rule: wait_until.induct)
  case (1 os url path process stop s)
  obtain s2 x where called: "stage_call os url ''GET'' path None None s = (s2, x)" by (metis surj_pair)
  have same: "sg_acts (snd s2) = sg_acts (snd s)" using keeps_stage_call called unfolding keeps_acts_def by blast
  let ?over = "\<not> sg_now (snd s) < stop" and ?ended = "case process of None \<Rightarrow> False | Some p \<Rightarrow> bo_ended os p (sg_world (snd s))"
  note run = 1(2) [unfolded wait_until.simps [of os url path process stop s] called]
  show ?case
  proof (cases "?over \<or> ?ended")
    case True
    with run show ?thesis by (auto split: if_splits)
  next
    case False
    show ?thesis
    proof (cases x)
      case (Inl e)
      with run False same show ?thesis by simp
    next
      case (Inr y)
      show ?thesis
      proof (cases "fst y \<in> {200, 401}")
        case True
        with run False same Inr show ?thesis by auto
      next
        case more: False
        with run False Inr have "wait_until os url path process stop (sleep os (1 / 5) s2) = (s1, r)" by simp
        from 1(1) [OF _ _ called [symmetric] Inr more this] False same show ?thesis by simp
      qed
    qed
  qed
qed

lemma keeps_wait_up [keeps_rules]: "keeps_acts (wait_up os url path process)"
  using keeps_wait_until unfolding keeps_acts_def wait_up_def by blast

lemma keeps_await_key [keeps_rules]: "keeps_acts (await_key os file_name n)"
proof (induction n)
  case 0
  show ?case by (simp add: keeps_return)
next
  case (Suc n)
  show ?case unfolding await_key.simps
    by (intro keeps_rules keeps_sleep Suc.IH)
qed

text \<open>The scenarios only ask.\<close>

lemma keeps_ask:
  assumes "bn_net b = stage_net os"
  shows "keeps_acts (ask b name method path body token)"
  unfolding ask_def assms by (intro keeps_rules)

lemma keeps_scenarios:
  assumes "bn_net b = stage_net os"
  shows "\<forall>(name, m) \<in> set (scenarios b). keeps_acts m"
proof -
  note rules = keeps_rules keeps_ask [OF assms]
  have down: "bn_net b = stage_net os \<Longrightarrow> keeps_acts (services_down b paths)" for b :: "'a stage bench" and paths
  proof (induction b paths rule: services_down.induct)
    case (2 b name path rest)
    show ?case unfolding services_down.simps by (intro keeps_rules keeps_ask [OF 2(2)] 2(1) [OF 2(2)])
  qed (simp add: keeps_return)
  have metrics: "keeps_acts (metrics_of b checked names)" for checked names
  proof (induction names arbitrary: checked)
    case (Cons name rest)
    show ?case unfolding metrics_of.simps assms by (intro keeps_rules Cons.IH)
  qed (simp add: keeps_return)
  have check: "keeps_acts (check_step b position)" for position unfolding check_step_def by (intro rules)
  have plan: "keeps_acts (plan_step b)" unfolding plan_step_def by (intro rules)
  have certify: "keeps_acts (certify b joint position)" for joint position
    unfolding certify_def certify_once_def sim_step_def by (intro rules)
  have "keeps_acts (health b)" unfolding health_def by (intro rules down assms)
  moreover have "keeps_acts (chain_to_dispatch b)" unfolding chain_to_dispatch_def queue_job_def Let_def by (intro rules check plan certify)
  moreover have "keeps_acts (breach_stops_the_chain b)" unfolding breach_stops_the_chain_def Let_def by (intro rules check plan)
  moreover have "keeps_acts (unapproved_plan_is_not_executable b)" unfolding unapproved_plan_is_not_executable_def Let_def by (intro rules plan)
  moreover have "keeps_acts (metrics_are_prometheus_text b)" unfolding metrics_are_prometheus_text_def Let_def by (intro rules metrics)
  moreover have "keeps_acts (certified_command b)"
    unfolding certified_command_def follow_robot_def sim_step_def Let_def by (intro rules certify)
  ultimately show ?thesis by (simp add: scenarios_def)
qed

lemma run_all_acts:
  assumes "\<forall>(name, m) \<in> set scs. keeps_acts m" "run_all scs s = (s1, rs)"
  shows "sg_acts (snd s1) = sg_acts (snd s)"
  using assms
proof (induction scs arbitrary: s rs)
  case (Cons sc scs)
  obtain s2 r where one: "run_scenario sc s = (s2, r)" by fastforce
  obtain rs2 where rest: "run_all scs s2 = (s1, rs2)" using Cons.prems(2) one by (auto split: prod.splits)
  have "keeps_acts (snd sc)" using Cons.prems(1) by (cases sc) simp
  then have "sg_acts (snd s2) = sg_acts (snd s)"
    using one unfolding keeps_acts_def run_scenario_def by (fastforce split: prod.splits sum.splits)
  with Cons.IH [OF _ rest] Cons.prems(1) show ?case by simp
qed simp

subsection \<open>What is open\<close>

text \<open>The processes and the simulated services that were started and not ended since.\<close>

primrec open_step :: "act \<Rightarrow> (int + string) set \<Rightarrow> (int + string) set" where
  "open_step (Started p line) l = insert (Inl p) l"
| "open_step (Terminated p) l = l - {Inl p}"
| "open_step (Killed p) l = l - {Inl p}"
| "open_step (Simulated url) l = insert (Inr url) l"
| "open_step (Stopped url) l = l - {Inr url}"
| "open_step (Removed path) l = l"

definition open_after :: "act list \<Rightarrow> (int + string) set" where
  "open_after acts = fold open_step acts {}"

lemma open_after_simps [simp]: "open_after [] = {}" "open_after (acts @ [a]) = open_step a (open_after acts)"
  by (simp_all add: open_after_def)

definition only_open :: "(int + string) set \<Rightarrow> act list \<Rightarrow> bool" where
  "only_open l acts \<longleftrightarrow> open_after acts \<subseteq> l"

lemma only_open_mono: "only_open l acts \<Longrightarrow> l \<subseteq> l1 \<Longrightarrow> only_open l1 acts"
  by (auto simp: only_open_def)

text \<open>From acts with \<open>P\<close>, when the step returns a value, the value and the acts are as \<open>Q\<close> says.\<close>

definition acts_ok :: "(act list \<Rightarrow> bool) \<Rightarrow> ('w, 'a) stage_step \<Rightarrow> ('a \<Rightarrow> act list \<Rightarrow> bool) \<Rightarrow> bool" where
  "acts_ok P m Q \<longleftrightarrow> (\<forall>s s1 v. P (sg_acts (snd s)) \<longrightarrow> m s = (s1, Ok v) \<longrightarrow> Q v (sg_acts (snd s1)))"

lemma acts_ok_then:
  assumes "acts_ok P m Q" "\<And>v. acts_ok (Q v) (f v) R"
  shows "acts_ok P (step_then m f) R"
  unfolding acts_ok_def
proof (intro allI impI)
  fix s s1 v assume start: "P (sg_acts (snd s))" and run: "step_then m f s = (s1, Ok v)"
  then obtain s2 u where "m s = (s2, Ok u)" "f u s2 = (s1, Ok v)" by (auto simp: step_then_def split: prod.splits sum.splits)
  with assms start show "R v (sg_acts (snd s1))" unfolding acts_ok_def by blast
qed

lemma acts_ok_keeps: "keeps_acts m \<Longrightarrow> (\<And>v acts. P acts \<Longrightarrow> Q v acts) \<Longrightarrow> acts_ok P m Q"
  unfolding acts_ok_def keeps_acts_def by metis

lemma acts_ok_return: "(\<And>v acts. r = Ok v \<Longrightarrow> P acts \<Longrightarrow> Q v acts) \<Longrightarrow> acts_ok P (step_return r) Q"
  by (auto simp: acts_ok_def step_return_def)

lemma acts_ok_note: "(\<And>acts. P acts \<Longrightarrow> Q () (acts @ [a])) \<Longrightarrow> acts_ok P (note_act a) Q"
  by (auto simp: acts_ok_def note_act_def split: prod.splits)

lemma acts_ok_do: "acts_ok P (world_do f) (\<lambda>v. P)"
  by (rule acts_ok_keeps [OF keeps_do])

lemma acts_ok_weaken: "acts_ok P m Q \<Longrightarrow> (\<And>v acts. Q v acts \<Longrightarrow> R v acts) \<Longrightarrow> acts_ok P m R"
  unfolding acts_ok_def by blast

lemma acts_ok_start: "acts_ok (only_open l) (start_process os line env) (\<lambda>p. only_open (insert (Inl p) l))"
  unfolding start_process_def
proof (rule acts_ok_then [OF acts_ok_do])
  fix p
  show "acts_ok (only_open l) (step_then (note_act (Started p line)) (\<lambda>_. step_return (Ok p))) (\<lambda>p. only_open (insert (Inl p) l))"
    by (rule acts_ok_then [where Q = "\<lambda>_. only_open (insert (Inl p) l)"])
      (auto intro!: acts_ok_note acts_ok_return simp: only_open_def)
qed

lemma acts_ok_signal: "acts_ok (only_open l) (signal_process os p kill) (\<lambda>_. only_open (l - {Inl p}))"
  unfolding signal_process_def
  by (rule acts_ok_then [OF acts_ok_do], rule acts_ok_note) (auto simp: only_open_def)

text \<open>What is open for one service.\<close>

definition resources :: "started \<Rightarrow> (int + string) set" where
  "resources x = Inl ` set_option (st_process x) \<union> (if st_simulated x then {Inr (rn_url (st_running x))} else {})"

lemma acts_ok_python:
  "acts_ok (only_open l) (python_service os workspace repo module_name port) (\<lambda>r. only_open (l \<union> Inl ` set_option r))"
  unfolding python_service_def Let_def
proof (rule acts_ok_then [where Q = "\<lambda>_. only_open l"])
  fix there
  show "acts_ok (only_open l) (if \<not> there then step_return (Ok None)
     else step_then (start_process os ([bo_python os, ''-m'', module_name] @ serve_line port)
       (dict_set ''PYTHONIOENCODING'' ''utf-8'' (dict_set ''PYTHONPATH'' (below workspace [repo, ''src'']) (bo_environ os)))) (\<lambda>p. step_return (Ok (Some p))))
     (\<lambda>r. only_open (l \<union> Inl ` set_option r))"
    by (cases there) (auto intro!: acts_ok_then [OF acts_ok_start] acts_ok_return elim: only_open_mono)
qed (rule acts_ok_keeps [OF keeps_read(2)])

lemma acts_ok_twin: "acts_ok (only_open l) (start_twin os b port) (\<lambda>r. only_open (l \<union> Inl ` set_option r))"
  unfolding start_twin_def
proof (rule acts_ok_then [where Q = "\<lambda>_. only_open l"])
  show "acts_ok (only_open l) (binary os (bs_workspace b) ''HYDRA-UMC-TWIN'' ''hydra-umc-twin'' ''HYDRA_UMC_TWIN_BIN'') (\<lambda>_. only_open l)"
    unfolding binary_def by (rule acts_ok_keeps [OF keeps_read(2)])
next
  fix found
  have await: "acts_ok (only_open k) (await_key os file_name n) (\<lambda>_. only_open k)" for k file_name n
    by (rule acts_ok_keeps [OF keeps_await_key])
  show "acts_ok (only_open l) (case found of None \<Rightarrow> step_return (Ok None) | Some program \<Rightarrow>
     step_then (world_do (bo_run os [program, ''keygen'', ''--key-file'', below (bs_scratch b) [''twin.key'']])) (\<lambda>code.
       if code \<noteq> 0 then step_return (Ok None)
       else step_then (world_do (bo_write os (below (bs_scratch b) [''twin.token'']) (bs_token b @ [CHR 0x0A]))) (\<lambda>_.
            step_then (world_do (bo_write os (below (bs_scratch b) [''sim.json'']) (dumps_default sim_model))) (\<lambda>_.
            step_then (start_process os (twin_line program port (bs_scratch b)) (bo_environ os)) (\<lambda>p.
            step_then (await_key os (below (bs_scratch b) [''twin.log'']) 100) (\<lambda>_.
            step_return (Ok (Some p)))))))) (\<lambda>r. only_open (l \<union> Inl ` set_option r))"
    by (cases found) (auto intro!: acts_ok_then [OF acts_ok_do] acts_ok_then [OF acts_ok_start] acts_ok_then [OF await] acts_ok_return elim: only_open_mono)
qed

lemma acts_ok_one: "acts_ok (only_open l) (start_one os b name port) (\<lambda>r. only_open (l \<union> Inl ` set_option r))"
  unfolding start_one_def by (auto intro!: acts_ok_python acts_ok_twin acts_ok_return elim: only_open_mono)

lemma acts_ok_simulate: "acts_ok (only_open l) (simulate os name) (\<lambda>x. only_open (l \<union> resources x))"
  unfolding simulate_def
proof (rule acts_ok_then [OF acts_ok_do])
  fix url
  show "acts_ok (only_open l) (step_then (note_act (Simulated url)) (\<lambda>_. step_return
      (Ok \<lparr>st_running = \<lparr>rn_url = url, rn_source = ''simulated''\<rparr>, st_process = None, st_simulated = True\<rparr>))) (\<lambda>x. only_open (l \<union> resources x))"
    by (rule acts_ok_then [where Q = "\<lambda>_. only_open (insert (Inr url) l)"])
      (auto intro!: acts_ok_note acts_ok_return simp: only_open_def resources_def)
qed

text \<open>A service that was started is kept when it is up, and terminated when it is not.\<close>

lemma acts_ok_settled:
  assumes "\<And>v. acts_ok (only_open (insert (Inl p) l)) (f v) Q"
    and "\<And>acts. only_open l acts \<Longrightarrow> Q u acts"
  shows "acts_ok (only_open (insert (Inl p) l)) (step_then (wait_up os url path (Some p)) (\<lambda>up.
      if \<not> up then step_then (signal_process os p False) (\<lambda>_. step_return (Ok u)) else f up)) Q"
proof (rule acts_ok_then [where Q = "\<lambda>_. only_open (insert (Inl p) l)"])
  show "acts_ok (only_open (insert (Inl p) l)) (wait_up os url path (Some p)) (\<lambda>_. only_open (insert (Inl p) l))"
    by (rule acts_ok_keeps [OF keeps_wait_up])
next
  fix up
  have "acts_ok (only_open (insert (Inl p) l)) (step_then (signal_process os p False) (\<lambda>_. step_return (Ok u))) Q"
    by (rule acts_ok_then [OF acts_ok_signal], rule acts_ok_return) (auto intro!: assms(2) elim: only_open_mono)
  with assms(1) show "acts_ok (only_open (insert (Inl p) l)) (if \<not> up then step_then (signal_process os p False) (\<lambda>_. step_return (Ok u)) else f up) Q"
    by simp
qed

lemma acts_ok_real: "acts_ok (only_open l) (start_real os b name) (\<lambda>r. only_open (l \<union> (\<Union>x \<in> set_option r. resources x)))"
  unfolding start_real_def Let_def
proof (rule acts_ok_then [OF acts_ok_do], rule acts_ok_then [OF acts_ok_one])
  fix port process
  let ?Q = "\<lambda>r. only_open (l \<union> (\<Union>x \<in> set_option r. resources x))"
  let ?step = "\<lambda>p. step_then (if name = ''twin''
       then stage_call os (local_url port) ''POST'' ''/sim/step'' (Some (JObj [(''seconds'', JFloat (Finite (to_double (1 / 100))))])) (Some (bs_token b))
       else step_return (Ok (200, JNull)))
     (\<lambda>_. step_return (Ok (Some \<lparr>st_running = \<lparr>rn_url = local_url port, rn_source = ''real''\<rparr>, st_process = Some p, st_simulated = False\<rparr>)))"
  have "acts_ok (only_open (insert (Inl p) l)) (?step p) ?Q" for p
  proof (rule acts_ok_then [where Q = "\<lambda>_. only_open (insert (Inl p) l)"])
    show "acts_ok (only_open (insert (Inl p) l)) (if name = ''twin''
       then stage_call os (local_url port) ''POST'' ''/sim/step'' (Some (JObj [(''seconds'', JFloat (Finite (to_double (1 / 100))))])) (Some (bs_token b))
       else step_return (Ok (200, JNull))) (\<lambda>_. only_open (insert (Inl p) l))"
      by (rule acts_ok_keeps) (intro keeps_rules)
  qed (auto intro!: acts_ok_return simp: resources_def)
  note settled = acts_ok_settled [where Q = ?Q and u = None, OF this]
  show "acts_ok (only_open (l \<union> Inl ` set_option process)) (case process of None \<Rightarrow> step_return (Ok None)
     | Some p \<Rightarrow> step_then (wait_up os (local_url port) ''/stats'' (Some p))
         (\<lambda>up. if \<not> up then step_then (signal_process os p False) (\<lambda>_. step_return (Ok None)) else ?step p)) ?Q"
  proof (cases process)
    case None
    then show ?thesis by (auto intro!: acts_ok_return)
  next
    case (Some p)
    have one: "l \<union> Inl ` set_option (Some p) = insert (Inl p) l" by simp
    show ?thesis unfolding Some option.case one by (rule settled) simp
  qed
qed

lemma acts_ok_bring_up: "acts_ok (only_open l) (bring_up os b name) (\<lambda>x. only_open (l \<union> resources x))"
proof -
  have "acts_ok (only_open l) (step_then (start_real os b name) (\<lambda>r. case r of Some x \<Rightarrow> step_return (Ok x) | None \<Rightarrow> simulate os name))
    (\<lambda>x. only_open (l \<union> resources x))"
  proof (rule acts_ok_then [OF acts_ok_real])
    fix r
    show "acts_ok (only_open (l \<union> (\<Union>x \<in> set_option r. resources x))) (case r of Some x \<Rightarrow> step_return (Ok x) | None \<Rightarrow> simulate os name)
      (\<lambda>x. only_open (l \<union> resources x))"
      by (cases r) (auto intro!: acts_ok_return acts_ok_simulate)
  qed
  then show ?thesis
    by (auto simp: bring_up_def resources_def intro!: acts_ok_return acts_ok_simulate [unfolded resources_def] elim: only_open_mono split: option.splits)
qed

lemma acts_ok_bridge: "acts_ok (only_open l) (bring_up_bridge os b twin) (\<lambda>x. only_open (l \<union> resources x))"
proof (cases "map_of (bs_given b) ''bridge''")
  case (Some url)
  then show ?thesis by (auto simp: bring_up_bridge_def resources_def intro!: acts_ok_return elim: only_open_mono)
next
  case None
  let ?Q = "\<lambda>x. only_open (l \<union> resources x)"
  have none: "acts_ok (only_open l) (step_return (Ok no_bridge)) ?Q"
    by (rule acts_ok_return) (auto simp: no_bridge_def resources_def elim: only_open_mono)
  have up: "acts_ok (only_open (insert (Inl p) l)) (step_return
      (Ok \<lparr>st_running = \<lparr>rn_url = url, rn_source = ''real''\<rparr>, st_process = Some p, st_simulated = False\<rparr>)) ?Q" for p url
    by (rule acts_ok_return) (auto simp: resources_def)
  have settled: "acts_ok (only_open (insert (Inl p) l)) (step_then (wait_up os url ''/stats'' (Some p)) (\<lambda>up.
     if \<not> up then step_then (signal_process os p False) (\<lambda>_. step_return (Ok no_bridge))
     else step_return (Ok \<lparr>st_running = \<lparr>rn_url = url, rn_source = ''real''\<rparr>, st_process = Some p, st_simulated = False\<rparr>))) ?Q" for p url
    by (rule acts_ok_settled [OF up]) (auto simp: no_bridge_def resources_def elim: only_open_mono)
  have find: "acts_ok (only_open l) (binary os workspace repo executable env_name) (\<lambda>_. only_open l)" for workspace repo executable env_name
    unfolding binary_def by (rule acts_ok_keeps [OF keeps_read(2)])
  have key: "acts_ok (only_open l) (step_read sg_key) (\<lambda>_. only_open l)" by (rule acts_ok_keeps [OF keeps_read(1)])
  have "acts_ok (only_open l) (case found of None \<Rightarrow> step_return (Ok no_bridge) | Some program \<Rightarrow>
      if \<not> bs_real b \<or> rn_source twin \<noteq> ''real'' \<or> key = [] then step_return (Ok no_bridge)
      else step_then (world_do (bo_port os)) (\<lambda>port.
        step_then (world_do (bo_write os (below (bs_scratch b) [''twin.pub'']) (key @ [CHR 0x0A]))) (\<lambda>_.
        step_then (start_process os (bridge_line program port (rn_url twin) (bs_scratch b)) (bo_environ os)) (\<lambda>p.
        step_then (wait_up os (local_url port) ''/stats'' (Some p)) (\<lambda>up.
          if \<not> up then step_then (signal_process os p False) (\<lambda>_. step_return (Ok no_bridge))
          else step_return (Ok \<lparr>st_running = \<lparr>rn_url = local_url port, rn_source = ''real''\<rparr>, st_process = Some p, st_simulated = False\<rparr>)))))) ?Q" for found key
    by (cases found) (auto intro!: none acts_ok_then [OF acts_ok_do] acts_ok_then [OF acts_ok_start] settled)
  then show ?thesis
    unfolding bring_up_bridge_def None Let_def option.case by (intro acts_ok_then [OF find] acts_ok_then [OF key])
qed

subsection \<open>A session\<close>

definition all_resources :: "started dict \<Rightarrow> (int + string) set" where
  "all_resources services = (\<Union>x \<in> set (map snd services). resources x)"

lemma acts_ok_all: "acts_ok (only_open l) (bring_up_all os b names) (\<lambda>xs. only_open (l \<union> all_resources xs))"
proof (induction names arbitrary: l)
  case Nil
  show ?case by (auto intro!: acts_ok_return simp: all_resources_def)
next
  case (Cons name rest)
  show ?case unfolding bring_up_all.simps
    by (rule acts_ok_then [OF acts_ok_bring_up], rule acts_ok_then [OF Cons.IH], rule acts_ok_return)
      (auto simp: all_resources_def Un_assoc elim: only_open_mono)
qed

lemma acts_ok_enter: "acts_ok (only_open l) (bench_enter os b) (\<lambda>xs. only_open (l \<union> all_resources xs))"
  unfolding bench_enter_def
proof (rule acts_ok_then [OF acts_ok_all])
  fix services
  show "acts_ok (only_open (l \<union> all_resources services))
     (step_then (step_return (case map_of services ''twin'' of None \<Rightarrow> Err (Raise PyKeyError [Msg ''twin'' []]) | Some x \<Rightarrow> Ok x)) (\<lambda>twin.
      step_then (bring_up_bridge os b (st_running twin)) (\<lambda>bridge. step_return (Ok (services @ [(''bridge'', bridge)])))))
     (\<lambda>xs. only_open (l \<union> all_resources xs))"
    by (rule acts_ok_then [where Q = "\<lambda>_. only_open (l \<union> all_resources services)"], rule acts_ok_return, assumption,
        rule acts_ok_then [OF acts_ok_bridge], rule acts_ok_return) (auto simp: all_resources_def Un_assoc elim: only_open_mono)
qed

lemma acts_ok_stop: "acts_ok (only_open l) (stop_service os x) (\<lambda>_. only_open (l - resources x))"
proof -
  let ?l = "if st_simulated x then l - {Inr (rn_url (st_running x))} else l"
  have "acts_ok (only_open l) (if st_simulated x then step_then (world_do (\<lambda>w. (bo_stop os (rn_url (st_running x)) w, Ok ())))
      (\<lambda>_. note_act (Stopped (rn_url (st_running x)))) else step_return (Ok ())) (\<lambda>_. only_open ?l)"
    by (auto intro!: acts_ok_then [OF acts_ok_do] acts_ok_note acts_ok_return simp: only_open_def)
  moreover have "acts_ok (only_open ?l) (case st_process x of None \<Rightarrow> step_return (Ok ()) | Some p \<Rightarrow>
      step_then (signal_process os p False) (\<lambda>_. step_then (world_do (\<lambda>w. case bo_wait os p w of (w1, gone) \<Rightarrow> (w1, Ok gone)))
        (\<lambda>gone. if gone then step_return (Ok ()) else signal_process os p True))) (\<lambda>_. only_open (l - resources x))"
  proof (cases "st_process x")
    case None
    then show ?thesis by (auto intro!: acts_ok_return simp: resources_def)
  next
    case (Some p)
    have less: "?l - {Inl p} = l - resources x" "?l - {Inl p} - {Inl p} = l - resources x" using Some by (auto simp: resources_def)
    show ?thesis unfolding Some option.case
      by (rule acts_ok_then [OF acts_ok_signal], rule acts_ok_then [OF acts_ok_do])
        (auto simp: less intro!: acts_ok_return acts_ok_weaken [OF acts_ok_signal] elim: only_open_mono)
  qed
  ultimately show ?thesis unfolding stop_service_def by (rule acts_ok_then)
qed

lemma acts_ok_stop_all: "acts_ok (only_open l) (stop_all os xs) (\<lambda>_. only_open (l - (\<Union>x \<in> set xs. resources x)))"
proof (induction xs arbitrary: l)
  case Nil
  show ?case by (auto intro!: acts_ok_return)
next
  case (Cons x xs)
  have "l - resources x - (\<Union>x \<in> set xs. resources x) = l - (\<Union>x \<in> set (x # xs). resources x)" by auto
  then show ?case using acts_ok_then [OF acts_ok_stop Cons.IH] by (metis stop_all.simps(2))
qed


text \<open>A host with nothing next to the checkout; the world counts the simulated services.\<close>

definition sample_os :: "nat bench_os" where
  "sample_os = \<lparr>bo_python = ''/usr/bin/python3'', bo_environ = [], bo_loads = (\<lambda>s. None),
     bo_net = (\<lambda>q w. (w, Ok \<lparr>wr_status = 200, wr_type = [], wr_content = Plain ''ok''\<rparr>)),
     bo_overslept = (\<lambda>_ _. 0), bo_spent = (\<lambda>_. 0), bo_after_sleep = (\<lambda>_ w. w), bo_ended = (\<lambda>_ _. False),
     bo_port = (\<lambda>w. (w, Ok 40000)), bo_is_dir = (\<lambda>_ _. False), bo_is_file = (\<lambda>_ _. False),
     bo_start = (\<lambda>line env w. (w, Err (Raise PyOSError []))), bo_run = (\<lambda>_ w. (w, Ok 0)), bo_write = (\<lambda>_ _ w. (w, Ok ())), bo_log = (\<lambda>_ _. Ok []),
     bo_wait = (\<lambda>_ w. (w, True)), bo_signal = (\<lambda>_ _ w. w), bo_simulate = (\<lambda>name w. (Suc w, Ok (local_url (int w + 50000)))),
     bo_stop = (\<lambda>_ w. w), bo_rmtree = (\<lambda>_ w. w)\<rparr>"

definition sample_setup :: bench_setup where
  "sample_setup = \<lparr>bs_real = True, bs_given = [], bs_workspace = ''/w'', bs_token = ''t'', bs_scratch = ''/tmp/hydra-bench-1''\<rparr>"

definition sample_stage :: "exchange list \<times> nat stage" where
  "sample_stage = ([], \<lparr>sg_acts = [], sg_now = 0, sg_key = [], sg_world = 0\<rparr>)"

definition sample_session :: "(exchange list \<times> nat stage) \<times> bench_result list result" where
  "sample_session = bench_session sample_os sample_setup (\<lambda>_. 0) (\<lambda>_. []) (\<lambda>_. []) sample_stage"

lemma sample_bring_up:
  "bring_up sample_os sample_setup name (t, st) = ((t, st\<lparr>sg_acts := sg_acts st @ [Simulated (local_url (int (sg_world st) + 50000))], sg_world := Suc (sg_world st)\<rparr>),
     Ok \<lparr>st_running = \<lparr>rn_url = local_url (int (sg_world st) + 50000), rn_source = ''simulated''\<rparr>, st_process = None, st_simulated = True\<rparr>)"
  by (simp add: bring_up_def sample_setup_def start_real_def start_one_def python_service_def start_twin_def binary_def simulate_def sample_os_def
      binary_candidates_def step_then_def world_do_def world_read_def step_read_def step_return_def note_act_def Let_def)

lemma sample_bridge: "bring_up_bridge sample_os sample_setup twin (t, st) = ((t, st), Ok no_bridge)"
  by (simp add: bring_up_bridge_def sample_setup_def binary_def sample_os_def binary_candidates_def step_then_def world_read_def step_read_def step_return_def)

lemma sample_entered:
  obtains t st services where "bench_enter sample_os sample_setup sample_stage = ((t, st), Ok services)"
    "Simulated (local_url 50000) \<in> set (sg_acts st)" "\<forall>x \<in> set (map snd services). st_process x = None"
  by (auto simp: bench_enter_def step_then_def sample_bring_up sample_bridge sample_stage_def step_return_def no_bridge_def)

lemma sample_stopped:
  assumes "\<forall>x \<in> set xs. st_process x = None"
  shows "\<exists>st1. stop_all sample_os xs (t, st) = ((t, st1), Ok ()) \<and> set (sg_acts st) \<subseteq> set (sg_acts st1)"
  using assms
proof (induction xs arbitrary: st)
  case Nil
  show ?case by (simp add: step_return_def)
next
  case (Cons x xs)
  obtain st1 where one: "stop_service sample_os x (t, st) = ((t, st1), Ok ())" "set (sg_acts st) \<subseteq> set (sg_acts st1)"
    using Cons.prems by (cases "st_simulated x") (auto simp: stop_service_def step_then_def world_do_def note_act_def step_return_def)
  obtain st2 where "stop_all sample_os xs (t, st1) = ((t, st2), Ok ())" "set (sg_acts st1) \<subseteq> set (sg_acts st2)"
    using Cons.IH Cons.prems by fastforce
  with one show ?case by (auto simp: step_then_def)
qed

lemma sample_returns: "\<exists>results. snd sample_session = Ok results" "Simulated (local_url 50000) \<in> set (sg_acts (snd (fst sample_session)))"
proof -
  obtain t st services where enter: "bench_enter sample_os sample_setup sample_stage = ((t, st), Ok services)"
    "Simulated (local_url 50000) \<in> set (sg_acts st)" "\<forall>x \<in> set (map snd services). st_process x = None"
    by (rule sample_entered)
  obtain t1 st1 results where run: "run_all (scenarios (bench_on sample_os sample_setup (\<lambda>_. 0) (\<lambda>_. []) (\<lambda>_. []) services)) (t, st) = ((t1, st1), results)"
    by (metis surj_pair)
  have "bn_net (bench_on sample_os sample_setup (\<lambda>_. 0) (\<lambda>_. []) (\<lambda>_. []) services) = stage_net sample_os" by (simp add: bench_on_def)
  from run_all_acts [OF keeps_scenarios [OF this] run] have "sg_acts st1 = sg_acts st" by simp
  moreover obtain st2 where "stop_all sample_os (map snd services) (t1, st1) = ((t1, st2), Ok ())" "set (sg_acts st1) \<subseteq> set (sg_acts st2)"
    using sample_stopped [OF enter(3)] by blast
  ultimately have "snd sample_session = Ok results \<and> Simulated (local_url 50000) \<in> set (sg_acts (snd (fst sample_session)))"
    using enter(1,2) run by (auto simp: sample_session_def bench_session_def bench_leave_def step_then_def world_do_def note_act_def step_return_def)
  then show "\<exists>results. snd sample_session = Ok results" "Simulated (local_url 50000) \<in> set (sg_acts (snd (fst sample_session)))" by blast+
qed


text \<open>
  An exception while the services are brought up leaves the session there, without \<open>__exit__\<close>: what was started before stays open, and the scratch
  directory stays.
\<close>

lemma failed_start_leaves_the_others:
  assumes "bring_up os b ''planner'' s = (s2, Ok x)" "bring_up os b ''safety'' s2 = (s1, Err e)"
  shows "bench_session os b clock date stamp s = (s1, Err e)"
  using assms by (simp add: bench_session_def bench_enter_def step_then_def)

subsection \<open>Where the services listen\<close>

text \<open>A line a service is started with asks it to listen on the loopback address, and lines are only started when real services are asked for.\<close>

definition listens_here :: "bool \<Rightarrow> act list \<Rightarrow> bool" where
  "listens_here wanted acts \<longleftrightarrow> (\<forall>p line. Started p line \<in> set acts \<longrightarrow> wanted \<and> (\<exists>program port rest. line = program @ serve_line port @ rest))"

definition always :: "(act list \<Rightarrow> bool) \<Rightarrow> ('w, 'a) stage_step \<Rightarrow> bool" where
  "always P m \<longleftrightarrow> (\<forall>s s1 r. m s = (s1, r) \<longrightarrow> P (sg_acts (snd s)) \<longrightarrow> P (sg_acts (snd s1)))"

named_theorems always_rules \<open>steps that keep a fact about the acts, whether they raise or not\<close>

lemma always_then [always_rules]: "always P m \<Longrightarrow> (\<And>v. always P (f v)) \<Longrightarrow> always P (step_then m f)"
  unfolding always_def step_then_def by (fastforce split: prod.splits sum.splits)

lemma always_keeps: "keeps_acts m \<Longrightarrow> always P m"
  unfolding always_def keeps_acts_def by metis

lemma always_note: "(\<And>acts. P acts \<Longrightarrow> P (acts @ [a])) \<Longrightarrow> always P (note_act a)"
  by (auto simp: always_def note_act_def split: prod.splits)

lemma always_if [always_rules]: "(c \<Longrightarrow> always P m) \<Longrightarrow> (\<not> c \<Longrightarrow> always P n) \<Longrightarrow> always P (if c then m else n)"
  by simp

lemma always_option [always_rules]: "(y = None \<Longrightarrow> always P m) \<Longrightarrow> (\<And>v. y = Some v \<Longrightarrow> always P (h v)) \<Longrightarrow> always P (case_option m h y)"
  by (cases y) simp_all

lemmas always_kept [always_rules] = keeps_return [THEN always_keeps] keeps_read [THEN always_keeps] keeps_do [THEN always_keeps] keeps_wait_up [THEN always_keeps]
  keeps_await_key [THEN always_keeps] keeps_stage_call [THEN always_keeps]

lemma always_signal [always_rules]: "always (listens_here wanted) (signal_process os p kill)"
  unfolding signal_process_def by (intro always_rules always_note) (auto simp: listens_here_def)

lemma always_start:
  assumes "wanted" "\<exists>program port rest. line = program @ serve_line port @ rest"
  shows "always (listens_here wanted) (start_process os line env)"
  unfolding start_process_def by (intro always_rules always_note) (use assms in \<open>auto simp: listens_here_def\<close>)

lemma lines_listen:
  "\<exists>program port rest. [python, ''-m'', name_of] @ serve_line n = program @ serve_line port @ rest"
  "\<exists>program port rest. twin_line path n scratch = program @ serve_line port @ rest"
  "\<exists>program port rest. bridge_line path n url scratch = program @ serve_line port @ rest"
  unfolding twin_line_def bridge_line_def by (metis append_Nil2, (metis append_Cons append_Nil)+)

lemma always_one:
  assumes wanted
  shows "always (listens_here wanted) (start_one os b name port)"
proof -
  have python: "always (listens_here wanted) (python_service os workspace repo name_of port)" for workspace repo name_of
    unfolding python_service_def Let_def by (intro always_rules always_start assms lines_listen)
  have "always (listens_here wanted) (start_twin os b port)"
    unfolding start_twin_def binary_def by (intro always_rules always_start assms lines_listen)
  with python show ?thesis unfolding start_one_def by (intro always_rules)
qed

lemma always_simulate [always_rules]: "always (listens_here wanted) (simulate os name)"
  unfolding simulate_def by (intro always_rules always_note) (auto simp: listens_here_def)

lemma always_bring_up: "always (listens_here (bs_real b)) (bring_up os b name)"
  unfolding bring_up_def start_real_def Let_def by (intro always_rules always_one)

lemma always_bridge: "always (listens_here (bs_real b)) (bring_up_bridge os b twin)"
  unfolding bring_up_bridge_def binary_def Let_def
  by (intro always_rules always_start lines_listen) simp

lemma always_stop: "always (listens_here wanted) (stop_all os xs)"
proof (induction xs)
  case (Cons x xs)
  show ?case unfolding stop_all.simps stop_service_def by (intro always_rules Cons.IH always_note) (auto simp: listens_here_def)
qed (simp add: always_rules)

text \<open>
Every process the bench starts, in a session that ends well or not, is asked to listen on the loopback address, and none is started at all unless real
services were asked for.
\<close>

lemma services_listen_on_this_machine:
  assumes "bench_session os b clock date stamp s = (s1, r)" "listens_here (bs_real b) (sg_acts (snd s))"
  shows "listens_here (bs_real b) (sg_acts (snd s1))"
proof -
  let ?P = "listens_here (bs_real b)"
  have all: "always ?P (bring_up_all os b names)" for names
    by (induction names) (simp_all only: bring_up_all.simps, (intro always_rules always_bring_up; assumption?)+)
  then have enter: "always ?P (bench_enter os b)" unfolding bench_enter_def by (intro always_rules always_bridge)
  have leave: "always ?P (bench_leave os b services)" for services
    unfolding bench_leave_def by (intro always_rules always_stop always_note) (auto simp: listens_here_def)
  have run: "always ?P (\<lambda>s. (case run_all (scenarios (bench_on os b clock date stamp services)) s of
      (s1, results) \<Rightarrow> step_then (bench_leave os b services) (\<lambda>_. step_return (Ok results)) s1))" for services
  proof -
    have "bn_net (bench_on os b clock date stamp services) = stage_net os" by (simp add: bench_on_def)
    note kept = run_all_acts [OF keeps_scenarios [OF this]]
    have "always ?P (step_then (bench_leave os b services) (\<lambda>_. step_return (Ok results)))" for results :: "bench_result list"
      by (intro always_rules leave)
    with kept show ?thesis unfolding always_def by (metis (no_types, lifting) case_prod_conv surj_pair)
  qed
  have "always ?P (bench_session os b clock date stamp)" unfolding bench_session_def by (intro always_rules enter run)
  with assms show ?thesis unfolding always_def by blast
qed


lemma services_listen_on_this_machine_witness:
  "listens_here True (sg_acts (snd (fst sample_session))) \<and> sg_acts (snd (fst sample_session)) \<noteq> []"
proof -
  have "bench_session sample_os sample_setup (\<lambda>_. 0) (\<lambda>_. []) (\<lambda>_. []) sample_stage = (fst sample_session, snd sample_session)"
    by (simp add: sample_session_def)
  from services_listen_on_this_machine [OF this] have "listens_here True (sg_acts (snd (fst sample_session)))"
    by (simp add: sample_setup_def sample_stage_def listens_here_def)
  with sample_returns(2) show ?thesis by auto
qed

end
