(* ===== verification/Versions.thy ===== *)
theory Versions
  imports Taskflow
begin

text \<open>
  The version scripts at the root of the repository: \<open>bump_version.py\<close> (the next version, written into the two files that name it) and the
  arithmetic of \<open>bump_manifest_version.py\<close> (the next version of the shared rule, and how a native file expresses it).
\<close>

subsection \<open>bump_version.py\<close>

type_synonym triple = "nat \<times> nat \<times> nat"

definition bump :: "triple \<Rightarrow> triple" where
  "bump v = (case v of (major, minor, patch) \<Rightarrow>
     (let (minor1, patch1) = (if patch + 1 > 9 then (minor + 1, 0) else (minor, patch + 1));
          (major2, minor2) = (if minor1 > 9 then (major + 1, 0) else (major, minor1))
      in (major2, minor2, patch1)))"

definition triple_text :: "triple \<Rightarrow> string" where
  "triple_text v = (case v of (major, minor, patch) \<Rightarrow> nat_str major @ ''.'' @ nat_str minor @ ''.'' @ nat_str patch)"

text \<open>\<open>(\d+)\<close>: the number and what follows it.\<close>

definition read_digits :: "string \<Rightarrow> (nat \<times> string) option" where
  "read_digits s = (let ds = takeWhile is_digit s in
     if ds = [] then None else Some (foldl (\<lambda>n c. 10 * n + (of_char c - 48)) 0 ds, dropWhile is_digit s))"

definition read_char :: "char \<Rightarrow> string \<Rightarrow> string option" where
  "read_char c s = (case s of [] \<Rightarrow> None | d # ds \<Rightarrow> if d = c then Some ds else None)"

definition skip_spaces :: "string \<Rightarrow> string" where
  "skip_spaces s = dropWhile is_space s"

definition quote_mark :: char where
  "quote_mark = CHR 0x22"

text \<open>
  \<open>\s*$\<close> with \<open>MULTILINE\<close>: as much white space as may be left out and still end at a line end or at the end of the text; what is left.
\<close>

definition line_rest :: "string \<Rightarrow> string option" where
  "line_rest s = (let run = takeWhile is_space s; after = dropWhile is_space s in
     if after = [] then Some []
     else if CHR 0x0A \<in> set run then Some (CHR 0x0A # rev (takeWhile (\<lambda>c. c \<noteq> CHR 0x0A) (rev run)) @ after)
     else None)"

text \<open>\<open>key\s*=\s*"(\d+)\.(\d+)\.(\d+)"\s*$\<close> at the start of a text.\<close>

definition read_assignment :: "string \<Rightarrow> string \<Rightarrow> (triple \<times> string) option" where
  "read_assignment key s =
     (if \<not> startswith s key then None
      else Option.bind (read_char (CHR ''='') (skip_spaces (drop (length key) s))) (\<lambda>s.
           Option.bind (read_char quote_mark (skip_spaces s)) (\<lambda>s.
           Option.bind (read_digits s) (\<lambda>(major, s). Option.bind (read_char (CHR ''.'') s) (\<lambda>s.
           Option.bind (read_digits s) (\<lambda>(minor, s). Option.bind (read_char (CHR ''.'') s) (\<lambda>s.
           Option.bind (read_digits s) (\<lambda>(patch, s). Option.bind (read_char quote_mark s) (\<lambda>s.
           Option.bind (line_rest s) (\<lambda>rest. Some ((major, minor, patch), rest)))))))))))"

text \<open>The first line at which it matches: the text before, the version and the text after.\<close>

fun find_assignment :: "string \<Rightarrow> bool \<Rightarrow> string \<Rightarrow> (string \<times> triple \<times> string) option" where
  "find_assignment key at_start [] = None"
| "find_assignment key at_start (c # cs) =
     (case (if at_start then read_assignment key (c # cs) else None) of
        Some (v, rest) \<Rightarrow> Some ([], v, rest)
      | None \<Rightarrow> map_option (\<lambda>(before, v, rest). (c # before, v, rest)) (find_assignment key (c = CHR 0x0A) cs))"

definition assignment_text :: "string \<Rightarrow> triple \<Rightarrow> string" where
  "assignment_text key v = key @ '' = '' @ [quote_mark] @ triple_text v @ [quote_mark]"

definition write_assignment :: "string \<Rightarrow> triple \<Rightarrow> string \<Rightarrow> string" where
  "write_assignment key v content = (case find_assignment key True content of
     None \<Rightarrow> content
   | Some (before, old, rest) \<Rightarrow> before @ assignment_text key v @ rest)"

record version_files =
  vf_pyproject :: "string option"
  vf_init :: "string option"

definition project_key :: string where
  "project_key = ''version''"

definition init_key :: string where
  "init_key = ''__version__''"

text \<open>\<open>main\<close>: the files afterwards and the exit code.\<close>

definition bump_main :: "version_files \<Rightarrow> version_files \<times> int" where
  "bump_main f = (case vf_pyproject f of
     None \<Rightarrow> (f, 1)
   | Some content \<Rightarrow> (case find_assignment project_key True content of
       None \<Rightarrow> (f, 1)
     | Some (before, old, rest) \<Rightarrow>
         (f\<lparr>vf_pyproject := Some (write_assignment project_key (bump old) content),
            vf_init := map_option (write_assignment init_key (bump old)) (vf_init f)\<rparr>, 0)))"

subsection \<open>bump_manifest_version.py\<close>

definition four_part_from :: "int \<times> int \<times> int" where
  "four_part_from = (0, 8, 0)"

definition triple_le :: "int \<times> int \<times> int \<Rightarrow> int \<times> int \<times> int \<Rightarrow> bool" where
  "triple_le v w = (case (v, w) of ((a, b, c), (d, e, f)) \<Rightarrow> a < d \<or> (a = d \<and> (b < e \<or> (b = e \<and> c \<le> f))))"

text \<open>A part that has reached ten becomes zero and raises the part to its left.\<close>

definition carry :: "int \<Rightarrow> int \<Rightarrow> int \<times> int" where
  "carry left part = (if part = 10 then (left + 1, 0) else (left, part))"

definition next_parts :: "int list \<Rightarrow> int list result" where
  "next_parts parts = (case parts of
     [major, minor, patch, build] \<Rightarrow>
       (let (patch1, build1) = carry patch (build + 1); (minor1, patch2) = carry minor patch1; (major1, minor2) = carry major minor1
        in Ok [major1, minor2, patch2, build1])
   | [major, minor, patch] \<Rightarrow>
       (let (minor1, patch1) = carry minor (patch + 1); (major1, minor2) = carry major minor1
        in Ok (if triple_le four_part_from (major1, minor2, patch1) then [major1, minor2, patch1, 0] else [major1, minor2, patch1]))
   | _ \<Rightarrow> Err (Raise PyValueError []))"

definition read_part :: "string \<Rightarrow> int result" where
  "read_part s = (case py_int s of None \<Rightarrow> Err (Raise PyValueError []) | Some n \<Rightarrow> Ok n)"

definition next_version :: "string \<Rightarrow> string result" where
  "next_version version =
     and_then (map_result read_part (split_on (CHR ''.'') version)) (\<lambda>parts.
     and_then (next_parts parts) (\<lambda>new. Ok (join_with ''.'' (map int_str new))))"

text \<open>How a native file expresses a version.\<close>

definition native_style :: "string \<Rightarrow> string" where
  "native_style name =
     (case map_of [(''Cargo.toml'', ''cargo''), (''pubspec.yaml'', ''pubspec''), (''package.json'', ''npm'')] name of None \<Rightarrow> ''plain'' | Some s \<Rightarrow> s)"

definition to_native :: "string \<Rightarrow> string \<Rightarrow> string result" where
  "to_native version style = (let parts = split_on (CHR ''.'') version in
     if length parts < 4 \<or> style = ''plain'' then Ok version
     else if style = ''cargo'' then Ok (join_with ''.'' (take 3 parts) @ ''+'' @ parts ! 3)
     else if style = ''pubspec'' \<or> style = ''npm'' then Ok (join_with ''.'' (take 3 parts))
     else Err (Raise PyValueError [Msg ''unknown native version style: {}'' [JStr style]]))"

definition same_version :: "string \<Rightarrow> string \<Rightarrow> string \<Rightarrow> bool result" where
  "same_version native declared style =
     (if style = ''npm'' then
        (if native = declared then Ok True else and_then (to_native declared style) (\<lambda>d. Ok (native = d)))
      else if style = ''pubspec'' then
        and_then (to_native declared style) (\<lambda>d. and_then (to_native native style) (\<lambda>n. Ok (d = n)))
      else Ok (native = declared))"

text \<open>\<open>sync_package_lock\<close>: the lock document with the version in its two places, when that changes it.\<close>

definition lock_root :: "json dict \<Rightarrow> json dict option" where
  "lock_root lock = (case get_or_none lock ''packages'' of
     JObj packages \<Rightarrow> (case get_or_none packages [] of JObj r \<Rightarrow> Some r | _ \<Rightarrow> None)
   | _ \<Rightarrow> None)"

definition set_lock_root :: "json \<Rightarrow> json dict \<Rightarrow> json dict" where
  "set_lock_root version lock = (case (get_or_none lock ''packages'', lock_root lock) of
     (JObj packages, Some r) \<Rightarrow> dict_set ''packages'' (JObj (dict_set [] (JObj (dict_set ''version'' version r)) packages)) lock
   | _ \<Rightarrow> lock)"

definition sync_lock_document :: "string \<Rightarrow> json dict \<Rightarrow> json dict option" where
  "sync_lock_document version lock =
     (let stale = (get_or_none lock ''version'' \<noteq> JStr version);
          stale_root = (case lock_root lock of None \<Rightarrow> False | Some r \<Rightarrow> get_or_none r ''version'' \<noteq> JStr version);
          lock1 = (if stale then dict_set ''version'' (JStr version) lock else lock)
      in if \<not> stale \<and> \<not> stale_root then None else Some (if stale_root then set_lock_root (JStr version) lock1 else lock1))"

end
