(* ===== verification/Versions_Proofs.thy ===== *)
theory Versions_Proofs
  imports Versions Number_Text
begin

text \<open>
  The versions that are written read back as the next version, and the shared rule counts up by one.
\<close>

subsection \<open>The search does not look past a line\<close>

text \<open>A text that starts with none of the characters the expression asks for after white space.\<close>

definition plain_start :: "string \<Rightarrow> bool" where
  "plain_start z \<longleftrightarrow> z \<noteq> [] \<and> \<not> is_space (hd z) \<and> \<not> is_digit (hd z) \<and> hd z \<notin> {CHR ''='', CHR ''.'', quote_mark}"

lemma skip_spaces_append: "plain_start z \<Longrightarrow> skip_spaces (u @ z) = skip_spaces u @ z"
  by (cases z) (auto simp: skip_spaces_def plain_start_def dropWhile_append)

lemma read_char_append:
  "plain_start z \<Longrightarrow> c \<in> {CHR ''='', CHR ''.'', quote_mark} \<Longrightarrow> read_char c (u @ z) = map_option (\<lambda>s. s @ z) (read_char c u)"
  by (cases z; cases u) (auto simp: read_char_def plain_start_def)

lemma read_digits_append:
  assumes "plain_start z"
  shows "read_digits (u @ z) = map_option (\<lambda>(n, s). (n, s @ z)) (read_digits u)"
proof -
  obtain c cs where z: "z = c # cs" "\<not> is_digit c" using assms by (cases z) (auto simp: plain_start_def)
  have "takeWhile is_digit (u @ z) = takeWhile is_digit u" "dropWhile is_digit (u @ z) = dropWhile is_digit u @ z"
    using z by (induction u) auto
  then show ?thesis by (simp add: read_digits_def Let_def)
qed

lemma line_rest_append:
  assumes "plain_start z"
  shows "line_rest (u @ z) = None \<longleftrightarrow> CHR 0x0A \<notin> set (takeWhile is_space u)"
proof -
  obtain c cs where z: "z = c # cs" "\<not> is_space c" using assms by (cases z) (auto simp: plain_start_def)
  have "takeWhile is_space (u @ z) = takeWhile is_space u" "dropWhile is_space (u @ z) = dropWhile is_space u @ z"
    using z by (induction u) auto
  then show ?thesis using z by (simp add: line_rest_def Let_def)
qed

lemma startswith_line:
  assumes "CHR 0x0A \<in> set u" "CHR 0x0A \<notin> set key"
  shows "startswith (u @ z) key = startswith u key" "startswith u key \<Longrightarrow> drop (length key) (u @ z) = drop (length key) u @ z"
proof -
  have "startswith u key" if sw: "startswith (u @ z) key"
  proof (cases "length key \<le> length u")
    case True
    with sw show ?thesis by (simp add: startswith_def)
  next
    case False
    with sw have "set u \<subseteq> set key" unfolding startswith_def by (metis linorder_le_cases set_append set_take_subset sup_ge1 take_all_iff take_append dual_order.trans Un_upper1)
    with assms show ?thesis by auto
  qed
  then show "startswith (u @ z) key = startswith u key" by (auto simp: startswith_iff)
  show "startswith u key \<Longrightarrow> drop (length key) (u @ z) = drop (length key) u @ z" by (auto simp: startswith_iff)
qed

text \<open>What is read before the white space at the end, and what follows it.\<close>

definition read_value :: "string \<Rightarrow> string \<Rightarrow> (triple \<times> string) option" where
  "read_value key s =
     (if \<not> startswith s key then None
      else Option.bind (read_char (CHR ''='') (skip_spaces (drop (length key) s))) (\<lambda>s.
           Option.bind (read_char quote_mark (skip_spaces s)) (\<lambda>s.
           Option.bind (read_digits s) (\<lambda>x. Option.bind (read_char (CHR ''.'') (snd x)) (\<lambda>s.
           Option.bind (read_digits s) (\<lambda>y. Option.bind (read_char (CHR ''.'') (snd y)) (\<lambda>s.
           Option.bind (read_digits s) (\<lambda>z. Option.bind (read_char quote_mark (snd z)) (\<lambda>s. Some ((fst x, fst y, fst z), s))))))))))"

lemma bind_map: "Option.bind (map_option g p) f = Option.bind p (\<lambda>x. f (g x))"
  by (cases p) simp_all

lemma read_assignment_value:
  "read_assignment key s = Option.bind (read_value key s) (\<lambda>x. map_option (\<lambda>rest. (fst x, rest)) (line_rest (snd x)))"
proof -
  have m: "Option.bind p (\<lambda>rest. Some (f rest)) = map_option f p" for p :: "string option" and f :: "string \<Rightarrow> triple \<times> string"
    by (cases p) simp_all
  show ?thesis by (simp add: read_assignment_def read_value_def case_prod_unfold Option.bind_assoc m bind_map)
qed

lemma read_value_append:
  assumes "plain_start z" "CHR 0x0A \<in> set u" "CHR 0x0A \<notin> set key"
  shows "read_value key (u @ z) = map_option (\<lambda>x. (fst x, snd x @ z)) (read_value key u)"
proof (cases "startswith u key")
  case True
  have chars: "read_char (CHR ''='') (v @ z) = map_option (\<lambda>s. s @ z) (read_char (CHR ''='') v)"
    "read_char (CHR ''.'') (v @ z) = map_option (\<lambda>s. s @ z) (read_char (CHR ''.'') v)"
    "read_char quote_mark (v @ z) = map_option (\<lambda>s. s @ z) (read_char quote_mark v)" for v
    by (rule read_char_append [OF assms(1)]; simp)+
  have digits: "read_digits (v @ z) = map_option (\<lambda>x. (fst x, snd x @ z)) (read_digits v)" for v
    by (simp add: read_digits_append [OF assms(1)] case_prod_unfold)
  have push: "map_option g (Option.bind p f) = Option.bind p (\<lambda>x. map_option g (f x))" for g f and p :: "'x option"
    by (cases p) simp_all
  have start: "startswith (u @ z) key" "drop (length key) (u @ z) = drop (length key) u @ z"
    using startswith_line [OF assms(2,3), of z] True by blast+
  show ?thesis
    unfolding read_value_def start(2) by (simp add: start(1) True skip_spaces_append [OF assms(1)] chars digits bind_map push del: drop_append)
next
  case False
  then have "\<not> startswith (u @ z) key" using startswith_line [OF assms(2,3), of z] by blast
  with False show ?thesis by (simp add: read_value_def)
qed

lemma read_assignment_append:
  assumes "plain_start y" "plain_start z" "CHR 0x0A \<in> set u" "CHR 0x0A \<notin> set key"
  shows "read_assignment key (u @ y) = None \<longleftrightarrow> read_assignment key (u @ z) = None"
  by (cases "read_value key u")
    (simp_all add: read_assignment_value read_value_append [OF assms(1,3,4)] read_value_append [OF assms(2,3,4)]
      line_rest_append [OF assms(1)] line_rest_append [OF assms(2)])

subsection \<open>What is written is found again\<close>

lemma find_assignment_line:
  "find_assignment key at_start content = Some (before, v, rest) \<Longrightarrow> (before = [] \<and> at_start) \<or> CHR 0x0A \<in> set before"
proof (induction key at_start content arbitrary: before rule: find_assignment.induct)
  case (2 key at_start c cs)
  then show ?case by (auto split: option.splits if_splits)
qed simp

lemma find_assignment_read:
  "find_assignment key at_start content = Some (before, v, rest) \<Longrightarrow>
     \<exists>s. content = before @ s \<and> read_assignment key s = Some (v, rest)"
proof (induction key at_start content arbitrary: before rule: find_assignment.induct)
  case (2 key at_start c cs)
  then show ?case by (fastforce split: option.splits if_splits)
qed simp

lemma read_assignment_plain: "read_assignment key s = Some x \<Longrightarrow> plain_start key \<Longrightarrow> plain_start s"
  by (cases key) (auto simp: read_assignment_def startswith_iff plain_start_def split: if_splits)

text \<open>The text that replaces the first match is itself the first match.\<close>

lemma find_assignment_replaced:
  assumes "find_assignment key at_start content = Some (before, v, rest)"
    and z: "read_assignment key z = Some (v1, rest1)" and key: "plain_start key" "CHR 0x0A \<notin> set key"
  shows "find_assignment key at_start (before @ z) = Some (before, v1, rest1)"
  using assms
proof (induction key at_start content arbitrary: before rule: find_assignment.induct)
  case (2 key at_start c cs)
  have plain: "plain_start z" using read_assignment_plain [OF 2(3,4)] .
  then obtain d ds where z_Cons: "z = d # ds" by (cases z) (auto simp: plain_start_def)
  show ?case
  proof (cases "if at_start then read_assignment key (c # cs) else None")
    case (Some x)
    with 2(2) have "before = []" at_start by (auto split: prod.splits if_splits)
    with 2(3) show ?thesis by (simp add: z_Cons)
  next
    case None
    with 2(2) obtain b1 where b1: "before = c # b1" "find_assignment key (c = CHR 0x0A) cs = Some (b1, v, rest)"
      by (auto split: if_splits)
    obtain s where s: "cs = b1 @ s" "read_assignment key s = Some (v, rest)" using find_assignment_read [OF b1(2)] by blast
    have "CHR 0x0A \<in> set (c # b1)" using find_assignment_line [OF b1(2)] by auto
    from read_assignment_append [OF read_assignment_plain [OF s(2) 2(4)] plain this 2(5)]
    have "read_assignment key (c # b1 @ s) = None \<longleftrightarrow> read_assignment key (c # b1 @ z) = None" by simp
    with None have "(if at_start then read_assignment key (c # b1 @ z) else None) = None" by (simp add: s(1) split: if_splits)
    moreover have "find_assignment key (c = CHR 0x0A) (b1 @ z) = Some (b1, v1, rest1)"
      using 2(1) [OF None b1(2) 2(3-5)] .
    ultimately show ?thesis by (simp add: b1(1))
  qed
qed simp

text \<open>The line that is written reads as the version in it, before the same rest.\<close>

lemma line_rest_idem:
  assumes "line_rest s = Some r"
  shows "line_rest r = Some r"
proof (cases "dropWhile is_space s = []")
  case True
  with assms show ?thesis by (auto simp: line_rest_def)
next
  case False
  then obtain c cs where after: "dropWhile is_space s = c # cs" "\<not> is_space c"
    by (metis hd_dropWhile list.collapse)
  let ?run = "takeWhile is_space s"
  let ?tail = "rev (takeWhile (\<lambda>c. c \<noteq> CHR 0x0A) (rev ?run))"
  have r: "r = CHR 0x0A # ?tail @ c # cs" using assms after by (auto simp: line_rest_def Let_def split: if_splits)
  have "\<forall>d \<in> set ?tail. is_space d \<and> d \<noteq> CHR 0x0A" by (auto dest!: set_takeWhileD simp only: set_rev)
  then have "takeWhile is_space r = CHR 0x0A # ?tail" "dropWhile is_space r = c # cs" "\<forall>d \<in> set ?tail. d \<noteq> CHR 0x0A"
    using after(2) by (auto simp: r newline_is_space takeWhile_append dropWhile_append)
  moreover from this have "takeWhile (\<lambda>c. c \<noteq> CHR 0x0A) (rev ?tail @ [CHR 0x0A]) = rev ?tail"
    by (subst takeWhile_append2) auto
  ultimately show ?thesis by (simp add: line_rest_def Let_def r)
qed

lemma read_digits_nat_str: "\<not> is_digit c \<Longrightarrow> read_digits (nat_str n @ c # rest) = Some (n, c # rest)"
proof -
  assume "\<not> is_digit c"
  then have "takeWhile is_digit (nat_str n @ c # rest) = nat_str n" "dropWhile is_digit (nat_str n @ c # rest) = c # rest"
    by (simp_all add: takeWhile_append2 dropWhile_append2 nat_str_is_digits)
  then show ?thesis using nat_str_value [of n] by (simp add: read_digits_def digits_value_def Let_def)
qed

lemma read_assignment_written:
  assumes "line_rest rest = Some rest"
  shows "read_assignment key (assignment_text key v @ rest) = Some (v, rest)"
proof -
  have marks: "\<not> is_digit (CHR ''.'')" "\<not> is_digit quote_mark" "is_space (CHR '' '')" "\<not> is_space (CHR ''='')" "\<not> is_space quote_mark"
    by code_simp+
  show ?thesis
    by (cases v) (simp add: read_assignment_def assignment_text_def triple_text_def skip_spaces_def read_char_def marks read_digits_nat_str assms startswith_append)
qed

lemma read_assignment_rest: "read_assignment key s = Some (v, rest) \<Longrightarrow> line_rest rest = Some rest"
  by (auto simp: read_assignment_value bind_eq_Some_conv dest: line_rest_idem)

lemma find_assignment_rest: "find_assignment key b s = Some (before, v, rest) \<Longrightarrow> line_rest rest = Some rest"
  using find_assignment_read read_assignment_rest by blast

lemma write_assignment_found:
  assumes "find_assignment key True content = Some (before, old, rest)" "plain_start key" "CHR 0x0A \<notin> set key"
  shows "find_assignment key True (write_assignment key v content) = Some (before, v, rest)"
  using find_assignment_replaced [OF assms(1) read_assignment_written [OF find_assignment_rest [OF assms(1)]] assms(2,3)]
  by (simp add: write_assignment_def assms(1))

lemma version_keys:
  "plain_start project_key" "CHR 0x0A \<notin> set project_key" "plain_start init_key" "CHR 0x0A \<notin> set init_key"
  by code_simp+

text \<open>a bump that returns 0 leaves both files naming the same next version: \<open>pyproject.toml\<close> reads as the successor of the version
it had, with the text before and after the assignment as it was, and so does \<open>__init__.py\<close> when it has an assignment to write over.
\<close>

lemma bumped_files_agree:
  assumes "bump_main f = (f', 0)"
  shows "\<exists>content before old rest.
    vf_pyproject f = Some content \<and> find_assignment project_key True content = Some (before, old, rest) \<and>
    map_option (find_assignment project_key True) (vf_pyproject f') = Some (Some (before, bump old, rest)) \<and>
    (\<forall>init b v r. vf_init f = Some init \<and> find_assignment init_key True init = Some (b, v, r) \<longrightarrow>
       map_option (find_assignment init_key True) (vf_init f') = Some (Some (b, bump old, r)))"
proof -
  obtain content where content: "vf_pyproject f = Some content" using assms by (auto simp: bump_main_def split: option.splits)
  obtain before old rest where found: "find_assignment project_key True content = Some (before, old, rest)"
    using assms content by (auto simp: bump_main_def split: option.splits)
  have "f' = f\<lparr>vf_pyproject := Some (write_assignment project_key (bump old) content),
      vf_init := map_option (write_assignment init_key (bump old)) (vf_init f)\<rparr>"
    using assms by (simp add: bump_main_def content found)
  then have "map_option (find_assignment project_key True) (vf_pyproject f') = Some (Some (before, bump old, rest))"
    "\<forall>init b v r. vf_init f = Some init \<and> find_assignment init_key True init = Some (b, v, r) \<longrightarrow>
       map_option (find_assignment init_key True) (vf_init f') = Some (Some (b, bump old, r))"
    by (simp_all add: write_assignment_found [OF found version_keys(1,2)] write_assignment_found [OF _ version_keys(3,4)])
  with content found show ?thesis by blast
qed

definition sample_files :: version_files where
  "sample_files = \<lparr>vf_pyproject = Some (''name = 1'' @ [CHR 0x0A] @ assignment_text project_key (0, 9, 9) @ [CHR 0x0A]),
     vf_init = Some (assignment_text init_key (0, 9, 9))\<rparr>"

lemma bumped_files_agree_witness:
  "map_option (find_assignment init_key True) (vf_init (fst (bump_main sample_files))) = Some (Some ([], (1, 0, 0), []))"
proof -
  have ends: "bump_main sample_files = (fst (bump_main sample_files), 0)" by code_simp
  obtain content before old rest where read:
    "vf_pyproject sample_files = Some content" "find_assignment project_key True content = Some (before, old, rest)"
    and init: "\<And>init b v r. vf_init sample_files = Some init \<Longrightarrow> find_assignment init_key True init = Some (b, v, r) \<Longrightarrow>
       map_option (find_assignment init_key True) (vf_init (fst (bump_main sample_files))) = Some (Some (b, bump old, r))"
    using bumped_files_agree [OF ends] by blast
  have "Option.bind (vf_pyproject sample_files) (\<lambda>c. map_option (\<lambda>x. fst (snd x)) (find_assignment project_key True c)) = Some (0, 9, 9)" by code_simp
  then have old: "old = (0, 9, 9)" by (simp add: read)
  have "vf_init sample_files = Some (assignment_text init_key (0, 9, 9))" by (simp add: sample_files_def)
  moreover have "find_assignment init_key True (assignment_text init_key (0, 9, 9)) = Some ([], (0, 9, 9), [])" by code_simp
  moreover have "bump (0, 9, 9) = (1, 0, 0)" by code_simp
  ultimately show ?thesis using init old by metis
qed

subsection \<open>The shared rule counts up by one\<close>

definition decimal_value :: "int list \<Rightarrow> int" where
  "decimal_value parts = foldl (\<lambda>n part. 10 * n + part) 0 parts"

text \<open>All parts but the first are decimal digits.\<close>

definition odometer :: "int list \<Rightarrow> bool" where
  "odometer parts \<longleftrightarrow> (length parts = 3 \<or> length parts = 4) \<and> 0 \<le> hd parts \<and> list_all (\<lambda>p. 0 \<le> p \<and> p \<le> 9) (tl parts)"

lemma odometer_cases:
  assumes "odometer parts"
  obtains (three) a b c where "parts = [a, b, c]" "0 \<le> a" "0 \<le> b" "b \<le> 9" "0 \<le> c" "c \<le> 9"
  | (four) a b c d where "parts = [a, b, c, d]" "0 \<le> a" "0 \<le> b" "b \<le> 9" "0 \<le> c" "c \<le> 9" "0 \<le> d" "d \<le> 9"
  using assms by (auto simp: odometer_def length_Suc_conv numeral_3_eq_3 numeral_Bit0)

text \<open>
On a version of three or four parts whose parts after the first are digits, the shared rule is counting: the new version, read as one
decimal number, is the old one plus one (with the fourth digit appended when it crosses the version from which there are four), and its
parts after the first are digits again, so that the version stays one the rule can go on from.
\<close>

lemma next_parts_counts:
  assumes "odometer parts"
  obtains new where "next_parts parts = Ok new" "odometer new" "length parts \<le> length new"
    "decimal_value new = (if length parts < length new then 10 * (decimal_value parts + 1) else decimal_value parts + 1)"
  using assms
proof (cases rule: odometer_cases)
  case (three a b c)
  define new3 where "new3 = (if c < 9 then (a, b, c + 1) else if b < 9 then (a, b + 1, 0) else (a + 1, 0, 0))"
  define new where "new = (case new3 of (x, y, z) \<Rightarrow> if triple_le four_part_from new3 then [x, y, z, 0] else [x, y, z])"
  have "next_parts parts = Ok new" using three by (simp add: next_parts_def carry_def new_def new3_def)
  then show ?thesis by (rule that) (use three in \<open>auto simp: new_def new3_def odometer_def decimal_value_def\<close>)
next
  case (four a b c d)
  define new where "new = (if d < 9 then [a, b, c, d + 1] else if c < 9 then [a, b, c + 1, 0] else if b < 9 then [a, b + 1, 0, 0] else [a + 1, 0, 0, 0])"
  have "next_parts parts = Ok new" using four by (simp add: next_parts_def carry_def new_def)
  then show ?thesis by (rule that) (use four in \<open>auto simp: new_def odometer_def decimal_value_def\<close>)
qed

lemma next_parts_counts_witness: "next_parts [0, 7, 9, 9] = Ok [0, 8, 0, 0]"
proof (rule next_parts_counts [of "[0, 7, 9, 9]"])
  show "odometer [0, 7, 9, 9]" by code_simp
qed (simp add: next_parts_def carry_def)

text \<open>The two rules agree as long as the parts are digits and there are three of them, and not past that.\<close>

lemma bump_is_the_shared_rule:
  assumes "minor \<le> 9" "patch \<le> 9"
  shows "\<exists>new tail. next_parts [int major, int minor, int patch] = Ok (new @ tail) \<and>
    (case bump (major, minor, patch) of (a, b, c) \<Rightarrow> new = [int a, int b, int c])"
  using assms by (auto simp: next_parts_def carry_def bump_def Let_def)

lemma bump_differs_past_ten: "bump (1, 2, 15) = (1, 3, 0)" "next_parts [1, 2, 15] = Ok [1, 2, 16, 0]"
  by code_simp+

text \<open>The white space the expression takes with the line goes with it: the line end at the end of the file, and the blank lines after the assignment.\<close>

lemma bump_drops_the_final_newline:
  "write_assignment init_key (0, 0, 2) (assignment_text init_key (0, 0, 1) @ [CHR 0x0A]) = assignment_text init_key (0, 0, 2)"
  by code_simp

lemma bump_drops_blank_lines:
  "write_assignment init_key (0, 0, 2) (assignment_text init_key (0, 0, 1) @ [CHR 0x0A, CHR 0x0A, CHR ''x'']) = assignment_text init_key (0, 0, 2) @ [CHR 0x0A, CHR ''x'']"
  by code_simp

end
