(* ===== verification/Spec2Isabelle.thy ===== *)
theory Spec2Isabelle
  imports Repair_Proofs Incident_Session Backup_Properties Worker_Termination Inspector_Proofs Plugins_Proofs Plugin_Threads Api_Proofs
    Station_Guarantees Ai_Provider_Proofs Scenario_Ingest_Proofs Commands_Proofs Bench_Properties Bench_Services_Proofs Versions_Proofs
begin

text \<open>
  HYDRA-UMC-DEV-SERVER: a verification library of the development server.

  The program (Python, the package \<open>src/src/hydra_umc_dev_server\<close>) runs bounded development tasks on a host for other nodes.  A node or
  a person asks for a task with a recipe (a repository, a pinned revision, a command and its arguments); the server checks the recipe
  against the policy of the host, keeps it in a durable queue, stages the repository into a private workspace, runs the command in a
  sandbox under a time limit and records the outcome.  Around that core it exchanges signed incidents with other nodes, drives the
  repair of an incident through its gates, keeps public keys, makes backups of its own state, answers a small HTTP API, prepares remote
  stations, and has a bench that exercises four other services of the family.  All of it is used through one command line.

  This theory imports the whole development and holds no definition of its own.  Every definition that models code carries the
  name it has there (with a suffix or a prefix where the name is taken in HOL, or too general for a whole library), and the branches are in the order of the code.

  \<^bold>\<open>Conventions.\<close>
  \<^item> A text is a list of characters with code points below 256, bytes are the same; the tests of white space, digits and letters are those
    of Python on that range (theory Prelude).
  \<^item> An exception is a value: \<open>'a result\<close> is \<open>Ok\<close> or \<open>Err\<close> of the exception with its class and its message; a configuration error
    holds the list of all problems, since the readers go on after the first one (theory Results).  A message is the template of the source and
    the values in it.
  \<^item> A JSON document is the type \<open>json\<close> (theory Json); an object is the list of its pairs in the order of the dictionary, without
    repetition (\<open>dict_ok\<close>).  Floats are rationals with the two infinities and NaN: rounding is modelled where the code prints a float, arithmetic on
    clocks is exact.
  \<^item> State is passed explicitly.  What lies outside (the operating system, git, the network, SQLite's file, threads, clocks, random
    tokens) is a state \<open>'w\<close> with operations that are arguments, so that a theorem holds for all of them; where the code needs more of them, the need is a
    locale or a named assumption.
  \<^item> Two calls may not return, and are \<open>partial_function (option)\<close>: the polling loop of a run (\<open>poll_loop\<close>) and the loop of
    the worker (\<open>work_turns\<close>).  Both are proved to return (Runner_Proofs, Worker_Termination).  Every other loop is a recursion that is proved to
    end; where it waits for a clock (\<open>wait_until\<close>) the measure is the time that is left.  No definition has fuel: a counter is one of the code's
    own (a hundred readings of the twin's log), or a bound of the data (the decimal exponents of a double, when it is printed).

  \<^bold>\<open>Foundations.\<close>
  \<^item> Prelude: the string operations, \<open>dict\<close>s, the lemmas they share.  Json and Results: documents, exceptions, the composition of fallible
    steps.  Number_Text: decimal texts of numbers.
  \<^item> Regex: the regular expressions of the code as terms with an executable matcher and the declarative meaning it has, \<open>fullmatch\<close> and \<open>match\<close> with
    the \<open>$\<close> that also stops before a last line end.
  \<^item> Sha2 and Base64: SHA-256, SHA-512 and HMAC over 32 and 64 bit words, and the URL-safe base 64 of the library with its
    lenient decoder.  Paths (\<open>posixpath\<close>), Glob (\<open>fnmatch\<close>), Iso_Time (\<open>datetime.fromisoformat\<close>), Ip_Address (\<open>ipaddress\<close>) and Url
    (\<open>urlsplit\<close>) model what the code uses of the standard library of CPython 3.11.

  \<^bold>\<open>Tasks.\<close>
  \<^item> Config (\<open>config.py\<close>): the readers of the three documents.  Read policies are well-formed and survive the round trip, and a
    deployment is allowed only by a literal \<open>true\<close>.
  \<^item> Identifiers (\<open>identifiers.py\<close>), Workspace (\<open>workspace.py\<close>): no relative path resolves out of a workspace, two workspaces are disjoint,
    an allocation is never given out twice (the locale \<open>workspace_fs\<close>, interpreted on the system file system).
  \<^item> Recipe (\<open>recipe.py\<close>): reading and writing of recipes, and the exact set of commands that a policy lets through.
  \<^item> Durable_Queue (\<open>durable_queue.py\<close>): the two tables as lists of rows, one function per method, each method one transaction.
    Queue_Proofs and Queue_Properties: the invariant of the tables in every reachable state, and the abstract life of a task that every
    method refines.  Queue_Guarantees: no task succeeds but through the holder of its live lease with exit code 0 on its unchanged base; final
    states are final, one result per lease, oldest first, late results refused, expired leases settled, the bounds of the journal.
  \<^item> Runner (\<open>runner.py\<close>), Runner_Proofs, Run_Keeps: a run with its polling loop, its outcomes and the process group.  A run returns on every host
    whose clock moves (the locale \<open>moving_clock\<close>, interpreted on the host of \<open>subprocess\<close> processes) and leaves no process of its group behind.
  \<^item> Sandbox (\<open>sandbox.py\<close>): the command lines of \<open>bwrap\<close> and \<open>systemd-run\<close>, read back as what was asked for, and the launcher that
    starts nothing outside of them.  Taskflow (\<open>taskflow.py\<close>): staging at a revision, and the lock files of the concurrency gate, one process at a time
    within the limit (and the two races that leave it).
  \<^item> Worker (\<open>worker.py\<close>), Worker_Proofs, Worker_Termination: one pass and the loop.  A worker touches the queue through its methods only,
    reports what the queue holds, and the loop that stops when idle ends (the locale \<open>worker_host\<close>, whose sublocale gives the renewing host the
    moving clock of the host below it, interpreted on the POSIX worker).

  \<^bold>\<open>Trust and repair.\<close>
  \<^item> Signing (\<open>signing.py\<close>): Ed25519 as the code computes it; its extended coordinates against the addition law of the curve, strict
    encodings, kinds of signatures that never mix.  Trust_Store (\<open>trust_store.py\<close>): only public keys, attribution, revocation for good.
  \<^item> Incident_Transport (\<open>incident_transport.py\<close>): messages, policy and the two stores of a verifier, which meet one contract (the locale
    \<open>verifier_store\<close>, interpreted on the memory and on the SQLite store in Incident_Stores) and answer alike (the locale \<open>two_stores\<close> in
    Incident_Guarantees): accepted exactly if every check passes, and never twice within the window.  Incident_Session: the session only moves forward
    and a deployment is confirmed only by the peer.
  \<^item> Repair_Cycle (\<open>repair_cycle.py\<close>), Repair_Proofs: each step refines the abstract machine of the gates; verified only through all of them,
    a failed verification rolls back, a blocked cycle stays so.
  \<^item> Backup (\<open>operations.py\<close>), Backup_Proofs, Backup_Properties: the contract of \<open>BackupFs\<close> (the locale \<open>backup_store\<close>, interpreted on
    the model of the real file system); a restore writes only over what a good backup names, and a backup that is restored gives the state back.

  \<^bold>\<open>Other nodes and stations.\<close>
  \<^item> Migration (\<open>migration.py\<close>), Migration_Proofs, Inspector, Inspector_Proofs: private, public and other files stay apart, none is lost; git's
    status output read back.  Inventory (\<open>inventory.py\<close>): the projects of a workspace.
  \<^item> Plugins (\<open>plugins.py\<close>), Plugins_Proofs: only the approved bytes run, and what comes back is checked.  Plugin_Threads: what a \<open>register\<close> can leave,
    the program of the isolated process, and the bound on the threads that were given up.
  \<^item> Server_Identity (\<open>server_identity.py\<close>), Node_Channel (\<open>node_channel.py\<close>) and their proofs: nothing is open once there is a key; a revoked node stays out;
    the inbox holds verified messages only.  Api (\<open>api.py\<close>, \<open>health_route.py\<close>), Api_Proofs: nothing changes without a credential.
  \<^item> Remote_Station (\<open>remote_station.py\<close>), Preflight (\<open>preflight.py\<close>), Provision (\<open>provision.py\<close>), Station_Proofs, Station_Guarantees: the document of a
    station, what the host must have, the plan and its systemd unit.
  \<^item> Ai_Provider (\<open>ai_provider.py\<close>), Scenario_Ingest (\<open>scenario_ingest.py\<close>) and their proofs: a suggestion grants nothing and stays in its
    budget; a credential goes only where the settings allow.

  \<^bold>\<open>The outside.\<close>
  \<^item> Delivery (\<open>delivery.py\<close>): what the repository ships.  Commands and Commands_State (\<open>cli.py\<close>): every command, with what it reads, prints, changes and
    returns.  Commands_Proofs: a task touches the host only behind every check, and the file of the trust store never loses a key.
  \<^item> Bench, Bench_Scenarios (\<open>bench.py\<close>): the client, the stand-in services, the scenarios.  Bench_Proofs has a small logic of steps over the
    exchanges with arbitrary services, Bench_Standins computes the run against the stand-ins, Bench_Properties has what follows.  Bench_Services starts,
    awaits and stops the real services; Bench_Services_Proofs: a session that returns leaves none of them, and all of them listen on this machine only.
  \<^item> Versions, Versions_Proofs (\<open>bump_version.py\<close>, \<open>bump_manifest_version.py\<close>): the next version, and the two files that name it.

  \<^bold>\<open>Where the code is not what it says.\<close>  The lemmas named \<open>..._accepted\<close>, \<open>..._raises\<close>, \<open>..._escapes\<close> and the like compute an input on which the
  code leaves its own description: for example the two races of the gate (Taskflow), the message from the future that is accepted twice
  (Incident_Guarantees), the zone of an address that adds a line to a unit (Station_Guarantees), the histogram that the bench refuses
  (Bench_Properties).

  \<^bold>\<open>Not modelled, and why.\<close>
  \<^item> Input and output as such: opening, reading and writing of files where the code does only that, sockets, the HTTP framing of the
    library, SQLite's file, printing.  They are operations or arguments.
  \<^item> Libraries: \<open>argparse\<close> and the wiring of the subcommands of \<open>cli.py\<close>, the parser of JSON, git, \<open>bwrap\<close>, the package \<open>cryptography\<close>.
  \<^item> The branches for Windows (\<open>taskkill\<close>, \<open>icacls\<close>): the model is the one of a POSIX host.
  \<^item> Threads: the readers of a run's output, the HTTP server and the renewal of a lease are interleaved at the points where the code can see it;
    preemption inside one call is not modelled, except for the two processes at the gate.
  \<^item> The start, the limits, the environment and the end of the isolated process of a plugin: it is an argument, as is what a plugin's own code does.
  \<^item> The scripts under \<open>src/tools\<close>: drawings, checks of the documents and coloured test output.  Most are copies kept in step with another
    repository, and none is part of the server.  Of \<open>bump_manifest_version.py\<close>, such a copy too, only the arithmetic that \<open>bump_version.py\<close> refers to.
\<close>

end
